(* ===== verification/Prelude.thy ===== *)
theory Prelude
  imports Complex_Main "HOL-Library.Word" "HOL-Library.Sublist"
begin

text \<open>
  Shared vocabulary of the development: the types that stand for Python's built-in data, the
  bounded deque of \<^verbatim>\<open>collections.deque(maxlen=n)\<close>, the fact collections that the component
  theories fill, and generic lemmas on lists and options.

  Numbers. Python integers are \<^typ>\<open>int\<close> (or \<^typ>\<open>nat\<close> for counters that only grow from zero),
  bytes are \<open>8 word\<close>. Floating point numbers are rationals (\<open>pyfloat\<close>): sums, products and
  comparisons are exact, rounding is not modelled. A clock is an explicit argument of the
  operations that read it.
\<close>

named_theorems inv_pres \<open>an operation preserves an invariant\<close>
named_theorems frame \<open>an operation leaves a field unchanged\<close>

type_synonym pyfloat = rat
type_synonym bytes = "8 word list"

section \<open>Bounded deques\<close>

text \<open>\<^verbatim>\<open>deque(maxlen=n).append(x)\<close>: the oldest elements fall off the left end.\<close>

definition deque_append :: "nat \<Rightarrow> 'a list \<Rightarrow> 'a \<Rightarrow> 'a list" where
  "deque_append n xs x = (let ys = xs @ [x] in drop (length ys - n) ys)"

lemma length_deque_append_le: "length (deque_append n xs x) \<le> n"
  by (simp add: deque_append_def Let_def)

lemma deque_append_room: "length xs < n \<Longrightarrow> deque_append n xs x = xs @ [x]"
  by (simp add: deque_append_def Let_def)

lemma deque_append_full: "length xs = n \<Longrightarrow> 0 < n \<Longrightarrow> deque_append n xs x = tl xs @ [x]"
  by (cases xs) (auto simp: deque_append_def Let_def)

lemma length_deque_append:
  "length (deque_append n xs x) = min n (Suc (length xs))"
  by (simp add: deque_append_def Let_def)

lemma deque_append_ne [simp]: "0 < n \<Longrightarrow> deque_append n xs x \<noteq> []"
  by (simp add: deque_append_def Let_def)

lemma last_deque_append [simp]: "0 < n \<Longrightarrow> last (deque_append n xs x) = x"
  by (simp add: deque_append_def Let_def)

lemma set_deque_append: "set (deque_append n xs x) \<subseteq> insert x (set xs)"
  by (auto simp: deque_append_def Let_def dest: in_set_dropD)

lemma subseq_deque_append: "subseq (deque_append n xs x) (xs @ [x])"
  unfolding deque_append_def Let_def by (rule suffix_imp_subseq) (rule suffix_drop)

lemma map_deque_append: "map g (deque_append n xs x) = deque_append n (map g xs) (g x)"
  using drop_map [of "Suc (length xs) - n" g "xs @ [x]"]
  by (simp only: deque_append_def Let_def) (simp del: drop_append)

text \<open>Appending a whole sequence keeps its last \<open>n\<close> elements.\<close>

lemma foldl_deque_append:
  "length xs \<le> n \<Longrightarrow> 0 < n \<Longrightarrow>
   foldl (deque_append n) xs ys = drop (length xs + length ys - n) (xs @ ys)"
proof (induction ys arbitrary: xs)
  case Nil
  then show ?case by simp
next
  case (Cons y ys)
  have le: "length (deque_append n xs y) \<le> n" by (rule length_deque_append_le)
  show ?case
  proof (cases "length xs < n")
    case True
    with Cons.IH [OF le] Cons.prems show ?thesis by (simp add: deque_append_room)
  next
    case False
    with Cons.prems have full: "length xs = n" by simp
    obtain x xs' where xs: "xs = x # xs'" using full Cons.prems by (cases xs) auto
    have "drop (length ys - length xs') [y] @ drop (length ys - Suc (length xs')) ys
      = drop (length ys - length xs') (y # ys)"
    proof (cases "length ys - length xs'")
      case (Suc k)
      then have "length ys - Suc (length xs') = k" by simp
      with Suc show ?thesis by simp
    qed simp
    with Cons.IH [OF le] Cons.prems full show ?thesis
      by (auto simp: deque_append_full xs)
  qed
qed

section \<open>Generic lemmas\<close>

lemma length_filter_append_one:
  "length (filter P (xs @ [x])) = length (filter P xs) + (if P x then 1 else 0)"
  by simp

lemma takeWhile_all: "\<forall>x\<in>set xs. P x \<Longrightarrow> takeWhile P xs = xs"
  by (induction xs) auto

lemma drop_eq_tl: "xs \<noteq> [] \<Longrightarrow> drop 1 xs = tl xs"
  by (cases xs) auto

section \<open>Exceptions\<close>

text \<open>The built-in exceptions the modelled code raises itself or relies on.\<close>

datatype py_exn =
    ValueError
  | KeyError
  | AttributeError
  | QueueFull
  | QueueEmpty
  | ZeroDivisionError
  | StructError
  | RuntimeError string
  | OtherError string

text \<open>The result of a call that may raise: an exception, or a value.\<close>

type_synonym ('e, 'a) outcome = "'e + 'a"

definition bind_sum :: "'e + 'a \<Rightarrow> ('a \<Rightarrow> 'e + 'b) \<Rightarrow> 'e + 'b" where
  "bind_sum r f = (case r of Inl e \<Rightarrow> Inl e | Inr x \<Rightarrow> f x)"

lemma bind_sum_simps [simp]:
  "bind_sum (Inl e) f = Inl e"
  "bind_sum (Inr x) f = f x"
  by (simp_all add: bind_sum_def)

lemma bind_sum_Inr_iff:
  "bind_sum r f = Inr y \<longleftrightarrow> (\<exists>x. r = Inr x \<and> f x = Inr y)"
  by (cases r) auto

lemma bind_sum_Inr_right [simp]: "bind_sum r Inr = r"
  by (cases r) simp_all

section \<open>Coroutines\<close>

text \<open>
  The outcome of one \<^verbatim>\<open>await\<close>, which the environment decides: the awaited call returns, it raises,
  or the task is cancelled there. A body of code that awaits ends normally, with an exception, with a
  cancellation, or never (\<open>BodyStuck\<close>); \<open>seq_body\<close> goes on only after a normal end.
\<close>

datatype await = Returns | Raises | Cancelled

datatype body_end = BodyOk | BodyRaises | BodyCancelled | BodyStuck

definition await_end :: "await \<Rightarrow> body_end" where
  "await_end a = (case a of Returns \<Rightarrow> BodyOk | Raises \<Rightarrow> BodyRaises | Cancelled \<Rightarrow> BodyCancelled)"

definition seq_body :: "body_end \<times> 'r \<Rightarrow> ('r \<Rightarrow> body_end \<times> 'r) \<Rightarrow> body_end \<times> 'r" where
  "seq_body p f = (case p of (BodyOk, r) \<Rightarrow> f r | (b, r) \<Rightarrow> (b, r))"

lemma await_end_simps [simp]:
  "await_end a = BodyOk \<longleftrightarrow> a = Returns" "await_end a \<noteq> BodyStuck"
  by (cases a; simp add: await_end_def)+

lemma seq_body_Ok [simp]: "seq_body (BodyOk, r) f = f r"
  by (simp add: seq_body_def)

lemma seq_body_stop: "b \<noteq> BodyOk \<Longrightarrow> seq_body (b, r) f = (b, r)"
  by (cases b) (simp_all add: seq_body_def)

end
