(* ===== verification/TurnMetrics.thy ===== *)
theory TurnMetrics
  imports Prelude
begin

text \<open>
  \<^verbatim>\<open>app/voice/turn_metrics.py\<close>: the timestamps of one turn and the rolling latency window.
  The clock is the argument \<open>now\<close>. Python's \<^verbatim>\<open>round\<close> rounds a half to the even neighbour
  (\<open>py_round\<close>); \<open>py_round_to n\<close> is \<^verbatim>\<open>round(x, n)\<close> on exact decimals.
\<close>

section \<open>Rounding\<close>

definition py_round :: "rat \<Rightarrow> int" where
  "py_round x =
     (let f = \<lfloor>x\<rfloor>; d = x - of_int f
      in if d < 1 / 2 then f else if 1 / 2 < d then f + 1 else if even f then f else f + 1)"

definition py_round_to :: "nat \<Rightarrow> rat \<Rightarrow> rat" where
  "py_round_to n x = of_int (py_round (x * 10 ^ n)) / 10 ^ n"

lemma py_round_of_int [simp]: "py_round (of_int k) = k"
  by (simp add: py_round_def)

lemma py_round_near: "\<bar>of_int (py_round x) - x\<bar> \<le> 1 / 2"
proof -
  have "of_int \<lfloor>x\<rfloor> \<le> x" "x < of_int \<lfloor>x\<rfloor> + 1" by linarith+
  then show ?thesis by (auto simp: py_round_def Let_def)
qed

lemma py_round_mono: "x \<le> y \<Longrightarrow> py_round x \<le> py_round y"
proof -
  assume le: "x \<le> y"
  have f: "\<lfloor>x\<rfloor> \<le> \<lfloor>y\<rfloor>" using le by (rule floor_mono)
  show ?thesis
  proof (cases "\<lfloor>x\<rfloor> = \<lfloor>y\<rfloor>")
    case True
    then show ?thesis using le by (auto simp: py_round_def Let_def)
  next
    case False
    have "py_round x \<le> \<lfloor>x\<rfloor> + 1" "\<lfloor>y\<rfloor> \<le> py_round y" by (auto simp: py_round_def Let_def)
    then show ?thesis using f False by linarith
  qed
qed

lemma py_round_to_mono: "x \<le> y \<Longrightarrow> py_round_to n x \<le> py_round_to n y"
  unfolding py_round_to_def by (intro divide_right_mono) (simp_all add: py_round_mono mult_right_mono)

section \<open>One turn\<close>

record turn_timing =
  tt_utterance_id :: string
  transcript_final_at :: "pyfloat option"
  llm_first_token_at :: "pyfloat option"
  first_segment_at :: "pyfloat option"
  first_audio_at :: "pyfloat option"
  tt_interrupted :: bool

definition new_turn_timing :: "string \<Rightarrow> pyfloat \<Rightarrow> turn_timing" where
  "new_turn_timing uid now =
     \<lparr>tt_utterance_id = uid, transcript_final_at = Some now, llm_first_token_at = None,
      first_segment_at = None, first_audio_at = None, tt_interrupted = False\<rparr>"

definition mark_llm_first_token :: "pyfloat \<Rightarrow> turn_timing \<Rightarrow> turn_timing" where
  "mark_llm_first_token now t =
     (if llm_first_token_at t = None then t\<lparr>llm_first_token_at := Some now\<rparr> else t)"

definition mark_first_segment :: "pyfloat \<Rightarrow> turn_timing \<Rightarrow> turn_timing" where
  "mark_first_segment now t =
     (if first_segment_at t = None then t\<lparr>first_segment_at := Some now\<rparr> else t)"

definition mark_first_audio :: "pyfloat \<Rightarrow> turn_timing \<Rightarrow> turn_timing" where
  "mark_first_audio now t =
     (if first_audio_at t = None then t\<lparr>first_audio_at := Some now\<rparr> else t)"

definition ms_between :: "pyfloat option \<Rightarrow> pyfloat option \<Rightarrow> pyfloat option" where
  "ms_between s e =
     (case s of None \<Rightarrow> None
      | Some a \<Rightarrow> (case e of None \<Rightarrow> None | Some b \<Rightarrow> Some (py_round_to 1 ((b - a) * 1000))))"

record turn_payload =
  pl_utterance_id :: string
  final_to_token_ms :: "pyfloat option"
  final_to_segment_ms :: "pyfloat option"
  final_to_audio_ms :: "pyfloat option"
  token_to_audio_ms :: "pyfloat option"
  pl_interrupted :: bool

definition to_payload :: "turn_timing \<Rightarrow> turn_payload" where
  "to_payload t =
     \<lparr>pl_utterance_id = tt_utterance_id t,
      final_to_token_ms = ms_between (transcript_final_at t) (llm_first_token_at t),
      final_to_segment_ms = ms_between (transcript_final_at t) (first_segment_at t),
      final_to_audio_ms = ms_between (transcript_final_at t) (first_audio_at t),
      token_to_audio_ms = ms_between (llm_first_token_at t) (first_audio_at t),
      pl_interrupted = tt_interrupted t\<rparr>"

section \<open>The rolling window\<close>

definition percentile :: "rat list \<Rightarrow> rat \<Rightarrow> rat" where
  "percentile vs q =
     (if vs = [] then 0
      else vs ! nat (min (int (length vs) - 1) (max 0 (py_round (q * of_int (int (length vs) - 1))))))"

record latency_stats =
  ls_max_samples :: nat
  ls_first_audio :: "rat list"
  ls_first_token :: "rat list"
  ls_barge_in_stop :: "rat list"
  ls_turns :: nat
  ls_interruptions :: nat

definition new_latency_stats :: "nat \<Rightarrow> latency_stats" where
  "new_latency_stats n =
     \<lparr>ls_max_samples = n, ls_first_audio = [], ls_first_token = [], ls_barge_in_stop = [],
      ls_turns = 0, ls_interruptions = 0\<rparr>"

definition note_opt :: "nat \<Rightarrow> rat list \<Rightarrow> rat option \<Rightarrow> rat list" where
  "note_opt n xs v = (case v of None \<Rightarrow> xs | Some x \<Rightarrow> deque_append n xs x)"

definition record_turn :: "turn_timing \<Rightarrow> latency_stats \<Rightarrow> latency_stats" where
  "record_turn t s =
     (let p = to_payload t
      in s\<lparr>ls_turns := ls_turns s + 1,
           ls_first_audio := note_opt (ls_max_samples s) (ls_first_audio s) (final_to_audio_ms p),
           ls_first_token := note_opt (ls_max_samples s) (ls_first_token s) (final_to_token_ms p)\<rparr>)"

definition record_barge_in :: "pyfloat \<Rightarrow> latency_stats \<Rightarrow> latency_stats" where
  "record_barge_in stop_ms s =
     s\<lparr>ls_interruptions := ls_interruptions s + 1,
       ls_barge_in_stop := deque_append (ls_max_samples s) (ls_barge_in_stop s) (py_round_to 2 stop_ms)\<rparr>"

record latency_snapshot =
  sn_turns :: nat
  sn_interruptions :: nat
  first_audio_p50 :: rat
  first_audio_p95 :: rat
  first_token_p50 :: rat
  first_token_p95 :: rat
  barge_in_p50 :: rat
  barge_in_p95 :: rat
  sn_samples :: nat

definition latency_snapshot_of :: "latency_stats \<Rightarrow> latency_snapshot" where
  "latency_snapshot_of s =
     (let audio = sort (ls_first_audio s); token = sort (ls_first_token s); stop = sort (ls_barge_in_stop s)
      in \<lparr>sn_turns = ls_turns s, sn_interruptions = ls_interruptions s,
          first_audio_p50 = percentile audio (1 / 2), first_audio_p95 = percentile audio (95 / 100),
          first_token_p50 = percentile token (1 / 2), first_token_p95 = percentile token (95 / 100),
          barge_in_p50 = percentile stop (1 / 2), barge_in_p95 = percentile stop (95 / 100),
          sn_samples = length audio\<rparr>)"

definition reset_latency_stats :: "latency_stats \<Rightarrow> latency_stats" where
  "reset_latency_stats s =
     s\<lparr>ls_first_audio := [], ls_first_token := [], ls_barge_in_stop := [],
       ls_turns := 0, ls_interruptions := 0\<rparr>"

section \<open>Lemmas\<close>

lemma percentile_index:
  assumes "vs \<noteq> []"
  shows "nat (min (int (length vs) - 1) (max 0 k)) < length vs"
  using assms by (cases vs) auto

lemma percentile_in: "vs \<noteq> [] \<Longrightarrow> percentile vs q \<in> set vs"
  by (simp only: percentile_def if_False) (rule nth_mem [OF percentile_index])

lemma percentile_mono:
  assumes "sorted vs" "p \<le> q"
  shows "percentile vs p \<le> percentile vs q"
proof (cases "vs = []")
  case False
  let ?i = "\<lambda>q. nat (min (int (length vs) - 1) (max 0 (py_round (q * of_int (int (length vs) - 1)))))"
  have "(0::int) \<le> int (length vs) - 1" using False by (cases vs) auto
  then have "(0::rat) \<le> of_int (int (length vs) - 1)" by (simp only: of_int_0_le_iff)
  then have "py_round (p * of_int (int (length vs) - 1)) \<le> py_round (q * of_int (int (length vs) - 1))"
    using assms(2) by (intro py_round_mono mult_right_mono)
  then have "?i p \<le> ?i q" by (intro nat_mono min.mono max.mono order_refl)
  then show ?thesis using False assms(1) percentile_index [OF False]
    by (simp only: percentile_def if_False sorted_iff_nth_mono)
qed (simp add: percentile_def)

definition stats_wf :: "latency_stats \<Rightarrow> bool" where
  "stats_wf s \<longleftrightarrow> length (ls_first_audio s) \<le> ls_max_samples s \<and> length (ls_first_token s) \<le> ls_max_samples s
     \<and> length (ls_barge_in_stop s) \<le> ls_max_samples s
     \<and> length (ls_first_audio s) \<le> ls_turns s \<and> length (ls_first_token s) \<le> ls_turns s
     \<and> length (ls_barge_in_stop s) \<le> ls_interruptions s"

lemma note_opt_length:
  "length xs \<le> n \<Longrightarrow> length (note_opt n xs v) \<le> n"
  "length (note_opt n xs v) \<le> Suc (length xs)"
  by (auto simp: note_opt_def length_deque_append split: option.splits)

lemma stats_wf_new: "stats_wf (new_latency_stats n)"
  by (simp add: stats_wf_def new_latency_stats_def)

lemma stats_wf_turn [inv_pres]: "stats_wf s \<Longrightarrow> stats_wf (record_turn t s)"
  using note_opt_length(2) [of "ls_max_samples s" "ls_first_audio s"]
    note_opt_length(2) [of "ls_max_samples s" "ls_first_token s"]
  by (auto simp: stats_wf_def record_turn_def Let_def note_opt_length(1) intro: order_trans)

lemma stats_wf_barge_in [inv_pres]: "stats_wf s \<Longrightarrow> stats_wf (record_barge_in x s)"
  by (auto simp: stats_wf_def record_barge_in_def length_deque_append)

lemma stats_wf_reset [inv_pres]: "stats_wf (reset_latency_stats s)"
  by (simp add: stats_wf_def reset_latency_stats_def)

text \<open>The first mark stays; a later one changes nothing.\<close>

lemma mark_first_audio_once: "mark_first_audio b (mark_first_audio a t) = mark_first_audio a t"
  by (simp add: mark_first_audio_def)

text \<open>
  A turn whose marks are taken in the order token, audio reports no negative latency, and the audio
  latency is at least the token latency.
\<close>

lemma ms_between_nonneg: "a \<le> b \<Longrightarrow> ms_between (Some a) (Some b) = Some x \<Longrightarrow> 0 \<le> x"
proof -
  assume "a \<le> b" "ms_between (Some a) (Some b) = Some x"
  moreover have "py_round_to 1 0 = 0" by (simp add: py_round_to_def py_round_def)
  ultimately show ?thesis using py_round_to_mono [of 0 "(b - a) * 1000" 1] by (simp add: ms_between_def)
qed

lemma turn_latency_order:
  assumes "a \<le> b" "b \<le> c"
  shows "\<exists>x y. to_payload (mark_first_audio c (mark_llm_first_token b (new_turn_timing uid a)))
    = \<lparr>pl_utterance_id = uid, final_to_token_ms = Some x, final_to_segment_ms = None,
       final_to_audio_ms = Some y, token_to_audio_ms = Some (py_round_to 1 ((c - b) * 1000)),
       pl_interrupted = False\<rparr> \<and> 0 \<le> x \<and> x \<le> y"
proof -
  have "0 \<le> py_round_to 1 ((b - a) * 1000)"
    using ms_between_nonneg [OF assms(1)] by (simp add: ms_between_def)
  moreover have "py_round_to 1 ((b - a) * 1000) \<le> py_round_to 1 ((c - a) * 1000)"
    using assms by (intro py_round_to_mono) simp
  ultimately show ?thesis
    by (auto simp: to_payload_def mark_first_audio_def mark_llm_first_token_def new_turn_timing_def
        ms_between_def)
qed

text \<open>In every snapshot the 95th percentile is at least the median.\<close>

lemma snapshot_percentiles:
  "first_audio_p50 (latency_snapshot_of s) \<le> first_audio_p95 (latency_snapshot_of s)"
  "first_token_p50 (latency_snapshot_of s) \<le> first_token_p95 (latency_snapshot_of s)"
  "barge_in_p50 (latency_snapshot_of s) \<le> barge_in_p95 (latency_snapshot_of s)"
  by (simp_all add: latency_snapshot_of_def Let_def percentile_mono)

end
