(* ===== verification/Observability.thy ===== *)
theory Observability
  imports TurnMetrics
begin

text \<open>
  \<^verbatim>\<open>app/core/observability.py\<close>: the process-wide counters. Each method runs under a lock and is one
  step. The dicts of counts are functions, a missing key counting zero.
\<close>

record platform_metrics =
  request_count :: nat
  error_count :: nat
  timeout_count :: nat
  rate_limit_count :: nat
  exception_counts :: "string \<Rightarrow> nat"
  dependency_failures :: "string \<Rightarrow> nat"
  pm_latencies_ms :: "pyfloat list"

definition MAX_LATENCIES :: nat where "MAX_LATENCIES = 2000"

definition new_platform_metrics :: platform_metrics where
  "new_platform_metrics =
     \<lparr>request_count = 0, error_count = 0, timeout_count = 0, rate_limit_count = 0,
      exception_counts = (\<lambda>k. 0), dependency_failures = (\<lambda>k. 0), pm_latencies_ms = []\<rparr>"

definition bump :: "string \<Rightarrow> (string \<Rightarrow> nat) \<Rightarrow> string \<Rightarrow> nat" where
  "bump k m = m(k := m k + 1)"

definition record_request :: "pyfloat \<Rightarrow> int \<Rightarrow> string option \<Rightarrow> platform_metrics \<Rightarrow> platform_metrics" where
  "record_request latency_ms status_code exception_type m =
     m\<lparr>request_count := request_count m + 1,
       pm_latencies_ms := deque_append MAX_LATENCIES (pm_latencies_ms m) latency_ms,
       error_count := (if status_code \<ge> 400 then error_count m + 1 else error_count m),
       exception_counts := (case exception_type of
          Some e \<Rightarrow> if e = [] then exception_counts m else bump e (exception_counts m)
        | None \<Rightarrow> exception_counts m)\<rparr>"

definition record_timeout :: "platform_metrics \<Rightarrow> platform_metrics" where
  "record_timeout m =
     m\<lparr>timeout_count := timeout_count m + 1, error_count := error_count m + 1,
       exception_counts := bump ''RequestTimeout'' (exception_counts m)\<rparr>"

definition record_rate_limit :: "platform_metrics \<Rightarrow> platform_metrics" where
  "record_rate_limit m =
     m\<lparr>rate_limit_count := rate_limit_count m + 1, error_count := error_count m + 1,
       exception_counts := bump ''RateLimitExceeded'' (exception_counts m)\<rparr>"

definition record_dependency_failure :: "string \<Rightarrow> platform_metrics \<Rightarrow> platform_metrics" where
  "record_dependency_failure name m = m\<lparr>dependency_failures := bump name (dependency_failures m)\<rparr>"

definition pm_percentile :: "rat \<Rightarrow> platform_metrics \<Rightarrow> pyfloat" where
  "pm_percentile p m =
     (if pm_latencies_ms m = [] then 0
      else let vals = sort (pm_latencies_ms m); n = int (length vals);
               idx = max 0 (min (n - 1) (\<lceil>p / 100 * of_int n\<rceil> - 1))
           in py_round_to 2 (vals ! nat idx))"

definition latency_avg_ms :: "platform_metrics \<Rightarrow> pyfloat" where
  "latency_avg_ms m =
     (if pm_latencies_ms m = [] then 0
      else py_round_to 2 (sum_list (pm_latencies_ms m) / of_nat (length (pm_latencies_ms m))))"

record platform_snapshot =
  sn_request_count :: nat
  sn_error_count :: nat
  sn_timeout_count :: nat
  sn_rate_limit_count :: nat
  sn_latency_avg_ms :: pyfloat
  sn_latency_p95_ms :: pyfloat
  sn_latency_p99_ms :: pyfloat
  sn_collected_at :: pyfloat

definition platform_snapshot_of :: "pyfloat \<Rightarrow> platform_metrics \<Rightarrow> platform_snapshot" where
  "platform_snapshot_of now m =
     \<lparr>sn_request_count = request_count m, sn_error_count = error_count m,
      sn_timeout_count = timeout_count m, sn_rate_limit_count = rate_limit_count m,
      sn_latency_avg_ms = latency_avg_ms m, sn_latency_p95_ms = pm_percentile 95 m,
      sn_latency_p99_ms = pm_percentile 99 m, sn_collected_at = now\<rparr>"

section \<open>Lemmas\<close>

text \<open>
  The counters agree: a timeout and a refusal are errors, the two named exception counts are
  the two counters, and the latencies kept are at most one per request.
\<close>

definition platform_wf :: "platform_metrics \<Rightarrow> bool" where
  "platform_wf m \<longleftrightarrow> timeout_count m + rate_limit_count m \<le> error_count m
     \<and> error_count m \<le> request_count m + timeout_count m + rate_limit_count m
     \<and> length (pm_latencies_ms m) \<le> min MAX_LATENCIES (request_count m)"

lemma platform_wf_new: "platform_wf new_platform_metrics"
  by (simp add: platform_wf_def new_platform_metrics_def)

lemma platform_wf_request [inv_pres]: "platform_wf m \<Longrightarrow> platform_wf (record_request l s e m)"
  by (auto simp: platform_wf_def record_request_def length_deque_append)

lemma platform_wf_timeout [inv_pres]: "platform_wf m \<Longrightarrow> platform_wf (record_timeout m)"
  by (simp add: platform_wf_def record_timeout_def)

lemma platform_wf_rate_limit [inv_pres]: "platform_wf m \<Longrightarrow> platform_wf (record_rate_limit m)"
  by (simp add: platform_wf_def record_rate_limit_def)

lemma platform_wf_dependency [inv_pres]: "platform_wf m \<Longrightarrow> platform_wf (record_dependency_failure d m)"
  by (simp add: platform_wf_def record_dependency_failure_def)

lemma pm_percentile_mono:
  assumes "p \<le> q"
  shows "pm_percentile p m \<le> pm_percentile q m"
proof (cases "pm_latencies_ms m = []")
  case False
  define n where "n = int (length (pm_latencies_ms m))"
  define i where "i r = max 0 (min (n - 1) (\<lceil>r / 100 * rat_of_int n\<rceil> - 1))" for r
  have n: "1 \<le> n" using False by (cases "pm_latencies_ms m") (simp_all add: n_def)
  have "p / 100 * rat_of_int n \<le> q / 100 * rat_of_int n"
    using assms n by (intro mult_right_mono) simp_all
  then have "\<lceil>p / 100 * rat_of_int n\<rceil> \<le> \<lceil>q / 100 * rat_of_int n\<rceil>" by (rule ceiling_mono)
  then have "i p \<le> i q" by (simp add: i_def)
  moreover have "i q < n" using n by (auto simp: i_def)
  moreover have "nat (i q) < length (sort (pm_latencies_ms m))"
    using \<open>i q < n\<close> n by (simp add: n_def)
  ultimately have "sort (pm_latencies_ms m) ! nat (i p) \<le> sort (pm_latencies_ms m) ! nat (i q)"
    by (intro sorted_nth_mono) simp_all
  then show ?thesis
    using False by (simp add: pm_percentile_def Let_def i_def n_def py_round_to_mono)
qed (simp add: pm_percentile_def)

end
