(* ===== verification/PyText.thy ===== *)
theory PyText
  imports Prelude
begin

text \<open>
  Python's \<^verbatim>\<open>str\<close> as a list of Unicode code points, and the string methods the code calls:
  \<^verbatim>\<open>isspace\<close>, \<^verbatim>\<open>strip\<close>, \<^verbatim>\<open>rstrip\<close>, \<^verbatim>\<open>lower\<close>, \<^verbatim>\<open>endswith\<close>, \<^verbatim>\<open>startswith\<close>, \<^verbatim>\<open>join\<close>.
  \<open>u ''abc''\<close> is the string literal \<^verbatim>\<open>"abc"\<close>.

  White space is Python's list of code points with \<^verbatim>\<open>str.isspace()\<close>. Lower case is exact for
  ASCII, for Latin-1, and for the two other code points whose lower case contains an ASCII letter
  (U+0130 and U+212A); every other code point is left as it is, so a comparison of the result
  with an ASCII word is the one Python makes.
\<close>

type_synonym ustr = "nat list"

definition u :: "string \<Rightarrow> ustr" where
  "u s = map of_char s"

definition py_space :: "nat \<Rightarrow> bool" where
  "py_space c \<longleftrightarrow> (9 \<le> c \<and> c \<le> 13) \<or> (28 \<le> c \<and> c \<le> 32) \<or> c = 133 \<or> c = 160 \<or> c = 5760
     \<or> (8192 \<le> c \<and> c \<le> 8202) \<or> c = 8232 \<or> c = 8233 \<or> c = 8239 \<or> c = 8287 \<or> c = 12288"

definition lstrip :: "ustr \<Rightarrow> ustr" where
  "lstrip s = dropWhile py_space s"

definition rstrip :: "ustr \<Rightarrow> ustr" where
  "rstrip s = rev (dropWhile py_space (rev s))"

definition strip :: "ustr \<Rightarrow> ustr" where
  "strip s = lstrip (rstrip s)"

definition lower_c :: "nat \<Rightarrow> ustr" where
  "lower_c c =
     (if 65 \<le> c \<and> c \<le> 90 then [c + 32]
      else if 192 \<le> c \<and> c \<le> 222 \<and> c \<noteq> 215 then [c + 32]
      else if c = 304 then [105, 775]
      else if c = 8490 then [107]
      else [c])"

definition lower :: "ustr \<Rightarrow> ustr" where
  "lower s = concat (map lower_c s)"

definition startswith :: "'a list \<Rightarrow> 'a list \<Rightarrow> bool" where
  "startswith s p \<longleftrightarrow> take (length p) s = p"

definition endswith :: "'a list \<Rightarrow> 'a list \<Rightarrow> bool" where
  "endswith s p \<longleftrightarrow> startswith (rev s) (rev p)"

definition endswith_any :: "'a list \<Rightarrow> 'a list list \<Rightarrow> bool" where
  "endswith_any s ps \<longleftrightarrow> list_ex (endswith s) ps"

fun join :: "'a list \<Rightarrow> 'a list list \<Rightarrow> 'a list" where
  "join sep [] = []"
| "join sep [x] = x"
| "join sep (x # y # xs) = x @ sep @ join sep (y # xs)"

section \<open>Lemmas\<close>

lemma startswith_iff: "startswith s p \<longleftrightarrow> prefix p s"
  by (auto simp: startswith_def prefix_def) (metis append_take_drop_id)

lemma endswith_iff: "endswith s p \<longleftrightarrow> suffix p s"
  by (simp add: endswith_def startswith_iff suffix_to_prefix)

lemma rstrip_Nil_iff: "rstrip s = [] \<longleftrightarrow> (\<forall>c\<in>set s. py_space c)"
  by (auto simp: rstrip_def)

lemma lstrip_Nil_iff: "lstrip s = [] \<longleftrightarrow> (\<forall>c\<in>set s. py_space c)"
  by (simp add: lstrip_def)

lemma rstrip_decomp: "\<exists>w. s = rstrip s @ w \<and> (\<forall>c\<in>set w. py_space c)"
proof -
  have "rev s = takeWhile py_space (rev s) @ dropWhile py_space (rev s)" by simp
  then have "s = rstrip s @ rev (takeWhile py_space (rev s))"
    unfolding rstrip_def by (metis rev_append rev_rev_ident)
  then show ?thesis by (metis set_rev set_takeWhileD)
qed

lemma lstrip_decomp: "\<exists>w. s = w @ lstrip s \<and> (\<forall>c\<in>set w. py_space c)"
  unfolding lstrip_def by (metis set_takeWhileD takeWhile_dropWhile_id)

lemma strip_decomp:
  "\<exists>a b. s = a @ strip s @ b \<and> (\<forall>c\<in>set a. py_space c) \<and> (\<forall>c\<in>set b. py_space c)"
proof -
  obtain b where b: "s = rstrip s @ b" "\<forall>c\<in>set b. py_space c"
    using rstrip_decomp by blast
  obtain a where a: "rstrip s = a @ lstrip (rstrip s)" "\<forall>c\<in>set a. py_space c"
    using lstrip_decomp by blast
  from a b show ?thesis unfolding strip_def by (metis append.assoc)
qed

lemma strip_Nil_iff: "strip s = [] \<longleftrightarrow> (\<forall>c\<in>set s. py_space c)"
proof -
  obtain w where "s = rstrip s @ w" "\<forall>c\<in>set w. py_space c" using rstrip_decomp by blast
  moreover have "strip s = [] \<longleftrightarrow> (\<forall>c\<in>set (rstrip s). py_space c)"
    by (simp add: strip_def lstrip_Nil_iff)
  ultimately show ?thesis by (metis Un_iff set_append)
qed

lemma strip_Nil [simp]: "strip [] = []"
  by (simp add: strip_Nil_iff)

lemma dropWhile_idem: "dropWhile P (dropWhile P xs) = dropWhile P xs"
  by (induction xs) auto

lemma last_rstrip: "rstrip s \<noteq> [] \<Longrightarrow> \<not> py_space (last (rstrip s))"
  using hd_dropWhile [of py_space "rev s"] by (simp add: rstrip_def last_rev)

lemma rstrip_id: "s = [] \<or> \<not> py_space (last s) \<Longrightarrow> rstrip s = s"
  by (cases s rule: rev_cases) (auto simp: rstrip_def)

lemma last_lstrip: "lstrip s \<noteq> [] \<Longrightarrow> last (lstrip s) = last s"
  unfolding lstrip_def by (metis last_appendR takeWhile_dropWhile_id)

lemma strip_idem: "strip (strip s) = strip s"
proof (cases "strip s = []")
  case False
  then have "rstrip s \<noteq> []" by (auto simp: strip_def lstrip_def)
  then have "\<not> py_space (last (strip s))"
    using False last_lstrip [of "rstrip s"] last_rstrip [of s] by (simp add: strip_def)
  then have "rstrip (strip s) = strip s" by (simp add: rstrip_id)
  then show ?thesis by (simp add: strip_def [of "strip s"]) (simp add: strip_def lstrip_def dropWhile_idem)
qed simp

text \<open>The non-blank characters of a text, in order: what stripping never loses.\<close>

definition inked :: "ustr \<Rightarrow> ustr" where
  "inked s = filter (\<lambda>c. \<not> py_space c) s"

lemma inked_append [simp]: "inked (s @ t) = inked s @ inked t"
  by (simp add: inked_def)

lemma inked_Nil [simp]: "inked [] = []"
  by (simp add: inked_def)

lemma inked_space: "\<forall>c\<in>set s. py_space c \<Longrightarrow> inked s = []"
  by (auto simp: inked_def filter_empty_conv)

lemma inked_Nil_iff: "inked s = [] \<longleftrightarrow> strip s = []"
  by (auto simp: inked_def filter_empty_conv strip_Nil_iff)

lemma inked_strip [simp]: "inked (strip s) = inked s"
proof -
  obtain a b where "s = a @ strip s @ b" "\<forall>c\<in>set a. py_space c" "\<forall>c\<in>set b. py_space c"
    using strip_decomp by blast
  then show ?thesis by (metis append.right_neutral append_Nil inked_append inked_space)
qed

lemma lower_append [simp]: "lower (s @ t) = lower s @ lower t"
  by (simp add: lower_def)

lemma u_append [simp]: "u (s @ t) = u s @ u t"
  by (simp add: u_def)

lemma u_eq_iff [simp]: "u a = u b \<longleftrightarrow> a = b"
  by (auto simp: u_def inj_map_eq_map inj_def)

lemma u_Nil_iff [simp]: "u a = [] \<longleftrightarrow> a = []" "[] = u a \<longleftrightarrow> a = []"
  by (auto simp: u_def)

end
