(* ===== verification/Base64.thy ===== *)
theory Base64
  imports PyText
begin

text \<open>
  The parts of Python's \<^verbatim>\<open>base64\<close> module that the telephony code calls:
  \<^verbatim>\<open>b64encode\<close> and \<^verbatim>\<open>b64decode(s, validate=True)\<close> (strict mode of CPython 3.11:
  no foreign character, padding only at the end, and any number of padding characters after a
  complete quadruple). A text is a list of code points.
\<close>

definition b64_char :: "nat \<Rightarrow> nat" where
  "b64_char n = (if n < 26 then n + 65 else if n < 52 then n + 71 else if n < 62 then n - 4
                 else if n = 62 then 43 else 47)"

definition b64_index :: "nat \<Rightarrow> nat option" where
  "b64_index c = (if 65 \<le> c \<and> c \<le> 90 then Some (c - 65)
                  else if 97 \<le> c \<and> c \<le> 122 then Some (c - 71)
                  else if 48 \<le> c \<and> c \<le> 57 then Some (c + 4)
                  else if c = 43 then Some 62 else if c = 47 then Some 63 else None)"

definition PAD :: nat where "PAD = 61"

fun b64encode :: "bytes \<Rightarrow> ustr" where
  "b64encode [] = []"
| "b64encode [a] = [b64_char (unat a div 4), b64_char (unat a mod 4 * 16), PAD, PAD]"
| "b64encode [a, b] =
     [b64_char (unat a div 4), b64_char (unat a mod 4 * 16 + unat b div 16),
      b64_char (unat b mod 16 * 4), PAD]"
| "b64encode (a # b # c # r) =
     b64_char (unat a div 4) # b64_char (unat a mod 4 * 16 + unat b div 16) #
     b64_char (unat b mod 16 * 4 + unat c div 64) # b64_char (unat c mod 64) # b64encode r"

fun b64_quads :: "ustr \<Rightarrow> bytes option" where
  "b64_quads [] = Some []"
| "b64_quads (w # r) =
     (if w = PAD then (if list_all (\<lambda>c. c = PAD) r then Some [] else None)
      else case r of
        x # y # z # r' \<Rightarrow>
          (case (b64_index w, b64_index x) of
             (Some i, Some j) \<Rightarrow>
               (if y = PAD then (if z = PAD \<and> r' = [] then Some [of_nat (i * 4 + j div 16)] else None)
                else case b64_index y of
                  None \<Rightarrow> None
                | Some k \<Rightarrow>
                    (if z = PAD
                     then (if r' = [] then Some [of_nat (i * 4 + j div 16), of_nat (j mod 16 * 16 + k div 4)] else None)
                     else case (b64_index z, b64_quads r') of
                            (Some l, Some bs) \<Rightarrow>
                              Some (of_nat (i * 4 + j div 16) # of_nat (j mod 16 * 16 + k div 4)
                                    # of_nat (k mod 4 * 64 + l) # bs)
                          | _ \<Rightarrow> None))
           | _ \<Rightarrow> None)
      | _ \<Rightarrow> None)"

definition b64decode :: "ustr \<Rightarrow> bytes option" where
  "b64decode s = (if s \<noteq> [] \<and> hd s = PAD then None else b64_quads s)"

section \<open>Round trip\<close>

lemma b64_index_char: "n < 64 \<Longrightarrow> b64_index (b64_char n) = Some n"
  unfolding b64_char_def b64_index_def by (auto split: if_splits)

lemma b64_char_not_pad: "n < 64 \<Longrightarrow> b64_char n \<noteq> PAD"
  unfolding b64_char_def PAD_def by (auto split: if_splits)

lemma unat_byte: "unat (w :: 8 word) < 256"
  using unsigned_less [of w] by simp

lemma byte_small:
  "unat (a :: 8 word) div 4 < 64" "unat a div 16 < 16" "unat a div 64 < 4"
  using unat_byte [of a] by (simp_all add: less_mult_imp_div_less)

lemma byte_sextets:
  "unat (a :: 8 word) mod 4 * 16 < 64" "unat a mod 16 * 4 < 64"
  "unat a mod 4 * 16 + unat (b :: 8 word) div 16 < 64"
  "unat a mod 16 * 4 + unat b div 64 < 64"
  using byte_small [of b] mod_less_divisor [of 4 "unat a"]
    mod_less_divisor [of 16 "unat a"] by linarith+

lemma b64_quads_encode: "b64_quads (b64encode bs) = Some bs"
  by (induction bs rule: b64encode.induct)
     (simp_all add: b64_index_char b64_char_not_pad byte_small byte_sextets del: of_nat_add of_nat_mult)

lemma b64_roundtrip [simp]: "b64decode (b64encode bs) = Some bs"
proof -
  have "b64encode bs = [] \<or> hd (b64encode bs) \<noteq> PAD"
    by (cases bs rule: b64encode.cases) (simp_all add: b64_char_not_pad byte_small)
  then show ?thesis by (auto simp: b64decode_def b64_quads_encode)
qed

lemma b64encode_inj: "b64encode a = b64encode b \<longleftrightarrow> a = b"
  by (metis b64_roundtrip option.inject)

lemma b64encode_Nil_iff [simp]: "b64encode bs = [] \<longleftrightarrow> bs = []"
  by (cases bs rule: b64encode.cases) simp_all

lemma b64_quads_nonempty: "b64_quads s = Some bs \<Longrightarrow> s \<noteq> [] \<Longrightarrow> hd s \<noteq> PAD \<Longrightarrow> bs \<noteq> []"
  by (cases s rule: b64_quads.cases) (auto split: if_splits list.splits option.splits)

lemma b64decode_nonempty: "b64decode s = Some bs \<Longrightarrow> s \<noteq> [] \<Longrightarrow> bs \<noteq> []"
  by (auto simp: b64decode_def split: if_splits dest: b64_quads_nonempty)

end
