(* ===== verification/TwilioStream.thy ===== *)
theory TwilioStream
  imports Base64
begin

text \<open>
  \<^verbatim>\<open>app/telephony/twilio_stream.py\<close>: the messages of a Twilio Media Stream. A message is the value
  \<^verbatim>\<open>json.loads\<close> returns; nothing about its shape is taken for granted, so a field of the wrong type
  raises \<open>AttributeError\<close> exactly where the code calls a method on it. The text of a message
  (\<^verbatim>\<open>json.loads\<close>, \<^verbatim>\<open>json.dumps\<close>) is not modelled, nor is the log.
\<close>

section \<open>JSON values\<close>

datatype json =
    JNull
  | JBool bool
  | JNum rat
  | JStr ustr
  | JArr "json list"
  | JObj "(ustr \<times> json) list"

text \<open>Python's truth value of a JSON value, and \<^verbatim>\<open>v or d\<close>.\<close>

fun truthy :: "json \<Rightarrow> bool" where
  "truthy JNull = False"
| "truthy (JBool b) = b"
| "truthy (JNum q) = (q \<noteq> 0)"
| "truthy (JStr s) = (s \<noteq> [])"
| "truthy (JArr xs) = (xs \<noteq> [])"
| "truthy (JObj fs) = (fs \<noteq> [])"

definition json_or :: "json \<Rightarrow> json \<Rightarrow> json" where
  "json_or v d = (if truthy v then v else d)"

text \<open>\<^verbatim>\<open>v.get(k)\<close>: only a dict has the method; a missing key gives \<^verbatim>\<open>None\<close>.\<close>

fun json_get :: "json \<Rightarrow> string \<Rightarrow> py_exn + json" where
  "json_get (JObj fs) k = Inr (case map_of fs (u k) of None \<Rightarrow> JNull | Some v \<Rightarrow> v)"
| "json_get _ k = Inl AttributeError"

text \<open>\<^verbatim>\<open>v.strip().lower()\<close>: only a text has the methods.\<close>

fun json_word :: "json \<Rightarrow> py_exn + ustr" where
  "json_word (JStr s) = Inr (lower (strip s))"
| "json_word _ = Inl AttributeError"

section \<open>Session\<close>

record twilio_session =
  ts_stream_sid :: json
  ts_call_sid :: json
  ts_account_sid :: json
  ts_tracks :: json
  ts_media_format :: json
  ts_decoded_audio :: bytes

definition total_decoded_bytes :: "twilio_session \<Rightarrow> nat" where
  "total_decoded_bytes s = length (ts_decoded_audio s)"

text \<open>\<^verbatim>\<open>base64.b64decode(v, validate=True)\<close> inside the \<^verbatim>\<open>try\<close>: any failure counts alike.\<close>

fun decode_payload :: "json \<Rightarrow> bytes option" where
  "decode_payload (JStr s) = b64decode s"
| "decode_payload _ = None"

definition new_twilio_session :: "json \<Rightarrow> json \<Rightarrow> py_exn + twilio_session" where
  "new_twilio_session stream_sid start =
     bind_sum (json_get start ''callSid'') (\<lambda>call_sid.
     bind_sum (json_get start ''accountSid'') (\<lambda>account_sid.
     bind_sum (json_get start ''tracks'') (\<lambda>tracks.
     bind_sum (json_get start ''mediaFormat'') (\<lambda>media_format.
       Inr \<lparr>ts_stream_sid = stream_sid, ts_call_sid = json_or call_sid (JStr []),
            ts_account_sid = json_or account_sid (JStr []), ts_tracks = json_or tracks (JArr []),
            ts_media_format = json_or media_format (JObj []), ts_decoded_audio = []\<rparr>))))"

definition take_media :: "json \<Rightarrow> twilio_session option \<Rightarrow> twilio_session option \<times> bytes option" where
  "take_media b64 session =
     (case session of
        None \<Rightarrow> (session, None)
      | Some s \<Rightarrow>
          if \<not> truthy b64 then (session, None)
          else (case decode_payload b64 of
                  None \<Rightarrow> (session, None)
                | Some decoded \<Rightarrow> (Some (s\<lparr>ts_decoded_audio := ts_decoded_audio s @ decoded\<rparr>), Some decoded)))"

definition handle_twilio_event ::
  "json \<Rightarrow> twilio_session option \<Rightarrow> py_exn + (twilio_session option \<times> bytes option)" where
  "handle_twilio_event payload session =
     bind_sum (json_get payload ''event'') (\<lambda>ev.
     bind_sum (json_word (json_or ev (JStr []))) (\<lambda>event.
     bind_sum (json_get payload ''streamSid'') (\<lambda>sid.
       let stream_sid = json_or sid (JStr [])
       in if event = u ''connected'' then Inr (session, None)
          else if event = u ''start'' then
            bind_sum (json_get payload ''start'') (\<lambda>start.
            bind_sum (new_twilio_session stream_sid (json_or start (JObj []))) (\<lambda>s.
              Inr (Some s, None)))
          else if event = u ''media'' then
            bind_sum (json_get payload ''media'') (\<lambda>media.
            bind_sum (json_get (json_or media (JObj [])) ''payload'') (\<lambda>b64.
              Inr (take_media b64 session)))
          else if event = u ''stop'' then
            bind_sum (json_get payload ''stop'') (\<lambda>stop.
            bind_sum (json_get (json_or stop (JObj [])) ''callSid'') (\<lambda>call_sid.
              Inr (None, None)))
          else Inr (session, None))))"

definition build_twilio_media_message :: "json \<Rightarrow> bytes \<Rightarrow> json" where
  "build_twilio_media_message stream_sid mulaw =
     JObj [(u ''event'', JStr (u ''media'')), (u ''streamSid'', stream_sid),
           (u ''media'', JObj [(u ''payload'', JStr (b64encode mulaw))])]"

text \<open>A whole stream of events from one session state; \<open>Inl\<close> keeps the session as it was.\<close>

fun take_events :: "json list \<Rightarrow> twilio_session option \<Rightarrow> twilio_session option \<times> bytes list" where
  "take_events [] s = (s, [])"
| "take_events (m # ms) s =
     (case handle_twilio_event m s of
        Inl e \<Rightarrow> take_events ms s
      | Inr (s', chunk) \<Rightarrow>
          (case take_events ms s' of (s'', cs) \<Rightarrow> (s'', (case chunk of None \<Rightarrow> cs | Some c \<Rightarrow> c # cs))))"

section \<open>Lemmas\<close>

text \<open>The event of a message, when it is a well-formed one.\<close>

definition event_of :: "json \<Rightarrow> ustr option" where
  "event_of m = (case bind_sum (json_get m ''event'') (\<lambda>ev. json_word (json_or ev (JStr []))) of
                   Inl _ \<Rightarrow> None | Inr e \<Rightarrow> Some e)"

lemma bind_sum_Inl_iff: "bind_sum r f = Inl e \<longleftrightarrow> r = Inl e \<or> (\<exists>x. r = Inr x \<and> f x = Inl e)"
  by (cases r) auto

lemma json_get_ok: "json_get m k = Inr v \<Longrightarrow> \<exists>fs. m = JObj fs"
  by (cases m) auto

lemma json_raises: "json_get m k = Inl e \<Longrightarrow> e = AttributeError" "json_word v = Inl e \<Longrightarrow> e = AttributeError"
  by (cases m; simp) (cases v; simp)

lemma event_of_Some:
  "event_of m = Some e \<Longrightarrow>
     \<exists>fs ev. m = JObj fs \<and> json_get m ''event'' = Inr ev \<and> json_word (json_or ev (JStr [])) = Inr e"
  by (auto simp: event_of_def bind_sum_Inr_iff split: sum.splits dest: json_get_ok)

text \<open>A message without a readable event raises; an event of no interest changes nothing.\<close>

lemma handle_unreadable:
  assumes "event_of m = None"
  shows "handle_twilio_event m s = Inl AttributeError"
proof -
  from assms obtain e where "bind_sum (json_get m ''event'') (\<lambda>ev. json_word (json_or ev (JStr []))) = Inl e"
    by (auto simp: event_of_def split: sum.splits)
  then show ?thesis
    unfolding bind_sum_Inl_iff handle_twilio_event_def by (auto dest: json_raises)
qed

lemma handle_other:
  assumes "event_of m = Some e" "e \<notin> {u ''start'', u ''media'', u ''stop''}"
  shows "handle_twilio_event m s = Inr (s, None)"
  using event_of_Some [OF assms(1)] assms(2) by (auto simp: handle_twilio_event_def Let_def)

lemma handle_result_cases:
  assumes "handle_twilio_event m s = Inr (s', chunk)"
  shows "(event_of m = Some (u ''start'') \<and> chunk = None \<and> (\<exists>n. s' = Some n \<and> ts_decoded_audio n = []))
       \<or> (event_of m = Some (u ''stop'') \<and> chunk = None \<and> s' = None)
       \<or> (event_of m = Some (u ''media'') \<and> (\<exists>b64. take_media b64 s = (s', chunk)))
       \<or> (s' = s \<and> chunk = None)"
  using assms
  by (auto simp: handle_twilio_event_def event_of_def new_twilio_session_def bind_sum_Inr_iff Let_def split: if_splits)

lemma take_media_cases:
  "take_media b64 s = (s, None) \<or>
   (\<exists>t c. s = Some t \<and> c \<noteq> [] \<and> decode_payload b64 = Some c
      \<and> take_media b64 s = (Some (t\<lparr>ts_decoded_audio := ts_decoded_audio t @ c\<rparr>), Some c))"
  by (cases b64; auto simp: take_media_def b64decode_nonempty split: option.splits)

lemma take_media_some:
  assumes "take_media b64 (Some s) = (t, chunk)"
  shows "(t = Some s \<and> chunk = None) \<or>
    (\<exists>c. c \<noteq> [] \<and> t = Some (s\<lparr>ts_decoded_audio := ts_decoded_audio s @ c\<rparr>) \<and> chunk = Some c)"
  using assms take_media_cases [of b64 "Some s"] by auto

text \<open>The message built for outbound audio is one that the inbound side decodes to that audio.\<close>

lemma media_roundtrip:
  "c \<noteq> [] \<Longrightarrow> handle_twilio_event (build_twilio_media_message sid c) (Some s)
     = Inr (Some (s\<lparr>ts_decoded_audio := ts_decoded_audio s @ c\<rparr>), Some c)"
  by (simp add: handle_twilio_event_def build_twilio_media_message_def json_or_def take_media_def Let_def
      u_def lower_def lower_c_def strip_def lstrip_def rstrip_def py_space_def)

definition no_restart :: "json list \<Rightarrow> bool" where
  "no_restart ms \<longleftrightarrow> (\<forall>m\<in>set ms. event_of m \<noteq> Some (u ''start'') \<and> event_of m \<noteq> Some (u ''stop''))"

lemma take_events_audio:
  "no_restart ms \<Longrightarrow> take_events ms (Some s) = (s', cs)
     \<Longrightarrow> s' = Some (s\<lparr>ts_decoded_audio := ts_decoded_audio s @ concat cs\<rparr>) \<and> [] \<notin> set cs"
proof (induction ms arbitrary: s cs s')
  case (Cons m ms)
  have nr: "no_restart ms" "event_of m \<noteq> Some (u ''start'')" "event_of m \<noteq> Some (u ''stop'')"
    using Cons.prems(1) by (auto simp: no_restart_def)
  show ?case
  proof (cases "handle_twilio_event m (Some s)")
    case (Inl e)
    then show ?thesis using Cons.IH [OF nr(1)] Cons.prems(2) by simp
  next
    case (Inr r)
    obtain t chunk where r: "r = (t, chunk)" by (cases r)
    from handle_result_cases [OF Inr [unfolded r]] nr
    have "(\<exists>b64. take_media b64 (Some s) = (t, chunk)) \<or> (t = Some s \<and> chunk = None)" by blast
    then consider "t = Some s" "chunk = None"
      | c where "c \<noteq> []" "t = Some (s\<lparr>ts_decoded_audio := ts_decoded_audio s @ c\<rparr>)" "chunk = Some c"
      using take_media_some by blast
    then show ?thesis
    proof cases
      case 1
      with Inr r Cons.prems(2) have "take_events ms (Some s) = (s', cs)" by (simp split: prod.splits)
      with Cons.IH [OF nr(1)] show ?thesis by blast
    next
      case (2 c)
      obtain s2 cs2 where rest: "take_events ms t = (s2, cs2)" by (cases "take_events ms t")
      with Inr r 2 Cons.prems(2) have "s' = s2" "cs = c # cs2" by simp_all
      with Cons.IH [OF nr(1) rest [unfolded 2(2)]] 2(1) show ?thesis by simp
    qed
  qed
qed simp

end
