(* ===== verification/Errors.thy ===== *)
theory Errors
  imports Observability TwilioStream
begin

text \<open>
  \<^verbatim>\<open>app/core/exceptions.py\<close>, \<^verbatim>\<open>app/core/errors.py\<close>, \<^verbatim>\<open>app/core/exception_handlers.py\<close> and
  \<^verbatim>\<open>map_domain_errors\<close> of \<^verbatim>\<open>app/api/v1/dependencies.py\<close>. An exception is its list of classes (the names of
  \<^verbatim>\<open>type(exc).__mro__\<close>), its text and its attributes; an exception of a library is any such value. The
  classes of \<^verbatim>\<open>exceptions.py\<close> are \<open>exn_class\<close>; \<open>own_init\<close> says what their \<^verbatim>\<open>__init__\<close> keeps. An attribute that is
  not there raises \<open>AttributeError\<close>.
\<close>

section \<open>Exceptions\<close>

text \<open>The classes of \<^verbatim>\<open>exceptions.py\<close>, and the classes of the language and the libraries by name.\<close>

datatype exn_class =
    NotFoundError | ConflictError | DatabaseUnavailableError | RetrievalValidationError | CrossTenantAccessError
  | UnauthorizedAgentAccessError | MemoryAccessError | CrossTenantMemoryError | SessionExpiredError
  | SessionNotFoundError | ToolNotFoundError | ToolPermissionDeniedError | ToolValidationError
  | ToolExecutionError | ToolRateLimitError | ToolCircuitOpenError | CrossTenantToolError
  | PlannerPolicyViolationError | PlannerConfidenceTooLowError | PlannerValidationError
  | CrossTenantPlannerError | PlannerSessionNotFoundError | VerifierRejectionError
  | VerifierPolicyViolationError | VerifierComplianceError | VerifierValidationError
  | CrossTenantVerifierError | WorkflowNotFoundError | WorkflowExecutionError | WorkflowPolicyViolationError
  | WorkflowApprovalRequiredError | WorkflowValidationError | CrossTenantWorkflowError | AuthenticationError
  | InvalidCredentialsError | TokenExpiredError | MfaRequiredError | AuthorizationError
  | InsufficientPermissionsError | IamUserNotFoundError | OrganizationNotFoundError | ApiKeyNotFoundError
  | IamSessionNotFoundError | CrossOrganizationAccessError | IamValidationError | SecurityPolicyViolationError

datatype py_class = Own exn_class | Lib string

record exn =
  ex_mro :: "py_class list"
  ex_text :: ustr
  ex_attrs :: "(string \<times> json) list"

definition isinstance :: "exn \<Rightarrow> py_class \<Rightarrow> bool" where
  "isinstance e c \<longleftrightarrow> c \<in> set (ex_mro e)"

fun class_name :: "exn_class \<Rightarrow> string" where
  "class_name NotFoundError = ''NotFoundError''"
| "class_name ConflictError = ''ConflictError''"
| "class_name DatabaseUnavailableError = ''DatabaseUnavailableError''"
| "class_name RetrievalValidationError = ''RetrievalValidationError''"
| "class_name CrossTenantAccessError = ''CrossTenantAccessError''"
| "class_name UnauthorizedAgentAccessError = ''UnauthorizedAgentAccessError''"
| "class_name MemoryAccessError = ''MemoryAccessError''"
| "class_name CrossTenantMemoryError = ''CrossTenantMemoryError''"
| "class_name SessionExpiredError = ''SessionExpiredError''"
| "class_name SessionNotFoundError = ''SessionNotFoundError''"
| "class_name ToolNotFoundError = ''ToolNotFoundError''"
| "class_name ToolPermissionDeniedError = ''ToolPermissionDeniedError''"
| "class_name ToolValidationError = ''ToolValidationError''"
| "class_name ToolExecutionError = ''ToolExecutionError''"
| "class_name ToolRateLimitError = ''ToolRateLimitError''"
| "class_name ToolCircuitOpenError = ''ToolCircuitOpenError''"
| "class_name CrossTenantToolError = ''CrossTenantToolError''"
| "class_name PlannerPolicyViolationError = ''PlannerPolicyViolationError''"
| "class_name PlannerConfidenceTooLowError = ''PlannerConfidenceTooLowError''"
| "class_name PlannerValidationError = ''PlannerValidationError''"
| "class_name CrossTenantPlannerError = ''CrossTenantPlannerError''"
| "class_name PlannerSessionNotFoundError = ''PlannerSessionNotFoundError''"
| "class_name VerifierRejectionError = ''VerifierRejectionError''"
| "class_name VerifierPolicyViolationError = ''VerifierPolicyViolationError''"
| "class_name VerifierComplianceError = ''VerifierComplianceError''"
| "class_name VerifierValidationError = ''VerifierValidationError''"
| "class_name CrossTenantVerifierError = ''CrossTenantVerifierError''"
| "class_name WorkflowNotFoundError = ''WorkflowNotFoundError''"
| "class_name WorkflowExecutionError = ''WorkflowExecutionError''"
| "class_name WorkflowPolicyViolationError = ''WorkflowPolicyViolationError''"
| "class_name WorkflowApprovalRequiredError = ''WorkflowApprovalRequiredError''"
| "class_name WorkflowValidationError = ''WorkflowValidationError''"
| "class_name CrossTenantWorkflowError = ''CrossTenantWorkflowError''"
| "class_name AuthenticationError = ''AuthenticationError''"
| "class_name InvalidCredentialsError = ''InvalidCredentialsError''"
| "class_name TokenExpiredError = ''TokenExpiredError''"
| "class_name MfaRequiredError = ''MfaRequiredError''"
| "class_name AuthorizationError = ''AuthorizationError''"
| "class_name InsufficientPermissionsError = ''InsufficientPermissionsError''"
| "class_name IamUserNotFoundError = ''IamUserNotFoundError''"
| "class_name OrganizationNotFoundError = ''OrganizationNotFoundError''"
| "class_name ApiKeyNotFoundError = ''ApiKeyNotFoundError''"
| "class_name IamSessionNotFoundError = ''IamSessionNotFoundError''"
| "class_name CrossOrganizationAccessError = ''CrossOrganizationAccessError''"
| "class_name IamValidationError = ''IamValidationError''"
| "class_name SecurityPolicyViolationError = ''SecurityPolicyViolationError''"

definition type_name :: "exn \<Rightarrow> string" where
  "type_name e = (case hd (ex_mro e) of Own c \<Rightarrow> class_name c | Lib n \<Rightarrow> n)"

definition get_attr :: "exn \<Rightarrow> string \<Rightarrow> py_exn + json" where
  "get_attr e a = (case map_of (ex_attrs e) a of None \<Rightarrow> Inl AttributeError | Some v \<Rightarrow> Inr v)"

definition getattr_or :: "exn \<Rightarrow> string \<Rightarrow> json \<Rightarrow> json" where
  "getattr_or e a d = (case map_of (ex_attrs e) a of None \<Rightarrow> d | Some v \<Rightarrow> v)"

text \<open>The base class of a class, \<open>None\<close> for \<^verbatim>\<open>Exception\<close>.\<close>

fun base_of :: "exn_class \<Rightarrow> exn_class option" where
  "base_of CrossTenantAccessError = Some RetrievalValidationError"
| "base_of UnauthorizedAgentAccessError = Some RetrievalValidationError"
| "base_of CrossTenantMemoryError = Some MemoryAccessError"
| "base_of SessionExpiredError = Some MemoryAccessError"
| "base_of SessionNotFoundError = Some NotFoundError"
| "base_of ToolNotFoundError = Some NotFoundError"
| "base_of ToolCircuitOpenError = Some ToolExecutionError"
| "base_of PlannerSessionNotFoundError = Some NotFoundError"
| "base_of WorkflowNotFoundError = Some NotFoundError"
| "base_of InvalidCredentialsError = Some AuthenticationError"
| "base_of TokenExpiredError = Some AuthenticationError"
| "base_of MfaRequiredError = Some AuthenticationError"
| "base_of InsufficientPermissionsError = Some AuthorizationError"
| "base_of IamUserNotFoundError = Some NotFoundError"
| "base_of OrganizationNotFoundError = Some NotFoundError"
| "base_of ApiKeyNotFoundError = Some NotFoundError"
| "base_of IamSessionNotFoundError = Some NotFoundError"
| "base_of _ = None"

lemma base_of_base: "base_of c = Some b \<Longrightarrow> base_of b = None"
  by (cases c) simp_all

function classes_of :: "exn_class \<Rightarrow> exn_class list" where
  "classes_of c = c # (case base_of c of None \<Rightarrow> [] | Some b \<Rightarrow> classes_of b)"
  by pat_completeness auto
termination
  by (relation "measure (\<lambda>c. if base_of c = None then 0 else 1)") (auto dest: base_of_base)

definition mro_of :: "exn_class \<Rightarrow> py_class list" where
  "mro_of c = map Own (classes_of c) @ [Lib ''Exception'']"

text \<open>
  What the \<^verbatim>\<open>__init__\<close> of a class takes besides the text: a default for the text, and an attribute with its default.
  A class without an \<^verbatim>\<open>__init__\<close> has its base's.
\<close>

datatype exn_init = Init "string option" "(string \<times> json) option"

definition violating :: exn_init where
  "violating = Init None (Some (''violations'', JArr []))"

fun own_init :: "exn_class \<Rightarrow> exn_init option" where
  "own_init NotFoundError = Some (Init (Some ''Resource not found'') None)"
| "own_init ConflictError = Some (Init (Some ''Resource conflict'') None)"
| "own_init DatabaseUnavailableError = Some (Init (Some ''Database unavailable'') None)"
| "own_init RetrievalValidationError = Some violating"
| "own_init MemoryAccessError = Some violating"
| "own_init ToolPermissionDeniedError = Some violating"
| "own_init ToolValidationError = Some violating"
| "own_init ToolExecutionError = Some (Init None (Some (''retryable'', JBool False)))"
| "own_init PlannerPolicyViolationError = Some violating"
| "own_init PlannerConfidenceTooLowError = Some (Init None (Some (''confidence'', JNum 0)))"
| "own_init PlannerValidationError = Some violating"
| "own_init VerifierRejectionError = Some violating"
| "own_init VerifierPolicyViolationError = Some violating"
| "own_init VerifierComplianceError = Some (Init None (Some (''framework'', JNull)))"
| "own_init VerifierValidationError = Some violating"
| "own_init WorkflowExecutionError = Some (Init None (Some (''retryable'', JBool False)))"
| "own_init WorkflowPolicyViolationError = Some violating"
| "own_init WorkflowApprovalRequiredError = Some (Init None (Some (''approval_id'', JNull)))"
| "own_init WorkflowValidationError = Some violating"
| "own_init MfaRequiredError = Some (Init (Some ''MFA required'') (Some (''challenge_id'', JNull)))"
| "own_init AuthorizationError = Some (Init None (Some (''permission'', JNull)))"
| "own_init IamValidationError = Some violating"
| "own_init SecurityPolicyViolationError = Some violating"
| "own_init _ = None"

definition init_of :: "exn_class \<Rightarrow> exn_init" where
  "init_of c = (case own_init c of
      Some i \<Rightarrow> i
    | None \<Rightarrow> (case base_of c of
        None \<Rightarrow> Init None None
      | Some b \<Rightarrow> (case own_init b of Some i \<Rightarrow> i | None \<Rightarrow> Init None None)))"

text \<open>
  \<^verbatim>\<open>cls(message, attr=value)\<close>. A list of violations is kept by \<^verbatim>\<open>violations or []\<close>, every other attribute as
  it is given.
\<close>

definition new_exn :: "exn_class \<Rightarrow> ustr option \<Rightarrow> json option \<Rightarrow> exn" where
  "new_exn c message val =
     (case init_of c of Init t a \<Rightarrow>
        \<lparr>ex_mro = mro_of c,
         ex_text = (case message of Some m \<Rightarrow> m | None \<Rightarrow> (case t of Some d \<Rightarrow> u d | None \<Rightarrow> [])),
         ex_attrs = (case a of
            None \<Rightarrow> []
          | Some (k, d) \<Rightarrow> [(k, case val of
                              None \<Rightarrow> d
                            | Some v \<Rightarrow> if k = ''violations'' then json_or v d else v)])\<rparr>)"

text \<open>An exception of a library or of the language, by its classes.\<close>

definition lib_exn :: "string list \<Rightarrow> exn" where
  "lib_exn cs = \<lparr>ex_mro = map Lib (cs @ [''Exception'']), ex_text = [], ex_attrs = []\<rparr>"

text \<open>The validation error of a schema is a \<^verbatim>\<open>ValueError\<close>.\<close>

definition validation_error :: exn where
  "validation_error = lib_exn [''ValidationError'', ''ValueError'']"

definition value_error :: "ustr \<Rightarrow> exn" where
  "value_error t = (lib_exn [''ValueError''])\<lparr>ex_text := t\<rparr>"

definition runtime_error :: "ustr \<Rightarrow> exn" where
  "runtime_error t = (lib_exn [''RuntimeError''])\<lparr>ex_text := t\<rparr>"

section \<open>Error bodies\<close>

datatype error_code = VALIDATION_ERROR | NOT_FOUND | CONFLICT | AUTHENTICATION_ERROR | AUTHORIZATION_ERROR
  | RATE_LIMIT_EXCEEDED | REQUEST_TIMEOUT | DATABASE_ERROR | SERVICE_UNAVAILABLE | TOOL_ERROR | WORKFLOW_ERROR
  | PLANNER_ERROR | VERIFIER_ERROR | MEMORY_ERROR | RETRIEVAL_ERROR | INTERNAL_ERROR

fun code_value :: "error_code \<Rightarrow> string" where
  "code_value VALIDATION_ERROR = ''validation_error''"
| "code_value NOT_FOUND = ''not_found''"
| "code_value CONFLICT = ''conflict''"
| "code_value AUTHENTICATION_ERROR = ''authentication_error''"
| "code_value AUTHORIZATION_ERROR = ''authorization_error''"
| "code_value RATE_LIMIT_EXCEEDED = ''rate_limit_exceeded''"
| "code_value REQUEST_TIMEOUT = ''request_timeout''"
| "code_value DATABASE_ERROR = ''database_error''"
| "code_value SERVICE_UNAVAILABLE = ''service_unavailable''"
| "code_value TOOL_ERROR = ''tool_error''"
| "code_value WORKFLOW_ERROR = ''workflow_error''"
| "code_value PLANNER_ERROR = ''planner_error''"
| "code_value VERIFIER_ERROR = ''verifier_error''"
| "code_value MEMORY_ERROR = ''memory_error''"
| "code_value RETRIEVAL_ERROR = ''retrieval_error''"
| "code_value INTERNAL_ERROR = ''internal_error''"

definition error_documentation_url :: "ustr \<Rightarrow> ustr" where
  "error_documentation_url code = u ''https://docs.voxera.ai/errors/'' @ code"

text \<open>
  What a body takes from its surroundings: the identifier of the request (\<^verbatim>\<open>get_request_id\<close>), the time of day
  as text, and \<^verbatim>\<open>str\<close> of a JSON value that is not a text.
\<close>

record err_env =
  ee_request_id :: "ustr option"
  ee_timestamp :: ustr
  ee_str :: "json \<Rightarrow> ustr"

definition opt_text :: "ustr option \<Rightarrow> json" where
  "opt_text t = (case t of None \<Rightarrow> JNull | Some s \<Rightarrow> JStr s)"

definition build_error_response :: "err_env \<Rightarrow> error_code \<Rightarrow> json \<Rightarrow> json \<Rightarrow> ustr option \<Rightarrow> json" where
  "build_error_response env code message details request_id =
     (let code_str = u (code_value code);
          rid = (case request_id of Some r \<Rightarrow> if r = [] then ee_request_id env else Some r | None \<Rightarrow> ee_request_id env)
      in JObj [(u ''success'', JBool False),
               (u ''error'', JObj [(u ''code'', JStr code_str), (u ''message'', message), (u ''details'', details),
                  (u ''request_id'', opt_text rid), (u ''timestamp'', JStr (ee_timestamp env)),
                  (u ''documentation_url'', JStr (error_documentation_url code_str))])])"

section \<open>Resolution\<close>

definition code_from_status :: "rat \<Rightarrow> error_code" where
  "code_from_status status_code =
     (case map_of [(400, VALIDATION_ERROR), (401, AUTHENTICATION_ERROR), (403, AUTHORIZATION_ERROR),
                   (404, NOT_FOUND), (409, CONFLICT), (422, VALIDATION_ERROR), (429, RATE_LIMIT_EXCEEDED),
                   (503, SERVICE_UNAVAILABLE), (504, REQUEST_TIMEOUT)] status_code of
        Some c \<Rightarrow> c
      | None \<Rightarrow> INTERNAL_ERROR)"

text \<open>\<^verbatim>\<open>p in s\<close> on texts.\<close>

definition occurs_in :: "'a list \<Rightarrow> 'a list \<Rightarrow> bool" where
  "occurs_in p s \<longleftrightarrow> list_ex (\<lambda>t. startswith t p) (suffixes s)"

definition domain_code :: "exn \<Rightarrow> error_code" where
  "domain_code e =
     (let name = type_name e
      in if occurs_in ''Tool'' name then TOOL_ERROR
         else if occurs_in ''Workflow'' name then WORKFLOW_ERROR
         else if occurs_in ''Planner'' name then PLANNER_ERROR
         else if occurs_in ''Verifier'' name then VERIFIER_ERROR
         else if occurs_in ''Memory'' name \<or> occurs_in ''Session'' name then MEMORY_ERROR
         else NOT_FOUND)"

text \<open>\<^verbatim>\<open>status_code\<close> of an HTTP exception is the number it was made with.\<close>

definition status_attr :: "exn \<Rightarrow> py_exn + rat" where
  "status_attr e = bind_sum (get_attr e ''status_code'')
     (\<lambda>v. case v of JNum q \<Rightarrow> Inr q | _ \<Rightarrow> Inl (OtherError ''TypeError''))"

definition is_envelope :: "json \<Rightarrow> bool" where
  "is_envelope detail = (case detail of
     JObj fs \<Rightarrow> map_of fs (u ''success'') = Some (JBool False) \<and> map_of fs (u ''error'') \<noteq> None
   | _ \<Rightarrow> False)"

definition http_message :: "err_env \<Rightarrow> json \<Rightarrow> json \<times> json" where
  "http_message env detail = (case detail of
     JObj fs \<Rightarrow> (case map_of fs (u ''message'') of Some m \<Rightarrow> m | None \<Rightarrow> JStr (ee_str env detail), detail)
   | JStr s \<Rightarrow> (JStr s, JNull)
   | _ \<Rightarrow> (JStr (ee_str env detail), JNull))"

definition isinstance_any :: "exn \<Rightarrow> py_class list \<Rightarrow> bool" where
  "isinstance_any e cs \<longleftrightarrow> list_ex (isinstance e) cs"

text \<open>
  The answer to an exception and the count of failed dependencies. The tests stand in the order of the code.
\<close>

definition resolve_exception :: "err_env \<Rightarrow> exn \<Rightarrow> platform_metrics \<Rightarrow> (py_exn + rat \<times> json) \<times> platform_metrics" where
  "resolve_exception env e pm =
     (let msg = JStr (ex_text e);
          body = (\<lambda>code message details. build_error_response env code message details None);
          ans = (\<lambda>status code details. (Inr (status, body code msg details), pm));
          dbfail = record_dependency_failure ''database'' pm;
          with_attr = (\<lambda>status code a.
             (bind_sum (get_attr e a) (\<lambda>v. Inr (status, body code msg (JObj [(u a, v)]))), pm));
          with_getattr = (\<lambda>status code a d. ans status code (JObj [(u a, getattr_or e a d)]))
      in
      if isinstance e (Lib ''HTTPException'') then
        (bind_sum (get_attr e ''detail'') (\<lambda>detail.
         bind_sum (status_attr e) (\<lambda>status.
           if is_envelope detail then Inr (status, detail)
           else (case http_message env detail of
                   (message, details) \<Rightarrow> Inr (status, body (code_from_status status) message details)))), pm)
      else if isinstance e (Lib ''RequestValidationError'') then
        (bind_sum (get_attr e ''errors'') (\<lambda>errs.
           Inr (422, body VALIDATION_ERROR (JStr (u ''Request validation failed'')) errs)), pm)
      else if isinstance e (Lib ''TimeoutError'') then
        (Inr (504, body REQUEST_TIMEOUT (JStr (u ''Request timed out'')) JNull), pm)
      else if isinstance e (Lib ''IntegrityError'') then
        (Inr (409, body CONFLICT (JStr (u ''Database constraint violation''))
           (JObj [(u ''type'', JStr (u ''integrity_error''))])), pm)
      else if isinstance_any e (map Lib [''OperationalError'', ''DBAPIError'']) then
        (Inr (503, body DATABASE_ERROR (JStr (u ''Database operation failed'')) JNull), dbfail)
      else if isinstance e (Lib ''SQLAlchemyError'') then
        (Inr (503, body DATABASE_ERROR (JStr (u ''Database error'')) JNull), dbfail)
      else if isinstance e (Own NotFoundError) then
        ans 404 (if isinstance_any e (map Own [ToolNotFoundError, WorkflowNotFoundError, SessionNotFoundError,
                                      PlannerSessionNotFoundError]) then domain_code e else NOT_FOUND) JNull
      else if isinstance e (Own ConflictError) then ans 409 CONFLICT JNull
      else if isinstance e (Own DatabaseUnavailableError) then
        (Inr (503, body SERVICE_UNAVAILABLE msg JNull), dbfail)
      else if isinstance e (Own RetrievalValidationError) then with_attr 422 RETRIEVAL_ERROR ''violations''
      else if isinstance_any e (map Own [MemoryAccessError, CrossTenantMemoryError, SessionExpiredError]) then
        with_getattr 403 MEMORY_ERROR ''violations'' (JArr [])
      else if isinstance_any e (map Own [ToolPermissionDeniedError, CrossTenantToolError]) then
        with_getattr 403 TOOL_ERROR ''violations'' (JArr [])
      else if isinstance e (Own ToolValidationError) then with_attr 422 TOOL_ERROR ''violations''
      else if isinstance e (Own ToolRateLimitError) then ans 429 RATE_LIMIT_EXCEEDED JNull
      else if isinstance_any e (map Own [ToolExecutionError, ToolCircuitOpenError]) then
        ans (if truthy (getattr_or e ''retryable'' (JBool False)) then 503 else 500) TOOL_ERROR JNull
      else if isinstance_any e (map Own [PlannerPolicyViolationError, CrossTenantPlannerError]) then
        with_getattr 403 PLANNER_ERROR ''violations'' (JArr [])
      else if isinstance e (Own PlannerValidationError) then with_attr 422 PLANNER_ERROR ''violations''
      else if isinstance e (Own PlannerConfidenceTooLowError) then with_attr 422 PLANNER_ERROR ''confidence''
      else if isinstance_any e (map Own [VerifierPolicyViolationError, CrossTenantVerifierError, VerifierRejectionError]) then
        with_getattr 403 VERIFIER_ERROR ''violations'' (JArr [])
      else if isinstance_any e (map Own [VerifierValidationError, VerifierComplianceError]) then
        with_getattr 422 VERIFIER_ERROR ''violations'' (JArr [])
      else if isinstance_any e (map Own [CrossTenantWorkflowError, WorkflowPolicyViolationError]) then
        with_getattr 403 WORKFLOW_ERROR ''violations'' (JArr [])
      else if isinstance e (Own WorkflowApprovalRequiredError) then with_attr 409 WORKFLOW_ERROR ''approval_id''
      else if isinstance e (Own WorkflowValidationError) then with_attr 422 WORKFLOW_ERROR ''violations''
      else if isinstance e (Own WorkflowExecutionError) then
        (bind_sum (get_attr e ''retryable'') (\<lambda>r.
           Inr (if truthy r then 503 else 500, body WORKFLOW_ERROR msg JNull)), pm)
      else if isinstance_any e (map Own [InvalidCredentialsError, AuthenticationError, TokenExpiredError]) then
        ans 401 AUTHENTICATION_ERROR JNull
      else if isinstance e (Own MfaRequiredError) then with_attr 401 AUTHENTICATION_ERROR ''challenge_id''
      else if isinstance_any e (map Own [InsufficientPermissionsError, AuthorizationError, CrossOrganizationAccessError]) then
        with_getattr 403 AUTHORIZATION_ERROR ''permission'' JNull
      else if isinstance_any e (map Own [OrganizationNotFoundError, IamUserNotFoundError, ApiKeyNotFoundError,
                                IamSessionNotFoundError]) then ans 404 NOT_FOUND JNull
      else if isinstance_any e (map Own [IamValidationError, SecurityPolicyViolationError]) then
        with_attr 422 VALIDATION_ERROR ''violations''
      else if isinstance e (Lib ''ValueError'') then ans 400 VALIDATION_ERROR JNull
      else if isinstance e (Lib ''RuntimeError'') \<and> occurs_in (u ''shutting down'') (lower (ex_text e)) then
        (Inr (503, body SERVICE_UNAVAILABLE (JStr (u ''Server is shutting down'')) JNull), pm)
      else (Inr (500, body INTERNAL_ERROR (JStr (u ''An unexpected error occurred'')) JNull), pm))"

section \<open>Handlers\<close>

definition new_http_exception :: "rat \<Rightarrow> json \<Rightarrow> exn" where
  "new_http_exception status detail =
     \<lparr>ex_mro = [Lib ''HTTPException'', Lib ''Exception''], ex_text = [],
      ex_attrs = [(''status_code'', JNum status), (''detail'', detail)]\<rparr>"

definition map_domain_errors :: "err_env \<Rightarrow> exn \<Rightarrow> platform_metrics \<Rightarrow> (py_exn + exn) \<times> platform_metrics" where
  "map_domain_errors env e pm =
     (case resolve_exception env e pm of
        (r, pm') \<Rightarrow> (bind_sum r (\<lambda>(status, body). Inr (new_http_exception status body)), pm'))"

record json_answer =
  ja_status :: rat
  ja_body :: json
  ja_headers :: "(ustr \<times> ustr) list"

text \<open>\<^verbatim>\<open>d.update(e)\<close>: a key that is there keeps its place and takes the new value.\<close>

fun dict_set :: "'k \<Rightarrow> 'v \<Rightarrow> ('k \<times> 'v) list \<Rightarrow> ('k \<times> 'v) list" where
  "dict_set k v [] = [(k, v)]"
| "dict_set k v ((k', v') # d) = (if k = k' then (k, v) # d else (k', v') # dict_set k v d)"

definition dict_update :: "('k \<times> 'v) list \<Rightarrow> ('k \<times> 'v) list \<Rightarrow> ('k \<times> 'v) list" where
  "dict_update d e = fold (\<lambda>(k, v). dict_set k v) e d"

lemma map_of_dict_set: "map_of (dict_set k v d) = (map_of d)(k \<mapsto> v)"
  by (induction k v d rule: dict_set.induct) (auto simp: fun_upd_twist)

lemma map_of_dict_update: "map_of (dict_update d e) k = (case map_of (rev e) k of None \<Rightarrow> map_of d k | Some v \<Rightarrow> Some v)"
  unfolding dict_update_def
  by (induction e arbitrary: d) (auto simp: map_of_dict_set map_of_append split: option.splits)

definition json_response :: "err_env \<Rightarrow> rat \<Rightarrow> json \<Rightarrow> (ustr \<times> ustr) list \<Rightarrow> json_answer" where
  "json_response env status body headers =
     \<lparr>ja_status = status, ja_body = body,
      ja_headers = dict_update [(u ''X-Request-ID'', case ee_request_id env of Some r \<Rightarrow> r | None \<Rightarrow> [])] headers\<rparr>"

text \<open>
  The three registered handlers differ in the name they count and in the headers: an HTTP exception brings
  its own.
\<close>

definition answer_exception ::
  "err_env \<Rightarrow> string \<Rightarrow> (ustr \<times> ustr) list \<Rightarrow> exn \<Rightarrow> platform_metrics \<Rightarrow> (py_exn + json_answer) \<times> platform_metrics" where
  "answer_exception env name headers e pm =
     (case resolve_exception env e pm of
        (Inl x, pm') \<Rightarrow> (Inl x, pm')
      | (Inr (status, body), pm') \<Rightarrow>
          (Inr (json_response env status body headers), record_request 0 \<lfloor>status\<rfloor> (Some name) pm'))"

definition http_exception_handler ::
  "err_env \<Rightarrow> (ustr \<times> ustr) list \<Rightarrow> exn \<Rightarrow> platform_metrics \<Rightarrow> (py_exn + json_answer) \<times> platform_metrics" where
  "http_exception_handler env headers e pm = answer_exception env (type_name e) headers e pm"

definition validation_exception_handler ::
  "err_env \<Rightarrow> exn \<Rightarrow> platform_metrics \<Rightarrow> (py_exn + json_answer) \<times> platform_metrics" where
  "validation_exception_handler env e pm = answer_exception env ''RequestValidationError'' [] e pm"

definition unhandled_exception_handler ::
  "err_env \<Rightarrow> exn \<Rightarrow> platform_metrics \<Rightarrow> (py_exn + json_answer) \<times> platform_metrics" where
  "unhandled_exception_handler env e pm = answer_exception env (type_name e) [] e pm"

section \<open>Every answer is an envelope\<close>

lemma build_is_envelope [simp]: "is_envelope (build_error_response env code message details rid)"
  by (simp add: is_envelope_def build_error_response_def Let_def u_def)

text \<open>The code a body carries.\<close>

definition body_code :: "json \<Rightarrow> json" where
  "body_code b = (case b of JObj fs \<Rightarrow> (case map_of fs (u ''error'') of
       Some (JObj gs) \<Rightarrow> (case map_of gs (u ''code'') of Some c \<Rightarrow> c | None \<Rightarrow> JNull) | _ \<Rightarrow> JNull) | _ \<Rightarrow> JNull)"

definition body_details :: "json \<Rightarrow> json" where
  "body_details b = (case b of JObj fs \<Rightarrow> (case map_of fs (u ''error'') of
       Some (JObj gs) \<Rightarrow> (case map_of gs (u ''details'') of Some c \<Rightarrow> c | None \<Rightarrow> JNull) | _ \<Rightarrow> JNull) | _ \<Rightarrow> JNull)"

lemma body_code_build [simp]:
  "body_code (build_error_response env code message details rid) = JStr (u (code_value code))"
  by (simp add: body_code_def build_error_response_def Let_def u_def)

lemma body_details_build [simp]:
  "body_details (build_error_response env code message details rid) = details"
  by (simp add: body_details_def build_error_response_def Let_def u_def)

definition enveloped :: "(py_exn + rat \<times> json) \<times> platform_metrics \<Rightarrow> bool" where
  "enveloped r = (case fst r of Inl x \<Rightarrow> True | Inr (status, body) \<Rightarrow> is_envelope body)"

lemma enveloped_if: "enveloped (if c then r else r') \<longleftrightarrow> (if c then enveloped r else enveloped r')"
  by simp

lemma enveloped_leaf [simp]:
  "enveloped (Inr (status, build_error_response env code message details rid), pm)"
  "enveloped (bind_sum r (\<lambda>v. Inr (g v, build_error_response env code message (h v) rid)), pm)"
  by (cases r; simp add: enveloped_def)+

lemma resolve_enveloped: "enveloped (resolve_exception env e pm)"
proof -
  have "enveloped (bind_sum (get_attr e ''detail'') (\<lambda>detail. bind_sum (status_attr e) (\<lambda>status.
      if is_envelope detail then Inr (status, detail)
      else (case http_message env detail of (message, details) \<Rightarrow>
        Inr (status, build_error_response env (code_from_status status) message details None)))), pm)"
    by (cases "get_attr e ''detail''"; cases "status_attr e") (auto simp: enveloped_def split: prod.splits)
  then show ?thesis
    unfolding resolve_exception_def Let_def by (simp add: enveloped_if cong del: if_weak_cong)
qed

lemma resolve_envelope:
  "fst (resolve_exception env e pm) = Inr (status, body) \<Longrightarrow> is_envelope body"
  using resolve_enveloped [of env e pm] by (simp add: enveloped_def)

lemma resolve_http:
  "isinstance e (Lib ''HTTPException'') \<Longrightarrow> resolve_exception env e pm =
     (bind_sum (get_attr e ''detail'') (\<lambda>detail. bind_sum (status_attr e) (\<lambda>status.
        if is_envelope detail then Inr (status, detail)
        else (case http_message env detail of (message, details) \<Rightarrow>
          Inr (status, build_error_response env (code_from_status status) message details None)))), pm)"
  unfolding resolve_exception_def Let_def by (simp only: if_True)

lemma resolve_http_exception [simp]:
  "is_envelope body \<Longrightarrow> resolve_exception env (new_http_exception status body) pm = (Inr (status, body), pm)"
  by (subst resolve_http) (simp_all add: new_http_exception_def isinstance_def get_attr_def status_attr_def)

text \<open>The attributes that the tests read without a default.\<close>

definition ATTR_NEEDS :: "(py_class \<times> string) list" where
  "ATTR_NEEDS =
     [(Own RetrievalValidationError, ''violations''), (Own ToolValidationError, ''violations''),
      (Own PlannerValidationError, ''violations''), (Own PlannerConfidenceTooLowError, ''confidence''),
      (Own WorkflowApprovalRequiredError, ''approval_id''), (Own WorkflowValidationError, ''violations''),
      (Own WorkflowExecutionError, ''retryable''), (Own MfaRequiredError, ''challenge_id''),
      (Own IamValidationError, ''violations''), (Own SecurityPolicyViolationError, ''violations'')]"

lemma bind_Inr_fails [simp]: "bind_sum r (\<lambda>v. Inr (f v)) = Inl x \<longleftrightarrow> r = Inl x"
  by (cases r) simp_all

lemma get_attr_fails: "get_attr e a = Inl x \<longleftrightarrow> x = AttributeError \<and> map_of (ex_attrs e) a = None"
  by (auto simp: get_attr_def split: option.splits)

definition returns :: "(py_exn + 'a) \<times> 'b \<Rightarrow> bool" where
  "returns r \<longleftrightarrow> (\<exists>x. fst r = Inr x)"

lemma returns_if: "(c \<Longrightarrow> returns r) \<Longrightarrow> (\<not> c \<Longrightarrow> returns r') \<Longrightarrow> returns (if c then r else r')"
  by simp

lemma returns_Inr: "returns (Inr x, pm)"
  by (simp add: returns_def)

lemma returns_attr: "get_attr e a \<noteq> Inl AttributeError \<Longrightarrow> returns (bind_sum (get_attr e a) (\<lambda>v. Inr (f v)), pm)"
  by (auto simp: returns_def get_attr_def split: option.splits)

lemma resolve_returns:
  assumes "\<not> isinstance e (Lib ''HTTPException'')" "\<not> isinstance e (Lib ''RequestValidationError'')"
    and "\<forall>(c, a) \<in> set ATTR_NEEDS. isinstance e c \<longrightarrow> map_of (ex_attrs e) a \<noteq> None"
  shows "returns (resolve_exception env e pm)"
proof -
  have *: "get_attr e a \<noteq> Inl AttributeError" if "isinstance e c" "(c, a) \<in> set ATTR_NEEDS" for c a
    using assms(3) that by (auto simp: get_attr_fails)
  have any: "get_attr e a \<noteq> Inl AttributeError" if "isinstance_any e cs" "\<forall>c\<in>set cs. (c, a) \<in> set ATTR_NEEDS" for cs a
    using that * by (auto simp: isinstance_any_def list_ex_iff)
  show ?thesis
    unfolding resolve_exception_def Let_def
    by (intro returns_if; (erule notE [OF assms(1)] | erule notE [OF assms(2)] | rule returns_Inr
        | (rule returns_attr, erule *, simp add: ATTR_NEEDS_def)
        | (rule returns_attr, erule any, simp add: ATTR_NEEDS_def)))
qed

section \<open>No domain exception is an internal error\<close>

definition HANDLED :: "py_class list" where
  "HANDLED = map Own
     [NotFoundError, ConflictError, DatabaseUnavailableError, RetrievalValidationError, MemoryAccessError,
      ToolPermissionDeniedError, CrossTenantToolError, ToolValidationError, ToolRateLimitError,
      ToolExecutionError, PlannerPolicyViolationError, CrossTenantPlannerError, PlannerValidationError,
      PlannerConfidenceTooLowError, VerifierPolicyViolationError, CrossTenantVerifierError,
      VerifierRejectionError, VerifierValidationError, VerifierComplianceError, CrossTenantWorkflowError,
      WorkflowPolicyViolationError, WorkflowApprovalRequiredError, WorkflowValidationError,
      WorkflowExecutionError, AuthenticationError, AuthorizationError, CrossOrganizationAccessError,
      IamValidationError, SecurityPolicyViolationError]"

definition not_internal :: "(py_exn + rat \<times> json) \<times> platform_metrics \<Rightarrow> bool" where
  "not_internal r \<longleftrightarrow> (\<forall>status body. fst r = Inr (status, body) \<longrightarrow> body_code body \<noteq> JStr (u ''internal_error''))"

lemma not_internal_if: "(c \<Longrightarrow> not_internal r) \<Longrightarrow> (\<not> c \<Longrightarrow> not_internal r') \<Longrightarrow> not_internal (if c then r else r')"
  by simp

lemma code_value_internal: "code_value c = ''internal_error'' \<longleftrightarrow> c = INTERNAL_ERROR"
  by (cases c) simp_all

lemma domain_code_not_internal: "domain_code e \<noteq> INTERNAL_ERROR"
  by (simp add: domain_code_def Let_def)

lemma not_internal_ans:
  "code \<noteq> INTERNAL_ERROR \<Longrightarrow> not_internal (Inr (status, build_error_response env code message details rid), pm)"
  by (simp add: not_internal_def code_value_internal)

lemma not_internal_bind:
  "code \<noteq> INTERNAL_ERROR \<Longrightarrow>
     not_internal (bind_sum r (\<lambda>v. Inr (g v, build_error_response env code message (h v) rid)), pm)"
  by (cases r) (simp_all add: not_internal_def code_value_internal)

lemma handled_not_internal:
  assumes "\<not> isinstance e (Lib ''HTTPException'')" and ex: "isinstance_any e HANDLED"
  shows "not_internal (resolve_exception env e pm)"
  unfolding resolve_exception_def Let_def
  by (intro not_internal_if; (erule notE [OF assms(1)]
      | (rule not_internal_ans, (simp add: domain_code_not_internal; fail))
      | (rule not_internal_bind, simp)
      | (insert ex, simp add: HANDLED_def isinstance_any_def)))

lemma classes_of_simps [simp]:
  "base_of c = None \<Longrightarrow> classes_of c = [c]"
  "base_of c = Some b \<Longrightarrow> classes_of c = [c, b]"
  by (simp_all add: classes_of.simps [of c] classes_of.simps [of b] base_of_base)

declare classes_of.simps [simp del]

lemma new_exn_mro [simp]: "ex_mro (new_exn c m v) = mro_of c"
  by (simp add: new_exn_def split: exn_init.split)

lemma new_exn_handled: "isinstance_any (new_exn c m v) HANDLED"
  by (cases c) (simp_all add: isinstance_any_def isinstance_def mro_of_def HANDLED_def)

lemma new_exn_attrs:
  "(k, a) \<in> set ATTR_NEEDS \<Longrightarrow> isinstance (new_exn c m v) k \<Longrightarrow> map_of (ex_attrs (new_exn c m v)) a \<noteq> None"
  by (cases c) (auto simp: isinstance_def mro_of_def ATTR_NEEDS_def new_exn_def init_of_def violating_def)

lemma domain_exception_answered:
  "\<exists>status body. fst (resolve_exception env (new_exn c m v) pm) = Inr (status, body)
     \<and> is_envelope body \<and> body_code body \<noteq> JStr (u ''internal_error'')"
proof -
  let ?e = "new_exn c m v"
  have n: "\<not> isinstance ?e (Lib ''HTTPException'')" "\<not> isinstance ?e (Lib ''RequestValidationError'')"
    by (auto simp: isinstance_def mro_of_def)
  then obtain status body where "fst (resolve_exception env ?e pm) = Inr (status, body)"
    using resolve_returns [of ?e env pm] new_exn_attrs by (force simp: returns_def)
  moreover have "not_internal (resolve_exception env ?e pm)"
    using n(1) new_exn_handled by (rule handled_not_internal)
  ultimately show ?thesis
    using resolve_envelope by (auto simp: not_internal_def)
qed

text \<open>The answer given for the exception of a route is the one given for the exception itself.\<close>

lemma map_domain_errors_keeps:
  assumes "map_domain_errors env e pm = (Inr e', pm')"
  shows "resolve_exception env' e' pm'' = (fst (resolve_exception env e pm), pm'')"
proof -
  obtain status body where "fst (resolve_exception env e pm) = Inr (status, body)" "e' = new_http_exception status body"
    using assms by (auto simp: map_domain_errors_def bind_sum_Inr_iff split: prod.splits)
  then show ?thesis using resolve_envelope by simp
qed

text \<open>The branch for a second factor comes after the branch for its base class.\<close>

lemma mfa_challenge_lost:
  "\<exists>body. resolve_exception env (new_exn MfaRequiredError m (Some challenge)) pm = (Inr (401, body), pm)
     \<and> body_details body = JNull"
proof -
  have i: "isinstance (new_exn MfaRequiredError m (Some challenge)) c
      \<longleftrightarrow> c \<in> {Own MfaRequiredError, Own AuthenticationError, Lib ''Exception''}" for c
    by (simp add: isinstance_def mro_of_def)
  show ?thesis
    unfolding resolve_exception_def Let_def isinstance_any_def
    by (simp add: i)
qed

end
