(* ===== verification/Settings.thy ===== *)
theory Settings
  imports Errors
begin

text \<open>
  \<^verbatim>\<open>app/core/config.py\<close> and \<^verbatim>\<open>app/core/environment.py\<close>: the settings that the modelled code decides by, their
  validation, the defaults that depend on the environment, the secrets with their checks, and the presets. The
  presets of the server are a dictionary of the class that \<^verbatim>\<open>get_server_config\<close> hands out and changes, so they are
  a state. Settings that are only declared and handed on are left out. A text that is \<^verbatim>\<open>None\<close> or empty is falsy
  (\<open>given\<close>).
\<close>

definition given :: "ustr option \<Rightarrow> bool" where
  "given t \<longleftrightarrow> t \<noteq> None \<and> t \<noteq> Some []"

text \<open>\<^verbatim>\<open>text.split(c)\<close> for a single character.\<close>

fun split_text :: "nat \<Rightarrow> ustr \<Rightarrow> ustr list" where
  "split_text c [] = [[]]"
| "split_text c (x # xs) =
     (if x = c then [] # split_text c xs
      else case split_text c xs of [] \<Rightarrow> [[x]] | w # ws \<Rightarrow> (x # w) # ws)"

section \<open>Presets\<close>

record server_config =
  sv_reload :: bool
  sv_workers :: int

record websocket_config =
  wc_max_connections :: int
  wc_ping_interval :: int
  wc_ping_timeout :: int

text \<open>\<^verbatim>\<open>d.get(environment.lower(), d["development"])\<close>.\<close>

definition preset :: "(ustr \<rightharpoonup> 'v) \<Rightarrow> ustr \<Rightarrow> 'v" where
  "preset d environment = (case d (lower environment) of Some v \<Rightarrow> v | None \<Rightarrow> the (d (u ''development'')))"

definition PRESET_CORS_ORIGINS :: "ustr \<rightharpoonup> ustr list" where
  "PRESET_CORS_ORIGINS =
     [u ''development'' \<mapsto> map u [''http://localhost:3000'', ''http://localhost:8080'', ''http://127.0.0.1:3000'',
                              ''http://127.0.0.1:8080''],
      u ''staging'' \<mapsto> map u [''https://staging.voxera.com'', ''https://staging-app.voxera.com''],
      u ''production'' \<mapsto> map u [''https://voxera.com'', ''https://app.voxera.com'']]"

definition PRESET_LOG_LEVELS :: "ustr \<rightharpoonup> ustr" where
  "PRESET_LOG_LEVELS = [u ''development'' \<mapsto> u ''DEBUG'', u ''staging'' \<mapsto> u ''INFO'', u ''production'' \<mapsto> u ''WARNING'']"

type_synonym server_presets = "ustr \<rightharpoonup> server_config"

definition PRESET_SERVER_CONFIG :: server_presets where
  "PRESET_SERVER_CONFIG =
     [u ''development'' \<mapsto> \<lparr>sv_reload = True, sv_workers = 1\<rparr>,
      u ''staging'' \<mapsto> \<lparr>sv_reload = False, sv_workers = 2\<rparr>,
      u ''production'' \<mapsto> \<lparr>sv_reload = False, sv_workers = 4\<rparr>]"

definition PRESET_WEBSOCKET_CONFIG :: "ustr \<rightharpoonup> websocket_config" where
  "PRESET_WEBSOCKET_CONFIG =
     [u ''development'' \<mapsto> \<lparr>wc_max_connections = 50, wc_ping_interval = 30, wc_ping_timeout = 10\<rparr>,
      u ''staging'' \<mapsto> \<lparr>wc_max_connections = 200, wc_ping_interval = 20, wc_ping_timeout = 10\<rparr>,
      u ''production'' \<mapsto> \<lparr>wc_max_connections = 1000, wc_ping_interval = 20, wc_ping_timeout = 10\<rparr>]"

definition preset_cors_origins :: "ustr \<Rightarrow> ustr list" where
  "preset_cors_origins environment = preset PRESET_CORS_ORIGINS environment"

definition preset_log_level :: "ustr \<Rightarrow> ustr" where
  "preset_log_level environment = (case PRESET_LOG_LEVELS (lower environment) of Some v \<Rightarrow> v | None \<Rightarrow> u ''INFO'')"

definition preset_server_config :: "server_presets \<Rightarrow> ustr \<Rightarrow> server_config" where
  "preset_server_config presets environment = preset presets environment"

definition preset_websocket_config :: "ustr \<Rightarrow> websocket_config" where
  "preset_websocket_config environment = preset PRESET_WEBSOCKET_CONFIG environment"

section \<open>The settings\<close>

text \<open>The fields of one class, in three groups: the platform's, the choice of the voice providers, their credentials.\<close>

record platform_settings =
  ENVIRONMENT :: ustr
  HOST :: ustr
  PORT :: int
  RELOAD :: "bool option"
  WORKERS :: "int option"
  CORS_ORIGINS :: ustr
  JWT_SECRET_KEY :: "ustr option"
  API_KEY_SECRET :: "ustr option"
  ENCRYPTION_SECRET_KEY :: "ustr option"
  LEGACY_SECRET_KEY :: "ustr option"
  WEBSOCKET_MAX_CONNECTIONS :: "int option"
  WEBSOCKET_PING_INTERVAL :: "int option"
  WEBSOCKET_PING_TIMEOUT :: "int option"
  LOG_LEVEL :: "ustr option"
  DATABASE_URL :: "ustr option"
  KNOWLEDGE_ALLOWED_EXTENSIONS :: ustr
  TOOL_ALLOWED_HTTP_HOSTS :: ustr

record provider_settings = platform_settings +
  VOICE_REQUIRE_PROVIDERS :: bool
  STT_PROVIDER :: "ustr option"
  LLM_PROVIDER :: "ustr option"
  TTS_PROVIDER :: "ustr option"
  VOICE_LLM_MODEL :: ustr
  VOICE_LLM_SYSTEM_PROMPT :: ustr
  VOICE_LLM_MAX_TOKENS :: int
  VOICE_LLM_TIMEOUT_SECONDS :: pyfloat
  VOICE_LLM_FAILOVER_PROVIDER :: "ustr option"
  VOICE_TTS_VOICE_ID :: "ustr option"
  VOICE_TTS_MODEL :: ustr
  VOICE_SAMPLE_RATE :: int
  VOICE_FRAME_MS :: int
  VOICE_PCM_FRAME_BYTES :: int
  VOICE_ALLOW_MOCK_PROVIDERS :: "bool option"

record app_settings = provider_settings +
  DEEPGRAM_API_KEY :: "ustr option"
  ANTHROPIC_API_KEY :: "ustr option"
  ANTHROPIC_MODEL :: ustr
  GROQ_API_KEY :: "ustr option"
  GROQ_MODEL :: ustr
  XAI_API_KEY :: "ustr option"
  XAI_MODEL :: ustr
  AWS_VOICE_REGION :: ustr
  AWS_TRANSCRIBE_LANGUAGE :: ustr
  BEDROCK_MODEL_ID :: ustr
  POLLY_VOICE_ID :: ustr
  POLLY_ENGINE :: ustr
  ELEVENLABS_API_KEY :: "ustr option"
  ELEVENLABS_MODEL :: ustr
  VOICE_OPENAI_API_KEY :: "ustr option"
  OPENAI_API_KEY :: "ustr option"
  OPENAI_API_BASE :: ustr
  AZURE_OPENAI_ENDPOINT :: "ustr option"
  AZURE_OPENAI_API_KEY :: "ustr option"
  AZURE_OPENAI_CHAT_DEPLOYMENT :: "ustr option"

definition normalize_environment :: "ustr \<Rightarrow> ustr" where
  "normalize_environment v = strip (lower v)"

definition min_length :: "nat \<Rightarrow> ustr option \<Rightarrow> bool" where
  "min_length n t = (case t of None \<Rightarrow> True | Some s \<Rightarrow> n \<le> length s)"

definition at_least :: "int \<Rightarrow> int option \<Rightarrow> bool" where
  "at_least n x = (case x of None \<Rightarrow> True | Some i \<Rightarrow> n \<le> i)"

text \<open>The constraints of the declared fields.\<close>

definition fields_valid :: "app_settings \<Rightarrow> bool" where
  "fields_valid s \<longleftrightarrow> ENVIRONMENT s \<in> {u ''development'', u ''staging'', u ''production''}
     \<and> PORT s \<in> {1..65535} \<and> at_least 1 (WORKERS s) \<and> min_length 32 (JWT_SECRET_KEY s) \<and> min_length 32 (API_KEY_SECRET s)
     \<and> min_length 32 (ENCRYPTION_SECRET_KEY s) \<and> min_length 32 (LEGACY_SECRET_KEY s)
     \<and> VOICE_LLM_MAX_TOKENS s \<in> {32..4096} \<and> VOICE_LLM_TIMEOUT_SECONDS s \<in> {1..120}
     \<and> VOICE_SAMPLE_RATE s \<in> {8000..48000} \<and> VOICE_FRAME_MS s \<in> {10..60} \<and> VOICE_PCM_FRAME_BYTES s \<in> {320..4096}
     \<and> at_least 1 (WEBSOCKET_MAX_CONNECTIONS s) \<and> at_least 1 (WEBSOCKET_PING_INTERVAL s)
     \<and> at_least 1 (WEBSOCKET_PING_TIMEOUT s)"

definition or_default :: "'a option \<Rightarrow> 'a \<Rightarrow> 'a option" where
  "or_default x d = (case x of None \<Rightarrow> Some d | Some v \<Rightarrow> Some v)"

definition apply_environment_defaults :: "server_presets \<Rightarrow> app_settings \<Rightarrow> app_settings" where
  "apply_environment_defaults presets s =
     (let env = lower (ENVIRONMENT s);
          server_config = preset_server_config presets env;
          ws_config = preset_websocket_config env
      in s\<lparr>CORS_ORIGINS := (if CORS_ORIGINS s = [] \<or> strip (CORS_ORIGINS s) = []
                            then join (u '','') (preset_cors_origins env) else CORS_ORIGINS s),
           RELOAD := or_default (RELOAD s) (sv_reload server_config),
           WORKERS := or_default (WORKERS s) (sv_workers server_config),
           WEBSOCKET_MAX_CONNECTIONS := or_default (WEBSOCKET_MAX_CONNECTIONS s) (wc_max_connections ws_config),
           WEBSOCKET_PING_INTERVAL := or_default (WEBSOCKET_PING_INTERVAL s) (wc_ping_interval ws_config),
           WEBSOCKET_PING_TIMEOUT := or_default (WEBSOCKET_PING_TIMEOUT s) (wc_ping_timeout ws_config),
           LOG_LEVEL := or_default (LOG_LEVEL s) (preset_log_level env)\<rparr>)"

text \<open>\<^verbatim>\<open>Settings()\<close> on the values of the environment, with the declared defaults filled in.\<close>

definition load_settings :: "server_presets \<Rightarrow> app_settings \<Rightarrow> exn + app_settings" where
  "load_settings presets raw =
     (let s = raw\<lparr>ENVIRONMENT := normalize_environment (ENVIRONMENT raw)\<rparr>
      in if fields_valid s then Inr (apply_environment_defaults presets s) else Inl validation_error)"

section \<open>Derived settings\<close>

definition voice_openai_api_key :: "app_settings \<Rightarrow> ustr option" where
  "voice_openai_api_key s = (if given (VOICE_OPENAI_API_KEY s) then VOICE_OPENAI_API_KEY s else OPENAI_API_KEY s)"

definition knowledge_allowed_extensions :: "app_settings \<Rightarrow> ustr set" where
  "knowledge_allowed_extensions s =
     set (map (\<lambda>ext. dropWhile (\<lambda>c. c = 46) (lower (strip ext)))
            (filter (\<lambda>ext. strip ext \<noteq> []) (split_text 44 (KNOWLEDGE_ALLOWED_EXTENSIONS s))))"

definition tool_allowed_http_hosts :: "app_settings \<Rightarrow> ustr list" where
  "tool_allowed_http_hosts s =
     (if strip (TOOL_ALLOWED_HTTP_HOSTS s) = [] then []
      else map (\<lambda>h. lower (strip h)) (filter (\<lambda>h. strip h \<noteq> []) (split_text 44 (TOOL_ALLOWED_HTTP_HOSTS s))))"

definition database_enabled :: "app_settings \<Rightarrow> bool" where
  "database_enabled s = (case DATABASE_URL s of None \<Rightarrow> False | Some t \<Rightarrow> t \<noteq> [] \<and> strip t \<noteq> [])"

text \<open>
  \<open>loads\<close> is \<^verbatim>\<open>json.loads\<close>, \<open>None\<close> when it raises; \<open>str_of\<close> is \<^verbatim>\<open>str\<close> of a decoded value. What parses between
  brackets is an array.
\<close>

definition cors_origins :: "(ustr \<Rightarrow> json option) \<Rightarrow> (json \<Rightarrow> ustr) \<Rightarrow> app_settings \<Rightarrow> ustr list" where
  "cors_origins loads str_of s =
     (if CORS_ORIGINS s = [] \<or> strip (CORS_ORIGINS s) = [] then []
      else let v = strip (CORS_ORIGINS s);
               by_comma = filter (\<lambda>x. x \<noteq> []) (map strip (split_text 44 v))
           in if startswith v (u ''['') \<and> endswith v (u '']'')
              then (case loads v of
                      Some (JArr items) \<Rightarrow>
                        map (\<lambda>i. strip (str_of i)) (filter (\<lambda>i. truthy i \<and> strip (str_of i) \<noteq> []) items)
                    | _ \<Rightarrow> by_comma)
              else by_comma)"

definition DEBUG :: "app_settings \<Rightarrow> bool" where
  "DEBUG s \<longleftrightarrow> ENVIRONMENT s = u ''development''"

definition is_production :: "app_settings \<Rightarrow> bool" where
  "is_production s \<longleftrightarrow> ENVIRONMENT s = u ''production''"

definition is_development :: "app_settings \<Rightarrow> bool" where
  "is_development s \<longleftrightarrow> ENVIRONMENT s = u ''development''"

definition is_staging :: "app_settings \<Rightarrow> bool" where
  "is_staging s \<longleftrightarrow> ENVIRONMENT s = u ''staging''"

definition voice_mocks_allowed :: "app_settings \<Rightarrow> bool" where
  "voice_mocks_allowed s =
     (if is_production s then False
      else case VOICE_ALLOW_MOCK_PROVIDERS s of Some b \<Rightarrow> b | None \<Rightarrow> is_development s)"

definition voice_dev_messages_enabled :: "app_settings \<Rightarrow> bool" where
  "voice_dev_messages_enabled s \<longleftrightarrow> is_development s"

definition get_log_level :: "app_settings \<Rightarrow> ustr" where
  "get_log_level s = (if given (LOG_LEVEL s) then the (LOG_LEVEL s) else preset_log_level (ENVIRONMENT s))"

text \<open>
  The configuration that is returned is the entry of the presets itself: overriding its values changes the presets.
\<close>

definition get_server_config :: "app_settings \<Rightarrow> server_presets \<Rightarrow> server_config \<times> server_presets" where
  "get_server_config s presets =
     (let env = lower (ENVIRONMENT s);
          key = (if presets env = None then u ''development'' else env);
          c0 = preset_server_config presets (ENVIRONMENT s);
          c1 = (case RELOAD s of None \<Rightarrow> c0 | Some b \<Rightarrow> c0\<lparr>sv_reload := b\<rparr>);
          c2 = (case WORKERS s of None \<Rightarrow> c1 | Some n \<Rightarrow> c1\<lparr>sv_workers := n\<rparr>)
      in (c2, presets(key \<mapsto> c2)))"

section \<open>Secrets\<close>

definition INSECURE_DEFAULT_SECRET :: ustr where
  "INSECURE_DEFAULT_SECRET = u ''change-this-secret-key-in-production-use-env-vars-min-32-chars''"

definition insecure_here :: "app_settings \<Rightarrow> ustr \<Rightarrow> bool" where
  "insecure_here s v \<longleftrightarrow> v = INSECURE_DEFAULT_SECRET \<and> (is_production s \<or> is_staging s)"

definition secret_required :: "ustr \<Rightarrow> exn" where
  "secret_required purpose = runtime_error (purpose @ u '' is required. Set the dedicated environment variable ''
     @ u ''(or SECRET_KEY in development only).'')"

definition legacy_secret :: "app_settings \<Rightarrow> ustr \<Rightarrow> exn + ustr" where
  "legacy_secret s purpose =
     (let legacy = strip (case LEGACY_SECRET_KEY s of None \<Rightarrow> [] | Some t \<Rightarrow> t)
      in if legacy = [] then Inl (secret_required purpose)
         else if insecure_here s legacy
         then Inl (runtime_error (purpose @ u '' is not configured and legacy SECRET_KEY uses the insecure default ''
                     @ u ''in '' @ ENVIRONMENT s @ u ''. Set JWT_SECRET_KEY, API_KEY_SECRET, and ENCRYPTION_SECRET_KEY.''))
         else if is_development s then Inr legacy
         else Inl (secret_required purpose))"

definition resolve_secret :: "app_settings \<Rightarrow> ustr option \<Rightarrow> ustr \<Rightarrow> exn + ustr" where
  "resolve_secret s specific purpose =
     (case specific of
        None \<Rightarrow> legacy_secret s purpose
      | Some t \<Rightarrow>
          if t = [] \<or> strip t = [] then legacy_secret s purpose
          else if insecure_here s (strip t)
          then Inl (runtime_error (purpose @ u '' must not use the insecure default value in '' @ ENVIRONMENT s))
          else Inr (strip t))"

definition jwt_secret_key :: "app_settings \<Rightarrow> exn + ustr" where
  "jwt_secret_key s = resolve_secret s (JWT_SECRET_KEY s) (u ''JWT_SECRET_KEY'')"

definition api_key_secret :: "app_settings \<Rightarrow> exn + ustr" where
  "api_key_secret s = resolve_secret s (API_KEY_SECRET s) (u ''API_KEY_SECRET'')"

definition encryption_secret_key :: "app_settings \<Rightarrow> exn + ustr" where
  "encryption_secret_key s = resolve_secret s (ENCRYPTION_SECRET_KEY s) (u ''ENCRYPTION_SECRET_KEY'')"

definition long_enough :: "app_settings \<Rightarrow> string \<Rightarrow> ustr \<Rightarrow> exn + unit" where
  "long_enough s name v =
     (if v = [] \<or> length v < 32
      then Inl (runtime_error (u name @ u '' must be at least 32 characters in '' @ ENVIRONMENT s)) else Inr ())"

definition validate_security_settings :: "app_settings \<Rightarrow> exn + unit" where
  "validate_security_settings s =
     (if \<not> database_enabled s then Inr ()
      else bind_sum (jwt_secret_key s) (\<lambda>j. bind_sum (api_key_secret s) (\<lambda>a. bind_sum (encryption_secret_key s) (\<lambda>e.
             if \<not> (is_production s \<or> is_staging s) then Inr ()
             else bind_sum (long_enough s ''JWT_SECRET_KEY'' j) (\<lambda>_.
                  bind_sum (long_enough s ''API_KEY_SECRET'' a) (\<lambda>_.
                  long_enough s ''ENCRYPTION_SECRET_KEY'' e))))))"

section \<open>Lemmas: texts\<close>

lemma split_text_ne [simp]: "split_text c xs \<noteq> []"
  by (induction c xs rule: split_text.induct) (auto split: list.split)

lemma split_text_one: "c \<notin> set w \<Longrightarrow> split_text c w = [w]"
  by (induction w) auto

lemma split_text_cons: "c \<notin> set w \<Longrightarrow> split_text c (w @ c # xs) = w # split_text c xs"
  by (induction w) (auto split: list.split)

lemma split_join: "ws \<noteq> [] \<Longrightarrow> \<forall>w\<in>set ws. c \<notin> set w \<Longrightarrow> split_text c (join [c] ws) = ws"
  by (induction "[c]" ws rule: join.induct) (auto simp: split_text_one split_text_cons)

section \<open>Lemmas: the settings that are loaded\<close>

lemma defaults_environment [simp]: "ENVIRONMENT (apply_environment_defaults presets s) = ENVIRONMENT s"
  by (simp add: apply_environment_defaults_def Let_def)

lemma load_Inr:
  assumes "load_settings presets raw = Inr s"
  shows "ENVIRONMENT s \<in> {u ''development'', u ''staging'', u ''production''}"
    and "fields_valid (raw\<lparr>ENVIRONMENT := normalize_environment (ENVIRONMENT raw)\<rparr>)"
    and "s = apply_environment_defaults presets (raw\<lparr>ENVIRONMENT := normalize_environment (ENVIRONMENT raw)\<rparr>)"
proof -
  let ?s = "raw\<lparr>ENVIRONMENT := normalize_environment (ENVIRONMENT raw)\<rparr>"
  show v: "fields_valid ?s" and e: "s = apply_environment_defaults presets ?s"
    using assms unfolding load_settings_def Let_def by (simp_all split: if_splits)
  from v have "ENVIRONMENT ?s \<in> {u ''development'', u ''staging'', u ''production''}"
    unfolding fields_valid_def by (rule conjunct1)
  then show "ENVIRONMENT s \<in> {u ''development'', u ''staging'', u ''production''}" unfolding e defaults_environment .
qed

lemma one_environment:
  "load_settings presets raw = Inr s \<Longrightarrow>
   (if is_production s then 1 else 0) + (if is_staging s then 1 else 0) + (if is_development s then 1 else 0) = (1::nat)"
  using load_Inr(1) [of presets raw s] by (auto simp: is_production_def is_staging_def is_development_def)

lemma or_default_Some [simp]: "or_default x d \<noteq> None" "or_default (Some v) d = Some v"
  by (auto simp: or_default_def split: option.split)

lemma lower_environments [simp]:
  "lower (u ''development'') = u ''development''" "lower (u ''staging'') = u ''staging''"
  "lower (u ''production'') = u ''production''"
  by (simp_all add: lower_def lower_c_def u_def)

text \<open>Loading leaves no setting without a value that the environment has a default for.\<close>

lemma or_default_at_least:
  "at_least 1 x \<Longrightarrow> 1 \<le> d \<Longrightarrow> \<exists>n. or_default x d = Some n \<and> 1 \<le> n"
  by (auto simp: or_default_def at_least_def split: option.split)

lemma websocket_presets_positive:
  "1 \<le> wc_max_connections (preset_websocket_config e)" "1 \<le> wc_ping_interval (preset_websocket_config e)"
  "1 \<le> wc_ping_timeout (preset_websocket_config e)"
  by (simp_all add: preset_websocket_config_def preset_def PRESET_WEBSOCKET_CONFIG_def)

lemma load_complete:
  assumes "load_settings presets raw = Inr s"
  shows "RELOAD s \<noteq> None" "WORKERS s \<noteq> None" "LOG_LEVEL s \<noteq> None"
    and "\<exists>n. WEBSOCKET_PING_INTERVAL s = Some n \<and> 1 \<le> n" "\<exists>n. WEBSOCKET_MAX_CONNECTIONS s = Some n \<and> 1 \<le> n"
    and "\<exists>n. WEBSOCKET_PING_TIMEOUT s = Some n \<and> 1 \<le> n"
  using load_Inr(2) [OF assms] or_default_at_least websocket_presets_positive
  unfolding load_Inr(3) [OF assms] apply_environment_defaults_def Let_def fields_valid_def by simp_all

text \<open>What the environment does not say is what the presets say, down to the list that the server reads back.\<close>

lemma strip_blank_join:
  assumes "w \<noteq> []" "\<not> py_space (hd w)"
  shows "strip (join [c] (w # ws)) \<noteq> []"
  using assms by (cases ws; cases w) (auto simp: strip_Nil_iff)

lemma preset_origins:
  assumes "e \<in> {u ''development'', u ''staging'', u ''production''}" "o1 \<in> set (preset_cors_origins e)"
  shows "44 \<notin> set o1" "strip o1 = o1" "o1 \<noteq> []" "hd o1 = 104"
proof -
  have "o1 \<in> set (map u [''http://localhost:3000'', ''http://localhost:8080'', ''http://127.0.0.1:3000'',
      ''http://127.0.0.1:8080'', ''https://staging.voxera.com'', ''https://staging-app.voxera.com'',
      ''https://voxera.com'', ''https://app.voxera.com''])"
    using assms by (auto simp: preset_cors_origins_def preset_def PRESET_CORS_ORIGINS_def)
  then show "44 \<notin> set o1" "strip o1 = o1" "o1 \<noteq> []" "hd o1 = 104"
    by (auto simp: u_def strip_def lstrip_def rstrip_def py_space_def)
qed

lemma preset_origins_ne: "e \<in> {u ''development'', u ''staging'', u ''production''} \<Longrightarrow> preset_cors_origins e \<noteq> []"
  by (auto simp: preset_cors_origins_def preset_def PRESET_CORS_ORIGINS_def)

lemma join_ends:
  assumes "ws \<noteq> []" "\<forall>w\<in>set ws. w \<noteq> []"
  shows "join c ws \<noteq> []" "hd (join c ws) = hd (hd ws)" "last (join c ws) = last (last ws)"
  using assms by (induction c ws rule: join.induct) auto

lemma strip_ends: "t \<noteq> [] \<Longrightarrow> \<not> py_space (hd t) \<Longrightarrow> \<not> py_space (last t) \<Longrightarrow> strip t = t"
  by (cases t) (simp_all add: strip_def rstrip_id lstrip_def)

lemma strip_last:
  assumes "strip t = t" "t \<noteq> []"
  shows "\<not> py_space (last t)"
proof -
  have t: "lstrip (rstrip t) = t" using assms(1) by (simp add: strip_def)
  then have "rstrip t \<noteq> []" using assms(2) by (auto simp: lstrip_def)
  then show ?thesis using last_rstrip [of t] last_lstrip [of "rstrip t"] t assms(2) by simp
qed

lemma default_origins_read_back:
  assumes "load_settings presets raw = Inr s" "strip (CORS_ORIGINS raw) = []"
  shows "cors_origins loads str_of s = preset_cors_origins (ENVIRONMENT s)"
proof -
  let ?ws = "preset_cors_origins (ENVIRONMENT s)" and ?t = "join (u '','') (preset_cors_origins (ENVIRONMENT s))"
  note e = load_Inr(1) [OF assms(1)]
  have c: "CORS_ORIGINS s = ?t"
    using assms(2) e unfolding load_Inr(3) [OF assms(1)] by (auto simp: apply_environment_defaults_def Let_def)
  note p = preset_origins [OF e]
  have ne: "?ws \<noteq> []" "\<forall>w\<in>set ?ws. w \<noteq> []" using preset_origins_ne [OF e] p by auto
  have h: "hd ?t = 104" using join_ends(2) [OF ne] p(4) [of "hd ?ws"] ne by simp
  have l: "\<not> py_space (last ?t)"
    using join_ends(3) [OF ne] p(2,3) [of "last ?ws"] ne strip_last by simp
  have t: "strip ?t = ?t" using strip_ends [OF join_ends(1) [OF ne]] h l by (simp add: py_space_def)
  have "\<not> startswith ?t (u ''['')"
    using h join_ends(1) [OF ne] by (cases ?t) (auto simp: startswith_def u_def)
  moreover have "split_text 44 ?t = ?ws"
    using split_join [of ?ws 44] p(1) ne(1) by (simp add: u_def)
  moreover have "map strip ?ws = ?ws" "filter (\<lambda>x. x \<noteq> []) ?ws = ?ws"
    using p by (auto simp: map_idI filter_id_conv)
  ultimately show ?thesis using c t join_ends(1) [OF ne] by (simp add: cors_origins_def Let_def)
qed

text \<open>However the origins are written, no origin is blank or has blanks around it.\<close>

lemma origins_clean: "o1 \<in> set (cors_origins loads str_of s) \<Longrightarrow> o1 \<noteq> [] \<and> strip o1 = o1"
  by (auto simp: cors_origins_def Let_def strip_idem split: if_splits option.splits json.splits)

section \<open>Lemmas: secrets\<close>

lemma legacy_secret_Inr:
  "legacy_secret s purpose = Inr k \<longleftrightarrow>
     is_development s \<and> k \<noteq> [] \<and> LEGACY_SECRET_KEY s \<noteq> None \<and> k = strip (the (LEGACY_SECRET_KEY s)) \<and> \<not> insecure_here s k"
  by (auto simp: legacy_secret_def Let_def split: option.split if_splits)

lemma not_development: "is_production s \<or> is_staging s \<Longrightarrow> \<not> is_development s"
  by (auto simp: is_production_def is_staging_def is_development_def)

text \<open>What a secret is resolved to is never empty; outside development it is the dedicated one, and never the known default.\<close>

lemma resolved_secret:
  assumes "resolve_secret s specific purpose = Inr k"
  shows "k \<noteq> []" "strip k = k" "\<not> insecure_here s k"
    and "is_production s \<or> is_staging s \<Longrightarrow> \<exists>t. specific = Some t \<and> k = strip t"
  using assms not_development [of s]
  by (auto simp: resolve_secret_def legacy_secret_Inr strip_idem split: option.splits if_splits)

lemma validated_keys:
  assumes "validate_security_settings s = Inr v" "database_enabled s"
  obtains j a e where "jwt_secret_key s = Inr j" "api_key_secret s = Inr a" "encryption_secret_key s = Inr e"
    "is_production s \<or> is_staging s \<Longrightarrow> 32 \<le> length j \<and> 32 \<le> length a \<and> 32 \<le> length e"
  using assms that
  by (auto simp: validate_security_settings_def bind_sum_Inr_iff long_enough_def split: if_splits)

text \<open>
  A deployment outside development that passes the check has three dedicated keys of at least 32 characters, none of
  them the default that the repository publishes; the legacy key plays no part.
\<close>

lemma validated_outside_development:
  assumes "validate_security_settings s = Inr v" "database_enabled s" "is_production s \<or> is_staging s"
    and "(specific, resolved) \<in> {(JWT_SECRET_KEY s, jwt_secret_key s), (API_KEY_SECRET s, api_key_secret s),
           (ENCRYPTION_SECRET_KEY s, encryption_secret_key s)}"
  shows "\<exists>t. specific = Some t \<and> resolved = Inr (strip t) \<and> 32 \<le> length (strip t) \<and> strip t \<noteq> INSECURE_DEFAULT_SECRET"
proof -
  obtain j a e where k: "jwt_secret_key s = Inr j" "api_key_secret s = Inr a" "encryption_secret_key s = Inr e"
      "32 \<le> length j \<and> 32 \<le> length a \<and> 32 \<le> length e"
    using validated_keys [OF assms(1,2)] assms(3) by metis
  from k(1-3) have "\<exists>t. JWT_SECRET_KEY s = Some t \<and> j = strip t" "\<exists>t. API_KEY_SECRET s = Some t \<and> a = strip t"
      "\<exists>t. ENCRYPTION_SECRET_KEY s = Some t \<and> e = strip t"
      "j \<noteq> INSECURE_DEFAULT_SECRET" "a \<noteq> INSECURE_DEFAULT_SECRET" "e \<noteq> INSECURE_DEFAULT_SECRET"
    using assms(3) resolved_secret(3,4) unfolding jwt_secret_key_def api_key_secret_def encryption_secret_key_def
      insecure_here_def by blast+
  with k assms(4) show ?thesis by auto
qed

text \<open>Without a database nothing is checked, and a key that is asked for later may be missing.\<close>

lemma unchecked_without_database:
  assumes "\<not> database_enabled s" "ENCRYPTION_SECRET_KEY s = None" "\<not> is_development s"
  shows "validate_security_settings s = Inr ()" "\<exists>e. encryption_secret_key s = Inl e"
  using assms
  by (auto simp: validate_security_settings_def encryption_secret_key_def resolve_secret_def legacy_secret_def Let_def)

section \<open>Lemmas: the shared presets\<close>

text \<open>Reading the server's configuration of one settings object changes the defaults of the next.\<close>

lemma server_config_leaks:
  assumes "load_settings presets raw = Inr s" "get_server_config s presets = (c, presets')"
    and "ENVIRONMENT raw' = ENVIRONMENT raw" "RELOAD raw' = None" "WORKERS raw' = None"
    and "presets (ENVIRONMENT s) \<noteq> None" "load_settings presets' raw' = Inr s'"
  shows "RELOAD s' = RELOAD s \<and> WORKERS s' = WORKERS s"
proof -
  have e: "ENVIRONMENT s' = ENVIRONMENT s" "lower (ENVIRONMENT s) = ENVIRONMENT s"
    using load_Inr(1,3) [OF assms(1)] load_Inr(3) [OF assms(7)] assms(3) by auto
  obtain r n where rn: "RELOAD s = Some r" "WORKERS s = Some n"
    using load_complete(1,2) [OF assms(1)] by auto
  have c: "preset_server_config presets' (ENVIRONMENT s) = c" "sv_reload c = r" "sv_workers c = n"
    using assms(2,6) rn e(2) by (auto simp: get_server_config_def Let_def preset_server_config_def preset_def)
  have "RELOAD s' = Some (sv_reload (preset_server_config presets' (ENVIRONMENT s)))"
      "WORKERS s' = Some (sv_workers (preset_server_config presets' (ENVIRONMENT s)))"
    using assms(4,5) e load_Inr(3) [OF assms(7)]
    by (simp_all add: apply_environment_defaults_def Let_def or_default_def)
  with c rn show ?thesis by simp
qed

end
