(* ===== verification/Conversation.thy ===== *)
theory Conversation
  imports PyText
begin

text \<open>
  The conversation layer: \<^verbatim>\<open>app/conversation/state.py\<close>, \<^verbatim>\<open>events.py\<close>,
  \<^verbatim>\<open>turn_manager.py\<close> and the transcript model of \<^verbatim>\<open>app/stt/models.py\<close>.

  The state record is extensible: the sessions that own a turn manager extend
  \<open>conv_state\<close> with their own fields, and the three callbacks of the turn manager are
  functions on the extended state. \<^verbatim>\<open>_call_callback\<close> catches every exception of a callback,
  so a callback is a total function on states (the state it leaves behind, whether it
  returned or raised). An operation that can raise returns the state it leaves together with
  the exception.
\<close>

section \<open>Transcripts and events\<close>

datatype transcript_type = PARTIAL | FINAL

record transcript_event =
  te_type :: transcript_type
  te_utterance_id :: string
  te_transcript :: ustr
  te_confidence :: pyfloat
  te_timestamp :: pyfloat

definition transcript_type_value :: "transcript_type \<Rightarrow> string" where
  "transcript_type_value t = (case t of PARTIAL \<Rightarrow> ''partial'' | FINAL \<Rightarrow> ''final'')"

text \<open>Pydantic refuses a confidence outside \<open>[0, 1]\<close>.\<close>

definition mk_transcript_event ::
  "transcript_type \<Rightarrow> string \<Rightarrow> ustr \<Rightarrow> pyfloat \<Rightarrow> pyfloat \<Rightarrow> py_exn + transcript_event" where
  "mk_transcript_event t uid txt conf now =
     (if 0 \<le> conf \<and> conf \<le> 1
      then Inr \<lparr>te_type = t, te_utterance_id = uid, te_transcript = txt,
                te_confidence = conf, te_timestamp = now\<rparr>
      else Inl ValueError)"

datatype turn_event =
    UserTurnStarted string pyfloat
  | UserTurnCompleted string ustr pyfloat
  | UserInterrupted pyfloat

section \<open>UUID strings\<close>

text \<open>
  \<^verbatim>\<open>uuid.UUID(s)\<close> drops \<^verbatim>\<open>urn:\<close>, \<^verbatim>\<open>uuid:\<close>, outer braces and hyphens, wants 32
  characters, and reads them with \<^verbatim>\<open>int(s, 16)\<close>.
\<close>

fun remove_sub :: "'a list \<Rightarrow> 'a list \<Rightarrow> 'a list" where
  "remove_sub p [] = []"
| "remove_sub p (x # xs) =
     (if p \<noteq> [] \<and> startswith (x # xs) p then remove_sub p (drop (length p - 1) xs)
      else x # remove_sub p xs)"

definition hex_val :: "char \<Rightarrow> nat option" where
  "hex_val c = (let n = of_char c in
     if 48 \<le> n \<and> n \<le> 57 then Some (n - 48)
     else if 97 \<le> n \<and> n \<le> 102 then Some (n - 87)
     else if 65 \<le> n \<and> n \<le> 70 then Some (n - 55)
     else None)"

fun hex_digits :: "bool \<Rightarrow> nat \<Rightarrow> string \<Rightarrow> nat option" where
  "hex_digits d acc [] = (if d then Some acc else None)"
| "hex_digits d acc (c # cs) =
     (if c = CHR ''_'' then (if d then hex_digits False acc cs else None)
      else case hex_val c of None \<Rightarrow> None | Some v \<Rightarrow> hex_digits True (acc * 16 + v) cs)"

definition py_int16 :: "string \<Rightarrow> nat option" where
  "py_int16 s =
     (let sp = (\<lambda>c. py_space (of_char c));
          s1 = rev (dropWhile sp (rev (dropWhile sp s)));
          s2 = (if startswith s1 ''+'' then drop 1 s1 else s1);
          pre = startswith s2 ''0x'' \<or> startswith s2 ''0X'';
          s3 = (if pre then drop 2 s2 else s2);
          s4 = (if pre \<and> startswith s3 ''_'' then drop 1 s3 else s3)
      in hex_digits False 0 s4)"

definition uuid_of_string :: "string \<Rightarrow> nat option" where
  "uuid_of_string s =
     (let brace = (\<lambda>c. c = CHR ''{'' \<or> c = CHR ''}'');
          h1 = remove_sub ''uuid:'' (remove_sub ''urn:'' s);
          h2 = rev (dropWhile brace (rev (dropWhile brace h1)));
          h = remove_sub ''-'' h2
      in if length h \<noteq> 32 then None else py_int16 h)"

section \<open>Conversation state\<close>

record conv_state =
  conversation_id :: nat
  current_utterance_id :: "nat option"
  last_user_activity :: pyfloat
  is_user_speaking :: bool
  is_system_speaking :: bool
  turn_count :: nat

definition new_conversation :: "nat \<Rightarrow> pyfloat \<Rightarrow> conv_state" where
  "new_conversation cid now =
     \<lparr>conversation_id = cid, current_utterance_id = None, last_user_activity = now,
      is_user_speaking = False, is_system_speaking = False, turn_count = 0\<rparr>"

text \<open>The identifier may come as a string, which is parsed first, or as a UUID.\<close>

datatype utterance_arg = UtteranceStr string | UtteranceUUID nat

definition start_user_turn ::
  "pyfloat \<Rightarrow> utterance_arg \<Rightarrow> 'a conv_state_scheme \<Rightarrow> 'a conv_state_scheme \<times> py_exn option" where
  "start_user_turn now uid s =
     (case (case uid of UtteranceStr str \<Rightarrow> uuid_of_string str | UtteranceUUID n \<Rightarrow> Some n) of
        None \<Rightarrow> (s, Some ValueError)
      | Some n \<Rightarrow> (s\<lparr>current_utterance_id := Some n, is_user_speaking := True,
                     last_user_activity := now\<rparr>, None))"

definition complete_user_turn :: "pyfloat \<Rightarrow> 'a conv_state_scheme \<Rightarrow> 'a conv_state_scheme" where
  "complete_user_turn now s =
     s\<lparr>is_user_speaking := False, current_utterance_id := None,
       turn_count := turn_count s + 1, last_user_activity := now\<rparr>"

definition start_system_turn :: "'a conv_state_scheme \<Rightarrow> 'a conv_state_scheme" where
  "start_system_turn s = s\<lparr>is_system_speaking := True\<rparr>"

definition complete_system_turn :: "'a conv_state_scheme \<Rightarrow> 'a conv_state_scheme" where
  "complete_system_turn s = s\<lparr>is_system_speaking := False\<rparr>"

definition interrupt_user :: "'a conv_state_scheme \<Rightarrow> 'a conv_state_scheme" where
  "interrupt_user s =
     (if is_user_speaking s then s\<lparr>is_user_speaking := False, current_utterance_id := None\<rparr> else s)"

lemmas conv_ops = start_user_turn_def complete_user_turn_def start_system_turn_def
  complete_system_turn_def interrupt_user_def

section \<open>The turn manager\<close>

record 's turn_callbacks =
  on_user_turn_started :: "(turn_event \<Rightarrow> 's \<Rightarrow> 's) option"
  on_user_turn_completed :: "(turn_event \<Rightarrow> 's \<Rightarrow> 's) option"
  on_user_interrupted :: "(turn_event \<Rightarrow> 's \<Rightarrow> 's) option"

definition fire :: "(turn_event \<Rightarrow> 's \<Rightarrow> 's) option \<Rightarrow> turn_event \<Rightarrow> 's \<Rightarrow> 's" where
  "fire cb e s = (case cb of None \<Rightarrow> s | Some f \<Rightarrow> f e s)"

definition handle_interruption ::
  "'a conv_state_scheme turn_callbacks \<Rightarrow> pyfloat \<Rightarrow> 'a conv_state_scheme \<Rightarrow> 'a conv_state_scheme" where
  "handle_interruption cbs now s =
     (if is_system_speaking s
      then fire (on_user_interrupted cbs) (UserInterrupted now)
             (complete_system_turn (interrupt_user s))
      else s)"

definition process_partial ::
  "'a conv_state_scheme turn_callbacks \<Rightarrow> pyfloat \<Rightarrow> transcript_event \<Rightarrow> 'a conv_state_scheme
     \<Rightarrow> 'a conv_state_scheme \<times> py_exn option" where
  "process_partial cbs now ev s =
     (let s1 = (if is_system_speaking s then handle_interruption cbs now s else s)
      in if is_user_speaking s1
         then (s1\<lparr>last_user_activity := te_timestamp ev\<rparr>, None)
         else case start_user_turn now (UtteranceStr (te_utterance_id ev)) s1 of
                (s2, Some e) \<Rightarrow> (s2, Some e)
              | (s2, None) \<Rightarrow>
                  let s3 = fire (on_user_turn_started cbs)
                             (UserTurnStarted (te_utterance_id ev) now) s2
                  in (s3\<lparr>last_user_activity := te_timestamp ev\<rparr>, None))"

definition process_final ::
  "'a conv_state_scheme turn_callbacks \<Rightarrow> pyfloat \<Rightarrow> transcript_event \<Rightarrow> 'a conv_state_scheme
     \<Rightarrow> 'a conv_state_scheme \<times> py_exn option" where
  "process_final cbs now ev s =
     (let uid = te_utterance_id ev; txt = te_transcript ev
      in if is_user_speaking s
         then (fire (on_user_turn_completed cbs) (UserTurnCompleted uid txt now)
                 (complete_user_turn now s), None)
         else if strip txt \<noteq> [] then
           let s1 = (if is_system_speaking s then handle_interruption cbs now s else s)
           in case start_user_turn now (UtteranceStr uid) s1 of
                (s2, Some e) \<Rightarrow> (s2, Some e)
              | (s2, None) \<Rightarrow>
                  let s3 = fire (on_user_turn_started cbs) (UserTurnStarted uid now) s2;
                      s4 = complete_user_turn now s3
                  in (fire (on_user_turn_completed cbs) (UserTurnCompleted uid txt now) s4, None)
         else (s, None))"

definition process_transcript_event ::
  "'a conv_state_scheme turn_callbacks \<Rightarrow> pyfloat \<Rightarrow> transcript_event \<Rightarrow> 'a conv_state_scheme
     \<Rightarrow> 'a conv_state_scheme \<times> py_exn option" where
  "process_transcript_event cbs now ev s =
     (case te_type ev of
        PARTIAL \<Rightarrow> process_partial cbs now ev s
      | FINAL \<Rightarrow> process_final cbs now ev s)"

lemmas turn_ops = process_transcript_event_def process_partial_def process_final_def
  handle_interruption_def

section \<open>Invariant of the conversation state\<close>

text \<open>An utterance is recorded exactly while the user speaks.\<close>

definition conv_wf :: "'a conv_state_scheme \<Rightarrow> bool" where
  "conv_wf s \<longleftrightarrow> (is_user_speaking s \<longleftrightarrow> current_utterance_id s \<noteq> None)"

lemma conv_wf_new: "conv_wf (new_conversation cid now)"
  by (simp add: conv_wf_def new_conversation_def)

lemma conv_wf_start_user_turn [inv_pres]:
  "conv_wf s \<Longrightarrow> conv_wf (fst (start_user_turn now uid s))"
  by (auto simp: conv_wf_def start_user_turn_def split: option.splits utterance_arg.splits)

lemma conv_wf_complete_user_turn [inv_pres]: "conv_wf (complete_user_turn now s)"
  by (simp add: conv_wf_def complete_user_turn_def)

lemma conv_wf_system_turn [inv_pres]:
  "conv_wf s \<Longrightarrow> conv_wf (start_system_turn s)"
  "conv_wf s \<Longrightarrow> conv_wf (complete_system_turn s)"
  by (simp_all add: conv_wf_def start_system_turn_def complete_system_turn_def)

lemma conv_wf_interrupt_user [inv_pres]: "conv_wf s \<Longrightarrow> conv_wf (interrupt_user s)"
  by (auto simp: conv_wf_def interrupt_user_def)

lemma conv_wf_activity [simp]: "conv_wf (s\<lparr>last_user_activity := t\<rparr>) \<longleftrightarrow> conv_wf s"
  by (simp add: conv_wf_def)

lemma conv_wf_opened [simp]:
  "conv_wf (s\<lparr>current_utterance_id := Some n, is_user_speaking := True\<rparr>)"
  by (simp add: conv_wf_def)

lemma start_user_turn_str:
  "start_user_turn now (UtteranceStr str) s =
     (case uuid_of_string str of
        None \<Rightarrow> (s, Some ValueError)
      | Some n \<Rightarrow> (s\<lparr>current_utterance_id := Some n, is_user_speaking := True,
                     last_user_activity := now\<rparr>, None))"
  by (simp add: start_user_turn_def)

lemma interrupt_user_quiet [simp]: "\<not> is_user_speaking (interrupt_user s)"
  by (simp add: interrupt_user_def)

lemma complete_user_turn_fields [simp]:
  "\<not> is_user_speaking (complete_user_turn now s)"
  "turn_count (complete_user_turn now s) = Suc (turn_count s)"
  "is_system_speaking (complete_user_turn now s) = is_system_speaking s"
  "current_utterance_id (complete_user_turn now s) = None"
  by (simp_all add: complete_user_turn_def)

lemma system_turn_fields [simp]:
  "is_system_speaking (start_system_turn s)"
  "\<not> is_system_speaking (complete_system_turn s)"
  "is_user_speaking (start_system_turn s) = is_user_speaking s"
  "is_user_speaking (complete_system_turn s) = is_user_speaking s"
  "turn_count (start_system_turn s) = turn_count s"
  "turn_count (complete_system_turn s) = turn_count s"
  by (simp_all add: start_system_turn_def complete_system_turn_def)

lemma interrupt_user_fields [simp]:
  "turn_count (interrupt_user s) = turn_count s"
  "is_system_speaking (interrupt_user s) = is_system_speaking s"
  by (simp_all add: interrupt_user_def)

section \<open>What the turn manager promises its owner\<close>

text \<open>
  The contract between the turn manager and the session that owns it. The session's callbacks
  may do anything with their own fields and with the system's half of the turn, but they leave
  the turn counter alone, never make the user speak, and keep the state well formed; a turn that
  has just been announced as started is still open when the callback returns.
\<close>

locale turn_host =
  fixes cbs :: "'a conv_state_scheme turn_callbacks"
  assumes cb_count:
      "\<And>e s. turn_count (fire (on_user_turn_started cbs) e s) = turn_count s"
      "\<And>e s. turn_count (fire (on_user_turn_completed cbs) e s) = turn_count s"
      "\<And>e s. turn_count (fire (on_user_interrupted cbs) e s) = turn_count s"
    and cb_started_open:
      "\<And>e s. is_user_speaking (fire (on_user_turn_started cbs) e s) = is_user_speaking s"
    and cb_quiet:
      "\<And>e s. \<not> is_user_speaking s \<Longrightarrow> \<not> is_user_speaking (fire (on_user_turn_completed cbs) e s)"
      "\<And>e s. \<not> is_user_speaking s \<Longrightarrow> \<not> is_user_speaking (fire (on_user_interrupted cbs) e s)"
    and cb_wf:
      "\<And>e s. conv_wf s \<Longrightarrow> conv_wf (fire (on_user_turn_started cbs) e s)"
      "\<And>e s. conv_wf s \<Longrightarrow> conv_wf (fire (on_user_turn_completed cbs) e s)"
      "\<And>e s. conv_wf s \<Longrightarrow> conv_wf (fire (on_user_interrupted cbs) e s)"
    and cb_system:
      "\<And>e s. \<not> is_system_speaking s \<Longrightarrow> \<not> is_system_speaking (fire (on_user_turn_started cbs) e s)"
      "\<And>e s. \<not> is_system_speaking s \<Longrightarrow> \<not> is_system_speaking (fire (on_user_interrupted cbs) e s)"
begin

lemma interruption_count [simp]: "turn_count (handle_interruption cbs now s) = turn_count s"
  by (simp add: handle_interruption_def cb_count)

lemma interruption_system: "\<not> is_system_speaking (handle_interruption cbs now s)"
  by (simp add: handle_interruption_def cb_system)

lemma interruption_user: "is_system_speaking s \<Longrightarrow> \<not> is_user_speaking (handle_interruption cbs now s)"
  by (simp add: handle_interruption_def cb_quiet)

lemma interruption_wf: "conv_wf s \<Longrightarrow> conv_wf (handle_interruption cbs now s)"
  by (simp add: handle_interruption_def cb_wf inv_pres)

lemma partial_wf:
  assumes "conv_wf s"
  shows "conv_wf (fst (process_partial cbs now ev s))"
proof -
  define s1 where "s1 = (if is_system_speaking s then handle_interruption cbs now s else s)"
  have w: "conv_wf s1" by (simp add: s1_def interruption_wf assms)
  show ?thesis
    unfolding process_partial_def Let_def s1_def [symmetric]
    using w by (simp add: start_user_turn_str cb_wf split: option.split)
qed

lemma final_wf:
  assumes "conv_wf s"
  shows "conv_wf (fst (process_final cbs now ev s))"
proof -
  define s1 where "s1 = (if is_system_speaking s then handle_interruption cbs now s else s)"
  have w: "conv_wf s1" by (simp add: s1_def interruption_wf assms)
  show ?thesis
    unfolding process_final_def Let_def s1_def [symmetric]
    using w assms by (simp add: start_user_turn_str cb_wf inv_pres split: option.split)
qed

text \<open>Every transcript event keeps the conversation state well formed, errors included.\<close>

lemma event_wf: "conv_wf s \<Longrightarrow> conv_wf (fst (process_transcript_event cbs now ev s))"
  by (simp add: process_transcript_event_def partial_wf final_wf split: transcript_type.split)

text \<open>A partial transcript that is accepted leaves the user speaking and the system silent.\<close>

lemma partial_user_speaks:
  assumes "te_type ev = PARTIAL" "conv_wf s" "process_transcript_event cbs now ev s = (s', None)"
  shows "is_user_speaking s' \<and> \<not> is_system_speaking s' \<and> turn_count s' = turn_count s"
proof -
  have sys: "\<not> is_system_speaking (if is_system_speaking s then handle_interruption cbs now s else s)"
    by (simp add: interruption_system)
  show ?thesis using assms sys
    by (auto simp: process_transcript_event_def process_partial_def Let_def start_user_turn_str
        cb_count cb_started_open cb_system split: if_splits option.splits)
qed

text \<open>
  A final transcript that is accepted leaves the user silent; it counts one turn when the user
  was speaking or the text is not blank, and none otherwise.
\<close>

lemma final_closes_turn:
  assumes "te_type ev = FINAL" "process_transcript_event cbs now ev s = (s', None)"
  shows "\<not> is_user_speaking s' \<and>
    turn_count s' = turn_count s +
      (if is_user_speaking s \<or> strip (te_transcript ev) \<noteq> [] then 1 else 0)"
  using assms
  by (auto simp: process_transcript_event_def process_final_def Let_def start_user_turn_str
      cb_count cb_quiet split: if_splits option.splits)

end

text \<open>A turn manager without callbacks, as the tests construct it, satisfies the contract.\<close>

definition no_callbacks :: "'s turn_callbacks" where
  "no_callbacks = \<lparr>on_user_turn_started = None, on_user_turn_completed = None,
                   on_user_interrupted = None\<rparr>"

interpretation plain_turns: turn_host no_callbacks
  by unfold_locales (simp_all add: no_callbacks_def fire_def)

end
