(* ===== verification/Pcm.thy ===== *)
theory Pcm
  imports Prelude
begin

text \<open>
  \<^verbatim>\<open>app/voice/audio.py\<close>: PCM16 helpers. A buffer is a list of bytes; \<open>samples\<close> is
  \<^verbatim>\<open>struct.unpack("<h...")\<close> of its complete samples and \<open>pack_samples\<close> is
  \<^verbatim>\<open>struct.pack\<close>, which raises on a value that does not fit 16 bits.
  \<open>py_int\<close> is Python's \<^verbatim>\<open>int()\<close> of a float (towards zero).
\<close>

definition le16 :: "8 word \<Rightarrow> 8 word \<Rightarrow> int" where
  "le16 lo hi = (let v = uint lo + 256 * uint hi in if v \<ge> 32768 then v - 65536 else v)"

fun samples :: "bytes \<Rightarrow> int list" where
  "samples (lo # hi # bs) = le16 lo hi # samples bs"
| "samples _ = []"

definition pack16 :: "int \<Rightarrow> bytes" where
  "pack16 s = [word_of_int s, word_of_int (s div 256)]"

definition fits16 :: "int \<Rightarrow> bool" where
  "fits16 s \<longleftrightarrow> -32768 \<le> s \<and> s \<le> 32767"

definition pack_samples :: "int list \<Rightarrow> py_exn + bytes" where
  "pack_samples xs = (if list_all fits16 xs then Inr (concat (map pack16 xs)) else Inl StructError)"

definition py_int :: "'a::floor_ceiling \<Rightarrow> int" where
  "py_int x = (if x \<ge> 0 then \<lfloor>x\<rfloor> else \<lceil>x\<rceil>)"

definition pcm_frame_energy :: "bytes \<Rightarrow> pyfloat" where
  "pcm_frame_energy frame =
     (if length frame < 2 then 0
      else of_int (sum_list (map abs (samples frame))) / of_nat (length frame div 2))"

definition pcm_rms :: "bytes \<Rightarrow> real" where
  "pcm_rms frame =
     (if length frame < 2 then 0
      else sqrt (of_int (sum_list (map (\<lambda>s. s * s) (samples frame))) / of_nat (length frame div 2)))"

definition clip16 :: "int \<Rightarrow> int" where
  "clip16 x = max (-32768) (min 32767 x)"

definition normalize_pcm16 :: "real \<Rightarrow> bytes \<Rightarrow> py_exn + bytes" where
  "normalize_pcm16 target_rms frame =
     (if length frame < 2 then Inr frame
      else let rms = pcm_rms frame
           in if rms \<le> 0 then Inr frame
              else let factor = min 4 (target_rms / rms)
                   in if 85 / 100 \<le> factor \<and> factor \<le> 115 / 100 then Inr frame
                      else if odd (length frame) then Inl StructError
                      else pack_samples
                             (map (\<lambda>s. clip16 (py_int (of_int s * factor))) (samples frame)))"

function chunk_frames :: "nat \<Rightarrow> bytes \<Rightarrow> bytes list \<times> bytes" where
  "chunk_frames n data =
     (if 0 < n \<and> n \<le> length data
      then (case chunk_frames n (drop n data) of (fs, rest) \<Rightarrow> (take n data # fs, rest))
      else ([], data))"
  by pat_completeness auto
termination
  by (relation "measure (\<lambda>(n, data). length data)") auto

declare chunk_frames.simps [simp del]

definition chunk_pcm_bytes :: "bytes \<Rightarrow> int \<Rightarrow> bytes list \<times> bytes" where
  "chunk_pcm_bytes data frame_bytes =
     (if frame_bytes \<le> 0 then (if data \<noteq> [] then [data] else [], [])
      else chunk_frames (nat frame_bytes) data)"

definition pcm16_duration_seconds :: "nat \<Rightarrow> int \<Rightarrow> pyfloat" where
  "pcm16_duration_seconds num_bytes sample_rate =
     (if sample_rate \<le> 0 then 0 else of_nat (num_bytes div 2) / of_int sample_rate)"

section \<open>Bytes and samples\<close>

lemma le16_range: "fits16 (le16 lo hi)"
proof -
  define a b where "a = uint lo" and "b = uint hi"
  have "0 \<le> a" "a < 256" "0 \<le> b" "b < 256"
    using uint_lt2p [of lo] uint_lt2p [of hi] by (simp_all add: a_def b_def)
  then show ?thesis unfolding le16_def fits16_def Let_def a_def [symmetric] b_def [symmetric] by auto
qed

lemma samples_fit: "list_all fits16 (samples bs)"
  by (induction bs rule: samples.induct) (simp_all add: le16_range)

lemma length_samples: "length (samples bs) = length bs div 2"
  by (induction bs rule: samples.induct) simp_all

lemma le16_pack16: "fits16 s \<Longrightarrow> le16 (word_of_int s) (word_of_int (s div 256)) = s"
proof -
  assume a: "fits16 s"
  have d: "s div 256 div 256 = (if s < 0 then -1 else 0)" using a by (auto simp: fits16_def)
  have lo: "uint (word_of_int s :: 8 word) = s mod 256"
    by (simp add: uint_word_of_int)
  have hi: "uint (word_of_int (s div 256) :: 8 word) = s div 256 mod 256"
    by (simp add: uint_word_of_int)
  have "s mod 256 + 256 * (s div 256 mod 256) = s mod 65536"
    using zmod_zmult2_eq [of 256 s 256] by simp
  moreover have "s mod 65536 = (if s < 0 then s + 65536 else s)"
  proof (cases "s < 0")
    case True
    have "(s + 65536) mod 65536 = s + 65536" using a True by (intro mod_pos_pos_trivial) (auto simp: fits16_def)
    then show ?thesis using True by simp
  qed (use a in \<open>auto simp: fits16_def\<close>)
  ultimately show ?thesis using a by (auto simp: le16_def Let_def lo hi fits16_def)
qed

lemma samples_pack16_Cons: "fits16 s \<Longrightarrow> samples (pack16 s @ bs) = s # samples bs"
  by (simp add: pack16_def le16_pack16)

text \<open>Packing and unpacking are inverse on samples of 16 bits.\<close>

lemma samples_pack: "pack_samples xs = Inr bs \<Longrightarrow> samples bs = xs"
proof -
  assume "pack_samples xs = Inr bs"
  then have a: "list_all fits16 xs" and bs: "bs = concat (map pack16 xs)"
    by (auto simp: pack_samples_def split: if_splits)
  have "samples (concat (map pack16 xs)) = xs" using a
    by (induction xs) (simp_all add: samples_pack16_Cons)
  then show ?thesis by (simp add: bs)
qed

lemma le16_parts:
  fixes a b :: int
  assumes "0 \<le> a" "a < 256" "0 \<le> b" "b < 256"
    and "v = a + 256 * b \<or> v = a + 256 * b - 65536"
  shows "v mod 256 = a" "v div 256 mod 256 = b"
proof -
  obtain c where c: "v = a + 256 * c" "c = b \<or> c = b - 256" using assms(5) by force
  have "a mod 256 = a" "a div 256 = 0" using assms by simp_all
  then show "v mod 256 = a" by (simp add: c(1))
  have "b mod 256 = b" using assms by simp
  moreover have "(b - 256) mod 256 = b mod 256" by (rule minus_mod_self2)
  ultimately show "v div 256 mod 256 = b" using c \<open>a div 256 = 0\<close> by auto
qed

lemma pack_le16: "pack16 (le16 lo hi) = [lo, hi]"
proof -
  have b: "0 \<le> uint lo" "uint lo < 256" "0 \<le> uint hi" "uint hi < 256"
    using uint_lt2p [of lo] uint_lt2p [of hi] by simp_all
  have e: "le16 lo hi = uint lo + 256 * uint hi \<or> le16 lo hi = uint lo + 256 * uint hi - 65536"
    by (auto simp: le16_def Let_def)
  note parts = le16_parts [OF b e]
  have "uint (word_of_int (le16 lo hi) :: 8 word) = uint lo"
    using parts(1) by (simp add: uint_word_of_int)
  moreover have "uint (word_of_int (le16 lo hi div 256) :: 8 word) = uint hi"
    using parts(2) by (simp add: uint_word_of_int)
  ultimately show ?thesis by (simp add: pack16_def word_uint_eq_iff)
qed

lemma pack_samples_of_samples: "even (length bs) \<Longrightarrow> pack_samples (samples bs) = Inr bs"
proof -
  assume "even (length bs)"
  then have "concat (map pack16 (samples bs)) = bs"
    by (induction bs rule: samples.induct) (simp_all add: pack_le16)
  then show ?thesis using samples_fit [of bs] by (simp add: pack_samples_def)
qed

lemma length_pack_samples: "pack_samples xs = Inr bs \<Longrightarrow> length bs = 2 * length xs"
  by (auto simp: pack_samples_def pack16_def length_concat comp_def sum_list_triv split: if_splits)

lemma samples_append:
  "even (length a) \<Longrightarrow> samples (a @ b) = samples a @ samples b"
  by (induction a rule: samples.induct) simp_all

section \<open>Energy\<close>

lemma fits16_abs: "fits16 s \<Longrightarrow> \<bar>s\<bar> \<le> 32768"
  by (auto simp: fits16_def)

lemma sum_abs_bound: "list_all fits16 xs \<Longrightarrow> sum_list (map abs xs) \<le> 32768 * int (length xs)"
  by (induction xs) (auto dest!: fits16_abs)

lemma pcm_frame_energy_nonneg: "0 \<le> pcm_frame_energy frame"
proof -
  have "0 \<le> sum_list (map abs (samples frame))" by (intro sum_list_nonneg) auto
  then show ?thesis by (simp add: pcm_frame_energy_def zero_le_divide_iff)
qed

lemma pcm_frame_energy_bound: "pcm_frame_energy frame \<le> 32768"
proof (cases "length frame < 2")
  case False
  then have n: "0 < length frame div 2" by simp
  have "sum_list (map abs (samples frame)) \<le> 32768 * int (length frame div 2)"
    using sum_abs_bound [OF samples_fit] by (simp add: length_samples)
  then have "of_int (sum_list (map abs (samples frame))) \<le> (32768 * of_nat (length frame div 2) :: rat)"
    using of_int_le_iff [of "sum_list (map abs (samples frame))" "32768 * int (length frame div 2)", where ?'a = rat]
    by simp
  then show ?thesis using n False by (simp add: pcm_frame_energy_def divide_le_eq)
qed (simp add: pcm_frame_energy_def)

section \<open>Normalisation\<close>

lemma clip16_fits: "fits16 (clip16 x)"
  by (simp add: clip16_def fits16_def)

lemma if_chain_values:
  "\<not> d \<Longrightarrow> (if a then x else if b then x else if c then x else if d then z else y) \<in> {x, y}"
  by simp

lemma all_clipped: "list_all fits16 (map (\<lambda>s. clip16 (f s)) xs)"
  by (induction xs) (simp_all add: clip16_fits)

lemma pack_clipped:
  "\<exists>out. pack_samples (map (\<lambda>s. clip16 (f s)) xs) = Inr out \<and> length out = 2 * length xs"
  using all_clipped [of f xs] length_pack_samples [of "map (\<lambda>s. clip16 (f s)) xs"]
  by (auto simp: pack_samples_def)

text \<open>On whole samples normalisation never raises and never changes the length.\<close>

lemma normalize_total:
  assumes "even (length frame)"
  shows "\<exists>out. normalize_pcm16 t frame = Inr out \<and> length out = length frame"
proof -
  obtain out where p: "pack_samples (map (\<lambda>s. clip16 (py_int (of_int s * min 4 (t / pcm_rms frame))))
      (samples frame)) = Inr out" and len: "length out = length frame"
    using pack_clipped [of "\<lambda>s. py_int (of_int s * min 4 (t / pcm_rms frame))" "samples frame"] assms
    by (auto simp: length_samples)
  have "normalize_pcm16 t frame \<in> {Inr frame, Inr out}"
    unfolding normalize_pcm16_def Let_def p by (rule if_chain_values) (use assms in simp)
  then show ?thesis using len by blast
qed

section \<open>Chunking\<close>

lemma chunk_frames_spec:
  "0 < n \<Longrightarrow> chunk_frames n data = (fs, rest) \<Longrightarrow>
   concat fs @ rest = data \<and> (\<forall>f\<in>set fs. length f = n) \<and> length rest < n \<and> length fs = length data div n"
proof (induction n data arbitrary: fs rest rule: chunk_frames.induct)
  case (1 n data)
  show ?case
  proof (cases "n \<le> length data")
    case True
    obtain fs' where c: "chunk_frames n (drop n data) = (fs', rest)" and fs: "fs = take n data # fs'"
      using 1(3) True 1(2) by (subst (asm) chunk_frames.simps) (auto split: prod.splits)
    have "length data div n = Suc ((length data - n) div n)"
      using True 1(2) by (simp add: le_div_geq)
    moreover have "concat fs' @ rest = drop n data \<and> (\<forall>f\<in>set fs'. length f = n) \<and> length rest < n
        \<and> length fs' = length (drop n data) div n"
      using 1(1) [OF _ 1(2) c] True 1(2) by blast
    ultimately show ?thesis using True by (simp add: fs)
  next
    case False
    then show ?thesis using 1(2,3) by (subst (asm) chunk_frames.simps) (simp split: if_splits)
  qed
qed

section \<open>The streaming resampler\<close>

record resampler =
  rs_step :: rat
  rs_same :: bool
  rs_pos :: rat
  rs_last :: "int option"
  rs_odd :: bytes

definition new_resampler :: "int \<Rightarrow> int \<Rightarrow> py_exn + resampler" where
  "new_resampler src_rate dst_rate =
     (if src_rate \<le> 0 \<or> dst_rate \<le> 0 then Inl ValueError
      else Inr \<lparr>rs_step = of_int src_rate / of_int dst_rate, rs_same = (src_rate = dst_rate),
                rs_pos = 0, rs_last = None, rs_odd = []\<rparr>)"

definition interpolate :: "int list \<Rightarrow> rat \<Rightarrow> int" where
  "interpolate xs pos =
     (let i = nat (py_int pos); frac = pos - of_nat i
      in py_int (of_int (xs ! i) + of_int (xs ! Suc i - xs ! i) * frac))"

text \<open>The output loop: it stops because every turn moves \<open>pos\<close> on by the positive step.\<close>

function resample_loop :: "rat \<Rightarrow> int list \<Rightarrow> rat \<Rightarrow> int list \<times> rat" where
  "resample_loop step xs pos =
     (if 0 < step \<and> pos < of_int (int (length xs) - 1)
      then (case resample_loop step xs (pos + step) of (out, p) \<Rightarrow> (interpolate xs pos # out, p))
      else ([], pos))"
  by pat_completeness auto
termination
proof (relation "measure (\<lambda>(step, xs, pos). nat \<lceil>(of_int (int (length xs) - 1) - pos) / step\<rceil>)")
  fix step pos :: rat and xs :: "int list"
  assume a: "0 < step \<and> pos < of_int (int (length xs) - 1)"
  let ?d = "of_int (int (length xs) - 1) - pos"
  have e: "(?d - step) / step = ?d / step - 1" using a by (simp add: diff_divide_distrib)
  have "0 < ?d / step" using a by simp
  then have "0 < \<lceil>?d / step\<rceil>" by simp
  moreover have "\<lceil>?d / step - 1\<rceil> = \<lceil>?d / step\<rceil> - 1" by (simp add: ceiling_diff_one)
  ultimately show "((step, xs, pos + step), step, xs, pos)
    \<in> measure (\<lambda>(step, xs, pos). nat \<lceil>(of_int (int (length xs) - 1) - pos) / step\<rceil>)"
    using e by (simp add: diff_diff_eq [symmetric])
qed simp

declare resample_loop.simps [simp del]

definition resample_process :: "bytes \<Rightarrow> resampler \<Rightarrow> (py_exn + bytes) \<times> resampler" where
  "resample_process chunk r =
     (if chunk = [] then (Inr [], r)
      else let all_bytes = rs_odd r @ chunk;
               is_odd = odd (length all_bytes);
               data = (if is_odd then butlast all_bytes else all_bytes);
               r1 = r\<lparr>rs_odd := (if is_odd then [last all_bytes] else [])\<rparr>
           in if rs_same r \<or> data = [] then (Inr data, r1)
              else let xs = (case rs_last r of None \<Rightarrow> samples data | Some l \<Rightarrow> l # samples data);
                       last_index = int (length xs) - 1
                   in (case resample_loop (rs_step r) xs (rs_pos r) of
                         (out, pos) \<Rightarrow>
                           (pack_samples out,
                            r1\<lparr>rs_pos := pos - of_int last_index, rs_last := Some (last xs)\<rparr>)))"

text \<open>An interpolated value lies between its two neighbours, so it fits 16 bits.\<close>

lemma py_int_between:
  fixes x :: rat
  assumes "of_int a \<le> x" "x \<le> of_int b"
  shows "a \<le> py_int x" "py_int x \<le> b"
proof -
  have "of_int a \<le> (of_int \<lceil>x\<rceil> :: rat)" using assms(1) le_of_int_ceiling order_trans by blast
  then show "a \<le> py_int x" using assms(1) by (simp add: py_int_def le_floor_iff)
  have "(of_int \<lfloor>x\<rfloor> :: rat) \<le> of_int b" using assms(2) of_int_floor_le order_trans by blast
  then show "py_int x \<le> b" using assms(2) by (simp add: py_int_def ceiling_le_iff)
qed

end
