(* ===== verification/SttEngine.thy ===== *)
theory SttEngine
  imports Conversation Pcm
begin

text \<open>
  Speech recognition: the mock engine of \<^verbatim>\<open>app/stt/engine.py\<close>, the consumer of
  \<^verbatim>\<open>app/stt/consumer.py\<close> and the message logic of
  \<^verbatim>\<open>app/stt/providers/deepgram_engine.py\<close>. Random draws, fresh identifiers and clock readings
  are arguments.
\<close>

section \<open>The mock engine\<close>

record mock_stt =
  partial_interval :: int
  word_probability :: pyfloat
  silence_threshold :: int
  energy_threshold :: "pyfloat option"
  ms_utterance_id :: "string option"
  ms_frame_count :: int
  ms_silence_count :: int
  ms_words :: "ustr list"

definition mock_words :: "ustr list" where
  "mock_words = map u [''hello'', ''yes'', ''no'', ''please'', ''thank'', ''you'', ''help'', ''support'',
     ''account'', ''balance'', ''information'', ''service'']"

definition new_mock_stt :: "int \<Rightarrow> pyfloat \<Rightarrow> int \<Rightarrow> pyfloat option \<Rightarrow> mock_stt" where
  "new_mock_stt iv wp st et =
     \<lparr>partial_interval = iv, word_probability = wp, silence_threshold = st, energy_threshold = et,
      ms_utterance_id = None, ms_frame_count = 0, ms_silence_count = 0, ms_words = []\<rparr>"

record mock_draws =
  md_uuid :: string
  md_random :: pyfloat
  md_word :: nat
  md_confidence :: pyfloat
  md_now :: pyfloat

definition mock_reset :: "mock_stt \<Rightarrow> mock_stt" where
  "mock_reset m = m\<lparr>ms_utterance_id := None, ms_frame_count := 0, ms_silence_count := 0, ms_words := []\<rparr>"

definition mock_finalize :: "mock_draws \<Rightarrow> mock_stt \<Rightarrow> (py_exn + transcript_event option) \<times> mock_stt" where
  "mock_finalize d m =
     (if ms_words m = [] then (Inr None, m)
      else case mk_transcript_event FINAL
                  (case ms_utterance_id m of Some i \<Rightarrow> if i = [] then md_uuid d else i | None \<Rightarrow> md_uuid d)
                  (join (u '' '') (ms_words m)) (md_confidence d) (md_now d) of
             Inl e \<Rightarrow> (Inl e, m)
           | Inr ev \<Rightarrow> (Inr (Some ev), mock_reset m))"

definition mock_hear :: "mock_draws \<Rightarrow> bool \<Rightarrow> mock_stt \<Rightarrow> mock_stt" where
  "mock_hear d audible m =
     (if audible \<and> md_random d < word_probability m
      then m\<lparr>ms_words := ms_words m @ [mock_words ! (md_word d mod length mock_words)], ms_silence_count := 0\<rparr>
      else if energy_threshold m = None \<or> \<not> audible
      then m\<lparr>ms_silence_count := ms_silence_count m + 1\<rparr>
      else m)"

definition mock_process_audio ::
  "mock_draws \<Rightarrow> bytes \<Rightarrow> mock_stt \<Rightarrow> (py_exn + transcript_event option) \<times> mock_stt" where
  "mock_process_audio d fr m0 =
     (let uid = (case ms_utterance_id m0 of None \<Rightarrow> md_uuid d | Some i \<Rightarrow> i);
          m1 = m0\<lparr>ms_utterance_id := Some uid, ms_frame_count := ms_frame_count m0 + 1\<rparr>;
          audible = (case energy_threshold m1 of None \<Rightarrow> True | Some th \<Rightarrow> th \<le> pcm_frame_energy fr)
      in if \<not> audible \<and> ms_words m1 = [] then (Inr None, m1\<lparr>ms_frame_count := 0\<rparr>)
         else let m2 = mock_hear d audible m1
              in if partial_interval m2 = 0 then (Inl ZeroDivisionError, m2)
                 else if ms_frame_count m2 mod partial_interval m2 = 0 \<and> ms_words m2 \<noteq> []
                 then (map_sum id Some (mk_transcript_event PARTIAL uid (join (u '' '') (ms_words m2))
                         (md_confidence d) (md_now d)), m2)
                 else if silence_threshold m2 \<le> ms_silence_count m2 \<and> ms_words m2 \<noteq> []
                 then mock_finalize d m2
                 else (Inr None, m2))"

text \<open>Words are only heard with an utterance open, and the words of a final transcript are all of them.\<close>

definition mock_wf :: "mock_stt \<Rightarrow> bool" where
  "mock_wf m \<longleftrightarrow> (ms_words m \<noteq> [] \<longrightarrow> ms_utterance_id m \<noteq> None) \<and> partial_interval m \<noteq> 0
     \<and> 0 \<le> ms_frame_count m \<and> 0 \<le> ms_silence_count m"

definition draws_ok :: "mock_draws \<Rightarrow> bool" where
  "draws_ok d \<longleftrightarrow> 7 / 10 \<le> md_confidence d \<and> md_confidence d \<le> 99 / 100"

lemma mk_event_ok: "0 \<le> c \<Longrightarrow> c \<le> 1 \<Longrightarrow>
   mk_transcript_event k v t c now = Inr \<lparr>te_type = k, te_utterance_id = v, te_transcript = t,
     te_confidence = c, te_timestamp = now\<rparr>"
  by (simp add: mk_transcript_event_def)

lemma draws_conf: "draws_ok d \<Longrightarrow> 0 \<le> md_confidence d \<and> md_confidence d \<le> 1"
  by (auto simp: draws_ok_def)

lemma mock_wf_reset [inv_pres]: "mock_wf m \<Longrightarrow> mock_wf (mock_reset m)"
  by (simp add: mock_wf_def mock_reset_def)

lemma mock_hear_wf [inv_pres]: "mock_wf m \<Longrightarrow> ms_utterance_id m \<noteq> None \<Longrightarrow> mock_wf (mock_hear d a m)"
  by (simp add: mock_wf_def mock_hear_def)

lemma mock_hear_frame [frame]:
  "ms_utterance_id (mock_hear d a m) = ms_utterance_id m" "partial_interval (mock_hear d a m) = partial_interval m"
  "silence_threshold (mock_hear d a m) = silence_threshold m"
  by (simp_all add: mock_hear_def)

lemma mock_finalize_spec:
  assumes "draws_ok d"
  shows "mock_finalize d m =
    (if ms_words m = [] then (Inr None, m)
     else (Inr (Some \<lparr>te_type = FINAL,
        te_utterance_id = (case ms_utterance_id m of Some i \<Rightarrow> if i = [] then md_uuid d else i | None \<Rightarrow> md_uuid d),
        te_transcript = join (u '' '') (ms_words m), te_confidence = md_confidence d, te_timestamp = md_now d\<rparr>),
      mock_reset m))"
  using draws_conf [OF assms] by (simp add: mock_finalize_def mk_event_ok)

lemma mock_process_result:
  assumes "mock_wf m" "draws_ok d"
  shows "\<exists>r m'. mock_process_audio d fr m = (Inr r, m') \<and> mock_wf m'
    \<and> (case r of None \<Rightarrow> True
       | Some ev \<Rightarrow> (te_type ev = FINAL \<longrightarrow> ms_words m' = [] \<and> ms_utterance_id m' = None)
                  \<and> (te_type ev = PARTIAL \<longrightarrow> ms_utterance_id m' = Some (te_utterance_id ev)
                       \<and> te_transcript ev = join (u '' '') (ms_words m')))"
proof -
  define uid where "uid = (case ms_utterance_id m of None \<Rightarrow> md_uuid d | Some i \<Rightarrow> i)"
  define m1 where "m1 = m\<lparr>ms_utterance_id := Some uid, ms_frame_count := ms_frame_count m + 1\<rparr>"
  define a where "a = (case energy_threshold m1 of None \<Rightarrow> True | Some th \<Rightarrow> th \<le> pcm_frame_energy fr)"
  define m2 where "m2 = mock_hear d a m1"
  have w1: "mock_wf m1" using assms(1) by (auto simp: mock_wf_def m1_def)
  have w2: "mock_wf m2" "ms_utterance_id m2 = Some uid" "partial_interval m2 \<noteq> 0"
    using mock_hear_wf [OF w1] w1 by (auto simp: m2_def frame m1_def mock_wf_def)
  have wz: "mock_wf (m1\<lparr>ms_frame_count := 0\<rparr>)" using w1 by (simp add: mock_wf_def)
  have p: "mock_process_audio d fr m =
      (if \<not> a \<and> ms_words m1 = [] then (Inr None, m1\<lparr>ms_frame_count := 0\<rparr>)
       else if ms_frame_count m2 mod partial_interval m2 = 0 \<and> ms_words m2 \<noteq> []
       then (Inr (Some \<lparr>te_type = PARTIAL, te_utterance_id = uid, te_transcript = join (u '' '') (ms_words m2),
               te_confidence = md_confidence d, te_timestamp = md_now d\<rparr>), m2)
       else if silence_threshold m2 \<le> ms_silence_count m2 \<and> ms_words m2 \<noteq> [] then mock_finalize d m2
       else (Inr None, m2))"
    unfolding mock_process_audio_def Let_def uid_def [symmetric] m1_def [symmetric] a_def [symmetric]
      m2_def [symmetric]
    using draws_conf [OF assms(2)] w2(3) by (simp add: mk_event_ok)
  show ?thesis unfolding p mock_finalize_spec [OF assms(2)]
    using w2 wz mock_wf_reset [OF w2(1)] by (auto simp: mock_reset_def)
qed

section \<open>The consumer\<close>

text \<open>
  \<open>sc_queue\<close> is the \<^verbatim>\<open>asyncio.Queue\<close> (\<^verbatim>\<open>maxsize\<close> zero or less means unbounded); \<open>None\<close>
  is the shutdown signal. The engine and the two callbacks are functions on a state \<open>'e\<close> of the world.
\<close>

record stt_consumer =
  sc_max_queue :: int
  sc_queue :: "bytes option list"
  sc_running :: bool
  sc_task :: bool
  frames_processed :: nat
  frames_dropped :: nat

record 'e stt_world =
  sw_process :: "bytes \<Rightarrow> 'e \<Rightarrow> (py_exn + transcript_event option) \<times> 'e"
  sw_finalize :: "'e \<Rightarrow> (py_exn + transcript_event option) \<times> 'e"
  sw_transcript :: "(transcript_event \<Rightarrow> 'e \<Rightarrow> 'e) option"
  sw_error :: "(py_exn \<Rightarrow> 'e \<Rightarrow> 'e) option"
  sw_close :: "'e \<Rightarrow> 'e"

definition new_stt_consumer :: "int \<Rightarrow> stt_consumer" where
  "new_stt_consumer n = \<lparr>sc_max_queue = n, sc_queue = [], sc_running = False, sc_task = False,
     frames_processed = 0, frames_dropped = 0\<rparr>"

definition stt_start :: "stt_consumer \<Rightarrow> stt_consumer" where
  "stt_start c = (if sc_running c then c else c\<lparr>sc_running := True, sc_task := True\<rparr>)"

definition queue_full :: "stt_consumer \<Rightarrow> bool" where
  "queue_full c \<longleftrightarrow> 0 < sc_max_queue c \<and> sc_max_queue c \<le> int (length (sc_queue c))"

definition stt_process_frame :: "bytes \<Rightarrow> stt_consumer \<Rightarrow> bool \<times> stt_consumer" where
  "stt_process_frame fr c =
     (if queue_full c then (False, c\<lparr>frames_dropped := frames_dropped c + 1\<rparr>)
      else (True, c\<lparr>sc_queue := sc_queue c @ [Some fr]\<rparr>))"

definition call_opt :: "('x \<Rightarrow> 'e \<Rightarrow> 'e) option \<Rightarrow> 'x \<Rightarrow> 'e \<Rightarrow> 'e" where
  "call_opt f x w = (case f of None \<Rightarrow> w | Some g \<Rightarrow> g x w)"

text \<open>
  One iteration of \<^verbatim>\<open>_process_loop\<close>: \<open>None\<close> is the loop's end (the flag is down or the signal
  came), \<open>Some\<close> the state after one frame. With an empty queue the loop waits, which is no step.
\<close>

definition stt_loop_once :: "'e stt_world \<Rightarrow> stt_consumer \<times> 'e \<Rightarrow> (stt_consumer \<times> 'e) option" where
  "stt_loop_once w st = (case st of (c, e) \<Rightarrow>
     if \<not> sc_running c then None
     else (case sc_queue c of
        [] \<Rightarrow> Some (c, e)
      | None # q \<Rightarrow> None
      | Some fr # q \<Rightarrow>
          let c1 = c\<lparr>sc_queue := q\<rparr>
          in (case sw_process w fr e of
                (Inl ex, e1) \<Rightarrow> Some (c1, call_opt (sw_error w) ex e1)
              | (Inr r, e1) \<Rightarrow>
                  Some (c1\<lparr>frames_processed := frames_processed c1 + 1\<rparr>,
                        case r of None \<Rightarrow> e1 | Some ev \<Rightarrow> call_opt (sw_transcript w) ev e1))))"

text \<open>
  \<^verbatim>\<open>stop\<close>. The flag goes down first, so the loop takes nothing more from the queue unless it is
  waiting inside \<^verbatim>\<open>get\<close> (\<open>in_get\<close>, possible only with an empty queue). \<^verbatim>\<open>put(None)\<close> waits
  for room: \<open>StopWaits\<close> is a stop that waits for a loop that has ended.
\<close>

datatype ('e) stop_result = StopDone stt_consumer 'e | StopWaits stt_consumer 'e

definition stt_finalize :: "'e stt_world \<Rightarrow> 'e \<Rightarrow> 'e" where
  "stt_finalize w e =
     (case sw_finalize w e of
        (Inl ex, e1) \<Rightarrow> e1
      | (Inr None, e1) \<Rightarrow> e1
      | (Inr (Some ev), e1) \<Rightarrow> call_opt (sw_transcript w) ev e1)"

definition stt_stop :: "'e stt_world \<Rightarrow> stt_consumer \<times> 'e \<Rightarrow> 'e stop_result" where
  "stt_stop w st = (case st of (c, e) \<Rightarrow>
     if \<not> sc_running c then StopDone c e
     else let c1 = c\<lparr>sc_running := False\<rparr>;
              e1 = stt_finalize w e
          in if queue_full c1 then StopWaits c1 e1
             else StopDone (c1\<lparr>sc_queue := sc_queue c1 @ [None], sc_task := False\<rparr>) (sw_close w e1))"

definition consumer_wf :: "stt_consumer \<Rightarrow> bool" where
  "consumer_wf c \<longleftrightarrow> 0 < sc_max_queue c \<and> int (length (sc_queue c)) \<le> sc_max_queue c"

lemma consumer_wf_frame [inv_pres]: "consumer_wf c \<Longrightarrow> consumer_wf (snd (stt_process_frame fr c))"
  by (auto simp: consumer_wf_def stt_process_frame_def queue_full_def)

lemma consumer_wf_loop [inv_pres]: "consumer_wf c \<Longrightarrow> stt_loop_once w (c, e) = Some (c', e') \<Longrightarrow> consumer_wf c'"
  by (auto simp: consumer_wf_def stt_loop_once_def Let_def split: if_splits list.splits option.splits prod.splits sum.splits)

text \<open>Every frame offered is queued or counted as dropped.\<close>

lemma process_frame_balance:
  "frames_dropped (snd (stt_process_frame fr c)) + length (sc_queue (snd (stt_process_frame fr c)))
     = frames_dropped c + length (sc_queue c) + 1"
  "fst (stt_process_frame fr c) \<longleftrightarrow> frames_dropped (snd (stt_process_frame fr c)) = frames_dropped c"
  by (simp_all add: stt_process_frame_def)

text \<open>
  A consumer stopped while its queue is full never finishes stopping: the loop has seen the flag and
  takes nothing more, so the signal never finds room.
\<close>

lemma stop_waits:
  assumes "sc_running c" "queue_full c"
  shows "\<exists>c' e'. stt_stop w (c, e) = StopWaits c' e' \<and> queue_full c' \<and> stt_loop_once w (c', e'') = None"
  using assms by (simp add: stt_stop_def Let_def stt_loop_once_def queue_full_def)

lemma stop_done:
  assumes "sc_running c" "\<not> queue_full c"
  shows "stt_stop w (c, e) = StopDone (c\<lparr>sc_running := False, sc_queue := sc_queue c @ [None], sc_task := False\<rparr>)
    (sw_close w (stt_finalize w e))"
  using assms by (simp add: stt_stop_def Let_def queue_full_def)

section \<open>Deepgram messages\<close>

text \<open>A decoded message: its type, the alternatives of its channel, and its two flags.\<close>

record dg_payload =
  dp_utterance_end :: bool
  dp_alternatives :: "(ustr option \<times> pyfloat option) list"
  dp_is_final :: bool
  dp_speech_final :: bool

record deepgram =
  dg_utterance_id :: "string option"
  dg_segments :: "ustr list"
  dg_events :: "transcript_event list"
  dg_connected :: bool

definition dg_final_event :: "pyfloat \<Rightarrow> string \<Rightarrow> pyfloat \<Rightarrow> deepgram \<Rightarrow> (py_exn + transcript_event option) \<times> deepgram" where
  "dg_final_event now uid conf g =
     (map_sum id Some (mk_transcript_event FINAL uid (join (u '' '') (dg_segments g)) conf now),
      g\<lparr>dg_segments := [], dg_utterance_id := None\<rparr>)"

definition parse_result ::
  "pyfloat \<Rightarrow> string \<Rightarrow> dg_payload \<Rightarrow> deepgram \<Rightarrow> (py_exn + transcript_event option) \<times> deepgram" where
  "parse_result now fresh pl g =
     (let uid = (case dg_utterance_id g of Some i \<Rightarrow> if i = [] then fresh else i | None \<Rightarrow> fresh)
      in if dp_utterance_end pl
         then if dg_segments g = [] then (Inr None, g) else dg_final_event now uid 1 g
         else (case dp_alternatives pl of
            [] \<Rightarrow> (Inr None, g)
          | (tr0, conf0) # _ \<Rightarrow>
              let tr = strip (case tr0 of None \<Rightarrow> [] | Some t \<Rightarrow> t);
                  conf = min 1 (max 0 (case conf0 of None \<Rightarrow> 0 | Some c \<Rightarrow> c));
                  g1 = (if dp_is_final pl \<and> tr \<noteq> [] then g\<lparr>dg_segments := dg_segments g @ [tr]\<rparr> else g)
              in if dp_speech_final pl
                 then if dg_segments g1 = [] then (Inr None, g1) else dg_final_event now uid conf g1
                 else if tr = [] then (Inr None, g1)
                 else (map_sum id Some (mk_transcript_event PARTIAL uid
                         (if dp_is_final pl then join (u '' '') (dg_segments g1)
                          else join (u '' '') (dg_segments g1 @ [tr])) conf now), g1)))"

definition dg_receive :: "pyfloat \<Rightarrow> string \<Rightarrow> dg_payload \<Rightarrow> deepgram \<Rightarrow> deepgram" where
  "dg_receive now fresh pl g =
     (case parse_result now fresh pl g of
        (Inr (Some ev), g1) \<Rightarrow> g1\<lparr>dg_events := dg_events g1 @ [ev]\<rparr>
      | (_, g1) \<Rightarrow> g1)"

definition dg_dequeue :: "deepgram \<Rightarrow> transcript_event option \<times> deepgram" where
  "dg_dequeue g = (case dg_events g of [] \<Rightarrow> (None, g) | ev # evs \<Rightarrow> (Some ev, g\<lparr>dg_events := evs\<rparr>))"

definition dg_close :: "deepgram \<Rightarrow> deepgram" where
  "dg_close g = g\<lparr>dg_connected := False\<rparr>"

definition dg_reset :: "deepgram \<Rightarrow> deepgram" where
  "dg_reset g = dg_close (g\<lparr>dg_utterance_id := None, dg_segments := [], dg_events := []\<rparr>)"

definition dg_process_audio :: "string \<Rightarrow> deepgram \<Rightarrow> transcript_event option \<times> deepgram" where
  "dg_process_audio fresh g =
     (let g1 = g\<lparr>dg_connected := True,
                 dg_utterance_id := (case dg_utterance_id g of None \<Rightarrow> Some fresh | Some i \<Rightarrow> Some i)\<rparr>
      in dg_dequeue g1)"

text \<open>
  \<^verbatim>\<open>finalize_utterance\<close> polls until a final event or the deadline; \<open>polls\<close> says what arrives
  before each poll that the deadline still allows.
\<close>

fun dg_poll :: "(pyfloat \<times> string \<times> dg_payload) list list \<Rightarrow> transcript_event option \<Rightarrow> deepgram
    \<Rightarrow> transcript_event option \<times> deepgram" where
  "dg_poll [] best g = (best, g)"
| "dg_poll (msgs # polls) best g =
     (let g1 = foldl (\<lambda>g m. dg_receive (fst m) (fst (snd m)) (snd (snd m)) g) g msgs
      in case dg_dequeue g1 of
           (None, g2) \<Rightarrow> dg_poll polls best g2
         | (Some ev, g2) \<Rightarrow> if te_type ev = FINAL then (Some ev, g2) else dg_poll polls (Some ev) g2)"

definition dg_finalize :: "(pyfloat \<times> string \<times> dg_payload) list list \<Rightarrow> deepgram \<Rightarrow> transcript_event option \<times> deepgram" where
  "dg_finalize polls g = (case dg_poll polls None g of (r, g1) \<Rightarrow> (r, dg_reset g1))"

text \<open>Clamping keeps every confidence in range, so no message makes the engine raise.\<close>

lemma parse_result_total: "\<exists>r. fst (parse_result now fresh pl g) = Inr r"
proof -
  have c: "0 \<le> min 1 (max 0 x)" "min 1 (max 0 x) \<le> 1" for x :: rat by (auto simp: min_def max_def)
  show ?thesis
    by (auto simp: parse_result_def Let_def dg_final_event_def mk_event_ok c split: list.splits)
qed

text \<open>
  The words of finished segments: what the final events say, followed by what is still collected, is
  what the messages marked final, in order.
\<close>

definition final_words :: "dg_payload \<Rightarrow> ustr" where
  "final_words pl = (if dp_utterance_end pl \<or> \<not> dp_is_final pl then []
     else case dp_alternatives pl of [] \<Rightarrow> [] | (t, c) # _ \<Rightarrow> (case t of None \<Rightarrow> [] | Some t \<Rightarrow> t))"

definition finals_text :: "transcript_event list \<Rightarrow> ustr" where
  "finals_text evs = concat (map (\<lambda>ev. if te_type ev = FINAL then te_transcript ev else []) evs)"

lemma inked_join: "inked (join (u '' '') ss) = inked (concat ss)"
proof (induction "u '' ''" ss rule: join.induct)
  case (3 x y xs)
  have "inked (u '' '') = []" by (simp add: inked_def u_def py_space_def)
  then show ?case using 3 by simp
qed simp_all

lemma dg_receive_words:
  "inked (finals_text (dg_events (dg_receive now fresh pl g))) @ inked (concat (dg_segments (dg_receive now fresh pl g)))
     = inked (finals_text (dg_events g)) @ inked (concat (dg_segments g)) @ inked (final_words pl)"
proof -
  have c: "0 \<le> min 1 (max 0 x)" "min 1 (max 0 x) \<le> 1" for x :: rat by (auto simp: min_def max_def)
  show ?thesis
  proof (cases "dp_utterance_end pl")
    case True
    then show ?thesis
      by (auto simp: dg_receive_def parse_result_def Let_def dg_final_event_def mk_event_ok final_words_def
          finals_text_def inked_join)
  next
    case ne: False
    show ?thesis
    proof (cases "dp_alternatives pl")
      case Nil
      then show ?thesis using ne by (simp add: dg_receive_def parse_result_def Let_def final_words_def)
    next
      case (Cons a as)
      obtain tr0 conf0 where a: "a = (tr0, conf0)" by fastforce
      define tr where "tr = strip (case tr0 of None \<Rightarrow> [] | Some t \<Rightarrow> t)"
      have fw: "inked (final_words pl) = (if dp_is_final pl then inked tr else [])"
        using ne Cons a by (cases tr0) (simp_all add: final_words_def tr_def)
      have e: "inked tr = [] \<longleftrightarrow> tr = []" by (simp add: inked_Nil_iff tr_def strip_idem)
      show ?thesis unfolding fw using ne Cons a e
        by (auto simp: dg_receive_def parse_result_def Let_def dg_final_event_def mk_event_ok c
            finals_text_def inked_join tr_def [symmetric])
    qed
  qed
qed

text \<open>With no final event before the deadline, the call returns the last partial one.\<close>

lemma dg_finalize_partial:
  "list_all (\<lambda>msgs. msgs = []) polls \<Longrightarrow> dg_events g = [ev] \<Longrightarrow> te_type ev = PARTIAL \<Longrightarrow> polls \<noteq> [] \<Longrightarrow>
   fst (dg_finalize polls g) = Some ev"
proof -
  assume a: "list_all (\<lambda>msgs. msgs = []) polls" "dg_events g = [ev]" "te_type ev = PARTIAL" "polls \<noteq> []"
  have empty: "list_all (\<lambda>msgs. msgs = []) ps \<Longrightarrow> dg_events g' = [] \<Longrightarrow> dg_poll ps best g' = (best, g')" for ps best g'
    by (induction ps arbitrary: g') (simp_all add: dg_dequeue_def)
  obtain p ps where ps: "polls = p # ps" using a(4) by (cases polls) auto
  have "dg_poll polls None g = (Some ev, g\<lparr>dg_events := []\<rparr>)"
    using a(1-3) empty [of ps "g\<lparr>dg_events := []\<rparr>" "Some ev"] by (simp add: ps dg_dequeue_def)
  then show ?thesis by (simp add: dg_finalize_def)
qed

end
