(* ===== verification/TranscribeEngine.thy ===== *)
theory TranscribeEngine
  imports Settings SttEngine
begin

text \<open>
  \<^verbatim>\<open>app/stt/providers/aws_transcribe_engine.py\<close>: the Amazon Transcribe recogniser. The stream of the service is decided
  by the environment: whether opening it and sending a frame succeed, which messages the receiver task gets and when
  it ends. The queue of events is unbounded. An attribute that a message lacks has the default the code reads
  (no alternatives, no text, a partial result).
\<close>

section \<open>State\<close>

datatype receiver_state = Receiving | ReceiverOver

record transcribe =
  aw_region :: ustr
  aw_language :: ustr
  aw_sample_rate :: int
  aw_stream :: bool
  aw_receiver :: "receiver_state option"
  aw_events :: "transcript_event list"
  aw_utterance_id :: "string option"

definition new_transcribe :: "app_settings \<Rightarrow> transcribe" where
  "new_transcribe s =
     \<lparr>aw_region = AWS_VOICE_REGION s, aw_language = AWS_TRANSCRIBE_LANGUAGE s, aw_sample_rate = VOICE_SAMPLE_RATE s, aw_stream = False,
      aw_receiver = None, aw_events = [], aw_utterance_id = None\<rparr>"

section \<open>Messages\<close>

text \<open>A result: the texts of its alternatives and whether it is partial.\<close>

record aws_result =
  ar_alternatives :: "ustr list"
  ar_partial :: bool

definition aws_event :: "pyfloat \<Rightarrow> transcript_type \<Rightarrow> string \<Rightarrow> ustr \<Rightarrow> transcript_event" where
  "aws_event now t uid txt =
     \<lparr>te_type = t, te_utterance_id = uid, te_transcript = txt, te_confidence = (if t = PARTIAL then 1/2 else 1), te_timestamp = now\<rparr>"

definition result_text :: "aws_result \<Rightarrow> ustr" where
  "result_text r = (case ar_alternatives r of [] \<Rightarrow> [] | t # ts \<Rightarrow> strip t)"

text \<open>\<^verbatim>\<open>parse_results\<close>; \<open>fresh k\<close> is the \<open>k\<close>-th identifier drawn.\<close>

fun parse_results ::
  "pyfloat \<Rightarrow> (nat \<Rightarrow> string) \<Rightarrow> nat \<Rightarrow> aws_result list \<Rightarrow> string option \<Rightarrow> transcript_event list \<times> string option"
where
  "parse_results now fresh k [] uid = ([], uid)"
| "parse_results now fresh k (r # rs) uid =
     (if result_text r = [] then parse_results now fresh k rs uid
      else let i = (case uid of None \<Rightarrow> fresh k | Some i \<Rightarrow> i)
           in if ar_partial r
              then (case parse_results now fresh (Suc k) rs uid of
                      (es, uid') \<Rightarrow> (aws_event now PARTIAL i (result_text r) # es, uid'))
              else (case parse_results now fresh (Suc k) rs None of
                      (es, uid') \<Rightarrow> (aws_event now FINAL i (result_text r) # es, uid')))"

text \<open>One message of the receive loop.\<close>

definition aws_receive :: "pyfloat \<Rightarrow> (nat \<Rightarrow> string) \<Rightarrow> aws_result list \<Rightarrow> transcribe \<Rightarrow> transcribe" where
  "aws_receive now fresh rs a =
     (if aw_receiver a \<noteq> Some Receiving then a
      else case parse_results now fresh 0 rs (aw_utterance_id a) of
             (es, uid) \<Rightarrow> a\<lparr>aw_events := aw_events a @ es, aw_utterance_id := uid\<rparr>)"

text \<open>The loop ends: the stream is over, or reading it raised.\<close>

definition aws_receiver_ends :: "transcribe \<Rightarrow> transcribe" where
  "aws_receiver_ends a = (if aw_receiver a = Some Receiving then a\<lparr>aw_receiver := Some ReceiverOver\<rparr> else a)"

section \<open>Operations\<close>

definition aws_connect :: "py_exn option \<Rightarrow> transcribe \<Rightarrow> py_exn option \<times> transcribe" where
  "aws_connect opens a =
     (if aw_stream a then (None, a)
      else case opens of
             Some ex \<Rightarrow> (Some ex, a)
           | None \<Rightarrow> (None, a\<lparr>aw_stream := True, aw_receiver := Some Receiving\<rparr>))"

definition aws_dequeue :: "transcribe \<Rightarrow> transcript_event option \<times> transcribe" where
  "aws_dequeue a = (case aw_events a of [] \<Rightarrow> (None, a) | e # es \<Rightarrow> (Some e, a\<lparr>aw_events := es\<rparr>))"

definition aws_close :: "transcribe \<Rightarrow> transcribe" where
  "aws_close a = a\<lparr>aw_receiver := None, aw_stream := False\<rparr>"

definition aws_reset :: "transcribe \<Rightarrow> transcribe" where
  "aws_reset a = aws_close (a\<lparr>aw_utterance_id := None, aw_events := []\<rparr>)"

text \<open>\<open>opens\<close> and \<open>sends\<close> are what opening the stream and sending the frame raise, if anything.\<close>

definition aws_process_audio ::
  "py_exn option \<Rightarrow> py_exn option \<Rightarrow> string \<Rightarrow> transcribe \<Rightarrow> (py_exn + transcript_event option) \<times> transcribe" where
  "aws_process_audio opens sends fresh a =
     (case aws_connect opens a of
        (Some ex, a1) \<Rightarrow> (Inl ex, a1)
      | (None, a1) \<Rightarrow>
          let a2 = (if aw_utterance_id a1 = None then a1\<lparr>aw_utterance_id := Some fresh\<rparr> else a1)
          in (case sends of
                Some ex \<Rightarrow> (Inl ex, a2)
              | None \<Rightarrow> (case aws_dequeue a2 of (ev, a3) \<Rightarrow> (Inr ev, a3))))"

text \<open>
  What happens before a look at the queue, while the deadline is not reached: messages arrive, the receiver may end.
\<close>

record aws_poll =
  ap_now :: pyfloat
  ap_fresh :: "nat \<Rightarrow> string"
  ap_messages :: "aws_result list list"
  ap_over :: bool

definition poll_arrivals :: "aws_poll \<Rightarrow> transcribe \<Rightarrow> transcribe" where
  "poll_arrivals p a =
     (let a1 = fold (aws_receive (ap_now p) (ap_fresh p)) (ap_messages p) a in if ap_over p then aws_receiver_ends a1 else a1)"

fun aws_wait_final :: "aws_poll list \<Rightarrow> transcript_event option \<Rightarrow> transcribe \<Rightarrow> transcript_event option \<times> transcribe" where
  "aws_wait_final [] best a = (best, a)"
| "aws_wait_final (p # ps) best a =
     (let a1 = poll_arrivals p a
      in case aws_dequeue a1 of
           (None, a2) \<Rightarrow> if aw_receiver a2 = Some ReceiverOver then (best, a2) else aws_wait_final ps best a2
         | (Some ev, a2) \<Rightarrow> if te_type ev = FINAL then (Some ev, a2) else aws_wait_final ps (Some ev) a2)"

definition aws_finalize :: "aws_poll list \<Rightarrow> transcribe \<Rightarrow> transcript_event option \<times> transcribe" where
  "aws_finalize polls a = (case aws_wait_final polls None a of (ev, a1) \<Rightarrow> (ev, aws_reset a1))"

section \<open>Lemmas\<close>

text \<open>The constructed events are ones the event type accepts.\<close>

lemma aws_event_valid: "mk_transcript_event t uid txt (te_confidence (aws_event now t uid txt)) now = Inr (aws_event now t uid txt)"
  by (simp add: mk_transcript_event_def aws_event_def)

text \<open>Every event carries the stripped text of a result that has one, in order.\<close>

lemma parse_results_texts:
  "map te_transcript (fst (parse_results now fresh k rs uid)) = filter (\<lambda>t. t \<noteq> []) (map result_text rs)"
  "map te_type (fst (parse_results now fresh k rs uid))
     = map (\<lambda>r. if ar_partial r then PARTIAL else FINAL) (filter (\<lambda>r. result_text r \<noteq> []) rs)"
  by (induction now fresh k rs uid rule: parse_results.induct) (auto simp: Let_def aws_event_def split: prod.splits)

text \<open>
  A finished segment ends the utterance: until the next frame gives the utterance an identifier, every partial result
  gets a new one.
\<close>

lemma partial_after_final:
  assumes "result_text r1 \<noteq> []" "result_text r2 \<noteq> []" "result_text r3 \<noteq> []"
    and "\<not> ar_partial r1" "ar_partial r2" "ar_partial r3"
  shows "map te_utterance_id (fst (parse_results now fresh 0 [r1, r2, r3] (Some i))) = [i, fresh 1, fresh 2]"
  using assms by (simp add: Let_def aws_event_def numeral_2_eq_2)

text \<open>Finalising always returns with a clean engine; what else was queued is lost.\<close>

lemma aws_finalize_resets:
  "aw_events (snd (aws_finalize polls a)) = [] \<and> \<not> aw_stream (snd (aws_finalize polls a))
     \<and> aw_receiver (snd (aws_finalize polls a)) = None \<and> aw_utterance_id (snd (aws_finalize polls a)) = None"
  by (simp add: aws_finalize_def aws_reset_def aws_close_def split: prod.split)

lemma poll_arrivals_queue: "\<exists>es. aw_events (poll_arrivals p a) = aw_events a @ es"
proof -
  have r: "\<exists>es. aw_events (aws_receive now fresh rs a) = aw_events a @ es" for now fresh rs a
    by (auto simp: aws_receive_def split: prod.split)
  have "\<exists>es. aw_events (fold (aws_receive now fresh) ms a) = aw_events a @ es" for now fresh ms a
  proof (induction ms arbitrary: a)
    case (Cons m ms)
    obtain es where "aw_events (aws_receive now fresh m a) = aw_events a @ es" using r by blast
    with Cons.IH [of "aws_receive now fresh m a"] show ?case by auto
  qed simp
  then show ?thesis by (simp add: poll_arrivals_def Let_def aws_receiver_ends_def)
qed

lemma finalize_first_final:
  assumes "aw_events a = ev # es" "te_type ev = FINAL" "polls \<noteq> []"
  shows "fst (aws_finalize polls a) = Some ev"
proof -
  obtain p ps where p: "polls = p # ps" using assms(3) by (cases polls) auto
  obtain fs where "aw_events (poll_arrivals p a) = ev # es @ fs"
    using poll_arrivals_queue [of p a] assms(1) by auto
  with assms(2) show ?thesis by (simp add: aws_finalize_def p Let_def aws_dequeue_def)
qed

text \<open>When nothing final comes before the deadline or the end of the stream, a partial result is returned as the last word.\<close>

lemma finalize_partial:
  assumes "aw_events a = [ev]" "te_type ev = PARTIAL" "\<forall>p\<in>set polls. ap_messages p = []" "polls \<noteq> []"
  shows "fst (aws_finalize polls a) = Some ev"
proof -
  have quiet: "aw_events (poll_arrivals p b) = aw_events b" if "p \<in> set polls" for p b
    using assms(3) that by (simp add: poll_arrivals_def Let_def aws_receiver_ends_def)
  have none: "fst (aws_wait_final ps best b) = best" if "set ps \<subseteq> set polls" "aw_events b = []" for ps best b
    using that
  proof (induction ps arbitrary: b)
    case (Cons p ps)
    with quiet [of p b] show ?case by (auto simp: Let_def aws_dequeue_def)
  qed simp
  obtain p ps where p: "polls = p # ps" using assms(4) by (cases polls) auto
  then have "aws_dequeue (poll_arrivals p a) = (Some ev, (poll_arrivals p a)\<lparr>aw_events := []\<rparr>)"
    using quiet [of p a] assms(1) by (simp add: aws_dequeue_def)
  then show ?thesis
    using none [of ps "(poll_arrivals p a)\<lparr>aw_events := []\<rparr>" "Some ev"] assms(2) p
    by (auto simp: aws_finalize_def Let_def subset_insertI split: prod.splits)
qed

text \<open>When the service ends the stream, the engine keeps sending into it: it is not opened again before a reset.\<close>

lemma dead_stream_kept:
  assumes "aw_stream a" "aw_receiver a = Some ReceiverOver" "aw_events a = []"
  shows "aw_stream (snd (aws_process_audio opens sends fresh a))"
    "aw_receiver (snd (aws_process_audio opens sends fresh a)) = Some ReceiverOver"
    "sends = None \<Longrightarrow> fst (aws_process_audio opens sends fresh a) = Inr None"
    "aws_receive now fr rs a = a"
  using assms
  by (auto simp: aws_process_audio_def aws_connect_def aws_dequeue_def aws_receive_def Let_def split: option.split)

end
