(* ===== verification/Chunker.thy ===== *)
theory Chunker
  imports PyText
begin

text \<open>
  \<^verbatim>\<open>app/llm/sentence_chunker.py\<close>: cutting a token stream into speakable segments. The state is
  the buffer; \<open>find_cut\<close> is \<^verbatim>\<open>_find_cut\<close> with its two loops (\<open>scan_sentence\<close>,
  \<open>scan_clause\<close>), \<open>cut_all\<close> the \<^verbatim>\<open>while True\<close> of \<^verbatim>\<open>feed\<close>. The lemmas show that a
  cut always takes at least one character (so \<^verbatim>\<open>feed\<close> returns), that no printing character is
  lost, added or reordered, and that no segment is blank.
\<close>

record chunker =
  min_chars :: int
  soft_limit :: int
  ck_buffer :: ustr

definition new_chunker :: "int \<Rightarrow> int \<Rightarrow> chunker" where
  "new_chunker mc sl = \<lparr>min_chars = mc, soft_limit = sl, ck_buffer = []\<rparr>"

definition SENTENCE_END :: "nat list" where
  "SENTENCE_END = [46, 33, 63, 8230]"

definition CLAUSE_END :: "nat list" where
  "CLAUSE_END = [44, 59, 58, 8212]"

definition ABBREVIATIONS :: "ustr list" where
  "ABBREVIATIONS = map u
     [''mr.'', ''mrs.'', ''ms.'', ''dr.'', ''prof.'', ''sr.'', ''jr.'', ''st.'', ''vs.'', ''etc.'',
      ''e.g.'', ''i.e.'', ''no.'']"

text \<open>
  The first loop: \<open>None\<close> when it runs to the end, \<open>Some None\<close> when it returns to wait for more
  text, \<open>Some (Some k)\<close> when it returns a cut.
\<close>

function scan_sentence :: "int \<Rightarrow> ustr \<Rightarrow> nat \<Rightarrow> nat option option" where
  "scan_sentence mc s i =
     (if length s \<le> i then None
      else if s ! i = 10 \<and> strip (take i s) \<noteq> [] then Some (Some (i + 1))
      else if s ! i \<notin> set SENTENCE_END then scan_sentence mc s (i + 1)
      else if length s \<le> i + 1 then Some None
      else if \<not> py_space (s ! (i + 1)) then scan_sentence mc s (i + 1)
      else let head = take (i + 1) s
           in if int (length (strip head)) < mc then scan_sentence mc s (i + 1)
              else if endswith_any (lower (rstrip head)) ABBREVIATIONS then scan_sentence mc s (i + 1)
              else Some (Some (i + 1)))"
  by pat_completeness auto
termination
  by (relation "measure (\<lambda>(mc, s, i). length s - i)") auto

declare scan_sentence.simps [simp del]

text \<open>
  The second loop runs down from \<open>len - 2\<close> while the index exceeds \<open>min_chars\<close>. A negative index
  (possible only with a negative \<open>min_chars\<close>) counts from the end in Python.
\<close>

definition py_nth :: "'a list \<Rightarrow> int \<Rightarrow> 'a" where
  "py_nth xs i = (if 0 \<le> i then xs ! nat i else xs ! nat (int (length xs) + i))"

function scan_clause :: "int \<Rightarrow> ustr \<Rightarrow> int \<Rightarrow> int option" where
  "scan_clause mc s i =
     (if i \<le> mc then None
      else if py_nth s i \<in> set CLAUSE_END \<and> py_space (py_nth s (i + 1)) then Some (i + 1)
      else scan_clause mc s (i - 1))"
  by pat_completeness auto
termination
  by (relation "measure (\<lambda>(mc, s, i). nat (i - mc))") auto

declare scan_clause.simps [simp del]

definition find_cut :: "chunker \<Rightarrow> int option" where
  "find_cut c =
     (case scan_sentence (min_chars c) (ck_buffer c) 0 of
        Some r \<Rightarrow> map_option int r
      | None \<Rightarrow>
          if soft_limit c \<le> int (length (ck_buffer c))
          then scan_clause (min_chars c) (ck_buffer c) (int (length (ck_buffer c)) - 2)
          else None)"

text \<open>A cut lies strictly inside the text, or at its end after a newline: never at its start.\<close>

lemma scan_sentence_bounds:
  "scan_sentence mc s i = Some (Some k) \<Longrightarrow> i < k \<and> k \<le> length s"
proof (induction mc s i rule: scan_sentence.induct)
  case (1 mc s i)
  show ?case using 1(5) 1(1-4)
    by (subst (asm) scan_sentence.simps) (auto simp: Let_def split: if_splits)
qed

lemma scan_clause_bounds:
  "scan_clause mc s i = Some k \<Longrightarrow> mc + 1 < k \<and> k \<le> i + 1"
proof (induction mc s i rule: scan_clause.induct)
  case (1 mc s i)
  show ?case using 1(2) 1(1) by (subst (asm) scan_clause.simps) (auto split: if_splits)
qed

lemma find_cut_bounds:
  assumes "find_cut c = Some k" "0 \<le> min_chars c"
  shows "0 < k \<and> k \<le> int (length (ck_buffer c))"
proof (cases "scan_sentence (min_chars c) (ck_buffer c) 0")
  case None
  then show ?thesis using assms scan_clause_bounds [of "min_chars c" "ck_buffer c"]
    by (auto simp: find_cut_def split: if_splits dest!: scan_clause_bounds)
next
  case (Some r)
  then show ?thesis using assms scan_sentence_bounds [of "min_chars c" "ck_buffer c" 0]
    by (cases r) (auto simp: find_cut_def)
qed

section \<open>feed and flush\<close>

text \<open>Python's slices \<^verbatim>\<open>s[:k]\<close> and \<^verbatim>\<open>s[k:]\<close>, negative bounds counting from the end.\<close>

definition slice_to :: "'a list \<Rightarrow> int \<Rightarrow> 'a list" where
  "slice_to xs k = take (nat (if 0 \<le> k then k else int (length xs) + k)) xs"

definition slice_from :: "'a list \<Rightarrow> int \<Rightarrow> 'a list" where
  "slice_from xs k = drop (nat (if 0 \<le> k then k else int (length xs) + k)) xs"

lemma slices: "slice_to xs k @ slice_from xs k = xs"
  by (simp add: slice_to_def slice_from_def)

partial_function (option) cut_all :: "chunker \<Rightarrow> (ustr list \<times> chunker) option" where
  "cut_all c =
     (case find_cut c of
        None \<Rightarrow> Some ([], c)
      | Some k \<Rightarrow>
          let segment = strip (slice_to (ck_buffer c) k);
              c1 = c\<lparr>ck_buffer := slice_from (ck_buffer c) k\<rparr>
          in Option.bind (cut_all c1)
               (\<lambda>(segs, c2). Some (if segment \<noteq> [] then segment # segs else segs, c2)))"

definition chunker_feed :: "ustr \<Rightarrow> chunker \<Rightarrow> (ustr list \<times> chunker) option" where
  "chunker_feed token c =
     (if token = [] then Some ([], c) else cut_all (c\<lparr>ck_buffer := ck_buffer c @ token\<rparr>))"

definition chunker_flush :: "chunker \<Rightarrow> ustr option \<times> chunker" where
  "chunker_flush c =
     (let rest = strip (ck_buffer c)
      in (if rest = [] then None else Some rest, c\<lparr>ck_buffer := []\<rparr>))"

text \<open>The loop ends on every buffer, and what it hands out is the buffer's text.\<close>

lemma cut_all_result:
  assumes "0 \<le> min_chars c"
  shows "\<exists>segs c'. cut_all c = Some (segs, c') \<and> find_cut c' = None
    \<and> inked (concat segs) @ inked (ck_buffer c') = inked (ck_buffer c)
    \<and> [] \<notin> set segs \<and> (\<forall>s\<in>set segs. strip s = s)
    \<and> min_chars c' = min_chars c \<and> soft_limit c' = soft_limit c"
  using assms
proof (induction "length (ck_buffer c)" arbitrary: c rule: less_induct)
  case less
  show ?case
  proof (cases "find_cut c")
    case None
    then show ?thesis by (simp add: cut_all.simps)
  next
    case (Some k)
    define c1 where "c1 = c\<lparr>ck_buffer := slice_from (ck_buffer c) k\<rparr>"
    have k: "0 < k" "k \<le> int (length (ck_buffer c))" using find_cut_bounds [OF Some less(2)] by auto
    have "length (ck_buffer c1) < length (ck_buffer c)" using k by (simp add: c1_def slice_from_def)
    from less(1) [OF this] obtain segs c2 where r: "cut_all c1 = Some (segs, c2)" "find_cut c2 = None"
      "inked (concat segs) @ inked (ck_buffer c2) = inked (ck_buffer c1)"
      "[] \<notin> set segs" "\<forall>s\<in>set segs. strip s = s"
      "min_chars c2 = min_chars c" "soft_limit c2 = soft_limit c"
      using less(2) by (auto simp: c1_def)
    let ?seg = "strip (slice_to (ck_buffer c) k)"
    have "inked (ck_buffer c) = inked (slice_to (ck_buffer c) k) @ inked (slice_from (ck_buffer c) k)"
      by (simp only: inked_append [symmetric] slices)
    then have ink: "inked (ck_buffer c) = inked ?seg @ inked (ck_buffer c1)" by (simp add: c1_def)
    have eq: "cut_all c = Some (if ?seg \<noteq> [] then ?seg # segs else segs, c2)"
      by (subst cut_all.simps) (simp only: Some option.case Let_def c1_def [symmetric] r(1) bind.bind_lunit prod.case)
    show ?thesis using r ink unfolding eq by (auto simp: strip_idem inked_Nil_iff)
  qed
qed

lemma chunker_feed_result:
  assumes "0 \<le> min_chars c"
  shows "\<exists>segs c'. chunker_feed tok c = Some (segs, c')
    \<and> inked (concat segs) @ inked (ck_buffer c') = inked (ck_buffer c) @ inked tok
    \<and> [] \<notin> set segs \<and> (\<forall>s\<in>set segs. strip s = s)
    \<and> min_chars c' = min_chars c \<and> soft_limit c' = soft_limit c"
proof (cases "tok = []")
  case False
  then show ?thesis using cut_all_result [of "c\<lparr>ck_buffer := ck_buffer c @ tok\<rparr>"] assms
    by (auto simp: chunker_feed_def)
qed (simp add: chunker_feed_def)

section \<open>A whole reply\<close>

fun chunk_tokens :: "ustr list \<Rightarrow> chunker \<Rightarrow> (ustr list \<times> chunker) option" where
  "chunk_tokens [] c = Some ([], c)"
| "chunk_tokens (t # ts) c =
     (case chunker_feed t c of
        None \<Rightarrow> None
      | Some (segs, c1) \<Rightarrow>
          (case chunk_tokens ts c1 of None \<Rightarrow> None | Some (segs', c2) \<Rightarrow> Some (segs @ segs', c2)))"

definition chunk_reply :: "ustr list \<Rightarrow> chunker \<Rightarrow> ustr list option" where
  "chunk_reply ts c =
     (case chunk_tokens ts c of
        None \<Rightarrow> None
      | Some (segs, c1) \<Rightarrow> Some (segs @ (case fst (chunker_flush c1) of None \<Rightarrow> [] | Some s \<Rightarrow> [s])))"

lemma chunk_tokens_result:
  "0 \<le> min_chars c \<Longrightarrow>
   \<exists>segs c'. chunk_tokens ts c = Some (segs, c')
     \<and> inked (concat segs) @ inked (ck_buffer c') = inked (ck_buffer c) @ inked (concat ts)
     \<and> [] \<notin> set segs \<and> (\<forall>s\<in>set segs. strip s = s)"
proof (induction ts arbitrary: c)
  case (Cons t ts)
  obtain segs c1 where a: "chunker_feed t c = Some (segs, c1)"
    "inked (concat segs) @ inked (ck_buffer c1) = inked (ck_buffer c) @ inked t"
    "[] \<notin> set segs" "\<forall>s\<in>set segs. strip s = s" "min_chars c1 = min_chars c"
    using chunker_feed_result [OF Cons.prems] by blast
  then obtain segs' c2 where b: "chunk_tokens ts c1 = Some (segs', c2)"
    "inked (concat segs') @ inked (ck_buffer c2) = inked (ck_buffer c1) @ inked (concat ts)"
    "[] \<notin> set segs'" "\<forall>s\<in>set segs'. strip s = s"
    using Cons.IH [of c1] Cons.prems by auto
  have "inked (concat (segs @ segs')) @ inked (ck_buffer c2)
      = inked (ck_buffer c) @ inked (concat (t # ts))"
    using a(2) b(2) by (metis append.assoc concat.simps(2) concat_append inked_append)
  then show ?case using a b by auto
qed simp

lemma chunk_reply_result:
  assumes "0 \<le> min_chars c" "ck_buffer c = []"
  shows "\<exists>segs. chunk_reply ts c = Some segs \<and> inked (concat segs) = inked (concat ts)
    \<and> [] \<notin> set segs \<and> (\<forall>s\<in>set segs. strip s = s)"
proof -
  obtain segs c1 where a: "chunk_tokens ts c = Some (segs, c1)"
    "inked (concat segs) @ inked (ck_buffer c1) = inked (concat ts)"
    "[] \<notin> set segs" "\<forall>s\<in>set segs. strip s = s"
    using chunk_tokens_result [OF assms(1), of ts] assms(2) by auto
  have "inked (ck_buffer c1) = []" if "strip (ck_buffer c1) = []" using that by (simp add: inked_Nil_iff)
  then show ?thesis using a
    by (auto simp: chunk_reply_def chunker_flush_def Let_def strip_idem)
qed

end
