(* ===== verification/LlmConsumer.thy ===== *)
theory LlmConsumer
  imports Chunker TurnMetrics
begin

text \<open>
  \<^verbatim>\<open>app/llm/llm_consumer.py\<close>, the shared types of \<^verbatim>\<open>app/llm/streaming_engine.py\<close> and
  \<^verbatim>\<open>app/llm/providers/failover_engine.py\<close>.

  An engine is what it yields: a list of items and how the stream ends. Every \<^verbatim>\<open>await\<close> of the
  generation task (sending an event, handing over a segment, the completion callback) takes its
  outcome from the environment list \<open>lr_env\<close>: it returns, it raises, or the task is cancelled
  there; past the end of the list every await returns. \<open>lr_log\<close> records the calls in order.
\<close>

section \<open>Engines\<close>

datatype stream_item = StreamToken ustr nat | OtherItem
datatype stream_end = StreamDone | StreamRaises | StreamCancelled
type_synonym llm_stream = "stream_item list \<times> stream_end"

record llm_metrics =
  time_to_first_token_ms :: pyfloat
  total_generation_ms :: pyfloat
  token_count :: nat
  tokens_per_second :: pyfloat

definition default_llm_metrics :: llm_metrics where
  "default_llm_metrics =
     \<lparr>time_to_first_token_ms = 0, total_generation_ms = 0, token_count = 0, tokens_per_second = 0\<rparr>"

definition llm_metrics_to_dict :: "llm_metrics \<Rightarrow> llm_metrics" where
  "llm_metrics_to_dict m =
     \<lparr>time_to_first_token_ms = py_round_to 2 (time_to_first_token_ms m),
      total_generation_ms = py_round_to 2 (total_generation_ms m),
      token_count = token_count m,
      tokens_per_second = py_round_to 2 (tokens_per_second m)\<rparr>"

text \<open>
  \<^verbatim>\<open>FailoverStreamingLLMEngine.stream\<close> over the configured engines in order: the items it
  yields, how it ends, and the index of the engine left in \<^verbatim>\<open>_active\<close>. A cancellation is not an
  \<^verbatim>\<open>Exception\<close>, so it passes through.
\<close>

fun failover_from :: "nat \<Rightarrow> llm_stream option list \<Rightarrow> nat \<Rightarrow> llm_stream \<times> nat" where
  "failover_from i [] active = (([], StreamRaises), active)"
| "failover_from i (None # es) active = failover_from (Suc i) es active"
| "failover_from i (Some (items, fin) # es) active =
     (if fin = StreamRaises \<and> items = [] then failover_from (Suc i) es i
      else ((items, fin), i))"

definition failover_stream :: "llm_stream \<Rightarrow> llm_stream option \<Rightarrow> llm_stream \<times> nat" where
  "failover_stream primary secondary = failover_from 0 [Some primary, secondary] 0"

section \<open>The generation task\<close>

datatype llm_outcome = COMPLETED | CANCELLED | FAILED

datatype llm_effect =
    FirstToken
  | LlmPartial ustr nat ustr
  | LlmFinal ustr llm_metrics
  | LlmCancelled ustr llm_metrics
  | LlmError
  | Segment ustr
  | Complete ustr llm_outcome

record llm_run =
  lr_parts :: "ustr list"
  lr_chunker :: chunker
  lr_log :: "llm_effect list"
  lr_env :: "await list"

record llm_callbacks =
  has_first_token :: bool
  has_segment :: bool
  has_complete :: bool

definition log_effect :: "llm_effect \<Rightarrow> llm_run \<Rightarrow> llm_run" where
  "log_effect e r = r\<lparr>lr_log := lr_log r @ [e]\<rparr>"

definition do_await :: "llm_effect \<Rightarrow> llm_run \<Rightarrow> body_end \<times> llm_run" where
  "do_await e r =
     (case lr_env r of
        [] \<Rightarrow> (BodyOk, log_effect e r)
      | a # as \<Rightarrow>
          (case a of Returns \<Rightarrow> BodyOk | Raises \<Rightarrow> BodyRaises | Cancelled \<Rightarrow> BodyCancelled,
           log_effect e r\<lparr>lr_env := as\<rparr>))"

fun speak_segments :: "ustr list \<Rightarrow> llm_run \<Rightarrow> body_end \<times> llm_run" where
  "speak_segments [] r = (BodyOk, r)"
| "speak_segments (s # ss) r = seq_body (do_await (Segment s) r) (speak_segments ss)"

definition feed_segments :: "llm_callbacks \<Rightarrow> ustr \<Rightarrow> llm_run \<Rightarrow> body_end \<times> llm_run" where
  "feed_segments cb tok r =
     (if has_segment cb
      then (case chunker_feed tok (lr_chunker r) of
              None \<Rightarrow> (BodyStuck, r)
            | Some (segs, c) \<Rightarrow> speak_segments segs (r\<lparr>lr_chunker := c\<rparr>))
      else (BodyOk, r))"

fun consume :: "llm_callbacks \<Rightarrow> stream_item list \<Rightarrow> llm_run \<Rightarrow> body_end \<times> llm_run" where
  "consume cb [] r = (BodyOk, r)"
| "consume cb (OtherItem # its) r = consume cb its r"
| "consume cb (StreamToken tok idx # its) r =
     (let r1 = (if lr_parts r = [] \<and> has_first_token cb then log_effect FirstToken r else r);
          r2 = r1\<lparr>lr_parts := lr_parts r1 @ [tok]\<rparr>
      in seq_body (do_await (LlmPartial tok idx (concat (lr_parts r2))) r2)
           (\<lambda>r3. seq_body (feed_segments cb tok r3) (consume cb its)))"

text \<open>The \<^verbatim>\<open>try\<close> body: the loop, how the stream ends, the rest of the text, the final event.\<close>

definition run_body :: "llm_callbacks \<Rightarrow> llm_stream \<Rightarrow> llm_metrics \<Rightarrow> llm_run \<Rightarrow> body_end \<times> llm_run" where
  "run_body cb st m r =
     seq_body (consume cb (fst st) r)
       (\<lambda>r1. case snd st of
          StreamRaises \<Rightarrow> (BodyRaises, r1)
        | StreamCancelled \<Rightarrow> (BodyCancelled, r1)
        | StreamDone \<Rightarrow>
            (case chunker_flush (lr_chunker r1) of (rest, c) \<Rightarrow>
               let r2 = r1\<lparr>lr_chunker := c\<rparr>
               in seq_body
                    (case rest of
                       Some s \<Rightarrow> if has_segment cb then do_await (Segment s) r2 else (BodyOk, r2)
                     | None \<Rightarrow> (BodyOk, r2))
                    (\<lambda>r3. do_await (LlmFinal (concat (lr_parts r3)) (llm_metrics_to_dict m)) r3)))"

text \<open>
  The handlers and the \<^verbatim>\<open>finally\<close>. \<open>_safe_send\<close> swallows an exception; a second cancellation
  inside a handler leaves the handler, and \<^verbatim>\<open>finally\<close> still runs with the outcome set before.
  The result is the log and whether \<^verbatim>\<open>_run\<close> returned (\<open>False\<close>: it never left the body).
\<close>

definition complete_run :: "llm_callbacks \<Rightarrow> llm_outcome \<Rightarrow> llm_run \<Rightarrow> llm_run" where
  "complete_run cb oc r =
     (if has_complete cb then snd (do_await (Complete (concat (lr_parts r)) oc) r) else r)"

definition run_generation :: "llm_callbacks \<Rightarrow> llm_stream \<Rightarrow> llm_metrics \<Rightarrow> llm_run \<Rightarrow> llm_run option" where
  "run_generation cb st m r =
     (case run_body cb st m r of
        (BodyOk, r1) \<Rightarrow> Some (complete_run cb COMPLETED r1)
      | (BodyCancelled, r1) \<Rightarrow>
          Some (complete_run cb CANCELLED
            (snd (do_await (LlmCancelled (concat (lr_parts r1)) (llm_metrics_to_dict m)) r1)))
      | (BodyRaises, r1) \<Rightarrow> Some (complete_run cb FAILED (snd (do_await LlmError r1)))
      | (BodyStuck, r1) \<Rightarrow> None)"

definition new_llm_run :: "await list \<Rightarrow> llm_run" where
  "new_llm_run env = \<lparr>lr_parts = [], lr_chunker = new_chunker 12 90, lr_log = [], lr_env = env\<rparr>"

definition generate :: "llm_callbacks \<Rightarrow> llm_stream \<Rightarrow> llm_metrics \<Rightarrow> await list \<Rightarrow> llm_effect list option" where
  "generate cb st m env = map_option lr_log (run_generation cb st m (new_llm_run env))"

section \<open>What a run says and reports\<close>

fun segments_of :: "llm_effect list \<Rightarrow> ustr list" where
  "segments_of [] = []"
| "segments_of (Segment s # es) = s # segments_of es"
| "segments_of (e # es) = segments_of es"

fun completions_of :: "llm_effect list \<Rightarrow> (ustr \<times> llm_outcome) list" where
  "completions_of [] = []"
| "completions_of (Complete t oc # es) = (t, oc) # completions_of es"
| "completions_of (e # es) = completions_of es"

fun partials_of :: "llm_effect list \<Rightarrow> (ustr \<times> ustr) list" where
  "partials_of [] = []"
| "partials_of (LlmPartial t i acc # es) = (t, acc) # partials_of es"
| "partials_of (e # es) = partials_of es"

fun tokens_of :: "stream_item list \<Rightarrow> ustr list" where
  "tokens_of [] = []"
| "tokens_of (StreamToken t i # its) = t # tokens_of its"
| "tokens_of (OtherItem # its) = tokens_of its"

lemma segments_of_append [simp]: "segments_of (a @ b) = segments_of a @ segments_of b"
  by (induction a rule: segments_of.induct) simp_all

lemma completions_of_append [simp]: "completions_of (a @ b) = completions_of a @ completions_of b"
  by (induction a rule: completions_of.induct) simp_all

lemma partials_of_append [simp]: "partials_of (a @ b) = partials_of a @ partials_of b"
  by (induction a rule: partials_of.induct) simp_all

lemma do_await_cases:
  obtains b as where "do_await e r = (b, r\<lparr>lr_log := lr_log r @ [e], lr_env := as\<rparr>)" "b \<noteq> BodyStuck"
proof (cases "lr_env r")
  case Nil
  then have "do_await e r = (BodyOk, r\<lparr>lr_log := lr_log r @ [e], lr_env := []\<rparr>)"
    by (simp add: do_await_def log_effect_def)
  then show thesis using that by blast
next
  case (Cons a as)
  then show thesis using that [of _ as] by (cases a) (simp_all add: do_await_def log_effect_def)
qed

text \<open>
  The invariant of the task: nothing has been completed; the accumulated texts of the partial events
  are the prefixes of the reply; and what was spoken is a prefix of the reply's printing
  characters, the rest being in the chunker.
\<close>

definition prefixes_of :: "ustr list \<Rightarrow> (ustr \<times> ustr) list" where
  "prefixes_of ps = map (\<lambda>k. (ps ! k, concat (take (Suc k) ps))) [0..<length ps]"

lemma prefixes_of_snoc: "prefixes_of (ps @ [t]) = prefixes_of ps @ [(t, concat (ps @ [t]))]"
  by (simp add: prefixes_of_def nth_append)

definition run_inv :: "llm_run \<Rightarrow> bool" where
  "run_inv r \<longleftrightarrow> completions_of (lr_log r) = []
     \<and> partials_of (lr_log r) = prefixes_of (lr_parts r)
     \<and> 0 \<le> min_chars (lr_chunker r)
     \<and> (\<forall>s\<in>set (segments_of (lr_log r)). strip s \<noteq> [])"

definition ink_balanced :: "llm_run \<Rightarrow> bool" where
  "ink_balanced r \<longleftrightarrow>
     inked (concat (segments_of (lr_log r))) @ inked (ck_buffer (lr_chunker r)) = inked (concat (lr_parts r))"

definition ink_prefix :: "llm_run \<Rightarrow> bool" where
  "ink_prefix r \<longleftrightarrow> prefix (inked (concat (segments_of (lr_log r)))) (inked (concat (lr_parts r)))"

lemma balanced_prefix: "ink_balanced r \<Longrightarrow> ink_prefix r"
  unfolding ink_balanced_def ink_prefix_def by (metis prefixI)

lemma speak_segments_spec:
  "speak_segments ss r = (b, r') \<Longrightarrow>
   \<exists>done. prefix done ss \<and> (b = BodyOk \<longrightarrow> done = ss) \<and> b \<noteq> BodyStuck
     \<and> segments_of (lr_log r') = segments_of (lr_log r) @ done
     \<and> completions_of (lr_log r') = completions_of (lr_log r)
     \<and> partials_of (lr_log r') = partials_of (lr_log r)
     \<and> lr_parts r' = lr_parts r \<and> lr_chunker r' = lr_chunker r"
proof (induction ss arbitrary: r)
  case (Cons s ss)
  obtain b1 as where d: "do_await (Segment s) r = (b1, r\<lparr>lr_log := lr_log r @ [Segment s], lr_env := as\<rparr>)"
    and ns: "b1 \<noteq> BodyStuck" by (rule do_await_cases)
  show ?case
  proof (cases "b1 = BodyOk")
    case True
    then have "speak_segments ss (r\<lparr>lr_log := lr_log r @ [Segment s], lr_env := as\<rparr>) = (b, r')"
      using Cons.prems d by (simp add: seq_body_def)
    from Cons.IH [OF this] obtain dn where "prefix dn ss" "b = BodyOk \<longrightarrow> dn = ss" "b \<noteq> BodyStuck"
      "segments_of (lr_log r') = (segments_of (lr_log r) @ [s]) @ dn"
      "completions_of (lr_log r') = completions_of (lr_log r)"
      "partials_of (lr_log r') = partials_of (lr_log r)"
      "lr_parts r' = lr_parts r" "lr_chunker r' = lr_chunker r" by auto
    then show ?thesis by (intro exI [of _ "s # dn"]) simp
  next
    case False
    then have "b = b1" "r' = r\<lparr>lr_log := lr_log r @ [Segment s], lr_env := as\<rparr>"
      using Cons.prems d by (auto simp: seq_body_def split: body_end.splits)
    then show ?thesis using False ns by (intro exI [of _ "[s]"]) simp
  qed
qed simp

text \<open>One token: the segments it completes.\<close>

lemma feed_segments_spec:
  assumes inv: "completions_of (lr_log r) = []" "0 \<le> min_chars (lr_chunker r)"
    "\<forall>s\<in>set (segments_of (lr_log r)). strip s \<noteq> []"
    and f: "feed_segments cb tok r = (b, r')"
  shows "b \<noteq> BodyStuck"
    "completions_of (lr_log r') = [] \<and> partials_of (lr_log r') = partials_of (lr_log r)
      \<and> lr_parts r' = lr_parts r \<and> 0 \<le> min_chars (lr_chunker r')
      \<and> (\<forall>s\<in>set (segments_of (lr_log r')). strip s \<noteq> [])"
    "has_segment cb \<Longrightarrow>
     inked (concat (segments_of (lr_log r))) @ inked (ck_buffer (lr_chunker r)) @ inked tok
      = inked (concat (lr_parts r)) \<Longrightarrow> ink_prefix r' \<and> (b = BodyOk \<longrightarrow> ink_balanced r')"
proof -
  obtain segs c where c: "chunker_feed tok (lr_chunker r) = Some (segs, c)"
    "inked (concat segs) @ inked (ck_buffer c) = inked (ck_buffer (lr_chunker r)) @ inked tok"
    "[] \<notin> set segs" "\<forall>s\<in>set segs. strip s = s" "min_chars c = min_chars (lr_chunker r)"
    using chunker_feed_result [OF inv(2)] by blast
  obtain dn where d: "prefix dn segs" "has_segment cb \<Longrightarrow> b = BodyOk \<longrightarrow> dn = segs"
    "b \<noteq> BodyStuck" "segments_of (lr_log r') = segments_of (lr_log r) @ dn"
    "completions_of (lr_log r') = completions_of (lr_log r)"
    "partials_of (lr_log r') = partials_of (lr_log r)"
    "lr_parts r' = lr_parts r" "min_chars (lr_chunker r') = min_chars (lr_chunker r)"
    "has_segment cb \<Longrightarrow> lr_chunker r' = c"
  proof (cases "has_segment cb")
    case True
    then have "speak_segments segs (r\<lparr>lr_chunker := c\<rparr>) = (b, r')"
      using f c(1) by (simp add: feed_segments_def)
    from speak_segments_spec [OF this] c(5) show thesis by (auto intro: that)
  next
    case False
    then have "b = BodyOk" "r' = r" using f by (simp_all add: feed_segments_def)
    then show thesis using that [of "[]"] False by simp
  qed
  obtain rest where rest: "segs = dn @ rest" using d(1) by (auto simp: prefix_def)
  show "b \<noteq> BodyStuck" by (rule d(3))
  have "\<forall>s\<in>set dn. strip s \<noteq> []" using c(3,4) rest by auto
  then show "completions_of (lr_log r') = [] \<and> partials_of (lr_log r') = partials_of (lr_log r)
      \<and> lr_parts r' = lr_parts r \<and> 0 \<le> min_chars (lr_chunker r')
      \<and> (\<forall>s\<in>set (segments_of (lr_log r')). strip s \<noteq> [])"
    using d inv by auto
  assume cb: "has_segment cb" and pend: "inked (concat (segments_of (lr_log r))) @
      inked (ck_buffer (lr_chunker r)) @ inked tok = inked (concat (lr_parts r))"
  have "inked (concat (lr_parts r)) = inked (concat (segments_of (lr_log r) @ dn)) @ inked (concat rest) @ inked (ck_buffer c)"
    using pend c(2) rest by simp
  then have "ink_prefix r'" unfolding ink_prefix_def d(4,7) by (metis prefixI)
  moreover have "b = BodyOk \<longrightarrow> ink_balanced r'"
    using d(2) [OF cb] pend c(2) unfolding ink_balanced_def d(4,7) d(9) [OF cb] by auto
  ultimately show "ink_prefix r' \<and> (b = BodyOk \<longrightarrow> ink_balanced r')" by blast
qed

lemma consume_spec:
  "run_inv r \<Longrightarrow> consume cb its r = (b, r') \<Longrightarrow>
   b \<noteq> BodyStuck \<and> run_inv r'
     \<and> (\<exists>ts. prefix ts (tokens_of its) \<and> (b = BodyOk \<longrightarrow> ts = tokens_of its) \<and> lr_parts r' = lr_parts r @ ts)
     \<and> (has_segment cb \<longrightarrow> ink_balanced r \<longrightarrow> ink_prefix r' \<and> (b = BodyOk \<longrightarrow> ink_balanced r'))"
proof (induction cb its r arbitrary: b rule: consume.induct)
  case (1 cb r)
  then show ?case by (auto intro: balanced_prefix)
next
  case (2 cb its r)
  then show ?case by simp
next
  case (3 cb tok idx its r)
  define r1 where "r1 = (if lr_parts r = [] \<and> has_first_token cb then log_effect FirstToken r else r)"
  define r2 where "r2 = r1\<lparr>lr_parts := lr_parts r1 @ [tok]\<rparr>"
  let ?e = "LlmPartial tok idx (concat (lr_parts r2))"
  obtain b1 as where d: "do_await ?e r2 = (b1, r2\<lparr>lr_log := lr_log r2 @ [?e], lr_env := as\<rparr>)"
    and ns: "b1 \<noteq> BodyStuck" by (rule do_await_cases)
  define r3 where "r3 = r2\<lparr>lr_log := lr_log r2 @ [?e], lr_env := as\<rparr>"
  have r3: "lr_parts r3 = lr_parts r @ [tok]" "lr_chunker r3 = lr_chunker r"
    "segments_of (lr_log r3) = segments_of (lr_log r)" "completions_of (lr_log r3) = completions_of (lr_log r)"
    "partials_of (lr_log r3) = partials_of (lr_log r) @ [(tok, concat (lr_parts r @ [tok]))]"
    by (auto simp: r3_def r2_def r1_def log_effect_def)
  have inv3: "run_inv r3" using 3(2) r3 by (simp add: run_inv_def prefixes_of_snoc)
  have c: "consume cb (StreamToken tok idx # its) r
      = seq_body (b1, r3) (\<lambda>r3. seq_body (feed_segments cb tok r3) (consume cb its))"
    by (simp only: consume.simps Let_def r1_def [symmetric] r2_def [symmetric] d r3_def [symmetric])
  show ?case
  proof (cases "b1 = BodyOk")
    case False
    then have b: "b = b1" "r' = r3" using 3(3) unfolding c
      by (auto simp: seq_body_def split: body_end.splits)
    have "ink_balanced r \<Longrightarrow> ink_prefix r3"
      unfolding ink_balanced_def ink_prefix_def r3 by (metis append.assoc concat_append inked_append prefixI)
    moreover have "prefix [tok] (tokens_of (StreamToken tok idx # its))" by simp
    ultimately show ?thesis using b ns inv3 False r3(1) by blast
  next
    case True
    obtain b4 r4 where f: "feed_segments cb tok r3 = (b4, r4)" by fastforce
    have rest: "seq_body (b4, r4) (consume cb its) = (b, r')"
      using 3(3) unfolding c using True f by (simp add: seq_body_def)
    note fs = feed_segments_spec [OF _ _ _ f]
    have i: "completions_of (lr_log r3) = []" "0 \<le> min_chars (lr_chunker r3)"
      "\<forall>s\<in>set (segments_of (lr_log r3)). strip s \<noteq> []" using inv3 by (auto simp: run_inv_def)
    have inv4: "run_inv r4" using fs(2) [OF i] inv3 by (auto simp: run_inv_def)
    have p4: "lr_parts r4 = lr_parts r @ [tok]" using fs(2) [OF i] r3(1) by simp
    have ink4: "has_segment cb \<longrightarrow> ink_balanced r \<longrightarrow> ink_prefix r4 \<and> (b4 = BodyOk \<longrightarrow> ink_balanced r4)"
    proof (intro impI)
      assume cb: "has_segment cb" and bal: "ink_balanced r"
      have "inked (concat (segments_of (lr_log r3))) @ inked (ck_buffer (lr_chunker r3)) @ inked tok
          = inked (concat (lr_parts r3))"
        using bal [unfolded ink_balanced_def, symmetric] by (simp add: r3)
      then show "ink_prefix r4 \<and> (b4 = BodyOk \<longrightarrow> ink_balanced r4)" by (rule fs(3) [OF i cb])
    qed
    show ?thesis
    proof (cases "b4 = BodyOk")
      case False
      then have b: "b = b4" "r' = r4" using rest by (auto simp: seq_body_def split: body_end.splits)
      have "prefix [tok] (tokens_of (StreamToken tok idx # its))" by simp
      then show ?thesis using b fs(1) [OF i] inv4 False p4 ink4 by blast
    next
      case ok: True
      then have cs: "consume cb its r4 = (b, r')" using rest by (simp add: seq_body_def)
      have "b \<noteq> BodyStuck \<and> run_inv r'
        \<and> (\<exists>ts. prefix ts (tokens_of its) \<and> (b = BodyOk \<longrightarrow> ts = tokens_of its) \<and> lr_parts r' = lr_parts r4 @ ts)
        \<and> (has_segment cb \<longrightarrow> ink_balanced r4 \<longrightarrow> ink_prefix r' \<and> (b = BodyOk \<longrightarrow> ink_balanced r'))"
        using 3(1) [OF r1_def r2_def inv4 cs] by blast
      then obtain ts where ih: "b \<noteq> BodyStuck" "run_inv r'" "prefix ts (tokens_of its)"
        "b = BodyOk \<longrightarrow> ts = tokens_of its" "lr_parts r' = lr_parts r4 @ ts"
        "has_segment cb \<longrightarrow> ink_balanced r4 \<longrightarrow> ink_prefix r' \<and> (b = BodyOk \<longrightarrow> ink_balanced r')" by blast
      have "prefix (tok # ts) (tokens_of (StreamToken tok idx # its))"
        "b = BodyOk \<longrightarrow> tok # ts = tokens_of (StreamToken tok idx # its)"
        "lr_parts r' = lr_parts r @ (tok # ts)" using ih p4 by simp_all
      then show ?thesis using ih(1,2,6) ink4 ok by blast
    qed
  qed
qed

section \<open>The whole task\<close>

definition run_good :: "llm_callbacks \<Rightarrow> llm_stream \<Rightarrow> llm_run \<Rightarrow> bool" where
  "run_good cb st r \<longleftrightarrow> run_inv r \<and> (\<exists>ts. prefix ts (tokens_of (fst st)) \<and> lr_parts r = ts)
     \<and> (has_segment cb \<longrightarrow> ink_prefix r)"

lemma new_llm_run_inv: "run_inv (new_llm_run env)" "ink_balanced (new_llm_run env)"
  by (simp_all add: run_inv_def ink_balanced_def new_llm_run_def prefixes_of_def new_chunker_def)

lemma run_inv_log:
  "run_inv r \<Longrightarrow> completions_of [e] = [] \<Longrightarrow> partials_of [e] = [] \<Longrightarrow>
   (\<forall>s\<in>set (segments_of [e]). strip s \<noteq> []) \<Longrightarrow>
   run_inv (r\<lparr>lr_log := lr_log r @ [e], lr_env := as\<rparr>)"
  by (auto simp: run_inv_def)

lemma run_body_spec:
  assumes b: "run_body cb st m (new_llm_run env) = (b, r)"
  shows "b \<noteq> BodyStuck \<and> run_good cb st r
    \<and> (b = BodyOk \<longrightarrow> snd st = StreamDone \<and> lr_parts r = tokens_of (fst st) \<and> LlmFinal (concat (lr_parts r)) (llm_metrics_to_dict m) = last (lr_log r)
        \<and> (has_segment cb \<longrightarrow> inked (concat (segments_of (lr_log r))) = inked (concat (lr_parts r))))"
proof -
  obtain b1 r1 where c: "consume cb (fst st) (new_llm_run env) = (b1, r1)" by fastforce
  obtain ts where s1: "b1 \<noteq> BodyStuck" "run_inv r1" "prefix ts (tokens_of (fst st))"
    "b1 = BodyOk \<longrightarrow> ts = tokens_of (fst st)" "lr_parts r1 = ts"
    "has_segment cb \<longrightarrow> ink_prefix r1 \<and> (b1 = BodyOk \<longrightarrow> ink_balanced r1)"
    using consume_spec [OF new_llm_run_inv(1) c] new_llm_run_inv(2) [of env]
    by (auto simp: new_llm_run_def)
  have good1: "run_good cb st r1" using s1 by (auto simp: run_good_def)
  show ?thesis
  proof (cases "b1 = BodyOk \<and> snd st = StreamDone")
    case False
    then have "r = r1" "b \<noteq> BodyOk" "b \<noteq> BodyStuck"
      using b s1(1) c by (auto simp: run_body_def seq_body_def split: body_end.splits stream_end.splits)
    then show ?thesis using good1 by blast
  next
    case True
    obtain rest ck where fl: "chunker_flush (lr_chunker r1) = (rest, ck)" by fastforce
    define r2 where "r2 = r1\<lparr>lr_chunker := ck\<rparr>"
    define tail where "tail = (case rest of
       Some s \<Rightarrow> if has_segment cb then do_await (Segment s) r2 else (BodyOk, r2) | None \<Rightarrow> (BodyOk, r2))"
    obtain b3 r3 where t: "tail = (b3, r3)" by fastforce
    have ck: "min_chars ck = min_chars (lr_chunker r1)" and
      rest: "rest = (if strip (ck_buffer (lr_chunker r1)) = [] then None else Some (strip (ck_buffer (lr_chunker r1))))"
      using fl by (auto simp: chunker_flush_def Let_def)
    have inv2: "run_inv r2" using s1(2) ck by (simp add: r2_def run_inv_def)
    have bal: "has_segment cb \<Longrightarrow> inked (concat (segments_of (lr_log r1))) @ inked (ck_buffer (lr_chunker r1))
        = inked (concat (lr_parts r1))" using s1(6) True by (simp add: ink_balanced_def)
    have 3: "b3 \<noteq> BodyStuck \<and> run_inv r3 \<and> lr_parts r3 = lr_parts r1
       \<and> (has_segment cb \<longrightarrow> inked (concat (segments_of (lr_log r3))) = inked (concat (lr_parts r1)))"
    proof (cases "rest = None \<or> \<not> has_segment cb")
      case True
      then have "b3 = BodyOk" "r3 = r2" using t by (auto simp: tail_def split: option.splits)
      moreover have "has_segment cb \<Longrightarrow> inked (ck_buffer (lr_chunker r1)) = []"
        using True rest by (auto simp: inked_Nil_iff split: if_splits)
      ultimately show ?thesis using inv2 bal by (auto simp: r2_def)
    next
      case False
      then obtain sg where sg: "rest = Some sg" and hs: "has_segment cb" by auto
      obtain b' as where d: "do_await (Segment sg) r2 = (b', r2\<lparr>lr_log := lr_log r2 @ [Segment sg], lr_env := as\<rparr>)"
        "b' \<noteq> BodyStuck" by (rule do_await_cases)
      then have r3: "b3 = b'" "r3 = r2\<lparr>lr_log := lr_log r2 @ [Segment sg], lr_env := as\<rparr>"
        using t sg hs by (auto simp: tail_def)
      have g: "sg = strip (ck_buffer (lr_chunker r1))" "sg \<noteq> []" using rest sg by (auto split: if_splits)
      have "run_inv r3" unfolding r3 by (rule run_inv_log [OF inv2]) (use g in \<open>simp_all add: strip_idem\<close>)
      moreover have "inked (concat (segments_of (lr_log r3))) = inked (concat (lr_parts r1))"
        using bal [OF hs] g(1) r3(2) by (simp add: r2_def)
      ultimately show ?thesis using r3 d(2) by (simp add: r2_def)
    qed
    have rb: "run_body cb st m (new_llm_run env) = seq_body (b3, r3)
        (\<lambda>r3. do_await (LlmFinal (concat (lr_parts r3)) (llm_metrics_to_dict m)) r3)"
      using True t [unfolded tail_def r2_def]
      by (simp add: run_body_def c seq_body_def [of "(BodyOk, r1)"] fl Let_def)
    have ts: "lr_parts r1 = tokens_of (fst st)" using s1(4,5) True by simp
    have pre: "has_segment cb \<Longrightarrow> ink_prefix r3" using 3 by (simp add: ink_prefix_def)
    show ?thesis
    proof (cases "b3 = BodyOk")
      case f: False
      then have "b = b3" "r = r3" using b rb by (auto simp: seq_body_def split: body_end.splits)
      then show ?thesis using 3 pre ts f by (auto simp: run_good_def)
    next
      case ok: True
      obtain b' as where d: "do_await (LlmFinal (concat (lr_parts r3)) (llm_metrics_to_dict m)) r3
          = (b', r3\<lparr>lr_log := lr_log r3 @ [LlmFinal (concat (lr_parts r3)) (llm_metrics_to_dict m)], lr_env := as\<rparr>)"
        "b' \<noteq> BodyStuck" by (rule do_await_cases)
      have r: "b = b'" "r = r3\<lparr>lr_log := lr_log r3 @ [LlmFinal (concat (lr_parts r3)) (llm_metrics_to_dict m)], lr_env := as\<rparr>"
        using b rb ok d(1) by (simp_all add: seq_body_def)
      have "run_inv r" unfolding r(2) by (rule run_inv_log) (use 3 in simp_all)
      then show ?thesis using 3 pre ts d(2) True r(1) unfolding r(2)
        by (simp add: run_good_def ink_prefix_def)
    qed
  qed
qed

text \<open>
  Every generation returns. It completes at most once, last of all (exactly once when there is a
  callback), with the tokens received so far as its text; what was spoken before is a prefix of
  that text's printing characters. The outcome \<open>COMPLETED\<close> means the stream ended by itself and
  everything was spoken.
\<close>

lemma generate_spec:
  "\<exists>(r :: llm_run) txt oc. generate cb st m env = Some (lr_log r) \<and> txt = concat (lr_parts r)
    \<and> completions_of (lr_log r) = (if has_complete cb then [(txt, oc)] else [])
    \<and> (has_complete cb \<longrightarrow> last (lr_log r) = Complete txt oc)
    \<and> prefix (lr_parts r) (tokens_of (fst st))
    \<and> partials_of (lr_log r) = prefixes_of (lr_parts r)
    \<and> (has_segment cb \<longrightarrow> prefix (inked (concat (segments_of (lr_log r)))) (inked txt))
    \<and> (oc = COMPLETED \<longrightarrow> snd st = StreamDone \<and> lr_parts r = tokens_of (fst st)
         \<and> (has_segment cb \<longrightarrow> inked (concat (segments_of (lr_log r))) = inked txt))"
proof -
  obtain b r1 where rb: "run_body cb st m (new_llm_run env) = (b, r1)" by fastforce
  note sp = run_body_spec [OF rb]
  define oc where "oc = (case b of BodyOk \<Rightarrow> COMPLETED | BodyCancelled \<Rightarrow> CANCELLED | _ \<Rightarrow> FAILED)"
  define e where "e = (case b of BodyCancelled \<Rightarrow> LlmCancelled (concat (lr_parts r1)) (llm_metrics_to_dict m) | _ \<Rightarrow> LlmError)"
  define r2 where "r2 = (if b = BodyOk then r1 else snd (do_await e r1))"
  obtain b' as where "do_await e r1 = (b', r1\<lparr>lr_log := lr_log r1 @ [e], lr_env := as\<rparr>)" by (rule do_await_cases)
  moreover have "segments_of [e] = []" "completions_of [e] = []" "partials_of [e] = []"
    by (cases b; simp add: e_def)+
  ultimately have r2: "segments_of (lr_log r2) = segments_of (lr_log r1)"
    "completions_of (lr_log r2) = completions_of (lr_log r1)"
    "partials_of (lr_log r2) = partials_of (lr_log r1)" "lr_parts r2 = lr_parts r1"
    by (auto simp: r2_def)
  have g: "run_generation cb st m (new_llm_run env) = Some (complete_run cb oc r2)"
    using sp by (cases b) (simp_all add: run_generation_def rb oc_def r2_def e_def)
  obtain b'' as' where "do_await (Complete (concat (lr_parts r2)) oc) r2
      = (b'', r2\<lparr>lr_log := lr_log r2 @ [Complete (concat (lr_parts r2)) oc], lr_env := as'\<rparr>)"
    by (rule do_await_cases)
  then have c: "complete_run cb oc r2 = (if has_complete cb
      then r2\<lparr>lr_log := lr_log r2 @ [Complete (concat (lr_parts r2)) oc], lr_env := as'\<rparr> else r2)"
    by (simp add: complete_run_def)
  have oc: "oc = COMPLETED \<longrightarrow> b = BodyOk" using sp by (cases b) (simp_all add: oc_def)
  have good: "run_good cb st r1" using sp by blast
  have gen: "generate cb st m env = Some (lr_log (complete_run cb oc r2))" by (simp add: generate_def g)
  show ?thesis
    by (rule exI [of _ "complete_run cb oc r2"], rule exI [of _ "concat (lr_parts r1)"], rule exI [of _ oc])
      (use gen good oc sp c r2 in \<open>auto simp: run_good_def run_inv_def ink_prefix_def\<close>)
qed

section \<open>Failover\<close>

text \<open>
  One reply never mixes two providers; a provider that has yielded anything is not replaced; and the
  stream is complete when the first provider is, or when it fails silently and the second one is.
\<close>

lemma failover_spec:
  "fst (failover_stream p s) =
     (if snd p = StreamRaises \<and> fst p = []
      then (case s of None \<Rightarrow> ([], StreamRaises) | Some q \<Rightarrow> q) else p)"
  by (cases p; cases s) (auto simp: failover_stream_def split: if_splits)

section \<open>The current task\<close>

text \<open>
  \<open>lc_task\<close> is \<^verbatim>\<open>self._task\<close>, an index into the tasks created so far. \<open>LlmRunning True\<close> is a
  running task that has been asked to cancel.
\<close>

datatype llm_task = LlmRunning bool | LlmDone

record llm_consumer =
  lc_task :: "nat option"
  lc_tasks :: "llm_task list"

definition new_llm_consumer :: llm_consumer where
  "new_llm_consumer = \<lparr>lc_task = None, lc_tasks = []\<rparr>"

definition is_generating :: "llm_consumer \<Rightarrow> bool" where
  "is_generating c = (case lc_task c of None \<Rightarrow> False | Some i \<Rightarrow> lc_tasks c ! i \<noteq> LlmDone)"

definition llm_cancel :: "llm_consumer \<Rightarrow> llm_consumer" where
  "llm_cancel c =
     (case lc_task c of
        None \<Rightarrow> c
      | Some i \<Rightarrow> if lc_tasks c ! i \<noteq> LlmDone then c\<lparr>lc_tasks := (lc_tasks c)[i := LlmRunning True]\<rparr> else c)"

text \<open>\<^verbatim>\<open>aclose\<close> waits for the cancelled task; it is done when the call returns.\<close>

definition llm_aclose :: "llm_consumer \<Rightarrow> llm_consumer" where
  "llm_aclose c =
     (case lc_task c of
        None \<Rightarrow> c
      | Some i \<Rightarrow> if lc_tasks c ! i \<noteq> LlmDone then c\<lparr>lc_tasks := (lc_tasks c)[i := LlmDone]\<rparr> else c)"

definition start_generation :: "llm_consumer \<Rightarrow> llm_consumer" where
  "start_generation c =
     (let c1 = llm_cancel c
      in c1\<lparr>lc_tasks := lc_tasks c1 @ [LlmRunning False], lc_task := Some (length (lc_tasks c1))\<rparr>)"

definition task_ends :: "nat \<Rightarrow> llm_consumer \<Rightarrow> llm_consumer" where
  "task_ends i c = c\<lparr>lc_tasks := (lc_tasks c)[i := LlmDone]\<rparr>"

text \<open>At most the current task runs without having been asked to cancel.\<close>

definition llm_wf :: "llm_consumer \<Rightarrow> bool" where
  "llm_wf c \<longleftrightarrow> (\<forall>i. lc_task c = Some i \<longrightarrow> i < length (lc_tasks c))
     \<and> (\<forall>i<length (lc_tasks c). lc_tasks c ! i = LlmRunning False \<longrightarrow> lc_task c = Some i)"

lemma llm_wf_new: "llm_wf new_llm_consumer"
  by (simp add: llm_wf_def new_llm_consumer_def)

lemma llm_wfI:
  "(\<And>i. lc_task c = Some i \<Longrightarrow> i < length (lc_tasks c)) \<Longrightarrow>
   (\<And>i. i < length (lc_tasks c) \<Longrightarrow> lc_tasks c ! i = LlmRunning False \<Longrightarrow> lc_task c = Some i) \<Longrightarrow> llm_wf c"
  unfolding llm_wf_def by blast

lemma llm_wfD:
  "llm_wf c \<Longrightarrow> lc_task c = Some i \<Longrightarrow> i < length (lc_tasks c)"
  "llm_wf c \<Longrightarrow> i < length (lc_tasks c) \<Longrightarrow> lc_tasks c ! i = LlmRunning False \<Longrightarrow> lc_task c = Some i"
  unfolding llm_wf_def by blast+

lemma llm_wf_update:
  assumes "llm_wf c" "t \<noteq> LlmRunning False"
  shows "llm_wf (c\<lparr>lc_tasks := (lc_tasks c)[i := t]\<rparr>)"
proof (rule llm_wfI)
  fix j assume "lc_task (c\<lparr>lc_tasks := (lc_tasks c)[i := t]\<rparr>) = Some j"
  then show "j < length (lc_tasks (c\<lparr>lc_tasks := (lc_tasks c)[i := t]\<rparr>))"
    using llm_wfD(1) [OF assms(1), of j] by simp
next
  fix j assume l: "j < length (lc_tasks (c\<lparr>lc_tasks := (lc_tasks c)[i := t]\<rparr>))"
    and a: "lc_tasks (c\<lparr>lc_tasks := (lc_tasks c)[i := t]\<rparr>) ! j = LlmRunning False"
  have "j \<noteq> i" using a l assms(2) by auto
  then show "lc_task (c\<lparr>lc_tasks := (lc_tasks c)[i := t]\<rparr>) = Some j"
    using llm_wfD(2) [OF assms(1), of j] a l by simp
qed

lemma llm_wf_cancel [inv_pres]: "llm_wf c \<Longrightarrow> llm_wf (llm_cancel c)"
  by (simp add: llm_cancel_def llm_wf_update split: option.split)

lemma llm_wf_aclose [inv_pres]: "llm_wf c \<Longrightarrow> llm_wf (llm_aclose c)"
  by (simp add: llm_aclose_def llm_wf_update split: option.split)

lemma llm_wf_ends [inv_pres]: "llm_wf c \<Longrightarrow> llm_wf (task_ends i c)"
  by (simp add: task_ends_def llm_wf_update)

lemma length_llm_cancel [frame]: "length (lc_tasks (llm_cancel c)) = length (lc_tasks c)"
  by (simp add: llm_cancel_def split: option.split)

lemma llm_cancel_task: "lc_task (llm_cancel c) = lc_task c"
  by (simp add: llm_cancel_def split: option.split)

lemma llm_cancel_none_live:
  assumes "llm_wf c" "i < length (lc_tasks c)"
  shows "lc_tasks (llm_cancel c) ! i \<noteq> LlmRunning False"
proof
  assume a: "lc_tasks (llm_cancel c) ! i = LlmRunning False"
  have "lc_task c = Some i"
    using llm_wfD(2) [OF llm_wf_cancel [OF assms(1)] _ a] assms(2)
    by (simp add: length_llm_cancel llm_cancel_task)
  then show False using a assms(2) by (simp add: llm_cancel_def split: if_splits)
qed

lemma llm_wf_start [inv_pres]: "llm_wf c \<Longrightarrow> llm_wf (start_generation c)"
  by (rule llm_wfI)
    (auto simp: start_generation_def Let_def nth_append length_llm_cancel less_Suc_eq llm_cancel_none_live)

lemma llm_cancel_idem: "llm_cancel (llm_cancel c) = llm_cancel c"
  by (cases "lc_task c") (simp_all add: llm_cancel_def)

text \<open>At most one task is running and not cancelled.\<close>

lemma llm_one_live:
  assumes "llm_wf c"
  shows "length (filter (\<lambda>t. t = LlmRunning False) (lc_tasks c)) \<le> 1"
proof -
  have "{i. i < length (lc_tasks c) \<and> lc_tasks c ! i = LlmRunning False} \<subseteq> {the (lc_task c)}"
  proof
    fix i
    assume "i \<in> {i. i < length (lc_tasks c) \<and> lc_tasks c ! i = LlmRunning False}"
    then have "i < length (lc_tasks c)" "lc_tasks c ! i = LlmRunning False" by simp_all
    with assms have "lc_task c = Some i" unfolding llm_wf_def by blast
    then show "i \<in> {the (lc_task c)}" by simp
  qed
  then have "card {i. i < length (lc_tasks c) \<and> lc_tasks c ! i = LlmRunning False} \<le> 1"
    using card_mono [of "{the (lc_task c)}"] by simp
  then show ?thesis by (simp add: length_filter_conv_card)
qed

end
