(* ===== verification/ThreadStream.thy ===== *)
theory ThreadStream
  imports LlmConsumer
begin

text \<open>
  The shape that \<^verbatim>\<open>app/llm/providers/bedrock_engine.py\<close> and \<^verbatim>\<open>app/tts/providers/polly_engine.py\<close> share: a worker
  thread reads a blocking source and hands items over an unbounded queue to the generator, which is the reader.
  The reader sets a stop flag when it ends, by the end mark, an exception or a cancellation; the worker looks at the
  flag once for each event of the source. \<open>work\<close> is what the worker makes of an event (\<open>None\<close>: it raises) and
  \<open>finish\<close> what it hands over after the last one. A run is any interleaving of the two. The lemmas show that it
  refines the sequential reading \<open>worker_items\<close>, never gets stuck and always ends.
\<close>

section \<open>State and steps\<close>

datatype 'i thread_item = Item 'i | Exc | DoneMark
datatype worker_phase = Checking | Working | WorkerEnded

text \<open>How the source ends: it is exhausted, reading it raises, or closing it after the last event raises.\<close>

datatype source_end = SourceDone | SourceRaises | CloseRaises

record ('w, 'e, 'i) thread_stream =
  th_todo :: "'e list"
  th_source :: source_end
  th_mem :: 'w
  th_worker :: worker_phase
  th_stop :: bool
  th_queue :: "'i thread_item list"
  th_out :: "'i list"
  th_reader :: "stream_end option"

definition new_thread :: "'w \<Rightarrow> 'e list \<Rightarrow> source_end \<Rightarrow> ('w, 'e, 'i) thread_stream" where
  "new_thread w es src =
     \<lparr>th_todo = es, th_source = src, th_mem = w, th_worker = Checking, th_stop = False, th_queue = [], th_out = [],
      th_reader = None\<rparr>"

definition put_items :: "'i thread_item list \<Rightarrow> ('w, 'e, 'i) thread_stream \<Rightarrow> ('w, 'e, 'i) thread_stream" where
  "put_items xs r = r\<lparr>th_queue := th_queue r @ xs\<rparr>"

definition end_worker :: "'i thread_item list \<Rightarrow> ('w, 'e, 'i) thread_stream \<Rightarrow> ('w, 'e, 'i) thread_stream" where
  "end_worker xs r = (put_items (xs @ [DoneMark]) r)\<lparr>th_worker := WorkerEnded\<rparr>"

definition end_reader :: "stream_end \<Rightarrow> ('w, 'e, 'i) thread_stream \<Rightarrow> ('w, 'e, 'i) thread_stream" where
  "end_reader fin r = r\<lparr>th_reader := Some fin, th_stop := True\<rparr>"

text \<open>What is handed over when the source is at its end.\<close>

definition last_items :: "('w \<Rightarrow> 'i list) \<Rightarrow> ('w, 'e, 'i) thread_stream \<Rightarrow> 'i thread_item list" where
  "last_items finish r =
     (let rest = (if th_stop r then [] else map Item (finish (th_mem r)))
      in case th_source r of SourceDone \<Rightarrow> rest | SourceRaises \<Rightarrow> [Exc] | CloseRaises \<Rightarrow> rest @ [Exc])"

inductive thread_step ::
  "('w \<Rightarrow> 'e \<Rightarrow> ('w \<times> 'i list) option) \<Rightarrow> ('w \<Rightarrow> 'i list)
     \<Rightarrow> ('w, 'e, 'i) thread_stream \<Rightarrow> ('w, 'e, 'i) thread_stream \<Rightarrow> bool" for work finish where
  th_check: "th_worker r = Checking \<Longrightarrow> \<not> th_stop r \<Longrightarrow> thread_step work finish r (r\<lparr>th_worker := Working\<rparr>)"
| th_stopped: "th_worker r = Checking \<Longrightarrow> th_stop r \<Longrightarrow> thread_step work finish r (end_worker [] r)"
| th_close_raises: "th_worker r \<noteq> WorkerEnded \<Longrightarrow> th_stop r \<Longrightarrow> thread_step work finish r (end_worker [Exc] r)"
| th_event: "th_worker r = Working \<Longrightarrow> th_todo r = e # es \<Longrightarrow> work (th_mem r) e = Some (w, xs) \<Longrightarrow>
    thread_step work finish r (put_items (map Item xs) (r\<lparr>th_todo := es, th_mem := w, th_worker := Checking\<rparr>))"
| th_raises: "th_worker r = Working \<Longrightarrow> th_todo r = e # es \<Longrightarrow> work (th_mem r) e = None \<Longrightarrow>
    thread_step work finish r (end_worker [Exc] r)"
| th_ends: "th_worker r = Working \<Longrightarrow> th_todo r = [] \<Longrightarrow> thread_step work finish r (end_worker (last_items finish r) r)"
| th_read: "th_reader r = None \<Longrightarrow> th_queue r = Item x # q \<Longrightarrow>
    thread_step work finish r (r\<lparr>th_queue := q, th_out := th_out r @ [x]\<rparr>)"
| th_read_exc: "th_reader r = None \<Longrightarrow> th_queue r = Exc # q \<Longrightarrow>
    thread_step work finish r (end_reader StreamRaises (r\<lparr>th_queue := q\<rparr>))"
| th_read_done: "th_reader r = None \<Longrightarrow> th_queue r = DoneMark # q \<Longrightarrow>
    thread_step work finish r (end_reader StreamDone (r\<lparr>th_queue := q\<rparr>))"
| th_cancel: "th_reader r = None \<Longrightarrow> thread_step work finish r (end_reader StreamCancelled r)"

section \<open>The sequential reading\<close>

fun worker_items ::
  "('w \<Rightarrow> 'e \<Rightarrow> ('w \<times> 'i list) option) \<Rightarrow> ('w \<Rightarrow> 'i list) \<Rightarrow> 'w \<Rightarrow> 'e list \<Rightarrow> source_end \<Rightarrow> 'i list \<times> stream_end"
where
  "worker_items work finish w [] src =
     (case src of SourceDone \<Rightarrow> (finish w, StreamDone) | SourceRaises \<Rightarrow> ([], StreamRaises)
      | CloseRaises \<Rightarrow> (finish w, StreamRaises))"
| "worker_items work finish w (e # es) src =
     (case work w e of
        None \<Rightarrow> ([], StreamRaises)
      | Some (w', xs) \<Rightarrow> (case worker_items work finish w' es src of (ys, fin) \<Rightarrow> (xs @ ys, fin)))"

definition end_marks :: "stream_end \<Rightarrow> 'i thread_item list" where
  "end_marks fin = (if fin = StreamRaises then [Exc, DoneMark] else [DoneMark])"

text \<open>
  The match between a state of a run and the sequential reading \<open>(all, fin)\<close>: while the reader reads, what it has, what
  is queued and what the worker will still hand over make up \<open>all\<close>; when it has ended, it has all of it, or a part
  if it was cancelled.
\<close>

definition queued :: "'i list \<Rightarrow> stream_end \<Rightarrow> ('w, 'e, 'i) thread_stream \<Rightarrow> bool" where
  "queued all fin r \<longleftrightarrow> (\<exists>xs. th_queue r = map Item xs @ end_marks fin \<and> th_out r @ xs = all)"

definition working ::
  "('w \<Rightarrow> 'e \<Rightarrow> ('w \<times> 'i list) option) \<Rightarrow> ('w \<Rightarrow> 'i list) \<Rightarrow> 'i list \<Rightarrow> stream_end \<Rightarrow> ('w, 'e, 'i) thread_stream \<Rightarrow> bool"
where
  "working work finish all fin r \<longleftrightarrow>
     (\<exists>xs ys. th_queue r = map Item xs \<and> worker_items work finish (th_mem r) (th_todo r) (th_source r) = (ys, fin)
        \<and> th_out r @ xs @ ys = all)"

definition thread_match ::
  "('w \<Rightarrow> 'e \<Rightarrow> ('w \<times> 'i list) option) \<Rightarrow> ('w \<Rightarrow> 'i list) \<Rightarrow> 'i list \<Rightarrow> stream_end \<Rightarrow> ('w, 'e, 'i) thread_stream \<Rightarrow> bool"
where
  "thread_match work finish all fin r \<longleftrightarrow>
     (th_stop r \<longleftrightarrow> th_reader r \<noteq> None) \<and> fin \<noteq> StreamCancelled \<and>
     (case th_reader r of
        None \<Rightarrow> if th_worker r = WorkerEnded then queued all fin r else working work finish all fin r
      | Some StreamCancelled \<Rightarrow> (\<exists>ys. all = th_out r @ ys)
      | Some e \<Rightarrow> th_out r = all \<and> e = fin)"

section \<open>Lemmas\<close>

lemma thread_fields [simp]:
  "th_todo (put_items xs r) = th_todo r" "th_source (put_items xs r) = th_source r" "th_mem (put_items xs r) = th_mem r"
  "th_worker (put_items xs r) = th_worker r" "th_stop (put_items xs r) = th_stop r" "th_out (put_items xs r) = th_out r"
  "th_reader (put_items xs r) = th_reader r" "th_queue (put_items xs r) = th_queue r @ xs"
  "th_todo (end_worker xs r) = th_todo r" "th_worker (end_worker xs r) = WorkerEnded" "th_stop (end_worker xs r) = th_stop r"
  "th_out (end_worker xs r) = th_out r" "th_reader (end_worker xs r) = th_reader r"
  "th_queue (end_worker xs r) = th_queue r @ xs @ [DoneMark]"
  "th_todo (end_reader f r) = th_todo r" "th_worker (end_reader f r) = th_worker r" "th_stop (end_reader f r)"
  "th_out (end_reader f r) = th_out r" "th_reader (end_reader f r) = Some f" "th_queue (end_reader f r) = th_queue r"
  by (simp_all add: put_items_def end_worker_def end_reader_def)

lemma worker_not_cancelled: "snd (worker_items work finish w es src) \<noteq> StreamCancelled"
proof (induction es arbitrary: w)
  case (Cons e es)
  then show ?case by (cases "work w e") (auto split: prod.splits dest: sym [of "(_, _)"] simp: prod_eq_iff)
qed (simp split: source_end.split)

lemma thread_match_new:
  "thread_match work finish (fst (worker_items work finish w es src)) (snd (worker_items work finish w es src))
     (new_thread w es src)"
  using worker_not_cancelled [of work finish w es src]
  by (auto simp: thread_match_def new_thread_def working_def)

text \<open>A step of the worker, or one that takes an item, while the reader reads.\<close>

lemma queued_end:
  assumes "working work finish all fin r" "\<not> th_stop r" "th_todo r = []" "th_worker r = Working"
  shows "queued all fin (end_worker (last_items finish r) r)"
  using assms
  by (cases "th_source r") (auto simp: working_def queued_def last_items_def end_marks_def)

lemma queued_raise:
  assumes "working work finish all fin r" "th_todo r = e # es" "work (th_mem r) e = None"
  shows "queued all fin (end_worker [Exc] r)"
  using assms by (auto simp: working_def queued_def end_marks_def)

lemma working_event:
  assumes "working work finish all fin r" "th_todo r = e # es" "work (th_mem r) e = Some (w, ys)"
  shows "working work finish all fin (put_items (map Item ys) (r\<lparr>th_todo := es, th_mem := w, th_worker := Checking\<rparr>))"
proof -
  obtain xs zs where x: "th_queue r = map Item xs" "worker_items work finish (th_mem r) (th_todo r) (th_source r) = (zs, fin)"
      "th_out r @ xs @ zs = all"
    using assms(1) by (auto simp: working_def)
  then obtain vs where "worker_items work finish w es (th_source r) = (vs, fin)" "zs = ys @ vs"
    using assms(2,3) by (auto split: prod.splits)
  with x show ?thesis by (auto simp: working_def intro!: exI [of _ "xs @ ys"])
qed

lemma item_taken:
  assumes "th_queue r = Item x # q"
  shows "queued all fin r \<Longrightarrow> queued all fin (r\<lparr>th_queue := q, th_out := th_out r @ [x]\<rparr>)"
    and "working work finish all fin r \<Longrightarrow> working work finish all fin (r\<lparr>th_queue := q, th_out := th_out r @ [x]\<rparr>)"
  using assms
  by (auto simp: queued_def working_def end_marks_def Cons_eq_append_conv Cons_eq_map_conv split: if_splits)

lemma mark_read:
  assumes "queued all fin r \<or> working work finish all fin r"
  shows "th_queue r = Exc # q \<Longrightarrow> th_out r = all \<and> fin = StreamRaises"
    and "th_queue r = DoneMark # q \<Longrightarrow> th_out r = all \<and> fin \<noteq> StreamRaises"
    and "\<exists>ys. all = th_out r @ ys"
  using assms by (auto simp: queued_def working_def end_marks_def Cons_eq_append_conv split: if_splits)

lemma thread_match_step:
  assumes "thread_step work finish r r'" "thread_match work finish all fin r"
  shows "thread_match work finish all fin r'"
proof (cases "th_reader r")
  case None
  then have s: "\<not> th_stop r" "fin \<noteq> StreamCancelled"
    and m: "if th_worker r = WorkerEnded then queued all fin r else working work finish all fin r"
    using assms(2) by (auto simp: thread_match_def)
  then have qw: "queued all fin r \<or> working work finish all fin r" by (auto split: if_splits)
  from assms(1) show ?thesis
  proof cases
    case th_check
    with None s m show ?thesis by (auto simp: thread_match_def working_def)
  next
    case (th_event e es w xs)
    with None s m working_event show ?thesis by (auto simp: thread_match_def)
  next
    case (th_raises e es)
    with None s m queued_raise show ?thesis by (auto simp: thread_match_def)
  next
    case th_ends
    with None s m queued_end show ?thesis by (auto simp: thread_match_def)
  next
    case (th_read x q)
    with None s m item_taken [OF th_read(3)] show ?thesis by (auto simp: thread_match_def)
  next
    case (th_read_exc q)
    with None s mark_read(1) [OF qw] show ?thesis by (auto simp: thread_match_def)
  next
    case (th_read_done q)
    with None s mark_read(2) [OF qw] show ?thesis by (cases fin) (auto simp: thread_match_def)
  next
    case th_cancel
    with None s mark_read(3) [OF qw] show ?thesis by (auto simp: thread_match_def)
  qed (use s in auto)
next
  case (Some e)
  with assms have "th_reader r' = th_reader r \<and> th_out r' = th_out r \<and> th_stop r' = th_stop r"
    by (cases rule: thread_step.cases) auto
  with Some assms(2) show ?thesis by (cases e) (auto simp: thread_match_def)
qed

abbreviation thread_run ::
  "('w \<Rightarrow> 'e \<Rightarrow> ('w \<times> 'i list) option) \<Rightarrow> ('w \<Rightarrow> 'i list)
     \<Rightarrow> ('w, 'e, 'i) thread_stream \<Rightarrow> ('w, 'e, 'i) thread_stream \<Rightarrow> bool" where
  "thread_run work finish \<equiv> (thread_step work finish)\<^sup>*\<^sup>*"

lemma thread_match_run:
  assumes "thread_run work finish (new_thread w es src) r"
  shows "thread_match work finish (fst (worker_items work finish w es src)) (snd (worker_items work finish w es src)) r"
  using assms by (induction rule: rtranclp_induct) (auto intro: thread_match_new thread_match_step)

text \<open>The refinement: whatever the interleaving, the reader that is not cancelled gets exactly the sequential reading.\<close>

lemma thread_refines:
  assumes "thread_run work finish (new_thread w es src) r" "th_reader r = Some fin" "fin \<noteq> StreamCancelled"
  shows "worker_items work finish w es src = (th_out r, fin)"
  using thread_match_run [OF assms(1)] assms(2,3)
  by (cases fin; cases "worker_items work finish w es src") (auto simp: thread_match_def)

lemma thread_prefix:
  assumes "thread_run work finish (new_thread w es src) r"
  shows "\<exists>ys. fst (worker_items work finish w es src) = th_out r @ ys"
proof (cases "th_reader r")
  case None
  then show ?thesis
    using thread_match_run [OF assms] mark_read(3) [of _ _ r work finish] by (simp add: thread_match_def) metis
next
  case (Some e)
  then show ?thesis using thread_match_run [OF assms] by (cases e) (auto simp: thread_match_def)
qed

text \<open>The reader is never left waiting: while it reads, the worker can go on or something is queued.\<close>

lemma worker_can_step:
  assumes "th_worker r \<noteq> WorkerEnded"
  shows "\<exists>r'. thread_step work finish r r' \<and> th_reader r' = th_reader r"
proof (cases "th_worker r")
  case Checking
  then show ?thesis using th_check [of r work finish] th_stopped [of r work finish] by (cases "th_stop r") force+
next
  case Working
  show ?thesis
  proof (cases "th_todo r")
    case Nil
    with Working th_ends [of r work finish] show ?thesis by force
  next
    case (Cons e es)
    with Working th_raises [of r e es work finish] th_event [of r e es work _ _ finish] show ?thesis
      by (cases "work (th_mem r) e") force+
  qed
qed (use assms in simp)

lemma thread_not_stuck:
  assumes "thread_run work finish (new_thread w es src) r" "th_reader r = None"
  shows "\<exists>r'. thread_step work finish r r' \<and> th_reader r' \<noteq> Some StreamCancelled"
proof (cases "th_worker r = WorkerEnded")
  case True
  with thread_match_run [OF assms(1)] assms(2) have q: "th_queue r \<noteq> []"
    by (auto simp: thread_match_def queued_def end_marks_def split: if_splits)
  then obtain x q where "th_queue r = x # q" by (cases "th_queue r") auto
  with assms(2) show ?thesis
    by (cases x) (force dest: th_read [where work = work and finish = finish] th_read_exc [where work = work and finish = finish]
        th_read_done [where work = work and finish = finish])+
next
  case False
  then show ?thesis using worker_can_step [OF False, of work finish] assms(2) by fastforce
qed

text \<open>Every run ends.\<close>

definition worker_left :: "('w, 'e, 'i) thread_stream \<Rightarrow> nat" where
  "worker_left r =
     (case th_worker r of WorkerEnded \<Rightarrow> 0 | Checking \<Rightarrow> 2 * length (th_todo r) + 2 | Working \<Rightarrow> 2 * length (th_todo r) + 1)"

definition reader_left :: "('w, 'e, 'i) thread_stream \<Rightarrow> nat" where
  "reader_left r = (case th_reader r of None \<Rightarrow> length (th_queue r) + 1 | Some e \<Rightarrow> 0)"

lemma thread_step_decreases:
  assumes "thread_step work finish r r'"
  shows "(r', r) \<in> measures [worker_left, reader_left]"
  using assms by cases (auto simp: worker_left_def reader_left_def split: worker_phase.splits option.splits)

lemma thread_terminates: "wf {(r', r). thread_step work finish r r'}"
  by (rule wf_subset [OF wf_measures [of "[worker_left, reader_left]"]]) (auto dest: thread_step_decreases)

text \<open>A run that is read to its end without a cancellation is always possible.\<close>

lemma thread_completes:
  assumes "thread_run work finish (new_thread w es src) r" "th_reader r = None"
  shows "\<exists>r' fin. thread_run work finish r r' \<and> th_reader r' = Some fin \<and> fin \<noteq> StreamCancelled"
  using assms
proof (induction r rule: wf_induct_rule [OF thread_terminates [of work finish]])
  case (1 r)
  obtain r1 where r1: "thread_step work finish r r1" "th_reader r1 \<noteq> Some StreamCancelled"
    using thread_not_stuck [OF 1(2,3)] by blast
  show ?case
  proof (cases "th_reader r1")
    case None
    with 1(1) [of r1] r1(1) 1(2) show ?thesis
      by (simp, meson converse_rtranclp_into_rtranclp rtranclp.rtrancl_into_rtrancl)
  next
    case (Some fin)
    with r1 show ?thesis by (intro exI [of _ r1] exI [of _ fin]) auto
  qed
qed

lemma thread_final:
  assumes "thread_run work finish (new_thread w es src) r" "\<nexists>r'. thread_step work finish r r'"
  shows "\<exists>fin. th_reader r = Some fin \<and> th_worker r = WorkerEnded
    \<and> (fin \<noteq> StreamCancelled \<longrightarrow> worker_items work finish w es src = (th_out r, fin))"
  using thread_not_stuck [OF assms(1)] worker_can_step [of r work finish] thread_refines [OF assms(1)] assms(2)
  by (cases "th_reader r") auto

text \<open>After the reader has ended, the worker takes at most the event it is at.\<close>

lemma stopped_worker:
  assumes "thread_step work finish r r'" "th_stop r" "th_reader r \<noteq> None"
  shows "th_stop r' \<and> th_reader r' \<noteq> None \<and> th_worker r' \<noteq> Working \<and>
    (th_todo r' = th_todo r \<or> th_worker r = Working \<and> th_todo r' = tl (th_todo r))"
  using assms(1) by cases (use assms(2,3) in simp_all)

lemma worker_stops:
  assumes "thread_run work finish r r'" "th_stop r" "th_reader r \<noteq> None" "th_worker r \<noteq> Working"
  shows "th_todo r' = th_todo r"
proof -
  have "th_stop r' \<and> th_reader r' \<noteq> None \<and> th_worker r' \<noteq> Working \<and> th_todo r' = th_todo r"
    using assms
  proof (induction rule: rtranclp_induct)
    case (step y z)
    with stopped_worker [OF step.hyps(2)] show ?case by auto
  qed simp
  then show ?thesis by simp
qed

end
