(* ===== verification/CallRegistry.thy ===== *)
theory CallRegistry
  imports TwilioStream "HOL-Library.AList"
begin

text \<open>
  \<^verbatim>\<open>app/telephony/session_registry.py\<close>: the active calls, by call id. The dict is an association
  list in insertion order (\<^const>\<open>AList.update\<close> keeps the place of a key, as Python does). A call id is
  whatever JSON value the stream sent; a list or a dict is no key (\<^verbatim>\<open>TypeError\<close>). Each
  operation runs under the registry's own lock and awaits nothing inside it, so it is one step.
  \<open>call_directory\<close> is what the stream handler needs of a registry.
\<close>

record active_call =
  ac_stream_sid :: json
  ac_conversation_id :: nat
  ac_started_at :: pyfloat
  ac_last_heartbeat :: pyfloat
  ac_state :: string

type_synonym call_registry = "(json \<times> active_call) list"

fun hashable :: "json \<Rightarrow> bool" where
  "hashable (JArr _) = False"
| "hashable (JObj _) = False"
| "hashable _ = True"

definition type_error :: py_exn where "type_error = OtherError ''TypeError''"

definition register :: "int \<Rightarrow> pyfloat \<Rightarrow> json \<Rightarrow> json \<Rightarrow> nat \<Rightarrow> call_registry \<Rightarrow> py_exn + call_registry" where
  "register max_calls now call_sid stream_sid cid r =
     (if int (length r) \<ge> max_calls then Inl (RuntimeError ''Maximum concurrent voice calls reached'')
      else if \<not> hashable call_sid then Inl type_error
      else Inr (AList.update call_sid
             \<lparr>ac_stream_sid = stream_sid, ac_conversation_id = cid, ac_started_at = now,
              ac_last_heartbeat = now, ac_state = ''streaming''\<rparr> r))"

definition change_call :: "(active_call \<Rightarrow> active_call) \<Rightarrow> json \<Rightarrow> call_registry \<Rightarrow> py_exn + call_registry" where
  "change_call f call_sid r =
     (if \<not> hashable call_sid then Inl type_error
      else Inr (map (\<lambda>(k, a). (k, if k = call_sid then f a else a)) r))"

definition heartbeat :: "pyfloat \<Rightarrow> json \<Rightarrow> call_registry \<Rightarrow> py_exn + call_registry" where
  "heartbeat now call_sid r = change_call (\<lambda>a. a\<lparr>ac_last_heartbeat := now\<rparr>) call_sid r"

definition update_state :: "json \<Rightarrow> string \<Rightarrow> call_registry \<Rightarrow> py_exn + call_registry" where
  "update_state call_sid st r = change_call (\<lambda>a. a\<lparr>ac_state := st\<rparr>) call_sid r"

definition unregister :: "json \<Rightarrow> call_registry \<Rightarrow> py_exn + call_registry" where
  "unregister call_sid r =
     (if \<not> hashable call_sid then Inl type_error else Inr (AList.delete call_sid r))"

definition registry_snapshot :: "call_registry \<Rightarrow> active_call list" where
  "registry_snapshot r = map snd r"

definition stale :: "pyfloat \<Rightarrow> pyfloat \<Rightarrow> active_call \<Rightarrow> bool" where
  "stale now threshold a \<longleftrightarrow> threshold < now - ac_last_heartbeat a"

text \<open>\<^verbatim>\<open>idle_seconds or settings.VOICE_IDLE_TIMEOUT_SECONDS\<close>: an idle time of zero means the default.\<close>

definition cleanup_zombies :: "pyfloat \<Rightarrow> pyfloat \<Rightarrow> pyfloat option \<Rightarrow> call_registry \<Rightarrow> nat \<times> call_registry" where
  "cleanup_zombies idle_default now idle_seconds r =
     (let threshold = (case idle_seconds of None \<Rightarrow> idle_default | Some s \<Rightarrow> if s = 0 then idle_default else s);
          sids = map fst (filter (\<lambda>(k, a). stale now threshold a) r)
      in (length sids, fold AList.delete sids r))"

section \<open>Invariant\<close>

definition registry_wf :: "int \<Rightarrow> call_registry \<Rightarrow> bool" where
  "registry_wf max_calls r \<longleftrightarrow> distinct (map fst r) \<and> int (length r) \<le> max 0 max_calls
     \<and> (\<forall>k\<in>fst ` set r. hashable k)"

definition registered :: "call_registry \<Rightarrow> json \<Rightarrow> bool" where
  "registered r k \<longleftrightarrow> k \<in> fst ` set r"

lemma length_update_le: "length (AList.update k v r) \<le> Suc (length r)"
  by (induction r) auto

lemma update_keys: "fst ` set (AList.update k v r) = insert k (fst ` set r)"
  by (induction r) auto

lemma delete_keys: "fst ` set (AList.delete k r) = fst ` set r - {k}"
  by (auto simp: AList.delete_eq image_iff)

lemma change_keys: "change_call f k r = Inr r' \<Longrightarrow> map fst r' = map fst r"
  by (auto simp: change_call_def split: if_splits)

lemma registry_wf_keys: "map fst r' = map fst r \<Longrightarrow> registry_wf m r \<Longrightarrow> registry_wf m r'"
  unfolding registry_wf_def by (metis length_map list.set_map)

lemma wf_register [inv_pres]:
  assumes "registry_wf m r" "register m now k s c r = Inr r'"
  shows "registry_wf m r'"
proof -
  from assms(2) obtain a where r': "r' = AList.update k a r" "int (length r) < m" "hashable k"
    by (auto simp: register_def split: if_splits)
  have "int (length r') \<le> max 0 m" using r' length_update_le [of k a r] by simp
  moreover have "distinct (map fst r')" using assms(1) r' by (simp add: registry_wf_def distinct_update)
  ultimately show ?thesis using assms(1) r' by (simp add: registry_wf_def update_keys)
qed

lemma wf_heartbeat [inv_pres]: "registry_wf m r \<Longrightarrow> heartbeat now k r = Inr r' \<Longrightarrow> registry_wf m r'"
  unfolding heartbeat_def by (erule registry_wf_keys [OF change_keys])

lemma wf_update_state [inv_pres]: "registry_wf m r \<Longrightarrow> update_state k st r = Inr r' \<Longrightarrow> registry_wf m r'"
  unfolding update_state_def by (erule registry_wf_keys [OF change_keys])

lemma wf_delete: "registry_wf m r \<Longrightarrow> registry_wf m (AList.delete k r)"
  using length_delete_le [of k r]
  by (auto simp: registry_wf_def distinct_delete delete_keys)

lemma wf_unregister [inv_pres]: "registry_wf m r \<Longrightarrow> unregister k r = Inr r' \<Longrightarrow> registry_wf m r'"
  by (auto simp: unregister_def wf_delete split: if_splits)

lemma fold_delete: "fold AList.delete ks r = filter (\<lambda>e. fst e \<notin> set ks) r"
  by (induction ks arbitrary: r) (auto simp: AList.delete_eq split_def intro!: filter_cong)

text \<open>The cleanup removes the stale entries, only them, and counts them.\<close>

lemma cleanup_result:
  assumes "distinct (map fst r)"
  shows "cleanup_zombies d now idle r =
    (let threshold = (case idle of None \<Rightarrow> d | Some s \<Rightarrow> if s = 0 then d else s)
     in (length (filter (\<lambda>(k, a). stale now threshold a) r), filter (\<lambda>(k, a). \<not> stale now threshold a) r))"
proof -
  have "k \<in> fst ` set (filter (\<lambda>(k, a). P a) r) \<longleftrightarrow> P a" if "(k, a) \<in> set r" for k a P
  proof
    assume "k \<in> fst ` set (filter (\<lambda>(k, a). P a) r)"
    then obtain b where "(k, b) \<in> set r" "P b" by auto
    with eq_key_imp_eq_value [OF assms that] show "P a" by blast
  next
    assume "P a"
    with that have "(k, a) \<in> set (filter (\<lambda>(k, a). P a) r)" by simp
    then show "k \<in> fst ` set (filter (\<lambda>(k, a). P a) r)" by (metis fst_conv imageI)
  qed
  then have "filter (\<lambda>e. fst e \<notin> fst ` set (filter (\<lambda>(k, a). P a) r)) r = filter (\<lambda>(k, a). \<not> P a) r" for P
    by (intro filter_cong refl) (clarsimp simp del: set_filter)
  then show ?thesis by (simp add: cleanup_zombies_def fold_delete Let_def)
qed

lemma wf_cleanup [inv_pres]: "registry_wf m r \<Longrightarrow> registry_wf m (snd (cleanup_zombies d now idle r))"
proof -
  assume wf: "registry_wf m r"
  have "registry_wf m (fold AList.delete ks r)" for ks
    using wf by (induction ks arbitrary: r) (simp_all add: wf_delete)
  then show ?thesis by (simp add: cleanup_zombies_def Let_def)
qed

section \<open>Interface\<close>

locale call_directory =
  fixes has :: "'r \<Rightarrow> json \<Rightarrow> bool"
    and enter :: "json \<Rightarrow> 'r \<Rightarrow> py_exn + 'r"
    and touch :: "json \<Rightarrow> 'r \<Rightarrow> py_exn + 'r"
    and leave :: "json \<Rightarrow> 'r \<Rightarrow> py_exn + 'r"
  assumes enter_has: "enter k r = Inr r' \<Longrightarrow> has r' k' \<longleftrightarrow> has r k' \<or> k' = k"
    and touch_has: "touch k r = Inr r' \<Longrightarrow> has r' k' \<longleftrightarrow> has r k'"
    and leave_has: "leave k r = Inr r' \<Longrightarrow> has r' k' \<longleftrightarrow> has r k' \<and> k' \<noteq> k"
    and key_ok: "enter k r = Inr r' \<Longrightarrow> (\<exists>r2. touch k q = Inr r2) \<and> (\<exists>r2. leave k q = Inr r2)"
begin

text \<open>A key that could enter can be touched and can leave; after it left, the others are as before.\<close>

lemma visit:
  assumes "enter k r = Inr r1"
  shows "\<exists>r2 r3. touch k r1 = Inr r2 \<and> leave k r2 = Inr r3 \<and> has r2 k
    \<and> (\<forall>k'. has r3 k' \<longleftrightarrow> has r k' \<and> k' \<noteq> k)"
proof -
  from key_ok [OF assms] obtain r2 where r2: "touch k r1 = Inr r2" by blast
  from key_ok [OF assms] obtain r3 where r3: "leave k r2 = Inr r3" by blast
  show ?thesis
    using enter_has [OF assms] touch_has [OF r2] leave_has [OF r3] r2 r3 by blast
qed

end

interpretation registry: call_directory registered "\<lambda>k. register m now k s c" "heartbeat now'" unregister
  for m now s c now'
proof unfold_locales
  show "registered r' k' \<longleftrightarrow> registered r k' \<or> k' = k" if reg: "register m now k s c r = Inr r'" for k r r' k'
  proof -
    from reg obtain a where "r' = AList.update k a r" by (auto simp: register_def split: if_splits)
    then show ?thesis by (simp only: registered_def update_keys insert_iff) blast
  qed
  show "registered r' k' \<longleftrightarrow> registered r k'" if "heartbeat now' k r = Inr r'" for k r r' k'
    using change_keys [OF that [unfolded heartbeat_def]] unfolding registered_def by (metis list.set_map)
  show "registered r' k' \<longleftrightarrow> registered r k' \<and> k' \<noteq> k" if "unregister k r = Inr r'" for k r r' k'
  proof -
    from that have "r' = AList.delete k r" by (auto simp: unregister_def split: if_splits)
    then show ?thesis by (simp only: registered_def delete_keys) blast
  qed
  show "register m now k s c r = Inr r' \<Longrightarrow>
      (\<exists>r2. heartbeat now' k q = Inr r2) \<and> (\<exists>r2. unregister k q = Inr r2)" for k r r' q
    by (auto simp: register_def heartbeat_def change_call_def unregister_def split: if_splits)
qed

end
