(* ===== verification/StreamAuth.thy ===== *)
theory StreamAuth
  imports Base64 "HOL-Library.Multiset" "HOL-Library.List_Lexorder" "HOL-Library.Product_Lexorder"
begin

text \<open>
  \<^verbatim>\<open>app/telephony/stream_auth.py\<close> and \<^verbatim>\<open>twilio_validation.py\<close>: who may open a media stream and
  who may post to the webhook. The keyed hash (\<^verbatim>\<open>hmac\<close> with SHA-256, as hexadecimal text, and with
  SHA-1, as bytes) is an argument of the definitions: nothing is assumed of it but that it is a
  function and, where a token travels, that the digest is ASCII text. Texts are lists of code points; \<^verbatim>\<open>int()\<close> and
  \<^verbatim>\<open>str()\<close> of an integer, UTF-8 and \<^verbatim>\<open>quote_plus\<close> are written out.
\<close>

section \<open>Integers as text\<close>

fun nat_digits :: "nat \<Rightarrow> ustr" where
  "nat_digits n = (if n < 10 then [n + 48] else nat_digits (n div 10) @ [n mod 10 + 48])"

declare nat_digits.simps [simp del]

definition str_int :: "int \<Rightarrow> ustr" where
  "str_int i = (if i < 0 then 45 # nat_digits (nat (- i)) else nat_digits (nat i))"

text \<open>The first code point of each run of ten decimal digits (Unicode 14, category Nd).\<close>

definition digit_zeros :: "nat list" where
  "digit_zeros =
     [48, 1632, 1776, 1984, 2406, 2534, 2662, 2790, 2918, 3046, 3174, 3302, 3430, 3558, 3664, 3792,
      3872, 4160, 4240, 6112, 6160, 6470, 6608, 6784, 6800, 6992, 7088, 7232, 7248, 42528, 43216,
      43264, 43472, 43504, 43600, 44016, 65296, 66720, 68912, 69734, 69872, 69942, 70096, 70384,
      70736, 70864, 71248, 71360, 71472, 71904, 72016, 72784, 73040, 73120, 92768, 92864, 93008,
      120782, 120792, 120802, 120812, 120822, 123200, 123632, 125264, 130032]"

definition digit_value :: "nat \<Rightarrow> nat option" where
  "digit_value c = map_option (\<lambda>z. c - z) (find (\<lambda>z. z \<le> c \<and> c < z + 10) digit_zeros)"

text \<open>Digits with single underscores between them; the third argument says a digit came just before.\<close>

fun read_digits :: "nat \<Rightarrow> nat \<Rightarrow> bool \<Rightarrow> ustr \<Rightarrow> (nat \<times> nat) option" where
  "read_digits acc k after [] = (if after then Some (acc, k) else None)"
| "read_digits acc k after (c # cs) =
     (if c = 95 then (if after then read_digits acc k False cs else None)
      else case digit_value c of
             None \<Rightarrow> None
           | Some d \<Rightarrow> read_digits (acc * 10 + d) (Suc k) True cs)"

definition MAX_STR_DIGITS :: nat where "MAX_STR_DIGITS = 4300"

definition read_nat :: "ustr \<Rightarrow> int option" where
  "read_nat s = (case read_digits 0 0 False s of
                   None \<Rightarrow> None
                 | Some (n, k) \<Rightarrow> if k \<le> MAX_STR_DIGITS then Some (int n) else None)"

text \<open>
  \<^verbatim>\<open>int(s)\<close> of an ASCII text strips C's white space; of another text, Unicode white space.
\<close>

definition c_space :: "nat \<Rightarrow> bool" where
  "c_space c \<longleftrightarrow> (9 \<le> c \<and> c \<le> 13) \<or> c = 32"

definition ascii :: "ustr \<Rightarrow> bool" where
  "ascii s \<longleftrightarrow> list_all (\<lambda>c. c < 128) s"

definition strip_int :: "ustr \<Rightarrow> ustr" where
  "strip_int s = (if ascii s then rev (dropWhile c_space (rev (dropWhile c_space s))) else strip s)"

definition parse_int :: "ustr \<Rightarrow> int option" where
  "parse_int s = (case strip_int s of
                 [] \<Rightarrow> None
               | c # cs \<Rightarrow> if c = 43 then read_nat cs
                           else if c = 45 then map_option uminus (read_nat cs)
                           else read_nat (c # cs))"

section \<open>UTF-8 and query strings\<close>

definition utf8_c :: "nat \<Rightarrow> nat list option" where
  "utf8_c c = (if c < 128 then Some [c]
     else if c < 2048 then Some [192 + c div 64, 128 + c mod 64]
     else if 55296 \<le> c \<and> c \<le> 57343 then None
     else if c < 65536 then Some [224 + c div 4096, 128 + c div 64 mod 64, 128 + c mod 64]
     else Some [240 + c div 262144, 128 + c div 4096 mod 64, 128 + c div 64 mod 64, 128 + c mod 64])"

text \<open>\<^verbatim>\<open>s.encode("utf-8")\<close>: a lone surrogate raises \<^verbatim>\<open>UnicodeEncodeError\<close>, a \<open>ValueError\<close>.\<close>

fun utf8 :: "ustr \<Rightarrow> py_exn + nat list" where
  "utf8 [] = Inr []"
| "utf8 (c # cs) = (case utf8_c c of
                      None \<Rightarrow> Inl ValueError
                    | Some bs \<Rightarrow> bind_sum (utf8 cs) (\<lambda>r. Inr (bs @ r)))"

definition url_safe :: "nat \<Rightarrow> bool" where
  "url_safe c \<longleftrightarrow> (65 \<le> c \<and> c \<le> 90) \<or> (97 \<le> c \<and> c \<le> 122) \<or> (48 \<le> c \<and> c \<le> 57)
     \<or> c = 95 \<or> c = 46 \<or> c = 45 \<or> c = 126"

definition hex_digit :: "nat \<Rightarrow> nat" where
  "hex_digit n = (if n < 10 then n + 48 else n + 55)"

definition quote_byte :: "nat \<Rightarrow> ustr" where
  "quote_byte b = (if url_safe b then [b] else if b = 32 then [43]
                   else [37, hex_digit (b div 16), hex_digit (b mod 16)])"

definition quote_plus :: "ustr \<Rightarrow> py_exn + ustr" where
  "quote_plus s = bind_sum (utf8 s) (\<lambda>bs. Inr (concat (map quote_byte bs)))"

section \<open>Stream tokens\<close>

record stream_settings =
  TWILIO_AUTH_TOKEN :: "ustr option"
  SECRET_KEY :: "ustr option"
  TWILIO_STREAM_TOKEN_TTL_SECONDS :: int
  production_or_staging :: bool

datatype auth_exn = HTTPException nat | AuthRaise py_exn

type_synonym keyed_hash = "nat list \<Rightarrow> nat list \<Rightarrow> ustr"

definition or_str :: "ustr option \<Rightarrow> ustr \<Rightarrow> ustr" where
  "or_str v d = (case v of None \<Rightarrow> d | Some s \<Rightarrow> if s = [] then d else s)"

definition stream_payload :: "ustr \<Rightarrow> int \<Rightarrow> ustr" where
  "stream_payload call_sid ts = call_sid @ u '':'' @ str_int ts"

text \<open>\<open>issued_at\<close> is given, or is \<^verbatim>\<open>int(time.time())\<close> of the clock \<open>now\<close>.\<close>

definition sign_stream_token ::
  "keyed_hash \<Rightarrow> stream_settings \<Rightarrow> pyfloat \<Rightarrow> ustr \<Rightarrow> int option \<Rightarrow> py_exn + ustr" where
  "sign_stream_token mac st now call_sid issued_at =
     bind_sum (utf8 (or_str (TWILIO_AUTH_TOKEN st) (or_str (SECRET_KEY st) []))) (\<lambda>secret.
       if secret = [] then Inl ValueError
       else let ts = (case issued_at of Some t \<Rightarrow> t | None \<Rightarrow> if 0 \<le> now then \<lfloor>now\<rfloor> else \<lceil>now\<rceil>)
            in bind_sum (utf8 (stream_payload call_sid ts)) (\<lambda>payload.
                 Inr (str_int ts @ [46] @ mac secret payload)))"

definition build_signed_stream_url ::
  "keyed_hash \<Rightarrow> stream_settings \<Rightarrow> pyfloat \<Rightarrow> ustr \<Rightarrow> ustr \<Rightarrow> py_exn + ustr" where
  "build_signed_stream_url mac st now base call_sid =
     bind_sum (sign_stream_token mac st now call_sid None) (\<lambda>token.
     bind_sum (quote_plus token) (\<lambda>qt.
     bind_sum (quote_plus call_sid) (\<lambda>qc.
       Inr (base @ (if 63 \<in> set base then [38] else [63])
            @ u ''token='' @ qt @ u ''&call_sid='' @ qc))))"

text \<open>\<^verbatim>\<open>token.split(".", 1)\<close> of a text with a dot.\<close>

definition split_dot :: "ustr \<Rightarrow> ustr \<times> ustr" where
  "split_dot s = (takeWhile (\<lambda>c. c \<noteq> 46) s, tl (dropWhile (\<lambda>c. c \<noteq> 46) s))"

text \<open>\<^verbatim>\<open>hmac.compare_digest\<close> of two texts: a \<^verbatim>\<open>TypeError\<close> unless both are ASCII.\<close>

definition compare_digest :: "ustr \<Rightarrow> ustr \<Rightarrow> py_exn + bool" where
  "compare_digest a b = (if ascii a \<and> ascii b then Inr (a = b) else Inl (OtherError ''TypeError''))"

definition verify_stream_token ::
  "keyed_hash \<Rightarrow> stream_settings \<Rightarrow> pyfloat \<Rightarrow> ustr \<Rightarrow> ustr \<Rightarrow> auth_exn option" where
  "verify_stream_token mac st now call_sid token =
     (if token = [] \<or> 46 \<notin> set token then Some (HTTPException 403)
      else case split_dot token of
        (ts_str, digest) \<Rightarrow>
          (case parse_int ts_str of
             None \<Rightarrow> Some (HTTPException 403)
           | Some issued_at \<Rightarrow>
               if now - of_int issued_at > of_int (TWILIO_STREAM_TOKEN_TTL_SECONDS st)
               then Some (HTTPException 403)
               else (case bind_sum (sign_stream_token mac st now call_sid (Some issued_at))
                            (\<lambda>t. compare_digest (snd (split_dot t)) digest) of
                       Inl e \<Rightarrow> Some (AuthRaise e)
                     | Inr eq \<Rightarrow> if eq then None else Some (HTTPException 403))))"

text \<open>A query parameter is absent or a text.\<close>

definition require_twilio_stream_auth ::
  "keyed_hash \<Rightarrow> stream_settings \<Rightarrow> pyfloat \<Rightarrow> ustr option \<Rightarrow> ustr option \<Rightarrow> auth_exn + ustr" where
  "require_twilio_stream_auth mac st now call_sid token =
     (if strip (or_str (TWILIO_AUTH_TOKEN st) []) = [] then
        (if production_or_staging st then Inl (HTTPException 503)
         else Inr (or_str call_sid (u ''development'')))
      else if or_str call_sid [] = [] \<or> or_str token [] = [] then Inl (HTTPException 403)
      else case verify_stream_token mac st now (or_str call_sid []) (or_str token []) of
             Some e \<Rightarrow> Inl e
           | None \<Rightarrow> Inr (or_str call_sid []))"

text \<open>
  The check at the head of \<^verbatim>\<open>twilio_stream_websocket\<close>, before \<^verbatim>\<open>accept\<close>: \<open>False\<close> is
  \<^verbatim>\<open>close(code=4403)\<close>.
\<close>

definition stream_admits ::
  "keyed_hash \<Rightarrow> stream_settings \<Rightarrow> pyfloat \<Rightarrow> ustr option \<Rightarrow> ustr option \<Rightarrow> bool" where
  "stream_admits mac st now call_sid token \<longleftrightarrow>
     (if strip (or_str (TWILIO_AUTH_TOKEN st) []) = [] then True
      else if or_str call_sid [] = [] \<or> or_str token [] = [] then False
      else verify_stream_token mac st now (or_str call_sid []) (or_str token []) = None)"

section \<open>The webhook signature\<close>

text \<open>
  \<open>url\<close> is what \<^verbatim>\<open>_build_validation_url\<close> returned, \<open>items\<close> the posted form; \<open>sha1\<close> the keyed hash.
  The returned dict keeps the last value of a repeated field.
\<close>

definition signed_data :: "ustr \<Rightarrow> (ustr \<times> ustr) list \<Rightarrow> ustr" where
  "signed_data url items = url @ concat (map (\<lambda>(k, v). k @ v) (sort items))"

definition expected_signature ::
  "(nat list \<Rightarrow> nat list \<Rightarrow> bytes) \<Rightarrow> ustr \<Rightarrow> ustr \<Rightarrow> (ustr \<times> ustr) list \<Rightarrow> py_exn + ustr" where
  "expected_signature sha1 auth_token url items =
     bind_sum (utf8 auth_token) (\<lambda>key.
     bind_sum (utf8 (signed_data url items)) (\<lambda>data.
       Inr (b64encode (sha1 key data))))"

definition require_twilio_signature ::
  "(nat list \<Rightarrow> nat list \<Rightarrow> bytes) \<Rightarrow> stream_settings \<Rightarrow> ustr \<Rightarrow> ustr option \<Rightarrow> (ustr \<times> ustr) list
     \<Rightarrow> auth_exn + (ustr \<rightharpoonup> ustr)" where
  "require_twilio_signature sha1 st url signature items =
     (let auth_token = strip (or_str (TWILIO_AUTH_TOKEN st) []);
          form = map_of (rev items)
      in if auth_token = [] then
           (if production_or_staging st then Inl (HTTPException 503) else Inr form)
         else if or_str signature [] = [] then Inl (HTTPException 403)
         else case bind_sum (expected_signature sha1 auth_token url items)
                     (\<lambda>expected. compare_digest expected (or_str signature [])) of
                Inl e \<Rightarrow> Inl (AuthRaise e)
              | Inr eq \<Rightarrow> if eq then Inr form else Inl (HTTPException 403))"

section \<open>Lemmas on text\<close>

definition digit_char :: "nat \<Rightarrow> bool" where
  "digit_char c \<longleftrightarrow> 48 \<le> c \<and> c \<le> 57"

lemma digit_value_ascii: "digit_char c \<Longrightarrow> digit_value c = Some (c - 48)"
  by (simp add: digit_char_def digit_value_def digit_zeros_def)

lemma read_digits_append:
  "\<forall>c\<in>set xs. digit_char c \<Longrightarrow>
   read_digits acc k after (xs @ ys) =
     read_digits (foldl (\<lambda>a c. a * 10 + (c - 48)) acc xs) (k + length xs) (after \<or> xs \<noteq> []) ys"
  by (induction xs arbitrary: acc k after) (auto simp: digit_value_ascii digit_char_def)

lemma nat_digits_ne [simp]: "nat_digits n \<noteq> []"
  by (subst nat_digits.simps) simp

lemma nat_digits_chars: "c \<in> set (nat_digits n) \<Longrightarrow> digit_char c"
proof (induction n rule: nat_digits.induct)
  case (1 n)
  show ?case
  proof (cases "n < 10")
    case False
    then show ?thesis using 1 by (subst (asm) nat_digits.simps) (auto simp: digit_char_def)
  qed (use 1 in \<open>subst (asm) nat_digits.simps, auto simp: digit_char_def\<close>)
qed

lemma nat_digits_value: "foldl (\<lambda>a c. a * 10 + (c - 48)) 0 (nat_digits n) = n"
proof (induction n rule: nat_digits.induct)
  case (1 n)
  then show ?case by (subst nat_digits.simps) simp
qed

lemma read_nat_digits: "length (nat_digits n) \<le> MAX_STR_DIGITS \<Longrightarrow> read_nat (nat_digits n) = Some (int n)"
  using read_digits_append [of "nat_digits n" 0 0 False "[]"] nat_digits_chars
  by (auto simp: read_nat_def nat_digits_value)

lemma str_int_chars: "c \<in> set (str_int i) \<Longrightarrow> digit_char c \<or> c = 45"
  by (auto simp: str_int_def dest: nat_digits_chars split: if_splits)

lemma str_int_plain:
  "c \<in> set (str_int i) \<Longrightarrow> \<not> c_space c \<and> c \<noteq> 46 \<and> c \<noteq> 58 \<and> c < 128"
  by (drule str_int_chars) (auto simp: digit_char_def c_space_def)

lemma str_int_ne [simp]: "str_int i \<noteq> []"
  by (simp add: str_int_def)

lemma ascii_str_int: "ascii (str_int i)"
  using str_int_plain by (auto simp: ascii_def list_all_iff)

lemma strip_str_int: "strip_int (str_int i) = str_int i"
proof -
  have "dropWhile c_space xs = xs" if "\<forall>c\<in>set xs. \<not> c_space c" for xs
    using that by (cases xs) auto
  from this [of "str_int i"] this [of "rev (str_int i)"] show ?thesis
    using str_int_plain [of _ i] ascii_str_int by (simp add: strip_int_def)
qed

text \<open>\<^verbatim>\<open>int(str(i)) == i\<close> below the interpreter's limit on digits.\<close>

lemma parse_int_str:
  assumes "length (str_int i) \<le> MAX_STR_DIGITS"
  shows "parse_int (str_int i) = Some i"
proof (cases "i < 0")
  case True
  then show ?thesis
    using assms read_nat_digits [of "nat (- i)"] strip_str_int [of i] by (simp add: parse_int_def str_int_def)
next
  case False
  obtain c cs where c: "nat_digits (nat i) = c # cs" by (cases "nat_digits (nat i)") auto
  then have "digit_char c" using nat_digits_chars [of c "nat i"] by simp
  then have "c \<noteq> 43" "c \<noteq> 45" by (auto simp: digit_char_def)
  with False assms c read_nat_digits [of "nat i"] strip_str_int [of i]
  show ?thesis by (simp add: parse_int_def str_int_def)
qed

lemma split_dot_append: "46 \<notin> set a \<Longrightarrow> split_dot (a @ 46 # b) = (a, b)"
  by (induction a) (auto simp: split_dot_def)

lemma split_dot_join: "46 \<in> set s \<Longrightarrow> fst (split_dot s) @ 46 # snd (split_dot s) = s"
proof -
  assume "46 \<in> set s"
  then obtain a b where "s = a @ 46 # b" "46 \<notin> set a" by (meson split_list_first)
  then show ?thesis by (simp add: split_dot_append)
qed

lemma str_int_no_dot: "46 \<notin> set (str_int i)"
  using str_int_plain by blast

lemma hex_digit_plain: "hex_digit n \<notin> {35, 37, 38, 61, 63}"
  by (simp add: hex_digit_def)

lemma url_safe_plain: "url_safe c \<Longrightarrow> c \<notin> {35, 37, 38, 61, 63}"
  unfolding url_safe_def by (elim disjE conjE) simp_all

lemma quote_byte_plain: "c \<in> set (quote_byte b) \<Longrightarrow> c \<notin> {35, 38, 61, 63}"
  using hex_digit_plain [of "b div 16"] hex_digit_plain [of "b mod 16"] url_safe_plain [of b]
  unfolding quote_byte_def by (simp split: if_splits) (elim disjE; simp)

text \<open>A quoted value holds no character that separates parameters or ends the query.\<close>

lemma quote_plus_plain:
  assumes "quote_plus s = Inr q" "c \<in> set q"
  shows "c \<notin> {35, 38, 61, 63}"
proof -
  from assms obtain b where "c \<in> set (quote_byte b)"
    by (auto simp: quote_plus_def bind_sum_Inr_iff)
  then show ?thesis by (rule quote_byte_plain)
qed

section \<open>Tokens\<close>

lemma sign_stream_token_Inr:
  "sign_stream_token mac st now call_sid (Some ts) = Inr t \<longleftrightarrow>
     (\<exists>secret payload. utf8 (or_str (TWILIO_AUTH_TOKEN st) (or_str (SECRET_KEY st) [])) = Inr secret
        \<and> secret \<noteq> [] \<and> utf8 (stream_payload call_sid ts) = Inr payload
        \<and> t = str_int ts @ [46] @ mac secret payload)"
  by (auto simp: sign_stream_token_def bind_sum_Inr_iff Let_def)

text \<open>A signed token is accepted for its call until it is older than the limit.\<close>

lemma verify_signed:
  assumes signed: "sign_stream_token mac st t0 call_sid (Some ts) = Inr token"
    and small: "length (str_int ts) \<le> MAX_STR_DIGITS"
    and digest: "\<And>k d. ascii (mac k d)"
  shows "verify_stream_token mac st now call_sid token =
    (if of_int (TWILIO_STREAM_TOKEN_TTL_SECONDS st) < now - of_int ts then Some (HTTPException 403) else None)"
proof -
  from signed obtain d where t: "token = str_int ts @ 46 # d" and d: "ascii d"
    using digest by (auto simp: sign_stream_token_Inr)
  have "sign_stream_token mac st now call_sid (Some ts) = Inr token"
    using signed by (simp add: sign_stream_token_Inr)
  then show ?thesis
    using t d parse_int_str [OF small]
    by (simp add: verify_stream_token_def split_dot_append str_int_no_dot compare_digest_def)
qed

text \<open>Whatever is accepted carries the keyed hash of this call and of a recent enough time.\<close>

lemma verify_sound:
  assumes "verify_stream_token mac st now call_sid token = None"
  shows "\<exists>ts secret payload. parse_int (fst (split_dot token)) = Some ts
    \<and> now - of_int ts \<le> of_int (TWILIO_STREAM_TOKEN_TTL_SECONDS st)
    \<and> utf8 (or_str (TWILIO_AUTH_TOKEN st) (or_str (SECRET_KEY st) [])) = Inr secret \<and> secret \<noteq> []
    \<and> utf8 (stream_payload call_sid ts) = Inr payload
    \<and> token = fst (split_dot token) @ [46] @ mac secret payload"
proof -
  obtain ts_str digest where sd: "split_dot token = (ts_str, digest)" by (cases "split_dot token")
  from assms sd obtain ts t where ts: "46 \<in> set token" "parse_int ts_str = Some ts"
      "now - of_int ts \<le> of_int (TWILIO_STREAM_TOKEN_TTL_SECONDS st)"
      "sign_stream_token mac st now call_sid (Some ts) = Inr t" "snd (split_dot t) = digest"
    by (auto simp: verify_stream_token_def compare_digest_def bind_sum_Inr_iff
        split: if_splits option.splits sum.splits)
  then obtain secret payload where sp:
      "utf8 (or_str (TWILIO_AUTH_TOKEN st) (or_str (SECRET_KEY st) [])) = Inr secret" "secret \<noteq> []"
      "utf8 (stream_payload call_sid ts) = Inr payload" "t = str_int ts @ 46 # mac secret payload"
    by (auto simp: sign_stream_token_Inr)
  then have "digest = mac secret payload"
    using ts(5) by (simp add: split_dot_append str_int_no_dot)
  with ts sp sd split_dot_join [OF ts(1)] show ?thesis by auto
qed

text \<open>UTF-8 is injective: the first code point of an encoding can be read off.\<close>

fun utf8_first :: "nat list \<Rightarrow> nat \<times> nat list" where
  "utf8_first (a # r) =
     (if a < 128 then (a, r)
      else if a < 224 then (case r of b # r' \<Rightarrow> ((a - 192) * 64 + (b - 128), r') | [] \<Rightarrow> (0, []))
      else if a < 240 then
        (case r of b # c # r' \<Rightarrow> (((a - 224) * 64 + (b - 128)) * 64 + (c - 128), r') | _ \<Rightarrow> (0, []))
      else (case r of b # c # d # r' \<Rightarrow>
              ((((a - 240) * 64 + (b - 128)) * 64 + (c - 128)) * 64 + (d - 128), r') | _ \<Rightarrow> (0, [])))"
| "utf8_first [] = (0, [])"

lemma sextets:
  "c div 64 div 64 = c div 4096" "c div 4096 div 64 = c div (262144 :: nat)"
  by (simp_all add: div_mult2_eq [symmetric])

lemma utf8_first_c:
  assumes "utf8_c c = Some bs"
  shows "utf8_first (bs @ r) = (c, r)"
proof -
  have join: "c div 4096 * 64 + c div 64 mod 64 = c div 64" "c div 262144 * 64 + c div 4096 mod 64 = c div 4096"
    using div_mult_mod_eq [of "c div 64" 64] div_mult_mod_eq [of "c div 4096" 64] by (simp_all add: sextets)
  have lt: "c < 2048 \<Longrightarrow> c div 64 < 32" "c < 65536 \<Longrightarrow> c div 4096 < 16" by simp_all
  consider "bs = [c]" "c < 128" | "bs = [192 + c div 64, 128 + c mod 64]" "c div 64 < 32"
    | "bs = [224 + c div 4096, 128 + c div 64 mod 64, 128 + c mod 64]" "c div 4096 < 16"
    | "bs = [240 + c div 262144, 128 + c div 4096 mod 64, 128 + c div 64 mod 64, 128 + c mod 64]"
    using assms lt by (auto simp: utf8_c_def split: if_splits)
  moreover have "4096 * (c div 4096) + 64 * (c div 64 mod 64) + c mod 64 = c"
    using join(1) div_mult_mod_eq [of c 64] by linarith
  moreover have "262144 * (c div 262144) + 4096 * (c div 4096 mod 64) = 4096 * (c div 4096)"
    using join(2) by linarith
  ultimately show ?thesis by cases (simp_all add: join mult.commute)
qed

lemma utf8_c_ne: "utf8_c c \<noteq> Some []"
  by (auto simp: utf8_c_def)

lemma utf8_inj: "utf8 a = Inr bs \<Longrightarrow> utf8 b = Inr bs \<Longrightarrow> a = b"
proof (induction a arbitrary: b bs)
  case Nil
  then show ?case using utf8_c_ne by (cases b) (auto simp: bind_sum_Inr_iff split: option.splits)
next
  case (Cons c a)
  from Cons.prems(1) obtain x r where x: "utf8_c c = Some x" "utf8 a = Inr r" "bs = x @ r"
    by (auto simp: bind_sum_Inr_iff split: option.splits)
  moreover from this utf8_c_ne have "bs \<noteq> []" by auto
  with Cons.prems(2) obtain c' b' y r' where y: "b = c' # b'" "utf8_c c' = Some y" "utf8 b' = Inr r'" "bs = y @ r'"
    by (cases b) (auto simp: bind_sum_Inr_iff split: option.splits)
  ultimately have "(c, r) = (c', r')"
    using utf8_first_c [OF x(1), of r] utf8_first_c [OF y(2), of r'] by simp
  with Cons.IH x y show ?case by blast
qed

lemma utf8_append_inj: "stream_payload a ts = stream_payload b ts \<Longrightarrow> a = b"
  by (simp add: stream_payload_def)

text \<open>A token accepted for two different calls would be a collision of the keyed hash.\<close>

lemma token_binds_call:
  assumes "verify_stream_token mac st now c1 token = None" "verify_stream_token mac st now' c2 token = None"
    and "c1 \<noteq> c2"
  shows "\<exists>key d1 d2. d1 \<noteq> d2 \<and> mac key d1 = mac key d2"
proof -
  from verify_sound [OF assms(1)] verify_sound [OF assms(2)]
  obtain ts key d1 d2 where "utf8 (stream_payload c1 ts) = Inr d1" "utf8 (stream_payload c2 ts) = Inr d2"
    and "mac key d1 = mac key d2"
    by (metis append_same_eq same_append_eq option.inject sum.inject(2))
  moreover have "d1 \<noteq> d2" using utf8_inj [of "stream_payload c1 ts" d1 "stream_payload c2 ts"]
      utf8_append_inj [of c1 ts c2] calculation assms(3) by metis
  ultimately show ?thesis by blast
qed

text \<open>The socket is opened without a token only when no auth token is configured.\<close>

lemma stream_admits_cases:
  assumes "stream_admits mac st now call_sid token" "strip (or_str (TWILIO_AUTH_TOKEN st) []) \<noteq> []"
  shows "\<exists>c t. call_sid = Some c \<and> token = Some t \<and> verify_stream_token mac st now c t = None"
  using assms by (auto simp: stream_admits_def or_str_def split: if_splits option.splits)

section \<open>Webhook\<close>

lemma signed_data_perm: "mset a = mset b \<Longrightarrow> signed_data url a = signed_data url b"
  by (simp add: signed_data_def properties_for_sort [of "sort b" a])

lemma webhook_accepts:
  assumes "require_twilio_signature sha1 st url signature items = Inr form"
    and "strip (or_str (TWILIO_AUTH_TOKEN st) []) \<noteq> []"
  shows "expected_signature sha1 (strip (or_str (TWILIO_AUTH_TOKEN st) [])) url items = Inr (or_str signature [])
    \<and> signature \<noteq> None \<and> form = map_of (rev items)"
  using assms
  by (auto simp: require_twilio_signature_def compare_digest_def bind_sum_Inr_iff or_str_def Let_def
      split: if_splits sum.splits option.splits)

end
