(* ===== verification/TtsConsumer.thy ===== *)
theory TtsConsumer
  imports LlmConsumer Pcm
begin

text \<open>
  \<^verbatim>\<open>app/tts/tts_consumer.py\<close>: speaking one reply at a time, paced in real time.

  The clock is \<open>tr_now\<close>: every reading of \<^verbatim>\<open>time.monotonic()\<close> first lets the next delay of
  \<open>tr_delays\<close> pass, and a sleep that returns lets its duration pass. Every other await takes its
  outcome from \<open>tr_env\<close>, as in \<^verbatim>\<open>LlmConsumer\<close>. An engine is a function from a text to the
  frames it yields and how its stream ends. The lemmas bound how far ahead of playback audio is
  ever sent, and say when the playback-end callback runs.
\<close>

datatype tts_effect =
    TtsStart | FirstAudio | SentFrame bytes | TtsEnd | TtsError
  | TtsMetrics "pyfloat option" nat nat pyfloat bool
  | PlaybackEnd bool
  | TtsClear ustr

record tts_run =
  tr_now :: pyfloat
  tr_delays :: "pyfloat list"
  tr_env :: "await list"
  tr_started :: pyfloat
  tr_frames :: nat
  tr_bytes :: nat
  tr_segments :: nat
  tr_first_ms :: "pyfloat option"
  tr_cursor :: pyfloat
  tr_audio_sent :: bool
  tr_log :: "tts_effect list"

record tts_config =
  tts_sample_rate :: int
  max_lead :: pyfloat
  has_on_first_audio :: bool
  has_on_playback_end :: bool

text \<open>The constructor's normalisation of its two numbers.\<close>

definition new_tts_config :: "int option \<Rightarrow> int \<Rightarrow> pyfloat \<Rightarrow> bool \<Rightarrow> bool \<Rightarrow> tts_config" where
  "new_tts_config rate default_rate lead fa pe =
     \<lparr>tts_sample_rate = (case rate of None \<Rightarrow> default_rate | Some r \<Rightarrow> if r = 0 then default_rate else r),
      max_lead = max 0 lead, has_on_first_audio = fa, has_on_playback_end = pe\<rparr>"

type_synonym tts_engine = "ustr \<Rightarrow> bytes list \<times> stream_end"

definition tts_note :: "tts_effect \<Rightarrow> tts_run \<Rightarrow> tts_run" where
  "tts_note e r = r\<lparr>tr_log := tr_log r @ [e]\<rparr>"

definition read_clock :: "tts_run \<Rightarrow> pyfloat \<times> tts_run" where
  "read_clock r =
     (case tr_delays r of
        [] \<Rightarrow> (tr_now r, r)
      | d # ds \<Rightarrow> (tr_now r + d, r\<lparr>tr_now := tr_now r + d, tr_delays := ds\<rparr>))"

definition next_await :: "tts_run \<Rightarrow> await \<times> tts_run" where
  "next_await r = (case tr_env r of [] \<Rightarrow> (Returns, r) | a # as \<Rightarrow> (a, r\<lparr>tr_env := as\<rparr>))"

definition tts_await :: "tts_effect \<Rightarrow> tts_run \<Rightarrow> body_end \<times> tts_run" where
  "tts_await e r = (case next_await (tts_note e r) of (a, r1) \<Rightarrow> (await_end a, r1))"

definition tts_sleep :: "pyfloat \<Rightarrow> tts_run \<Rightarrow> body_end \<times> tts_run" where
  "tts_sleep d r =
     (case next_await r of (a, r1) \<Rightarrow>
        (await_end a, if a = Returns then r1\<lparr>tr_now := tr_now r1 + d\<rparr> else r1))"

section \<open>The reply task\<close>

text \<open>One frame of the inner loop.\<close>

definition open_reply :: "tts_config \<Rightarrow> pyfloat \<Rightarrow> tts_run \<Rightarrow> body_end \<times> tts_run" where
  "open_reply cfg now r =
     (if tr_frames r = 0
      then seq_body (tts_await TtsStart
             (r\<lparr>tr_first_ms := Some ((now - tr_started r) * 1000), tr_cursor := now\<rparr>))
             (\<lambda>r1. (BodyOk, if has_on_first_audio cfg then tts_note FirstAudio r1 else r1))
      else (BodyOk, r))"

definition pace :: "tts_config \<Rightarrow> tts_run \<Rightarrow> body_end \<times> tts_run" where
  "pace cfg r =
     (case read_clock r of (t, r1) \<Rightarrow>
        let lead = tr_cursor r1 - t
        in if max_lead cfg < lead then tts_sleep (lead - max_lead cfg) r1 else (BodyOk, r1))"

definition send_frame :: "tts_config \<Rightarrow> bytes \<Rightarrow> tts_run \<Rightarrow> body_end \<times> tts_run" where
  "send_frame cfg fr r =
     (if fr = [] then (BodyOk, r)
      else (case read_clock r of (now, r0) \<Rightarrow>
        seq_body (open_reply cfg now r0)
          (\<lambda>r1. seq_body (tts_await (SentFrame fr) r1)
            (\<lambda>r2. pace cfg (r2\<lparr>tr_audio_sent := True, tr_frames := tr_frames r2 + 1,
               tr_bytes := tr_bytes r2 + length fr,
               tr_cursor := max (tr_cursor r2) now + pcm16_duration_seconds (length fr) (tts_sample_rate cfg)\<rparr>)))))"

fun send_frames :: "tts_config \<Rightarrow> bytes list \<Rightarrow> tts_run \<Rightarrow> body_end \<times> tts_run" where
  "send_frames cfg [] r = (BodyOk, r)"
| "send_frames cfg (fr # frs) r = seq_body (send_frame cfg fr r) (send_frames cfg frs)"

definition stream_body :: "stream_end \<Rightarrow> body_end" where
  "stream_body e = (case e of StreamDone \<Rightarrow> BodyOk | StreamRaises \<Rightarrow> BodyRaises | StreamCancelled \<Rightarrow> BodyCancelled)"

text \<open>The outer loop over the queue; an empty queue is left only by a cancellation.\<close>

fun speak_queue :: "tts_config \<Rightarrow> tts_engine \<Rightarrow> ustr option list \<Rightarrow> tts_run \<Rightarrow> body_end \<times> tts_run" where
  "speak_queue cfg eng [] r = (BodyCancelled, r)"
| "speak_queue cfg eng (None # q) r = (BodyOk, r)"
| "speak_queue cfg eng (Some t # q) r =
     seq_body (send_frames cfg (fst (eng t)) (r\<lparr>tr_segments := tr_segments r + 1\<rparr>))
       (\<lambda>r1. seq_body (stream_body (snd (eng t)), r1) (speak_queue cfg eng q))"

definition play_out :: "tts_run \<Rightarrow> body_end \<times> tts_run" where
  "play_out r =
     (case read_clock r of (t, r1) \<Rightarrow>
        let remaining = tr_cursor r1 - t
        in seq_body (if 0 < tr_frames r1 \<and> 0 < remaining then tts_sleep remaining r1 else (BodyOk, r1))
             (\<lambda>r2. if 0 < tr_frames r2 then tts_await TtsEnd r2 else (BodyOk, r2)))"

definition reply_body :: "tts_config \<Rightarrow> tts_engine \<Rightarrow> ustr option list \<Rightarrow> tts_run \<Rightarrow> body_end \<times> tts_run" where
  "reply_body cfg eng q r = seq_body (speak_queue cfg eng q r) play_out"

definition tts_metrics_event :: "tts_config \<Rightarrow> bool \<Rightarrow> tts_run \<Rightarrow> tts_effect" where
  "tts_metrics_event cfg intr r =
     TtsMetrics (map_option (py_round_to 2) (tr_first_ms r)) (tr_frames r) (tr_segments r)
       (py_round_to 1 (pcm16_duration_seconds (tr_bytes r) (tts_sample_rate cfg) * 1000)) intr"

text \<open>
  \<^verbatim>\<open>finally\<close>: \<^verbatim>\<open>_safe_send_json\<close> swallows an exception but not a cancellation, which leaves
  the block before the callback. An exception of the callback is swallowed.
\<close>

definition finish_reply :: "tts_config \<Rightarrow> bool \<Rightarrow> tts_run \<Rightarrow> tts_run" where
  "finish_reply cfg intr r =
     (case tts_await (tts_metrics_event cfg intr r) r of (b, r1) \<Rightarrow>
        if b = BodyCancelled then r1
        else if has_on_playback_end cfg then snd (tts_await (PlaybackEnd intr) r1) else r1)"

definition run_reply :: "tts_config \<Rightarrow> tts_engine \<Rightarrow> ustr option list \<Rightarrow> tts_run \<Rightarrow> tts_run" where
  "run_reply cfg eng q r =
     (case read_clock r of (t, r0) \<Rightarrow>
        (case reply_body cfg eng q (r0\<lparr>tr_started := t\<rparr>) of
           (b, r1) \<Rightarrow>
             (case b of
                BodyOk \<Rightarrow> finish_reply cfg False r1
              | BodyRaises \<Rightarrow> finish_reply cfg True (snd (tts_await TtsError r1))
              | _ \<Rightarrow> finish_reply cfg True r1)))"

definition new_tts_run :: "pyfloat \<Rightarrow> pyfloat list \<Rightarrow> await list \<Rightarrow> tts_run" where
  "new_tts_run now delays env =
     \<lparr>tr_now = now, tr_delays = delays, tr_env = env, tr_started = now, tr_frames = 0, tr_bytes = 0,
      tr_segments = 0, tr_first_ms = None, tr_cursor = 0, tr_audio_sent = False, tr_log = []\<rparr>"

section \<open>The pacing bound\<close>

text \<open>
  \<open>paced L r\<close>: time only moves forward, and once a frame is out at most \<open>L\<close> seconds of sent
  audio are still to be played.
\<close>

definition paced :: "pyfloat \<Rightarrow> tts_run \<Rightarrow> bool" where
  "paced L r \<longleftrightarrow> (\<forall>d\<in>set (tr_delays r). 0 \<le> d)
     \<and> (tr_frames r \<noteq> 0 \<longrightarrow> tr_cursor r \<le> tr_now r + L)"

lemma paced_mono: "paced L r \<Longrightarrow> L \<le> M \<Longrightarrow> paced M r"
  unfolding paced_def by force

lemma read_clock_spec:
  assumes "\<forall>d\<in>set (tr_delays r). 0 \<le> d" "read_clock r = (t, r1)"
  shows "t = tr_now r1" "tr_now r \<le> tr_now r1" "\<forall>d\<in>set (tr_delays r1). 0 \<le> d"
    "tr_frames r1 = tr_frames r" "tr_cursor r1 = tr_cursor r" "tr_log r1 = tr_log r"
    "tr_bytes r1 = tr_bytes r"
  using assms by (auto simp: read_clock_def split: list.splits)

lemma next_await_frame:
  assumes "next_await r = (a, r1)"
  shows "tr_now r1 = tr_now r" "tr_delays r1 = tr_delays r" "tr_frames r1 = tr_frames r"
    "tr_cursor r1 = tr_cursor r" "tr_log r1 = tr_log r" "tr_bytes r1 = tr_bytes r"
  using assms by (auto simp: next_await_def split: list.splits)

lemma tts_await_spec:
  assumes "tts_await e r = (b, r1)"
  shows "b \<noteq> BodyStuck" "tr_now r1 = tr_now r" "tr_delays r1 = tr_delays r" "tr_frames r1 = tr_frames r"
    "tr_cursor r1 = tr_cursor r" "tr_log r1 = tr_log r @ [e]" "tr_bytes r1 = tr_bytes r"
proof -
  obtain a where n: "next_await (tts_note e r) = (a, r1)" "b = await_end a"
    using assms by (auto simp: tts_await_def split: prod.splits)
  show "b \<noteq> BodyStuck" "tr_now r1 = tr_now r" "tr_delays r1 = tr_delays r" "tr_frames r1 = tr_frames r"
    "tr_cursor r1 = tr_cursor r" "tr_log r1 = tr_log r @ [e]" "tr_bytes r1 = tr_bytes r"
    using next_await_frame [OF n(1)] n(2) by (simp_all add: tts_note_def)
qed

lemma tts_sleep_spec:
  assumes "tts_sleep d r = (b, r1)"
  shows "b \<noteq> BodyStuck" "tr_now r1 = (if b = BodyOk then tr_now r + d else tr_now r)"
    "tr_delays r1 = tr_delays r" "tr_frames r1 = tr_frames r"
    "tr_cursor r1 = tr_cursor r" "tr_log r1 = tr_log r" "tr_bytes r1 = tr_bytes r"
proof -
  obtain a r0 where n: "next_await r = (a, r0)" "b = await_end a"
    "r1 = (if a = Returns then r0\<lparr>tr_now := tr_now r0 + d\<rparr> else r0)"
    using assms by (auto simp: tts_sleep_def split: prod.splits)
  show "b \<noteq> BodyStuck" "tr_now r1 = (if b = BodyOk then tr_now r + d else tr_now r)"
    "tr_delays r1 = tr_delays r" "tr_frames r1 = tr_frames r"
    "tr_cursor r1 = tr_cursor r" "tr_log r1 = tr_log r" "tr_bytes r1 = tr_bytes r"
    using next_await_frame [OF n(1)] n(2,3) by simp_all
qed

lemma open_reply_spec:
  assumes "open_reply cfg now r = (b, r1)"
  shows "b \<noteq> BodyStuck" "tr_now r1 = tr_now r" "tr_delays r1 = tr_delays r" "tr_frames r1 = tr_frames r"
    "tr_cursor r1 = (if tr_frames r = 0 then now else tr_cursor r)"
proof -
  define r' where "r' = r\<lparr>tr_first_ms := Some ((now - tr_started r) * 1000), tr_cursor := now\<rparr>"
  obtain b0 r0 where a: "tts_await TtsStart r' = (b0, r0)" by fastforce
  have "tr_frames r \<noteq> 0 \<and> b = BodyOk \<and> r1 = r \<or>
      tr_frames r = 0 \<and> b = b0 \<and> (r1 = r0 \<or> r1 = tts_note FirstAudio r0)"
    using assms a unfolding open_reply_def r'_def [symmetric]
    by (cases b0) (auto simp: seq_body_stop split: if_splits)
  then show "b \<noteq> BodyStuck" "tr_now r1 = tr_now r" "tr_delays r1 = tr_delays r"
    "tr_frames r1 = tr_frames r" "tr_cursor r1 = (if tr_frames r = 0 then now else tr_cursor r)"
    using tts_await_spec [OF a] by (auto simp: tts_note_def r'_def)
qed

lemma pace_spec:
  assumes "pace cfg r = (b, r1)" "\<forall>d\<in>set (tr_delays r). 0 \<le> d"
    and c: "tr_cursor r \<le> tr_now r + M" "max_lead cfg \<le> M"
  shows "b \<noteq> BodyStuck \<and> paced M r1 \<and> (b = BodyOk \<longrightarrow> paced (max_lead cfg) r1)"
proof -
  obtain t r0 where rc: "read_clock r = (t, r0)" by fastforce
  note s = read_clock_spec [OF assms(2) rc]
  show ?thesis
  proof (cases "max_lead cfg < tr_cursor r0 - t")
    case True
    then have sl: "tts_sleep (tr_cursor r0 - t - max_lead cfg) r0 = (b, r1)"
      using assms(1) rc by (simp add: pace_def Let_def)
    note q = tts_sleep_spec [OF sl]
    have now: "tr_now r0 \<le> tr_now r1" using q(2) True by (simp split: if_splits)
    have "paced M r1" using q s c now by (auto simp: paced_def)
    moreover have "paced (max_lead cfg) r1" if "b = BodyOk" using q s that by (auto simp: paced_def)
    ultimately show ?thesis using q(1) by blast
  next
    case False
    then have r1: "b = BodyOk" "r1 = r0" using assms(1) rc by (simp_all add: pace_def Let_def)
    have "paced (max_lead cfg) r1" using False s r1 by (auto simp: paced_def)
    then show ?thesis using r1(1) c(2) by (auto intro: paced_mono)
  qed
qed

text \<open>One frame: the lead grows by at most the frame's duration, and the sleep takes it back.\<close>

lemma send_frame_paced:
  assumes p: "paced (max_lead cfg) r" and l: "0 \<le> max_lead cfg"
    and D: "pcm16_duration_seconds (length fr) (tts_sample_rate cfg) \<le> D" "0 \<le> D"
    and s: "send_frame cfg fr r = (b, r')"
  shows "b \<noteq> BodyStuck \<and> paced (max_lead cfg + D) r' \<and> (b = BodyOk \<longrightarrow> paced (max_lead cfg) r')"
proof (cases "fr = []")
  case True
  then show ?thesis using s p D(2) by (auto simp: send_frame_def intro: paced_mono)
next
  case False
  obtain now r0 where rc: "read_clock r = (now, r0)" by fastforce
  have dl: "\<forall>d\<in>set (tr_delays r). 0 \<le> d" using p by (simp add: paced_def)
  note c = read_clock_spec [OF dl rc]
  have p0: "paced (max_lead cfg) r0" using p c by (auto simp: paced_def)
  obtain b1 r1 where o: "open_reply cfg now r0 = (b1, r1)" by fastforce
  note op = open_reply_spec [OF o]
  have p1: "paced (max_lead cfg) r1" "tr_cursor r1 \<le> now + max_lead cfg" "tr_now r1 = now"
    using p0 op c(1) l by (auto simp: paced_def)
  obtain b2 r2 where a: "tts_await (SentFrame fr) r1 = (b2, r2)" by fastforce
  note aw = tts_await_spec [OF a]
  have p2: "paced (max_lead cfg) r2" using p1(1) aw by (auto simp: paced_def)
  define r3 where "r3 = r2\<lparr>tr_audio_sent := True, tr_frames := tr_frames r2 + 1,
    tr_bytes := tr_bytes r2 + length fr,
    tr_cursor := max (tr_cursor r2) now + pcm16_duration_seconds (length fr) (tts_sample_rate cfg)\<rparr>"
  have c3: "tr_cursor r3 \<le> tr_now r3 + (max_lead cfg + D)"
    using p1 aw D l by (simp add: r3_def)
  have d3: "\<forall>d\<in>set (tr_delays r3). 0 \<le> d" using p2 by (simp add: r3_def paced_def)
  have sf: "send_frame cfg fr r = seq_body (b1, r1) (\<lambda>r1. seq_body (tts_await (SentFrame fr) r1)
      (\<lambda>r2. pace cfg (r2\<lparr>tr_audio_sent := True, tr_frames := tr_frames r2 + 1,
         tr_bytes := tr_bytes r2 + length fr,
         tr_cursor := max (tr_cursor r2) now + pcm16_duration_seconds (length fr) (tts_sample_rate cfg)\<rparr>)))"
    using False by (simp add: send_frame_def rc o)
  show ?thesis
  proof (cases "b1 = BodyOk")
    case f: False
    then have "b = b1" "r' = r1" using s sf by (simp_all add: seq_body_stop)
    then show ?thesis using f op(1) p1(1) D(2) by (auto intro: paced_mono)
  next
    case ok: True
    show ?thesis
    proof (cases "b2 = BodyOk")
      case f: False
      then have "b = b2" "r' = r2" using s sf ok a by (simp_all add: seq_body_stop)
      then show ?thesis using f aw(1) p2 D(2) by (auto intro: paced_mono)
    next
      case True
      then have "pace cfg r3 = (b, r')" using s sf ok a by (simp add: r3_def)
      then show ?thesis by (rule pace_spec [OF _ d3 c3]) (use D(2) in simp)
    qed
  qed
qed

lemma send_frames_paced:
  assumes l: "0 \<le> max_lead cfg" "0 \<le> D"
  shows "paced (max_lead cfg) r \<Longrightarrow>
   \<forall>fr\<in>set frs. pcm16_duration_seconds (length fr) (tts_sample_rate cfg) \<le> D \<Longrightarrow>
   send_frames cfg frs r = (b, r') \<Longrightarrow>
   b \<noteq> BodyStuck \<and> paced (max_lead cfg + D) r' \<and> (b = BodyOk \<longrightarrow> paced (max_lead cfg) r')"
proof (induction frs arbitrary: r)
  case Nil
  then show ?case using l(2) by (auto intro: paced_mono)
next
  case (Cons fr frs)
  obtain b1 r1 where f: "send_frame cfg fr r = (b1, r1)" by fastforce
  have 1: "b1 \<noteq> BodyStuck \<and> paced (max_lead cfg + D) r1 \<and> (b1 = BodyOk \<longrightarrow> paced (max_lead cfg) r1)"
    using send_frame_paced [OF Cons.prems(1) l(1) _ l(2) f] Cons.prems(2) by simp
  show ?case
  proof (cases "b1 = BodyOk")
    case True
    then show ?thesis using Cons.IH [of r1] 1 Cons.prems f by simp
  next
    case False
    then show ?thesis using 1 Cons.prems(3) f by (simp add: seq_body_stop)
  qed
qed

lemma speak_queue_paced:
  assumes l: "0 \<le> max_lead cfg" "0 \<le> D"
    and D: "\<And>t fr. fr \<in> set (fst (eng t)) \<Longrightarrow> pcm16_duration_seconds (length fr) (tts_sample_rate cfg) \<le> D"
  shows "paced (max_lead cfg) r \<Longrightarrow> speak_queue cfg eng q r = (b, r') \<Longrightarrow>
   b \<noteq> BodyStuck \<and> paced (max_lead cfg + D) r' \<and> (b = BodyOk \<longrightarrow> paced (max_lead cfg) r')"
proof (induction q arbitrary: r)
  case Nil
  then show ?case using l(2) by (auto intro: paced_mono)
next
  case (Cons x q)
  show ?case
  proof (cases x)
    case None
    then show ?thesis using Cons.prems l(2) by (auto intro: paced_mono)
  next
    case (Some t)
    define r0 where "r0 = r\<lparr>tr_segments := tr_segments r + 1\<rparr>"
    have p0: "paced (max_lead cfg) r0" using Cons.prems(1) by (simp add: r0_def paced_def)
    obtain b1 r1 where f: "send_frames cfg (fst (eng t)) r0 = (b1, r1)" by fastforce
    have 1: "b1 \<noteq> BodyStuck \<and> paced (max_lead cfg + D) r1 \<and> (b1 = BodyOk \<longrightarrow> paced (max_lead cfg) r1)"
      by (rule send_frames_paced [OF l p0 _ f]) (use D in blast)
    have e: "seq_body (b1, r1) (\<lambda>r1. seq_body (stream_body (snd (eng t)), r1) (speak_queue cfg eng q)) = (b, r')"
      using Cons.prems(2) Some f by (simp add: r0_def)
    show ?thesis
    proof (cases "b1 = BodyOk")
      case False
      then show ?thesis using 1 e by (simp add: seq_body_stop)
    next
      case ok: True
      have ns: "stream_body (snd (eng t)) \<noteq> BodyStuck" by (cases "snd (eng t)") (simp_all add: stream_body_def)
      show ?thesis
      proof (cases "stream_body (snd (eng t)) = BodyOk")
        case True
        then show ?thesis using Cons.IH [of r1] 1 e ok by simp
      next
        case False
        then show ?thesis using 1 e ok ns by (simp add: seq_body_stop)
      qed
    qed
  qed
qed

section \<open>What is sent, and how a reply ends\<close>

fun frames_of :: "tts_effect list \<Rightarrow> bytes list" where
  "frames_of [] = []"
| "frames_of (SentFrame fr # es) = fr # frames_of es"
| "frames_of (e # es) = frames_of es"

lemma frames_of_append [simp]: "frames_of (a @ b) = frames_of a @ frames_of b"
  by (induction a rule: frames_of.induct) simp_all

fun closing :: "tts_effect \<Rightarrow> bool" where
  "closing (PlaybackEnd i) = True"
| "closing (TtsMetrics m f g d i) = True"
| "closing e = False"

text \<open>\<open>log_ext fs r r'\<close>: the log grew by effects that do not close the reply, sending the frames \<open>fs\<close>.\<close>

definition log_ext :: "bytes list \<Rightarrow> tts_run \<Rightarrow> tts_run \<Rightarrow> bool" where
  "log_ext fs r r' \<longleftrightarrow> (\<exists>es. tr_log r' = tr_log r @ es \<and> list_all (\<lambda>e. \<not> closing e) es \<and> frames_of es = fs)
     \<and> set (tr_env r') \<subseteq> set (tr_env r)"

lemma log_ext_same: "tr_log r' = tr_log r \<Longrightarrow> set (tr_env r') \<subseteq> set (tr_env r) \<Longrightarrow> log_ext [] r r'"
  by (simp add: log_ext_def)

lemma log_ext_trans: "log_ext fs r r' \<Longrightarrow> log_ext gs r' r'' \<Longrightarrow> log_ext (fs @ gs) r r''"
  by (auto simp: log_ext_def list_all_append)

lemma log_ext_frames: "log_ext fs r r' \<Longrightarrow> frames_of (tr_log r') = frames_of (tr_log r) @ fs"
  by (auto simp: log_ext_def)

lemma next_await_env:
  "next_await r = (a, r1) \<Longrightarrow> set (tr_env r1) \<subseteq> set (tr_env r) \<and> (a = Returns \<or> a \<in> set (tr_env r))"
  by (auto simp: next_await_def split: list.splits)

lemma tts_await_env:
  assumes "tts_await e r = (b, r1)"
  shows "set (tr_env r1) \<subseteq> set (tr_env r)" "b = BodyCancelled \<Longrightarrow> Cancelled \<in> set (tr_env r)"
proof -
  obtain a where n: "next_await (tts_note e r) = (a, r1)" "b = await_end a"
    using assms by (auto simp: tts_await_def split: prod.splits)
  show "set (tr_env r1) \<subseteq> set (tr_env r)" "b = BodyCancelled \<Longrightarrow> Cancelled \<in> set (tr_env r)"
    using next_await_env [OF n(1)] n(2) by (cases a; simp add: tts_note_def await_end_def)+
qed

lemma tts_sleep_env: "tts_sleep d r = (b, r1) \<Longrightarrow> set (tr_env r1) \<subseteq> set (tr_env r)"
  using next_await_env [of r] by (auto simp: tts_sleep_def split: prod.splits if_splits)

lemma tts_await_ext: "tts_await e r = (b, r1) \<Longrightarrow> \<not> closing e \<Longrightarrow> log_ext (frames_of [e]) r r1"
  using tts_await_env(1) [of e r b r1] by (simp add: log_ext_def tts_await_spec)

lemma read_clock_log: "read_clock r = (t, r1) \<Longrightarrow> log_ext [] r r1"
  by (auto simp: read_clock_def log_ext_def split: list.splits)

lemma open_reply_ext: "open_reply cfg now r = (b, r1) \<Longrightarrow> log_ext [] r r1"
proof -
  assume o: "open_reply cfg now r = (b, r1)"
  define r' where "r' = r\<lparr>tr_first_ms := Some ((now - tr_started r) * 1000), tr_cursor := now\<rparr>"
  obtain b0 r0 where a: "tts_await TtsStart r' = (b0, r0)" by fastforce
  have "r1 = r \<or> r1 = r0 \<or> r1 = tts_note FirstAudio r0"
    using o a unfolding open_reply_def r'_def [symmetric]
    by (cases b0) (auto simp: seq_body_stop split: if_splits)
  moreover have "tr_log r0 = tr_log r @ [TtsStart]" using tts_await_spec(6) [OF a] by (simp add: r'_def)
  moreover have "set (tr_env r0) \<subseteq> set (tr_env r)" using tts_await_env(1) [OF a] by (simp add: r'_def)
  ultimately show ?thesis by (auto simp: log_ext_def tts_note_def)
qed

lemma pace_ext: "pace cfg r = (b, r1) \<Longrightarrow> log_ext [] r r1"
proof -
  assume p: "pace cfg r = (b, r1)"
  obtain t r0 where rc: "read_clock r = (t, r0)" by fastforce
  have "log_ext [] r0 r1"
    by (rule log_ext_same) (use p rc tts_sleep_spec(6) tts_sleep_env in
        \<open>fastforce simp: pace_def Let_def split: if_splits\<close>)+
  from log_ext_trans [OF read_clock_log [OF rc] this] show ?thesis by simp
qed

lemma send_frame_ext:
  assumes s: "send_frame cfg fr r = (b, r')"
  shows "\<exists>fs. log_ext fs r r' \<and> prefix fs (filter (\<lambda>x. x \<noteq> []) [fr]) \<and> (b = BodyOk \<longrightarrow> fs = filter (\<lambda>x. x \<noteq> []) [fr])"
proof (cases "fr = []")
  case True
  then show ?thesis using s by (auto simp: send_frame_def intro: log_ext_same)
next
  case False
  obtain now r0 where rc: "read_clock r = (now, r0)" by fastforce
  obtain b1 r1 where o: "open_reply cfg now r0 = (b1, r1)" by fastforce
  obtain b2 r2 where a: "tts_await (SentFrame fr) r1 = (b2, r2)" by fastforce
  define r3 where "r3 = r2\<lparr>tr_audio_sent := True, tr_frames := tr_frames r2 + 1,
    tr_bytes := tr_bytes r2 + length fr,
    tr_cursor := max (tr_cursor r2) now + pcm16_duration_seconds (length fr) (tts_sample_rate cfg)\<rparr>"
  have 1: "log_ext [] r r1"
    using log_ext_trans [OF read_clock_log [OF rc] open_reply_ext [OF o]] by simp
  have 2: "log_ext [fr] r r2" using log_ext_trans [OF 1 tts_await_ext [OF a]] by simp
  have sf: "send_frame cfg fr r = seq_body (b1, r1) (\<lambda>r1. seq_body (tts_await (SentFrame fr) r1)
      (\<lambda>r2. pace cfg (r2\<lparr>tr_audio_sent := True, tr_frames := tr_frames r2 + 1,
         tr_bytes := tr_bytes r2 + length fr,
         tr_cursor := max (tr_cursor r2) now + pcm16_duration_seconds (length fr) (tts_sample_rate cfg)\<rparr>)))"
    using False by (simp add: send_frame_def rc o)
  consider "b1 \<noteq> BodyOk" | "b1 = BodyOk" "b2 \<noteq> BodyOk" | "b1 = BodyOk" "b2 = BodyOk" by blast
  then show ?thesis
  proof cases
    case 1
    then have "b = b1" "r' = r1" using s sf by (simp_all add: seq_body_stop)
    then show ?thesis using 1 \<open>log_ext [] r r1\<close> by (intro exI [of _ "[]"]) simp
  next
    case 2
    then have "b = b2" "r' = r2" using s sf a by (simp_all add: seq_body_stop)
    then show ?thesis using \<open>log_ext [fr] r r2\<close> False by (intro exI [of _ "[fr]"]) simp
  next
    case 3
    then have "pace cfg r3 = (b, r')" using s sf a by (simp add: r3_def)
    then have "log_ext [] r3 r'" by (rule pace_ext)
    moreover have "log_ext [] r2 r3" by (rule log_ext_same) (simp_all add: r3_def)
    ultimately have "log_ext [fr] r r'"
      using log_ext_trans [OF \<open>log_ext [fr] r r2\<close> log_ext_trans] by fastforce
    then show ?thesis using False by (intro exI [of _ "[fr]"]) simp
  qed
qed

lemma send_frames_ext:
  "send_frames cfg frs r = (b, r') \<Longrightarrow>
   \<exists>fs. log_ext fs r r' \<and> prefix fs (filter (\<lambda>x. x \<noteq> []) frs) \<and> (b = BodyOk \<longrightarrow> fs = filter (\<lambda>x. x \<noteq> []) frs)"
proof (induction frs arbitrary: r)
  case Nil
  then show ?case by (auto intro: log_ext_same)
next
  case (Cons fr frs)
  let ?nb = "filter (\<lambda>x. x \<noteq> [])"
  obtain b1 r1 where f: "send_frame cfg fr r = (b1, r1)" by fastforce
  obtain f1 where 1: "log_ext f1 r r1" "prefix f1 (?nb [fr])" "b1 = BodyOk \<longrightarrow> f1 = ?nb [fr]"
    using send_frame_ext [OF f] by blast
  have app: "?nb (fr # frs) = ?nb [fr] @ ?nb frs" by simp
  show ?case
  proof (cases "b1 = BodyOk")
    case True
    then have "send_frames cfg frs r1 = (b, r')" using Cons.prems f by simp
    from Cons.IH [OF this] obtain f2 where 2: "log_ext f2 r1 r'" "prefix f2 (?nb frs)"
      "b = BodyOk \<longrightarrow> f2 = ?nb frs" by blast
    show ?thesis unfolding app using log_ext_trans [OF 1(1) 2(1)] 1(3) 2(2,3) True
      by (intro exI [of _ "f1 @ f2"]) simp
  next
    case False
    then have "b = b1" "r' = r1" using Cons.prems f by (simp_all add: seq_body_stop)
    then show ?thesis unfolding app using 1 False by (intro exI [of _ f1]) (auto intro: prefix_prefix)
  qed
qed

text \<open>The frames a queue asks for: those of its texts, up to the end marker.\<close>

fun queue_frames :: "tts_engine \<Rightarrow> ustr option list \<Rightarrow> bytes list" where
  "queue_frames eng [] = []"
| "queue_frames eng (None # q) = []"
| "queue_frames eng (Some t # q) = filter (\<lambda>x. x \<noteq> []) (fst (eng t)) @ queue_frames eng q"

lemma speak_queue_ext:
  "speak_queue cfg eng q r = (b, r') \<Longrightarrow>
   \<exists>fs. log_ext fs r r' \<and> prefix fs (queue_frames eng q) \<and> (b = BodyOk \<longrightarrow> fs = queue_frames eng q)"
proof (induction q arbitrary: r)
  case Nil
  then show ?case by (auto intro: log_ext_same)
next
  case (Cons x q)
  show ?case
  proof (cases x)
    case None
    then show ?thesis using Cons.prems by (auto intro: log_ext_same)
  next
    case (Some t)
    let ?nb = "filter (\<lambda>x. x \<noteq> []) (fst (eng t))"
    define r0 where "r0 = r\<lparr>tr_segments := tr_segments r + 1\<rparr>"
    obtain b1 r1 where f: "send_frames cfg (fst (eng t)) r0 = (b1, r1)" by fastforce
    obtain f1 where 1: "log_ext f1 r0 r1" "prefix f1 ?nb" "b1 = BodyOk \<longrightarrow> f1 = ?nb"
      using send_frames_ext [OF f] by blast
    have "log_ext [] r r0" by (rule log_ext_same) (simp_all add: r0_def)
    then have e1: "log_ext f1 r r1" using log_ext_trans 1(1) by fastforce
    have e: "seq_body (b1, r1) (\<lambda>r1. seq_body (stream_body (snd (eng t)), r1) (speak_queue cfg eng q)) = (b, r')"
      using Cons.prems Some f by (simp add: r0_def)
    show ?thesis
    proof (cases "b1 = BodyOk \<and> stream_body (snd (eng t)) = BodyOk")
      case True
      then have "speak_queue cfg eng q r1 = (b, r')" using e by simp
      from Cons.IH [OF this] obtain f2 where 2: "log_ext f2 r1 r'" "prefix f2 (queue_frames eng q)"
        "b = BodyOk \<longrightarrow> f2 = queue_frames eng q" by blast
      show ?thesis using log_ext_trans [OF e1 2(1)] 1(3) 2(2,3) True Some
        by (intro exI [of _ "f1 @ f2"]) simp
    next
      case False
      then have "r' = r1" "b \<noteq> BodyOk" using e by (auto simp: seq_body_stop) (metis prod.inject seq_body_Ok seq_body_stop)+
      then show ?thesis using e1 1(2) Some by (intro exI [of _ f1]) (auto intro: prefix_prefix)
    qed
  qed
qed

lemma play_out_ext: "play_out r = (b, r') \<Longrightarrow> log_ext [] r r'"
proof -
  assume p: "play_out r = (b, r')"
  obtain t r1 where rc: "read_clock r = (t, r1)" by fastforce
  define sl where "sl = (if 0 < tr_frames r1 \<and> 0 < tr_cursor r1 - t then tts_sleep (tr_cursor r1 - t) r1 else (BodyOk, r1))"
  obtain b2 r2 where s: "sl = (b2, r2)" by fastforce
  have "log_ext [] r1 r2"
    by (rule log_ext_same) (use s tts_sleep_spec(6) tts_sleep_env in \<open>fastforce simp: sl_def split: if_splits\<close>)+
  from log_ext_trans [OF read_clock_log [OF rc] this] have 1: "log_ext [] r r2" by simp
  have e: "seq_body (b2, r2) (\<lambda>r2. if 0 < tr_frames r2 then tts_await TtsEnd r2 else (BodyOk, r2)) = (b, r')"
    using p s by (simp add: play_out_def rc Let_def sl_def)
  show ?thesis
  proof (cases "b2 = BodyOk \<and> 0 < tr_frames r2")
    case True
    then have "tts_await TtsEnd r2 = (b, r')" using e by simp
    from log_ext_trans [OF 1 tts_await_ext [OF this]] show ?thesis by simp
  next
    case False
    then have "r' = r2" using e by (cases "b2 = BodyOk") (auto simp: seq_body_stop)
    then show ?thesis using 1 by simp
  qed
qed

text \<open>
  How a reply ends: one metrics event, and after it the playback-end callback, unless the task is
  cancelled in the very send of the metrics. The frames sent are those asked for up to some point,
  all of them when the reply was not interrupted.
\<close>

lemma finish_reply_log:
  "\<exists>m f g d rest. tr_log (finish_reply cfg intr r) = tr_log r @ TtsMetrics m f g d intr # rest
     \<and> rest \<in> {[], [PlaybackEnd intr]}
     \<and> (has_on_playback_end cfg \<and> Cancelled \<notin> set (tr_env r) \<longrightarrow> rest = [PlaybackEnd intr])"
proof -
  obtain b r1 where a: "tts_await (tts_metrics_event cfg intr r) r = (b, r1)" by fastforce
  obtain b2 r2 where p: "tts_await (PlaybackEnd intr) r1 = (b2, r2)" by fastforce
  obtain m f g d where e: "tts_metrics_event cfg intr r = TtsMetrics m f g d intr"
    by (simp add: tts_metrics_event_def)
  have "tr_log (finish_reply cfg intr r) = tr_log r @ TtsMetrics m f g d intr #
      (if b \<noteq> BodyCancelled \<and> has_on_playback_end cfg then [PlaybackEnd intr] else [])"
    using tts_await_spec(6) [OF a] tts_await_spec(6) [OF p] e a [unfolded e] p
    by (simp add: finish_reply_def)
  then show ?thesis using tts_await_env(2) [OF a] by fastforce
qed

lemma run_reply_result:
  "\<exists>es m f g d intr rest. tr_log (run_reply cfg eng q (new_tts_run now ds env))
       = es @ TtsMetrics m f g d intr # rest
     \<and> list_all (\<lambda>e. \<not> closing e) es \<and> prefix (frames_of es) (queue_frames eng q)
     \<and> (\<not> intr \<longrightarrow> frames_of es = queue_frames eng q)
     \<and> rest \<in> {[], [PlaybackEnd intr]}
     \<and> (has_on_playback_end cfg \<and> Cancelled \<notin> set env \<longrightarrow> rest = [PlaybackEnd intr])"
proof -
  define r where "r = new_tts_run now ds env"
  have log: "tr_log r = []" "tr_env r = env" by (simp_all add: r_def new_tts_run_def)
  obtain t r0 where rc: "read_clock r = (t, r0)" by fastforce
  define r0' where "r0' = r0\<lparr>tr_started := t\<rparr>"
  have "log_ext [] r0 r0'" by (rule log_ext_same) (simp_all add: r0'_def)
  from log_ext_trans [OF read_clock_log [OF rc] this] have 0: "log_ext [] r r0'" by simp
  obtain b1 r1 where sq: "speak_queue cfg eng q r0' = (b1, r1)" by fastforce
  obtain fs where 1: "log_ext fs r0' r1" "prefix fs (queue_frames eng q)"
    "b1 = BodyOk \<longrightarrow> fs = queue_frames eng q" using speak_queue_ext [OF sq] by blast
  obtain b2 r2 where bd: "reply_body cfg eng q r0' = (b2, r2)" by fastforce
  have 2: "log_ext [] r1 r2 \<and> (b2 = BodyOk \<longrightarrow> b1 = BodyOk)"
  proof (cases "b1 = BodyOk")
    case True
    then show ?thesis using bd sq play_out_ext by (simp add: reply_body_def)
  next
    case False
    then show ?thesis using bd sq by (auto simp: reply_body_def seq_body_stop log_ext_same)
  qed
  define r3 where "r3 = (if b2 = BodyRaises then snd (tts_await TtsError r2) else r2)"
  have "log_ext [] r2 r3"
    using tts_await_ext [of TtsError r2] by (cases "tts_await TtsError r2") (auto simp: r3_def log_ext_same)
  then have 3: "log_ext fs r r3"
    using log_ext_trans [OF 0 log_ext_trans [OF 1(1) log_ext_trans [of "[]" r1 r2 "[]" r3]]] 2 by simp
  have run: "run_reply cfg eng q r = finish_reply cfg (b2 \<noteq> BodyOk) r3"
    by (cases b2) (simp_all add: run_reply_def rc r0'_def [symmetric] bd r3_def)
  obtain es where es: "tr_log r3 = es" "list_all (\<lambda>e. \<not> closing e) es" "frames_of es = fs"
    "set (tr_env r3) \<subseteq> set env" using 3 log by (auto simp: log_ext_def)
  obtain m f g d rest where fin: "tr_log (finish_reply cfg (b2 \<noteq> BodyOk) r3)
      = es @ TtsMetrics m f g d (b2 \<noteq> BodyOk) # rest" "rest \<in> {[], [PlaybackEnd (b2 \<noteq> BodyOk)]}"
    "has_on_playback_end cfg \<and> Cancelled \<notin> set (tr_env r3) \<longrightarrow> rest = [PlaybackEnd (b2 \<noteq> BodyOk)]"
    using finish_reply_log [of cfg "b2 \<noteq> BodyOk" r3] es(1) by blast
  have "has_on_playback_end cfg \<and> Cancelled \<notin> set env \<longrightarrow> rest = [PlaybackEnd (b2 \<noteq> BodyOk)]"
    using fin(3) es(4) by blast
  moreover have "\<not> (b2 \<noteq> BodyOk) \<longrightarrow> frames_of es = queue_frames eng q" using 1(3) 2 es(3) by blast
  ultimately show ?thesis unfolding r_def [symmetric] run
    using fin(1,2) es(2,3) 1(2) by blast
qed

section \<open>The consumer\<close>

text \<open>
  \<open>tc_queue\<close> is the current reply's queue, \<open>tc_running\<close> says that its task is not done.
  \<open>tts_stop\<close> cancels the task and waits for it: what the task still does (\<^verbatim>\<open>finally\<close>)
  is the argument \<open>closing_log\<close>; then the client is told to drop what it has buffered.
\<close>

record tts_consumer =
  tc_task :: bool
  tc_running :: bool
  tc_queue :: "ustr option list option"
  tc_utterance :: "string option"
  tc_audio_sent :: bool
  tc_cursor :: pyfloat
  tc_log :: "tts_effect list"

definition new_tts_consumer :: tts_consumer where
  "new_tts_consumer = \<lparr>tc_task = False, tc_running = False, tc_queue = None, tc_utterance = None,
     tc_audio_sent = False, tc_cursor = 0, tc_log = []\<rparr>"

definition is_active :: "tts_consumer \<Rightarrow> bool" where
  "is_active c \<longleftrightarrow> tc_task c \<and> tc_running c"

definition tts_current_utterance :: "tts_consumer \<Rightarrow> string option" where
  "tts_current_utterance c = (if is_active c then tc_utterance c else None)"

definition tts_stop :: "ustr \<Rightarrow> tts_effect list \<Rightarrow> tts_consumer \<Rightarrow> bool \<times> tts_consumer" where
  "tts_stop reason closing_log c =
     (if \<not> is_active c then (False, c)
      else let had_audio = tc_audio_sent c;
               c1 = c\<lparr>tc_running := False, tc_log := tc_log c @ closing_log\<rparr>
           in (True, if had_audio then c1\<lparr>tc_log := tc_log c1 @ [TtsClear reason]\<rparr> else c1))"

definition tts_begin :: "string \<Rightarrow> tts_effect list \<Rightarrow> tts_consumer \<Rightarrow> tts_consumer" where
  "tts_begin uid closing_log c =
     (snd (tts_stop (u ''superseded'') closing_log c))
       \<lparr>tc_utterance := Some uid, tc_audio_sent := False, tc_cursor := 0, tc_queue := Some [],
        tc_task := True, tc_running := True\<rparr>"

definition tts_speak :: "ustr \<Rightarrow> tts_consumer \<Rightarrow> tts_consumer" where
  "tts_speak t c =
     (case tc_queue c of
        Some q \<Rightarrow> if is_active c \<and> strip t \<noteq> [] then c\<lparr>tc_queue := Some (q @ [Some t])\<rparr> else c
      | None \<Rightarrow> c)"

definition tts_finish :: "tts_consumer \<Rightarrow> tts_consumer" where
  "tts_finish c =
     (case tc_queue c of
        Some q \<Rightarrow> if is_active c then c\<lparr>tc_queue := Some (q @ [None])\<rparr> else c
      | None \<Rightarrow> c)"

definition start_speaking :: "ustr \<Rightarrow> string \<Rightarrow> tts_effect list \<Rightarrow> tts_consumer \<Rightarrow> tts_consumer" where
  "start_speaking t uid closing_log c = tts_finish (tts_speak t (tts_begin uid closing_log c))"

text \<open>The reply the consumer has opened, run to its end by its task.\<close>

definition reply_of :: "tts_config \<Rightarrow> tts_engine \<Rightarrow> tts_consumer \<Rightarrow> tts_run \<Rightarrow> tts_run" where
  "reply_of cfg eng c r = run_reply cfg eng (case tc_queue c of None \<Rightarrow> [] | Some q \<Rightarrow> q) r"

lemma tts_begin_fields:
  "is_active (tts_begin uid cl c)" "tc_queue (tts_begin uid cl c) = Some []"
  "tts_current_utterance (tts_begin uid cl c) = Some uid"
  by (simp_all add: tts_begin_def is_active_def tts_current_utterance_def)

lemma tts_stop_inactive: "\<not> is_active (snd (tts_stop reason cl c))"
  by (simp add: tts_stop_def is_active_def Let_def)

lemma speak_all_queue:
  "is_active c \<Longrightarrow> tc_queue c = Some q \<Longrightarrow>
   tc_queue (foldl (\<lambda>c t. tts_speak t c) c ts) = Some (q @ map Some (filter (\<lambda>t. strip t \<noteq> []) ts))
     \<and> is_active (foldl (\<lambda>c t. tts_speak t c) c ts)"
proof (induction ts arbitrary: c q)
  case (Cons t ts)
  have a: "is_active (tts_speak t c)" using Cons.prems by (simp add: tts_speak_def is_active_def)
  have q: "tc_queue (tts_speak t c) = Some (q @ map Some (filter (\<lambda>t. strip t \<noteq> []) [t]))"
    using Cons.prems by (simp add: tts_speak_def)
  show ?case using Cons.IH [OF a q] by simp
qed simp

text \<open>A reply's queue is its non-blank segments in order and then the end marker.\<close>

lemma reply_queue:
  "tc_queue (tts_finish (foldl (\<lambda>c t. tts_speak t c) (tts_begin uid cl c) ts))
     = Some (map Some (filter (\<lambda>t. strip t \<noteq> []) ts) @ [None])"
  using speak_all_queue [OF tts_begin_fields(1,2), of uid cl c ts] by (simp add: tts_finish_def)

lemma queue_frames_complete:
  "queue_frames eng (map Some ts @ [None]) = filter (\<lambda>x. x \<noteq> []) (concat (map (\<lambda>t. fst (eng t)) ts))"
  by (induction ts) simp_all

end
