(* ===== verification/Mulaw.thy ===== *)
theory Mulaw
  imports Pcm
begin

unbundle bit_operations_syntax

text \<open>
  \<^verbatim>\<open>app/telephony/audio_convert.py\<close>: Twilio's mu-law at 8 kHz to PCM16 at 16 kHz and back.
  The module \<^verbatim>\<open>audioop\<close> is a library that may be missing; it is the argument \<open>ao\<close> of the
  operations that dispatch on it (its \<^verbatim>\<open>ulaw2lin\<close> and \<^verbatim>\<open>lin2ulaw\<close> at width 2).
\<close>

section \<open>The codec of one byte\<close>

definition ulaw_decode :: "8 word \<Rightarrow> int" where
  "ulaw_decode b =
     (let v = uint b XOR 255;
          sign = v AND 128;
          ex = drop_bit 4 v AND 7;
          mantissa = v AND 15;
          s = push_bit (nat ex) (push_bit 3 mantissa + 132) - 132;
          s = (if sign \<noteq> 0 then - s else s)
      in max (-32768) (min 32767 (s * 4)))"

definition SEG_ULAW_END :: "int list" where
  "SEG_ULAW_END = [252, 504, 1008, 2016, 4032, 8064, 16128, 32256]"

text \<open>The search loop with its \<^verbatim>\<open>else\<close> branch: the first segment whose end is not exceeded.\<close>

fun find_segment :: "nat \<Rightarrow> int list \<Rightarrow> int \<Rightarrow> nat" where
  "find_segment e [] s = 7"
| "find_segment e (hi # his) s = (if s \<le> hi then e else find_segment (Suc e) his s)"

definition ulaw_encode :: "int \<Rightarrow> 8 word" where
  "ulaw_encode sample0 =
     (let sign = (if sample0 < 0 then 128 else 0);
          mag = (if sample0 < 0 then - sample0 else sample0);
          s = min (drop_bit 2 mag) 8191 + 132;
          ex = find_segment 0 SEG_ULAW_END s;
          mantissa = drop_bit (ex + 3) s AND 15
      in word_of_int (NOT (sign OR push_bit 4 (int ex) OR mantissa) AND 255))"

section \<open>Buffers\<close>

definition ulaw_to_pcm16_pure :: "bytes \<Rightarrow> bytes" where
  "ulaw_to_pcm16_pure payload = concat (map (\<lambda>b. pack16 (ulaw_decode b)) payload)"

fun resample_8k_to_16k :: "bytes \<Rightarrow> bytes" where
  "resample_8k_to_16k (a # b # rest) = [a, b, a, b] @ resample_8k_to_16k rest"
| "resample_8k_to_16k _ = []"

type_synonym audioop = "((bytes \<Rightarrow> bytes) \<times> (bytes \<Rightarrow> bytes)) option"

definition ulaw_to_pcm16 :: "audioop \<Rightarrow> bytes \<Rightarrow> bytes" where
  "ulaw_to_pcm16 ao payload =
     (case ao of Some (ulaw2lin, lin2ulaw) \<Rightarrow> ulaw2lin payload | None \<Rightarrow> ulaw_to_pcm16_pure payload)"

definition convert_twilio_audio :: "audioop \<Rightarrow> bytes \<Rightarrow> bytes" where
  "convert_twilio_audio ao payload =
     (if payload = [] then [] else resample_8k_to_16k (ulaw_to_pcm16 ao payload))"

text \<open>An odd buffer makes the last \<^verbatim>\<open>unpack_from\<close> raise.\<close>

definition pcm16_to_ulaw_pure :: "bytes \<Rightarrow> py_exn + bytes" where
  "pcm16_to_ulaw_pure pcm =
     (if odd (length pcm) then Inl StructError else Inr (map ulaw_encode (samples pcm)))"

definition pcm16_to_ulaw :: "audioop \<Rightarrow> bytes \<Rightarrow> py_exn + bytes" where
  "pcm16_to_ulaw ao pcm =
     (case ao of Some (ulaw2lin, lin2ulaw) \<Rightarrow> Inr (lin2ulaw pcm) | None \<Rightarrow> pcm16_to_ulaw_pure pcm)"

fun resample_16k_to_8k :: "bytes \<Rightarrow> bytes" where
  "resample_16k_to_8k (a # b # c # d # rest) = [a, b] @ resample_16k_to_8k rest"
| "resample_16k_to_8k _ = []"

definition pcm16_16k_to_twilio_audio :: "audioop \<Rightarrow> bytes \<Rightarrow> py_exn + bytes" where
  "pcm16_16k_to_twilio_audio ao pcm =
     (if pcm = [] then Inr [] else pcm16_to_ulaw ao (resample_16k_to_8k pcm))"

section \<open>Resampling\<close>

lemma length_resample_up: "length (resample_8k_to_16k bs) = 4 * (length bs div 2)"
  by (induction bs rule: resample_8k_to_16k.induct) auto

lemma length_resample_down: "length (resample_16k_to_8k bs) = 2 * (length bs div 4)"
  by (induction bs rule: resample_16k_to_8k.induct) auto

lemma resample_down_up: "even (length bs) \<Longrightarrow> resample_16k_to_8k (resample_8k_to_16k bs) = bs"
  by (induction bs rule: resample_8k_to_16k.induct) auto

lemma even_resample_down: "even (length (resample_16k_to_8k bs))"
  by (simp add: length_resample_down)

lemma resample_up_Nil_iff: "even (length bs) \<Longrightarrow> resample_8k_to_16k bs = [] \<longleftrightarrow> bs = []"
  by (cases bs rule: resample_8k_to_16k.cases) auto

section \<open>The codec over a buffer\<close>

lemma ulaw_decode_fits: "fits16 (ulaw_decode b)"
  by (simp add: ulaw_decode_def Let_def fits16_def)

lemma length_ulaw_to_pcm16_pure: "length (ulaw_to_pcm16_pure bs) = 2 * length bs"
  by (induction bs) (simp_all add: ulaw_to_pcm16_pure_def pack16_def)

lemma samples_ulaw_to_pcm16_pure: "samples (ulaw_to_pcm16_pure bs) = map ulaw_decode bs"
  by (induction bs) (simp_all add: ulaw_to_pcm16_pure_def samples_pack16_Cons ulaw_decode_fits)

text \<open>A frame of mu-law bytes becomes four times as many PCM bytes, with either decoder.\<close>

lemma length_convert_twilio:
  assumes "\<And>f g bs. ao = Some (f, g) \<Longrightarrow> length (f bs) = 2 * length bs"
  shows "length (convert_twilio_audio ao bs) = 4 * length bs"
  using assms by (auto simp: convert_twilio_audio_def ulaw_to_pcm16_def length_resample_up
      length_ulaw_to_pcm16_pure split: option.splits)

text \<open>The outbound path never raises, whatever the buffer: the resampler hands over whole samples.\<close>

lemma outbound_total:
  "\<exists>out. pcm16_16k_to_twilio_audio None pcm = Inr out \<and> length out = length pcm div 4"
  by (simp add: pcm16_16k_to_twilio_audio_def pcm16_to_ulaw_def pcm16_to_ulaw_pure_def
      even_resample_down length_resample_down length_samples)

text \<open>In and out again is the codec's own round trip, byte by byte.\<close>

lemma inbound_outbound:
  "pcm16_16k_to_twilio_audio None (convert_twilio_audio None bs)
     = Inr (map (\<lambda>b. ulaw_encode (ulaw_decode b)) bs)"
proof -
  let ?p = "ulaw_to_pcm16_pure bs"
  have ev: "even (length ?p)" by (simp add: length_ulaw_to_pcm16_pure)
  have "?p = [] \<longleftrightarrow> bs = []" by (cases bs) (simp_all add: ulaw_to_pcm16_pure_def pack16_def)
  then show ?thesis using ev resample_up_Nil_iff [OF ev]
    by (auto simp: pcm16_16k_to_twilio_audio_def convert_twilio_audio_def ulaw_to_pcm16_def
        pcm16_to_ulaw_def pcm16_to_ulaw_pure_def resample_down_up samples_ulaw_to_pcm16_pure o_def)
qed

section \<open>The codec on all 256 codes\<close>

definition codes :: "8 word list" where
  "codes = map word_of_int [0..255]"

lemma in_codes: "b \<in> set codes"
proof -
  have "uint b \<in> set [0..255]" using uint_bounded [of b] by simp
  then have "word_of_int (uint b) \<in> set codes" unfolding codes_def set_map by (rule imageI)
  then show ?thesis by simp
qed

lemma map_codes_eq: "map f codes = map g codes \<Longrightarrow> f b = g b"
  using in_codes [of b] by (simp add: map_eq_conv)

text \<open>
  What one trip through the codec does: exact below segment 6 (negative zero becomes positive
  zero), while every code of the two loudest segments collapses to one code per sign.
\<close>

definition ulaw_trip :: "8 word \<Rightarrow> 8 word" where
  "ulaw_trip b =
     (if b = 0x7F then 0xFF
      else if (NOT b AND 0x70) < 0x60 then b
      else if NOT b AND 0x80 = 0 then 0x9F else 0x1F)"

lemma ulaw_table: "map ulaw_encode (map ulaw_decode codes) = map ulaw_trip codes"
  unfolding codes_def by code_simp

lemma ulaw_trip_correct: "ulaw_encode (ulaw_decode b) = ulaw_trip b"
  by (rule map_codes_eq) (use ulaw_table in \<open>simp only: map_map o_def\<close>)

lemma outbound_inbound:
  "pcm16_16k_to_twilio_audio None (convert_twilio_audio None bs) = Inr (map ulaw_trip bs)"
  by (simp only: inbound_outbound ulaw_trip_correct)

text \<open>
  The expansion of G.711 (what \<^verbatim>\<open>audioop.ulaw2lin\<close> computes) is already on the 16-bit scale: a
  segment base of \<open>0x84\<close> shifted by the segment number, less \<open>0x84\<close>.
\<close>

definition g711_expand :: "8 word \<Rightarrow> int" where
  "g711_expand b =
     (let v = 255 - uint b;
          mag = (v mod 16 * 8 + 132) * 2 ^ nat (v div 16 mod 8) - 132
      in if v < 128 then mag else - mag)"

lemma decode_table: "map ulaw_decode codes = map clip16 (map ((*) 4) (map g711_expand codes))"
  unfolding codes_def by code_simp

lemma decode_is_scaled: "ulaw_decode b = clip16 (4 * g711_expand b)"
  by (rule map_codes_eq) (use decode_table in \<open>simp only: map_map o_def\<close>)

end
