(* ===== verification/CallSession.thy ===== *)
theory CallSession
  imports SttEngine TtsConsumer Mulaw
begin

text \<open>
  \<^verbatim>\<open>app/telephony/call_session.py\<close> and \<^verbatim>\<open>call_metrics.py\<close>: one phone call.

  The record extends \<open>conv_state\<close>. Every handler is one step; within it the critical sections under
  \<^verbatim>\<open>_lock\<close> run one after the other. The lock is not re-entrant: a task that waits for the lock it
  holds never continues, which the model records in \<open>cs_deadlock\<close> (\<open>with_lock\<close>). Clock
  readings are arguments; the three consumers are the ones of the other theories.
\<close>

section \<open>States and transitions\<close>

datatype call_state =
    INCOMING | CONNECTING | CONNECTED | STREAMING | LISTENING | PROCESSING | SPEAKING | PAUSED
  | INTERRUPTED | TRANSFERRED | CALL_FAILED | TIMEOUT | CALL_CANCELLED | ENDED

definition VALID_TRANSITIONS :: "(call_state \<times> call_state) list" where
  "VALID_TRANSITIONS =
     [(INCOMING, CONNECTING), (CONNECTING, CONNECTED), (CONNECTING, LISTENING),
      (CONNECTED, STREAMING), (CONNECTED, LISTENING), (STREAMING, LISTENING),
      (LISTENING, STREAMING), (LISTENING, PROCESSING), (PROCESSING, SPEAKING),
      (PROCESSING, LISTENING), (PROCESSING, INTERRUPTED), (SPEAKING, INTERRUPTED),
      (SPEAKING, LISTENING), (SPEAKING, PAUSED), (PAUSED, LISTENING), (INTERRUPTED, LISTENING),
      (LISTENING, TIMEOUT), (PROCESSING, CALL_FAILED), (SPEAKING, CALL_FAILED),
      (STREAMING, TRANSFERRED)]"

definition valid_transition :: "call_state \<Rightarrow> call_state \<Rightarrow> bool" where
  "valid_transition a b \<longleftrightarrow> (a, b) \<in> set VALID_TRANSITIONS \<or> (b = ENDED \<and> a \<noteq> ENDED)"

definition PCM_FRAME_BYTES :: nat where "PCM_FRAME_BYTES = 640"
definition BARGE_IN_ENERGY_THRESHOLD :: pyfloat where "BARGE_IN_ENERGY_THRESHOLD = 400"
definition SILENCE_PROMPT_SECONDS :: pyfloat where "SILENCE_PROMPT_SECONDS = 8"
definition SILENCE_HANGUP_AFTER_PROMPT_SECONDS :: pyfloat where "SILENCE_HANGUP_AFTER_PROMPT_SECONDS = 8"
definition FALLBACK_TTS_MESSAGE :: ustr where
  "FALLBACK_TTS_MESSAGE = u ''Sorry, I'' @ [39] @ u ''m having trouble right now. Let me transfer you.''"
definition SILENCE_PROMPT_MESSAGE :: ustr where "SILENCE_PROMPT_MESSAGE = u ''Are you still there?''"

section \<open>Call metrics\<close>

record call_metrics =
  call_start_time :: pyfloat
  first_user_audio_time :: "pyfloat option"
  first_transcript_time :: "pyfloat option"
  first_token_time :: "pyfloat option"
  first_audio_response_time :: "pyfloat option"
  call_end_time :: "pyfloat option"

definition span_ms :: "pyfloat option \<Rightarrow> pyfloat option \<Rightarrow> pyfloat option" where
  "span_ms a b = (case a of None \<Rightarrow> None | Some x \<Rightarrow> (case b of None \<Rightarrow> None | Some y \<Rightarrow> Some ((y - x) * 1000)))"

definition call_duration_ms :: "call_metrics \<Rightarrow> pyfloat option" where
  "call_duration_ms m = span_ms (Some (call_start_time m)) (call_end_time m)"

definition first_transcript_latency_ms :: "call_metrics \<Rightarrow> pyfloat option" where
  "first_transcript_latency_ms m = span_ms (first_user_audio_time m) (first_transcript_time m)"

definition first_token_latency_ms :: "call_metrics \<Rightarrow> pyfloat option" where
  "first_token_latency_ms m = span_ms (first_transcript_time m) (first_token_time m)"

definition first_audio_latency_ms :: "call_metrics \<Rightarrow> pyfloat option" where
  "first_audio_latency_ms m = span_ms (first_user_audio_time m) (first_audio_response_time m)"

definition total_turn_latency_ms :: "call_metrics \<Rightarrow> pyfloat option" where
  "total_turn_latency_ms m = span_ms (first_transcript_time m) (first_audio_response_time m)"

section \<open>The session\<close>

record call_session = conv_state +
  cs_state :: call_state
  cs_locked :: bool
  cs_deadlock :: bool
  cs_muted :: bool
  cs_can_send :: bool
  cs_buffer :: bytes
  cs_turns_wired :: bool
  cs_stt :: "stt_consumer option"
  cs_llm :: "llm_consumer option"
  cs_tts :: "tts_consumer option"
  cs_history_turns :: int
  cs_history :: "(string \<times> ustr) list"
  cs_requests :: "(ustr \<times> string \<times> (string \<times> ustr) list) list"
  cs_last_audio :: pyfloat
  cs_prompt_played :: bool
  cs_prompt_time :: "pyfloat option"
  cs_silence_task :: bool
  cs_hung_up :: bool
  cs_metrics :: call_metrics
  cs_sent :: "bytes list"

definition new_call_session :: "int \<Rightarrow> nat \<Rightarrow> pyfloat \<Rightarrow> call_session" where
  "new_call_session history_turns cid now =
     \<lparr>conversation_id = cid, current_utterance_id = None, last_user_activity = now,
      is_user_speaking = False, is_system_speaking = False, turn_count = 0,
      cs_state = CONNECTING, cs_locked = False, cs_deadlock = False, cs_muted = False,
      cs_can_send = False, cs_buffer = [], cs_turns_wired = False, cs_stt = None, cs_llm = None,
      cs_tts = None, cs_history_turns = history_turns, cs_history = [], cs_requests = [],
      cs_last_audio = 0, cs_prompt_played = False, cs_prompt_time = None, cs_silence_task = False,
      cs_hung_up = False,
      cs_metrics = \<lparr>call_start_time = 0, first_user_audio_time = None, first_transcript_time = None,
                    first_token_time = None, first_audio_response_time = None, call_end_time = None\<rparr>,
      cs_sent = []\<rparr>"

definition apply_transition :: "call_state \<Rightarrow> call_session \<Rightarrow> bool \<times> call_session" where
  "apply_transition st s =
     (if cs_state s = ENDED then (False, s)
      else if \<not> valid_transition (cs_state s) st then (False, s)
      else (True, s\<lparr>cs_state := st\<rparr>))"

definition go :: "call_state \<Rightarrow> call_session \<Rightarrow> call_session" where
  "go st s = snd (apply_transition st s)"

definition with_lock :: "(call_session \<Rightarrow> call_session) \<Rightarrow> call_session \<Rightarrow> call_session" where
  "with_lock f s = (if cs_locked s \<or> cs_deadlock s then s\<lparr>cs_deadlock := True\<rparr> else f s)"

definition transition_to :: "call_state \<Rightarrow> call_session \<Rightarrow> call_session" where
  "transition_to st s = with_lock (go st) s"

definition call_start :: "pyfloat \<Rightarrow> call_session \<Rightarrow> call_session" where
  "call_start now s =
     (let s1 = s\<lparr>cs_metrics := (cs_metrics s)\<lparr>call_start_time := now\<rparr>, cs_can_send := True,
                 cs_last_audio := now, cs_prompt_played := False, cs_prompt_time := None,
                 cs_turns_wired := True, cs_stt := Some (stt_start (new_stt_consumer 50)),
                 cs_llm := Some new_llm_consumer, cs_tts := Some new_tts_consumer\<rparr>;
          s2 = transition_to LISTENING (transition_to CONNECTED s1)
      in s2\<lparr>cs_silence_task := True\<rparr>)"

definition cs_remember :: "string \<Rightarrow> ustr \<Rightarrow> call_session \<Rightarrow> call_session" where
  "cs_remember role content s =
     (if content = [] \<or> cs_history_turns s \<le> 0 then s
      else let h = cs_history s @ [(role, content)];
               overflow = int (length h) - cs_history_turns s * 2
           in s\<lparr>cs_history := (if overflow > 0 then drop (nat overflow) h else h)\<rparr>)"

definition stop_tts :: "ustr \<Rightarrow> call_session \<Rightarrow> call_session" where
  "stop_tts reason s = s\<lparr>cs_tts := map_option (\<lambda>t. snd (tts_stop reason [] t)) (cs_tts s)\<rparr>"

definition cancel_llm :: "call_session \<Rightarrow> call_session" where
  "cancel_llm s = s\<lparr>cs_llm := map_option llm_cancel (cs_llm s)\<rparr>"

definition say :: "ustr \<Rightarrow> string \<Rightarrow> call_session \<Rightarrow> call_session" where
  "say t uid s = s\<lparr>cs_tts := map_option (start_speaking t uid []) (cs_tts s)\<rparr>"

section \<open>Barge-in and errors\<close>

definition handle_barge_in :: "call_session \<Rightarrow> call_session" where
  "handle_barge_in = with_lock (\<lambda>s.
     if cs_state s = ENDED then s
     else if cs_state s \<noteq> SPEAKING \<and> cs_state s \<noteq> PROCESSING then s
     else let s1 = stop_tts (u ''barge_in'') (cancel_llm (s\<lparr>cs_muted := True\<rparr>));
              s2 = complete_system_turn (interrupt_user s1);
              s3 = go LISTENING (go INTERRUPTED s2)
          in s3\<lparr>cs_muted := False\<rparr>)"

definition play_fallback_tts :: "string \<Rightarrow> call_session \<Rightarrow> call_session" where
  "play_fallback_tts uid s =
     (let s1 = with_lock (\<lambda>s. if cs_state s = ENDED \<or> cs_tts s = None then s else stop_tts (u ''barge_in'') s) s
      in if cs_state s1 = ENDED \<or> cs_tts s1 = None \<or> cs_deadlock s1 then s1
         else say FALLBACK_TTS_MESSAGE uid s1)"

text \<open>
  \<^verbatim>\<open>_handle_pipeline_error\<close> cancels the generation task and stops the speech task. When it runs
  inside one of them (\<open>own\<close>), it has asked for its own cancellation, which is delivered at the next
  suspension: the \<^verbatim>\<open>gather\<close> inside \<^verbatim>\<open>tts.stop()\<close>, reached only if a reply is active. The
  rest of the handler does not run then.
\<close>

datatype error_task = InLlmTask | InTtsTask | OtherTask

definition tts_busy :: "call_session \<Rightarrow> bool" where
  "tts_busy s = (case cs_tts s of None \<Rightarrow> False | Some t \<Rightarrow> is_active t)"

definition handle_pipeline_error :: "error_task \<Rightarrow> string \<Rightarrow> call_session \<Rightarrow> call_session" where
  "handle_pipeline_error own uid s =
     (if cs_locked s \<or> cs_deadlock s then s\<lparr>cs_deadlock := True\<rparr>
      else if cs_state s = ENDED then s
      else let s1 = cancel_llm s;
               cut = (own \<noteq> OtherTask \<and> tts_busy s1);
               s2 = stop_tts (u ''barge_in'') s1
           in if cut then s2
              else let s3 = (if cs_state s2 = PROCESSING \<or> cs_state s2 = SPEAKING
                             then go LISTENING (go INTERRUPTED s2) else s2);
                       s4 = complete_system_turn (interrupt_user s3)
                   in play_fallback_tts uid s4)"

section \<open>Turn callbacks\<close>

definition cs_on_user_turn_started :: "turn_event \<Rightarrow> call_session \<Rightarrow> call_session" where
  "cs_on_user_turn_started e = with_lock (\<lambda>s.
     if cs_state s = ENDED then s
     else let s1 = cancel_llm s
          in if cs_state s1 = PROCESSING then go LISTENING s1 else s1)"

definition on_system_turn_start :: "call_session \<Rightarrow> call_session" where
  "on_system_turn_start = with_lock (\<lambda>s.
     if cs_state s = ENDED then s else start_system_turn (stop_tts (u ''superseded'') s))"

definition begin_reply :: "string \<Rightarrow> ustr \<Rightarrow> call_session \<Rightarrow> call_session" where
  "begin_reply uid transcript s =
     (if cs_llm s = None \<or> cs_tts s = None then s
      else let t = strip transcript;
               history = cs_history s;
               s1 = on_system_turn_start (cs_remember ''user'' t s)
           in s1\<lparr>cs_tts := map_option (tts_begin uid []) (cs_tts s1),
                 cs_llm := map_option start_generation (cs_llm s1),
                 cs_requests := cs_requests s1 @ [(t, uid, history)]\<rparr>)"

definition cs_on_user_turn_completed :: "turn_event \<Rightarrow> call_session \<Rightarrow> call_session" where
  "cs_on_user_turn_completed e s =
     (case e of
        UserTurnCompleted uid tr ts \<Rightarrow>
          if cs_locked s \<or> cs_deadlock s then s\<lparr>cs_deadlock := True\<rparr>
          else if cs_state s \<noteq> LISTENING then s
          else (case apply_transition PROCESSING s of
                  (False, s1) \<Rightarrow> s1
                | (True, s1) \<Rightarrow> begin_reply uid tr s1)
      | _ \<Rightarrow> s)"

definition cs_on_user_interrupted :: "turn_event \<Rightarrow> call_session \<Rightarrow> call_session" where
  "cs_on_user_interrupted e s = handle_barge_in s"

definition call_callbacks :: "call_session turn_callbacks" where
  "call_callbacks = \<lparr>on_user_turn_started = Some cs_on_user_turn_started,
     on_user_turn_completed = Some cs_on_user_turn_completed,
     on_user_interrupted = Some cs_on_user_interrupted\<rparr>"

definition transcript_callback :: "pyfloat \<Rightarrow> string \<Rightarrow> transcript_event \<Rightarrow> call_session \<Rightarrow> call_session" where
  "transcript_callback now fresh ev s =
     (let s1 = (if first_transcript_time (cs_metrics s) = None
                then s\<lparr>cs_metrics := (cs_metrics s)\<lparr>first_transcript_time := Some now\<rparr>\<rparr> else s)
      in if \<not> cs_turns_wired s1 then s1
         else case process_transcript_event call_callbacks now ev s1 of
                (s2, None) \<Rightarrow> s2
              | (s2, Some ex) \<Rightarrow> handle_pipeline_error OtherTask fresh s2)"

section \<open>Events of the reply\<close>

definition on_llm_segment :: "ustr \<Rightarrow> call_session \<Rightarrow> call_session" where
  "on_llm_segment seg = with_lock (\<lambda>s.
     if cs_state s = ENDED then s
     else if cs_state s \<noteq> PROCESSING \<and> cs_state s \<noteq> SPEAKING then s
     else let s1 = (if cs_state s = PROCESSING then go SPEAKING s else s)
          in s1\<lparr>cs_tts := map_option (tts_speak seg) (cs_tts s1)\<rparr>)"

definition cs_first_token :: "pyfloat \<Rightarrow> call_session \<Rightarrow> call_session" where
  "cs_first_token now s =
     (if first_token_time (cs_metrics s) = None
      then s\<lparr>cs_metrics := (cs_metrics s)\<lparr>first_token_time := Some now\<rparr>\<rparr> else s)"

definition cs_llm_complete :: "nat \<Rightarrow> ustr \<Rightarrow> llm_outcome \<Rightarrow> string \<Rightarrow> call_session \<Rightarrow> call_session" where
  "cs_llm_complete g full_text oc fresh s =
     (let s1 = (if strip full_text \<noteq> [] then cs_remember ''assistant'' (strip full_text) s else s);
          s2 = (case oc of
                  COMPLETED \<Rightarrow> s1\<lparr>cs_tts := map_option tts_finish (cs_tts s1)\<rparr>
                | FAILED \<Rightarrow> handle_pipeline_error InLlmTask fresh s1
                | CANCELLED \<Rightarrow> s1)
      in s2\<lparr>cs_llm := map_option (task_ends g) (cs_llm s2)\<rparr>)"

definition watchdog_fires :: "string \<Rightarrow> call_session \<Rightarrow> call_session" where
  "watchdog_fires fresh s = handle_pipeline_error OtherTask fresh (cancel_llm s)"

definition on_tts_playback_end :: "bool \<Rightarrow> call_session \<Rightarrow> call_session" where
  "on_tts_playback_end interrupted s =
     (if interrupted then s
      else with_lock (\<lambda>s.
        if cs_state s = ENDED then s
        else let s1 = complete_system_turn s
             in if cs_state s1 = SPEAKING \<or> cs_state s1 = PROCESSING then go LISTENING s1 else s1) s)"

section \<open>Silence\<close>

text \<open>One turn of \<^verbatim>\<open>_silence_loop\<close> at time \<open>now\<close>; \<open>later\<close> is the second clock reading.\<close>

definition silence_tick :: "pyfloat \<Rightarrow> pyfloat \<Rightarrow> string \<Rightarrow> call_session \<Rightarrow> call_session" where
  "silence_tick now later fresh s =
     (if \<not> cs_silence_task s then s
      else if cs_state s = ENDED then s\<lparr>cs_silence_task := False\<rparr>
      else if cs_state s \<noteq> LISTENING then s
      else if now - cs_last_audio s < SILENCE_PROMPT_SECONDS then s
      else if \<not> cs_prompt_played s
      then say SILENCE_PROMPT_MESSAGE fresh
             (stop_tts (u ''barge_in'') (s\<lparr>cs_prompt_played := True, cs_prompt_time := Some later\<rparr>))
      else (case cs_prompt_time s of
              None \<Rightarrow> s
            | Some t \<Rightarrow> if SILENCE_HANGUP_AFTER_PROMPT_SECONDS \<le> now - t
                        then s\<lparr>cs_hung_up := True, cs_silence_task := False\<rparr> else s))"

section \<open>Audio in and out\<close>

text \<open>
  The tasks that \<^verbatim>\<open>feed_mulaw\<close> creates run in the order of their creation: for each frame the
  barge-in request, if any, and then the recogniser's queue.
\<close>

fun feed_frames :: "bool \<Rightarrow> bytes list \<Rightarrow> call_session \<Rightarrow> call_session" where
  "feed_frames speaking [] s = s"
| "feed_frames speaking (fr # frs) s =
     (let s1 = (if speaking \<and> BARGE_IN_ENERGY_THRESHOLD \<le> pcm_frame_energy fr then handle_barge_in s else s);
          s2 = s1\<lparr>cs_stt := map_option (\<lambda>c. snd (stt_process_frame fr c)) (cs_stt s1)\<rparr>
      in feed_frames speaking frs s2)"

definition take_audio :: "pyfloat \<Rightarrow> bytes \<Rightarrow> call_session \<Rightarrow> bytes list \<times> call_session" where
  "take_audio now pcm s =
     (let s1 = (if cs_state s = CONNECTED \<or> cs_state s = LISTENING then go STREAMING s else s)
      in if cs_stt s1 = None then ([], s1)
         else let m = cs_metrics s1;
                  s2 = s1\<lparr>cs_last_audio := now, cs_prompt_played := False, cs_prompt_time := None,
                          cs_metrics := (if first_user_audio_time m = None
                                         then m\<lparr>first_user_audio_time := Some now\<rparr> else m)\<rparr>
              in (case chunk_frames PCM_FRAME_BYTES (cs_buffer s2 @ pcm) of
                    (frs, rest) \<Rightarrow> (frs, s2\<lparr>cs_buffer := rest\<rparr>)))"

definition feed_mulaw :: "audioop \<Rightarrow> pyfloat \<Rightarrow> string \<Rightarrow> bytes \<Rightarrow> call_session \<Rightarrow> call_session" where
  "feed_mulaw ao now fresh mulaw s =
     (if mulaw = [] then s
      else case normalize_pcm16 3000 (convert_twilio_audio ao mulaw) of
             Inl e \<Rightarrow> handle_pipeline_error OtherTask fresh s
           | Inr pcm \<Rightarrow>
               if cs_locked s \<or> cs_deadlock s then s\<lparr>cs_deadlock := True\<rparr>
               else if cs_state s = ENDED then s
               else (case take_audio now pcm s of
                       (frs, s1) \<Rightarrow> feed_frames (cs_state s1 = SPEAKING) frs s1))"

text \<open>\<open>send_fails\<close>: the socket raises. The frame is sent from the speech task.\<close>

definition send_audio_frame :: "audioop \<Rightarrow> pyfloat \<Rightarrow> bool \<Rightarrow> string \<Rightarrow> bytes \<Rightarrow> call_session \<Rightarrow> call_session" where
  "send_audio_frame ao now send_fails fresh pcm s =
     (if pcm = [] \<or> \<not> cs_can_send s then s
      else if cs_locked s \<or> cs_deadlock s then s\<lparr>cs_deadlock := True\<rparr>
      else if cs_muted s \<or> cs_state s = ENDED then s
      else case pcm16_16k_to_twilio_audio ao pcm of
             Inl e \<Rightarrow> s
           | Inr mulaw \<Rightarrow>
               if mulaw = [] then s
               else let m = cs_metrics s;
                        s1 = s\<lparr>cs_metrics := (if first_audio_response_time m = None
                                 then m\<lparr>first_audio_response_time := Some now\<rparr> else m)\<rparr>
                    in if send_fails then handle_pipeline_error InTtsTask fresh s1
                       else s1\<lparr>cs_sent := cs_sent s1 @ [mulaw]\<rparr>)"

section \<open>Stopping\<close>

text \<open>
  \<open>fin\<close> is what the engine's \<^verbatim>\<open>finalize_utterance\<close> returns while \<^verbatim>\<open>stop\<close> holds the lock.
\<close>

definition stop_world :: "pyfloat \<Rightarrow> string \<Rightarrow> transcript_event option \<Rightarrow> call_session stt_world" where
  "stop_world now fresh fin =
     \<lparr>sw_process = (\<lambda>fr s. (Inr None, s)), sw_finalize = (\<lambda>s. (Inr fin, s)),
      sw_transcript = Some (transcript_callback now fresh), sw_error = None, sw_close = id\<rparr>"

definition release_all :: "call_session \<Rightarrow> call_session" where
  "release_all s = s\<lparr>cs_locked := False, cs_stt := None, cs_turns_wired := False, cs_llm := None, cs_tts := None,
     cs_muted := False, cs_buffer := [], cs_silence_task := False\<rparr>"

definition call_stop :: "pyfloat \<Rightarrow> string \<Rightarrow> transcript_event option \<Rightarrow> call_session \<Rightarrow> call_session" where
  "call_stop now fresh fin s =
     (if cs_locked s \<or> cs_deadlock s then s\<lparr>cs_deadlock := True\<rparr>
      else if cs_state s = ENDED then s
      else let s1 = (go ENDED s)\<lparr>cs_can_send := False, cs_muted := True,
                       cs_metrics := (cs_metrics s)\<lparr>call_end_time := Some now\<rparr>\<rparr>;
               s2 = (stop_tts (u ''barge_in'') (cancel_llm s1))\<lparr>cs_locked := True\<rparr>
           in (case cs_stt s2 of
                 None \<Rightarrow> release_all s2
               | Some c \<Rightarrow>
                   (case stt_stop (stop_world now fresh fin) (c, s2) of
                      StopDone c' s3 \<Rightarrow> if cs_deadlock s3 then s3 else release_all s3
                    | StopWaits c' s3 \<Rightarrow> s3\<lparr>cs_deadlock := True\<rparr>)))"

section \<open>Transitions\<close>

lemma go_state: "cs_state (go st s) = (if cs_state s \<noteq> ENDED \<and> valid_transition (cs_state s) st then st else cs_state s)"
  by (simp add: go_def apply_transition_def)

lemma go_frame [simp]:
  "cs_tts (go st s) = cs_tts s" "cs_llm (go st s) = cs_llm s" "cs_stt (go st s) = cs_stt s"
  "cs_requests (go st s) = cs_requests s" "cs_history (go st s) = cs_history s"
  "cs_history_turns (go st s) = cs_history_turns s" "cs_locked (go st s) = cs_locked s"
  "cs_deadlock (go st s) = cs_deadlock s" "cs_muted (go st s) = cs_muted s" "cs_sent (go st s) = cs_sent s"
  "cs_buffer (go st s) = cs_buffer s" "cs_can_send (go st s) = cs_can_send s"
  "is_system_speaking (go st s) = is_system_speaking s" "is_user_speaking (go st s) = is_user_speaking s"
  "cs_turns_wired (go st s) = cs_turns_wired s" "turn_count (go st s) = turn_count s"
  "current_utterance_id (go st s) = current_utterance_id s" "cs_metrics (go st s) = cs_metrics s"
  by (simp_all add: go_def apply_transition_def)

lemma consumers_frame [simp]:
  "cs_state (stop_tts r s) = cs_state s" "cs_state (cancel_llm s) = cs_state s" "cs_state (say t v s) = cs_state s"
  "cs_requests (stop_tts r s) = cs_requests s" "cs_requests (cancel_llm s) = cs_requests s" "cs_requests (say t v s) = cs_requests s"
  "cs_sent (stop_tts r s) = cs_sent s" "cs_sent (cancel_llm s) = cs_sent s" "cs_sent (say t v s) = cs_sent s"
  "cs_deadlock (stop_tts r s) = cs_deadlock s" "cs_deadlock (cancel_llm s) = cs_deadlock s" "cs_deadlock (say t v s) = cs_deadlock s"
  "cs_locked (stop_tts r s) = cs_locked s" "cs_locked (cancel_llm s) = cs_locked s" "cs_locked (say t v s) = cs_locked s"
  "cs_history (stop_tts r s) = cs_history s" "cs_history (cancel_llm s) = cs_history s" "cs_history (say t v s) = cs_history s"
  "cs_history_turns (stop_tts r s) = cs_history_turns s" "cs_history_turns (cancel_llm s) = cs_history_turns s"
  "cs_history_turns (say t v s) = cs_history_turns s"
  "cs_can_send (stop_tts r s) = cs_can_send s" "cs_can_send (cancel_llm s) = cs_can_send s" "cs_can_send (say t v s) = cs_can_send s"
  "cs_stt (stop_tts r s) = cs_stt s" "cs_stt (cancel_llm s) = cs_stt s" "cs_stt (say t v s) = cs_stt s"
  "cs_tts (cancel_llm s) = cs_tts s" "cs_llm (stop_tts r s) = cs_llm s" "cs_llm (say t v s) = cs_llm s"
  "is_system_speaking (stop_tts r s) = is_system_speaking s" "is_system_speaking (cancel_llm s) = is_system_speaking s"
  "is_user_speaking (stop_tts r s) = is_user_speaking s" "is_user_speaking (cancel_llm s) = is_user_speaking s"
  "cs_turns_wired (stop_tts r s) = cs_turns_wired s" "cs_turns_wired (cancel_llm s) = cs_turns_wired s"
  "turn_count (stop_tts r s) = turn_count s" "turn_count (cancel_llm s) = turn_count s"
  "current_utterance_id (stop_tts r s) = current_utterance_id s" "current_utterance_id (cancel_llm s) = current_utterance_id s"
  "cs_metrics (stop_tts r s) = cs_metrics s" "cs_metrics (cancel_llm s) = cs_metrics s"
  by (simp_all add: stop_tts_def cancel_llm_def say_def)

lemma conv_frame [simp]:
  "cs_state (complete_system_turn s) = cs_state s" "cs_state (interrupt_user s) = cs_state s" "cs_state (start_system_turn s) = cs_state s"
  "cs_requests (complete_system_turn s) = cs_requests s" "cs_requests (interrupt_user s) = cs_requests s" "cs_requests (start_system_turn s) = cs_requests s"
  "cs_locked (complete_system_turn s) = cs_locked s" "cs_locked (interrupt_user s) = cs_locked s" "cs_locked (start_system_turn s) = cs_locked s"
  "cs_deadlock (complete_system_turn s) = cs_deadlock s" "cs_deadlock (interrupt_user s) = cs_deadlock s" "cs_deadlock (start_system_turn s) = cs_deadlock s"
  "cs_tts (complete_system_turn s) = cs_tts s" "cs_tts (interrupt_user s) = cs_tts s" "cs_tts (start_system_turn s) = cs_tts s"
  "cs_llm (complete_system_turn s) = cs_llm s" "cs_llm (interrupt_user s) = cs_llm s" "cs_llm (start_system_turn s) = cs_llm s"
  "cs_sent (complete_system_turn s) = cs_sent s" "cs_sent (interrupt_user s) = cs_sent s" "cs_sent (start_system_turn s) = cs_sent s"
  "cs_history (complete_system_turn s) = cs_history s" "cs_history (interrupt_user s) = cs_history s" "cs_history (start_system_turn s) = cs_history s"
  "cs_history_turns (complete_system_turn s) = cs_history_turns s" "cs_history_turns (interrupt_user s) = cs_history_turns s"
  "cs_history_turns (start_system_turn s) = cs_history_turns s"
  "cs_muted (complete_system_turn s) = cs_muted s" "cs_muted (interrupt_user s) = cs_muted s"
  by (simp_all add: conv_ops)

lemma user_turn_frame [simp]:
  "cs_state (complete_user_turn now s) = cs_state s" "cs_requests (complete_user_turn now s) = cs_requests s"
  "cs_sent (complete_user_turn now s) = cs_sent s"
  "cs_history (complete_user_turn now s) = cs_history s"
  "cs_history_turns (complete_user_turn now s) = cs_history_turns s"
  "cs_locked (complete_user_turn now s) = cs_locked s" "cs_deadlock (complete_user_turn now s) = cs_deadlock s"
  by (simp_all add: conv_ops)

section \<open>Calls as a transition system\<close>

text \<open>Everything that can happen to a call after \<^verbatim>\<open>start\<close> has returned.\<close>

inductive call_step :: "call_session \<Rightarrow> call_session \<Rightarrow> bool" where
  call_transcript: "call_step s (transcript_callback now fresh ev s)"
| call_segment: "call_step s (on_llm_segment seg s)"
| call_token: "call_step s (cs_first_token now s)"
| call_complete: "call_step s (cs_llm_complete g t oc fresh s)"
| call_watchdog: "call_step s (watchdog_fires fresh s)"
| call_stt_error: "call_step s (handle_pipeline_error OtherTask fresh s)"
| call_playback: "call_step s (on_tts_playback_end i s)"
| call_silence: "call_step s (silence_tick now later fresh s)"
| call_feed: "call_step s (feed_mulaw ao now fresh mulaw s)"
| call_send: "call_step s (send_audio_frame ao now fails fresh pcm s)"
| call_end: "call_step s (call_stop now fresh fin s)"

inductive call_run :: "call_session \<Rightarrow> call_session \<Rightarrow> bool" where
  call_here: "call_run s s"
| call_more: "call_run s s' \<Longrightarrow> call_step s' s'' \<Longrightarrow> call_run s s''"

inductive_cases call_stepE: "call_step s s'"

text \<open>
  The contract of an invariant over the call's state, its requests and its history: it is kept by the few
  transitions the handlers make from the states in which they make them. The lemma inside shows that
  every step then keeps it.
\<close>

locale call_invariant =
  fixes I :: "call_session \<Rightarrow> bool"
  assumes I_cong: "\<And>s s'. I s \<Longrightarrow> cs_state s' = cs_state s \<Longrightarrow> cs_requests s' = cs_requests s \<Longrightarrow>
      cs_history s' = cs_history s \<Longrightarrow> cs_history_turns s' = cs_history_turns s \<Longrightarrow> cs_sent s' = cs_sent s \<Longrightarrow> I s'"
    and I_recover: "\<And>s. I s \<Longrightarrow> cs_state s = PROCESSING \<or> cs_state s = SPEAKING \<Longrightarrow> I (go LISTENING (go INTERRUPTED s))"
    and I_listen: "\<And>s. I s \<Longrightarrow> cs_state s = PROCESSING \<or> cs_state s = SPEAKING \<Longrightarrow> I (go LISTENING s)"
    and I_speak: "\<And>s. I s \<Longrightarrow> cs_state s = PROCESSING \<Longrightarrow> I (go SPEAKING s)"
    and I_stream: "\<And>s. I s \<Longrightarrow> cs_state s = CONNECTED \<or> cs_state s = LISTENING \<Longrightarrow> I (go STREAMING s)"
    and I_request: "\<And>s r. I s \<Longrightarrow> cs_state s = LISTENING \<Longrightarrow> I ((go PROCESSING s)\<lparr>cs_requests := cs_requests s @ [r]\<rparr>)"
    and I_process: "\<And>s. I s \<Longrightarrow> cs_state s = LISTENING \<Longrightarrow> I (go PROCESSING s)"
    and I_sent: "\<And>s m. I s \<Longrightarrow> cs_state s \<noteq> ENDED \<Longrightarrow> I (s\<lparr>cs_sent := cs_sent s @ [m]\<rparr>)"
    and I_end: "\<And>s. I s \<Longrightarrow> I (go ENDED s)"
    and I_remember: "\<And>s r c. I s \<Longrightarrow> I (cs_remember r c s)"
begin

lemma I_lock: "(\<not> cs_locked s \<Longrightarrow> \<not> cs_deadlock s \<Longrightarrow> I (f s)) \<Longrightarrow> I s \<Longrightarrow> I (with_lock f s)"
  by (auto simp: with_lock_def intro: I_cong)

lemma I_barge_in: "I s \<Longrightarrow> I (handle_barge_in s)"
proof -
  assume i: "I s"
  define s2 where "s2 = complete_system_turn (interrupt_user (stop_tts (u ''barge_in'') (cancel_llm (s\<lparr>cs_muted := True\<rparr>))))"
  have i2: "I s2" by (rule I_cong [OF i]) (simp_all add: s2_def)
  have st: "cs_state s2 = cs_state s" by (simp add: s2_def)
  have fin: "cs_state s \<in> {SPEAKING, PROCESSING} \<Longrightarrow> I ((go LISTENING (go INTERRUPTED s2))\<lparr>cs_muted := False\<rparr>)"
    by (rule I_cong [OF I_recover [OF i2]]) (use st in auto)
  show ?thesis unfolding handle_barge_in_def
    by (rule I_lock [OF _ i]) (use i fin in \<open>auto simp: Let_def s2_def [symmetric]\<close>)
qed

lemma I_fallback: "I s \<Longrightarrow> I (play_fallback_tts v s)"
proof -
  assume i: "I s"
  have 1: "I (with_lock (\<lambda>s. if cs_state s = ENDED \<or> cs_tts s = None then s else stop_tts (u ''barge_in'') s) s)"
    by (rule I_lock [OF _ i]) (auto intro: I_cong [OF i] i)
  then show ?thesis by (auto simp: play_fallback_tts_def Let_def intro: I_cong)
qed

lemma I_error: "I s \<Longrightarrow> I (handle_pipeline_error own v s)"
proof -
  assume i: "I s"
  define s2 where "s2 = stop_tts (u ''barge_in'') (cancel_llm s)"
  have i2: "I s2" by (rule I_cong [OF i]) (simp_all add: s2_def)
  define s3 where "s3 = (if cs_state s2 = PROCESSING \<or> cs_state s2 = SPEAKING then go LISTENING (go INTERRUPTED s2) else s2)"
  have i3: "I s3" using i2 I_recover by (simp add: s3_def)
  have "I (complete_system_turn (interrupt_user s3))" by (rule I_cong [OF i3]) simp_all
  then have "I (play_fallback_tts v (complete_system_turn (interrupt_user s3)))" by (rule I_fallback)
  then show ?thesis using i i2 unfolding handle_pipeline_error_def Let_def s2_def [symmetric] s3_def [symmetric]
    by (auto intro: I_cong)
qed

lemma I_started: "I s \<Longrightarrow> I (cs_on_user_turn_started e s)"
proof -
  assume i: "I s"
  have 1: "I (cancel_llm s)" by (rule I_cong [OF i]) simp_all
  show ?thesis unfolding cs_on_user_turn_started_def
    by (rule I_lock [OF _ i]) (use i 1 I_listen [OF 1] in \<open>auto simp: Let_def\<close>)
qed

lemma I_completed: "I s \<Longrightarrow> I (cs_on_user_turn_completed e s)"
proof (cases e)
  case (UserTurnCompleted v tr ts)
  assume i: "I s"
  have reply: "I (begin_reply v tr (go PROCESSING s))" if l: "cs_state s = LISTENING"
  proof -
    have p: "I (go PROCESSING s)" using i l by (rule I_process)
    have rm: "I (cs_remember ''user'' (strip tr) s)" by (rule I_remember [OF i])
    have cr: "cs_state (cs_remember r c x) = cs_state x" "cs_requests (cs_remember r c x) = cs_requests x"
      "cs_history_turns (cs_remember r c x) = cs_history_turns x" "cs_sent (cs_remember r c x) = cs_sent x" for r c x
      by (simp_all add: cs_remember_def Let_def)
    have gr: "cs_remember r c (go st x) = go st (cs_remember r c x)" for r c st x
      by (simp add: cs_remember_def go_def apply_transition_def Let_def)
    define r where "r = (strip tr, v, cs_history s)"
    have q: "I ((go PROCESSING (cs_remember ''user'' (strip tr) s))\<lparr>cs_requests := cs_requests s @ [r]\<rparr>)"
      using I_request [OF rm, of r] l by (simp add: cr)
    have os: "cs_state (on_system_turn_start x) = cs_state x \<and> cs_requests (on_system_turn_start x) = cs_requests x
       \<and> cs_history (on_system_turn_start x) = cs_history x \<and> cs_history_turns (on_system_turn_start x) = cs_history_turns x
       \<and> cs_sent (on_system_turn_start x) = cs_sent x" for x
      by (simp add: on_system_turn_start_def with_lock_def)
    show ?thesis unfolding begin_reply_def Let_def
      by (cases "cs_llm (go PROCESSING s) = None \<or> cs_tts (go PROCESSING s) = None", use p in simp,
          simp only: if_False, rule I_cong [OF q]) (simp_all add: os gr cr r_def)
  qed
  have "apply_transition PROCESSING s = (True, go PROCESSING s)" if "cs_state s = LISTENING"
    using that by (simp add: go_def apply_transition_def valid_transition_def VALID_TRANSITIONS_def)
  then show ?thesis using i reply UserTurnCompleted
    by (auto simp: cs_on_user_turn_completed_def intro: I_cong)
qed (simp_all add: cs_on_user_turn_completed_def)

lemma I_fire:
  "I s \<Longrightarrow> I (fire (on_user_turn_started call_callbacks) e s)"
  "I s \<Longrightarrow> I (fire (on_user_turn_completed call_callbacks) e s)"
  "I s \<Longrightarrow> I (fire (on_user_interrupted call_callbacks) e s)"
  by (simp_all add: fire_def call_callbacks_def I_started I_completed cs_on_user_interrupted_def I_barge_in)

lemma I_interruption: "I s \<Longrightarrow> I (handle_interruption call_callbacks now s)"
proof -
  assume i: "I s"
  have "I (complete_system_turn (interrupt_user s))" by (rule I_cong [OF i]) simp_all
  then show ?thesis using i by (simp add: handle_interruption_def I_fire)
qed

lemma I_event: "I s \<Longrightarrow> I (fst (process_transcript_event call_callbacks now ev s))"
proof -
  assume i: "I s"
  define s1 where "s1 = (if is_system_speaking s then handle_interruption call_callbacks now s else s)"
  have i1: "I s1" using i I_interruption by (simp add: s1_def)
  have act: "I x \<Longrightarrow> I (x\<lparr>last_user_activity := t\<rparr>)" for x t by (auto intro: I_cong)
  have cu: "I x \<Longrightarrow> I (complete_user_turn now x)" for x by (auto intro: I_cong)
  have st: "I x \<Longrightarrow> I (x\<lparr>current_utterance_id := n, is_user_speaking := True, last_user_activity := t\<rparr>)" for x n t
    by (auto intro: I_cong)
  have "I (fst (process_partial call_callbacks now ev s))"
    unfolding process_partial_def Let_def s1_def [symmetric]
    using i1 by (auto simp: start_user_turn_def split: option.splits intro!: act I_fire st)
  moreover have "I (fst (process_final call_callbacks now ev s))"
    unfolding process_final_def Let_def s1_def [symmetric]
    using i i1 by (auto simp: start_user_turn_def split: option.splits intro!: I_fire st cu)
  ultimately show ?thesis by (simp add: process_transcript_event_def split: transcript_type.split)
qed

lemma I_transcript: "I s \<Longrightarrow> I (transcript_callback now fresh ev s)"
proof -
  assume i: "I s"
  define s1 where "s1 = (if first_transcript_time (cs_metrics s) = None
     then s\<lparr>cs_metrics := (cs_metrics s)\<lparr>first_transcript_time := Some now\<rparr>\<rparr> else s)"
  have i1: "I s1" using i by (auto simp: s1_def intro: I_cong)
  obtain s2 ex where p: "process_transcript_event call_callbacks now ev s1 = (s2, ex)" by fastforce
  have "I s2" using I_event [OF i1, of now ev] p by simp
  then show ?thesis unfolding transcript_callback_def Let_def s1_def [symmetric]
    using i1 p by (auto intro: I_error split: option.split)
qed

lemma I_feed_frames: "I s \<Longrightarrow> I (feed_frames b frs s)"
proof (induction frs arbitrary: s)
  case (Cons fr frs)
  define s1 where "s1 = (if b \<and> BARGE_IN_ENERGY_THRESHOLD \<le> pcm_frame_energy fr then handle_barge_in s else s)"
  have "I s1" using Cons.prems I_barge_in by (simp add: s1_def)
  then have "I (s1\<lparr>cs_stt := map_option (\<lambda>c. snd (stt_process_frame fr c)) (cs_stt s1)\<rparr>)" by (rule I_cong) simp_all
  then show ?case unfolding feed_frames.simps Let_def s1_def [symmetric] by (rule Cons.IH)
qed simp

lemma I_feed: "I s \<Longrightarrow> I (feed_mulaw ao now fresh mulaw s)"
proof -
  assume i: "I s"
  have t: "I (snd (take_audio now pcm s))" for pcm
  proof -
    define s1 where "s1 = (if cs_state s = CONNECTED \<or> cs_state s = LISTENING then go STREAMING s else s)"
    have "I s1" using i I_stream by (simp add: s1_def)
    then show ?thesis unfolding take_audio_def Let_def s1_def [symmetric]
      by (auto intro: I_cong split: prod.split)
  qed
  show ?thesis using i t by (auto simp: feed_mulaw_def I_error intro: I_cong I_feed_frames split: sum.split prod.split)
      (metis I_feed_frames snd_conv)
qed

lemma I_send: "I s \<Longrightarrow> I (send_audio_frame ao now fails fresh pcm s)"
proof -
  assume i: "I s"
  have e: "I (handle_pipeline_error InTtsTask fresh (s\<lparr>cs_metrics := m\<rparr>))" for m
    by (rule I_error) (auto intro: I_cong [OF i])
  have sent: "I (s\<lparr>cs_metrics := m, cs_sent := cs_sent s @ [x]\<rparr>)" if "cs_state s \<noteq> ENDED" for m x
    using I_sent [OF I_cong [OF i], of "s\<lparr>cs_metrics := m\<rparr>" x] that by simp
  show ?thesis using i e I_error [OF i] sent I_sent [OF i] unfolding send_audio_frame_def Let_def
    by (auto intro: I_cong [OF i] split: sum.split)
qed

lemma I_stop: "I s \<Longrightarrow> I (call_stop now fresh fin s)"
proof -
  assume i: "I s"
  define s2 where "s2 = (stop_tts (u ''barge_in'') (cancel_llm ((go ENDED s)\<lparr>cs_can_send := False, cs_muted := True,
     cs_metrics := (cs_metrics s)\<lparr>call_end_time := Some now\<rparr>\<rparr>)))\<lparr>cs_locked := True\<rparr>"
  have i2: "I s2" by (rule I_cong [OF I_end [OF i]]) (simp_all add: s2_def)
  have rel: "I x \<Longrightarrow> I (release_all x)" for x by (auto simp: release_all_def intro: I_cong)
  have fin: "I (stt_finalize (stop_world now fresh fin) s2)"
    using i2 I_transcript [OF i2] by (auto simp: stt_finalize_def stop_world_def call_opt_def split: option.split)
  have dl: "I x \<Longrightarrow> I (x\<lparr>cs_deadlock := True\<rparr>)" for x by (auto intro: I_cong)
  show ?thesis unfolding call_stop_def Let_def s2_def [symmetric]
    using i i2 rel fin dl
    by (auto simp: stt_stop_def Let_def stop_world_def [of now fresh fin] split: option.split stop_result.split)
qed

lemma I_silence: "I s \<Longrightarrow> I (silence_tick now later fresh s)"
  by (auto simp: silence_tick_def intro: I_cong split: option.split)

lemma I_segment: "I s \<Longrightarrow> I (on_llm_segment seg s)"
proof -
  assume i: "I s"
  define s1 where "s1 = (if cs_state s = PROCESSING then go SPEAKING s else s)"
  have "I s1" using i I_speak by (simp add: s1_def)
  then have "I (s1\<lparr>cs_tts := map_option (tts_speak seg) (cs_tts s1)\<rparr>)" by (rule I_cong) simp_all
  then show ?thesis unfolding on_llm_segment_def Let_def
    by (intro I_lock [OF _ i]) (use i in \<open>auto simp: s1_def\<close>)
qed

lemma I_complete: "I s \<Longrightarrow> I (cs_llm_complete g t oc fresh s)"
proof -
  assume i: "I s"
  define s1 where "s1 = (if strip t \<noteq> [] then cs_remember ''assistant'' (strip t) s else s)"
  have i1: "I s1" using i I_remember by (simp add: s1_def)
  define s2 where "s2 = (case oc of COMPLETED \<Rightarrow> s1\<lparr>cs_tts := map_option tts_finish (cs_tts s1)\<rparr>
     | FAILED \<Rightarrow> handle_pipeline_error InLlmTask fresh s1 | CANCELLED \<Rightarrow> s1)"
  have "I s2" using i1 I_error by (cases oc) (auto simp: s2_def intro: I_cong)
  then show ?thesis unfolding cs_llm_complete_def Let_def s1_def [symmetric] s2_def [symmetric]
    by (rule I_cong) simp_all
qed

lemma I_playback: "I s \<Longrightarrow> I (on_tts_playback_end b s)"
proof -
  assume i: "I s"
  have 1: "I (complete_system_turn s)" by (rule I_cong [OF i]) simp_all
  show ?thesis unfolding on_tts_playback_end_def Let_def
    using i 1 I_listen [OF 1] by (auto intro!: I_lock)
qed

lemma call_step_inv: "call_step s s' \<Longrightarrow> I s \<Longrightarrow> I s'"
proof (erule call_stepE)
  fix now assume i: "I s" and s': "s' = cs_first_token now s"
  show "I s'" unfolding s' by (rule I_cong [OF i]) (simp_all add: cs_first_token_def)
next
  fix fresh assume i: "I s" and s': "s' = watchdog_fires fresh s"
  have "I (cancel_llm s)" by (rule I_cong [OF i]) simp_all
  then show "I s'" unfolding s' watchdog_fires_def by (rule I_error)
qed (simp_all add: I_transcript I_segment I_complete I_error I_playback I_silence I_feed I_send I_stop)

lemma call_run_inv: "call_run s s' \<Longrightarrow> I s \<Longrightarrow> I s'"
  by (induction rule: call_run.induct) (auto dest: call_step_inv)

end

section \<open>What the invariants say\<close>

text \<open>States only change along the transition table; \<^verbatim>\<open>ENDED\<close> is final.\<close>

definition path_from :: "call_state \<Rightarrow> call_session \<Rightarrow> bool" where
  "path_from st s \<longleftrightarrow> valid_transition\<^sup>*\<^sup>* st (cs_state s)"

lemma path_go: "path_from st s \<Longrightarrow> path_from st (go b s)"
  by (auto simp: path_from_def go_state intro: rtranclp.rtrancl_into_rtrancl)

lemma remember_frame_call:
  "cs_state (cs_remember r c s) = cs_state s" "cs_requests (cs_remember r c s) = cs_requests s"
  "cs_history_turns (cs_remember r c s) = cs_history_turns s" "cs_sent (cs_remember r c s) = cs_sent s"
  by (simp_all add: cs_remember_def Let_def)

lemma path_frame:
  "path_from st (s\<lparr>cs_requests := r\<rparr>) = path_from st s" "path_from st (s\<lparr>cs_sent := ms\<rparr>) = path_from st s"
  "path_from st (cs_remember ro c s) = path_from st s"
  "cs_state s' = cs_state s \<Longrightarrow> path_from st s' = path_from st s"
  by (simp_all add: path_from_def remember_frame_call)

interpretation paths: call_invariant "path_from st" for st
  by unfold_locales (simp_all add: path_go path_frame(1-3), simp add: path_from_def)

text \<open>The history bound.\<close>

definition call_history_ok :: "call_session \<Rightarrow> bool" where
  "call_history_ok s \<longleftrightarrow> int (length (cs_history s)) \<le> max 0 (cs_history_turns s * 2)"

interpretation call_histories: call_invariant call_history_ok
  by unfold_locales (auto simp: call_history_ok_def cs_remember_def Let_def)

text \<open>
  The trap: once caller audio has moved the call from \<^verbatim>\<open>LISTENING\<close> to \<^verbatim>\<open>STREAMING\<close>, no
  handler moves it anywhere but to \<^verbatim>\<open>ENDED\<close>, and no reply is ever requested.
\<close>

definition trapped :: "(ustr \<times> string \<times> (string \<times> ustr) list) list \<Rightarrow> call_session \<Rightarrow> bool" where
  "trapped rs s \<longleftrightarrow> (cs_state s = STREAMING \<or> cs_state s = ENDED) \<and> cs_requests s = rs"

interpretation trap: call_invariant "trapped rs" for rs
  by unfold_locales (auto simp: trapped_def go_state remember_frame_call valid_transition_def)

text \<open>No audio leaves a call that has ended.\<close>

definition silent_end :: "bytes list \<Rightarrow> call_session \<Rightarrow> bool" where
  "silent_end xs s \<longleftrightarrow> cs_state s = ENDED \<and> cs_sent s = xs"

interpretation ended_calls: call_invariant "silent_end xs" for xs
  by unfold_locales (auto simp: silent_end_def go_state remember_frame_call)

lemma feed_enters_streaming:
  assumes "cs_state s = LISTENING" "\<not> cs_locked s" "\<not> cs_deadlock s" "mulaw \<noteq> []"
    and n: "normalize_pcm16 3000 (convert_twilio_audio ao mulaw) = Inr pcm"
  shows "cs_state (feed_mulaw ao now fresh mulaw s) = STREAMING
    \<and> cs_requests (feed_mulaw ao now fresh mulaw s) = cs_requests s"
proof -
  have g: "cs_state (go STREAMING s) = STREAMING"
    using assms(1) by (simp add: go_state valid_transition_def VALID_TRANSITIONS_def)
  obtain frs s1 where t: "take_audio now pcm s = (frs, s1)" by fastforce
  have 1: "cs_state s1 = STREAMING" "cs_requests s1 = cs_requests s"
    using t assms(1) g by (auto simp: take_audio_def Let_def split: if_splits prod.splits)
  have ff: "cs_state (feed_frames False frs x) = cs_state x \<and> cs_requests (feed_frames False frs x) = cs_requests x" for x
    by (induction frs arbitrary: x) (simp_all add: Let_def)
  show ?thesis using assms(1-4) n t 1 ff [of s1] by (simp add: feed_mulaw_def)
qed

section \<open>Barge-in, errors, stopping\<close>

lemma barge_in_result:
  assumes "\<not> cs_locked s" "\<not> cs_deadlock s" "cs_state s = SPEAKING \<or> cs_state s = PROCESSING"
  shows "cs_state (handle_barge_in s) = LISTENING" "\<not> tts_busy (handle_barge_in s)"
    "\<not> cs_muted (handle_barge_in s)" "\<not> is_system_speaking (handle_barge_in s)"
    "cs_llm (handle_barge_in s) = map_option llm_cancel (cs_llm s)"
proof -
  have v: "valid_transition SPEAKING INTERRUPTED" "valid_transition PROCESSING INTERRUPTED" "valid_transition INTERRUPTED LISTENING"
    by (simp_all add: valid_transition_def VALID_TRANSITIONS_def)
  show "cs_state (handle_barge_in s) = LISTENING" "\<not> cs_muted (handle_barge_in s)"
    "\<not> is_system_speaking (handle_barge_in s)"
    "cs_llm (handle_barge_in s) = map_option llm_cancel (cs_llm s)" "\<not> tts_busy (handle_barge_in s)"
    using assms v
    by (auto simp: handle_barge_in_def with_lock_def Let_def go_state complete_system_turn_def cancel_llm_def
        interrupt_user_def tts_busy_def stop_tts_def tts_stop_inactive split: option.split)
qed

text \<open>
  An error handled from another task recovers: the call listens again and the fallback sentence is
  queued. Handled inside the generation task, with the reply still open, nothing after the stop runs:
  the call keeps its state and nobody speaks.
\<close>

lemma say_queue:
  assumes "cs_tts s = Some t" "strip m \<noteq> []"
  shows "\<exists>t'. cs_tts (say m v s) = Some t' \<and> is_active t' \<and> tc_queue t' = Some [Some m, None]"
proof -
  have q: "tc_queue (start_speaking m v [] t) = Some [Some m, None]"
    using reply_queue [of v "[]" t "[m]"] assms(2) by (simp add: start_speaking_def)
  have "is_active (start_speaking m v [] t)"
    using tts_begin_fields [of v "[]" t]
    by (simp add: start_speaking_def tts_finish_def tts_speak_def is_active_def)
  then show ?thesis using assms(1) q by (simp add: say_def)
qed

lemma fallback_text: "strip FALLBACK_TTS_MESSAGE \<noteq> []"
  by (simp add: strip_Nil_iff FALLBACK_TTS_MESSAGE_def u_def py_space_def)

lemma error_recovers:
  assumes u: "\<not> cs_locked s" "\<not> cs_deadlock s" and st: "cs_state s = PROCESSING \<or> cs_state s = SPEAKING"
    and t: "cs_tts s = Some t"
  shows "cs_state (handle_pipeline_error OtherTask fresh s) = LISTENING"
    "\<exists>t'. cs_tts (handle_pipeline_error OtherTask fresh s) = Some t' \<and> is_active t'
       \<and> tc_queue t' = Some [Some FALLBACK_TTS_MESSAGE, None]"
proof -
  have v: "valid_transition SPEAKING INTERRUPTED" "valid_transition PROCESSING INTERRUPTED" "valid_transition INTERRUPTED LISTENING"
    by (simp_all add: valid_transition_def VALID_TRANSITIONS_def)
  define s2 where "s2 = stop_tts (u ''barge_in'') (cancel_llm s)"
  define s4 where "s4 = complete_system_turn (interrupt_user (go LISTENING (go INTERRUPTED s2)))"
  have s2: "cs_state s2 = cs_state s" "\<not> cs_locked s2" "\<not> cs_deadlock s2" using u by (simp_all add: s2_def)
  have s4: "cs_state s4 = LISTENING" "\<not> cs_locked s4" "\<not> cs_deadlock s4"
    using st v s2 by (auto simp: s4_def go_state)
  obtain t2 where t4: "cs_tts s4 = Some t2" using t by (auto simp: s4_def s2_def stop_tts_def)
  define s5 where "s5 = stop_tts (u ''barge_in'') s4"
  have e: "handle_pipeline_error OtherTask fresh s = say FALLBACK_TTS_MESSAGE fresh s5"
    using u st s2 s4 t4
    unfolding handle_pipeline_error_def Let_def s2_def [symmetric]
    by (auto simp: s4_def [symmetric] play_fallback_tts_def with_lock_def s5_def stop_tts_def)
  obtain t5 where "cs_tts s5 = Some t5" using t4 by (simp add: s5_def stop_tts_def)
  then show "\<exists>t'. cs_tts (handle_pipeline_error OtherTask fresh s) = Some t' \<and> is_active t'
       \<and> tc_queue t' = Some [Some FALLBACK_TTS_MESSAGE, None]"
    unfolding e using fallback_text by (rule say_queue)
  show "cs_state (handle_pipeline_error OtherTask fresh s) = LISTENING" using s4(1) by (simp add: e s5_def)
qed

lemma error_in_llm_task:
  assumes u: "\<not> cs_locked s" "\<not> cs_deadlock s" and st: "cs_state s \<noteq> ENDED" and t: "tts_busy s"
  shows "handle_pipeline_error InLlmTask fresh s = stop_tts (u ''barge_in'') (cancel_llm s)"
    "cs_state (handle_pipeline_error InLlmTask fresh s) = cs_state s"
    "is_system_speaking (handle_pipeline_error InLlmTask fresh s) = is_system_speaking s"
    "\<not> tts_busy (handle_pipeline_error InLlmTask fresh s)"
proof -
  have "tts_busy (cancel_llm s)" using t by (simp add: tts_busy_def)
  then show e: "handle_pipeline_error InLlmTask fresh s = stop_tts (u ''barge_in'') (cancel_llm s)"
    using u st by (simp add: handle_pipeline_error_def Let_def)
  show "cs_state (handle_pipeline_error InLlmTask fresh s) = cs_state s"
    "is_system_speaking (handle_pipeline_error InLlmTask fresh s) = is_system_speaking s"
    "\<not> tts_busy (handle_pipeline_error InLlmTask fresh s)"
    by (simp_all add: e tts_busy_def stop_tts_def tts_stop_inactive split: option.split)
qed

text \<open>
  Stopping a call in which the caller is in the middle of an utterance: the recogniser's final
  transcript is delivered to the turn callbacks while \<^verbatim>\<open>stop\<close> holds the lock they need.
\<close>

lemma stop_deadlocks:
  assumes "\<not> cs_locked s" "\<not> cs_deadlock s" "cs_state s \<noteq> ENDED" "cs_stt s = Some c" "sc_running c"
    and "cs_turns_wired s" "is_user_speaking s" "te_type ev = FINAL"
  shows "cs_deadlock (call_stop now fresh (Some ev) s)"
proof -
  define s2 where "s2 = (stop_tts (u ''barge_in'') (cancel_llm ((go ENDED s)\<lparr>cs_can_send := False, cs_muted := True,
     cs_metrics := (cs_metrics s)\<lparr>call_end_time := Some now\<rparr>\<rparr>)))\<lparr>cs_locked := True\<rparr>"
  have s2: "cs_locked s2" "cs_stt s2 = Some c" "cs_turns_wired s2" "is_user_speaking s2"
    using assms by (simp_all add: s2_def)
  have p: "cs_deadlock (fst (process_transcript_event call_callbacks now ev x)) \<and> snd (process_transcript_event call_callbacks now ev x) = None"
    if "cs_locked x" "is_user_speaking x" for x
    using that assms(8)
    by (simp add: process_transcript_event_def process_final_def Let_def fire_def call_callbacks_def
        cs_on_user_turn_completed_def)
  have "cs_deadlock (transcript_callback now fresh ev s2)"
    using s2 p [of s2] p [of "s2\<lparr>cs_metrics := (cs_metrics s2)\<lparr>first_transcript_time := Some now\<rparr>\<rparr>"]
    by (auto simp: transcript_callback_def Let_def split: prod.split)
  then have "cs_deadlock (stt_finalize (stop_world now fresh (Some ev)) s2)"
    by (simp add: stt_finalize_def stop_world_def call_opt_def)
  then show ?thesis unfolding call_stop_def Let_def s2_def [symmetric]
    using assms(1-3,5) s2(2) by (auto simp: stt_stop_def Let_def stop_world_def [of now fresh "Some ev"])
qed

lemma stop_clean:
  assumes "\<not> cs_locked s" "\<not> cs_deadlock s" "cs_state s \<noteq> ENDED"
    and "\<And>c. cs_stt s = Some c \<Longrightarrow> \<not> queue_full c"
  shows "\<not> cs_deadlock (call_stop now fresh None s) \<and> cs_state (call_stop now fresh None s) = ENDED
    \<and> cs_stt (call_stop now fresh None s) = None \<and> cs_llm (call_stop now fresh None s) = None
    \<and> cs_tts (call_stop now fresh None s) = None \<and> \<not> cs_can_send (call_stop now fresh None s)"
proof -
  have v: "valid_transition (cs_state s) ENDED" using assms(3) by (simp add: valid_transition_def)
  show ?thesis using assms v
    by (auto simp: call_stop_def Let_def stt_stop_def stop_world_def stt_finalize_def release_all_def go_state
        queue_full_def split: option.split)
qed

end
