(* ===== verification/TwilioHandler.thy ===== *)
theory TwilioHandler
  imports CallRegistry StreamAuth CallSession
begin

text \<open>
  \<^verbatim>\<open>app/telephony/twilio_handler.py\<close>: the stream URL of the webhook's answer and the loop of the Media
  Streams socket, which ties the message handler, the registry and the call together.

  A connection is a record; one message is one step. The call is the record of \<open>CallSession\<close>, and what
  its own tasks do between two messages is \<open>call_step\<close>. What the outside decides at a step (clock,
  fresh ids, whether the engines of the call can be built, the transcript the recogniser still owes at
  the end) is the record \<open>moment\<close>. A handler that waits for a lock that is never released is
  \<open>Stuck\<close>. No session has an \<^verbatim>\<open>on_audio_chunk\<close> callback, since nothing sets the field.
\<close>

section \<open>The stream URL\<close>

definition rstrip_slash :: "ustr \<Rightarrow> ustr" where
  "rstrip_slash s = rev (dropWhile (\<lambda>c. c = 47) (rev s))"

definition wss_base :: "ustr \<Rightarrow> ustr" where
  "wss_base b =
     (let base = rstrip_slash b
      in if startswith base (u ''http://'') then u ''wss'' @ drop 4 base
         else if startswith base (u ''https://'') then u ''wss'' @ drop 5 base
         else if \<not> startswith base (u ''wss://'') then u ''wss://'' @ base
         else base)"

text \<open>\<open>netloc\<close> and \<open>host\<close> are the request's; both branches of the scheme test say \<^verbatim>\<open>wss\<close>.\<close>

definition build_stream_url :: "ustr option \<Rightarrow> ustr \<Rightarrow> ustr option \<Rightarrow> ustr" where
  "build_stream_url public_base netloc host =
     (let base = strip (or_str public_base [])
      in if base \<noteq> [] then wss_base base @ u ''/twilio/stream''
         else u ''wss://'' @ (if netloc \<noteq> [] then netloc
                              else case host of Some h \<Rightarrow> h | None \<Rightarrow> u ''localhost:8000'')
              @ u ''/twilio/stream'')"

text \<open>The \<^verbatim>\<open>url\<close> attribute of the \<^verbatim>\<open>Stream\<close> element of the webhook's answer.\<close>

definition twiml_stream_url ::
  "keyed_hash \<Rightarrow> stream_settings \<Rightarrow> pyfloat \<Rightarrow> ustr \<Rightarrow> ustr option \<Rightarrow> py_exn + ustr" where
  "twiml_stream_url mac st now url call_sid =
     (if or_str call_sid [] = [] then Inr url
      else build_signed_stream_url mac st now url (or_str call_sid []))"

section \<open>Connection\<close>

datatype conn_status = Open | Closed | Stuck

record tw_conn =
  tc_session :: "twilio_session option"
  tc_call :: "(json \<times> json \<times> call_session) option"
  tc_status :: conn_status

definition new_conn :: tw_conn where
  "new_conn = \<lparr>tc_session = None, tc_call = None, tc_status = Open\<rparr>"

record tw_env =
  te_ao :: audioop
  te_max_calls :: int
  te_history_turns :: int
  te_expected :: "ustr option"

datatype start_result = StartsFine | NoSttEngine | NoLlmEngine | NoTtsEngine

record moment =
  mo_now :: pyfloat
  mo_fresh :: string
  mo_cid :: nat
  mo_start :: start_result
  mo_final :: "transcript_event option"

definition state_value :: "call_state \<Rightarrow> string" where
  "state_value st = (case st of
     INCOMING \<Rightarrow> ''incoming'' | CONNECTING \<Rightarrow> ''connecting'' | CONNECTED \<Rightarrow> ''connected''
   | STREAMING \<Rightarrow> ''streaming'' | LISTENING \<Rightarrow> ''listening'' | PROCESSING \<Rightarrow> ''processing''
   | SPEAKING \<Rightarrow> ''speaking'' | PAUSED \<Rightarrow> ''paused'' | INTERRUPTED \<Rightarrow> ''interrupted''
   | TRANSFERRED \<Rightarrow> ''transferred'' | CALL_FAILED \<Rightarrow> ''failed'' | TIMEOUT \<Rightarrow> ''timeout''
   | CALL_CANCELLED \<Rightarrow> ''cancelled'' | ENDED \<Rightarrow> ''ended'')"

text \<open>
  \<^verbatim>\<open>start\<close> with the engines' constructors: when one raises, what was assigned before it stays.
\<close>

definition start_call :: "start_result \<Rightarrow> pyfloat \<Rightarrow> call_session \<Rightarrow> bool \<times> call_session" where
  "start_call sr now s =
     (let s1 = s\<lparr>cs_metrics := (cs_metrics s)\<lparr>call_start_time := now\<rparr>, cs_can_send := True,
                 cs_last_audio := now, cs_prompt_played := False, cs_prompt_time := None,
                 cs_turns_wired := True\<rparr>;
          s2 = s1\<lparr>cs_stt := Some (new_stt_consumer 50)\<rparr>
      in case sr of
           StartsFine \<Rightarrow> (True, call_start now s)
         | NoSttEngine \<Rightarrow> (False, s1)
         | NoLlmEngine \<Rightarrow> (False, s2)
         | NoTtsEngine \<Rightarrow> (False, s2\<lparr>cs_llm := Some new_llm_consumer\<rparr>))"

text \<open>The steps of one iteration; the flag says whether the iteration goes on after them.\<close>

definition open_call :: "tw_env \<Rightarrow> moment \<Rightarrow> tw_conn \<times> call_registry \<Rightarrow> bool \<times> tw_conn \<times> call_registry" where
  "open_call env mo cr = (case cr of (c, reg) \<Rightarrow>
     (case (tc_session c, tc_call c) of
        (Some s, None) \<Rightarrow>
          if or_str (te_expected env) [] \<noteq> [] \<and> ts_call_sid s \<noteq> JStr (or_str (te_expected env) [])
          then (False, c\<lparr>tc_status := Closed\<rparr>, reg)
          else (case start_call (mo_start mo) (mo_now mo)
                       (new_call_session (te_history_turns env) (mo_cid mo) (mo_now mo)) of
                  (started, cs) \<Rightarrow>
                    let c1 = c\<lparr>tc_call := Some (ts_call_sid s, ts_stream_sid s, cs)\<rparr>
                    in if \<not> started then (False, c1, reg)
                       else case register (te_max_calls env) (mo_now mo) (ts_call_sid s) (ts_stream_sid s)
                                   (mo_cid mo) reg of
                              Inl e \<Rightarrow> (False, c1, reg)
                            | Inr reg' \<Rightarrow> (True, c1, reg'))
      | _ \<Rightarrow> (True, c, reg)))"

definition feed_call ::
  "tw_env \<Rightarrow> moment \<Rightarrow> bytes option \<Rightarrow> tw_conn \<times> call_registry \<Rightarrow> bool \<times> tw_conn \<times> call_registry" where
  "feed_call env mo chunk cr = (case cr of (c, reg) \<Rightarrow>
     (case (chunk, tc_call c) of
        (Some ch, Some (cid, sid, s)) \<Rightarrow>
          if ch = [] then (True, c, reg)
          else (case bind_sum (heartbeat (mo_now mo) cid reg) (update_state cid (state_value (cs_state s))) of
                  Inl e \<Rightarrow> (False, c, reg)
                | Inr reg' \<Rightarrow>
                    let s' = feed_mulaw (te_ao env) (mo_now mo) (mo_fresh mo) ch s;
                        c1 = c\<lparr>tc_call := Some (cid, sid, s')\<rparr>
                    in if cs_deadlock s' then (False, c1\<lparr>tc_status := Stuck\<rparr>, reg')
                       else (True, c1, reg'))
      | _ \<Rightarrow> (True, c, reg)))"

definition stop_conn :: "moment \<Rightarrow> tw_conn \<Rightarrow> tw_conn" where
  "stop_conn mo c =
     (case tc_call c of
        None \<Rightarrow> c
      | Some (cid, sid, s) \<Rightarrow>
          let s' = call_stop (mo_now mo) (mo_fresh mo) (mo_final mo) s
          in if cs_deadlock s' then c\<lparr>tc_call := Some (cid, sid, s'), tc_status := Stuck\<rparr>
             else c\<lparr>tc_call := None\<rparr>)"

definition drop_call :: "moment \<Rightarrow> tw_conn \<times> call_registry \<Rightarrow> tw_conn \<times> call_registry" where
  "drop_call mo cr = (case cr of (c, reg) \<Rightarrow>
     (case tc_call c of
        None \<Rightarrow> (c, reg)
      | Some (cid, sid, s) \<Rightarrow>
          (case unregister cid reg of Inl e \<Rightarrow> (c, reg) | Inr reg' \<Rightarrow> (stop_conn mo c, reg'))))"

definition after_event ::
  "tw_env \<Rightarrow> moment \<Rightarrow> bytes option \<Rightarrow> tw_conn \<times> call_registry \<Rightarrow> tw_conn \<times> call_registry" where
  "after_event env mo chunk cr =
     (case open_call env mo cr of
        (False, cr1) \<Rightarrow> cr1
      | (True, cr1) \<Rightarrow>
          (case feed_call env mo chunk cr1 of
             (False, cr2) \<Rightarrow> cr2
           | (True, cr2) \<Rightarrow> if tc_session (fst cr2) = None then drop_call mo cr2 else cr2))"

text \<open>\<open>None\<close> is a message that is blank, is no JSON, or is \<^verbatim>\<open>null\<close>.\<close>

definition on_message ::
  "tw_env \<Rightarrow> moment \<Rightarrow> json option \<Rightarrow> tw_conn \<times> call_registry \<Rightarrow> tw_conn \<times> call_registry" where
  "on_message env mo payload cr = (case cr of (c, reg) \<Rightarrow>
     (case payload of
        None \<Rightarrow> (c, reg)
      | Some p \<Rightarrow>
          if tc_status c \<noteq> Open then (c, reg)
          else (case json_get (json_or p (JObj [])) ''event'' of
                  Inl e \<Rightarrow> (c, reg)
                | Inr ev \<Rightarrow>
                    if ev = JStr (u ''stop'') then
                      let c1 = stop_conn mo c
                      in if tc_status c1 \<noteq> Open then (c1, reg)
                         else (case handle_twilio_event p (tc_session c1) of
                                 Inl e \<Rightarrow> (c1, reg)
                               | Inr (s, chunk) \<Rightarrow> (c1\<lparr>tc_session := s\<rparr>, reg))
                    else (case handle_twilio_event p (tc_session c) of
                            Inl e \<Rightarrow> (c, reg)
                          | Inr (s, chunk) \<Rightarrow> after_event env mo chunk (c\<lparr>tc_session := s\<rparr>, reg)))))"

text \<open>The socket closes, or \<^verbatim>\<open>receive_text\<close> raises anything else: both clean up alike.\<close>

definition on_disconnect :: "moment \<Rightarrow> tw_conn \<times> call_registry \<Rightarrow> tw_conn \<times> call_registry" where
  "on_disconnect mo cr = (case cr of (c, reg) \<Rightarrow>
     if tc_status c \<noteq> Open then (c, reg)
     else (case drop_call mo (c, reg) of
             (c1, reg1) \<Rightarrow>
               if tc_status c1 = Stuck then (c1, reg1)
               else (c1\<lparr>tc_call := None, tc_status := Closed\<rparr>, reg1)))"

section \<open>Runs\<close>

text \<open>One connection: messages, the end of the socket, and the call's own tasks.\<close>

inductive tw_step :: "tw_env \<Rightarrow> tw_conn \<times> call_registry \<Rightarrow> tw_conn \<times> call_registry \<Rightarrow> bool"
  for env where
  message: "tw_step env cr (on_message env mo payload cr)"
| disconnect: "tw_step env cr (on_disconnect mo cr)"
| inside: "tc_call c = Some (cid, sid, s) \<Longrightarrow> call_step s s' \<Longrightarrow>
    tw_step env (c, reg) (c\<lparr>tc_call := Some (cid, sid, s')\<rparr>, reg)"

inductive tw_run :: "tw_env \<Rightarrow> tw_conn \<times> call_registry \<Rightarrow> tw_conn \<times> call_registry \<Rightarrow> bool"
  for env where
  here: "tw_run env cr cr"
| more: "tw_run env cr cr1 \<Longrightarrow> tw_step env cr1 cr2 \<Longrightarrow> tw_run env cr cr2"

inductive_cases tw_stepE: "tw_step env cr cr'"

section \<open>Invariant\<close>

text \<open>The registry is within its bound, and the call is the one the token was issued for.\<close>

definition conn_ok :: "tw_env \<Rightarrow> tw_conn \<times> call_registry \<Rightarrow> bool" where
  "conn_ok env cr \<longleftrightarrow> registry_wf (te_max_calls env) (snd cr)
     \<and> (\<forall>cid sid s. tc_call (fst cr) = Some (cid, sid, s) \<longrightarrow> or_str (te_expected env) [] \<noteq> []
          \<longrightarrow> cid = JStr (or_str (te_expected env) []))"

lemma conn_ok_session: "conn_ok env (c\<lparr>tc_session := s\<rparr>, reg) = conn_ok env (c, reg)"
  "conn_ok env (c\<lparr>tc_status := st\<rparr>, reg) = conn_ok env (c, reg)"
  by (simp_all add: conn_ok_def)

lemma conn_ok_no_call: "conn_ok env (c, reg) \<Longrightarrow> conn_ok env (c\<lparr>tc_call := None\<rparr>, reg)"
  by (simp add: conn_ok_def)

lemma conn_ok_call:
  "conn_ok env (c, reg) \<Longrightarrow> tc_call c = Some (cid, sid, s) \<Longrightarrow> conn_ok env (c\<lparr>tc_call := Some (cid, sid, s')\<rparr>, reg)"
  by (simp add: conn_ok_def)

lemma conn_ok_registry:
  "conn_ok env (c, reg) \<Longrightarrow> registry_wf (te_max_calls env) reg' \<Longrightarrow> conn_ok env (c, reg')"
  by (simp add: conn_ok_def)

lemma conn_ok_wf: "conn_ok env (c, reg) \<Longrightarrow> registry_wf (te_max_calls env) reg"
  by (simp add: conn_ok_def)

lemma ok_open: "conn_ok env cr \<Longrightarrow> conn_ok env (snd (open_call env mo cr))"
proof -
  assume ok: "conn_ok env cr"
  obtain c reg where cr: "cr = (c, reg)" by (cases cr)
  obtain started cs where st: "start_call (mo_start mo) (mo_now mo)
      (new_call_session (te_history_turns env) (mo_cid mo) (mo_now mo)) = (started, cs)" by fastforce
  show ?thesis
  proof (cases "tc_call c")
    case (Some x)
    then show ?thesis using ok cr by (auto simp: open_call_def split: option.splits)
  next
    case no_call: None
    show ?thesis
    proof (cases "tc_session c")
      case None
      then show ?thesis using ok cr by (auto simp: open_call_def)
    next
      case (Some s)
      then show ?thesis
        using ok no_call st wf_register [OF conn_ok_wf [OF ok [unfolded cr]]]
        by (auto simp: cr open_call_def conn_ok_def Let_def split: sum.splits)
    qed
  qed
qed

lemma ok_feed: "conn_ok env cr \<Longrightarrow> conn_ok env (snd (feed_call env mo chunk cr))"
proof -
  assume ok: "conn_ok env cr"
  obtain c reg where cr: "cr = (c, reg)" by (cases cr)
  have wf: "registry_wf (te_max_calls env) reg'"
    if "bind_sum (heartbeat now cid reg) (update_state cid v) = Inr reg'" for now cid v reg'
    using that conn_ok_wf [OF ok [unfolded cr]] by (auto simp: bind_sum_Inr_iff intro: wf_heartbeat wf_update_state)
  show ?thesis
    using ok wf unfolding cr feed_call_def
    by (auto simp: Let_def conn_ok_session intro: conn_ok_call conn_ok_registry split: option.split sum.split)
qed

lemma ok_stop: "conn_ok env (c, reg) \<Longrightarrow> conn_ok env (stop_conn mo c, reg)"
  unfolding stop_conn_def
  by (auto simp: Let_def conn_ok_session intro: conn_ok_no_call conn_ok_call split: option.split)

lemma ok_drop: "conn_ok env cr \<Longrightarrow> conn_ok env (drop_call mo cr)"
proof -
  assume ok: "conn_ok env cr"
  obtain c reg where cr: "cr = (c, reg)" by (cases cr)
  have "conn_ok env (stop_conn mo c, reg')" if "unregister cid reg = Inr reg'" for cid reg'
    using ok_stop [OF conn_ok_registry] ok [unfolded cr] wf_unregister [OF conn_ok_wf that] by blast
  then show ?thesis
    using ok unfolding cr drop_call_def by (auto split: option.split sum.split)
qed

lemma ok_after: "conn_ok env cr \<Longrightarrow> conn_ok env (after_event env mo chunk cr)"
  using ok_open [of env cr mo] ok_feed [of env "snd (open_call env mo cr)" mo chunk]
    ok_drop [of env "snd (feed_call env mo chunk (snd (open_call env mo cr)))" mo]
  unfolding after_event_def by (auto split: prod.splits bool.splits)

lemma ok_message: "conn_ok env cr \<Longrightarrow> conn_ok env (on_message env mo payload cr)"
  using ok_after ok_stop unfolding on_message_def
  by (auto simp: conn_ok_session Let_def split: prod.split option.split sum.split)

lemma ok_disconnect: "conn_ok env cr \<Longrightarrow> conn_ok env (on_disconnect mo cr)"
  using ok_drop [of env cr mo] unfolding on_disconnect_def
  by (auto simp: conn_ok_session intro: conn_ok_no_call split: prod.splits)

lemma tw_run_ok: "tw_run env cr cr' \<Longrightarrow> conn_ok env cr \<Longrightarrow> conn_ok env cr'"
proof (induction rule: tw_run.induct)
  case (more cr cr1 cr2)
  from more.hyps(2) more.IH [OF more.prems] show ?case
    by cases (auto intro: ok_message ok_disconnect conn_ok_call)
qed

section \<open>How a call ends\<close>

text \<open>
  A \<^verbatim>\<open>stop\<close> message ends the call but leaves its registry entry; after it the connection has no call,
  so the later disconnect does not remove the entry either.
\<close>

lemma call_stop_not_locked:
  "cs_deadlock (call_stop now fresh fin s) = False \<Longrightarrow> \<not> cs_deadlock s \<and> \<not> cs_locked s"
  by (auto simp: call_stop_def)

lemma stop_keeps_entry:
  assumes "tc_status c = Open" "tc_call c = Some (cid, sid, s)"
    and "\<not> cs_deadlock (call_stop (mo_now mo) (mo_fresh mo) (mo_final mo) s)"
    and "json_get p ''event'' = Inr (JStr (u ''stop''))"
  shows "\<exists>c'. on_message env mo (Some p) (c, reg) = (c', reg) \<and> tc_call c' = None \<and> tc_status c' = Open
    \<and> on_disconnect mo' (c', reg) = (c'\<lparr>tc_status := Closed\<rparr>, reg)"
proof -
  obtain fs where p: "p = JObj fs" using json_get_ok [OF assms(4)] by blast
  have "fs \<noteq> []" using assms(4) p by auto
  then have ev: "json_get (json_or p (JObj [])) ''event'' = Inr (JStr (u ''stop''))"
    using assms(4) p by (simp add: json_or_def)
  have sc: "stop_conn mo c = c\<lparr>tc_call := None\<rparr>"
    using assms(2,3) by (simp add: stop_conn_def Let_def)
  define ses where "ses = (case handle_twilio_event p (tc_session c) of Inl e \<Rightarrow> tc_session c | Inr (s, ch) \<Rightarrow> s)"
  have "on_message env mo (Some p) (c, reg) = (c\<lparr>tc_call := None, tc_session := ses\<rparr>, reg)"
    using assms(1) ev sc by (auto simp: on_message_def Let_def ses_def split: sum.split)
  then show ?thesis
    using assms(1) by (auto simp: on_disconnect_def drop_call_def)
qed

text \<open>A socket that closes while the call is on removes the entry, and only that entry.\<close>

lemma disconnect_unregisters:
  assumes "tc_status c = Open" "tc_call c = Some (cid, sid, s)" "hashable cid"
  shows "\<exists>c' reg'. on_disconnect mo (c, reg) = (c', reg')
    \<and> (\<forall>k. registered reg' k \<longleftrightarrow> registered reg k \<and> k \<noteq> cid)
    \<and> (cs_deadlock (call_stop (mo_now mo) (mo_fresh mo) (mo_final mo) s) \<or> (tc_call c' = None \<and> tc_status c' = Closed))"
proof -
  obtain reg' where reg': "unregister cid reg = Inr reg'" using assms(3) by (simp add: unregister_def)
  show ?thesis
    using assms reg' registry.leave_has [OF reg']
    by (auto simp: on_disconnect_def drop_call_def stop_conn_def Let_def)
qed

section \<open>How a call begins\<close>

lemma call_start_listening:
  "cs_state (call_start now (new_call_session turns cid now')) = LISTENING"
  "\<not> cs_deadlock (call_start now (new_call_session turns cid now'))"
  by (simp_all add: call_start_def transition_to_def with_lock_def go_def apply_transition_def
      new_call_session_def valid_transition_def VALID_TRANSITIONS_def Let_def)

text \<open>
  A start message for the expected call: the call runs whatever the registry says. A full
  registry only means that the call is not entered.
\<close>

lemma start_opens_call:
  assumes "tc_status c = Open" "tc_call c = None" "mo_start mo = StartsFine"
    and ev: "event_of p = Some (u ''start'')" "handle_twilio_event p (tc_session c) = Inr (Some t, None)"
    and sid: "or_str (te_expected env) [] = [] \<or> ts_call_sid t = JStr (or_str (te_expected env) [])"
  shows "\<exists>cs reg'. on_message env mo (Some p) (c, reg)
      = (c\<lparr>tc_session := Some t, tc_call := Some (ts_call_sid t, ts_stream_sid t, cs)\<rparr>, reg')
    \<and> cs_state cs = LISTENING
    \<and> (int (length reg) \<ge> te_max_calls env \<longrightarrow> reg' = reg)
    \<and> (int (length reg) < te_max_calls env \<longrightarrow> hashable (ts_call_sid t) \<longrightarrow> registered reg' (ts_call_sid t))"
proof -
  let ?cs = "call_start (mo_now mo) (new_call_session (te_history_turns env) (mo_cid mo) (mo_now mo))"
  let ?reg = "register (te_max_calls env) (mo_now mo) (ts_call_sid t) (ts_stream_sid t) (mo_cid mo) reg"
  obtain fs e where p: "p = JObj fs" "json_get p ''event'' = Inr e" "json_word (json_or e (JStr [])) = Inr (u ''start'')"
    using event_of_Some [OF ev(1)] by blast
  have ne: "fs \<noteq> []" "e \<noteq> JStr (u ''stop'')"
    using p by (auto simp: json_or_def u_def lower_def lower_c_def strip_def lstrip_def rstrip_def py_space_def)
  have "on_message env mo (Some p) (c, reg) = after_event env mo None (c\<lparr>tc_session := Some t\<rparr>, reg)"
    using assms p ne by (simp add: on_message_def json_or_def)
  also have "\<dots> = (c\<lparr>tc_session := Some t, tc_call := Some (ts_call_sid t, ts_stream_sid t, ?cs)\<rparr>,
      (case ?reg of Inl e \<Rightarrow> reg | Inr r \<Rightarrow> r))"
    using assms by (auto simp: after_event_def open_call_def start_call_def feed_call_def Let_def split: sum.split)
  finally have res: "on_message env mo (Some p) (c, reg) = \<dots>" .
  have full: "int (length reg) \<ge> te_max_calls env \<Longrightarrow> (case ?reg of Inl e \<Rightarrow> reg | Inr r \<Rightarrow> r) = reg"
    by (simp add: register_def)
  have room: "registered (case ?reg of Inl e \<Rightarrow> reg | Inr r \<Rightarrow> r) (ts_call_sid t)"
    if free: "int (length reg) < te_max_calls env" "hashable (ts_call_sid t)"
  proof -
    obtain r where r: "?reg = Inr r" using free by (simp add: register_def)
    with registry.enter_has [OF r] show ?thesis by simp
  qed
  show ?thesis using res full room call_start_listening by blast
qed

text \<open>A start message for another call closes the socket before any call exists.\<close>

lemma start_mismatch_closes:
  assumes "tc_status c = Open" "tc_call c = None"
    and ev: "event_of p = Some (u ''start'')" "handle_twilio_event p (tc_session c) = Inr (Some t, None)"
    and sid: "or_str (te_expected env) [] \<noteq> []" "ts_call_sid t \<noteq> JStr (or_str (te_expected env) [])"
  shows "on_message env mo (Some p) (c, reg) = (c\<lparr>tc_session := Some t, tc_status := Closed\<rparr>, reg)"
proof -
  obtain fs e where p: "p = JObj fs" "json_get p ''event'' = Inr e" "json_word (json_or e (JStr [])) = Inr (u ''start'')"
    using event_of_Some [OF ev(1)] by blast
  have "fs \<noteq> []" "e \<noteq> JStr (u ''stop'')"
    using p by (auto simp: json_or_def u_def lower_def lower_c_def strip_def lstrip_def rstrip_def py_space_def)
  with assms p show ?thesis
    by (simp add: on_message_def json_or_def after_event_def open_call_def)
qed

text \<open>The URL always has the secure scheme.\<close>

lemma build_stream_url_wss: "startswith (build_stream_url base netloc host) (u ''wss://'')"
proof -
  have http: "startswith (u ''wss'' @ drop 4 b) (u ''wss://'')" if "startswith b (u ''http://'')" for b
    using that by (auto simp: startswith_iff prefix_def u_def)
  have https: "startswith (u ''wss'' @ drop 5 b) (u ''wss://'')" if "startswith b (u ''https://'')" for b
    using that by (auto simp: startswith_iff prefix_def u_def)
  have "startswith (wss_base b) (u ''wss://'')" for b
    using http https by (auto simp: wss_base_def Let_def) (simp add: startswith_iff)
  then show ?thesis
    by (auto simp: build_stream_url_def Let_def startswith_iff intro: prefix_prefix)
qed

end
