(* ===== verification/LlmEngines.thy ===== *)
theory LlmEngines
  imports Settings ThreadStream TwilioHandler
begin

text \<open>
  The language model adapters: \<^verbatim>\<open>app/llm/providers/openai_engine.py\<close> with its subclasses for Groq and xAI,
  \<^verbatim>\<open>anthropic_engine.py\<close>, \<^verbatim>\<open>bedrock_engine.py\<close> and the mock of \<^verbatim>\<open>app/llm/streaming_engine.py\<close>. What a provider
  answers is an argument: whether the request fails, the status, the lines of the body and how it ends. \<open>loads\<close> is
  \<^verbatim>\<open>json.loads\<close>, \<open>None\<close> when it raises. The text of a token is a text or falsy, as the APIs document; any other
  content counts as an error here (joining it to the reply raises a moment later).
\<close>

section \<open>Requests and answers\<close>

record http_call =
  hc_url :: ustr
  hc_headers :: "(ustr \<times> ustr) list"
  hc_body :: json

datatype 'b http_reply = RequestRaises | RequestCancelled | Answered nat "'b list" stream_end

text \<open>\<^verbatim>\<open>raise_for_status\<close> lets the success codes pass.\<close>

definition streamed :: "('b list \<Rightarrow> stream_end \<Rightarrow> 'i list \<times> stream_end) \<Rightarrow> 'b http_reply \<Rightarrow> 'i list \<times> stream_end" where
  "streamed body reply =
     (case reply of
        RequestRaises \<Rightarrow> ([], StreamRaises)
      | RequestCancelled \<Rightarrow> ([], StreamCancelled)
      | Answered st ls fin \<Rightarrow> if 200 \<le> st \<and> st < 300 then body ls fin else ([], StreamRaises))"

definition text_json :: "string \<Rightarrow> ustr \<Rightarrow> ustr \<times> json" where
  "text_json k v = (u k, JStr v)"

definition chat_message :: "string \<times> ustr \<Rightarrow> json" where
  "chat_message m = JObj [text_json ''role'' (u (fst m)), text_json ''content'' (snd m)]"

definition prompt_or_silence :: "ustr \<Rightarrow> ustr" where
  "prompt_or_silence prompt = (if prompt = [] then u ''(silence)'' else prompt)"

section \<open>Metrics\<close>

text \<open>The \<^verbatim>\<open>finally\<close> block; a first token at the reading 0.0 counts as none.\<close>

definition generation_metrics :: "pyfloat \<Rightarrow> pyfloat option \<Rightarrow> pyfloat \<Rightarrow> nat \<Rightarrow> llm_metrics" where
  "generation_metrics start first now tokens =
     (let total_ms = (now - start) * 1000
      in \<lparr>time_to_first_token_ms = (case first of Some t \<Rightarrow> if t \<noteq> 0 then (t - start) * 1000 else 0 | None \<Rightarrow> 0),
          total_generation_ms = total_ms, token_count = tokens,
          tokens_per_second = (if total_ms > 0 then of_nat tokens / (total_ms / 1000) else 0)\<rparr>)"

section \<open>Server-sent lines\<close>

datatype line_result = LineSkip | LineStop | LineFails | LineToken ustr

definition content_token :: "json option \<Rightarrow> line_result" where
  "content_token c =
     (case c of
        None \<Rightarrow> LineSkip
      | Some v \<Rightarrow> if \<not> truthy v then LineSkip else case v of JStr t \<Rightarrow> LineToken t | _ \<Rightarrow> LineFails)"

text \<open>\<^verbatim>\<open>chunk["choices"][0].get("delta", {})\<close>; \<open>None\<close> when it raises.\<close>

definition delta_of :: "json \<Rightarrow> json option" where
  "delta_of chunk =
     (case chunk of
        JObj fs \<Rightarrow>
          (case map_of fs (u ''choices'') of
             Some (JArr (JObj c # cs)) \<Rightarrow> Some (case map_of c (u ''delta'') of None \<Rightarrow> JObj [] | Some d \<Rightarrow> d)
           | _ \<Rightarrow> None)
      | _ \<Rightarrow> None)"

definition openai_line :: "(ustr \<Rightarrow> json option) \<Rightarrow> ustr \<Rightarrow> line_result" where
  "openai_line loads line =
     (if line = [] \<or> \<not> startswith line (u ''data: '') then LineSkip
      else let data = strip (drop 6 line)
           in if data = u ''[DONE]'' then LineStop
              else case loads data of
                     None \<Rightarrow> LineFails
                   | Some chunk \<Rightarrow>
                       (case delta_of chunk of Some (JObj d) \<Rightarrow> content_token (map_of d (u ''content'')) | _ \<Rightarrow> LineFails))"

definition anthropic_line :: "(ustr \<Rightarrow> json option) \<Rightarrow> ustr \<Rightarrow> line_result" where
  "anthropic_line loads line =
     (if line = [] \<or> \<not> startswith line (u ''data: '') then LineSkip
      else case loads (drop 6 line) of
             Some (JObj e) \<Rightarrow>
               (if map_of e (u ''type'') \<noteq> Some (JStr (u ''content_block_delta'')) then LineSkip
                else case map_of e (u ''delta'') of
                       None \<Rightarrow> LineSkip
                     | Some (JObj d) \<Rightarrow> content_token (map_of d (u ''text''))
                     | Some _ \<Rightarrow> LineFails)
           | _ \<Rightarrow> LineFails)"

text \<open>The loop over the lines; \<open>n\<close> tokens have been yielded.\<close>

fun sse_tokens :: "(ustr \<Rightarrow> line_result) \<Rightarrow> nat \<Rightarrow> ustr list \<Rightarrow> stream_end \<Rightarrow> llm_stream" where
  "sse_tokens classify n [] fin = ([], fin)"
| "sse_tokens classify n (l # ls) fin =
     (case classify l of
        LineSkip \<Rightarrow> sse_tokens classify n ls fin
      | LineStop \<Rightarrow> ([], StreamDone)
      | LineFails \<Rightarrow> ([], StreamRaises)
      | LineToken t \<Rightarrow> (case sse_tokens classify (Suc n) ls fin of (its, e) \<Rightarrow> (StreamToken t n # its, e)))"

section \<open>OpenAI and the services with its interface\<close>

record openai_engine =
  oe_api_key :: ustr
  oe_model :: ustr
  oe_api_base :: ustr
  oe_system_prompt :: ustr
  oe_max_tokens :: int
  oe_extra_headers :: "(ustr \<times> ustr) list"

definition new_openai_engine ::
  "app_settings \<Rightarrow> ustr \<Rightarrow> ustr option \<Rightarrow> ustr option \<Rightarrow> (ustr \<times> ustr) list \<Rightarrow> openai_engine" where
  "new_openai_engine s key model api_base extra =
     \<lparr>oe_api_key = key, oe_model = or_str model (VOICE_LLM_MODEL s),
      oe_api_base = rstrip_slash (or_str api_base (OPENAI_API_BASE s)),
      oe_system_prompt = VOICE_LLM_SYSTEM_PROMPT s, oe_max_tokens = VOICE_LLM_MAX_TOKENS s, oe_extra_headers = extra\<rparr>"

definition new_groq_engine :: "app_settings \<Rightarrow> ustr \<Rightarrow> openai_engine" where
  "new_groq_engine s key =
     new_openai_engine s key (Some (GROQ_MODEL s)) (Some (u ''https://api.groq.com/openai/v1'')) []"

definition new_xai_engine :: "app_settings \<Rightarrow> ustr \<Rightarrow> openai_engine" where
  "new_xai_engine s key =
     new_openai_engine s key (Some (XAI_MODEL s)) (Some (u ''https://api.x.ai/v1'')) []"

definition openai_headers :: "openai_engine \<Rightarrow> (ustr \<times> ustr) list" where
  "openai_headers eng =
     (let headers = dict_update [(u ''Authorization'', u ''Bearer '' @ oe_api_key eng),
                                 (u ''Content-Type'', u ''application/json'')] (oe_extra_headers eng)
      in if map_of (oe_extra_headers eng) (u ''api-key'') \<noteq> None
         then filter (\<lambda>(k, v). k \<noteq> u ''Authorization'') headers else headers)"

definition openai_call :: "openai_engine \<Rightarrow> ustr \<Rightarrow> (string \<times> ustr) list \<Rightarrow> http_call" where
  "openai_call eng prompt history =
     \<lparr>hc_url = oe_api_base eng @ u ''/chat/completions'', hc_headers = openai_headers eng,
      hc_body = JObj
        [text_json ''model'' (oe_model eng), (u ''stream'', JBool True), (u ''max_tokens'', JNum (of_int (oe_max_tokens eng))),
         (u ''messages'', JArr (map chat_message
            ([(''system'', oe_system_prompt eng)] @ history @ [(''user'', prompt_or_silence prompt)])))]\<rparr>"

definition openai_stream :: "(ustr \<Rightarrow> json option) \<Rightarrow> ustr http_reply \<Rightarrow> llm_stream" where
  "openai_stream loads = streamed (sse_tokens (openai_line loads) 0)"

section \<open>Anthropic\<close>

record anthropic_engine =
  ae_api_key :: ustr
  ae_model :: ustr
  ae_system_prompt :: ustr
  ae_max_tokens :: int

definition new_anthropic_engine :: "app_settings \<Rightarrow> ustr \<Rightarrow> anthropic_engine" where
  "new_anthropic_engine s key =
     \<lparr>ae_api_key = key, ae_model = ANTHROPIC_MODEL s, ae_system_prompt = VOICE_LLM_SYSTEM_PROMPT s,
      ae_max_tokens = VOICE_LLM_MAX_TOKENS s\<rparr>"

definition anthropic_headers :: "anthropic_engine \<Rightarrow> (ustr \<times> ustr) list" where
  "anthropic_headers eng =
     [(u ''x-api-key'', ae_api_key eng), (u ''anthropic-version'', u ''2023-06-01''),
      (u ''content-type'', u ''application/json'')]"

definition anthropic_call :: "anthropic_engine \<Rightarrow> ustr \<Rightarrow> (string \<times> ustr) list \<Rightarrow> http_call" where
  "anthropic_call eng prompt history =
     \<lparr>hc_url = u ''https://api.anthropic.com/v1/messages'', hc_headers = anthropic_headers eng,
      hc_body = JObj
        [text_json ''model'' (ae_model eng), (u ''max_tokens'', JNum (of_int (ae_max_tokens eng))), (u ''stream'', JBool True),
         text_json ''system'' (ae_system_prompt eng),
         (u ''messages'', JArr (map chat_message (history @ [(''user'', prompt_or_silence prompt)])))]\<rparr>"

definition anthropic_stream :: "(ustr \<Rightarrow> json option) \<Rightarrow> ustr http_reply \<Rightarrow> llm_stream" where
  "anthropic_stream loads = streamed (sse_tokens (anthropic_line loads) 0)"

section \<open>Bedrock\<close>

text \<open>The constructor's other values are handed to the library as they are.\<close>

definition bedrock_messages :: "ustr \<Rightarrow> (string \<times> ustr) list \<Rightarrow> (string \<times> ustr) list" where
  "bedrock_messages prompt history =
     filter (\<lambda>(role, content). (role = ''user'' \<or> role = ''assistant'') \<and> content \<noteq> []) history
       @ [(''user'', prompt_or_silence prompt)]"

text \<open>\<^verbatim>\<open>d.get(k, {})\<close> of a value that should be a dictionary; \<open>None\<close> when it raises.\<close>

definition get_dict :: "string \<Rightarrow> json option \<Rightarrow> json option" where
  "get_dict k v =
     (case v of Some (JObj fs) \<Rightarrow> Some (case map_of fs (u k) of None \<Rightarrow> JObj [] | Some x \<Rightarrow> x) | _ \<Rightarrow> None)"

definition bedrock_text :: "json \<Rightarrow> line_result" where
  "bedrock_text event =
     (case get_dict ''delta'' (get_dict ''contentBlockDelta'' (Some event)) of
        Some (JObj d) \<Rightarrow> content_token (map_of d (u ''text''))
      | _ \<Rightarrow> LineFails)"

text \<open>One event of the worker's loop.\<close>

definition bedrock_work :: "unit \<Rightarrow> json \<Rightarrow> (unit \<times> ustr list) option" where
  "bedrock_work w event =
     (case bedrock_text event of LineFails \<Rightarrow> None | LineToken t \<Rightarrow> Some (w, [t]) | _ \<Rightarrow> Some (w, []))"

definition bedrock_finish :: "unit \<Rightarrow> ustr list" where
  "bedrock_finish w = []"

text \<open>The generator numbers what it takes from the queue.\<close>

fun number_tokens :: "nat \<Rightarrow> ustr list \<Rightarrow> stream_item list" where
  "number_tokens n [] = []"
| "number_tokens n (t # ts) = StreamToken t n # number_tokens (Suc n) ts"

text \<open>A finished run of the two threads.\<close>

definition bedrock_run :: "json list \<Rightarrow> source_end \<Rightarrow> llm_stream \<Rightarrow> bool" where
  "bedrock_run events src st \<longleftrightarrow>
     (\<exists>r. thread_run bedrock_work bedrock_finish (new_thread () events src) r \<and> th_reader r = Some (snd st)
        \<and> fst st = number_tokens 0 (th_out r))"

definition bedrock_stream :: "json list \<Rightarrow> source_end \<Rightarrow> llm_stream" where
  "bedrock_stream events src =
     (case worker_items bedrock_work bedrock_finish () events src of (ts, fin) \<Rightarrow> (number_tokens 0 ts, fin))"

section \<open>The mock\<close>

text \<open>\<^verbatim>\<open>re.findall\<close> with a pattern for a word and the blanks after it.\<close>

function word_tokens :: "ustr \<Rightarrow> ustr list" where
  "word_tokens t =
     (let s = lstrip t; r = dropWhile (\<lambda>c. \<not> py_space c) s
      in if s = [] then [] else (takeWhile (\<lambda>c. \<not> py_space c) s @ takeWhile py_space r) # word_tokens (dropWhile py_space r))"
  by pat_completeness auto
termination
proof (relation "measure length")
  fix t s r :: ustr
  assume s: "s = lstrip t" "s \<noteq> []" and r: "r = dropWhile (\<lambda>c. \<not> py_space c) s"
  obtain c cs where c: "s = c # cs" "\<not> py_space c"
    using s hd_dropWhile [of py_space t] by (metis list.exhaust_sel lstrip_def)
  then have "length r \<le> length cs" using r by (simp add: length_dropWhile_le)
  moreover have "length s \<le> length t" using s(1) by (simp add: lstrip_def length_dropWhile_le)
  moreover have "length (dropWhile py_space r) \<le> length r" by (rule length_dropWhile_le)
  ultimately show "(dropWhile py_space r, t) \<in> measure length" using c by simp
qed simp

declare word_tokens.simps [simp del]

definition mock_reply :: "ustr \<Rightarrow> ustr" where
  "mock_reply prompt =
     u ''Sure, one moment please. You said: '' @ u [CHR 34] @ prompt_or_silence prompt @ u [CHR 34] @ u ''. Here is a concise response.''"

definition mock_tokens :: "ustr \<Rightarrow> ustr list" where
  "mock_tokens prompt =
     (let ts = word_tokens (mock_reply prompt) in if ts = [] then [u ''(no input)''] else ts)"

text \<open>The stream when the task is cancelled in the wait before token \<open>k\<close>, or never.\<close>

definition mock_llm_stream :: "ustr \<Rightarrow> nat option \<Rightarrow> llm_stream" where
  "mock_llm_stream prompt cancelled =
     (let ts = mock_tokens prompt
      in case cancelled of
           None \<Rightarrow> (number_tokens 0 ts, StreamDone)
         | Some k \<Rightarrow> if k < length ts then (number_tokens 0 (take k ts), StreamCancelled) else (number_tokens 0 ts, StreamDone))"

section \<open>The shared HTTP client\<close>

text \<open>The process-wide client: \<open>Some closed\<close>, with the number of clients made.\<close>

definition get_http_client :: "bool option \<times> nat \<Rightarrow> bool option \<times> nat" where
  "get_http_client c = (if fst c = None \<or> fst c = Some True then (Some False, Suc (snd c)) else c)"

definition close_http_client :: "bool option \<times> nat \<Rightarrow> bool option \<times> nat" where
  "close_http_client c = (None, snd c)"

section \<open>Lemmas: lines and tokens\<close>

definition good_line :: "(ustr \<Rightarrow> line_result) \<Rightarrow> ustr \<Rightarrow> bool" where
  "good_line classify l \<longleftrightarrow> classify l \<noteq> LineStop \<and> classify l \<noteq> LineFails"

definition line_texts :: "(ustr \<Rightarrow> line_result) \<Rightarrow> ustr list \<Rightarrow> ustr list" where
  "line_texts classify ls = concat (map (\<lambda>l. case classify l of LineToken t \<Rightarrow> [t] | _ \<Rightarrow> []) ls)"

lemma tokens_of_number [simp]: "tokens_of (number_tokens n ts) = ts"
  by (induction n ts rule: number_tokens.induct) simp_all

lemma number_tokens_append: "number_tokens n (xs @ ys) = number_tokens n xs @ number_tokens (n + length xs) ys"
  by (induction n xs rule: number_tokens.induct) simp_all

text \<open>The lines up to the first that ends the loop give their texts, numbered in order.\<close>

lemma sse_append:
  assumes "\<forall>l\<in>set ls. good_line classify l"
  shows "sse_tokens classify n (ls @ ls') fin =
    (case sse_tokens classify (n + length (line_texts classify ls)) ls' fin of
       (its, e) \<Rightarrow> (number_tokens n (line_texts classify ls) @ its, e))"
  using assms
proof (induction ls arbitrary: n)
  case (Cons l ls)
  then show ?case by (cases "classify l") (auto simp: good_line_def line_texts_def split: prod.splits)
qed (simp add: line_texts_def)

lemma sse_all:
  assumes "\<forall>l\<in>set ls. good_line classify l"
  shows "sse_tokens classify n ls fin = (number_tokens n (line_texts classify ls), fin)"
  using sse_append [OF assms, of n "[]" fin] by simp

lemma sse_ended:
  assumes "\<forall>l\<in>set ls. good_line classify l"
  shows "classify l = LineStop \<Longrightarrow> sse_tokens classify n (ls @ l # ls') fin = (number_tokens n (line_texts classify ls), StreamDone)"
    and "classify l = LineFails \<Longrightarrow> sse_tokens classify n (ls @ l # ls') fin = (number_tokens n (line_texts classify ls), StreamRaises)"
  using sse_append [OF assms, of n "l # ls'" fin] by simp_all

text \<open>Tokens are numbered without a gap, whatever the provider sends.\<close>

lemma sse_numbered: "\<exists>ts. fst (sse_tokens classify n ls fin) = number_tokens n ts"
proof (induction classify n ls fin rule: sse_tokens.induct)
  case (2 classify n l ls fin)
  then show ?case
    by (cases "classify l") (auto split: prod.splits intro: exI [of _ "[]"], metis fst_conv number_tokens.simps(2))
qed (auto intro: exI [of _ "[]"])

text \<open>A chunk whose list of choices is empty is an error: a stream that begins with one says nothing.\<close>

lemma empty_choices_fail:
  assumes "startswith line (u ''data: '')" "strip (drop 6 line) \<noteq> u ''[DONE]''"
    and "loads (strip (drop 6 line)) = Some (JObj fs)" "map_of fs (u ''choices'') = Some (JArr [])"
  shows "openai_line loads line = LineFails"
  using assms by (auto simp: openai_line_def startswith_def u_def delta_of_def Let_def)

lemma empty_choices_silence:
  assumes "startswith line (u ''data: '')" "strip (drop 6 line) \<noteq> u ''[DONE]''"
    and "loads (strip (drop 6 line)) = Some (JObj fs)" "map_of fs (u ''choices'') = Some (JArr [])"
    and "200 \<le> st" "st < 300"
  shows "openai_stream loads (Answered st (line # ls) fin) = ([], StreamRaises)"
  using empty_choices_fail [of line loads fs, OF assms(1-4)] assms(5,6) by (simp add: openai_stream_def streamed_def)

text \<open>
  An error that Anthropic reports inside the stream is skipped: the stream ends as if the reply were complete, so no
  failover is tried.
\<close>

lemma anthropic_error_skipped:
  assumes "loads (drop 6 line) = Some (JObj e)" "map_of e (u ''type'') = Some (JStr (u ''error''))"
  shows "anthropic_line loads line = LineSkip"
  using assms by (simp add: anthropic_line_def u_def)

lemma anthropic_error_completes:
  assumes "loads (drop 6 line) = Some (JObj e)" "map_of e (u ''type'') = Some (JStr (u ''error''))"
    and "200 \<le> st" "st < 300" "\<forall>l\<in>set ls. anthropic_line loads l = LineSkip"
  shows "anthropic_stream loads (Answered st (ls @ [line]) StreamDone) = ([], StreamDone)"
    and "fst (failover_stream (anthropic_stream loads (Answered st (ls @ [line]) StreamDone)) second) = ([], StreamDone)"
proof -
  have "\<forall>l\<in>set (ls @ [line]). good_line (anthropic_line loads) l"
    using assms(5) anthropic_error_skipped [of loads line e, OF assms(1,2)] by (auto simp: good_line_def)
  moreover have "line_texts (anthropic_line loads) (ls @ [line]) = []"
    using assms(5) anthropic_error_skipped [of loads line e, OF assms(1,2)] by (auto simp: line_texts_def)
  ultimately show "anthropic_stream loads (Answered st (ls @ [line]) StreamDone) = ([], StreamDone)"
    using assms(3,4) sse_all [of "ls @ [line]" "anthropic_line loads" 0 StreamDone]
    by (simp add: anthropic_stream_def streamed_def)
  then show "fst (failover_stream (anthropic_stream loads (Answered st (ls @ [line]) StreamDone)) second) = ([], StreamDone)"
    by (simp add: failover_spec)
qed

section \<open>Lemmas: requests\<close>

text \<open>A request carries one credential: the bearer key, or the key of its own header and no bearer.\<close>

lemma openai_one_credential:
  assumes "oe_extra_headers eng \<in> {[], [(u ''api-key'', key)]}"
  shows "oe_extra_headers eng = [] \<Longrightarrow> map_of (openai_headers eng) (u ''Authorization'') = Some (u ''Bearer '' @ oe_api_key eng)
      \<and> map_of (openai_headers eng) (u ''api-key'') = None"
    and "oe_extra_headers eng \<noteq> [] \<Longrightarrow> map_of (openai_headers eng) (u ''Authorization'') = None
      \<and> map_of (openai_headers eng) (u ''api-key'') = Some key"
  using assms by (auto simp: openai_headers_def dict_update_def u_def)

lemma rstrip_slash_set: "set (rstrip_slash s) \<subseteq> set s"
  unfolding rstrip_slash_def by (auto dest: set_dropWhileD)

lemma bedrock_messages_sound:
  "bedrock_messages prompt history \<noteq> []" "last (bedrock_messages prompt history) = (''user'', prompt_or_silence prompt)"
  "\<forall>(role, content)\<in>set (bedrock_messages prompt history). (role = ''user'' \<or> role = ''assistant'') \<and> content \<noteq> []"
  by (auto simp: bedrock_messages_def prompt_or_silence_def u_def)

text \<open>After a turn that was not answered, two messages of the user follow each other, which the service refuses.\<close>

lemma bedrock_users_in_a_row:
  assumes "t \<noteq> []"
  shows "\<exists>ms. bedrock_messages prompt (h @ [(''user'', t)]) = ms @ [(''user'', t), (''user'', prompt_or_silence prompt)]"
  using assms by (simp add: bedrock_messages_def)

section \<open>Lemmas: the two threads of Bedrock\<close>

lemma bedrock_refines:
  assumes "bedrock_run events src st" "snd st \<noteq> StreamCancelled"
  shows "st = bedrock_stream events src"
proof -
  obtain r where r: "thread_run bedrock_work bedrock_finish (new_thread () events src) r" "th_reader r = Some (snd st)"
      "fst st = number_tokens 0 (th_out r)"
    using assms(1) by (auto simp: bedrock_run_def)
  from thread_refines [OF r(1,2) assms(2)] r(3) show ?thesis by (cases st) (simp add: bedrock_stream_def)
qed

lemma bedrock_interrupted:
  assumes "bedrock_run events src st"
  shows "\<exists>its. fst (bedrock_stream events src) = fst st @ its"
proof -
  obtain r where r: "thread_run bedrock_work bedrock_finish (new_thread () events src) r" "fst st = number_tokens 0 (th_out r)"
    using assms by (auto simp: bedrock_run_def)
  obtain ys where "fst (worker_items bedrock_work bedrock_finish () events src) = th_out r @ ys"
    using thread_prefix [OF r(1)] by blast
  then show ?thesis using r(2) by (auto simp: bedrock_stream_def number_tokens_append split: prod.splits)
qed

text \<open>Well-formed events give all their texts.\<close>

lemma bedrock_texts:
  assumes "\<forall>e\<in>set events. bedrock_text e \<noteq> LineFails"
  shows "bedrock_stream events SourceDone =
    (number_tokens 0 (concat (map (\<lambda>e. case bedrock_text e of LineToken t \<Rightarrow> [t] | _ \<Rightarrow> []) events)), StreamDone)"
proof -
  have "worker_items bedrock_work bedrock_finish w events SourceDone =
      (concat (map (\<lambda>e. case bedrock_text e of LineToken t \<Rightarrow> [t] | _ \<Rightarrow> []) events), StreamDone)" for w
    using assms
  proof (induction events arbitrary: w)
    case (Cons e es)
    then show ?case by (cases "bedrock_text e") (auto simp: bedrock_work_def)
  qed (simp add: bedrock_finish_def)
  then show ?thesis by (simp add: bedrock_stream_def)
qed

section \<open>Lemmas: the mock\<close>

lemma word_tokens_concat: "concat (word_tokens t) = lstrip t"
proof (induction t rule: word_tokens.induct)
  case (1 t)
  let ?s = "lstrip t"
  let ?r = "dropWhile (\<lambda>c. \<not> py_space c) ?s"
  show ?case
  proof (cases "?s = []")
    case False
    have "lstrip (dropWhile py_space ?r) = dropWhile py_space ?r"
      by (simp add: lstrip_def dropWhile_idem)
    with 1 [OF refl refl False] False show ?thesis
      by (subst word_tokens.simps) (simp add: Let_def)
  qed (subst word_tokens.simps, simp add: Let_def)
qed

lemma mock_tokens_concat: "concat (mock_tokens prompt) = mock_reply prompt"
proof -
  have "lstrip (mock_reply prompt) = mock_reply prompt" "mock_reply prompt \<noteq> []"
    by (simp_all add: mock_reply_def u_def lstrip_def py_space_def)
  then show ?thesis using word_tokens_concat [of "mock_reply prompt"] by (auto simp: mock_tokens_def Let_def)
qed

lemma mock_says_reply: "concat (tokens_of (fst (mock_llm_stream prompt None))) = mock_reply prompt"
  by (simp add: mock_llm_stream_def Let_def mock_tokens_concat)

section \<open>Lemmas: the shared client\<close>

lemma client_usable: "fst (get_http_client c) = Some False"
  by (auto simp: get_http_client_def)

lemma client_shared: "get_http_client (get_http_client c) = get_http_client c"
  by (auto simp: get_http_client_def)

end
