(* ===== verification/Resampler.thy ===== *)
theory Resampler
  imports Pcm
begin

text \<open>
  Correctness of \<^verbatim>\<open>Pcm16Resampler\<close> (\<^verbatim>\<open>app/voice/audio.py\<close>): every output sample lies between
  two input samples, so packing never raises; and the concatenated output depends on the
  concatenated input only, not on where the chunks were cut.
\<close>

section \<open>Interpolation\<close>

lemma interpolate_between:
  assumes "0 \<le> pos" "Suc (nat \<lfloor>pos\<rfloor>) < length xs"
  shows "min (xs ! nat \<lfloor>pos\<rfloor>) (xs ! Suc (nat \<lfloor>pos\<rfloor>)) \<le> interpolate xs pos"
    "interpolate xs pos \<le> max (xs ! nat \<lfloor>pos\<rfloor>) (xs ! Suc (nat \<lfloor>pos\<rfloor>))"
proof -
  define i where "i = nat \<lfloor>pos\<rfloor>"
  define a b where "a = xs ! i" and "b = xs ! Suc i"
  define f where "f = pos - of_nat i"
  have "(of_nat i :: rat) = of_int \<lfloor>pos\<rfloor>" using assms(1) by (simp add: i_def)
  then have f: "0 \<le> f" "f \<le> 1" using floor_correct [of pos] by (auto simp: f_def)
  have v: "interpolate xs pos = py_int (of_int a + of_int (b - a) * f)"
    using assms(1) by (simp add: interpolate_def Let_def py_int_def [of pos] i_def a_def b_def f_def)
  have lo: "of_int (min a b) \<le> of_int a + of_int (b - a) * f"
  proof (cases "a \<le> b")
    case True
    then have "0 \<le> of_int (b - a) * f" using f by simp
    then show ?thesis using True by simp
  next
    case False
    then have "of_int (b - a) * 1 \<le> of_int (b - a) * f"
      using f by (intro mult_left_mono_neg) simp_all
    moreover have "of_int a + of_int (b - a) * 1 = (of_int b :: rat)" by simp
    ultimately have "of_int b \<le> of_int a + of_int (b - a) * f" by linarith
    then show ?thesis using False by (simp only: min_def if_False)
  qed
  have hi: "of_int a + of_int (b - a) * f \<le> of_int (max a b)"
  proof (cases "a \<le> b")
    case True
    then have "of_int (b - a) * f \<le> of_int (b - a) * 1" using f by (intro mult_left_mono) simp_all
    moreover have "of_int a + of_int (b - a) * 1 = (of_int b :: rat)" by simp
    ultimately have "of_int a + of_int (b - a) * f \<le> of_int b" by linarith
    then show ?thesis using True by (simp only: max_def if_True)
  next
    case False
    then have "of_int (b - a) * f \<le> 0" using f by (simp add: mult_nonpos_nonneg)
    then show ?thesis using False by simp
  qed
  show "min (xs ! nat \<lfloor>pos\<rfloor>) (xs ! Suc (nat \<lfloor>pos\<rfloor>)) \<le> interpolate xs pos"
    using py_int_between(1) [OF lo hi] v by (simp add: a_def b_def i_def)
  show "interpolate xs pos \<le> max (xs ! nat \<lfloor>pos\<rfloor>) (xs ! Suc (nat \<lfloor>pos\<rfloor>))"
    using py_int_between(2) [OF lo hi] v by (simp add: a_def b_def i_def)
qed

lemma pos_index:
  assumes "0 \<le> pos" "pos < of_int (int (length xs) - 1)"
  shows "Suc (nat \<lfloor>pos\<rfloor>) < length xs"
proof -
  have "\<lfloor>pos\<rfloor> < int (length xs) - 1" using assms(2) by (simp add: floor_less_iff)
  moreover have "0 \<le> \<lfloor>pos\<rfloor>" using assms(1) by simp
  moreover have "Suc (nat k) < n" if "0 \<le> k" "k < int n - 1" for k n using that by arith
  ultimately show ?thesis by blast
qed

lemma interpolate_fits:
  assumes "list_all fits16 xs" "0 \<le> pos" "pos < of_int (int (length xs) - 1)"
  shows "fits16 (interpolate xs pos)"
proof -
  note i = pos_index [OF assms(2,3)]
  have "fits16 (xs ! nat \<lfloor>pos\<rfloor>)" "fits16 (xs ! Suc (nat \<lfloor>pos\<rfloor>))"
    using assms(1) i by (auto simp: list_all_length)
  then show ?thesis using interpolate_between [OF assms(2) i] unfolding fits16_def min_def max_def
    by (auto split: if_splits)
qed

section \<open>The output loop\<close>

lemma resample_loop_more:
  "0 < step \<Longrightarrow> pos < of_int (int (length xs) - 1) \<Longrightarrow>
   resample_loop step xs pos = (interpolate xs pos # fst (resample_loop step xs (pos + step)),
     snd (resample_loop step xs (pos + step)))"
  by (subst resample_loop.simps) (simp only: simp_thms if_True split_beta)

lemma resample_loop_stop:
  "\<not> pos < of_int (int (length xs) - 1) \<Longrightarrow> resample_loop step xs pos = ([], pos)"
  by (subst resample_loop.simps) (simp only: simp_thms if_False)

lemma resample_loop_fits:
  "list_all fits16 xs \<Longrightarrow> 0 \<le> pos \<Longrightarrow> 0 < step \<Longrightarrow>
   list_all fits16 (fst (resample_loop step xs pos))"
proof (induction step xs pos rule: resample_loop.induct)
  case (1 step xs pos)
  show ?case
  proof (cases "pos < of_int (int (length xs) - 1)")
    case True
    have "list_all fits16 (fst (resample_loop step xs (pos + step)))" using 1 True by simp
    then show ?thesis using interpolate_fits [OF 1(2,3) True]
      by (simp only: resample_loop_more [OF 1(4) True] fst_conv list.pred_inject simp_thms)
  next
    case False
    then show ?thesis by (simp only: resample_loop_stop [OF False] fst_conv list.pred_inject)
  qed
qed

lemma resample_loop_pos:
  "0 < step \<Longrightarrow> of_int (int (length xs) - 1) \<le> snd (resample_loop step xs pos)
     \<and> pos \<le> snd (resample_loop step xs pos)"
proof (induction step xs pos rule: resample_loop.induct)
  case (1 step xs pos)
  show ?case
  proof (cases "pos < of_int (int (length xs) - 1)")
    case True
    have "of_int (int (length xs) - 1) \<le> snd (resample_loop step xs (pos + step))
       \<and> pos + step \<le> snd (resample_loop step xs (pos + step))" using 1 True by simp
    then show ?thesis using 1(2)
      unfolding resample_loop_more [OF 1(2) True] snd_conv by linarith
  next
    case False
    then show ?thesis unfolding resample_loop_stop [OF False] snd_conv by linarith
  qed
qed

lemma interpolate_shift:
  assumes "of_nat (length zs) \<le> pos"
  shows "interpolate (zs @ ws) pos = interpolate ws (pos - of_nat (length zs))"
proof -
  have f: "\<lfloor>pos - of_nat (length zs)\<rfloor> = \<lfloor>pos\<rfloor> - int (length zs)"
    using floor_diff_of_int [of pos "int (length zs)"] by simp
  have ge: "int (length zs) \<le> \<lfloor>pos\<rfloor>" using assms by (simp add: le_floor_iff)
  have "(0::rat) \<le> of_nat (length zs)" by simp
  then have "0 \<le> pos" using assms by linarith
  have n: "nat \<lfloor>pos\<rfloor> = length zs + nat (\<lfloor>pos\<rfloor> - int (length zs))" using ge by simp
  have "(of_nat (nat \<lfloor>pos\<rfloor>) :: rat) = of_nat (length zs) + of_nat (nat (\<lfloor>pos\<rfloor> - int (length zs)))"
    by (simp only: n of_nat_add)
  then show ?thesis using \<open>0 \<le> pos\<close> assms
    by (simp add: interpolate_def Let_def py_int_def f n nth_append algebra_simps)
qed

lemma interpolate_prefix:
  assumes "0 \<le> pos" "pos < of_int (int (length xs) - 1)"
  shows "interpolate (xs @ ys) pos = interpolate xs pos"
  using pos_index [OF assms] assms(1)
  by (simp add: interpolate_def Let_def py_int_def nth_append)

lemma resample_loop_shift:
  "of_nat (length zs) \<le> pos \<Longrightarrow> 0 < step \<Longrightarrow>
   resample_loop step (zs @ ws) pos =
     (fst (resample_loop step ws (pos - of_nat (length zs))),
      snd (resample_loop step ws (pos - of_nat (length zs))) + of_nat (length zs))"
proof (induction step "zs @ ws" pos rule: resample_loop.induct)
  case (1 step pos)
  have g: "pos < of_int (int (length (zs @ ws)) - 1) \<longleftrightarrow>
      pos - of_nat (length zs) < of_int (int (length ws) - 1)" by auto
  show ?case
  proof (cases "pos < of_int (int (length (zs @ ws)) - 1)")
    case True
    have ge: "of_nat (length zs) \<le> pos + step" using 1(2,3) by linarith
    have ih: "resample_loop step (zs @ ws) (pos + step) =
       (fst (resample_loop step ws (pos + step - of_nat (length zs))),
        snd (resample_loop step ws (pos + step - of_nat (length zs))) + of_nat (length zs))"
      by (rule 1(1) [OF conjI [OF 1(3) True] ge 1(3)])
    have e: "pos + step - of_nat (length zs) = pos - of_nat (length zs) + step" by simp
    have T2: "pos - of_nat (length zs) < of_int (int (length ws) - 1)" using True g by blast
    show ?thesis
      by (simp only: resample_loop_more [OF 1(3) True] ih resample_loop_more [OF 1(3) T2]
          e fst_conv snd_conv interpolate_shift [OF 1(2)])
  next
    case False
    then have F2: "\<not> pos - of_nat (length zs) < of_int (int (length ws) - 1)" using g by blast
    show ?thesis
      by (simp only: resample_loop_stop [OF False] resample_loop_stop [OF F2] fst_conv snd_conv diff_add_cancel)
  qed
qed

text \<open>Running the loop over a longer input is running it twice, with the position carried over.\<close>

lemma resample_loop_append:
  "xs \<noteq> [] \<Longrightarrow> 0 \<le> pos \<Longrightarrow> 0 < step \<Longrightarrow>
   resample_loop step xs pos = (o1, p1) \<Longrightarrow>
   resample_loop step (last xs # ys) (p1 - of_nat (length xs - 1)) = (o2, p2) \<Longrightarrow>
   resample_loop step (xs @ ys) pos = (o1 @ o2, p2 + of_nat (length xs - 1))"
proof (induction step xs pos arbitrary: o1 rule: resample_loop.induct)
  case (1 step xs pos)
  have L: "of_int (int (length xs) - 1) = (of_nat (length xs - 1) :: rat)"
    using 1(2) by (cases xs) simp_all
  show ?case
  proof (cases "pos < of_int (int (length xs) - 1)")
    case True
    have "(0::rat) \<le> of_nat (length ys)" by simp
    then have T2: "pos < of_int (int (length (xs @ ys)) - 1)"
      using True by simp
    obtain o1' p1' where r: "resample_loop step xs (pos + step) = (o1', p1')" by fastforce
    have o1: "o1 = interpolate xs pos # o1'" and p1: "p1' = p1"
      using 1(5) by (simp_all add: resample_loop_more [OF 1(4) True] r)
    have nn: "0 \<le> pos + step" using 1(3,4) by simp
    have ih: "resample_loop step (xs @ ys) (pos + step) = (o1' @ o2, p2 + of_nat (length xs - 1))"
      by (rule 1(1) [OF conjI [OF 1(4) True] 1(2) nn 1(4) r [unfolded p1] 1(6)])
    show ?thesis
      by (simp only: resample_loop_more [OF 1(4) T2] ih fst_conv snd_conv o1
          interpolate_prefix [OF 1(3) True] append_Cons)
  next
    case False
    have r: "o1 = []" "p1 = pos" using 1(5) unfolding resample_loop_stop [OF False] by simp_all
    have x: "xs @ ys = butlast xs @ (last xs # ys)" using 1(2) by simp
    have bl: "of_nat (length (butlast xs)) = (of_nat (length xs - 1) :: rat)" by simp
    have "of_nat (length (butlast xs)) \<le> pos" using False unfolding bl L by (simp only: not_less)
    from resample_loop_shift [OF this 1(4), of "last xs # ys"]
    show ?thesis by (simp only: x bl r(1) append_Nil 1(6) [unfolded r(2)] fst_conv snd_conv)
  qed
qed

section \<open>The resampler over a stream\<close>

definition rs_wf :: "resampler \<Rightarrow> bool" where
  "rs_wf r \<longleftrightarrow> 0 < rs_step r \<and> 0 \<le> rs_pos r \<and> pred_option fits16 (rs_last r) \<and> length (rs_odd r) \<le> 1"

lemma rs_wf_new: "new_resampler s d = Inr r \<Longrightarrow> rs_wf r"
  by (auto simp: new_resampler_def rs_wf_def split: if_splits)

text \<open>The even-length part of a buffer, and the odd byte left over.\<close>

definition even_part :: "bytes \<Rightarrow> bytes" where
  "even_part bs = (if odd (length bs) then butlast bs else bs)"

definition odd_part :: "bytes \<Rightarrow> bytes" where
  "odd_part bs = (if odd (length bs) then [last bs] else [])"

lemma even_odd_part: "bs = even_part bs @ odd_part bs"
  by (cases "bs = []") (auto simp: even_part_def odd_part_def)

lemma even_length_even_part: "even (length (even_part bs))"
  by (auto simp: even_part_def)

lemma odd_part_length: "length (odd_part bs) \<le> 1"
  by (simp add: odd_part_def)

lemma samples_even_part: "samples (even_part bs) = samples bs"
proof -
  have "samples (even_part bs @ odd_part bs) = samples (even_part bs) @ samples (odd_part bs)"
    by (rule samples_append [OF even_length_even_part])
  moreover have "samples (odd_part bs) = []" by (simp add: odd_part_def)
  ultimately show ?thesis using even_odd_part [of bs] by simp
qed

lemma parts_even:
  "even (length a) \<Longrightarrow> even_part (a @ b) = a @ even_part b"
  "even (length a) \<Longrightarrow> odd_part (a @ b) = odd_part b"
  by (cases "b = []"; simp add: even_part_def odd_part_def butlast_append)+

lemma parts_append:
  "even_part (a @ b) = even_part a @ even_part (odd_part a @ b)"
  "odd_part (a @ b) = odd_part (odd_part a @ b)"
proof -
  have e: "a @ b = even_part a @ (odd_part a @ b)"
    by (simp only: append_assoc [symmetric] even_odd_part [symmetric])
  note p = parts_even [OF even_length_even_part, of a "odd_part a @ b"]
  show "even_part (a @ b) = even_part a @ even_part (odd_part a @ b)"
    by (subst e) (rule p(1))
  show "odd_part (a @ b) = odd_part (odd_part a @ b)"
    by (subst e) (rule p(2))
qed

text \<open>\<open>stream_state step B r\<close>: \<open>r\<close> is the state after the bytes \<open>B\<close>, however they were cut.\<close>

definition stream_state :: "rat \<Rightarrow> bytes \<Rightarrow> resampler \<Rightarrow> bool" where
  "stream_state step B r \<longleftrightarrow>
     rs_step r = step \<and> \<not> rs_same r \<and> rs_odd r = odd_part B \<and>
     (if samples B = [] then rs_last r = None \<and> rs_pos r = 0
      else rs_last r = Some (last (samples B)) \<and>
           rs_pos r = snd (resample_loop step (samples B) 0) - of_nat (length (samples B) - 1))"

lemma process_unfold:
  assumes "chunk \<noteq> []" "\<not> rs_same r"
  shows "resample_process chunk r =
    (let data = even_part (rs_odd r @ chunk); r1 = r\<lparr>rs_odd := odd_part (rs_odd r @ chunk)\<rparr>
     in if data = [] then (Inr data, r1)
        else let xs = (case rs_last r of None \<Rightarrow> samples data | Some l \<Rightarrow> l # samples data)
             in (case resample_loop (rs_step r) xs (rs_pos r) of
                   (out, pos) \<Rightarrow> (pack_samples out,
                      r1\<lparr>rs_pos := pos - of_int (int (length xs) - 1), rs_last := Some (last xs)\<rparr>)))"
  using assms by (simp add: resample_process_def Let_def even_part_def odd_part_def)

lemma pack_fits: "list_all fits16 xs \<Longrightarrow> \<exists>bs. pack_samples xs = Inr bs \<and> samples bs = xs"
  using samples_pack [of xs] by (auto simp: pack_samples_def)

lemma process_step:
  assumes st: "stream_state step B r" and pos: "0 < step" and ne: "chunk \<noteq> []"
  shows "\<exists>out r'. resample_process chunk r = (Inr out, r') \<and> stream_state step (B @ chunk) r' \<and>
    fst (resample_loop step (samples (B @ chunk)) 0)
      = fst (resample_loop step (samples B) 0) @ samples out"
proof -
  define D where "D = even_part (odd_part B @ chunk)"
  have odd: "rs_odd r = odd_part B" and same: "\<not> rs_same r" and stp: "rs_step r = step"
    using st by (auto simp: stream_state_def)
  have S: "samples (B @ chunk) = samples B @ samples D"
    using parts_append(1) [of B chunk] samples_append [OF even_length_even_part, of B D]
    by (metis D_def samples_even_part)
  have O: "odd_part (odd_part B @ chunk) = odd_part (B @ chunk)" by (simp add: parts_append(2) [of B])
  note pu = process_unfold [OF ne same, unfolded odd O D_def [symmetric] Let_def stp]
  show ?thesis
  proof (cases "D = []")
    case True
    then show ?thesis using st S pu by (auto simp: stream_state_def)
  next
    case False
    have "even (length D)" unfolding D_def by (rule even_length_even_part)
    then obtain a b D' where "D = a # b # D'" using False by (cases D rule: samples.cases) auto
    then have ne': "samples D \<noteq> []" by simp
    show ?thesis
    proof (cases "samples B = []")
      case True
      obtain out p where l: "resample_loop step (samples D) 0 = (out, p)" by fastforce
      obtain bs where bs: "pack_samples out = Inr bs" "samples bs = out"
        using pack_fits resample_loop_fits [OF samples_fit order_refl pos, of D] l by auto
      have e: "resample_loop step [] 0 = ([], 0)" by (subst resample_loop.simps) simp
      show ?thesis using pu st True False l bs S e ne'
        by (auto simp: stream_state_def of_nat_diff Suc_leI)
    next
      case Bne: False
      define L where "L = length (samples B) - 1"
      obtain o1 p1 where l1: "resample_loop step (samples B) 0 = (o1, p1)" by fastforce
      have rl: "rs_last r = Some (last (samples B))" and rp: "rs_pos r = p1 - of_nat L"
        using st Bne l1 by (simp_all add: stream_state_def L_def)
      obtain o2 p2 where l2: "resample_loop step (last (samples B) # samples D) (p1 - of_nat L) = (o2, p2)"
        by fastforce
      have "of_nat L \<le> p1" using resample_loop_pos [OF pos, of "samples B" 0] l1 Bne
        by (cases "samples B") (simp_all add: L_def)
      then have p0: "0 \<le> p1 - of_nat L" by simp
      have "list_all fits16 (last (samples B) # samples D)"
        using samples_fit [of B] samples_fit [of D] Bne by (simp add: list_all_iff)
      then obtain bs where bs: "pack_samples o2 = Inr bs" "samples bs = o2"
        using pack_fits resample_loop_fits [OF _ p0 pos] l2 by fastforce
      have whole: "resample_loop step (samples B @ samples D) 0 = (o1 @ o2, p2 + of_nat L)"
        using resample_loop_append [OF Bne order_refl pos l1 l2 [unfolded L_def]] by (simp add: L_def)
      have len: "p2 - of_int (int (length (last (samples B) # samples D)) - 1)
          = p2 + of_nat L - of_nat (length (samples B @ samples D) - 1)"
        using Bne by (cases "samples B") (simp_all add: L_def)
      let ?r' = "r\<lparr>rs_odd := odd_part (B @ chunk),
         rs_pos := p2 - of_int (int (length (last (samples B) # samples D)) - 1),
         rs_last := Some (last (last (samples B) # samples D))\<rparr>"
      have "resample_process chunk r = (Inr bs, ?r')"
        using pu False by (simp add: rl rp l2 bs)
      moreover have "stream_state step (B @ chunk) ?r'"
        using S whole len ne' Bne same stp by (simp add: stream_state_def)
      ultimately show ?thesis using whole S l1 bs(2) by simp
    qed
  qed
qed

fun resample_all :: "bytes list \<Rightarrow> resampler \<Rightarrow> py_exn + bytes" where
  "resample_all [] r = Inr []"
| "resample_all (c # cs) r =
     (case resample_process c r of (res, r') \<Rightarrow>
        bind_sum res (\<lambda>out. bind_sum (resample_all cs r') (\<lambda>rest. Inr (out @ rest))))"

lemma resample_all_stream:
  "stream_state step B r \<Longrightarrow> 0 < step \<Longrightarrow>
   \<exists>out. resample_all cs r = Inr out \<and> even (length out) \<and>
     fst (resample_loop step (samples (B @ concat cs)) 0)
       = fst (resample_loop step (samples B) 0) @ samples out"
proof (induction cs arbitrary: B r)
  case Nil
  then show ?case by simp
next
  case (Cons c cs)
  show ?case
  proof (cases "c = []")
    case True
    have "resample_all (c # cs) r = resample_all cs r"
      by (simp add: True resample_process_def bind_sum_Inr_right)
    then show ?thesis using Cons.IH [OF Cons.prems] by (simp add: True)
  next
    case False
    obtain out r' where p: "resample_process c r = (Inr out, r')" "stream_state step (B @ c) r'"
      "fst (resample_loop step (samples (B @ c)) 0) = fst (resample_loop step (samples B) 0) @ samples out"
      using process_step [OF Cons.prems False] by blast
    have ev: "even (length out)"
    proof -
      have "\<not> rs_same r" using Cons.prems by (simp add: stream_state_def)
      then show ?thesis using p(1) False
        by (auto simp: process_unfold Let_def dest: length_pack_samples split: if_splits prod.splits)
    qed
    obtain rest where "resample_all cs r' = Inr rest" "even (length rest)"
      "fst (resample_loop step (samples ((B @ c) @ concat cs)) 0)
         = fst (resample_loop step (samples (B @ c)) 0) @ samples rest"
      using Cons.IH [OF p(2) Cons.prems(2)] by blast
    then show ?thesis using p ev by (simp add: samples_append)
  qed
qed

text \<open>
  Refinement: over any cutting of the input, the resampler at differing rates produces exactly the
  packed output of one loop over the whole input, and never raises.
\<close>

lemma resample_all_spec:
  assumes "new_resampler s d = Inr r" "s \<noteq> d"
  shows "\<exists>out. resample_all cs r = Inr out \<and>
    pack_samples (fst (resample_loop (of_int s / of_int d) (samples (concat cs)) 0)) = Inr out"
proof -
  have st: "stream_state (of_int s / of_int d) [] r" and "0 < (of_int s / of_int d :: rat)"
    using assms by (auto simp: new_resampler_def stream_state_def odd_part_def split: if_splits)
  moreover have "resample_loop (of_int s / of_int d) [] 0 = ([], 0)"
    by (subst resample_loop.simps) simp
  ultimately obtain out where "resample_all cs r = Inr out" "even (length out)"
    "fst (resample_loop (of_int s / of_int d) (samples (concat cs)) 0) = samples out"
    using resample_all_stream [OF st, of cs] by auto
  then show ?thesis using pack_samples_of_samples by auto
qed

text \<open>At equal rates the stream passes through, less an odd byte at the very end.\<close>

lemma resample_all_same:
  "rs_same r \<Longrightarrow> length (rs_odd r) \<le> 1 \<Longrightarrow>
   resample_all cs r = Inr (even_part (rs_odd r @ concat cs)) \<or> (cs = [] \<or> concat cs = [])"
proof (induction cs arbitrary: r)
  case Nil
  then show ?case by simp
next
  case (Cons c cs)
  define B where "B = rs_odd r @ c"
  show ?case
  proof (cases "c = []")
    case True
    then show ?thesis using Cons.IH [OF Cons.prems]
      by (auto simp: resample_process_def)
  next
    case False
    have p: "resample_process c r = (Inr (even_part B), r\<lparr>rs_odd := odd_part B\<rparr>)"
      using False Cons.prems by (simp add: resample_process_def Let_def even_part_def odd_part_def B_def)
    have rest: "resample_all cs (r\<lparr>rs_odd := odd_part B\<rparr>) = Inr (even_part (odd_part B @ concat cs))"
      if "concat cs \<noteq> []"
      using Cons.IH [of "r\<lparr>rs_odd := odd_part B\<rparr>"] Cons.prems odd_part_length that by auto
    have none: "resample_all cs r' = Inr []" if "concat cs = []" for r'
      using that by (induction cs arbitrary: r') (auto simp: resample_process_def)
    show ?thesis
    proof (cases "concat cs = []")
      case True
      then have "B @ concat cs = B" "rs_odd r @ concat (c # cs) = B" by (simp_all add: B_def)
      then show ?thesis using True by (simp only: resample_all.simps p none split bind_sum_simps append_Nil2 simp_thms)
    next
      case ne: False
      have "even_part (B @ concat cs) = even_part B @ even_part (odd_part B @ concat cs)"
        by (rule parts_append)
      moreover have "rs_odd r @ concat (c # cs) = B @ concat cs" by (simp add: B_def)
      ultimately show ?thesis by (simp only: resample_all.simps p rest [OF ne] prod.case bind_sum_simps simp_thms)
    qed
  qed
qed

end
