(* ===== verification/TtsEngines.thy ===== *)
theory TtsEngines
  imports LlmEngines TtsConsumer Resampler
begin

text \<open>
  The speech adapters: \<^verbatim>\<open>app/tts/providers/elevenlabs_engine.py\<close>, \<^verbatim>\<open>openai_tts_engine.py\<close>, \<^verbatim>\<open>polly_engine.py\<close> and the
  mock of \<^verbatim>\<open>app/tts/streaming_engine.py\<close>. What a provider answers is an argument, as in \<^verbatim>\<open>LlmEngines\<close>: the chunks of the
  body and how it ends. The lemmas show that the frames an engine yields do not depend on how the network cuts the
  audio: they are the whole audio in frames of one size, the last one filled up with silence.
\<close>

section \<open>Metrics\<close>

record audio_metrics =
  time_to_first_audio_ms :: pyfloat
  total_audio_ms :: pyfloat
  frame_count :: nat
  frames_per_second :: pyfloat

definition stream_metrics :: "pyfloat \<Rightarrow> pyfloat option \<Rightarrow> pyfloat \<Rightarrow> nat \<Rightarrow> audio_metrics" where
  "stream_metrics start first now frames =
     (let total_ms = (now - start) * 1000
      in \<lparr>time_to_first_audio_ms = (case first of Some t \<Rightarrow> if t \<noteq> 0 then (t - start) * 1000 else 0 | None \<Rightarrow> 0),
          total_audio_ms = total_ms, frame_count = frames,
          frames_per_second = (if total_ms > 0 then of_nat frames / (total_ms / 1000) else 0)\<rparr>)"

definition audio_metrics_to_dict :: "audio_metrics \<Rightarrow> audio_metrics" where
  "audio_metrics_to_dict m =
     \<lparr>time_to_first_audio_ms = py_round_to 2 (time_to_first_audio_ms m), total_audio_ms = py_round_to 2 (total_audio_ms m),
      frame_count = frame_count m, frames_per_second = py_round_to 2 (frames_per_second m)\<rparr>"

section \<open>Frames from a body\<close>

text \<open>\<^verbatim>\<open>buffer.ljust(n, b"\x00")[:n]\<close>\<close>

definition pad_frame :: "int \<Rightarrow> bytes \<Rightarrow> bytes" where
  "pad_frame n buf = take (nat n) (buf @ replicate (nat n - length buf) 0)"

text \<open>The loop over the chunks: \<open>conv\<close> is what is made of a chunk before it is framed.\<close>

fun frame_stream ::
  "(bytes \<Rightarrow> 'r \<Rightarrow> (py_exn + bytes) \<times> 'r) \<Rightarrow> int \<Rightarrow> 'r \<Rightarrow> bytes \<Rightarrow> bytes list \<Rightarrow> stream_end \<Rightarrow> bytes list \<times> stream_end"
where
  "frame_stream conv n r buf [] fin = (if fin = StreamDone \<and> buf \<noteq> [] then [pad_frame n buf] else [], fin)"
| "frame_stream conv n r buf (c # cs) fin =
     (if c = [] then frame_stream conv n r buf cs fin
      else case conv c r of
             (Inl e, r') \<Rightarrow> ([], StreamRaises)
           | (Inr out, r') \<Rightarrow>
               (case chunk_pcm_bytes (buf @ out) n of (frames, rest) \<Rightarrow>
                  (case frame_stream conv n r' rest cs fin of (fs, e) \<Rightarrow> (frames @ fs, e))))"

section \<open>ElevenLabs\<close>

record elevenlabs_engine =
  ee_api_key :: ustr
  ee_voice_id :: ustr
  ee_model :: ustr
  ee_frame_bytes :: int

definition new_elevenlabs_engine :: "app_settings \<Rightarrow> ustr \<Rightarrow> ustr \<Rightarrow> elevenlabs_engine" where
  "new_elevenlabs_engine s key voice =
     \<lparr>ee_api_key = key, ee_voice_id = voice, ee_model = ELEVENLABS_MODEL s, ee_frame_bytes = VOICE_PCM_FRAME_BYTES s\<rparr>"

definition elevenlabs_call :: "elevenlabs_engine \<Rightarrow> ustr \<Rightarrow> http_call" where
  "elevenlabs_call eng text_in =
     \<lparr>hc_url = u ''https://api.elevenlabs.io/v1/text-to-speech/'' @ ee_voice_id eng @ u ''/stream''
        @ u ''?output_format=pcm_16000&optimize_streaming_latency=3'',
      hc_headers = [(u ''xi-api-key'', ee_api_key eng), (u ''Content-Type'', u ''application/json'')],
      hc_body = JObj [text_json ''text'' text_in, text_json ''model_id'' (ee_model eng)]\<rparr>"

definition plain_chunk :: "bytes \<Rightarrow> unit \<Rightarrow> (py_exn + bytes) \<times> unit" where
  "plain_chunk c r = (Inr c, r)"

definition elevenlabs_stream :: "elevenlabs_engine \<Rightarrow> bytes http_reply \<Rightarrow> bytes list \<times> stream_end" where
  "elevenlabs_stream eng = streamed (frame_stream plain_chunk (ee_frame_bytes eng) () [])"

section \<open>OpenAI speech\<close>

definition OPENAI_PCM_SAMPLE_RATE :: int where
  "OPENAI_PCM_SAMPLE_RATE = 24000"

record openai_tts_engine =
  te_api_key :: ustr
  te_voice :: ustr
  te_model :: ustr
  te_api_base :: ustr
  te_frame_bytes :: int

definition new_openai_tts_engine :: "app_settings \<Rightarrow> ustr \<Rightarrow> ustr option \<Rightarrow> openai_tts_engine" where
  "new_openai_tts_engine s key voice =
     \<lparr>te_api_key = key, te_voice = or_str voice (or_str (VOICE_TTS_VOICE_ID s) (u ''alloy'')), te_model = VOICE_TTS_MODEL s,
      te_api_base = rstrip_slash (OPENAI_API_BASE s), te_frame_bytes = VOICE_PCM_FRAME_BYTES s\<rparr>"

definition openai_tts_call :: "openai_tts_engine \<Rightarrow> ustr \<Rightarrow> http_call" where
  "openai_tts_call eng text_in =
     \<lparr>hc_url = te_api_base eng @ u ''/audio/speech'',
      hc_headers = [(u ''Authorization'', u ''Bearer '' @ te_api_key eng), (u ''Content-Type'', u ''application/json'')],
      hc_body = JObj [text_json ''model'' (te_model eng), text_json ''input'' text_in, text_json ''voice'' (te_voice eng),
                      text_json ''response_format'' (u ''pcm'')]\<rparr>"

definition openai_tts_stream :: "int \<Rightarrow> openai_tts_engine \<Rightarrow> bytes http_reply \<Rightarrow> bytes list \<times> stream_end" where
  "openai_tts_stream sample_rate eng =
     streamed (\<lambda>cs fin. case new_resampler OPENAI_PCM_SAMPLE_RATE sample_rate of
       Inl e \<Rightarrow> ([], StreamRaises)
     | Inr r \<Rightarrow> frame_stream resample_process (te_frame_bytes eng) r [] cs fin)"

section \<open>Polly\<close>

record polly_engine =
  pe_voice_id :: ustr
  pe_engine :: ustr
  pe_sample_rate :: int
  pe_frame_bytes :: nat

definition new_polly_engine :: "app_settings \<Rightarrow> ustr option \<Rightarrow> exn + polly_engine" where
  "new_polly_engine s voice =
     (let rate = VOICE_SAMPLE_RATE s
      in if rate \<noteq> 8000 \<and> rate \<noteq> 16000 then Inl (value_error (u ''Polly PCM output supports 8000 or 16000 Hz''))
         else Inr \<lparr>pe_voice_id = or_str voice (POLLY_VOICE_ID s), pe_engine = POLLY_ENGINE s, pe_sample_rate = rate,
                   pe_frame_bytes = nat (rate * VOICE_FRAME_MS s div 1000) * 2\<rparr>)"

text \<open>One read of the worker: the bytes that are not a whole frame yet are kept.\<close>

definition polly_work :: "nat \<Rightarrow> bytes \<Rightarrow> bytes \<Rightarrow> (bytes \<times> bytes list) option" where
  "polly_work n pending chunk = (case chunk_frames n (pending @ chunk) of (fs, rest) \<Rightarrow> Some (rest, fs))"

definition polly_finish :: "nat \<Rightarrow> bytes \<Rightarrow> bytes list" where
  "polly_finish n pending = (if pending = [] then [] else [pending @ replicate (n - length pending) 0])"

text \<open>A finished run of the two threads; the source is the body, read in chunks that are not empty.\<close>

definition polly_run :: "polly_engine \<Rightarrow> bytes list \<Rightarrow> source_end \<Rightarrow> bytes list \<times> stream_end \<Rightarrow> bool" where
  "polly_run eng chunks src st \<longleftrightarrow>
     (\<exists>r. thread_run (polly_work (pe_frame_bytes eng)) (polly_finish (pe_frame_bytes eng)) (new_thread [] chunks src) r
        \<and> th_reader r = Some (snd st) \<and> fst st = th_out r)"

section \<open>The mock\<close>

record mock_tts =
  mt_sample_rate :: int
  mt_frame_size :: nat

definition new_mock_tts :: "int \<Rightarrow> int \<Rightarrow> mock_tts" where
  "new_mock_tts sample_rate frame_duration_ms =
     \<lparr>mt_sample_rate = sample_rate, mt_frame_size = nat (sample_rate * frame_duration_ms div 1000) * 2\<rparr>"

definition tone_sample :: "int \<Rightarrow> nat \<Rightarrow> int" where
  "tone_sample rate i = py_int (1000 * sin (2 * pi * 200 * real i / real_of_int rate))"

definition make_frame :: "mock_tts \<Rightarrow> bool \<Rightarrow> py_exn + bytes" where
  "make_frame m use_tone =
     (let n = mt_frame_size m div 2
      in if use_tone then pack_samples (map (tone_sample (mt_sample_rate m)) [0..<n]) else Inr (replicate (mt_frame_size m) 0))"

definition text_words :: "ustr \<Rightarrow> ustr list" where
  "text_words t = map (takeWhile (\<lambda>c. \<not> py_space c)) (word_tokens t)"

definition word_frames :: "ustr \<Rightarrow> bool list" where
  "word_frames w = map (\<lambda>fi. fi mod 2 = 1) [0..<max 1 (2 + length w div 2)]"

definition frame_kinds :: "ustr \<Rightarrow> bool list" where
  "frame_kinds t = (let ws = text_words t in concat (map word_frames (if ws = [] then [u ''(silence)''] else ws)))"

fun all_made :: "(py_exn + 'a) list \<Rightarrow> py_exn + 'a list" where
  "all_made [] = Inr []"
| "all_made (x # xs) = bind_sum x (\<lambda>v. bind_sum (all_made xs) (\<lambda>vs. Inr (v # vs)))"

text \<open>The whole stream, when nothing cancels it.\<close>

definition mock_tts_stream :: "mock_tts \<Rightarrow> ustr \<Rightarrow> py_exn + bytes list" where
  "mock_tts_stream m t = all_made (map (make_frame m) (frame_kinds t))"

section \<open>Lemmas: framing\<close>

text \<open>The reference: the whole audio in frames of one size.\<close>

definition framed :: "int \<Rightarrow> bytes \<Rightarrow> bytes list" where
  "framed n data =
     (case chunk_frames (nat n) data of (fs, rest) \<Rightarrow> fs @ (if rest = [] then [] else [pad_frame n rest]))"

lemma chunk_frames_append:
  assumes "0 < n" "chunk_frames n a = (fs, rest)" "chunk_frames n (rest @ b) = (gs, rest')"
  shows "chunk_frames n (a @ b) = (fs @ gs, rest')"
  using assms
proof (induction n a arbitrary: fs rest rule: chunk_frames.induct)
  case (1 n a)
  show ?case
  proof (cases "n \<le> length a")
    case True
    then obtain fs' where f: "chunk_frames n (drop n a) = (fs', rest)" "fs = take n a # fs'"
      using 1(2,3) by (subst (asm) chunk_frames.simps) (auto split: prod.splits)
    have "chunk_frames n (drop n a @ b) = (fs' @ gs, rest')"
      using 1(1) [OF _ 1(2) f(1) 1(4)] True 1(2) by blast
    then show ?thesis using True 1(2) f(2) by (subst chunk_frames.simps) simp
  next
    case False
    then show ?thesis using 1(2-4) by (subst (asm) chunk_frames.simps) (simp split: if_splits)
  qed
qed

lemma chunk_frames_short: "length a < n \<Longrightarrow> chunk_frames n a = ([], a)"
  by (subst chunk_frames.simps) simp

lemma framed_spec:
  assumes "0 < n"
  shows "\<forall>f\<in>set (framed n data). length f = nat n"
    and "\<exists>k. concat (framed n data) = data @ replicate k 0 \<and> k < nat n"
proof -
  obtain fs rest where c: "chunk_frames (nat n) data = (fs, rest)" by (metis surj_pair)
  note s = chunk_frames_spec [OF _ c]
  show "\<forall>f\<in>set (framed n data). length f = nat n"
    using s assms c by (auto simp: framed_def pad_frame_def)
  show "\<exists>k. concat (framed n data) = data @ replicate k 0 \<and> k < nat n"
  proof (cases "rest = []")
    case True
    then show ?thesis using s assms c by (auto simp: framed_def intro!: exI [of _ 0])
  next
    case False
    then have "concat (framed n data) = data @ replicate (nat n - length rest) 0"
      using s assms c by (auto simp: framed_def pad_frame_def append_eq_conv_conj)
    moreover have "nat n - length rest < nat n" using False assms by (cases rest) auto
    ultimately show ?thesis by blast
  qed
qed

fun convert_all :: "(bytes \<Rightarrow> 'r \<Rightarrow> (py_exn + bytes) \<times> 'r) \<Rightarrow> bytes list \<Rightarrow> 'r \<Rightarrow> py_exn + bytes" where
  "convert_all conv [] r = Inr []"
| "convert_all conv (c # cs) r =
     (case conv c r of (res, r') \<Rightarrow>
        bind_sum res (\<lambda>out. bind_sum (convert_all conv cs r') (\<lambda>rest. Inr (out @ rest))))"

lemma convert_plain: "convert_all plain_chunk cs r = Inr (concat cs)"
  by (induction cs arbitrary: r) (simp_all add: plain_chunk_def)

lemma convert_resample: "convert_all resample_process cs r = resample_all cs r"
  by (induction cs arbitrary: r) (simp_all split: prod.split)

lemma chunk_pcm_frames: "0 < n \<Longrightarrow> chunk_pcm_bytes data n = chunk_frames (nat n) data"
  by (simp add: chunk_pcm_bytes_def)

text \<open>However the body is cut, the frames are those of the whole; when it breaks off, only whole frames were yielded.\<close>

lemma frame_stream_chunks:
  assumes "0 < n" "\<And>r. conv [] r = (Inr [], r)" "convert_all conv cs r = Inr out" "length buf < nat n"
  shows "frame_stream conv n r buf cs fin =
    (if fin = StreamDone then framed n (buf @ out) else fst (chunk_frames (nat n) (buf @ out)), fin)"
  using assms(3,4)
proof (induction cs arbitrary: r out buf)
  case Nil
  then show ?case by (simp add: framed_def chunk_frames_short)
next
  case (Cons c cs)
  show ?case
  proof (cases "c = []")
    case True
    with Cons show ?thesis by (simp add: assms(2) bind_sum_Inr_iff)
  next
    case False
    obtain o1 r' o2 where c: "conv c r = (Inr o1, r')" "convert_all conv cs r' = Inr o2" "out = o1 @ o2"
      using Cons.prems(1) by (auto simp: bind_sum_Inr_iff split: prod.splits)
    obtain fs rest where f: "chunk_frames (nat n) (buf @ o1) = (fs, rest)" by (metis surj_pair)
    have short: "length rest < nat n" using chunk_frames_spec [OF _ f] assms(1) by simp
    obtain gs rest' where g: "chunk_frames (nat n) (rest @ o2) = (gs, rest')" by (metis surj_pair)
    have "chunk_frames (nat n) (buf @ out) = (fs @ gs, rest')"
      using chunk_frames_append [OF _ f g] assms(1) c(3) by simp
    with Cons.IH [OF c(2) short] c(1) f g False assms(1) show ?thesis
      by (simp add: chunk_pcm_frames framed_def)
  qed
qed

lemma elevenlabs_framed:
  assumes "0 < ee_frame_bytes eng" "200 \<le> st" "st < 300"
  shows "elevenlabs_stream eng (Answered st cs StreamDone) = (framed (ee_frame_bytes eng) (concat cs), StreamDone)"
  using frame_stream_chunks [OF assms(1), of plain_chunk cs "()" "concat cs" "[]" StreamDone] assms
  by (simp add: elevenlabs_stream_def streamed_def convert_plain) (simp add: plain_chunk_def)

lemma openai_tts_framed:
  assumes "0 < te_frame_bytes eng" "200 \<le> st" "st < 300" "0 < rate" "rate \<noteq> OPENAI_PCM_SAMPLE_RATE"
  shows "\<exists>audio. pack_samples (fst (resample_loop (24000 / of_int rate) (samples (concat cs)) 0)) = Inr audio
    \<and> openai_tts_stream rate eng (Answered st cs StreamDone) = (framed (te_frame_bytes eng) audio, StreamDone)"
proof -
  obtain r where r: "new_resampler OPENAI_PCM_SAMPLE_RATE rate = Inr r"
    using assms(4) by (auto simp: new_resampler_def OPENAI_PCM_SAMPLE_RATE_def)
  obtain out where out: "resample_all cs r = Inr out"
      "pack_samples (fst (resample_loop (of_int OPENAI_PCM_SAMPLE_RATE / of_int rate) (samples (concat cs)) 0)) = Inr out"
    using resample_all_spec [OF r assms(5) [symmetric]] by blast
  have "frame_stream resample_process (te_frame_bytes eng) r [] cs StreamDone = (framed (te_frame_bytes eng) out, StreamDone)"
    using frame_stream_chunks [OF assms(1), of resample_process cs r out "[]" StreamDone] out(1) assms(1)
    by (simp add: convert_resample resample_process_def)
  with r out(2) assms(2,3) show ?thesis
    by (simp add: openai_tts_stream_def streamed_def OPENAI_PCM_SAMPLE_RATE_def)
qed

section \<open>Lemmas: Polly\<close>

lemma polly_items:
  assumes "0 < n" "length pending < n"
  shows "worker_items (polly_work n) (polly_finish n) pending cs SourceDone = (framed (int n) (pending @ concat cs), StreamDone)"
  using assms(2)
proof (induction cs arbitrary: pending)
  case Nil
  then show ?case by (simp add: polly_finish_def framed_def chunk_frames_short pad_frame_def)
next
  case (Cons c cs)
  obtain fs rest where f: "chunk_frames n (pending @ c) = (fs, rest)" by (metis surj_pair)
  have short: "length rest < n" using chunk_frames_spec [OF assms(1) f] by simp
  obtain gs rest' where g: "chunk_frames n (rest @ concat cs) = (gs, rest')" by (metis surj_pair)
  have "chunk_frames n (pending @ c @ concat cs) = (fs @ gs, rest')"
    using chunk_frames_append [OF assms(1) f g] by simp
  with Cons.IH [OF short] f g show ?case by (simp add: polly_work_def framed_def)
qed

lemma polly_framed:
  assumes "polly_run eng cs SourceDone st" "snd st \<noteq> StreamCancelled" "0 < pe_frame_bytes eng"
  shows "st = (framed (int (pe_frame_bytes eng)) (concat cs), StreamDone)"
proof -
  obtain r where r: "thread_run (polly_work (pe_frame_bytes eng)) (polly_finish (pe_frame_bytes eng)) (new_thread [] cs SourceDone) r"
      "th_reader r = Some (snd st)" "fst st = th_out r"
    using assms(1) by (auto simp: polly_run_def)
  from thread_refines [OF r(1,2) assms(2)] r(3) polly_items [OF assms(3), of "[]" cs] assms(3)
  show ?thesis by (cases st) simp
qed

text \<open>The constructed engine's frames hold whole samples, and at least ten milliseconds of them.\<close>

lemma polly_frame_bytes:
  assumes "new_polly_engine s voice = Inr eng" "VOICE_FRAME_MS s \<in> {10..60}"
  shows "160 \<le> pe_frame_bytes eng" "even (pe_frame_bytes eng)" "pe_sample_rate eng = VOICE_SAMPLE_RATE s"
proof -
  have e: "pe_frame_bytes eng = nat (VOICE_SAMPLE_RATE s * VOICE_FRAME_MS s div 1000) * 2"
      "pe_sample_rate eng = VOICE_SAMPLE_RATE s" "VOICE_SAMPLE_RATE s = 8000 \<or> VOICE_SAMPLE_RATE s = 16000"
    using assms(1) by (auto simp: new_polly_engine_def Let_def split: if_splits)
  then have "80 \<le> VOICE_SAMPLE_RATE s * VOICE_FRAME_MS s div 1000" using assms(2) by auto
  then show "160 \<le> pe_frame_bytes eng" using e(1) by simp
  show "even (pe_frame_bytes eng)" "pe_sample_rate eng = VOICE_SAMPLE_RATE s" using e by simp_all
qed

section \<open>Lemmas: the rate of the audio\<close>

text \<open>ElevenLabs is always asked for 16 kHz, whatever rate the session plays at.\<close>

lemma elevenlabs_rate_fixed:
  "hc_url (elevenlabs_call (new_elevenlabs_engine (s\<lparr>VOICE_SAMPLE_RATE := rate\<rparr>) key voice) t)
     = hc_url (elevenlabs_call (new_elevenlabs_engine s key voice) t)"
  "new_elevenlabs_engine (s\<lparr>VOICE_SAMPLE_RATE := rate\<rparr>) key voice = new_elevenlabs_engine s key voice"
  by (simp_all add: elevenlabs_call_def new_elevenlabs_engine_def)

section \<open>Lemmas: the mock\<close>

lemma tone_fits: "fits16 (tone_sample rate i)"
proof -
  define x :: real where "x = sin (2 * pi * 200 * real i / real_of_int rate)"
  have "-1 \<le> x" "x \<le> 1" by (simp_all add: x_def)
  then have "-1000 \<le> \<lfloor>1000 * x\<rfloor>" "\<lfloor>1000 * x\<rfloor> \<le> 1000" "-1000 \<le> \<lceil>1000 * x\<rceil>" "\<lceil>1000 * x\<rceil> \<le> 1000"
    by linarith+
  then show ?thesis unfolding fits16_def tone_sample_def py_int_def x_def [symmetric] by simp
qed

lemma make_frame_made:
  assumes "even (mt_frame_size m)"
  obtains f where "make_frame m tone = Inr f" "length f = mt_frame_size m"
proof (cases tone)
  case True
  have "list_all fits16 (map (tone_sample (mt_sample_rate m)) [0..<mt_frame_size m div 2])"
    by (simp add: list_all_iff tone_fits)
  then obtain f where f: "pack_samples (map (tone_sample (mt_sample_rate m)) [0..<mt_frame_size m div 2]) = Inr f"
    by (auto simp: pack_samples_def)
  then show thesis using that True length_pack_samples [OF f] assms by (simp add: make_frame_def)
qed (use that in \<open>simp add: make_frame_def\<close>)

lemma all_made_frames:
  assumes "even (mt_frame_size m)"
  shows "\<exists>fs. all_made (map (make_frame m) ks) = Inr fs \<and> length fs = length ks \<and> (\<forall>f\<in>set fs. length f = mt_frame_size m)"
proof (induction ks)
  case (Cons k ks)
  then obtain fs where "all_made (map (make_frame m) ks) = Inr fs" "length fs = length ks"
      "\<forall>f\<in>set fs. length f = mt_frame_size m" by blast
  moreover obtain f where "make_frame m k = Inr f" "length f = mt_frame_size m" using make_frame_made [OF assms] by blast
  ultimately show ?case by simp
qed simp

lemma mock_tts_frames:
  "\<exists>fs. mock_tts_stream (new_mock_tts rate ms) t = Inr fs \<and> fs \<noteq> []
     \<and> (\<forall>f\<in>set fs. length f = nat (rate * ms div 1000) * 2)"
proof -
  have ne: "word_frames w \<noteq> []" for w by (simp add: word_frames_def)
  then have "frame_kinds t \<noteq> []" by (cases "text_words t") (auto simp: frame_kinds_def Let_def)
  then show ?thesis
    using all_made_frames [of "new_mock_tts rate ms" "frame_kinds t"]
    by (auto simp: mock_tts_stream_def new_mock_tts_def)
qed

end
