(* ===== verification/VoiceFactory.thy ===== *)
theory VoiceFactory
  imports TranscribeEngine TtsEngines
begin

text \<open>
  \<^verbatim>\<open>app/voice/factory.py\<close> and \<^verbatim>\<open>app/voice/registry.py\<close>: which engine a session gets for each of its three providers,
  what is refused for missing credentials, and the check of the voice platform at the start of the application
  (\<^verbatim>\<open>lifespan\<close> in \<^verbatim>\<open>app/main.py\<close>). An engine is what its constructor keeps; whether a provider answers is decided by
  the environment.
\<close>

section \<open>Providers\<close>

datatype stt_provider =
  DEEPGRAM | GOOGLE_SPEECH | AZURE_SPEECH | ASSEMBLYAI | OPENAI_REALTIME | AMAZON_TRANSCRIBE

fun stt_provider_value :: "stt_provider \<Rightarrow> ustr" where
  "stt_provider_value DEEPGRAM = u ''deepgram''"
| "stt_provider_value GOOGLE_SPEECH = u ''google_speech''"
| "stt_provider_value AZURE_SPEECH = u ''azure_speech''"
| "stt_provider_value ASSEMBLYAI = u ''assemblyai''"
| "stt_provider_value OPENAI_REALTIME = u ''openai_realtime''"
| "stt_provider_value AMAZON_TRANSCRIBE = u ''amazon_transcribe''"

datatype llm_provider = OPENAI | ANTHROPIC | GEMINI | AZURE_OPENAI | GROQ | XAI | BEDROCK

fun llm_provider_value :: "llm_provider \<Rightarrow> ustr" where
  "llm_provider_value OPENAI = u ''openai''"
| "llm_provider_value ANTHROPIC = u ''anthropic''"
| "llm_provider_value GEMINI = u ''gemini''"
| "llm_provider_value AZURE_OPENAI = u ''azure_openai''"
| "llm_provider_value GROQ = u ''groq''"
| "llm_provider_value XAI = u ''xai''"
| "llm_provider_value BEDROCK = u ''bedrock''"

datatype tts_provider = ELEVENLABS | AZURE_TTS | GOOGLE_TTS | CARTESIA | OPENAI_AUDIO | AMAZON_POLLY

fun tts_provider_value :: "tts_provider \<Rightarrow> ustr" where
  "tts_provider_value ELEVENLABS = u ''elevenlabs''"
| "tts_provider_value AZURE_TTS = u ''azure_tts''"
| "tts_provider_value GOOGLE_TTS = u ''google_tts''"
| "tts_provider_value CARTESIA = u ''cartesia''"
| "tts_provider_value OPENAI_AUDIO = u ''openai_audio''"
| "tts_provider_value AMAZON_POLLY = u ''amazon_polly''"

text \<open>\<^verbatim>\<open>EnumClass(value)\<close>; the text shows a value without quotes in it.\<close>

definition enum_member :: "string \<Rightarrow> ('p \<Rightarrow> ustr) \<Rightarrow> 'p list \<Rightarrow> ustr \<Rightarrow> exn + 'p" where
  "enum_member cls val ps t =
     (case find (\<lambda>p. val p = t) ps of
        Some p \<Rightarrow> Inr p
      | None \<Rightarrow> Inl (value_error (u [CHR 39] @ t @ u ([CHR 39] @ '' is not a valid '' @ cls))))"

definition stt_provider_type :: "ustr \<Rightarrow> exn + stt_provider" where
  "stt_provider_type = enum_member ''STTProviderType'' stt_provider_value
     [DEEPGRAM, GOOGLE_SPEECH, AZURE_SPEECH, ASSEMBLYAI, OPENAI_REALTIME, AMAZON_TRANSCRIBE]"

definition llm_provider_type :: "ustr \<Rightarrow> exn + llm_provider" where
  "llm_provider_type = enum_member ''LLMProviderType'' llm_provider_value
     [OPENAI, ANTHROPIC, GEMINI, AZURE_OPENAI, GROQ, XAI, BEDROCK]"

definition tts_provider_type :: "ustr \<Rightarrow> exn + tts_provider" where
  "tts_provider_type = enum_member ''TTSProviderType'' tts_provider_value
     [ELEVENLABS, AZURE_TTS, GOOGLE_TTS, CARTESIA, OPENAI_AUDIO, AMAZON_POLLY]"

section \<open>Engines\<close>

datatype stt_engine = MockSTT mock_stt | DeepgramSTT ustr | AmazonTranscribeSTT transcribe

datatype llm_engine =
    MockLLM
  | OpenAILLM openai_engine
  | AnthropicLLM anthropic_engine
  | BedrockLLM
  | FailoverLLM llm_engine llm_engine

datatype tts_engine_made =
    MockTTS mock_tts
  | ElevenLabsTTS elevenlabs_engine
  | OpenAITTS openai_tts_engine
  | PollyTTS polly_engine

definition refuse_config :: "string \<Rightarrow> exn + 'a" where
  "refuse_config t = Inl (value_error (u t))"

definition build_stt_engine :: "app_settings \<Rightarrow> exn + stt_engine" where
  "build_stt_engine s =
     (if \<not> given (STT_PROVIDER s) then
        (if voice_mocks_allowed s then Inr (MockSTT (new_mock_stt 3 (1/4) 15 (Some 300)))
         else refuse_config ''STT_PROVIDER must be configured'')
      else bind_sum (stt_provider_type (the (STT_PROVIDER s))) (\<lambda>provider.
        case provider of
          DEEPGRAM \<Rightarrow> if \<not> given (DEEPGRAM_API_KEY s) then refuse_config ''DEEPGRAM_API_KEY is required for Deepgram STT''
                      else Inr (DeepgramSTT (the (DEEPGRAM_API_KEY s)))
        | AMAZON_TRANSCRIBE \<Rightarrow> Inr (AmazonTranscribeSTT (new_transcribe s))
        | p \<Rightarrow> Inl (value_error (u ''Unsupported STT provider: '' @ stt_provider_value p))))"

definition build_single_llm :: "app_settings \<Rightarrow> llm_provider \<Rightarrow> exn + llm_engine" where
  "build_single_llm s provider =
     (case provider of
        OPENAI \<Rightarrow>
          if \<not> given (voice_openai_api_key s) then refuse_config ''VOICE_OPENAI_API_KEY or OPENAI_API_KEY is required''
          else Inr (OpenAILLM (new_openai_engine s (the (voice_openai_api_key s)) None None []))
      | ANTHROPIC \<Rightarrow>
          if \<not> given (ANTHROPIC_API_KEY s) then refuse_config ''ANTHROPIC_API_KEY is required''
          else Inr (AnthropicLLM (new_anthropic_engine s (the (ANTHROPIC_API_KEY s))))
      | AZURE_OPENAI \<Rightarrow>
          if \<not> given (AZURE_OPENAI_ENDPOINT s) \<or> \<not> given (AZURE_OPENAI_API_KEY s)
          then refuse_config ''Azure OpenAI credentials required''
          else let deployment = (if given (AZURE_OPENAI_CHAT_DEPLOYMENT s) then the (AZURE_OPENAI_CHAT_DEPLOYMENT s)
                                 else VOICE_LLM_MODEL s);
                   key = the (AZURE_OPENAI_API_KEY s);
                   api_base = rstrip_slash (the (AZURE_OPENAI_ENDPOINT s)) @ u ''/openai/deployments/'' @ deployment
               in Inr (OpenAILLM (new_openai_engine s key (Some deployment) (Some api_base) [(u ''api-key'', key)]))
      | GROQ \<Rightarrow>
          if \<not> given (GROQ_API_KEY s) then refuse_config ''GROQ_API_KEY is required'' else Inr (OpenAILLM (new_groq_engine s (the (GROQ_API_KEY s))))
      | XAI \<Rightarrow>
          if \<not> given (XAI_API_KEY s) then refuse_config ''XAI_API_KEY is required'' else Inr (OpenAILLM (new_xai_engine s (the (XAI_API_KEY s))))
      | BEDROCK \<Rightarrow> Inr BedrockLLM
      | GEMINI \<Rightarrow> refuse_config ''Gemini voice LLM provider is not yet implemented'')"

definition build_llm_engine :: "app_settings \<Rightarrow> exn + llm_engine" where
  "build_llm_engine s =
     (if \<not> given (LLM_PROVIDER s) then
        (if voice_mocks_allowed s then Inr MockLLM else refuse_config ''LLM_PROVIDER must be configured'')
      else bind_sum (llm_provider_type (the (LLM_PROVIDER s))) (\<lambda>provider.
           bind_sum (build_single_llm s provider) (\<lambda>primary.
             if given (VOICE_LLM_FAILOVER_PROVIDER s) then
               bind_sum (llm_provider_type (the (VOICE_LLM_FAILOVER_PROVIDER s))) (\<lambda>second.
               bind_sum (build_single_llm s second) (\<lambda>failover. Inr (FailoverLLM primary failover)))
             else Inr primary)))"

definition build_tts_engine :: "app_settings \<Rightarrow> ustr option \<Rightarrow> exn + tts_engine_made" where
  "build_tts_engine s voice_id =
     (if \<not> given (TTS_PROVIDER s) then
        (if voice_mocks_allowed s then Inr (MockTTS (new_mock_tts (VOICE_SAMPLE_RATE s) (VOICE_FRAME_MS s)))
         else refuse_config ''TTS_PROVIDER must be configured'')
      else bind_sum (tts_provider_type (the (TTS_PROVIDER s))) (\<lambda>provider.
        let selected_voice = (if given voice_id then voice_id else VOICE_TTS_VOICE_ID s)
        in case provider of
             ELEVENLABS \<Rightarrow>
               if \<not> given (ELEVENLABS_API_KEY s) \<or> \<not> given selected_voice
               then refuse_config ''ELEVENLABS_API_KEY and VOICE_TTS_VOICE_ID are required''
               else Inr (ElevenLabsTTS (new_elevenlabs_engine s (the (ELEVENLABS_API_KEY s)) (the selected_voice)))
           | OPENAI_AUDIO \<Rightarrow>
               if \<not> given (voice_openai_api_key s) then refuse_config ''VOICE_OPENAI_API_KEY or OPENAI_API_KEY is required''
               else Inr (OpenAITTS (new_openai_tts_engine s (the (voice_openai_api_key s)) selected_voice))
           | AMAZON_POLLY \<Rightarrow> map_sum id PollyTTS (new_polly_engine s voice_id)
           | p \<Rightarrow> Inl (value_error (u ''Unsupported TTS provider: '' @ tts_provider_value p))))"

definition provider_name :: "ustr option \<Rightarrow> ustr" where
  "provider_name t = (if given t then the t else u ''mock'')"

definition describe_voice_providers :: "app_settings \<Rightarrow> (ustr \<times> ustr) list" where
  "describe_voice_providers s =
     [(u ''stt'', provider_name (STT_PROVIDER s)), (u ''llm'', provider_name (LLM_PROVIDER s)),
      (u ''tts'', provider_name (TTS_PROVIDER s))]"

section \<open>What an engine streams\<close>

text \<open>
  What the providers answer to one generation: the lines or events of each service, and where a mock is cancelled. A
  failover pair asks the second engine with the answers of \<open>pa_second\<close>.
\<close>

record provider_answers =
  pa_loads :: "ustr \<Rightarrow> json option"
  pa_lines :: "ustr http_reply"
  pa_events :: "json list"
  pa_source :: source_end
  pa_cancelled :: "nat option"

fun llm_engine_stream :: "ustr \<Rightarrow> provider_answers \<Rightarrow> provider_answers \<Rightarrow> llm_engine \<Rightarrow> llm_stream" where
  "llm_engine_stream prompt pa second MockLLM = mock_llm_stream prompt (pa_cancelled pa)"
| "llm_engine_stream prompt pa second (OpenAILLM eng) = openai_stream (pa_loads pa) (pa_lines pa)"
| "llm_engine_stream prompt pa second (AnthropicLLM eng) = anthropic_stream (pa_loads pa) (pa_lines pa)"
| "llm_engine_stream prompt pa second BedrockLLM = bedrock_stream (pa_events pa) (pa_source pa)"
| "llm_engine_stream prompt pa second (FailoverLLM a b) =
     fst (failover_stream (llm_engine_stream prompt pa second a) (Some (llm_engine_stream prompt second pa b)))"

section \<open>The check at the start\<close>

text \<open>What the providers answer to the probe, and the recogniser to being closed: \<open>None\<close>, or the exception raised.\<close>

record provider_probe =
  pb_stt :: "exn option"
  pb_stt_close :: "exn option"
  pb_llm :: "exn option"
  pb_tts :: "exn option"

definition probed :: "exn option \<Rightarrow> exn + unit" where
  "probed e = (case e of None \<Rightarrow> Inr () | Some x \<Rightarrow> Inl x)"

definition build_if :: "ustr option \<Rightarrow> exn + 'e \<Rightarrow> exn + 'e option" where
  "build_if provider made = (if given provider then map_sum id Some made else Inr None)"

definition must_be_set :: "string \<Rightarrow> ustr option \<Rightarrow> exn + unit" where
  "must_be_set name provider =
     (if given provider then Inr () else Inl (runtime_error (u name @ u '' must be set in production'')))"

definition none_chosen :: "app_settings \<Rightarrow> bool" where
  "none_chosen s \<longleftrightarrow> \<not> given (STT_PROVIDER s) \<and> \<not> given (LLM_PROVIDER s) \<and> \<not> given (TTS_PROVIDER s)"

definition validate_voice_platform :: "provider_probe \<Rightarrow> app_settings \<Rightarrow> exn + unit" where
  "validate_voice_platform pb s =
     (if \<not> VOICE_REQUIRE_PROVIDERS s \<and> none_chosen s then Inr ()
      else bind_sum
       (if VOICE_REQUIRE_PROVIDERS s \<or> is_production s
        then bind_sum (must_be_set ''STT_PROVIDER'' (STT_PROVIDER s)) (\<lambda>_.
             bind_sum (must_be_set ''LLM_PROVIDER'' (LLM_PROVIDER s)) (\<lambda>_.
             must_be_set ''TTS_PROVIDER'' (TTS_PROVIDER s)))
        else Inr ()) (\<lambda>_.
       bind_sum (build_if (STT_PROVIDER s) (build_stt_engine s)) (\<lambda>stt.
       bind_sum (build_if (LLM_PROVIDER s) (build_llm_engine s)) (\<lambda>llm.
       bind_sum (build_if (TTS_PROVIDER s) (build_tts_engine s None)) (\<lambda>tts.
       bind_sum (if stt \<noteq> None then bind_sum (probed (pb_stt pb)) (\<lambda>_. probed (pb_stt_close pb)) else Inr ()) (\<lambda>_.
       bind_sum (if llm \<noteq> None then probed (pb_llm pb) else Inr ()) (\<lambda>_.
       if tts \<noteq> None then probed (pb_tts pb) else Inr ()))))))) "

text \<open>The part of \<^verbatim>\<open>lifespan\<close> before the application serves; the database's start is decided by the environment.\<close>

definition start_up :: "exn option \<Rightarrow> provider_probe \<Rightarrow> app_settings \<Rightarrow> exn + unit" where
  "start_up db pb s =
     bind_sum (probed db) (\<lambda>_. bind_sum (validate_security_settings s) (\<lambda>_. validate_voice_platform pb s))"

section \<open>Lemmas\<close>

text \<open>The engine stands in for a provider that is not configured.\<close>

definition mock_stt_engine :: "stt_engine \<Rightarrow> bool" where
  "mock_stt_engine e \<longleftrightarrow> (\<exists>m. e = MockSTT m)"

definition mock_tts_engine :: "tts_engine_made \<Rightarrow> bool" where
  "mock_tts_engine e \<longleftrightarrow> (\<exists>m. e = MockTTS m)"

fun uses_mock :: "llm_engine \<Rightarrow> bool" where
  "uses_mock MockLLM = True"
| "uses_mock (FailoverLLM a b) = (uses_mock a \<or> uses_mock b)"
| "uses_mock _ = False"

lemma single_not_mock: "build_single_llm s p = Inr e \<Longrightarrow> \<not> uses_mock e"
  by (cases p) (auto simp: build_single_llm_def refuse_config_def Let_def split: if_splits)

lemma mock_stt_iff:
  assumes "build_stt_engine s = Inr e"
  shows "mock_stt_engine e \<longleftrightarrow> \<not> given (STT_PROVIDER s) \<and> voice_mocks_allowed s"
proof (cases "given (STT_PROVIDER s)")
  case True
  then obtain p where "stt_provider_type (the (STT_PROVIDER s)) = Inr p"
    using assms by (auto simp: build_stt_engine_def bind_sum_Inr_iff)
  with True assms show ?thesis
    by (cases p) (auto simp: build_stt_engine_def mock_stt_engine_def refuse_config_def split: if_splits)
qed (use assms in \<open>auto simp: build_stt_engine_def mock_stt_engine_def refuse_config_def split: if_splits\<close>)

lemma mock_llm_iff:
  assumes "build_llm_engine s = Inr e"
  shows "uses_mock e \<longleftrightarrow> \<not> given (LLM_PROVIDER s) \<and> voice_mocks_allowed s"
  using assms single_not_mock [of s]
  by (auto simp: build_llm_engine_def refuse_config_def bind_sum_Inr_iff split: if_splits)

lemma polly_made [simp]: "map_sum id PollyTTS made = Inr e \<longleftrightarrow> (\<exists>p. made = Inr p \<and> e = PollyTTS p)"
  by (cases made) auto

lemma mock_tts_iff:
  assumes "build_tts_engine s v = Inr e"
  shows "mock_tts_engine e \<longleftrightarrow> \<not> given (TTS_PROVIDER s) \<and> voice_mocks_allowed s"
proof (cases "given (TTS_PROVIDER s)")
  case True
  then obtain p where "tts_provider_type (the (TTS_PROVIDER s)) = Inr p"
    using assms by (auto simp: build_tts_engine_def bind_sum_Inr_iff)
  with True assms show ?thesis
    by (cases p) (auto simp: build_tts_engine_def mock_tts_engine_def refuse_config_def Let_def split: if_splits)
qed (use assms in \<open>auto simp: build_tts_engine_def mock_tts_engine_def refuse_config_def split: if_splits\<close>)

lemma production_has_no_mocks:
  assumes "is_production s" "build_stt_engine s = Inr stt" "build_llm_engine s = Inr llm" "build_tts_engine s v = Inr tts"
  shows "\<not> mock_stt_engine stt \<and> \<not> uses_mock llm \<and> \<not> mock_tts_engine tts"
  using assms mock_stt_iff mock_llm_iff mock_tts_iff by (simp add: voice_mocks_allowed_def)

lemma build_if_Inr: "build_if p made = Inr r \<Longrightarrow> given p \<Longrightarrow> \<exists>e. made = Inr e"
  by (auto simp: build_if_def split: if_splits) (metis map_sum.simps sum.exhaust sum.distinct(1))

lemma validate_Inr:
  assumes "validate_voice_platform pb s = Inr v" "VOICE_REQUIRE_PROVIDERS s \<or> \<not> none_chosen s"
  obtains stt llm tts where "build_if (STT_PROVIDER s) (build_stt_engine s) = Inr stt"
    "build_if (LLM_PROVIDER s) (build_llm_engine s) = Inr llm"
    "build_if (TTS_PROVIDER s) (build_tts_engine s None) = Inr tts"
    "VOICE_REQUIRE_PROVIDERS s \<or> is_production s \<Longrightarrow> given (STT_PROVIDER s) \<and> given (LLM_PROVIDER s) \<and> given (TTS_PROVIDER s)"
proof -
  have early: "(\<not> VOICE_REQUIRE_PROVIDERS s \<and> none_chosen s) = False" using assms(2) by blast
  have m: "must_be_set n p = Inr x \<Longrightarrow> given p" for n p x by (auto simp: must_be_set_def split: if_splits)
  from assms(1) show ?thesis
    unfolding validate_voice_platform_def early if_False bind_sum_Inr_iff
    by (elim exE conjE) (rule that, assumption+, simp add: bind_sum_Inr_iff, blast dest: m)
qed

text \<open>
  A provider that is configured when the platform's check passes can be built: no session is refused for it later. Where
  the providers are required, or in production once one is set, all three are configured.
\<close>

lemma validated_platform:
  assumes "validate_voice_platform pb s = Inr v"
  shows "given (STT_PROVIDER s) \<Longrightarrow> \<exists>e. build_stt_engine s = Inr e"
    and "given (LLM_PROVIDER s) \<Longrightarrow> \<exists>e. build_llm_engine s = Inr e"
    and "given (TTS_PROVIDER s) \<Longrightarrow> \<exists>e. build_tts_engine s None = Inr e"
    and "VOICE_REQUIRE_PROVIDERS s \<or> is_production s \<and> \<not> none_chosen s
         \<Longrightarrow> given (STT_PROVIDER s) \<and> given (LLM_PROVIDER s) \<and> given (TTS_PROVIDER s)"
  using validate_Inr [OF assms] build_if_Inr unfolding none_chosen_def by metis+

lemma validated_sessions:
  assumes "validate_voice_platform pb s = Inr v" "VOICE_REQUIRE_PROVIDERS s \<or> is_production s \<and> \<not> none_chosen s"
  shows "\<exists>stt llm tts. build_stt_engine s = Inr stt \<and> build_llm_engine s = Inr llm \<and> build_tts_engine s None = Inr tts"
  using validated_platform [OF assms(1)] assms(2) by blast

text \<open>
  A deployment of Azure: its own header carries the key, the bearer header is dropped, and the address names the
  deployment but no version of the interface.
\<close>

lemma azure_engine:
  assumes "build_single_llm s AZURE_OPENAI = Inr e"
  obtains eng where "e = OpenAILLM eng" "map_of (openai_headers eng) (u ''Authorization'') = None"
    "map_of (openai_headers eng) (u ''api-key'') = AZURE_OPENAI_API_KEY s" "AZURE_OPENAI_API_KEY s \<noteq> None"
    "oe_api_base eng = rstrip_slash (rstrip_slash (the (AZURE_OPENAI_ENDPOINT s)) @ u ''/openai/deployments/''
       @ (if given (AZURE_OPENAI_CHAT_DEPLOYMENT s) then the (AZURE_OPENAI_CHAT_DEPLOYMENT s) else VOICE_LLM_MODEL s))"
proof -
  define key where "key = the (AZURE_OPENAI_API_KEY s)"
  define dep where "dep = (if given (AZURE_OPENAI_CHAT_DEPLOYMENT s) then the (AZURE_OPENAI_CHAT_DEPLOYMENT s) else VOICE_LLM_MODEL s)"
  define base where "base = rstrip_slash (the (AZURE_OPENAI_ENDPOINT s)) @ u ''/openai/deployments/'' @ dep"
  define eng where "eng = new_openai_engine s key (Some dep) (Some base) [(u ''api-key'', key)]"
  have k: "AZURE_OPENAI_API_KEY s = Some key" and e: "e = OpenAILLM eng"
    using assms by (auto simp: build_single_llm_def refuse_config_def given_def Let_def key_def dep_def base_def eng_def split: if_splits)
  have x: "oe_extra_headers eng = [(u ''api-key'', key)]" by (simp add: eng_def new_openai_engine_def)
  have "base \<noteq> []" by (simp add: base_def u_def)
  then have b: "oe_api_base eng = rstrip_slash base" by (simp add: eng_def new_openai_engine_def or_str_def)
  show thesis
    using that [OF e] openai_one_credential(2) [of eng key] k x b by (simp add: base_def dep_def)
qed

text \<open>A speech engine of Polly is made for the rates that Polly has, and refused for every other.\<close>

lemma polly_rates:
  assumes "tts_provider_type (the (TTS_PROVIDER s)) = Inr AMAZON_POLLY" "given (TTS_PROVIDER s)"
  shows "(\<exists>e. build_tts_engine s v = Inr e) \<longleftrightarrow> VOICE_SAMPLE_RATE s = 8000 \<or> VOICE_SAMPLE_RATE s = 16000"
  using assms by (auto simp: build_tts_engine_def new_polly_engine_def Let_def)

text \<open>In production with no provider at all, the check passes, and no session can be built.\<close>

lemma production_without_providers:
  assumes "is_production s" "none_chosen s" "\<not> VOICE_REQUIRE_PROVIDERS s"
  shows "validate_voice_platform pb s = Inr ()" "build_llm_engine s = Inl (value_error (u ''LLM_PROVIDER must be configured''))"
    "build_stt_engine s = Inl (value_error (u ''STT_PROVIDER must be configured''))"
    "build_tts_engine s v2 = Inl (value_error (u ''TTS_PROVIDER must be configured''))"
  using assms
  by (simp_all add: validate_voice_platform_def none_chosen_def build_llm_engine_def build_stt_engine_def
      build_tts_engine_def voice_mocks_allowed_def refuse_config_def)

end
