(* ===== verification/Vad.thy ===== *)
theory Vad
  imports Pcm
begin

text \<open>
  \<^verbatim>\<open>app/voice/vad.py\<close>: \<^verbatim>\<open>EnergyVAD\<close>, the loudness detector behind barge-in. \<open>vad_update\<close> is
  \<^verbatim>\<open>update\<close>; its boolean is the announcement "speech starts with this frame". The lemmas show
  that a run of loud frames is announced exactly once, at its \<open>speech_frames\<close>-th frame, and that
  the learned noise floor stays between its old value and the frame's energy.
\<close>

record vad =
  min_energy :: pyfloat
  noise_ratio :: pyfloat
  speech_frames :: int
  noise_alpha :: pyfloat
  noise_floor :: pyfloat
  vad_run :: int
  in_speech :: bool

definition new_vad :: "pyfloat \<Rightarrow> pyfloat \<Rightarrow> int \<Rightarrow> pyfloat \<Rightarrow> pyfloat \<Rightarrow> vad" where
  "new_vad me ratio frames alpha initial =
     \<lparr>min_energy = me, noise_ratio = ratio, speech_frames = frames, noise_alpha = alpha,
      noise_floor = initial, vad_run = 0, in_speech = False\<rparr>"

definition vad_threshold :: "vad \<Rightarrow> pyfloat" where
  "vad_threshold v = max (min_energy v) (noise_floor v * noise_ratio v)"

definition vad_update :: "bytes \<Rightarrow> vad \<Rightarrow> bool \<times> vad" where
  "vad_update fr v =
     (let energy = pcm_frame_energy fr
      in if vad_threshold v \<le> energy
         then let v1 = v\<lparr>vad_run := vad_run v + 1\<rparr>
              in if \<not> in_speech v1 \<and> speech_frames v1 \<le> vad_run v1
                 then (True, v1\<lparr>in_speech := True\<rparr>)
                 else (False, v1)
         else (False, v\<lparr>vad_run := 0, in_speech := False,
                        noise_floor := noise_floor v + noise_alpha v * (energy - noise_floor v)\<rparr>))"

definition vad_reset :: "vad \<Rightarrow> vad" where
  "vad_reset v = v\<lparr>vad_run := 0, in_speech := False\<rparr>"

fun vad_feed :: "bytes list \<Rightarrow> vad \<Rightarrow> bool list \<times> vad" where
  "vad_feed [] v = ([], v)"
| "vad_feed (fr # fs) v =
     (case vad_update fr v of (b, v1) \<Rightarrow> (case vad_feed fs v1 of (bs, v2) \<Rightarrow> (b # bs, v2)))"

section \<open>The detector's invariant\<close>

text \<open>Speech is on exactly when the current loud run is long enough.\<close>

definition vad_wf :: "vad \<Rightarrow> bool" where
  "vad_wf v \<longleftrightarrow> 0 \<le> vad_run v \<and> 0 \<le> noise_floor v \<and> 0 \<le> noise_alpha v \<and> noise_alpha v \<le> 1
     \<and> 1 \<le> speech_frames v \<and> (in_speech v \<longleftrightarrow> speech_frames v \<le> vad_run v)"

lemma vad_wf_new:
  "0 \<le> initial \<Longrightarrow> 0 \<le> alpha \<Longrightarrow> alpha \<le> 1 \<Longrightarrow> 1 \<le> frames \<Longrightarrow> vad_wf (new_vad me ratio frames alpha initial)"
  by (simp add: vad_wf_def new_vad_def)

lemma vad_wf_reset [inv_pres]: "vad_wf v \<Longrightarrow> vad_wf (vad_reset v)"
  by (simp add: vad_wf_def vad_reset_def)

text \<open>Exponential smoothing is a convex combination.\<close>

lemma smooth_between:
  fixes a x y :: rat
  assumes "0 \<le> a" "a \<le> 1"
  shows "min x y \<le> x + a * (y - x)" "x + a * (y - x) \<le> max x y"
proof -
  have e: "x + a * (y - x) = (1 - a) * x + a * y" by (simp add: algebra_simps)
  have m: "c = (1 - a) * c + a * c" for c :: rat by (simp add: algebra_simps)
  have "(1 - a) * min x y + a * min x y \<le> (1 - a) * x + a * y"
    using assms by (intro add_mono mult_left_mono) simp_all
  then show "min x y \<le> x + a * (y - x)" by (simp only: e m [symmetric])
  have "(1 - a) * x + a * y \<le> (1 - a) * max x y + a * max x y"
    using assms by (intro add_mono mult_left_mono) simp_all
  then show "x + a * (y - x) \<le> max x y" by (simp only: e m [symmetric])
qed

lemma vad_floor_between:
  assumes "vad_wf v" "vad_update fr v = (b, v')"
  shows "min (noise_floor v) (pcm_frame_energy fr) \<le> noise_floor v'"
    "noise_floor v' \<le> max (noise_floor v) (pcm_frame_energy fr)"
  using assms smooth_between [of "noise_alpha v" "noise_floor v" "pcm_frame_energy fr"]
  by (auto simp: vad_wf_def vad_update_def Let_def split: if_splits)

lemma vad_wf_update [inv_pres]: "vad_wf v \<Longrightarrow> vad_update fr v = (b, v') \<Longrightarrow> vad_wf v'"
proof -
  assume w: "vad_wf v" and up: "vad_update fr v = (b, v')"
  have "0 \<le> noise_floor v'"
    using vad_floor_between(1) [OF w up] pcm_frame_energy_nonneg [of fr] w by (auto simp: vad_wf_def)
  then show ?thesis using w up by (auto simp: vad_wf_def vad_update_def Let_def split: if_splits)
qed

text \<open>The announcement: the run reaches exactly \<open>speech_frames\<close> with this frame.\<close>

lemma vad_update_fires:
  "vad_wf v \<Longrightarrow> vad_update fr v = (b, v') \<Longrightarrow> b \<longleftrightarrow> vad_run v' = speech_frames v"
  by (auto simp: vad_wf_def vad_update_def Let_def split: if_splits)

lemma vad_update_run:
  "vad_update fr v = (b, v') \<Longrightarrow>
   vad_run v' = (if vad_threshold v \<le> pcm_frame_energy fr then vad_run v + 1 else 0)"
  by (auto simp: vad_update_def Let_def split: if_splits)

lemma vad_update_params [frame]:
  "vad_update fr v = (b, v') \<Longrightarrow> speech_frames v' = speech_frames v \<and> min_energy v' = min_energy v
     \<and> noise_ratio v' = noise_ratio v \<and> noise_alpha v' = noise_alpha v"
  by (auto simp: vad_update_def Let_def split: if_splits)

lemma vad_quiet_frame:
  "vad_update fr v = (b, v') \<Longrightarrow> pcm_frame_energy fr < min_energy v \<Longrightarrow> \<not> b \<and> vad_run v' = 0"
  by (auto simp: vad_update_def vad_threshold_def Let_def split: if_splits)

text \<open>No announcement comes before the run can have grown to \<open>speech_frames\<close>.\<close>

lemma vad_feed_wf [inv_pres]: "vad_wf v \<Longrightarrow> vad_feed fs v = (bs, v') \<Longrightarrow> vad_wf v'"
  by (induction fs arbitrary: v bs) (auto split: prod.splits dest: vad_wf_update)

lemma vad_feed_length: "length (fst (vad_feed fs v)) = length fs"
  by (induction fs arbitrary: v) (auto split: prod.splits, metis fst_conv)

lemma vad_feed_ConsE:
  assumes "vad_wf v" "fst (vad_feed (fr # fs) v) ! i" "i < length (fr # fs)"
  obtains b v1 where "vad_update fr v = (b, v1)" "vad_wf v1" "speech_frames v1 = speech_frames v"
    "i = 0 \<and> b \<or> (\<exists>k. i = Suc k \<and> k < length fs \<and> fst (vad_feed fs v1) ! k)"
proof -
  obtain b v1 where u: "vad_update fr v = (b, v1)" by fastforce
  have "i = 0 \<and> b \<or> (\<exists>k. i = Suc k \<and> k < length fs \<and> fst (vad_feed fs v1) ! k)"
    using assms(2,3) u by (cases i) (auto split: prod.splits)
  then show thesis using that u vad_wf_update [OF assms(1) u] vad_update_params [OF u] by blast
qed

lemma vad_feed_earliest:
  "vad_wf v \<Longrightarrow> i < length fs \<Longrightarrow> fst (vad_feed fs v) ! i \<Longrightarrow> speech_frames v \<le> vad_run v + int i + 1"
proof (induction fs arbitrary: v i)
  case (Cons fr fs)
  obtain b v1 where u: "vad_update fr v = (b, v1)" and w: "vad_wf v1"
    and sf: "speech_frames v1 = speech_frames v"
    and c: "i = 0 \<and> b \<or> (\<exists>k. i = Suc k \<and> k < length fs \<and> fst (vad_feed fs v1) ! k)"
    by (rule vad_feed_ConsE [OF Cons.prems(1,3,2)])
  have r: "vad_run v1 \<le> vad_run v + 1" using vad_update_run [OF u] Cons.prems(1) by (simp add: vad_wf_def)
  from c show ?case
  proof
    assume "i = 0 \<and> b"
    then show ?thesis using vad_update_fires [OF Cons.prems(1) u] r sf by simp
  next
    assume "\<exists>k. i = Suc k \<and> k < length fs \<and> fst (vad_feed fs v1) ! k"
    then obtain k where k: "i = Suc k" "k < length fs" "fst (vad_feed fs v1) ! k" by blast
    show ?thesis using Cons.IH [OF w k(2,3)] r sf k(1) by simp
  qed
qed simp

lemma vad_feed_in_speech:
  "vad_wf v \<Longrightarrow> in_speech v \<Longrightarrow> i < length fs \<Longrightarrow> fst (vad_feed fs v) ! i \<Longrightarrow> speech_frames v \<le> int i"
proof (induction fs arbitrary: v i)
  case (Cons fr fs)
  obtain b v1 where u: "vad_update fr v = (b, v1)" and w: "vad_wf v1"
    and sf: "speech_frames v1 = speech_frames v"
    and c: "i = 0 \<and> b \<or> (\<exists>k. i = Suc k \<and> k < length fs \<and> fst (vad_feed fs v1) ! k)"
    by (rule vad_feed_ConsE [OF Cons.prems(1,4,3)])
  have nb: "\<not> b" using u Cons.prems(2) by (auto simp: vad_update_def Let_def split: if_splits)
  then obtain k where k: "i = Suc k" "k < length fs" "fst (vad_feed fs v1) ! k" using c by blast
  show ?case
  proof (cases "vad_threshold v \<le> pcm_frame_energy fr")
    case True
    then have "in_speech v1" using u Cons.prems(2) by (auto simp: vad_update_def Let_def split: if_splits)
    then show ?thesis using Cons.IH [OF w _ k(2,3)] sf k(1) by simp
  next
    case False
    then have "vad_run v1 = 0" using vad_update_run [OF u] by simp
    then show ?thesis using vad_feed_earliest [OF w k(2,3)] sf k(1) by simp
  qed
qed simp

text \<open>Two announcements are more than \<open>speech_frames\<close> frames apart.\<close>

lemma vad_feed_gap:
  "vad_wf v \<Longrightarrow> j < length fs \<Longrightarrow> i < j \<Longrightarrow> fst (vad_feed fs v) ! i \<Longrightarrow> fst (vad_feed fs v) ! j \<Longrightarrow>
   speech_frames v < int (j - i)"
proof (induction fs arbitrary: v i j)
  case (Cons fr fs)
  obtain b v1 where u: "vad_update fr v = (b, v1)" and w: "vad_wf v1"
    and sf: "speech_frames v1 = speech_frames v"
    and c: "j = 0 \<and> b \<or> (\<exists>k. j = Suc k \<and> k < length fs \<and> fst (vad_feed fs v1) ! k)"
    by (rule vad_feed_ConsE [OF Cons.prems(1,5,2)])
  then obtain k where k: "j = Suc k" "k < length fs" "fst (vad_feed fs v1) ! k"
    using Cons.prems(3) by auto
  have i: "fst (vad_feed (fr # fs) v) ! i = (case i of 0 \<Rightarrow> b | Suc m \<Rightarrow> fst (vad_feed fs v1) ! m)"
    by (cases i) (simp_all add: u split: prod.splits)
  show ?case
  proof (cases i)
    case 0
    then have b using i Cons.prems(4) by simp
    then have "in_speech v1" using u by (auto simp: vad_update_def Let_def split: if_splits)
    then show ?thesis using vad_feed_in_speech [OF w _ k(2,3)] sf k(1) 0 by simp
  next
    case (Suc m)
    then show ?thesis using Cons.IH [OF w k(2) _ _ k(3), of m] i Cons.prems(3,4) sf k(1) by simp
  qed
qed simp

end
