(* ===== verification/EndOfTurn.thy ===== *)
theory EndOfTurn
  imports PyText
begin

text \<open>
  \<^verbatim>\<open>app/voice/end_of_turn.py\<close>: does a finished transcript sound like the end of a turn?
  The regular expression \<^verbatim>\<open>([a-z']+)\W*$\<close> is \<open>last_word\<close>, a search over the start
  positions from left to right. Whether a code point is a word character (\<^verbatim>\<open>\w\<close>) is exact up to
  U+00FF; above that it is the argument \<open>uw\<close>, the Unicode database.
\<close>

definition word_char :: "(nat \<Rightarrow> bool) \<Rightarrow> nat \<Rightarrow> bool" where
  "word_char uw c =
     (if c < 256
      then (48 \<le> c \<and> c \<le> 57) \<or> (65 \<le> c \<and> c \<le> 90) \<or> c = 95 \<or> (97 \<le> c \<and> c \<le> 122)
        \<or> c \<in> {170, 178, 179, 181, 185, 186, 188, 189, 190}
        \<or> (192 \<le> c \<and> c \<noteq> 215 \<and> c \<noteq> 247)
      else uw c)"

definition az_quote :: "nat \<Rightarrow> bool" where
  "az_quote c \<longleftrightarrow> (97 \<le> c \<and> c \<le> 122) \<or> c = 39"

definition CONTINUATION_WORDS :: "ustr list" where
  "CONTINUATION_WORDS = map u
     [''and'', ''but'', ''or'', ''because'', ''although'', ''unless'', ''whereas'', ''if'', ''than'',
      ''which'', ''whose'',
      ''the'', ''a'', ''an'', ''my'', ''your'', ''our'', ''their'', ''every'',
      ''to'', ''of'', ''for'', ''with'', ''from'', ''into'', ''onto'', ''between'', ''without'']"

definition FILLERS :: "ustr list" where
  "FILLERS = map u [''um'', ''uh'', ''erm'', ''er'', ''hmm'', ''mm'']"

text \<open>The match at a given start: the greedy group, then only non-word characters to the end.\<close>

definition match_here :: "(nat \<Rightarrow> bool) \<Rightarrow> ustr \<Rightarrow> ustr option" where
  "match_here uw s =
     (if takeWhile az_quote s \<noteq> [] \<and> list_all (\<lambda>c. \<not> word_char uw c) (dropWhile az_quote s)
      then Some (takeWhile az_quote s) else None)"

fun last_word :: "(nat \<Rightarrow> bool) \<Rightarrow> ustr \<Rightarrow> ustr option" where
  "last_word uw [] = None"
| "last_word uw (c # cs) =
     (case match_here uw (c # cs) of Some w \<Rightarrow> Some w | None \<Rightarrow> last_word uw cs)"

definition sounds_unfinished :: "(nat \<Rightarrow> bool) \<Rightarrow> ustr \<Rightarrow> bool" where
  "sounds_unfinished uw t =
     (let stripped = lower (strip t)
      in if stripped = [] then False
         else if endswith_any stripped [u '','', u ''...'', [8230], u ''-'', [8212], u '':''] then True
         else if endswith_any stripped [u ''?'', u ''!''] then False
         else (case last_word uw stripped of
                 None \<Rightarrow> False
               | Some w \<Rightarrow> if w \<in> set FILLERS then True else w \<in> set CONTINUATION_WORDS))"

section \<open>The search is the regular expression\<close>

text \<open>
  \<open>re_match\<close> is what the expression denotes: a non-empty group of letters and quotes, then
  non-word characters, ending at the end of the text.
\<close>

definition re_match :: "(nat \<Rightarrow> bool) \<Rightarrow> ustr \<Rightarrow> ustr \<Rightarrow> ustr \<Rightarrow> bool" where
  "re_match uw s w rest \<longleftrightarrow> s = w @ rest \<and> w \<noteq> [] \<and> list_all az_quote w
     \<and> list_all (\<lambda>c. \<not> word_char uw c) rest"

lemma match_here_sound: "match_here uw s = Some w \<Longrightarrow> re_match uw s w (dropWhile az_quote s)"
  by (auto simp: match_here_def re_match_def list_all_iff dest: set_takeWhileD split: if_splits)

text \<open>Backtracking never helps: where some group matches, the greedy one does.\<close>

lemma match_here_complete:
  assumes "re_match uw s w rest"
  shows "\<exists>w'. match_here uw s = Some w' \<and> prefix w w'"
proof -
  have s: "s = w @ rest" "w \<noteq> []" "\<forall>c\<in>set w. az_quote c" "\<forall>c\<in>set rest. \<not> word_char uw c"
    using assms by (auto simp: re_match_def list_all_iff)
  have t: "takeWhile az_quote s = w @ takeWhile az_quote rest"
    "dropWhile az_quote s = dropWhile az_quote rest"
    using s by simp_all
  have "\<forall>c\<in>set (dropWhile az_quote rest). \<not> word_char uw c"
    using s(4) by (auto dest: set_dropWhileD)
  then show ?thesis using s(2) by (auto simp: match_here_def t list_all_iff)
qed

lemma last_word_sound:
  "last_word uw s = Some w \<Longrightarrow> \<exists>pre rest. s = pre @ w @ rest \<and> re_match uw (w @ rest) w rest"
proof (induction s)
  case (Cons c cs)
  show ?case
  proof (cases "match_here uw (c # cs)")
    case None
    then obtain pre rest where "cs = pre @ w @ rest" "re_match uw (w @ rest) w rest"
      using Cons by auto
    then show ?thesis by (metis append_Cons)
  next
    case (Some w')
    then have "w' = w" using Cons.prems by simp
    then have "re_match uw (c # cs) w (dropWhile az_quote (c # cs))"
      using match_here_sound [OF Some] by (simp only:)
    then show ?thesis by (metis append_Nil re_match_def)
  qed
qed simp

lemma last_word_None: "last_word uw s = None \<Longrightarrow> s = pre @ t \<Longrightarrow> \<not> re_match uw t w rest"
proof (induction s arbitrary: pre)
  case Nil
  then show ?case by (auto simp: re_match_def)
next
  case (Cons c cs)
  show ?case
  proof (cases pre)
    case Nil
    then have "t = c # cs" using Cons.prems by simp
    then show ?thesis using Cons.prems(1) match_here_complete [of uw t w rest]
      by (auto split: option.splits)
  next
    case (Cons d ds)
    then show ?thesis using Cons.prems Cons.IH [of ds] by (auto split: option.splits)
  qed
qed

section \<open>The rule\<close>

lemma unfinished_strip: "sounds_unfinished uw (strip t) = sounds_unfinished uw t"
  by (simp only: sounds_unfinished_def strip_idem)

lemma unfinished_blank: "strip t = [] \<Longrightarrow> \<not> sounds_unfinished uw t"
  by (simp add: sounds_unfinished_def lower_def)

lemma endswith_last: "s \<noteq> [] \<Longrightarrow> endswith s [c] \<longleftrightarrow> last s = c"
  by (cases s rule: rev_cases) (auto simp: endswith_iff suffix_def)

text \<open>A turn that ends on a question or exclamation mark is always answered at once.\<close>

lemma finished_mark:
  assumes "last (strip t) \<in> {63, 33}" "strip t \<noteq> []"
  shows "\<not> sounds_unfinished uw t"
proof -
  let ?s = "lower (strip t)"
  have e: "?s = lower (butlast (strip t)) @ [last (strip t)]"
  proof -
    have "lower [last (strip t)] = [last (strip t)]" using assms(1) by (auto simp: lower_def lower_c_def)
    then show ?thesis using assms(2) by (metis append_butlast_last_id lower_append)
  qed
  then have l: "?s \<noteq> []" "last ?s = last (strip t)" by simp_all
  have dots: "\<not> endswith ?s [46, 46, 46]"
    using assms(1) e by (auto simp: endswith_iff suffix_def dest!: arg_cong [of _ _ last])
  have "\<not> endswith_any ?s [u '','', u ''...'', [8230], u ''-'', [8212], u '':'']"
    using l dots assms(1) by (auto simp: endswith_any_def u_def endswith_last)
  moreover have "endswith_any ?s [u ''?'', u ''!'']"
    using l assms(1) by (auto simp: endswith_any_def u_def endswith_last)
  ultimately show ?thesis using l(1) by (simp add: sounds_unfinished_def Let_def)
qed

text \<open>A text that ends on a word is decided by that word.\<close>

lemma last_word_at:
  assumes w: "list_all az_quote w" "\<exists>c\<in>set w. word_char uw c"
  shows "pre = [] \<or> \<not> az_quote (last pre) \<Longrightarrow> last_word uw (pre @ w) = Some w"
proof (induction pre)
  case Nil
  have "takeWhile az_quote w = w" "dropWhile az_quote w = []" "w \<noteq> []"
    using w by (auto simp: list_all_iff takeWhile_all)
  then have "match_here uw w = Some w" by (simp only: match_here_def list.pred_inject simp_thms if_True)
  moreover obtain c cs where "w = c # cs" using w(2) by (cases w) auto
  ultimately show ?case by simp
next
  case (Cons d ds)
  have nq: "\<exists>c\<in>set (d # ds). \<not> az_quote c" using Cons.prems last_in_set [of "d # ds"] by auto
  have "dropWhile az_quote ((d # ds) @ w) = dropWhile az_quote (d # ds) @ w"
    using nq by (metis dropWhile_append1)
  then have "match_here uw ((d # ds) @ w) = None"
    using w(2) unfolding match_here_def by (auto simp: list_all_iff simp del: append_Cons split: if_splits)
  moreover have "last_word uw (ds @ w) = Some w" using Cons by (cases ds) (auto split: if_splits)
  ultimately show ?case by simp
qed

lemma unfinished_by_word:
  assumes s: "lower (strip t) = pre @ w" "pre = [] \<or> \<not> az_quote (last pre)"
    and w: "list_all az_quote w" "\<exists>c\<in>set w. word_char uw c"
  shows "sounds_unfinished uw t \<longleftrightarrow> w \<in> set FILLERS \<or> w \<in> set CONTINUATION_WORDS"
proof -
  let ?s = "pre @ w"
  have ne: "w \<noteq> []" using w(2) by auto
  have l: "az_quote (last ?s)" using w(1) ne by (auto simp: list_all_iff)
  have e: "\<not> endswith ?s (xs @ [c])" if "\<not> az_quote c" for xs c
    using that l by (auto simp: endswith_iff suffix_def dest!: arg_cong [of _ _ last])
  have 1: "\<not> endswith_any ?s [u '','', u ''...'', [8230], u ''-'', [8212], u '':'']"
    "\<not> endswith_any ?s [u ''?'', u ''!'']"
    using e [of _ "[]"] e [of 46 "[46, 46]"]
    by (simp_all add: endswith_any_def u_def az_quote_def)
  show ?thesis using ne by (simp add: sounds_unfinished_def s(1) 1 last_word_at [OF w s(2)] del: append_eq_Cons_conv)
qed

end
