(* ===== verification/VoiceSession.thy ===== *)
theory VoiceSession
  imports Conversation TtsConsumer Vad EndOfTurn
begin

text \<open>
  \<^verbatim>\<open>app/voice/session.py\<close>: one voice conversation. The record extends \<open>conv_state\<close> with the
  session's own fields, its LLM and TTS consumers, the process-wide latency statistics and what it
  sends. The turn manager's callbacks are functions on it.

  Every coroutine that runs to its end without a decision by another task is one step: the callbacks,
  the timer, the completion of a generation (\<open>llm_complete\<close>), a segment (\<open>llm_segment\<close>), the
  end of playback (\<open>playback_end\<close>). \<open>vs_env\<close> carries what the outside world decides in a
  step: two clock readings, and whether the reply task that is being stopped had already started
  (a task cancelled before its first step never reaches its \<^verbatim>\<open>finally\<close>).
\<close>

record vs_env =
  ve_now :: pyfloat
  ve_later :: pyfloat
  ve_task_ran :: bool

datatype voice_event = BargeIn pyfloat | TurnHeld string | TurnReport turn_payload

record voice_session = conv_state +
  vs_history_turns :: int
  vs_history :: "(string \<times> ustr) list"
  vs_timing :: "turn_timing option"
  vs_timing_gen :: nat
  vs_llm :: llm_consumer
  vs_requests :: "(ustr \<times> string \<times> (string \<times> ustr) list) list"
  vs_tts :: tts_consumer
  vs_vad :: "vad option"
  vs_eot_hold :: pyfloat
  vs_held :: "(string \<times> ustr) option"
  vs_hold_task :: "nat option"
  vs_hold_count :: nat
  vs_stats :: latency_stats
  vs_sent :: "voice_event list"

record voice_settings =
  VOICE_HISTORY_TURNS :: int
  VOICE_VAD_BARGE_IN :: bool
  VOICE_VAD_MIN_ENERGY :: pyfloat
  VOICE_VAD_SPEECH_FRAMES :: int
  VOICE_EOT_HOLD_MS :: int

definition new_voice_session ::
  "voice_settings \<Rightarrow> int option \<Rightarrow> bool option \<Rightarrow> int option \<Rightarrow> nat \<Rightarrow> pyfloat \<Rightarrow> latency_stats \<Rightarrow> voice_session" where
  "new_voice_session cfg history_turns vad_barge_in eot_hold_ms cid now stats =
     \<lparr>conversation_id = cid, current_utterance_id = None, last_user_activity = now,
      is_user_speaking = False, is_system_speaking = False, turn_count = 0,
      vs_history_turns = (case history_turns of None \<Rightarrow> VOICE_HISTORY_TURNS cfg | Some n \<Rightarrow> n),
      vs_history = [], vs_timing = None, vs_timing_gen = 0,
      vs_llm = new_llm_consumer, vs_requests = [], vs_tts = new_tts_consumer,
      vs_vad = (if (case vad_barge_in of None \<Rightarrow> VOICE_VAD_BARGE_IN cfg | Some b \<Rightarrow> b)
                then Some (new_vad (VOICE_VAD_MIN_ENERGY cfg) 3 (VOICE_VAD_SPEECH_FRAMES cfg) (5 / 100) 100)
                else None),
      vs_eot_hold = of_int (case eot_hold_ms of None \<Rightarrow> VOICE_EOT_HOLD_MS cfg | Some n \<Rightarrow> n) / 1000,
      vs_held = None, vs_hold_task = None, vs_hold_count = 0, vs_stats = stats, vs_sent = []\<rparr>"

section \<open>Helpers\<close>

definition vs_send :: "voice_event \<Rightarrow> voice_session \<Rightarrow> voice_session" where
  "vs_send e s = s\<lparr>vs_sent := vs_sent s @ [e]\<rparr>"

definition remember :: "string \<Rightarrow> ustr \<Rightarrow> voice_session \<Rightarrow> voice_session" where
  "remember role content s =
     (if vs_history_turns s \<le> 0 then s
      else let h = vs_history s @ [(role, content)];
               overflow = int (length h) - vs_history_turns s * 2
           in s\<lparr>vs_history := (if overflow > 0 then drop (nat overflow) h else h)\<rparr>)"

text \<open>
  The hold timer: creating a task gives it a fresh number; a cancelled task never fires.
\<close>

definition cancel_hold_timer :: "voice_session \<Rightarrow> voice_session" where
  "cancel_hold_timer s = s\<lparr>vs_hold_task := None\<rparr>"

definition start_hold_timer :: "voice_session \<Rightarrow> voice_session" where
  "start_hold_timer s =
     (let s1 = cancel_hold_timer s
      in s1\<lparr>vs_hold_task := Some (vs_hold_count s1), vs_hold_count := vs_hold_count s1 + 1\<rparr>)"

section \<open>Speech events\<close>

definition on_first_audio :: "pyfloat \<Rightarrow> string \<Rightarrow> voice_session \<Rightarrow> voice_session" where
  "on_first_audio now uid s =
     (case vs_timing s of
        Some t \<Rightarrow> if tt_utterance_id t = uid then s\<lparr>vs_timing := Some (mark_first_audio now t)\<rparr> else s
      | None \<Rightarrow> s)"

definition on_playback_end :: "string \<Rightarrow> bool \<Rightarrow> voice_session \<Rightarrow> voice_session" where
  "on_playback_end uid interrupted s =
     (let s1 = (case vs_timing s of
                  Some t \<Rightarrow>
                    if tt_utterance_id t = uid
                    then let t1 = t\<lparr>tt_interrupted := tt_interrupted t \<or> interrupted\<rparr>
                         in (vs_send (TurnReport (to_payload t1)) (s\<lparr>vs_stats := record_turn t1 (vs_stats s)\<rparr>))
                              \<lparr>vs_timing := None\<rparr>
                    else s
                | None \<Rightarrow> s)
      in if \<not> interrupted \<and> \<not> is_generating (vs_llm s1)
            \<and> tts_current_utterance (vs_tts s1) \<in> {None, Some uid}
         then complete_system_turn s1 else s1)"

text \<open>
  Stopping the reply from the session: the task's \<^verbatim>\<open>finally\<close> calls \<^verbatim>\<open>_on_playback_end\<close> with
  \<^verbatim>\<open>interrupted=True\<close> before \<^verbatim>\<open>stop\<close> returns.
\<close>

definition session_tts_stop :: "vs_env \<Rightarrow> ustr \<Rightarrow> voice_session \<Rightarrow> bool \<times> voice_session" where
  "session_tts_stop env reason s =
     (if \<not> is_active (vs_tts s) then (False, s)
      else let s1 = (case tc_utterance (vs_tts s) of
                       Some uid \<Rightarrow> if ve_task_ran env then on_playback_end uid True s else s
                     | None \<Rightarrow> s)
           in (True, s1\<lparr>vs_tts := snd (tts_stop reason [] (vs_tts s1))\<rparr>))"

definition session_tts_begin :: "vs_env \<Rightarrow> string \<Rightarrow> voice_session \<Rightarrow> voice_session" where
  "session_tts_begin env uid s =
     (let s1 = snd (session_tts_stop env (u ''superseded'') s)
      in s1\<lparr>vs_tts := tts_begin uid [] (vs_tts s1)\<rparr>)"

section \<open>The reply\<close>

definition reply :: "vs_env \<Rightarrow> string \<Rightarrow> ustr \<Rightarrow> voice_session \<Rightarrow> voice_session" where
  "reply env uid transcript s =
     (let t = strip transcript;
          s1 = s\<lparr>vs_timing := Some (new_turn_timing uid (ve_now env))\<rparr>;
          history = vs_history s1;
          s2 = remember ''user'' t s1;
          s3 = start_system_turn s2;
          s4 = session_tts_begin env uid s3;
          llm = start_generation (vs_llm s4)
      in s4\<lparr>vs_llm := llm, vs_requests := vs_requests s4 @ [(t, uid, history)],
            vs_timing_gen := length (lc_tasks llm) - 1\<rparr>)"

text \<open>The closures handed to the generation task, as events of generation \<open>g\<close>.\<close>

definition llm_first_token :: "pyfloat \<Rightarrow> nat \<Rightarrow> voice_session \<Rightarrow> voice_session" where
  "llm_first_token now g s =
     (if vs_timing_gen s = g then s\<lparr>vs_timing := map_option (mark_llm_first_token now) (vs_timing s)\<rparr> else s)"

definition llm_segment :: "pyfloat \<Rightarrow> nat \<Rightarrow> ustr \<Rightarrow> voice_session \<Rightarrow> voice_session" where
  "llm_segment now g seg s =
     (let s1 = (if vs_timing_gen s = g
                then s\<lparr>vs_timing := map_option (mark_first_segment now) (vs_timing s)\<rparr> else s)
      in s1\<lparr>vs_tts := tts_speak seg (vs_tts s1)\<rparr>)"

definition llm_complete :: "nat \<Rightarrow> ustr \<Rightarrow> llm_outcome \<Rightarrow> voice_session \<Rightarrow> voice_session" where
  "llm_complete g full_text oc s =
     (let s1 = (if strip full_text \<noteq> [] then remember ''assistant'' (strip full_text) s else s);
          s2 = (if oc \<noteq> CANCELLED then s1\<lparr>vs_tts := tts_finish (vs_tts s1)\<rparr> else s1)
      in s2\<lparr>vs_llm := task_ends g (vs_llm s2)\<rparr>)"

section \<open>Turn events\<close>

definition vs_on_user_turn_started :: "turn_event \<Rightarrow> voice_session \<Rightarrow> voice_session" where
  "vs_on_user_turn_started e s = cancel_hold_timer (s\<lparr>vs_llm := llm_cancel (vs_llm s)\<rparr>)"

definition vs_on_user_interrupted :: "vs_env \<Rightarrow> turn_event \<Rightarrow> voice_session \<Rightarrow> voice_session" where
  "vs_on_user_interrupted env e s =
     (let s1 = s\<lparr>vs_timing := map_option (\<lambda>t. t\<lparr>tt_interrupted := True\<rparr>) (vs_timing s)\<rparr>;
          s2 = s1\<lparr>vs_llm := llm_cancel (vs_llm s1)\<rparr>
      in (case session_tts_stop env (u ''barge_in'') s2 of
            (stopped, s3) \<Rightarrow>
              if stopped
              then let stop_ms = (ve_later env - ve_now env) * 1000
                   in vs_send (BargeIn (py_round_to 2 stop_ms))
                        (s3\<lparr>vs_stats := record_barge_in stop_ms (vs_stats s3)\<rparr>)
              else s3))"

definition turn_completed :: "vs_env \<Rightarrow> (nat \<Rightarrow> bool) \<Rightarrow> string \<Rightarrow> ustr \<Rightarrow> voice_session \<Rightarrow> voice_session" where
  "turn_completed env uw uid transcript s =
     (let t0 = strip transcript;
          (t, uid', tr', s1) =
            (case vs_held s of
               Some (huid, htr) \<Rightarrow>
                 (let t = strip (strip htr @ u '' '' @ t0) in (t, huid, t, s\<lparr>vs_held := None\<rparr>))
             | None \<Rightarrow> (t0, uid, transcript, s));
          s2 = cancel_hold_timer s1
      in if t = [] then s2
         else if 0 < vs_eot_hold s2 \<and> sounds_unfinished uw t
         then vs_send (TurnHeld uid') (start_hold_timer (s2\<lparr>vs_held := Some (uid', tr')\<rparr>))
         else reply env uid' tr' s2)"

definition vs_on_user_turn_completed ::
  "vs_env \<Rightarrow> (nat \<Rightarrow> bool) \<Rightarrow> turn_event \<Rightarrow> voice_session \<Rightarrow> voice_session" where
  "vs_on_user_turn_completed env uw e s =
     (case e of UserTurnCompleted uid tr ts \<Rightarrow> turn_completed env uw uid tr s | _ \<Rightarrow> s)"

text \<open>The timer's task number \<open>k\<close> wakes up; a cancelled or superseded one does nothing.\<close>

definition release_held_turn :: "vs_env \<Rightarrow> nat \<Rightarrow> voice_session \<Rightarrow> voice_session" where
  "release_held_turn env k s =
     (if vs_hold_task s \<noteq> Some k then s
      else let held = vs_held s; s1 = s\<lparr>vs_held := None, vs_hold_task := None\<rparr>
           in (case held of Some (uid, tr) \<Rightarrow> reply env uid tr s1 | None \<Rightarrow> s1))"

definition session_callbacks :: "vs_env \<Rightarrow> (nat \<Rightarrow> bool) \<Rightarrow> voice_session turn_callbacks" where
  "session_callbacks env uw =
     \<lparr>on_user_turn_started = Some vs_on_user_turn_started,
      on_user_turn_completed = Some (vs_on_user_turn_completed env uw),
      on_user_interrupted = Some (vs_on_user_interrupted env)\<rparr>"

section \<open>Input\<close>

definition session_transcript ::
  "vs_env \<Rightarrow> (nat \<Rightarrow> bool) \<Rightarrow> transcript_event \<Rightarrow> voice_session \<Rightarrow> voice_session \<times> py_exn option" where
  "session_transcript env uw ev s = process_transcript_event (session_callbacks env uw) (ve_now env) ev s"

definition process_audio_frame :: "vs_env \<Rightarrow> (nat \<Rightarrow> bool) \<Rightarrow> bytes \<Rightarrow> voice_session \<Rightarrow> voice_session" where
  "process_audio_frame env uw fr s =
     (case vs_vad s of
        None \<Rightarrow> s
      | Some v \<Rightarrow>
          (case vad_update fr v of (speech_started, v1) \<Rightarrow>
             let s1 = s\<lparr>vs_vad := Some v1\<rparr>
             in if \<not> speech_started then s1
                else if is_system_speaking s1
                then handle_interruption (session_callbacks env uw) (ve_now env) s1
                else if vs_held s1 \<noteq> None then start_hold_timer s1
                else s1))"

definition inject_transcript ::
  "vs_env \<Rightarrow> (nat \<Rightarrow> bool) \<Rightarrow> string \<Rightarrow> ustr \<Rightarrow> voice_session \<Rightarrow> voice_session \<times> py_exn option" where
  "inject_transcript env uw uid t s =
     (let ev = (\<lambda>k. \<lparr>te_type = k, te_utterance_id = uid, te_transcript = t, te_confidence = 1,
                     te_timestamp = ve_now env\<rparr>)
      in case session_transcript env uw (ev PARTIAL) s of
           (s1, Some e) \<Rightarrow> (s1, Some e)
         | (s1, None) \<Rightarrow> session_transcript env uw (ev FINAL) s1)"

definition speak_text :: "vs_env \<Rightarrow> string \<Rightarrow> ustr \<Rightarrow> voice_session \<Rightarrow> voice_session" where
  "speak_text env uid t s =
     (let s1 = start_system_turn (s\<lparr>vs_timing := None\<rparr>);
          s2 = session_tts_begin env uid s1
      in s2\<lparr>vs_tts := tts_finish (tts_speak t (vs_tts s2))\<rparr>)"

text \<open>
  Closing waits for the generation to be cancelled; its completion callback still runs, with the
  text \<open>full_text\<close> it had so far.
\<close>

definition close_session :: "vs_env \<Rightarrow> ustr \<Rightarrow> voice_session \<Rightarrow> voice_session" where
  "close_session env full_text s =
     (let s0 = (cancel_hold_timer s)\<lparr>vs_held := None\<rparr>;
          s1 = (if is_generating (vs_llm s0) \<and> strip full_text \<noteq> []
                then remember ''assistant'' (strip full_text) s0 else s0);
          s2 = s1\<lparr>vs_llm := llm_aclose (vs_llm s1)\<rparr>
      in snd (session_tts_stop env (u ''closed'') s2))"

text \<open>The reply's task ends by itself: the callback runs while the task is still the current one.\<close>

definition playback_end :: "string \<Rightarrow> bool \<Rightarrow> voice_session \<Rightarrow> voice_session" where
  "playback_end uid interrupted s =
     (let s1 = on_playback_end uid interrupted s
      in s1\<lparr>vs_tts := (vs_tts s1)\<lparr>tc_running := False\<rparr>\<rparr>)"

section \<open>What each helper leaves alone\<close>

lemma remember_frame [simp]:
  "is_user_speaking (remember r c s) = is_user_speaking s" "is_system_speaking (remember r c s) = is_system_speaking s"
  "turn_count (remember r c s) = turn_count s" "current_utterance_id (remember r c s) = current_utterance_id s"
  "vs_held (remember r c s) = vs_held s" "vs_hold_task (remember r c s) = vs_hold_task s"
  "vs_llm (remember r c s) = vs_llm s" "vs_tts (remember r c s) = vs_tts s"
  "vs_history_turns (remember r c s) = vs_history_turns s" "vs_requests (remember r c s) = vs_requests s"
  "vs_eot_hold (remember r c s) = vs_eot_hold s"
  by (simp_all add: remember_def Let_def)

lemma playback_interrupted_frame [simp]:
  "is_user_speaking (on_playback_end v True s) = is_user_speaking s"
  "is_system_speaking (on_playback_end v True s) = is_system_speaking s"
  "turn_count (on_playback_end v True s) = turn_count s"
  "current_utterance_id (on_playback_end v True s) = current_utterance_id s"
  "vs_held (on_playback_end v i s) = vs_held s" "vs_hold_task (on_playback_end v i s) = vs_hold_task s"
  "vs_llm (on_playback_end v i s) = vs_llm s" "vs_tts (on_playback_end v i s) = vs_tts s"
  "vs_history_turns (on_playback_end v i s) = vs_history_turns s"
  "vs_history (on_playback_end v i s) = vs_history s" "vs_requests (on_playback_end v i s) = vs_requests s"
  "vs_eot_hold (on_playback_end v i s) = vs_eot_hold s"
  "is_user_speaking (on_playback_end v i s) = is_user_speaking s"
  "current_utterance_id (on_playback_end v i s) = current_utterance_id s"
  "turn_count (on_playback_end v i s) = turn_count s"
  by (simp_all add: on_playback_end_def vs_send_def complete_system_turn_def Let_def split: option.split)

lemma stop_frame [simp]:
  "is_user_speaking (snd (session_tts_stop env r s)) = is_user_speaking s"
  "is_system_speaking (snd (session_tts_stop env r s)) = is_system_speaking s"
  "turn_count (snd (session_tts_stop env r s)) = turn_count s"
  "current_utterance_id (snd (session_tts_stop env r s)) = current_utterance_id s"
  "vs_held (snd (session_tts_stop env r s)) = vs_held s"
  "vs_hold_task (snd (session_tts_stop env r s)) = vs_hold_task s"
  "vs_llm (snd (session_tts_stop env r s)) = vs_llm s"
  "vs_history_turns (snd (session_tts_stop env r s)) = vs_history_turns s"
  "vs_history (snd (session_tts_stop env r s)) = vs_history s"
  "vs_requests (snd (session_tts_stop env r s)) = vs_requests s"
  "vs_eot_hold (snd (session_tts_stop env r s)) = vs_eot_hold s"
  by (simp_all add: session_tts_stop_def Let_def split: option.split)

lemma stop_silent: "\<not> is_active (vs_tts (snd (session_tts_stop env r s)))"
  by (simp add: session_tts_stop_def Let_def tts_stop_inactive split: option.split)

lemma begin_frame [simp]:
  "is_user_speaking (session_tts_begin env v s) = is_user_speaking s"
  "is_system_speaking (session_tts_begin env v s) = is_system_speaking s"
  "turn_count (session_tts_begin env v s) = turn_count s"
  "current_utterance_id (session_tts_begin env v s) = current_utterance_id s"
  "vs_held (session_tts_begin env v s) = vs_held s"
  "vs_hold_task (session_tts_begin env v s) = vs_hold_task s"
  "vs_llm (session_tts_begin env v s) = vs_llm s"
  "vs_history_turns (session_tts_begin env v s) = vs_history_turns s"
  "vs_history (session_tts_begin env v s) = vs_history s"
  "vs_requests (session_tts_begin env v s) = vs_requests s"
  by (simp_all add: session_tts_begin_def Let_def)

lemma reply_fields [simp]:
  "is_user_speaking (reply env v t s) = is_user_speaking s"
  "is_system_speaking (reply env v t s)"
  "turn_count (reply env v t s) = turn_count s"
  "current_utterance_id (reply env v t s) = current_utterance_id s"
  "vs_held (reply env v t s) = vs_held s"
  "vs_hold_task (reply env v t s) = vs_hold_task s"
  "vs_llm (reply env v t s) = start_generation (vs_llm s)"
  "vs_history_turns (reply env v t s) = vs_history_turns s"
  "vs_requests (reply env v t s) = vs_requests s @ [(strip t, v, vs_history s)]"
  by (simp_all add: reply_def Let_def start_system_turn_def)

lemma reply_history: "vs_history (reply env v t s) = vs_history (remember ''user'' (strip t) s)"
  by (simp add: reply_def Let_def start_system_turn_def remember_def)

lemma reply_speaks: "is_active (vs_tts (reply env v t s))" "tc_queue (vs_tts (reply env v t s)) = Some []"
  by (simp_all add: reply_def Let_def session_tts_begin_def tts_begin_fields)

lemma interrupted_fields [simp]:
  "is_user_speaking (vs_on_user_interrupted env e s) = is_user_speaking s"
  "is_system_speaking (vs_on_user_interrupted env e s) = is_system_speaking s"
  "turn_count (vs_on_user_interrupted env e s) = turn_count s"
  "current_utterance_id (vs_on_user_interrupted env e s) = current_utterance_id s"
  "vs_held (vs_on_user_interrupted env e s) = vs_held s"
  "vs_hold_task (vs_on_user_interrupted env e s) = vs_hold_task s"
  "vs_llm (vs_on_user_interrupted env e s) = llm_cancel (vs_llm s)"
  "vs_history_turns (vs_on_user_interrupted env e s) = vs_history_turns s"
  "vs_history (vs_on_user_interrupted env e s) = vs_history s"
  "vs_requests (vs_on_user_interrupted env e s) = vs_requests s"
  "\<not> is_active (vs_tts (vs_on_user_interrupted env e s))"
proof -
  define s2 where "s2 = s\<lparr>vs_timing := map_option (\<lambda>t. t\<lparr>tt_interrupted := True\<rparr>) (vs_timing s),
     vs_llm := llm_cancel (vs_llm s)\<rparr>"
  obtain b s3 where st: "session_tts_stop env (u ''barge_in'') s2 = (b, s3)" by fastforce
  note f = stop_frame [of env "u ''barge_in''" s2, unfolded st snd_conv]
  have na: "\<not> is_active (vs_tts s3)" using stop_silent [of env "u ''barge_in''" s2] st by simp
  have e: "vs_on_user_interrupted env e s = (if b then vs_send (BargeIn (py_round_to 2 ((ve_later env - ve_now env) * 1000)))
      (s3\<lparr>vs_stats := record_barge_in ((ve_later env - ve_now env) * 1000) (vs_stats s3)\<rparr>) else s3)"
    using st by (simp add: vs_on_user_interrupted_def Let_def s2_def)
  show "is_user_speaking (vs_on_user_interrupted env e s) = is_user_speaking s"
    "is_system_speaking (vs_on_user_interrupted env e s) = is_system_speaking s"
    "turn_count (vs_on_user_interrupted env e s) = turn_count s"
    "current_utterance_id (vs_on_user_interrupted env e s) = current_utterance_id s"
    "vs_held (vs_on_user_interrupted env e s) = vs_held s"
    "vs_hold_task (vs_on_user_interrupted env e s) = vs_hold_task s"
    "vs_llm (vs_on_user_interrupted env e s) = llm_cancel (vs_llm s)"
    "vs_history_turns (vs_on_user_interrupted env e s) = vs_history_turns s"
    "vs_history (vs_on_user_interrupted env e s) = vs_history s"
    "vs_requests (vs_on_user_interrupted env e s) = vs_requests s"
    "\<not> is_active (vs_tts (vs_on_user_interrupted env e s))"
    using f na by (simp_all add: e vs_send_def s2_def)
qed

section \<open>The invariant\<close>

text \<open>
  A held turn always has someone who will answer it: a timer, or the caller who is speaking again.
  The user and the system never hold the turn together, and the history never exceeds its bound.
\<close>

definition history_ok :: "voice_session \<Rightarrow> bool" where
  "history_ok s \<longleftrightarrow> int (length (vs_history s)) \<le> max 0 (vs_history_turns s * 2)"

definition held_ok :: "voice_session \<Rightarrow> bool" where
  "held_ok s \<longleftrightarrow> (vs_held s \<noteq> None \<longrightarrow> vs_hold_task s \<noteq> None \<or> is_user_speaking s)
     \<and> (vs_hold_task s \<noteq> None \<longrightarrow> vs_held s \<noteq> None \<and> \<not> is_user_speaking s)"

definition session_wf :: "voice_session \<Rightarrow> bool" where
  "session_wf s \<longleftrightarrow> conv_wf s \<and> llm_wf (vs_llm s) \<and> history_ok s \<and> held_ok s
     \<and> \<not> (is_user_speaking s \<and> is_system_speaking s)"

lemma session_wf_new: "session_wf (new_voice_session cfg ht vb eh cid now stats)"
  by (simp add: session_wf_def new_voice_session_def conv_wf_def llm_wf_new history_ok_def held_ok_def)

lemma history_ok_remember [inv_pres]: "history_ok s \<Longrightarrow> history_ok (remember r c s)"
  by (auto simp: history_ok_def remember_def Let_def)

lemma history_ok_reply [inv_pres]: "history_ok s \<Longrightarrow> history_ok (reply env v t s)"
  using history_ok_remember [of s "''user''" "strip t"] by (simp add: history_ok_def reply_history)

lemma conv_wf_fields: "current_utterance_id s' = current_utterance_id s \<Longrightarrow>
   is_user_speaking s' = is_user_speaking s \<Longrightarrow> conv_wf s \<Longrightarrow> conv_wf s'"
  by (simp add: conv_wf_def)

text \<open>
  The text and the identifier of the turn that ends: a held part comes first. The end of a turn is
  then one of three: blank, held with a timer, or answered.
\<close>

definition turn_text :: "ustr \<Rightarrow> voice_session \<Rightarrow> ustr" where
  "turn_text tr s = (case vs_held s of
     Some (huid, htr) \<Rightarrow> strip (strip htr @ u '' '' @ strip tr) | None \<Rightarrow> strip tr)"

definition turn_uid :: "string \<Rightarrow> voice_session \<Rightarrow> string" where
  "turn_uid v s = (case vs_held s of Some (huid, htr) \<Rightarrow> huid | None \<Rightarrow> v)"

definition unheld :: "voice_session \<Rightarrow> voice_session" where
  "unheld s = s\<lparr>vs_held := None, vs_hold_task := None\<rparr>"

lemma turn_text_strip: "strip (turn_text tr s) = turn_text tr s"
  by (simp add: turn_text_def strip_idem split: option.split prod.split)

lemma turn_completed_blank: "turn_text tr s = [] \<Longrightarrow> turn_completed env uw v tr s = unheld s"
  by (cases "vs_held s") (auto simp: turn_text_def turn_completed_def Let_def cancel_hold_timer_def unheld_def)

lemma turn_completed_held:
  assumes "turn_text tr s \<noteq> []" "0 < vs_eot_hold s" "sounds_unfinished uw (turn_text tr s)"
  shows "\<exists>tr'. strip tr' = turn_text tr s \<and> turn_completed env uw v tr s
    = vs_send (TurnHeld (turn_uid v s)) (start_hold_timer ((unheld s)\<lparr>vs_held := Some (turn_uid v s, tr')\<rparr>))"
proof (cases "vs_held s")
  case None
  then show ?thesis using assms
    by (intro exI [of _ tr])
      (simp add: turn_text_def turn_uid_def turn_completed_def Let_def cancel_hold_timer_def unheld_def)
next
  case (Some h)
  obtain huid htr where "h = (huid, htr)" by fastforce
  then show ?thesis using Some assms
    by (intro exI [of _ "turn_text tr s"])
      (simp add: turn_text_def turn_uid_def turn_completed_def Let_def cancel_hold_timer_def unheld_def strip_idem)
qed

lemma turn_completed_reply:
  assumes "turn_text tr s \<noteq> []" "\<not> (0 < vs_eot_hold s \<and> sounds_unfinished uw (turn_text tr s))"
  shows "\<exists>tr'. strip tr' = turn_text tr s \<and> turn_completed env uw v tr s = reply env (turn_uid v s) tr' (unheld s)"
proof (cases "vs_held s")
  case None
  then have "cancel_hold_timer s = unheld s" by (simp add: cancel_hold_timer_def unheld_def)
  then show ?thesis using assms None
    by (intro exI [of _ tr]) (auto simp: turn_text_def turn_uid_def turn_completed_def Let_def unheld_def)
next
  case (Some h)
  obtain huid htr where "h = (huid, htr)" by fastforce
  then show ?thesis using Some assms
    by (intro exI [of _ "turn_text tr s"])
      (auto simp: turn_text_def turn_uid_def turn_completed_def Let_def cancel_hold_timer_def unheld_def strip_idem)
qed

lemma turn_completed_cases:
  obtains (blank) "turn_text tr s = []" "turn_completed env uw v tr s = unheld s"
  | (held) tr' where "turn_text tr s \<noteq> []" "strip tr' = turn_text tr s" "turn_completed env uw v tr s
      = vs_send (TurnHeld (turn_uid v s)) (start_hold_timer ((unheld s)\<lparr>vs_held := Some (turn_uid v s, tr')\<rparr>))"
  | (answered) tr' where "turn_text tr s \<noteq> []" "strip tr' = turn_text tr s"
      "turn_completed env uw v tr s = reply env (turn_uid v s) tr' (unheld s)"
  using turn_completed_blank turn_completed_held turn_completed_reply by metis

lemma unheld_fields [simp]:
  "is_user_speaking (unheld s) = is_user_speaking s" "is_system_speaking (unheld s) = is_system_speaking s"
  "turn_count (unheld s) = turn_count s" "current_utterance_id (unheld s) = current_utterance_id s"
  "vs_llm (unheld s) = vs_llm s" "vs_history (unheld s) = vs_history s" "vs_requests (unheld s) = vs_requests s"
  "vs_history_turns (unheld s) = vs_history_turns s" "vs_held (unheld s) = None" "vs_hold_task (unheld s) = None"
  "vs_tts (unheld s) = vs_tts s"
  by (simp_all add: unheld_def)

lemma start_hold_fields [simp]:
  "is_user_speaking (start_hold_timer s) = is_user_speaking s"
  "is_system_speaking (start_hold_timer s) = is_system_speaking s"
  "turn_count (start_hold_timer s) = turn_count s" "current_utterance_id (start_hold_timer s) = current_utterance_id s"
  "vs_llm (start_hold_timer s) = vs_llm s" "vs_history (start_hold_timer s) = vs_history s"
  "vs_requests (start_hold_timer s) = vs_requests s" "vs_history_turns (start_hold_timer s) = vs_history_turns s"
  "vs_held (start_hold_timer s) = vs_held s" "vs_hold_task (start_hold_timer s) = Some (vs_hold_count s)"
  by (simp_all add: start_hold_timer_def cancel_hold_timer_def Let_def)

lemma vs_send_fields [simp]:
  "is_user_speaking (vs_send e s) = is_user_speaking s" "is_system_speaking (vs_send e s) = is_system_speaking s"
  "turn_count (vs_send e s) = turn_count s" "current_utterance_id (vs_send e s) = current_utterance_id s"
  "vs_llm (vs_send e s) = vs_llm s" "vs_history (vs_send e s) = vs_history s"
  "vs_requests (vs_send e s) = vs_requests s" "vs_history_turns (vs_send e s) = vs_history_turns s"
  "vs_held (vs_send e s) = vs_held s" "vs_hold_task (vs_send e s) = vs_hold_task s"
  by (simp_all add: vs_send_def)

text \<open>The words of the turn: none is lost between the held part, the new part and the text.\<close>

lemma inked_turn_text:
  "inked (turn_text tr s) = (case vs_held s of Some h \<Rightarrow> inked (snd h) | None \<Rightarrow> []) @ inked tr"
proof -
  have "inked (u '' '') = []" by (simp add: inked_def u_def py_space_def)
  then show ?thesis by (cases "vs_held s") (auto simp: turn_text_def)
qed

lemma turn_completed_conv [simp]:
  "is_user_speaking (turn_completed env uw v tr s) = is_user_speaking s"
  "turn_count (turn_completed env uw v tr s) = turn_count s"
  "current_utterance_id (turn_completed env uw v tr s) = current_utterance_id s"
  by (rule turn_completed_cases [of tr s env uw v]; simp)+

text \<open>The session keeps the turn manager's contract.\<close>

lemma callbacks_fire [simp]:
  "fire (on_user_turn_started (session_callbacks env uw)) e s = vs_on_user_turn_started e s"
  "fire (on_user_turn_completed (session_callbacks env uw)) e s = vs_on_user_turn_completed env uw e s"
  "fire (on_user_interrupted (session_callbacks env uw)) e s = vs_on_user_interrupted env e s"
  by (simp_all add: fire_def session_callbacks_def)

lemma started_fields [simp]:
  "is_user_speaking (vs_on_user_turn_started e s) = is_user_speaking s"
  "is_system_speaking (vs_on_user_turn_started e s) = is_system_speaking s"
  "turn_count (vs_on_user_turn_started e s) = turn_count s"
  "current_utterance_id (vs_on_user_turn_started e s) = current_utterance_id s"
  "vs_llm (vs_on_user_turn_started e s) = llm_cancel (vs_llm s)"
  "vs_history (vs_on_user_turn_started e s) = vs_history s"
  "vs_history_turns (vs_on_user_turn_started e s) = vs_history_turns s"
  "vs_held (vs_on_user_turn_started e s) = vs_held s"
  "vs_hold_task (vs_on_user_turn_started e s) = None"
  "vs_requests (vs_on_user_turn_started e s) = vs_requests s"
  "vs_tts (vs_on_user_turn_started e s) = vs_tts s"
  by (simp_all add: vs_on_user_turn_started_def cancel_hold_timer_def)

lemma completed_conv [simp]:
  "is_user_speaking (vs_on_user_turn_completed env uw e s) = is_user_speaking s"
  "turn_count (vs_on_user_turn_completed env uw e s) = turn_count s"
  "current_utterance_id (vs_on_user_turn_completed env uw e s) = current_utterance_id s"
  by (simp_all add: vs_on_user_turn_completed_def split: turn_event.split)

interpretation session_turns: turn_host "session_callbacks env uw"
  for env :: vs_env and uw :: "nat \<Rightarrow> bool"
  by unfold_locales (simp_all add: conv_wf_fields [of "vs_on_user_turn_started _ _"]
      conv_wf_fields [of "vs_on_user_turn_completed _ _ _ _"] conv_wf_fields [of "vs_on_user_interrupted _ _ _"])

section \<open>The invariant is kept\<close>

lemma session_wfD:
  assumes "session_wf s"
  shows "conv_wf s" "llm_wf (vs_llm s)" "history_ok s" "held_ok s" "is_user_speaking s \<Longrightarrow> \<not> is_system_speaking s"
  using assms by (auto simp: session_wf_def)

lemma history_ok_cong: "vs_history s' = vs_history s \<Longrightarrow> vs_history_turns s' = vs_history_turns s \<Longrightarrow>
   history_ok s' = history_ok s"
  by (simp add: history_ok_def)

lemma turn_completed_wf:
  assumes "conv_wf s" "llm_wf (vs_llm s)" "history_ok s" "\<not> is_user_speaking s"
  shows "session_wf (turn_completed env uw v tr s)"
proof -
  have c: "conv_wf (turn_completed env uw v tr s)" by (rule conv_wf_fields [of _ s]) (simp_all add: assms)
  have h: "history_ok (unheld s)" using assms(3) by (simp add: history_ok_def)
  show ?thesis
  proof (cases rule: turn_completed_cases [of tr s env uw v])
    case blank
    then show ?thesis using assms h c by (simp add: session_wf_def held_ok_def)
  next
    case (held tr')
    then show ?thesis using assms c by (simp add: session_wf_def held_ok_def history_ok_def)
  next
    case (answered tr')
    have "history_ok (reply env (turn_uid v s) tr' (unheld s))" using h by (rule history_ok_reply)
    then show ?thesis using assms answered c by (simp add: session_wf_def held_ok_def llm_wf_start)
  qed
qed

lemma session_wf_interruption [inv_pres]:
  assumes "session_wf s"
  shows "session_wf (handle_interruption (session_callbacks env uw) now s)"
proof (cases "is_system_speaking s")
  case True
  then have nu: "\<not> is_user_speaking s" using session_wfD(5) [OF assms] by blast
  then have "interrupt_user s = s" by (simp add: interrupt_user_def)
  then show ?thesis using True assms nu
    by (simp add: handle_interruption_def session_wf_def complete_system_turn_def conv_wf_def held_ok_def
        history_ok_def llm_wf_cancel)
qed (use assms in \<open>simp add: handle_interruption_def\<close>)

lemma session_wf_opened:
  assumes "session_wf s" "\<not> is_system_speaking s" "start_user_turn now w s = (s1, None)"
  shows "session_wf (vs_on_user_turn_started e s1)" "\<not> is_system_speaking s1" "is_user_speaking s1"
  using assms by (auto simp: start_user_turn_def session_wf_def conv_wf_def held_ok_def history_ok_def llm_wf_cancel
      split: option.splits)

lemma start_user_turn_raises: "start_user_turn now w s = (s1, Some e) \<Longrightarrow> s1 = s"
  by (auto simp: start_user_turn_def split: option.splits)

lemma session_wf_activity [simp]: "session_wf (s\<lparr>last_user_activity := t\<rparr>) = session_wf s"
  by (simp add: session_wf_def conv_wf_def held_ok_def history_ok_def)

lemma session_wf_partial:
  assumes "session_wf s"
  shows "session_wf (fst (process_partial (session_callbacks env uw) now ev s))"
proof -
  define s1 where "s1 = (if is_system_speaking s then handle_interruption (session_callbacks env uw) now s else s)"
  have w: "session_wf s1" by (simp add: s1_def assms session_wf_interruption)
  have q: "\<not> is_system_speaking s1" by (simp add: s1_def session_turns.interruption_system)
  obtain s2 ex where st: "start_user_turn now (UtteranceStr (te_utterance_id ev)) s1 = (s2, ex)" by fastforce
  show ?thesis
  proof (cases ex)
    case None
    have "session_wf (vs_on_user_turn_started (UserTurnStarted (te_utterance_id ev) now) s2)"
      using session_wf_opened(1) [OF w q] st None by simp
    then show ?thesis unfolding process_partial_def Let_def s1_def [symmetric] using w st None by simp
  next
    case (Some e)
    then have "s2 = s1" using st start_user_turn_raises by blast
    then show ?thesis unfolding process_partial_def Let_def s1_def [symmetric] using w st Some by simp
  qed
qed

lemma completed_event [simp]:
  "vs_on_user_turn_completed env uw (UserTurnCompleted v tr now) s = turn_completed env uw v tr s"
  by (simp add: vs_on_user_turn_completed_def)

lemma completed_user_wf:
  "session_wf s \<Longrightarrow> session_wf (turn_completed env uw v tr (complete_user_turn now s))"
  by (rule turn_completed_wf)
    (auto simp: complete_user_turn_def conv_wf_def session_wf_def history_ok_def)

lemma session_wf_final:
  assumes "session_wf s"
  shows "session_wf (fst (process_final (session_callbacks env uw) now ev s))"
proof (cases "is_user_speaking s")
  case True
  then show ?thesis using assms by (simp add: process_final_def Let_def completed_user_wf)
next
  case False
  define s1 where "s1 = (if is_system_speaking s then handle_interruption (session_callbacks env uw) now s else s)"
  have w: "session_wf s1" by (simp add: s1_def assms session_wf_interruption)
  have q: "\<not> is_system_speaking s1" by (simp add: s1_def session_turns.interruption_system)
  obtain s2 ex where st: "start_user_turn now (UtteranceStr (te_utterance_id ev)) s1 = (s2, ex)" by fastforce
  show ?thesis
  proof (cases ex)
    case None
    have "session_wf (vs_on_user_turn_started (UserTurnStarted (te_utterance_id ev) now) s2)"
      using session_wf_opened(1) [OF w q] st None by simp
    then show ?thesis unfolding process_final_def Let_def s1_def [symmetric]
      using assms False st None by (simp add: completed_user_wf)
  next
    case (Some e)
    then have "s2 = s1" using st start_user_turn_raises by blast
    then show ?thesis unfolding process_final_def Let_def s1_def [symmetric] using w st Some False assms by simp
  qed
qed

lemma session_wf_transcript [inv_pres]: "session_wf s \<Longrightarrow> session_wf (fst (session_transcript env uw ev s))"
  by (simp add: session_transcript_def process_transcript_event_def session_wf_partial session_wf_final
      split: transcript_type.split)

lemma session_wf_vad [simp]: "session_wf (s\<lparr>vs_vad := v\<rparr>) = session_wf s"
  by (simp add: session_wf_def conv_wf_def held_ok_def history_ok_def)

lemma session_wf_hold:
  "session_wf s \<Longrightarrow> \<not> is_user_speaking s \<Longrightarrow> vs_held s \<noteq> None \<Longrightarrow> session_wf (start_hold_timer s)"
  by (simp add: session_wf_def held_ok_def history_ok_def conv_wf_def)

text \<open>
  The detector restarts the hold timer also while the caller is already speaking again, so the
  timer may then run beside an open turn: the audio input keeps the invariant when the user is not
  in an open turn.
\<close>

lemma session_wf_audio [inv_pres]:
  assumes "session_wf s" "\<not> (is_user_speaking s \<and> vs_held s \<noteq> None)"
  shows "session_wf (process_audio_frame env uw fr s)"
  using assms
  by (auto simp: process_audio_frame_def Let_def session_wf_interruption session_wf_hold
      split: option.splits prod.splits)

lemma session_wf_release [inv_pres]:
  assumes "session_wf s"
  shows "session_wf (release_held_turn env k s)"
proof (cases "vs_hold_task s = Some k")
  case True
  then have nu: "\<not> is_user_speaking s" using session_wfD(4) [OF assms] by (simp add: held_ok_def)
  obtain v tr where h: "vs_held s = Some (v, tr)"
    using session_wfD(4) [OF assms] True by (auto simp: held_ok_def)
  have r: "release_held_turn env k s = reply env v tr (unheld s)"
    using True h by (simp add: release_held_turn_def Let_def unheld_def)
  have "history_ok (unheld s)" using session_wfD(3) [OF assms] by (simp add: history_ok_def)
  then have "history_ok (reply env v tr (unheld s))" by (rule history_ok_reply)
  moreover have "conv_wf (reply env v tr (unheld s))"
    by (rule conv_wf_fields [of _ s]) (simp_all add: session_wfD(1) [OF assms])
  ultimately show ?thesis unfolding r
    using nu session_wfD(2) [OF assms] by (simp add: session_wf_def held_ok_def llm_wf_start)
qed (use assms in \<open>simp add: release_held_turn_def\<close>)

lemma session_wf_cong:
  "session_wf s \<Longrightarrow> is_user_speaking s' = is_user_speaking s \<Longrightarrow> current_utterance_id s' = current_utterance_id s \<Longrightarrow>
   (is_system_speaking s' \<Longrightarrow> is_system_speaking s) \<Longrightarrow> llm_wf (vs_llm s') \<Longrightarrow> history_ok s' \<Longrightarrow>
   vs_held s' = vs_held s \<Longrightarrow> vs_hold_task s' = vs_hold_task s \<Longrightarrow> session_wf s'"
  by (auto simp: session_wf_def conv_wf_def held_ok_def)

lemma session_wf_llm_events [inv_pres]:
  assumes "session_wf s"
  shows "session_wf (llm_first_token now g s)" "session_wf (llm_segment now g seg s)"
    "session_wf (llm_complete g t oc s)"
proof -
  show "session_wf (llm_first_token now g s)" "session_wf (llm_segment now g seg s)"
    using session_wfD(2,3) [OF assms]
    by (auto intro!: session_wf_cong [OF assms] simp: llm_first_token_def llm_segment_def Let_def history_ok_def)
  have "history_ok (remember ''assistant'' (strip t) s)" using session_wfD(3) [OF assms] by (rule history_ok_remember)
  then show "session_wf (llm_complete g t oc s)" using session_wfD(2,3) [OF assms]
    by (auto intro!: session_wf_cong [OF assms] llm_wf_ends simp: llm_complete_def Let_def history_ok_def)
qed

lemma session_wf_playback [inv_pres]:
  assumes "session_wf s"
  shows "session_wf (playback_end v i s)" "session_wf (on_first_audio now v s)"
proof -
  have "is_system_speaking (on_playback_end v i s) \<Longrightarrow> is_system_speaking s"
    by (auto simp: on_playback_end_def Let_def complete_system_turn_def split: option.splits if_splits)
  then show "session_wf (playback_end v i s)" using session_wfD(2,3) [OF assms]
    by (auto intro!: session_wf_cong [OF assms] simp: playback_end_def Let_def history_ok_def)
  show "session_wf (on_first_audio now v s)" using session_wfD(2,3) [OF assms]
    by (auto intro!: session_wf_cong [OF assms] simp: on_first_audio_def history_ok_def split: option.splits)
qed

lemma session_wf_speak_text [inv_pres]:
  assumes "session_wf s" "\<not> is_user_speaking s"
  shows "session_wf (speak_text env v t s)"
  using assms by (simp add: speak_text_def Let_def start_system_turn_def session_wf_def conv_wf_def held_ok_def history_ok_def)

lemma session_wf_close [inv_pres]:
  assumes "session_wf s"
  shows "session_wf (close_session env t s)"
proof -
  have e: "(cancel_hold_timer s)\<lparr>vs_held := None\<rparr> = unheld s" by (simp add: cancel_hold_timer_def unheld_def)
  have h: "history_ok (unheld s)" using session_wfD(3) [OF assms] by (simp add: history_ok_def)
  then have "history_ok (remember ''assistant'' (strip t) (unheld s))" by (rule history_ok_remember)
  then show ?thesis using assms h unfolding close_session_def Let_def e
    by (simp add: session_wf_def conv_wf_def held_ok_def history_ok_def llm_wf_aclose)
qed

section \<open>Sessions as a transition system\<close>

text \<open>
  One step of a session is one input, one timer, one event of a task. \<^verbatim>\<open>speak_text\<close> is a
  development helper; it is a step when the user is not speaking. The audio input is a step
  except in the situation that \<open>late_hold\<close> below describes.
\<close>

inductive session_step :: "(nat \<Rightarrow> bool) \<Rightarrow> voice_session \<Rightarrow> voice_session \<Rightarrow> bool" for uw where
  step_transcript: "session_step uw s (fst (session_transcript env uw ev s))"
| step_audio: "\<not> (is_user_speaking s \<and> vs_held s \<noteq> None) \<Longrightarrow>
    session_step uw s (process_audio_frame env uw fr s)"
| step_timer: "session_step uw s (release_held_turn env k s)"
| step_token: "session_step uw s (llm_first_token now g s)"
| step_segment: "session_step uw s (llm_segment now g seg s)"
| step_complete: "session_step uw s (llm_complete g t oc s)"
| step_first_audio: "session_step uw s (on_first_audio now v s)"
| step_playback: "session_step uw s (playback_end v i s)"
| step_speak_text: "\<not> is_user_speaking s \<Longrightarrow> session_step uw s (speak_text env v t s)"
| step_close: "session_step uw s (close_session env t s)"

inductive session_run :: "(nat \<Rightarrow> bool) \<Rightarrow> voice_session \<Rightarrow> voice_session \<Rightarrow> bool" for uw where
  run_start: "session_run uw s s"
| run_more: "session_run uw s s' \<Longrightarrow> session_step uw s' s'' \<Longrightarrow> session_run uw s s''"

inductive_cases session_stepE: "session_step uw s s'"

lemma session_step_wf [inv_pres]: "session_step uw s s' \<Longrightarrow> session_wf s \<Longrightarrow> session_wf s'"
  by (erule session_stepE) (simp_all add: inv_pres)

lemma session_run_wf: "session_run uw s s' \<Longrightarrow> session_wf s \<Longrightarrow> session_wf s'"
  by (induction rule: session_run.induct) (auto dest: session_step_wf)

section \<open>Barge-in, and the held turn\<close>

text \<open>
  The caller speaks while the system does: after the recogniser's partial transcript the reply is
  neither generated nor spoken, and the turn is the caller's.
\<close>

lemma barge_in:
  assumes "session_wf s" "is_system_speaking s" "te_type ev = PARTIAL"
    and r: "session_transcript env uw ev s = (s', None)"
  shows "\<not> is_active (vs_tts s') \<and> \<not> is_system_speaking s' \<and> is_user_speaking s'
    \<and> (\<forall>i<length (lc_tasks (vs_llm s')). lc_tasks (vs_llm s') ! i \<noteq> LlmRunning False)"
proof -
  have nu: "\<not> is_user_speaking s" using session_wfD(5) [OF assms(1)] assms(2) by blast
  define s1 where "s1 = handle_interruption (session_callbacks env uw) (ve_now env) s"
  have s1: "vs_llm s1 = llm_cancel (vs_llm s)" "\<not> is_active (vs_tts s1)" "\<not> is_system_speaking s1" "\<not> is_user_speaking s1"
    using assms(2) nu
    by (simp_all add: s1_def handle_interruption_def interrupt_user_def complete_system_turn_def)
  obtain n where n: "uuid_of_string (te_utterance_id ev) = Some n"
    using r assms(2,3) s1(4) by (auto simp: session_transcript_def process_transcript_event_def process_partial_def
        Let_def s1_def start_user_turn_def split: option.splits)
  have s': "s' = (vs_on_user_turn_started (UserTurnStarted (te_utterance_id ev) (ve_now env))
      (s1\<lparr>current_utterance_id := Some n, is_user_speaking := True, last_user_activity := ve_now env\<rparr>))
        \<lparr>last_user_activity := te_timestamp ev\<rparr>"
    using r assms(2,3) s1(4) n by (simp add: session_transcript_def process_transcript_event_def process_partial_def
        Let_def s1_def start_user_turn_def)
  have "llm_wf (llm_cancel (vs_llm s))" using session_wfD(2) [OF assms(1)] by (rule llm_wf_cancel)
  then have "\<forall>i<length (lc_tasks (vs_llm s')). lc_tasks (vs_llm s') ! i \<noteq> LlmRunning False"
    using llm_cancel_none_live by (simp add: s' s1(1) length_llm_cancel)
  then show ?thesis using s1 by (simp add: s')
qed

text \<open>
  A held turn is answered when its timer fires: the words of the request are the held words, and
  the request carries the history of before the turn.
\<close>

lemma release_answers:
  assumes "session_wf s" "vs_hold_task s = Some k"
  shows "\<exists>v tr. vs_held s = Some (v, tr)
    \<and> vs_requests (release_held_turn env k s) = vs_requests s @ [(strip tr, v, vs_history s)]
    \<and> is_system_speaking (release_held_turn env k s) \<and> is_active (vs_tts (release_held_turn env k s))
    \<and> vs_held (release_held_turn env k s) = None"
proof -
  obtain v tr where h: "vs_held s = Some (v, tr)"
    using session_wfD(4) [OF assms(1)] assms(2) by (auto simp: held_ok_def)
  have r: "release_held_turn env k s = reply env v tr (unheld s)"
    using assms(2) h by (simp add: release_held_turn_def Let_def unheld_def)
  show ?thesis using h by (simp add: r reply_speaks)
qed

text \<open>
  The situation that breaks the invariant: a turn is held, the caller is already speaking again
  (the recogniser has sent a partial transcript, which stopped the timer), and the loudness detector
  announces speech once more after a short pause. The timer is started again, and when it fires the
  held half-sentence is answered in the middle of the caller's turn.
\<close>

lemma late_hold:
  assumes "vs_vad s = Some v" "vad_update fr v = (True, v')" "vs_held s = Some (uid, tr)"
    and "is_user_speaking s" "\<not> is_system_speaking s"
    and s1_def: "s1 = process_audio_frame env uw fr s"
  shows "vs_hold_task s1 = Some (vs_hold_count s)"
    "vs_requests (release_held_turn env' (vs_hold_count s) s1) = vs_requests s @ [(strip tr, uid, vs_history s)]"
    "is_user_speaking (release_held_turn env' (vs_hold_count s) s1) \<and> is_system_speaking (release_held_turn env' (vs_hold_count s) s1)"
proof -
  have s1: "s1 = start_hold_timer (s\<lparr>vs_vad := Some v'\<rparr>)"
    using assms(1-5) by (simp add: s1_def process_audio_frame_def Let_def)
  then show 1: "vs_hold_task s1 = Some (vs_hold_count s)" by simp
  have h: "vs_held s1 = Some (uid, tr)" using s1 assms(3) by simp
  have r: "release_held_turn env' (vs_hold_count s) s1 = reply env' uid tr (unheld s1)"
    using 1 h by (simp add: release_held_turn_def Let_def unheld_def)
  show "vs_requests (release_held_turn env' (vs_hold_count s) s1) = vs_requests s @ [(strip tr, uid, vs_history s)]"
    unfolding r by (simp add: s1)
  show "is_user_speaking (release_held_turn env' (vs_hold_count s) s1) \<and> is_system_speaking (release_held_turn env' (vs_hold_count s) s1)"
    unfolding r using assms(4) by (simp add: s1)
qed

end
