(* ===== verification/StreamMetrics.thy ===== *)
theory StreamMetrics
  imports Prelude "HOL-Library.AList"
begin

text \<open>
  \<^verbatim>\<open>app/streaming/metrics.py\<close>: the collector that times every inbound frame from enqueue to
  dispatch. The dictionary \<^verbatim>\<open>_frame_metrics\<close> is an association list in insertion order (as a
  Python dict is), the latency samples are a bounded deque. The log lines are not modelled.
\<close>

definition BACKPRESSURE_THRESHOLD_PERCENT :: pyfloat where
  "BACKPRESSURE_THRESHOLD_PERCENT = 8 / 10"

record frame_metrics =
  fm_enqueue_time :: pyfloat
  fm_dequeue_time :: "pyfloat option"
  fm_dispatch_time :: "pyfloat option"

text \<open>\<^verbatim>\<open>if self.enqueue_time and self.dispatch_time\<close>: a time of exactly zero counts as missing.\<close>

definition get_latency_ms :: "frame_metrics \<Rightarrow> pyfloat option" where
  "get_latency_ms fm =
     (case fm_dispatch_time fm of
        None \<Rightarrow> None
      | Some d \<Rightarrow> if fm_enqueue_time fm \<noteq> 0 \<and> d \<noteq> 0
                  then Some ((d - fm_enqueue_time fm) * 1000) else None)"

record streaming_metrics =
  current_latency_ms :: pyfloat
  max_latency_ms :: pyfloat
  queue_depth :: nat
  dropped_frames :: nat
  frame_table :: "(int \<times> frame_metrics) list"
  max_queue_depth :: nat
  max_latency_samples :: nat
  latencies :: "pyfloat list"
  total_latency_ms :: pyfloat
  latency_count :: nat
  frame_id_counter :: nat

definition new_metrics :: "nat \<Rightarrow> streaming_metrics" where
  "new_metrics n =
     \<lparr>current_latency_ms = 0, max_latency_ms = 0, queue_depth = 0, dropped_frames = 0,
      frame_table = [], max_queue_depth = 0, max_latency_samples = n, latencies = [],
      total_latency_ms = 0, latency_count = 0, frame_id_counter = 0\<rparr>"

definition backpressure :: "nat \<Rightarrow> nat \<Rightarrow> bool" where
  "backpressure depth cap \<longleftrightarrow> of_nat depth \<ge> of_nat cap * BACKPRESSURE_THRESHOLD_PERCENT"

definition record_enqueue ::
  "pyfloat \<Rightarrow> nat \<Rightarrow> nat \<Rightarrow> streaming_metrics \<Rightarrow> int \<times> streaming_metrics" where
  "record_enqueue now depth cap m =
     (let fid = int (frame_id_counter m)
      in (fid, m\<lparr>frame_id_counter := frame_id_counter m + 1,
                 queue_depth := depth,
                 max_queue_depth := max (max_queue_depth m) depth,
                 frame_table := AList.update fid
                   \<lparr>fm_enqueue_time = now, fm_dequeue_time = None, fm_dispatch_time = None\<rparr>
                   (frame_table m)\<rparr>))"

definition record_drop :: "streaming_metrics \<Rightarrow> streaming_metrics" where
  "record_drop m = m\<lparr>dropped_frames := dropped_frames m + 1\<rparr>"

definition record_dequeue :: "pyfloat \<Rightarrow> int \<Rightarrow> nat \<Rightarrow> streaming_metrics \<Rightarrow> streaming_metrics" where
  "record_dequeue now fid depth m =
     (let tab = (case map_of (frame_table m) fid of
                   None \<Rightarrow> frame_table m
                 | Some fm \<Rightarrow> AList.update fid (fm\<lparr>fm_dequeue_time := Some now\<rparr>) (frame_table m))
      in m\<lparr>frame_table := tab, queue_depth := depth\<rparr>)"

text \<open>Beyond 1000 tracked frames the 500 smallest identifiers are forgotten.\<close>

definition prune_table :: "(int \<times> frame_metrics) list \<Rightarrow> (int \<times> frame_metrics) list" where
  "prune_table tab =
     (if length tab > 1000
      then let old = take 500 (sort (map fst tab))
           in filter (\<lambda>p. fst p \<notin> set old) tab
      else tab)"

definition note_latency :: "pyfloat option \<Rightarrow> streaming_metrics \<Rightarrow> streaming_metrics" where
  "note_latency lat m =
     (case lat of
        None \<Rightarrow> m
      | Some l \<Rightarrow> m\<lparr>latencies := deque_append (max_latency_samples m) (latencies m) l,
                    total_latency_ms := total_latency_ms m + l,
                    latency_count := latency_count m + 1,
                    current_latency_ms := l,
                    max_latency_ms := max (max_latency_ms m) l\<rparr>)"

definition record_dispatch :: "pyfloat \<Rightarrow> int \<Rightarrow> streaming_metrics \<Rightarrow> streaming_metrics" where
  "record_dispatch now fid m =
     (case map_of (frame_table m) fid of
        None \<Rightarrow> m
      | Some fm \<Rightarrow>
          let fm' = fm\<lparr>fm_dispatch_time := Some now\<rparr>;
              m1 = m\<lparr>frame_table := AList.update fid fm' (frame_table m)\<rparr>;
              m2 = note_latency (get_latency_ms fm') m1
          in m2\<lparr>frame_table := prune_table (frame_table m2)\<rparr>)"

definition get_average_latency_ms :: "streaming_metrics \<Rightarrow> pyfloat" where
  "get_average_latency_ms m =
     (if latency_count m = 0 then 0 else total_latency_ms m / of_nat (latency_count m))"

text \<open>\<^verbatim>\<open>reset\<close> keeps the sample capacity and forgets everything else.\<close>

definition reset_metrics :: "streaming_metrics \<Rightarrow> streaming_metrics" where
  "reset_metrics m =
     m\<lparr>frame_table := [], max_queue_depth := 0, queue_depth := 0, dropped_frames := 0,
       latencies := [], max_latency_ms := 0, current_latency_ms := 0, total_latency_ms := 0,
       latency_count := 0, frame_id_counter := 0\<rparr>"

lemmas metrics_ops = record_enqueue_def record_drop_def record_dequeue_def record_dispatch_def
  note_latency_def reset_metrics_def

section \<open>Invariant\<close>

text \<open>
  The table has one entry per identifier, all of them below the counter; the sample window is
  within its capacity, no longer than the number of measurements, and the maximum bounds the
  current value and every sample in the window.
\<close>

definition metrics_wf :: "streaming_metrics \<Rightarrow> bool" where
  "metrics_wf m \<longleftrightarrow>
     distinct (map fst (frame_table m)) \<and>
     fst ` set (frame_table m) \<subseteq> {0..<int (frame_id_counter m)} \<and>
     length (latencies m) \<le> max_latency_samples m \<and>
     length (latencies m) \<le> latency_count m \<and>
     0 \<le> max_latency_ms m \<and> current_latency_ms m \<le> max_latency_ms m \<and>
     (\<forall>l\<in>set (latencies m). l \<le> max_latency_ms m)"

lemma metrics_wf_new [inv_pres]: "metrics_wf (new_metrics n)"
  by (simp add: metrics_wf_def new_metrics_def)

lemma map_fst_update:
  "set (map fst (AList.update k v al)) = insert k (set (map fst al))"
  using dom_update by (metis dom_map_of_conv_image_fst set_map update_conv' dom_fun_upd option.distinct(1))

lemma metrics_wf_enqueue [inv_pres]:
  assumes "metrics_wf m"
  shows "metrics_wf (snd (record_enqueue now d cap m))"
proof -
  have "fst ` set (AList.update k v al) = insert k (fst ` set al)"
    for k :: int and v :: frame_metrics and al
    using map_fst_update [of k v al] by simp
  then show ?thesis using assms
    by (auto simp: metrics_wf_def record_enqueue_def Let_def distinct_update simp del: image_subset_iff)
qed

lemma metrics_wf_drop [inv_pres]: "metrics_wf m \<Longrightarrow> metrics_wf (record_drop m)"
  by (simp add: metrics_wf_def record_drop_def)

lemma update_keys_same:
  "map_of al k = Some w \<Longrightarrow> map fst (AList.update k v al) = map fst al"
  by (induction al) (auto split: if_splits)

lemma update_fst_image:
  "map_of al k = Some w \<Longrightarrow> fst ` set (AList.update k v al) = fst ` set al"
  by (metis list.set_map update_keys_same)

lemma metrics_wf_table:
  assumes "metrics_wf m" "fst ` set tab \<subseteq> fst ` set (frame_table m)" "distinct (map fst tab)"
  shows "metrics_wf (m\<lparr>frame_table := tab\<rparr>)"
proof -
  have "fst ` set tab \<subseteq> {0..<int (frame_id_counter m)}"
    using assms(1,2) unfolding metrics_wf_def by (meson order_trans)
  then show ?thesis using assms(1,3) by (simp add: metrics_wf_def del: image_subset_iff)
qed

lemma metrics_wf_depth [simp]: "metrics_wf (m\<lparr>queue_depth := d\<rparr>) \<longleftrightarrow> metrics_wf m"
  by (simp add: metrics_wf_def)

lemma metrics_wf_update:
  assumes "metrics_wf m" "map_of (frame_table m) fid = Some fm"
  shows "metrics_wf (m\<lparr>frame_table := AList.update fid v (frame_table m)\<rparr>)"
  using assms by (intro metrics_wf_table)
    (simp_all add: update_keys_same update_fst_image metrics_wf_def)

lemma metrics_wf_dequeue [inv_pres]:
  assumes "metrics_wf m"
  shows "metrics_wf (record_dequeue now fid d m)"
  using assms metrics_wf_update [OF assms]
  by (simp add: record_dequeue_def Let_def split: option.split)

lemma set_prune_table: "set (prune_table tab) \<subseteq> set tab"
  by (auto simp: prune_table_def Let_def)

lemma distinct_prune_table:
  "distinct (map fst tab) \<Longrightarrow> distinct (map fst (prune_table tab))"
  by (auto simp: prune_table_def Let_def distinct_map_filter)

lemma metrics_wf_note [inv_pres]: "metrics_wf m \<Longrightarrow> metrics_wf (note_latency lat m)"
  by (cases lat) (auto simp: metrics_wf_def note_latency_def length_deque_append max_def
      dest!: set_deque_append [THEN subsetD])

lemma metrics_wf_dispatch [inv_pres]:
  assumes "metrics_wf m"
  shows "metrics_wf (record_dispatch now fid m)"
proof (cases "map_of (frame_table m) fid")
  case None
  then show ?thesis using assms by (simp add: record_dispatch_def)
next
  case (Some fm)
  define m1 where "m1 = m\<lparr>frame_table :=
    AList.update fid (fm\<lparr>fm_dispatch_time := Some now\<rparr>) (frame_table m)\<rparr>"
  define m2 where "m2 = note_latency (get_latency_ms (fm\<lparr>fm_dispatch_time := Some now\<rparr>)) m1"
  have "metrics_wf m1" unfolding m1_def using assms Some by (rule metrics_wf_update)
  then have w2: "metrics_wf m2" unfolding m2_def by (rule metrics_wf_note)
  then have "metrics_wf (m2\<lparr>frame_table := prune_table (frame_table m2)\<rparr>)"
    by (intro metrics_wf_table image_mono set_prune_table distinct_prune_table)
       (simp_all add: metrics_wf_def)
  then show ?thesis by (simp add: record_dispatch_def Some Let_def m1_def m2_def)
qed

lemma metrics_wf_reset [inv_pres]: "metrics_wf (reset_metrics m)"
  by (simp add: metrics_wf_def reset_metrics_def)

section \<open>Pruning\<close>

lemma length_filter_notin:
  "distinct xs \<Longrightarrow> set ys \<subseteq> set xs \<Longrightarrow> distinct ys \<Longrightarrow>
   length (filter (\<lambda>x. x \<notin> set ys) xs) = length xs - length ys"
proof -
  assume a: "distinct xs" "set ys \<subseteq> set xs" "distinct ys"
  have "length (filter (\<lambda>x. x \<notin> set ys) xs) = card (set xs - set ys)"
    using a(1) by (metis distinct_card distinct_filter set_diff_eq set_filter)
  also have "\<dots> = card (set xs) - card (set ys)" using a(2) by (simp add: card_Diff_subset)
  finally show ?thesis using a by (simp add: distinct_card)
qed

text \<open>After a dispatch of a tracked frame at most 1000 frames stay in the table.\<close>

lemma length_prune_table:
  assumes "distinct (map fst tab)" "length tab \<le> 1500"
  shows "length (prune_table tab) \<le> 1000"
proof (cases "length tab > 1000")
  case True
  let ?old = "take 500 (sort (map fst tab))"
  have "length (prune_table tab) = length (filter (\<lambda>k. k \<notin> set ?old) (map fst tab))"
    using True by (simp add: prune_table_def Let_def filter_map comp_def)
  also have "\<dots> = length (map fst tab) - length ?old"
    using assms(1) by (intro length_filter_notin) (auto dest: in_set_takeD simp: distinct_sort)
  finally show ?thesis using True assms(2) by simp
qed (simp add: prune_table_def)

lemma latency_average_bound:
  assumes "0 < latency_count m"
    and "total_latency_ms m \<le> of_nat (latency_count m) * max_latency_ms m"
  shows "get_average_latency_ms m \<le> max_latency_ms m"
  using assms by (simp add: get_average_latency_ms_def divide_le_eq mult.commute)

text \<open>The running total never exceeds the number of measurements times the maximum.\<close>

definition total_bounded :: "streaming_metrics \<Rightarrow> bool" where
  "total_bounded m \<longleftrightarrow> total_latency_ms m \<le> of_nat (latency_count m) * max_latency_ms m"

lemma total_bounded_note:
  assumes "total_bounded m" "0 \<le> max_latency_ms m"
  shows "total_bounded (note_latency lat m)"
proof (cases lat)
  case None
  then show ?thesis using assms by (simp add: note_latency_def)
next
  case (Some l)
  let ?x = "max (max_latency_ms m) l"
  have "of_nat (latency_count m) * max_latency_ms m \<le> of_nat (latency_count m) * ?x"
    by (intro mult_left_mono) simp_all
  with assms(1) have "total_latency_ms m + l \<le> of_nat (latency_count m) * ?x + ?x"
    unfolding total_bounded_def by (intro add_mono) (simp_all)
  then show ?thesis using Some
    by (simp add: total_bounded_def note_latency_def algebra_simps)
qed

end
