(* ===== verification/AudioQueue.thy ===== *)
theory AudioQueue
  imports StreamMetrics
begin

text \<open>
  \<^verbatim>\<open>app/streaming/audio_queue.py\<close>: the bounded inbound frame queue with its drop-oldest
  policy. The optional metrics collector is shared with the dispatcher, so it is not part of the
  queue record: every operation takes the pair of the queue and the collector and returns both.
  \<^verbatim>\<open>_not_empty\<close> is the flag of the \<^verbatim>\<open>asyncio.Event\<close>. The operations that hold
  \<^verbatim>\<open>_lock\<close> contain no other suspension point, so each is one atomic step.
\<close>

record frame_with_id =
  fw_frame :: bytes
  fw_id :: int

record audio_queue =
  aq_max_size :: nat
  aq_queue :: "frame_with_id list"
  aq_not_empty :: bool
  aq_frames_dropped :: nat
  aq_frames_enqueued :: nat

type_synonym pipe = "audio_queue \<times> streaming_metrics option"

definition new_queue :: "int \<Rightarrow> py_exn + audio_queue" where
  "new_queue n =
     (if n < 1 then Inl ValueError
      else Inr \<lparr>aq_max_size = nat n, aq_queue = [], aq_not_empty = False,
                aq_frames_dropped = 0, aq_frames_enqueued = 0\<rparr>)"

definition enqueue :: "pyfloat \<Rightarrow> bytes \<Rightarrow> pipe \<Rightarrow> bool \<times> pipe" where
  "enqueue now frame st = (case st of (q, ms) \<Rightarrow>
     let depth = length (aq_queue q);
         was_full = depth \<ge> aq_max_size q;
         (fid, ms1) = (case ms of
                         None \<Rightarrow> (None, None)
                       | Some m \<Rightarrow> (let (i, m') = record_enqueue now depth (aq_max_size q) m
                                   in (Some i, Some m')));
         ms2 = (if was_full \<and> aq_queue q \<noteq> [] then map_option record_drop ms1 else ms1);
         dropped = (if was_full then aq_frames_dropped q + 1 else aq_frames_dropped q);
         fw = \<lparr>fw_frame = frame, fw_id = (case fid of Some i \<Rightarrow> i | None \<Rightarrow> -1)\<rparr>
     in (True, (q\<lparr>aq_queue := deque_append (aq_max_size q) (aq_queue q) fw,
                  aq_frames_dropped := dropped,
                  aq_frames_enqueued := aq_frames_enqueued q + 1,
                  aq_not_empty := True\<rparr>, ms2)))"

definition dequeue :: "pyfloat \<Rightarrow> pipe \<Rightarrow> frame_with_id option \<times> pipe" where
  "dequeue now st = (case st of (q, ms) \<Rightarrow>
     (case aq_queue q of
        [] \<Rightarrow> (None, (q\<lparr>aq_not_empty := False\<rparr>, ms))
      | fw # rest \<Rightarrow>
          let ms' = (if fw_id fw \<ge> 0
                     then map_option (record_dequeue now (fw_id fw) (length rest)) ms else ms)
          in (Some fw, (q\<lparr>aq_queue := rest,
                          aq_not_empty := (if rest = [] then False else aq_not_empty q)\<rparr>, ms'))))"

text \<open>
  Waiting: \<open>signalled\<close> is the environment's answer, whether the event was set before the
  timeout. Sleeping changes nothing itself.
\<close>

definition wait_for_frame :: "bool \<Rightarrow> pipe \<Rightarrow> bool" where
  "wait_for_frame signalled st =
     (if aq_queue (fst st) \<noteq> [] then True
      else if aq_not_empty (fst st) then True else signalled)"

definition size_q :: "audio_queue \<Rightarrow> nat" where
  "size_q q = length (aq_queue q)"

definition is_empty :: "audio_queue \<Rightarrow> bool" where
  "is_empty q \<longleftrightarrow> length (aq_queue q) = 0"

definition is_full :: "audio_queue \<Rightarrow> bool" where
  "is_full q \<longleftrightarrow> length (aq_queue q) \<ge> aq_max_size q"

definition clear :: "audio_queue \<Rightarrow> audio_queue" where
  "clear q = q\<lparr>aq_queue := [], aq_not_empty := False\<rparr>"

text \<open>
  \<^verbatim>\<open>dequeue_blocking\<close>: while the queue is empty the task sleeps and other tasks enqueue.
  The list \<open>env\<close> says what they enqueue during each sleep; \<open>None\<close> means that the task is still
  waiting when the list ends.
\<close>

fun enqueue_all :: "pyfloat \<Rightarrow> bytes list \<Rightarrow> pipe \<Rightarrow> pipe" where
  "enqueue_all now [] st = st"
| "enqueue_all now (f # fs) st = enqueue_all now fs (snd (enqueue now f st))"

fun dequeue_blocking :: "pyfloat \<Rightarrow> bytes list list \<Rightarrow> pipe \<Rightarrow> frame_with_id option \<times> pipe" where
  "dequeue_blocking now [] st = dequeue now st"
| "dequeue_blocking now (fs # env) st =
     (case dequeue now st of
        (Some fw, st') \<Rightarrow> (Some fw, st')
      | (None, st') \<Rightarrow> dequeue_blocking now env (enqueue_all now fs st'))"

section \<open>Invariant\<close>

definition queue_wf :: "audio_queue \<Rightarrow> bool" where
  "queue_wf q \<longleftrightarrow>
     0 < aq_max_size q \<and> length (aq_queue q) \<le> aq_max_size q \<and>
     (aq_not_empty q \<longleftrightarrow> aq_queue q \<noteq> []) \<and>
     aq_frames_dropped q + length (aq_queue q) \<le> aq_frames_enqueued q"

lemma enqueue_queue:
  "fst (snd (enqueue now f (q, ms))) =
     q\<lparr>aq_queue := deque_append (aq_max_size q) (aq_queue q)
         \<lparr>fw_frame = f, fw_id = (case ms of None \<Rightarrow> -1 | Some m \<Rightarrow> int (frame_id_counter m))\<rparr>,
       aq_frames_dropped := aq_frames_dropped q + (if is_full q then 1 else 0),
       aq_frames_enqueued := aq_frames_enqueued q + 1, aq_not_empty := True\<rparr>"
  by (cases ms) (simp_all add: enqueue_def Let_def is_full_def record_enqueue_def)

lemma enqueue_true: "fst (enqueue now f st) = True"
  by (cases st) (simp add: enqueue_def Let_def split: prod.split)

lemma dequeue_queue:
  "fst (snd (dequeue now (q, ms))) =
     (case aq_queue q of
        [] \<Rightarrow> q\<lparr>aq_not_empty := False\<rparr>
      | fw # rest \<Rightarrow> q\<lparr>aq_queue := rest,
                       aq_not_empty := (if rest = [] then False else aq_not_empty q)\<rparr>)"
  by (simp add: dequeue_def Let_def split: list.split)

lemma dequeue_result:
  "fst (dequeue now (q, ms)) = (case aq_queue q of [] \<Rightarrow> None | fw # _ \<Rightarrow> Some fw)"
  by (simp add: dequeue_def Let_def split: list.split)

lemma queue_wf_new [inv_pres]: "new_queue n = Inr q \<Longrightarrow> queue_wf q"
  by (auto simp: new_queue_def queue_wf_def split: if_splits)

lemma queue_wf_enqueue [inv_pres]:
  assumes "queue_wf q"
  shows "queue_wf (fst (snd (enqueue now f (q, ms))))"
  using assms
  by (auto simp: enqueue_queue queue_wf_def is_full_def length_deque_append min_def)

lemma queue_wf_dequeue [inv_pres]:
  "queue_wf q \<Longrightarrow> queue_wf (fst (snd (dequeue now (q, ms))))"
  by (auto simp: dequeue_queue queue_wf_def split: list.split)

lemma queue_wf_clear [inv_pres]: "queue_wf q \<Longrightarrow> queue_wf (clear q)"
  by (simp add: queue_wf_def clear_def)

text \<open>The shared collector keeps its own invariant under both operations.\<close>

lemma metrics_wf_queue_enqueue [inv_pres]:
  assumes "pred_option metrics_wf ms"
  shows "pred_option metrics_wf (snd (snd (enqueue now f (q, ms))))"
proof (cases ms)
  case (Some m)
  obtain i m' where r: "record_enqueue now (length (aq_queue q)) (aq_max_size q) m = (i, m')"
    by fastforce
  then have "metrics_wf m'" using metrics_wf_enqueue [of m] assms Some by (metis option.pred_inject(2) snd_conv)
  then show ?thesis using Some r by (simp add: enqueue_def Let_def inv_pres)
qed (simp add: enqueue_def Let_def)

lemma metrics_wf_queue_dequeue [inv_pres]:
  "pred_option metrics_wf ms \<Longrightarrow> pred_option metrics_wf (snd (snd (dequeue now (q, ms))))"
  by (cases ms) (simp_all add: dequeue_def Let_def inv_pres split: list.split)

section \<open>The bounded queue as an interface\<close>

text \<open>
  What a consumer of frames relies on: a first-in first-out queue of capacity \<open>cap\<close> that loses
  its oldest element when a new one does not fit.
\<close>

locale drop_oldest_queue =
  fixes enq :: "'f \<Rightarrow> 'q \<Rightarrow> 'q"
    and deq :: "'q \<Rightarrow> 'f option \<times> 'q"
    and items :: "'q \<Rightarrow> 'f list"
    and cap :: "'q \<Rightarrow> nat"
    and invar :: "'q \<Rightarrow> bool"
  assumes items_enq: "invar q \<Longrightarrow> items (enq f q) = deque_append (cap q) (items q) f"
    and items_deq: "invar q \<Longrightarrow> items (snd (deq q)) = tl (items q)"
    and result_deq: "invar q \<Longrightarrow>
      fst (deq q) = (case items q of [] \<Rightarrow> None | f # _ \<Rightarrow> Some f)"
    and cap_enq: "cap (enq f q) = cap q"
    and cap_deq: "cap (snd (deq q)) = cap q"
    and invar_enq: "invar q \<Longrightarrow> invar (enq f q)"
    and invar_deq: "invar q \<Longrightarrow> invar (snd (deq q))"
    and bounded: "invar q \<Longrightarrow> 0 < cap q \<and> length (items q) \<le> cap q"
begin

text \<open>A run of enqueues (\<open>Some f\<close>) and dequeues (\<open>None\<close>), with the frames taken out.\<close>

fun run :: "'f option list \<Rightarrow> 'q \<Rightarrow> 'f list \<times> 'q" where
  "run [] q = ([], q)"
| "run (Some f # as) q = run as (enq f q)"
| "run (None # as) q =
     (let (r, q') = deq q; (out, q'') = run as q'
      in ((case r of None \<Rightarrow> out | Some f \<Rightarrow> f # out), q''))"

fun inputs :: "'f option list \<Rightarrow> 'f list" where
  "inputs [] = []"
| "inputs (Some f # as) = f # inputs as"
| "inputs (None # as) = inputs as"

lemma invar_run: "invar q \<Longrightarrow> invar (snd (run as q))"
  by (induction as q rule: run.induct)
     (auto simp: invar_enq Let_def split: prod.splits dest: invar_deq)


text \<open>
  Order: whatever is taken out, followed by what is still waiting, is a subsequence of what was
  waiting at the start followed by what came in. Nothing is invented, duplicated or reordered.
\<close>

lemma run_order:
  "invar q \<Longrightarrow> subseq (fst (run as q) @ items (snd (run as q))) (items q @ inputs as)"
proof (induction as q rule: run.induct)
  case (1 q)
  then show ?case by simp
next
  case (2 f as q)
  have "subseq (fst (run as (enq f q)) @ items (snd (run as (enq f q)))) (items (enq f q) @ inputs as)"
    using 2 by (simp add: invar_enq)
  moreover have "subseq (items (enq f q)) (items q @ [f])"
    using items_enq [OF 2(2)] subseq_deque_append by metis
  then have "subseq (items (enq f q) @ inputs as) ((items q @ [f]) @ inputs as)"
    by (rule list_emb_append_mono [OF _ subseq_order.order_refl])
  ultimately show ?case by (simp add: subseq_order.order_trans)
next
  case (3 as q)
  obtain r q' where d: "deq q = (r, q')" by fastforce
  have inv': "invar q'" using invar_deq [OF 3(2)] d by simp
  have ih: "subseq (fst (run as q') @ items (snd (run as q'))) (items q' @ inputs as)"
    by (rule 3(1) [OF d [symmetric] refl inv'])
  obtain out q'' where o: "run as q' = (out, q'')" by fastforce
  have it: "items q' = tl (items q)" using items_deq [OF 3(2)] d by simp
  have r: "r = (case items q of [] \<Rightarrow> None | f # _ \<Rightarrow> Some f)" using result_deq [OF 3(2)] d by simp
  show ?case
  proof (cases "items q")
    case Nil
    then show ?thesis using ih it r d o by simp
  next
    case (Cons f fs)
    then show ?thesis using ih it r d o by simp
  qed
qed

text \<open>When nothing overflows, nothing is lost: the run delivers an exact prefix.\<close>

fun fits :: "'f option list \<Rightarrow> 'q \<Rightarrow> bool" where
  "fits [] q = True"
| "fits (Some f # as) q = (length (items q) < cap q \<and> fits as (enq f q))"
| "fits (None # as) q = fits as (snd (deq q))"

lemma run_lossless:
  "invar q \<Longrightarrow> fits as q \<Longrightarrow>
   fst (run as q) @ items (snd (run as q)) = items q @ inputs as"
proof (induction as q rule: run.induct)
  case (1 q)
  then show ?case by simp
next
  case (2 f as q)
  then show ?case by (simp add: invar_enq items_enq deque_append_room)
next
  case (3 as q)
  obtain r q' where d: "deq q = (r, q')" by fastforce
  have inv': "invar q'" using invar_deq [OF 3(2)] d by simp
  have ih: "fst (run as q') @ items (snd (run as q')) = items q' @ inputs as"
    using 3 d inv' by simp
  obtain out q'' where o: "run as q' = (out, q'')" by fastforce
  have it: "items q' = tl (items q)" using items_deq [OF 3(2)] d by simp
  have r: "r = (case items q of [] \<Rightarrow> None | f # _ \<Rightarrow> Some f)" using result_deq [OF 3(2)] d by simp
  show ?case
  proof (cases "items q")
    case Nil
    then show ?thesis using ih it r d o by simp
  next
    case (Cons f fs)
    then show ?thesis using ih it r d o by simp
  qed
qed

text \<open>Draining: as many dequeues as there are items deliver all of them in order.\<close>

lemma run_drain:
  "invar q \<Longrightarrow> run (replicate (length (items q)) None) q = (items q, snd (run (replicate (length (items q)) None) q))
     \<and> items (snd (run (replicate (length (items q)) None) q)) = []"
proof (induction "length (items q)" arbitrary: q)
  case 0
  then show ?case by simp
next
  case (Suc n)
  obtain r q' where d: "deq q = (r, q')" by fastforce
  obtain f fs where it: "items q = f # fs" using Suc(2) by (cases "items q") auto
  have it': "items q' = fs" using items_deq [OF Suc(3)] d it by simp
  have r: "r = Some f" using result_deq [OF Suc(3)] d it by simp
  have inv': "invar q'" using invar_deq [OF Suc(3)] d by simp
  have n: "n = length (items q')" using Suc(2) it it' by simp
  from Suc(1) [OF n inv'] show ?case
    using d it it' r n by (auto simp: Let_def split: prod.splits)
qed

end

text \<open>
  The code's queue provides the interface, with or without a collector and at every clock
  reading. Frames are compared by their bytes.
\<close>

definition pipe_enq :: "pyfloat \<Rightarrow> bytes \<Rightarrow> pipe \<Rightarrow> pipe" where
  "pipe_enq now f st = snd (enqueue now f st)"

definition pipe_deq :: "pyfloat \<Rightarrow> pipe \<Rightarrow> bytes option \<times> pipe" where
  "pipe_deq now st = (map_option fw_frame (fst (dequeue now st)), snd (dequeue now st))"

definition waiting :: "pipe \<Rightarrow> bytes list" where
  "waiting st = map fw_frame (aq_queue (fst st))"

definition pipe_wf :: "pipe \<Rightarrow> bool" where
  "pipe_wf st \<longleftrightarrow> queue_wf (fst st)"

interpretation aqueue: drop_oldest_queue "pipe_enq now" "pipe_deq now" waiting
    "\<lambda>st. aq_max_size (fst st)" pipe_wf
  for now
proof unfold_locales
  fix st :: pipe and f
  obtain q ms where st: "st = (q, ms)" by fastforce
  show "waiting (pipe_enq now f st) = deque_append (aq_max_size (fst st)) (waiting st) f"
    by (simp add: pipe_enq_def waiting_def enqueue_queue map_deque_append st)
  show "waiting (snd (pipe_deq now st)) = tl (waiting st)"
    by (simp add: pipe_deq_def waiting_def dequeue_queue st split: list.split)
  show "fst (pipe_deq now st) = (case waiting st of [] \<Rightarrow> None | f # _ \<Rightarrow> Some f)"
    by (simp add: pipe_deq_def waiting_def dequeue_result st split: list.split)
  show "aq_max_size (fst (pipe_enq now f st)) = aq_max_size (fst st)"
    by (simp add: pipe_enq_def enqueue_queue st)
  show "aq_max_size (fst (snd (pipe_deq now st))) = aq_max_size (fst st)"
    by (simp add: pipe_deq_def dequeue_queue st split: list.split)
  assume "pipe_wf st"
  then show "pipe_wf (pipe_enq now f st)" "pipe_wf (snd (pipe_deq now st))"
    "0 < aq_max_size (fst st) \<and> length (waiting st) \<le> aq_max_size (fst st)"
    by (simp_all add: pipe_wf_def pipe_enq_def pipe_deq_def inv_pres queue_wf_def [of q] waiting_def st)
qed

section \<open>Counting frames\<close>

text \<open>
  Every frame that came in is waiting, was dropped, or was taken out: one step of the balance.
\<close>

lemma enqueue_balance:
  assumes "queue_wf q"
  shows "aq_frames_enqueued (fst (snd (enqueue now f (q, ms)))) = aq_frames_enqueued q + 1"
    "aq_frames_dropped (fst (snd (enqueue now f (q, ms)))) + length (aq_queue (fst (snd (enqueue now f (q, ms)))))
       = aq_frames_dropped q + length (aq_queue q) + 1"
  using assms by (auto simp: enqueue_queue is_full_def queue_wf_def length_deque_append)

lemma dequeue_balance:
  "aq_frames_enqueued (fst (snd (dequeue now (q, ms)))) = aq_frames_enqueued q"
  "aq_frames_dropped (fst (snd (dequeue now (q, ms)))) = aq_frames_dropped q"
  "length (aq_queue (fst (snd (dequeue now (q, ms)))))
     + (if fst (dequeue now (q, ms)) = None then 0 else 1) = length (aq_queue q)"
  by (auto simp: dequeue_queue dequeue_result split: list.split)

section \<open>The blocking dequeue\<close>

lemma pipe_wf_enqueue_all: "pipe_wf st \<Longrightarrow> pipe_wf (enqueue_all now fs st)"
  by (induction fs arbitrary: st) (simp_all add: aqueue.invar_enq [unfolded pipe_enq_def])

lemma waiting_enqueue_all:
  "pipe_wf st \<Longrightarrow> fs \<noteq> [] \<or> waiting st \<noteq> [] \<Longrightarrow> waiting (enqueue_all now fs st) \<noteq> []"
proof (induction fs arbitrary: st)
  case (Cons f fs)
  have wf: "pipe_wf (snd (enqueue now f st))"
    using aqueue.invar_enq [OF Cons.prems(1), of now f] by (simp add: pipe_enq_def)
  have "waiting (snd (enqueue now f st)) \<noteq> []"
    using aqueue.items_enq [OF Cons.prems(1), of now f] aqueue.bounded [OF Cons.prems(1)]
    by (simp add: pipe_enq_def)
  with Cons.IH [OF wf] show ?case by simp
qed simp

text \<open>The wait ends with a frame as soon as some other task has put one in.\<close>

lemma dequeue_blocking_returns:
  "pipe_wf st \<Longrightarrow> waiting st \<noteq> [] \<or> (\<exists>fs\<in>set env. fs \<noteq> []) \<Longrightarrow>
   \<exists>fw. fst (dequeue_blocking now env st) = Some fw"
proof (induction env arbitrary: st)
  case Nil
  then show ?case by (cases st) (auto simp: waiting_def dequeue_result split: list.split)
next
  case (Cons fs env)
  obtain r st' where d: "dequeue now st = (r, st')" by (metis surj_pair)
  have wf': "pipe_wf st'" using aqueue.invar_deq [OF Cons.prems(1), of now] d by (simp add: pipe_deq_def)
  show ?case
  proof (cases r)
    case None
    then have "waiting st = []"
      using aqueue.result_deq [OF Cons.prems(1), of now] d by (auto simp: pipe_deq_def split: list.splits)
    with Cons.prems(2) have "waiting (enqueue_all now fs st') \<noteq> [] \<or> (\<exists>fs\<in>set env. fs \<noteq> [])"
      using waiting_enqueue_all [OF wf'] by auto
    with Cons.IH [OF pipe_wf_enqueue_all [OF wf']] show ?thesis using d None by simp
  qed (use d in simp)
qed

section \<open>Statistics\<close>

record queue_stats =
  qs_queue_depth :: nat
  qs_max_size :: nat
  qs_frames_enqueued :: nat
  qs_frames_dropped :: nat
  qs_is_full :: bool

definition get_queue_stats :: "audio_queue \<Rightarrow> queue_stats" where
  "get_queue_stats q =
     \<lparr>qs_queue_depth = length (aq_queue q), qs_max_size = aq_max_size q,
      qs_frames_enqueued = aq_frames_enqueued q, qs_frames_dropped = aq_frames_dropped q,
      qs_is_full = is_full q\<rparr>"

end
