(* ===== verification/Dispatcher.thy ===== *)
theory Dispatcher
  imports AudioQueue
begin

text \<open>
  \<^verbatim>\<open>app/streaming/dispatcher.py\<close>: the background task that forwards queued frames to the
  session and then to the recogniser's consumer. The world outside the dispatcher (session,
  recogniser) is a state \<open>'s\<close>; its two entry points are the parameters of \<open>frame_sink\<close>, each of
  which returns the state it leaves and whether it raised. The loop catches every exception of
  a frame, so one bad frame does not stop the next.
\<close>

definition FRAME_INTERVAL_MS :: nat where
  "FRAME_INTERVAL_MS = 20"

definition IDLE_WAKE_SEC :: pyfloat where
  "IDLE_WAKE_SEC = 1 / 10"

record 's frame_sink =
  fs_callback :: "bytes \<Rightarrow> 's \<Rightarrow> 's \<times> bool"
  fs_stt_running :: "'s \<Rightarrow> bool"
  fs_stt_process :: "bytes \<Rightarrow> 's \<Rightarrow> 's \<times> bool"

record dispatcher =
  dp_running :: bool
  dp_task :: bool
  dp_frames_dispatched :: nat
  dp_last_dispatch_time :: "pyfloat option"
  dp_stt_registered :: bool

definition new_dispatcher :: dispatcher where
  "new_dispatcher =
     \<lparr>dp_running = False, dp_task = False, dp_frames_dispatched = 0,
      dp_last_dispatch_time = None, dp_stt_registered = False\<rparr>"

definition start_dispatcher :: "dispatcher \<Rightarrow> dispatcher" where
  "start_dispatcher d = (if dp_running d then d else d\<lparr>dp_running := True, dp_task := True\<rparr>)"

text \<open>
  Stopping clears the flag and waits for the task; after one second it is cancelled. Either way
  the task has ended when \<^verbatim>\<open>stop\<close> returns.
\<close>

definition stop_dispatcher :: "dispatcher \<Rightarrow> dispatcher" where
  "stop_dispatcher d = (if \<not> dp_running d then d else d\<lparr>dp_running := False, dp_task := False\<rparr>)"

definition register_stt_consumer :: "dispatcher \<Rightarrow> dispatcher" where
  "register_stt_consumer d = d\<lparr>dp_stt_registered := True\<rparr>"

text \<open>
  One frame: the callback first, then the counters, then the recogniser. An exception anywhere
  skips the rest of the frame.
\<close>

definition handle_frame ::
  "'s frame_sink \<Rightarrow> pyfloat \<Rightarrow> frame_with_id \<Rightarrow> dispatcher \<times> streaming_metrics option \<times> 's
     \<Rightarrow> dispatcher \<times> streaming_metrics option \<times> 's" where
  "handle_frame sink now fw st = (case st of (d, ms, w) \<Rightarrow>
     (case fs_callback sink (fw_frame fw) w of
        (w1, True) \<Rightarrow> (d, ms, w1)
      | (w1, False) \<Rightarrow>
          let d1 = d\<lparr>dp_frames_dispatched := dp_frames_dispatched d + 1\<rparr>;
              ms1 = (if fw_id fw \<ge> 0 then map_option (record_dispatch now (fw_id fw)) ms else ms);
              w2 = (if dp_stt_registered d \<and> fs_stt_running sink w1
                    then fst (fs_stt_process sink (fw_frame fw) w1) else w1)
          in (d1, ms1, w2)))"

text \<open>
  One iteration of \<^verbatim>\<open>_dispatch_loop\<close>: nothing when stopped, a sleep when the queue is empty,
  otherwise one frame. The result names the frame that was forwarded.
\<close>

definition dispatch_once ::
  "'s frame_sink \<Rightarrow> pyfloat \<Rightarrow> dispatcher \<times> pipe \<times> 's \<Rightarrow> bytes option \<times> dispatcher \<times> pipe \<times> 's" where
  "dispatch_once sink now st = (case st of (d, p, w) \<Rightarrow>
     if \<not> dp_running d then (None, d, p, w)
     else (case dequeue now p of
        (None, p1) \<Rightarrow> (None, d, p1, w)
      | (Some fw, q1, ms1) \<Rightarrow>
          (case handle_frame sink now fw (d, ms1, w) of
             (d2, ms2, w2) \<Rightarrow>
               (Some (fw_frame fw), d2\<lparr>dp_last_dispatch_time := Some now\<rparr>, (q1, ms2), w2))))"

section \<open>The pipeline under an arbitrary schedule\<close>

text \<open>
  The receive loop and the dispatch loop share one event loop. An execution is a sequence of
  arrivals (the receive loop enqueues a frame) and dispatch iterations, in any order.
\<close>

datatype pipe_action = Arrive pyfloat bytes | Dispatch pyfloat

fun run_pipe ::
  "'s frame_sink \<Rightarrow> pipe_action list \<Rightarrow> dispatcher \<times> pipe \<times> 's \<Rightarrow> bytes list \<times> dispatcher \<times> pipe \<times> 's" where
  "run_pipe sink [] st = ([], st)"
| "run_pipe sink (Arrive now f # as) (d, p, w) = run_pipe sink as (d, snd (enqueue now f p), w)"
| "run_pipe sink (Dispatch now # as) st =
     (case dispatch_once sink now st of
        (r, st') \<Rightarrow> (case run_pipe sink as st' of
          (out, st'') \<Rightarrow> ((case r of None \<Rightarrow> out | Some f \<Rightarrow> f # out), st'')))"

fun arrivals :: "pipe_action list \<Rightarrow> bytes list" where
  "arrivals [] = []"
| "arrivals (Arrive now f # as) = f # arrivals as"
| "arrivals (Dispatch now # as) = arrivals as"

lemma handle_frame_running:
  "handle_frame sink now fw (d, ms, w) = (d', ms', w') \<Longrightarrow> dp_running d' = dp_running d"
  by (auto simp: handle_frame_def Let_def split: prod.splits bool.splits)

lemma dispatch_once_queue:
  assumes "dp_running d" "dispatch_once sink now (d, p, w) = (r, d', p', w')"
  shows "fst p' = fst (snd (pipe_deq now p))" "r = fst (pipe_deq now p)" "dp_running d'"
  using assms
  by (auto simp: dispatch_once_def pipe_deq_def split: prod.splits option.splits
      dest: handle_frame_running)

lemma waiting_fst: "fst p = fst p' \<Longrightarrow> waiting p = waiting p'"
  by (simp add: waiting_def)

lemma pipe_wf_fst: "fst p = fst p' \<Longrightarrow> pipe_wf p = pipe_wf p'"
  by (simp add: pipe_wf_def)

text \<open>One iteration, seen from the queue.\<close>

lemma dispatch_once_step:
  assumes "dp_running d" "pipe_wf p" "dispatch_once sink now (d, p, w) = (r, d', p', w')"
  shows "dp_running d' \<and> pipe_wf p' \<and> waiting p' = tl (waiting p) \<and>
    r = (case waiting p of [] \<Rightarrow> None | f # _ \<Rightarrow> Some f) \<and>
    aq_max_size (fst p') = aq_max_size (fst p)"
proof -
  note q = dispatch_once_queue [OF assms(1,3)]
  have "waiting p' = waiting (snd (pipe_deq now p))" using q(1) by (rule waiting_fst)
  moreover have "pipe_wf p' = pipe_wf (snd (pipe_deq now p))" using q(1) by (rule pipe_wf_fst)
  ultimately show ?thesis
    using q aqueue.items_deq [OF assms(2), of now] aqueue.result_deq [OF assms(2), of now]
      aqueue.invar_deq [OF assms(2), of now] aqueue.cap_deq [of now p] by simp
qed

lemma arrive_step:
  assumes "pipe_wf p"
  shows "pipe_wf (snd (enqueue now f p))"
    "waiting (snd (enqueue now f p)) = deque_append (aq_max_size (fst p)) (waiting p) f"
    "aq_max_size (fst (snd (enqueue now f p))) = aq_max_size (fst p)"
  using aqueue.invar_enq [OF assms, of now f] aqueue.items_enq [OF assms, of now f]
    aqueue.cap_enq [of now f p]
  by (simp_all add: pipe_enq_def)

text \<open>Order is kept and nothing is invented, whatever the schedule and whatever the sink does.\<close>

lemma run_pipe_order:
  "dp_running d \<Longrightarrow> pipe_wf p \<Longrightarrow> run_pipe sink as (d, p, w) = (out, d', p', w') \<Longrightarrow>
   subseq (out @ waiting p') (waiting p @ arrivals as)"
proof (induction as arbitrary: d p w out)
  case Nil
  then show ?case by simp
next
  case (Cons a as)
  show ?case
  proof (cases a)
    case (Arrive now f)
    note st = arrive_step [OF Cons.prems(2), of now f]
    have "subseq (out @ waiting p') (waiting (snd (enqueue now f p)) @ arrivals as)"
      using Cons.IH [OF Cons.prems(1) st(1)] Cons.prems(3) Arrive by simp
    moreover have "subseq (waiting (snd (enqueue now f p)) @ arrivals as) ((waiting p @ [f]) @ arrivals as)"
      unfolding st(2) by (rule list_emb_append_mono [OF subseq_deque_append subseq_order.order_refl])
    ultimately show ?thesis using Arrive by (simp add: subseq_order.order_trans)
  next
    case (Dispatch now)
    obtain r d1 p1 w1 where o: "dispatch_once sink now (d, p, w) = (r, d1, p1, w1)"
      by (metis prod_cases4)
    obtain out1 where o1: "run_pipe sink as (d1, p1, w1) = (out1, d', p', w')"
      and out: "out = (case r of None \<Rightarrow> out1 | Some f \<Rightarrow> f # out1)"
      using Cons.prems(3) Dispatch o by (auto split: prod.splits)
    note st = dispatch_once_step [OF Cons.prems(1,2) o]
    have "subseq (out1 @ waiting p') (tl (waiting p) @ arrivals as)"
      using Cons.IH [of d1 p1 w1 out1] st o1 by simp
    then show ?thesis using st out Dispatch by (cases "waiting p") auto
  qed
qed

text \<open>
  As long as no arrival meets a full queue, the frames handed out are exactly the frames that
  came in, in order, less the ones still waiting.
\<close>

fun no_overflow :: "nat \<Rightarrow> nat \<Rightarrow> pipe_action list \<Rightarrow> bool" where
  "no_overflow cap n [] = True"
| "no_overflow cap n (Arrive now f # as) = (n < cap \<and> no_overflow cap (Suc n) as)"
| "no_overflow cap n (Dispatch now # as) = no_overflow cap (n - 1) as"

lemma run_pipe_lossless:
  "dp_running d \<Longrightarrow> pipe_wf p \<Longrightarrow> no_overflow (aq_max_size (fst p)) (length (waiting p)) as \<Longrightarrow>
   run_pipe sink as (d, p, w) = (out, d', p', w') \<Longrightarrow>
   out @ waiting p' = waiting p @ arrivals as"
proof (induction as arbitrary: d p w out)
  case Nil
  then show ?case by simp
next
  case (Cons a as)
  show ?case
  proof (cases a)
    case (Arrive now f)
    note st = arrive_step [OF Cons.prems(2), of now f]
    have w: "waiting (snd (enqueue now f p)) = waiting p @ [f]"
      using st(2) Cons.prems(3) Arrive by (simp add: deque_append_room)
    then show ?thesis
      using Cons.IH [OF Cons.prems(1) st(1)] st(3) Cons.prems(3,4) Arrive by simp
  next
    case (Dispatch now)
    obtain r d1 p1 w1 where o: "dispatch_once sink now (d, p, w) = (r, d1, p1, w1)"
      by (metis prod_cases4)
    obtain out1 where o1: "run_pipe sink as (d1, p1, w1) = (out1, d', p', w')"
      and out: "out = (case r of None \<Rightarrow> out1 | Some f \<Rightarrow> f # out1)"
      using Cons.prems(4) Dispatch o by (auto split: prod.splits)
    note st = dispatch_once_step [OF Cons.prems(1,2) o]
    have "out1 @ waiting p' = tl (waiting p) @ arrivals as"
      using Cons.IH [of d1 p1 w1 out1] st o1 Cons.prems(3) Dispatch by simp
    then show ?thesis using st out Dispatch by (cases "waiting p") auto
  qed
qed

text \<open>
  Draining: in as many iterations as there are waiting frames, the loop forwards all of them.
  There is no timer between frames.
\<close>

lemma run_pipe_drains:
  assumes "dp_running d" "pipe_wf p"
    and "run_pipe sink (map Dispatch ts) (d, p, w) = (out, d', p', w')"
    and "length ts = length (waiting p)"
  shows "out = waiting p \<and> waiting p' = []"
proof -
  have no: "no_overflow cap n (map Dispatch ts)" for cap n by (induction ts arbitrary: n) auto
  have arr: "arrivals (map Dispatch ts) = []" by (induction ts) auto
  have "out @ waiting p' = waiting p"
    using run_pipe_lossless [OF assms(1,2) no assms(3)] arr by simp
  moreover have "waiting p' = drop (length ts) (waiting p)"
    using assms(1-3)
  proof (induction ts arbitrary: d p w out)
    case (Cons t ts)
    obtain r d1 p1 w1 where o: "dispatch_once sink t (d, p, w) = (r, d1, p1, w1)"
      by (metis prod_cases4)
    obtain out1 where o1: "run_pipe sink (map Dispatch ts) (d1, p1, w1) = (out1, d', p', w')"
      using Cons.prems(3) o by (auto split: prod.splits)
    note st = dispatch_once_step [OF Cons.prems(1,2) o]
    then have "waiting p' = drop (length ts) (waiting p1)"
      using Cons.IH [of d1 p1 w1 out1] o1 by blast
    then show ?case using st by (simp add: drop_Suc)
  qed simp
  ultimately show ?thesis using assms(4) by simp
qed

section \<open>Statistics\<close>

record dispatcher_stats =
  ds_is_running :: bool
  ds_frames_dispatched :: nat
  ds_queue_stats :: queue_stats
  ds_metrics :: "streaming_metrics option"

definition get_dispatcher_stats :: "dispatcher \<Rightarrow> pipe \<Rightarrow> dispatcher_stats" where
  "get_dispatcher_stats d p =
     \<lparr>ds_is_running = dp_running d, ds_frames_dispatched = dp_frames_dispatched d,
      ds_queue_stats = get_queue_stats (fst p), ds_metrics = snd p\<rparr>"

end
