(* ===== verification/RateLimit.thy ===== *)
theory RateLimit
  imports Observability PyText
begin

text \<open>
  \<^verbatim>\<open>app/core/rate_limit.py\<close>: the sliding window counter, the three limits applied after
  authentication, and the middleware's two limits per address and per endpoint. The dict of deques is a
  function from keys to lists (a \<^verbatim>\<open>defaultdict\<close>); the clock is an argument.
\<close>

record sliding_window =
  sw_limit :: int
  sw_window_seconds :: int
  sw_events :: "ustr \<Rightarrow> pyfloat list"

definition new_window :: "int \<Rightarrow> int \<Rightarrow> sliding_window" where
  "new_window limit window = \<lparr>sw_limit = limit, sw_window_seconds = window, sw_events = (\<lambda>k. [])\<rparr>"

definition fresh_events :: "pyfloat \<Rightarrow> ustr \<Rightarrow> sliding_window \<Rightarrow> pyfloat list" where
  "fresh_events now key w = dropWhile (\<lambda>t. t \<le> now - of_int (sw_window_seconds w)) (sw_events w key)"

text \<open>
  \<^verbatim>\<open>allow\<close>: the result and the seconds to wait. With a limit below one the oldest entry of an empty deque is
  read (\<^verbatim>\<open>IndexError\<close>); the settings demand at least one.
\<close>

definition allow :: "pyfloat \<Rightarrow> ustr \<Rightarrow> sliding_window \<Rightarrow> (py_exn + bool \<times> int option) \<times> sliding_window" where
  "allow now key w =
     (let window = fresh_events now key w;
          w1 = w\<lparr>sw_events := (sw_events w)(key := window)\<rparr>
      in if int (length window) \<ge> sw_limit w then
           (case window of
              [] \<Rightarrow> (Inl (OtherError ''IndexError''), w1)
            | t # _ \<Rightarrow>
                (let left = of_int (sw_window_seconds w) - (now - t)
                 in (Inr (False, Some (max 1 (if 0 \<le> left then \<lfloor>left\<rfloor> else \<lceil>left\<rceil>))), w1)))
         else (Inr (True, None), w1\<lparr>sw_events := (sw_events w1)(key := window @ [now])\<rparr>))"

section \<open>Chained limits\<close>

text \<open>
  A list of scope, key and number of the limiter, in the order of the checks; every check that passes
  is charged even when a later one refuses.
\<close>

fun check_all :: "pyfloat \<Rightarrow> (ustr \<times> ustr \<times> nat) list \<Rightarrow> sliding_window list
    \<Rightarrow> (py_exn + bool \<times> int option \<times> ustr option) \<times> sliding_window list" where
  "check_all now [] ws = (Inr (True, None, None), ws)"
| "check_all now ((scope, key, i) # cs) ws =
     (case allow now (scope @ u '':'' @ key) (ws ! i) of
        (Inl e, w) \<Rightarrow> (Inl e, ws[i := w])
      | (Inr (ok, retry), w) \<Rightarrow>
          if ok then check_all now cs (ws[i := w]) else (Inr (False, retry, Some scope), ws[i := w]))"

definition check_authenticated_rate_limits ::
  "bool \<Rightarrow> pyfloat \<Rightarrow> ustr \<Rightarrow> ustr option \<Rightarrow> ustr option \<Rightarrow> sliding_window list
     \<Rightarrow> (py_exn + bool \<times> int option \<times> ustr option) \<times> sliding_window list" where
  "check_authenticated_rate_limits enabled now organization tenant api_key ws =
     (if \<not> enabled then (Inr (True, None, None), ws)
      else let checks = [(u ''organization'', organization, 0)]
               @ (case tenant of None \<Rightarrow> [] | Some t \<Rightarrow> [(u ''tenant'', t, 1)])
               @ (case api_key of None \<Rightarrow> [] | Some k \<Rightarrow> if k = [] then [] else [(u ''api_key'', take 16 k, 2)])
           in check_all now checks ws)"

section \<open>Middleware\<close>

definition EXEMPT_PREFIXES :: "ustr list" where
  "EXEMPT_PREFIXES = map u [''/api/v1/health'', ''/twilio'', ''/docs'', ''/redoc'', ''/openapi.json'']"

definition has_prefix :: "ustr list \<Rightarrow> ustr \<Rightarrow> bool" where
  "has_prefix ps path \<longleftrightarrow> list_ex (\<lambda>p. startswith path p) ps"

record http_request =
  rq_method :: ustr
  rq_path :: ustr
  rq_client :: "ustr option"

datatype limit_decision = PassOn | Reject429 ustr "int option" | LimitRaises py_exn

definition rate_limit_dispatch ::
  "bool \<Rightarrow> pyfloat \<Rightarrow> http_request \<Rightarrow> platform_metrics \<times> sliding_window list
     \<Rightarrow> limit_decision \<times> platform_metrics \<times> sliding_window list" where
  "rate_limit_dispatch enabled now rq st = (case st of (pm, ws) \<Rightarrow>
     if \<not> enabled \<or> has_prefix EXEMPT_PREFIXES (rq_path rq) then (PassOn, pm, ws)
     else let ip = (case rq_client rq of Some h \<Rightarrow> h | None \<Rightarrow> u ''unknown'');
              checks = [(u ''ip'', ip, 0), (u ''endpoint'', rq_method rq @ u '':'' @ rq_path rq, 1)]
          in (case check_all now checks ws of
                (Inl e, ws') \<Rightarrow> (LimitRaises e, pm, ws')
              | (Inr (ok, retry, scope), ws') \<Rightarrow>
                  if ok then (PassOn, pm, ws')
                  else (Reject429 (case scope of Some s \<Rightarrow> s | None \<Rightarrow> []) retry, record_rate_limit pm, ws')))"

section \<open>The sliding window\<close>

text \<open>Requests of any keys, in the order of a monotonic clock, and what was granted to a key.\<close>

fun run_allow :: "(pyfloat \<times> ustr) list \<Rightarrow> sliding_window \<Rightarrow> (pyfloat \<times> ustr \<times> bool) list \<times> sliding_window" where
  "run_allow [] w = ([], w)"
| "run_allow ((now, key) # rs) w =
     (case allow now key w of
        (res, w1) \<Rightarrow>
          (case run_allow rs w1 of
             (ls, w2) \<Rightarrow> ((now, key, (case res of Inr (ok, _) \<Rightarrow> ok | Inl _ \<Rightarrow> False)) # ls, w2)))"

definition granted :: "ustr \<Rightarrow> (pyfloat \<times> ustr \<times> bool) list \<Rightarrow> pyfloat list" where
  "granted k ls = map fst (filter (\<lambda>(t, key, ok). key = k \<and> ok) ls)"

definition in_window :: "pyfloat \<Rightarrow> pyfloat \<Rightarrow> pyfloat list \<Rightarrow> nat" where
  "in_window len t xs = length (filter (\<lambda>x. t - len < x \<and> x \<le> t) xs)"

lemma allow_frame [simp]:
  "sw_limit (snd (allow now key w)) = sw_limit w"
  "sw_window_seconds (snd (allow now key w)) = sw_window_seconds w"
  "k \<noteq> key \<Longrightarrow> sw_events (snd (allow now key w)) k = sw_events w k"
  by (simp_all add: allow_def Let_def split: list.split)

lemma allow_key:
  assumes "1 \<le> sw_limit w"
  shows "(\<exists>r. fst (allow now key w) = Inr (False, Some r)) \<and> int (length (fresh_events now key w)) \<ge> sw_limit w
      \<and> sw_events (snd (allow now key w)) key = fresh_events now key w
    \<or> fst (allow now key w) = Inr (True, None) \<and> int (length (fresh_events now key w)) < sw_limit w
      \<and> sw_events (snd (allow now key w)) key = fresh_events now key w @ [now]"
  using assms by (cases "fresh_events now key w") (auto simp: allow_def Let_def)

lemma dropWhile_sorted: "sorted (xs :: rat list) \<Longrightarrow> dropWhile (\<lambda>t. t \<le> c) xs = filter (\<lambda>t. c < t) xs"
  by (induction xs) (auto simp: not_le intro!: filter_True [symmetric])

lemma length_filter_imp: "(\<And>x. x \<in> set xs \<Longrightarrow> P x \<Longrightarrow> Q x) \<Longrightarrow> length (filter P xs) \<le> length (filter Q xs)"
  by (induction xs) (auto simp: le_SucI)

text \<open>What the window holds for a key: the granted times later than some earlier cutoff.\<close>

definition window_ok :: "pyfloat \<Rightarrow> pyfloat list \<Rightarrow> ustr \<Rightarrow> sliding_window \<Rightarrow> bool" where
  "window_ok last_time g k w \<longleftrightarrow> sorted g \<and> (\<forall>x\<in>set g. x \<le> last_time)
     \<and> (\<exists>c \<le> last_time - of_int (sw_window_seconds w). sw_events w k = filter (\<lambda>t. c < t) g)
     \<and> (\<forall>t. int (in_window (of_int (sw_window_seconds w)) t g) \<le> sw_limit w)"

lemma window_fresh:
  assumes "window_ok t0 g k w" "t0 \<le> now"
  shows "fresh_events now k w = filter (\<lambda>t. now - of_int (sw_window_seconds w) < t) g"
proof -
  from assms(1) obtain c where c: "c \<le> t0 - of_int (sw_window_seconds w)" "sw_events w k = filter (\<lambda>t. c < t) g" "sorted g"
    unfolding window_ok_def by blast
  have "fresh_events now k w = filter (\<lambda>t. now - of_int (sw_window_seconds w) < t) (filter (\<lambda>t. c < t) g)"
    using c by (simp add: fresh_events_def dropWhile_sorted sorted_wrt_filter)
  also have "\<dots> = filter (\<lambda>t. now - of_int (sw_window_seconds w) < t) g"
    using c(1) assms(2) by (auto simp: filter_filter intro!: filter_cong)
  finally show ?thesis .
qed

lemma in_window_grant:
  assumes "\<forall>x\<in>set g. x \<le> now" "\<forall>t. int (in_window len t g) \<le> L"
    and "int (length (filter (\<lambda>t. now - len < t) g)) < L"
  shows "int (in_window len t (g @ [now])) \<le> L"
proof (cases "now \<le> t")
  case True
  then have "length (filter (\<lambda>x. t - len < x \<and> x \<le> t) g) \<le> length (filter (\<lambda>t. now - len < t) g)"
    by (intro length_filter_imp) auto
  with assms(3) show ?thesis by (simp add: in_window_def)
next
  case False
  with assms(2) show ?thesis by (simp add: in_window_def)
qed

lemma window_ok_later:
  assumes "window_ok t0 g k w" "t0 \<le> now" "sw_limit w1 = sw_limit w"
    and "sw_window_seconds w1 = sw_window_seconds w" "sw_events w1 k = sw_events w k"
  shows "window_ok now g k w1"
proof -
  from assms(1) obtain c where c: "c \<le> t0 - of_int (sw_window_seconds w)" "sw_events w k = filter (\<lambda>t. c < t) g"
    unfolding window_ok_def by blast
  have "c \<le> now - of_int (sw_window_seconds w1)" using c(1) assms(2,4) by simp
  then show ?thesis
    using assms c(2) unfolding window_ok_def by (metis order_trans)
qed

lemma window_ok_step:
  assumes ok: "window_ok t0 g k w" and now: "t0 \<le> now" and L: "1 \<le> sw_limit w" "1 \<le> sw_window_seconds w"
    and a: "allow now key w = (res, w1)"
  shows "window_ok now (if key = k \<and> res = Inr (True, None) then g @ [now] else g) k w1"
proof (cases "key = k")
  case False
  with window_ok_later [OF ok now] a allow_frame(1,2) [of now key w] allow_frame(3) [of k key now w] show ?thesis by simp
next
  case True
  let ?c = "now - of_int (sw_window_seconds w)"
  note fr = window_fresh [OF ok now]
  have g: "sorted g" "\<forall>x\<in>set g. x \<le> now" "\<forall>t. int (in_window (of_int (sw_window_seconds w)) t g) \<le> sw_limit w"
    using ok now by (auto simp: window_ok_def)
  have w1: "sw_window_seconds w1 = sw_window_seconds w" "sw_limit w1 = sw_limit w"
    using allow_frame(1,2) [of now key w] a by simp_all
  consider (deny) r where "res = Inr (False, Some r)" "sw_events w1 k = filter (\<lambda>t. ?c < t) g"
    | (grant) "res = Inr (True, None)" "int (length (filter (\<lambda>t. ?c < t) g)) < sw_limit w"
        "sw_events w1 k = filter (\<lambda>t. ?c < t) g @ [now]"
    using allow_key [OF L(1), where now = now and key = key] a True fr by auto
  then show ?thesis
  proof cases
    case deny
    then show ?thesis using g w1 by (auto simp: window_ok_def)
  next
    case grant
    have "rat_of_int 1 \<le> of_int (sw_window_seconds w)" using L(2) by (simp only: of_int_le_iff)
    then have "sw_events w1 k = filter (\<lambda>t. ?c < t) (g @ [now])" using grant(3) by simp
    moreover have "int (in_window (of_int (sw_window_seconds w)) t (g @ [now])) \<le> sw_limit w" for t
      using in_window_grant [OF g(2,3) grant(2)] .
    ultimately show ?thesis
      using g w1 True grant(1) L(2) unfolding window_ok_def by (auto simp: sorted_append)
  qed
qed

lemma run_allow_ok:
  assumes "window_ok t0 g k w" "1 \<le> sw_limit w" "1 \<le> sw_window_seconds w"
    and "sorted (t0 # map fst rs)" "run_allow rs w = (ls, w')"
  shows "\<exists>t1. window_ok t1 (g @ granted k ls) k w' \<and> sw_limit w' = sw_limit w \<and> sw_window_seconds w' = sw_window_seconds w"
  using assms
proof (induction rs arbitrary: t0 g w ls w')
  case Nil
  then show ?case by (auto simp: granted_def)
next
  case (Cons r rs)
  obtain now key where r: "r = (now, key)" by (cases r)
  obtain res w1 where a: "allow now key w = (res, w1)" by (cases "allow now key w")
  obtain ls1 w2 where run: "run_allow rs w1 = (ls1, w2)" by (cases "run_allow rs w1")
  have fr: "sw_limit w1 = sw_limit w" "sw_window_seconds w1 = sw_window_seconds w"
    using allow_frame(1,2) [of now key w] a by simp_all
  let ?g = "if key = k \<and> res = Inr (True, None) then g @ [now] else g"
  have "window_ok now ?g k w1"
    using window_ok_step [OF Cons.prems(1) _ Cons.prems(2,3) a] Cons.prems(4) r by simp
  from Cons.IH [OF this _ _ _ run] Cons.prems fr r
  obtain t1 where t1: "window_ok t1 (?g @ granted k ls1) k w2" "sw_limit w2 = sw_limit w" "sw_window_seconds w2 = sw_window_seconds w"
    by auto
  have ls: "ls = (now, key, (case res of Inr (ok, _) \<Rightarrow> ok | Inl _ \<Rightarrow> False)) # ls1" "w' = w2"
    using Cons.prems(5) r a run by simp_all
  have "res = Inr (True, None) \<longleftrightarrow> (case res of Inr (ok, _) \<Rightarrow> ok | Inl _ \<Rightarrow> False)"
    using allow_key [OF Cons.prems(2), where now = now and key = key] a by auto
  then have "?g @ granted k ls1 = g @ granted k ls" by (simp add: ls granted_def)
  with t1 ls(2) show ?case by metis
qed

text \<open>
  In every window of the configured length, at most \<open>limit\<close> requests of a key are granted.
\<close>

lemma limiter_bound:
  assumes "1 \<le> limit" "1 \<le> window" "sorted (map fst rs)" "run_allow rs (new_window limit window) = (ls, w')"
  shows "int (in_window (of_int window) t (granted k ls)) \<le> limit"
proof -
  let ?t0 = "case rs of [] \<Rightarrow> 0 | r # _ \<Rightarrow> fst r"
  have "window_ok ?t0 [] k (new_window limit window)"
    using assms(1) by (auto simp: window_ok_def new_window_def in_window_def)
  moreover have "sorted (?t0 # map fst rs)" using assms(3) by (cases rs) auto
  ultimately obtain t1 where "window_ok t1 (granted k ls) k w'" "sw_limit w' = limit" "sw_window_seconds w' = window"
    using run_allow_ok [of ?t0 "[]" k "new_window limit window" rs ls w'] assms by (auto simp: new_window_def)
  then show ?thesis by (auto simp: window_ok_def)
qed

section \<open>The advice to wait\<close>

lemma allow_denied:
  assumes "fst (allow now key w) = Inr (False, Some r)"
  shows "\<exists>t ts. fresh_events now key w = t # ts \<and> sw_events (snd (allow now key w)) key = t # ts
    \<and> sw_limit w \<le> int (length (t # ts))
    \<and> r = max 1 (if 0 \<le> of_int (sw_window_seconds w) - (now - t) then \<lfloor>of_int (sw_window_seconds w) - (now - t)\<rfloor>
                 else \<lceil>of_int (sw_window_seconds w) - (now - t)\<rceil>)"
  using assms by (auto simp: allow_def Let_def split: if_splits list.splits)

text \<open>One second more than the advice is enough for the next request of the key.\<close>

lemma retry_after_enough:
  assumes ok: "window_ok t0 g key w" "t0 \<le> now" and L: "1 \<le> sw_limit w"
    and d: "fst (allow now key w) = Inr (False, Some r)" and later: "now + of_int r + 1 \<le> now'"
  shows "fst (allow now' key (snd (allow now key w))) = Inr (True, None)"
proof -
  let ?w1 = "snd (allow now key w)" and ?W = "rat_of_int (sw_window_seconds w)"
  obtain t ts where ts: "fresh_events now key w = t # ts" "sw_events ?w1 key = t # ts"
      "r = max 1 (if 0 \<le> ?W - (now - t) then \<lfloor>?W - (now - t)\<rfloor> else \<lceil>?W - (now - t)\<rceil>)"
    using allow_denied [OF d] by blast
  have g: "sorted g" "\<forall>x\<in>set g. x \<le> now" using ok by (auto simp: window_ok_def)
  have fr: "t # ts = filter (\<lambda>x. now - ?W < x) g" using window_fresh [OF ok] ts(1) by simp
  have "length (t # ts) = in_window ?W now g"
    unfolding fr in_window_def using g(2) by (intro arg_cong [where f = length] filter_cong) auto
  then have n: "int (length (t # ts)) \<le> sw_limit w" using ok(1) by (auto simp: window_ok_def)
  have "?W - (now - t) < of_int r + 1"
    using ts(3) by (auto simp: max_def split: if_splits) linarith+
  then have "t \<le> now' - ?W" using later by linarith
  then have "fresh_events now' key ?w1 = dropWhile (\<lambda>x. x \<le> now' - ?W) ts"
    using ts(2) by (simp add: fresh_events_def)
  then have "length (fresh_events now' key ?w1) \<le> length ts" by (simp add: length_dropWhile_le)
  then have "int (length (fresh_events now' key ?w1)) < sw_limit ?w1" using n by simp
  then show ?thesis by (simp add: allow_def Let_def)
qed

end
