(* ===== verification/Reliability.thy ===== *)
theory Reliability
  imports RateLimit StreamMetrics
begin

text \<open>
  The operational layer: \<^verbatim>\<open>app/core/shutdown.py\<close>, \<^verbatim>\<open>middleware.py\<close>, \<^verbatim>\<open>timeout.py\<close>,
  \<^verbatim>\<open>connection_manager.py\<close> and \<^verbatim>\<open>health.py\<close>.

  The request middleware is two steps, before and after the call of the rest of the application, so that
  requests overlap freely. The deadline of a request is decided by the environment (\<open>wait_result\<close>
  is the outcome of \<^verbatim>\<open>asyncio.wait_for\<close>). A connection is a number; what other tasks do
  to the set of connections while a broadcast waits is a list of functions.
\<close>

section \<open>Shutdown\<close>

record shutdown_manager =
  sm_shutting_down :: bool
  sm_active_requests :: int
  sm_drained :: bool

definition new_shutdown_manager :: shutdown_manager where
  "new_shutdown_manager = \<lparr>sm_shutting_down = False, sm_active_requests = 0, sm_drained = True\<rparr>"

definition begin_request :: "shutdown_manager \<Rightarrow> py_exn + shutdown_manager" where
  "begin_request s =
     (if sm_shutting_down s then Inl (RuntimeError ''Server is shutting down'')
      else Inr (s\<lparr>sm_active_requests := sm_active_requests s + 1, sm_drained := False\<rparr>))"

definition end_request :: "shutdown_manager \<Rightarrow> shutdown_manager" where
  "end_request s =
     (let n = max 0 (sm_active_requests s - 1)
      in s\<lparr>sm_active_requests := n, sm_drained := (if n = 0 then True else sm_drained s)\<rparr>)"

text \<open>
  \<^verbatim>\<open>initiate_shutdown\<close>: the wait ends when the event is set, or by the timeout after \<open>ends\<close> more
  requests have ended; the flag says which.
\<close>

fun await_drain :: "nat \<Rightarrow> shutdown_manager \<Rightarrow> bool \<times> shutdown_manager" where
  "await_drain 0 s = (sm_drained s, s)"
| "await_drain (Suc ends) s = (if sm_drained s then (True, s) else await_drain ends (end_request s))"

definition initiate_shutdown :: "nat \<Rightarrow> shutdown_manager \<Rightarrow> bool \<times> shutdown_manager" where
  "initiate_shutdown ends s = await_drain ends (s\<lparr>sm_shutting_down := True\<rparr>)"

section \<open>Request context\<close>

record request_ids =
  ri_request :: ustr
  ri_correlation :: ustr
  ri_call :: "ustr option"

definition header_or :: "(ustr \<rightharpoonup> ustr) \<Rightarrow> string \<Rightarrow> ustr \<Rightarrow> ustr" where
  "header_or h name d = (case h (u name) of Some v \<Rightarrow> if v = [] then d else v | None \<Rightarrow> d)"

definition request_ids_of :: "(ustr \<rightharpoonup> ustr) \<Rightarrow> ustr \<Rightarrow> request_ids" where
  "request_ids_of h fresh =
     (let rid = header_or h ''X-Request-ID'' fresh
      in \<lparr>ri_request = rid, ri_correlation = header_or h ''X-Correlation-ID'' rid,
          ri_call = (case h (u ''X-Call-ID'') of Some v \<Rightarrow> if v = [] then None else Some v | None \<Rightarrow> None)\<rparr>)"

definition stamp_headers :: "request_ids \<Rightarrow> ustr \<Rightarrow> (ustr \<rightharpoonup> ustr) \<Rightarrow> (ustr \<rightharpoonup> ustr)" where
  "stamp_headers ids latency h =
     (let h1 = h(u ''X-Request-ID'' \<mapsto> ri_request ids, u ''X-Correlation-ID'' \<mapsto> ri_correlation ids,
                u ''X-Process-Time-Ms'' \<mapsto> latency)
      in (case ri_call ids of None \<Rightarrow> h1 | Some c \<Rightarrow> h1(u ''X-Call-ID'' \<mapsto> c)))"

datatype ctx_entry = Reject503 | EnterRaises py_exn | Entered

definition context_enter :: "http_request \<Rightarrow> shutdown_manager \<Rightarrow> ctx_entry \<times> shutdown_manager" where
  "context_enter rq s =
     (if sm_shutting_down s \<and> startswith (rq_path rq) (u ''/api/v1'') then (Reject503, s)
      else case begin_request s of Inl e \<Rightarrow> (EnterRaises e, s) | Inr s' \<Rightarrow> (Entered, s'))"

text \<open>The \<^verbatim>\<open>finally\<close> block; without a response the status is 500.\<close>

definition context_exit ::
  "pyfloat \<Rightarrow> int option \<Rightarrow> platform_metrics \<times> shutdown_manager \<Rightarrow> platform_metrics \<times> shutdown_manager" where
  "context_exit latency status st = (case st of (pm, sm) \<Rightarrow>
     (record_request (py_round_to 2 latency) (case status of Some c \<Rightarrow> c | None \<Rightarrow> 500) None pm, end_request sm))"

section \<open>Timeouts\<close>

definition contains :: "ustr \<Rightarrow> ustr \<Rightarrow> bool" where
  "contains s p \<longleftrightarrow> list_ex (\<lambda>i. startswith (drop i s) p) [0..<Suc (length s)]"

record timeout_settings =
  REQUEST_TIMEOUT_ENABLED :: bool
  timeout_knowledge :: pyfloat
  timeout_planner :: pyfloat
  timeout_verifier :: pyfloat
  timeout_tools :: pyfloat
  timeout_workflow :: pyfloat
  timeout_default :: pyfloat

definition timeout_for_path :: "timeout_settings \<Rightarrow> ustr \<Rightarrow> pyfloat" where
  "timeout_for_path st path =
     (if contains path (u ''/knowledge'') \<or> contains path (u ''/rag'') then timeout_knowledge st
      else if contains path (u ''/planner'') then timeout_planner st
      else if contains path (u ''/verifier'') then timeout_verifier st
      else if contains path (u ''/tools'') then timeout_tools st
      else if contains path (u ''/workflow'') then timeout_workflow st
      else timeout_default st)"

datatype wait_result = Finished int | WaitRaises | TimedOut

datatype http_outcome = Responds int | PropagatesError

text \<open>
  \<open>direct\<close> is the outcome of the plain call, \<open>timed t\<close> that of the call with deadline \<open>t\<close>.
\<close>

definition timeout_dispatch ::
  "timeout_settings \<Rightarrow> ustr \<Rightarrow> http_outcome \<Rightarrow> (pyfloat \<Rightarrow> wait_result) \<Rightarrow> platform_metrics
     \<Rightarrow> http_outcome \<times> platform_metrics" where
  "timeout_dispatch st path direct timed pm =
     (if \<not> REQUEST_TIMEOUT_ENABLED st \<or> has_prefix (map u [''/api/v1/health'', ''/twilio'']) path then (direct, pm)
      else case timed (timeout_for_path st path) of
             Finished c \<Rightarrow> (Responds c, pm)
           | WaitRaises \<Rightarrow> (PropagatesError, pm)
           | TimedOut \<Rightarrow> (Responds 504, record_timeout pm))"

section \<open>WebSocket connections\<close>

record connect_env =
  ce_production_or_staging :: bool
  ce_database_enabled :: bool
  ce_token_valid :: "ustr \<Rightarrow> bool"

text \<open>\<^verbatim>\<open>connect\<close>: whether the socket was accepted; only an accepted socket becomes active.\<close>

definition ws_connect :: "connect_env \<Rightarrow> ustr option \<Rightarrow> nat \<Rightarrow> nat set \<Rightarrow> bool \<times> nat set" where
  "ws_connect env token c conns =
     (if ce_production_or_staging env \<or> token \<noteq> None then
        (if \<not> ce_database_enabled env then (False, conns)
         else case token of
                None \<Rightarrow> (False, conns)
              | Some t \<Rightarrow> if t = [] \<or> \<not> ce_token_valid env t then (False, conns) else (True, insert c conns))
      else (True, insert c conns))"

definition ws_disconnect :: "nat \<Rightarrow> nat set \<Rightarrow> nat set" where
  "ws_disconnect c conns = conns - {c}"

definition send_personal_message :: "bool \<Rightarrow> nat \<Rightarrow> nat set \<Rightarrow> nat set" where
  "send_personal_message sent c conns = (if sent then conns else ws_disconnect c conns)"

text \<open>
  \<^verbatim>\<open>broadcast\<close> iterates over the live set: for each connection in turn the environment says whether the
  send succeeds and what other tasks did to the set meanwhile. The iterator raises when the size of the set
  is not the one it started with. The result is the list of failed connections, or the error.
\<close>

fun broadcast_loop :: "nat \<Rightarrow> (nat \<times> bool \<times> (nat set \<Rightarrow> nat set)) list \<Rightarrow> nat set \<Rightarrow> nat list
    \<Rightarrow> (py_exn + nat list) \<times> nat set" where
  "broadcast_loop sz [] conns failed =
     (if card conns \<noteq> sz then (Inl (RuntimeError ''Set changed size during iteration''), conns)
      else (Inr failed, conns))"
| "broadcast_loop sz ((c, sent, others) # cs) conns failed =
     (if card conns \<noteq> sz then (Inl (RuntimeError ''Set changed size during iteration''), conns)
      else broadcast_loop sz cs (others conns) (if sent then failed else failed @ [c]))"

definition broadcast :: "(nat \<times> bool \<times> (nat set \<Rightarrow> nat set)) list \<Rightarrow> nat set \<Rightarrow> py_exn option \<times> nat set" where
  "broadcast cs conns =
     (case broadcast_loop (card conns) cs conns [] of
        (Inl e, conns') \<Rightarrow> (Some e, conns')
      | (Inr failed, conns') \<Rightarrow> (None, fold ws_disconnect failed conns'))"

text \<open>\<^verbatim>\<open>disconnect_all\<close> works on a copy; whether a close succeeds does not matter.\<close>

definition disconnect_all :: "nat list \<Rightarrow> nat set \<Rightarrow> nat set" where
  "disconnect_all copy conns = fold ws_disconnect copy conns"

section \<open>Health\<close>

datatype health_value =
    WithStatus string
  | NestedChecks "string option list"
  | NotADict

definition statuses_of :: "health_value \<Rightarrow> string list" where
  "statuses_of v = (case v of
     WithStatus s \<Rightarrow> [s]
   | NestedChecks vs \<Rightarrow> map (\<lambda>x. case x of Some s \<Rightarrow> s | None \<Rightarrow> ''healthy'') vs
   | NotADict \<Rightarrow> [])"

definition aggregate_status :: "health_value list \<Rightarrow> string" where
  "aggregate_status checks =
     (let ss = concat (map statuses_of checks)
      in if list_ex (\<lambda>s. s = ''unhealthy'') ss then ''unhealthy''
         else if list_ex (\<lambda>s. s = ''degraded'') ss then ''degraded'' else ''healthy'')"

definition check_streaming :: "streaming_metrics \<Rightarrow> string" where
  "check_streaming m = (if dropped_frames m > 0 \<or> current_latency_ms m \<ge> 100 then ''degraded'' else ''healthy'')"

text \<open>The session factory may be missing, and the two queries may raise.\<close>

datatype db_probe = NoFactory | DbAnswers | DbRaises

definition check_database :: "bool \<Rightarrow> db_probe \<Rightarrow> platform_metrics \<Rightarrow> string \<times> platform_metrics" where
  "check_database enabled probe pm =
     (if \<not> enabled then (''skipped'', pm)
      else case probe of
             NoFactory \<Rightarrow> (''unhealthy'', pm)
           | DbAnswers \<Rightarrow> (''healthy'', pm)
           | DbRaises \<Rightarrow> (''unhealthy'', record_dependency_failure ''database'' pm))"

definition ready_check ::
  "bool \<Rightarrow> bool \<Rightarrow> db_probe \<Rightarrow> platform_metrics \<Rightarrow> (string \<times> health_value list) \<times> platform_metrics" where
  "ready_check enabled engine probe pm =
     (if enabled \<and> \<not> engine then ((''unhealthy'', [WithStatus ''unhealthy'']), pm)
      else case check_database enabled probe pm of
             (db, pm') \<Rightarrow>
               (let checks = [WithStatus db, WithStatus ''skipped'', WithStatus ''skipped'']
                in ((aggregate_status checks, checks), pm')))"

definition deep_check ::
  "bool \<Rightarrow> bool \<Rightarrow> db_probe \<Rightarrow> streaming_metrics \<Rightarrow> platform_metrics \<Rightarrow> string \<times> platform_metrics" where
  "deep_check enabled engine probe m pm =
     (case ready_check enabled engine probe pm of
        ((st, checks), pm') \<Rightarrow> (aggregate_status (checks @ [WithStatus (check_streaming m)]), pm'))"

section \<open>Lemmas: requests and shutdown\<close>

text \<open>Overlapping requests as a sequence of entries, exits and the start of the shutdown.\<close>

datatype ctx_event = CtxEnter http_request | CtxExit pyfloat "int option" | CtxShutdown

type_synonym ctx_world = "platform_metrics \<times> shutdown_manager \<times> nat"

fun ctx_event_step :: "ctx_event \<Rightarrow> ctx_world \<Rightarrow> ctx_world" where
  "ctx_event_step (CtxEnter rq) (pm, sm, n) =
     (case context_enter rq sm of (Entered, sm') \<Rightarrow> (pm, sm', Suc n) | (_, sm') \<Rightarrow> (pm, sm', n))"
| "ctx_event_step (CtxExit l st) (pm, sm, n) =
     (if n = 0 then (pm, sm, n) else (case context_exit l st (pm, sm) of (pm', sm') \<Rightarrow> (pm', sm', n - 1)))"
| "ctx_event_step CtxShutdown (pm, sm, n) = (pm, sm\<lparr>sm_shutting_down := True\<rparr>, n)"

definition ctx_run :: "ctx_event list \<Rightarrow> ctx_world \<Rightarrow> ctx_world" where
  "ctx_run es w = fold ctx_event_step es w"

definition shutdown_ok :: "ctx_world \<Rightarrow> bool" where
  "shutdown_ok w = (case w of (pm, sm, n) \<Rightarrow> sm_active_requests sm = int n \<and> (sm_drained sm \<longleftrightarrow> n = 0))"

lemma ctx_event_ok: "shutdown_ok w \<Longrightarrow> shutdown_ok (ctx_event_step e w)"
  by (cases "(e, w)" rule: ctx_event_step.cases)
     (auto simp: shutdown_ok_def context_enter_def begin_request_def context_exit_def end_request_def Let_def)

lemma ctx_run_ok: "shutdown_ok w \<Longrightarrow> shutdown_ok (ctx_run es w)"
  unfolding ctx_run_def by (induction es arbitrary: w) (simp_all add: ctx_event_ok)

text \<open>After the shutdown has begun no request enters: the number in flight only falls.\<close>

lemma ctx_no_entry:
  assumes "sm_shutting_down (fst (snd w))"
  shows "snd (snd (ctx_run es w)) \<le> snd (snd w) \<and> sm_shutting_down (fst (snd (ctx_run es w)))"
proof -
  have "sm_shutting_down (fst (snd w)) \<Longrightarrow>
      snd (snd (ctx_event_step e w)) \<le> snd (snd w) \<and> sm_shutting_down (fst (snd (ctx_event_step e w)))" for e w
    by (cases "(e, w)" rule: ctx_event_step.cases)
       (auto simp: context_enter_def begin_request_def context_exit_def end_request_def Let_def)
  note step = this
  show ?thesis
    using assms unfolding ctx_run_def
  proof (induction es arbitrary: w)
    case (Cons e es)
    from step [OF Cons.prems, of e] Cons.IH [of "ctx_event_step e w"] show ?case by (simp add: order_trans)
  qed simp
qed

text \<open>The drain succeeds exactly when the requests in flight end in time.\<close>

lemma await_drain_iff:
  assumes "sm_active_requests s = int n" "sm_drained s \<longleftrightarrow> n = 0"
  shows "fst (await_drain ends s) \<longleftrightarrow> n \<le> ends"
  using assms
proof (induction ends arbitrary: s n)
  case (Suc ends)
  show ?case
  proof (cases n)
    case (Suc m)
    have "sm_active_requests (end_request s) = int m" "sm_drained (end_request s) \<longleftrightarrow> m = 0"
      using Suc.prems Suc by (auto simp: end_request_def Let_def)
    from Suc.IH [OF this] Suc Suc.prems show ?thesis by simp
  qed (use Suc.prems in simp)
qed auto

section \<open>Lemmas: connections and health\<close>

lemma fold_disconnect: "fold ws_disconnect cs conns = conns - set cs"
  by (induction cs arbitrary: conns) (auto simp: ws_disconnect_def)

text \<open>Undisturbed, a broadcast removes exactly the connections whose send failed.\<close>

lemma broadcast_quiet:
  assumes "list_all (\<lambda>(c, sent, others). others = id) cs"
  shows "broadcast cs conns = (None, conns - {c. \<exists>f. (c, False, f) \<in> set cs})"
proof -
  have "broadcast_loop (card conns) cs conns failed =
      (Inr (failed @ map fst (filter (\<lambda>(c, sent, others). \<not> sent) cs)), conns)" for failed
    using assms by (induction cs arbitrary: failed) auto
  then show ?thesis
    by (auto simp: broadcast_def fold_disconnect) force+
qed

lemma broadcast_disturbed:
  assumes "finite conns" "c' \<in> conns" "cs = (c, True, ws_disconnect c') # cs'"
  shows "fst (broadcast cs conns) = Some (RuntimeError ''Set changed size during iteration'')"
proof -
  have "card (ws_disconnect c' conns) \<noteq> card conns"
    using assms(1,2) card_Diff1_less [of conns c'] by (simp add: ws_disconnect_def)
  then show ?thesis unfolding assms(3) broadcast_def by (cases cs') auto
qed

lemma aggregate_unhealthy:
  "aggregate_status checks = ''unhealthy'' \<longleftrightarrow> (\<exists>v\<in>set checks. ''unhealthy'' \<in> set (statuses_of v))"
  by (auto simp: aggregate_status_def Let_def list_ex_iff)

lemma deep_check_unhealthy:
  "fst (deep_check enabled engine probe m pm) = ''unhealthy'' \<longleftrightarrow> enabled \<and> (\<not> engine \<or> probe \<noteq> DbAnswers)"
  by (cases probe)
     (auto simp: deep_check_def ready_check_def check_database_def aggregate_status_def statuses_of_def check_streaming_def Let_def)

end
