(* ===== verification/VoiceSocket.thy ===== *)
theory VoiceSocket
  imports VoiceFactory VoiceSession Dispatcher Reliability
begin

text \<open>
  \<^verbatim>\<open>app/api/v1/endpoints/websocket.py\<close>: a browser's voice connection from its admission to its release. The endpoint
  puts together the connection registry, the engines of the factory, the session, the inbound queue with its
  dispatcher and the recogniser's consumer. Its receive loop is one task; the dispatcher, the consumer and the
  session's own tasks run beside it, so a run is any sequence of their steps. Whether a send succeeds, what the
  recogniser hears, and what a client sends are decided by the environment. The \<^verbatim>\<open>finally\<close> block is one step; it can
  wait for ever for the consumer, and an exception of the recogniser's \<^verbatim>\<open>close\<close> leaves it early.
\<close>

section \<open>State\<close>

datatype ws_message =
    TranscriptMsg transcript_event
  | ConnectedMsg nat "(ustr \<times> ustr) list" int int    \<comment> \<open>conversation, providers, sample rate, frame length\<close>
  | PingMsg
  | PongMsg
  | ErrorMsg "ustr option" ustr                        \<comment> \<open>code, message\<close>

datatype ws_phase = WsRefused | WsListening | WsEnding | WsReleased | WsHanging | WsEscaped

record ws_state =
  wk_phase :: ws_phase
  wk_conns :: "nat set"
  wk_session :: "voice_session option"
  wk_stt :: "stt_consumer option"
  wk_dispatcher :: "dispatcher option"
  wk_pipe :: pipe
  wk_sent :: "ws_message list"
  wk_close_code :: "int option"

record ws_env =
  we_id :: nat
  we_settings :: app_settings
  we_token_valid :: "ustr \<Rightarrow> bool"
  we_unfinished :: "nat \<Rightarrow> bool"
  we_loads :: "ustr \<Rightarrow> json option"
  we_str :: "json \<Rightarrow> ustr"

definition connect_env_of :: "ws_env \<Rightarrow> connect_env" where
  "connect_env_of env =
     \<lparr>ce_production_or_staging = is_production (we_settings env) \<or> is_staging (we_settings env),
      ce_database_enabled = database_enabled (we_settings env), ce_token_valid = we_token_valid env\<rparr>"

definition socket_send :: "ws_message \<Rightarrow> ws_state \<Rightarrow> ws_state" where
  "socket_send m w = w\<lparr>wk_sent := wk_sent w @ [m]\<rparr>"

text \<open>\<^verbatim>\<open>manager.send_personal_message\<close>: a failed send takes the connection out of the registry.\<close>

definition personal :: "ws_env \<Rightarrow> bool \<Rightarrow> ws_message \<Rightarrow> ws_state \<Rightarrow> ws_state" where
  "personal env sent m w =
     (let w1 = (if sent then socket_send m w else w)
      in w1\<lparr>wk_conns := send_personal_message sent (we_id env) (wk_conns w1)\<rparr>)"

section \<open>Opening\<close>

text \<open>
  \<open>fresh\<close> is the session that its constructor makes. A provider that cannot be built is reported to the client when it
  is a \<^verbatim>\<open>ValueError\<close>; the session exists when only the recogniser failed.
\<close>

definition build_session :: "ws_env \<Rightarrow> voice_session \<Rightarrow> exn + voice_session" where
  "build_session env fresh =
     bind_sum (build_llm_engine (we_settings env)) (\<lambda>_. bind_sum (build_tts_engine (we_settings env) None) (\<lambda>_. Inr fresh))"

definition providers_unavailable :: "bool \<Rightarrow> exn \<Rightarrow> ws_state \<Rightarrow> ws_state" where
  "providers_unavailable sent e w =
     (if isinstance e (Lib ''ValueError'') \<and> sent
      then (socket_send (ErrorMsg (Some (u ''voice_providers_unavailable'')) (ex_text e)) w)\<lparr>wk_close_code := Some 1011\<rparr>
      else w)\<lparr>wk_phase := WsEnding\<rparr>"

definition ws_open :: "ws_env \<Rightarrow> ustr option \<Rightarrow> voice_session \<Rightarrow> bool \<Rightarrow> ws_state \<Rightarrow> ws_state" where
  "ws_open env token fresh sent w =
     (case ws_connect (connect_env_of env) token (we_id env) (wk_conns w) of
        (False, conns) \<Rightarrow> w\<lparr>wk_conns := conns, wk_phase := WsRefused\<rparr>
      | (True, conns) \<Rightarrow>
          let w1 = w\<lparr>wk_conns := conns\<rparr>
          in (case build_session env fresh of
                Inl e \<Rightarrow> providers_unavailable sent e w1
              | Inr s \<Rightarrow>
                  let w2 = w1\<lparr>wk_session := Some s\<rparr>
                  in (case build_stt_engine (we_settings env) of
                        Inl e \<Rightarrow> providers_unavailable sent e w2
                      | Inr eng \<Rightarrow>
                          let w3 = w2\<lparr>wk_stt := Some (stt_start (new_stt_consumer 50)),
                                      wk_dispatcher := Some (start_dispatcher (register_stt_consumer new_dispatcher))\<rparr>
                          in if sent
                             then (socket_send (ConnectedMsg (conversation_id s) (describe_voice_providers (we_settings env))
                                     (VOICE_SAMPLE_RATE (we_settings env)) (VOICE_FRAME_MS (we_settings env))) w3)
                                    \<lparr>wk_phase := WsListening\<rparr>
                             else w3\<lparr>wk_phase := WsEnding\<rparr>)))"

definition new_socket :: "nat set \<Rightarrow> streaming_metrics \<Rightarrow> py_exn + ws_state" where
  "new_socket conns ms =
     bind_sum (new_queue 50) (\<lambda>q.
       Inr \<lparr>wk_phase = WsRefused, wk_conns = conns, wk_session = None, wk_stt = None, wk_dispatcher = None,
            wk_pipe = (q, Some ms), wk_sent = [], wk_close_code = None\<rparr>)"

section \<open>Messages of the client\<close>

datatype ws_input = Quiet | Gone | Frame bytes | TextMessage ustr | OtherMessage | ReceiveRaises

record ws_moment =
  wm_env :: vs_env
  wm_uuid :: string
  wm_sent :: bool

definition dev_text :: "ws_env \<Rightarrow> (ustr \<times> json) list \<Rightarrow> ustr" where
  "dev_text env fs =
     (let v = (case map_of fs (u ''text'') of Some x \<Rightarrow> x | None \<Rightarrow> JNull)
      in take 2000 (if \<not> truthy v then [] else case v of JStr t \<Rightarrow> t | _ \<Rightarrow> we_str env v))"

text \<open>\<^verbatim>\<open>handle_message\<close>; the flag says whether it returned (\<open>False\<close>: it raised).\<close>

definition handle_message :: "ws_env \<Rightarrow> ws_moment \<Rightarrow> ustr \<Rightarrow> ws_state \<Rightarrow> bool \<times> ws_state" where
  "handle_message env mo message w =
     (case we_loads env message of
        None \<Rightarrow> (True, personal env (wm_sent mo) (ErrorMsg None (u ''Invalid JSON format'')) w)
      | Some (JObj fs) \<Rightarrow>
          let message_type = (case map_of fs (u ''type'') of Some v \<Rightarrow> v | None \<Rightarrow> JStr (u ''unknown''))
          in if message_type = JStr (u ''ping'') then (True, personal env (wm_sent mo) PongMsg w)
             else if message_type \<in> {JStr (u ''dev_test_tts''), JStr (u ''dev_test_transcript'')} then
               (case wk_session w of
                  None \<Rightarrow> (True, personal env (wm_sent mo) (ErrorMsg (Some (u ''dev_message_disabled'')) (u ''Not available in this environment'')) w)
                | Some s \<Rightarrow>
                    if \<not> voice_dev_messages_enabled (we_settings env)
                    then (True, personal env (wm_sent mo) (ErrorMsg (Some (u ''dev_message_disabled'')) (u ''Not available in this environment'')) w)
                    else let t = dev_text env fs
                         in if message_type = JStr (u ''dev_test_tts'')
                            then (True, w\<lparr>wk_session := Some (speak_text (wm_env mo) (wm_uuid mo)
                                           (if t = [] then u ''Hello from Voxera TTS test.'' else t) s)\<rparr>)
                            else if strip t \<noteq> [] then
                              (case inject_transcript (wm_env mo) (we_unfinished env) (wm_uuid mo) t s of
                                 (s', ex) \<Rightarrow> (ex = None, w\<lparr>wk_session := Some s'\<rparr>))
                            else (True, w))
             else (True, w)
      | Some _ \<Rightarrow> (True, personal env (wm_sent mo) (ErrorMsg None (u ''Invalid message'')) w))"

text \<open>One turn of the receive loop.\<close>

definition receive_one :: "ws_env \<Rightarrow> ws_moment \<Rightarrow> ws_input \<Rightarrow> ws_state \<Rightarrow> ws_state" where
  "receive_one env mo i w =
     (case i of
        Quiet \<Rightarrow> if wm_sent mo then socket_send PingMsg w else w\<lparr>wk_phase := WsEnding\<rparr>
      | Gone \<Rightarrow> w\<lparr>wk_phase := WsEnding\<rparr>
      | Frame f \<Rightarrow> w\<lparr>wk_pipe := snd (enqueue (ve_now (wm_env mo)) f (wk_pipe w))\<rparr>
      | TextMessage t \<Rightarrow>
          (case handle_message env mo t w of
             (returned, w') \<Rightarrow> if returned then w' else w'\<lparr>wk_phase := WsEnding\<rparr>)
      | OtherMessage \<Rightarrow> w
      | ReceiveRaises \<Rightarrow> w\<lparr>wk_phase := WsEnding\<rparr>)"

section \<open>The tasks beside the loop\<close>

text \<open>\<^verbatim>\<open>socket_transcript\<close>: the event goes to the client first; when that fails the session does not see it.\<close>

type_synonym ws_core = "voice_session \<times> ws_message list"

definition socket_transcript :: "ws_env \<Rightarrow> ws_moment \<Rightarrow> transcript_event \<Rightarrow> ws_core \<Rightarrow> ws_core" where
  "socket_transcript env mo ev core = (case core of (s, sent) \<Rightarrow>
     if \<not> wm_sent mo then (s, sent)
     else (fst (session_transcript (wm_env mo) (we_unfinished env) ev s), sent @ [TranscriptMsg ev]))"

text \<open>What the recogniser says to a frame, and at the end of the stream.\<close>

definition socket_stt_world ::
  "ws_env \<Rightarrow> ws_moment \<Rightarrow> py_exn + transcript_event option \<Rightarrow> ws_core stt_world" where
  "socket_stt_world env mo heard =
     \<lparr>sw_process = \<lambda>fr e. (heard, e), sw_finalize = \<lambda>e. (heard, e),
      sw_transcript = Some (socket_transcript env mo), sw_error = None, sw_close = \<lambda>e. e\<rparr>"

definition socket_sink :: "ws_env \<Rightarrow> ws_moment \<Rightarrow> (voice_session \<times> stt_consumer) frame_sink" where
  "socket_sink env mo =
     \<lparr>fs_callback = \<lambda>fr (s, c). ((process_audio_frame (wm_env mo) (we_unfinished env) fr s, c), False),
      fs_stt_running = \<lambda>(s, c). sc_running c,
      fs_stt_process = \<lambda>fr (s, c). ((s, snd (stt_process_frame fr c)), False)\<rparr>"

definition dispatch_frame :: "ws_env \<Rightarrow> ws_moment \<Rightarrow> ws_state \<Rightarrow> bytes option \<times> ws_state" where
  "dispatch_frame env mo w =
     (case (wk_dispatcher w, wk_session w, wk_stt w) of
        (Some d, Some s, Some c) \<Rightarrow>
          (case dispatch_once (socket_sink env mo) (ve_now (wm_env mo)) (d, wk_pipe w, (s, c)) of
             (r, d', p', (s', c')) \<Rightarrow>
               (r, w\<lparr>wk_dispatcher := Some d', wk_session := Some s', wk_stt := Some c', wk_pipe := p'\<rparr>))
      | _ \<Rightarrow> (None, w))"

definition recognise :: "ws_env \<Rightarrow> ws_moment \<Rightarrow> py_exn + transcript_event option \<Rightarrow> ws_state \<Rightarrow> ws_state" where
  "recognise env mo heard w =
     (case (wk_session w, wk_stt w) of
        (Some s, Some c) \<Rightarrow>
          (case stt_loop_once (socket_stt_world env mo heard) (c, (s, wk_sent w)) of
             None \<Rightarrow> w
           | Some (c', (s', sent)) \<Rightarrow> w\<lparr>wk_stt := Some c', wk_session := Some s', wk_sent := sent\<rparr>)
      | _ \<Rightarrow> w)"

section \<open>The end of a connection\<close>

text \<open>
  The \<^verbatim>\<open>finally\<close> block: \<open>spoken\<close> is the text of the reply so far, \<open>heard\<close> the recogniser's last word, \<open>closes\<close> whether
  its \<^verbatim>\<open>close\<close> returns.
\<close>

definition ws_finally ::
  "ws_env \<Rightarrow> ws_moment \<Rightarrow> ustr \<Rightarrow> py_exn + transcript_event option \<Rightarrow> bool \<Rightarrow> ws_state \<Rightarrow> ws_state" where
  "ws_finally env mo spoken heard closes w =
     (let w1 = w\<lparr>wk_session := map_option (close_session (wm_env mo) spoken) (wk_session w)\<rparr>;
          release = (\<lambda>w. if wk_stt w \<noteq> None \<and> \<not> closes then w\<lparr>wk_phase := WsEscaped\<rparr>
                         else w\<lparr>wk_dispatcher := map_option stop_dispatcher (wk_dispatcher w),
                                wk_conns := ws_disconnect (we_id env) (wk_conns w), wk_phase := WsReleased\<rparr>)
      in (case (wk_session w1, wk_stt w1) of
            (Some s, Some c) \<Rightarrow>
              (case stt_stop (socket_stt_world env mo heard) (c, (s, wk_sent w1)) of
                 StopWaits c' (s', sent) \<Rightarrow>
                   w1\<lparr>wk_stt := Some c', wk_session := Some s', wk_sent := sent, wk_phase := WsHanging\<rparr>
               | StopDone c' (s', sent) \<Rightarrow>
                   release (w1\<lparr>wk_stt := Some c', wk_session := Some s', wk_sent := sent\<rparr>))
          | _ \<Rightarrow> release w1))"

section \<open>Runs\<close>

text \<open>A run of an open connection, with the frames it received and the frames its dispatcher forwarded.\<close>

inductive ws_run :: "ws_env \<Rightarrow> ws_state \<Rightarrow> bytes list \<Rightarrow> bytes list \<Rightarrow> ws_state \<Rightarrow> bool" for env w0 where
  ws_start: "ws_run env w0 [] [] w0"
| ws_frame: "ws_run env w0 rcv dlv w \<Longrightarrow> wk_phase w = WsListening \<Longrightarrow>
    ws_run env w0 (rcv @ [f]) dlv (receive_one env mo (Frame f) w)"
| ws_other: "ws_run env w0 rcv dlv w \<Longrightarrow> wk_phase w = WsListening \<Longrightarrow> (\<forall>f. i \<noteq> Frame f) \<Longrightarrow>
    ws_run env w0 rcv dlv (receive_one env mo i w)"
| ws_dispatch: "ws_run env w0 rcv dlv w \<Longrightarrow> dispatch_frame env mo w = (r, w') \<Longrightarrow>
    ws_run env w0 rcv (dlv @ (case r of None \<Rightarrow> [] | Some f \<Rightarrow> [f])) w'"
| ws_recognise: "ws_run env w0 rcv dlv w \<Longrightarrow> ws_run env w0 rcv dlv (recognise env mo heard w)"
| ws_inside: "ws_run env w0 rcv dlv w \<Longrightarrow> wk_session w = Some s \<Longrightarrow> session_step (we_unfinished env) s s' \<Longrightarrow>
    ws_run env w0 rcv dlv (w\<lparr>wk_session := Some s'\<rparr>)"
| ws_end: "ws_run env w0 rcv dlv w \<Longrightarrow> wk_phase w = WsEnding \<Longrightarrow>
    ws_run env w0 rcv dlv (ws_finally env mo spoken heard closes w)"

section \<open>What each step leaves alone\<close>

lemma personal_frame [frame]:
  "wk_pipe (personal env b m w) = wk_pipe w" "wk_session (personal env b m w) = wk_session w"
  "wk_stt (personal env b m w) = wk_stt w" "wk_phase (personal env b m w) = wk_phase w"
  "wk_dispatcher (personal env b m w) = wk_dispatcher w"
  by (simp_all add: personal_def socket_send_def Let_def)

lemma handle_message_pipe [frame]: "wk_pipe (snd (handle_message env mo t w)) = wk_pipe w"
  by (simp add: handle_message_def Let_def frame split: option.split json.split prod.split)

lemma receive_pipe [frame]: "(\<forall>f. i \<noteq> Frame f) \<Longrightarrow> wk_pipe (receive_one env mo i w) = wk_pipe w"
  using handle_message_pipe [of env mo _ w]
  by (cases i) (auto simp: receive_one_def socket_send_def split: prod.splits, (metis snd_conv)+)

lemma recognise_pipe [frame]: "wk_pipe (recognise env mo heard w) = wk_pipe w"
  by (simp add: recognise_def split: option.split prod.split)

lemma finally_pipe [frame]: "wk_pipe (ws_finally env mo spoken heard closes w) = wk_pipe w"
  by (simp add: ws_finally_def Let_def split: option.split prod.split stop_result.split)

section \<open>Inbound audio\<close>

lemma dispatch_frame_queue:
  assumes "pipe_wf (wk_pipe w)" "dispatch_frame env mo w = (r, w')"
  shows "pipe_wf (wk_pipe w') \<and> aq_max_size (fst (wk_pipe w')) = aq_max_size (fst (wk_pipe w))
    \<and> waiting (wk_pipe w) = (case r of None \<Rightarrow> [] | Some f \<Rightarrow> [f]) @ waiting (wk_pipe w')"
proof (cases "\<exists>d s c. wk_dispatcher w = Some d \<and> wk_session w = Some s \<and> wk_stt w = Some c \<and> dp_running d")
  case True
  then obtain d s c where d: "wk_dispatcher w = Some d" "wk_session w = Some s" "wk_stt w = Some c" "dp_running d"
    by blast
  obtain r1 d1 p1 x1 where o: "dispatch_once (socket_sink env mo) (ve_now (wm_env mo)) (d, wk_pipe w, (s, c)) = (r1, d1, p1, x1)"
    by (metis prod_cases4)
  then have "r = r1" "wk_pipe w' = p1"
    using assms(2) d by (auto simp: dispatch_frame_def split: prod.splits)
  with dispatch_once_step [OF d(4) assms(1) o] show ?thesis by (cases "waiting (wk_pipe w)") auto
next
  case False
  then have "r = None \<and> wk_pipe w' = wk_pipe w"
    using assms(2)
    by (auto simp: dispatch_frame_def dispatch_once_def split: option.splits prod.splits if_splits)
  with assms(1) show ?thesis by simp
qed

text \<open>
  Whatever runs beside the receive loop: the frames forwarded, followed by those still waiting, are frames the client
  sent, in the order it sent them, and no more frames wait than the queue has room for.
\<close>

lemma ws_run_audio:
  assumes "ws_run env w0 rcv dlv w" "pipe_wf (wk_pipe w0)" "waiting (wk_pipe w0) = []"
  shows "pipe_wf (wk_pipe w) \<and> aq_max_size (fst (wk_pipe w)) = aq_max_size (fst (wk_pipe w0))
    \<and> subseq (dlv @ waiting (wk_pipe w)) rcv"
  using assms(1)
proof (induction rule: ws_run.induct)
  case ws_start
  then show ?case using assms(2,3) by simp
next
  case (ws_frame rcv dlv w f mo)
  then have wf: "pipe_wf (wk_pipe w)" by simp
  note st = arrive_step [OF wf, of "ve_now (wm_env mo)" f]
  have "subseq (dlv @ deque_append n (waiting (wk_pipe w)) f) ((dlv @ waiting (wk_pipe w)) @ [f])" for n
    by (simp add: subseq_deque_append list_emb_append_mono)
  then have "subseq (dlv @ deque_append n (waiting (wk_pipe w)) f) (rcv @ [f])" for n
    using ws_frame.IH by (meson list_emb_append_mono subseq_order.order_refl subseq_order.order_trans)
  with st ws_frame.IH show ?case by (simp add: receive_one_def)
next
  case (ws_dispatch rcv dlv w mo r w')
  then show ?case using dispatch_frame_queue [of w env mo r w'] by (simp split: option.splits)
qed (simp_all add: frame)

section \<open>Admission and the messages of a client\<close>

lemma refused_client:
  assumes "is_production (we_settings env) \<or> is_staging (we_settings env)"
    and "\<not> database_enabled (we_settings env) \<or> token = None \<or> token = Some [] \<or> (\<exists>t. token = Some t \<and> \<not> we_token_valid env t)"
  shows "ws_open env token fresh sent w = w\<lparr>wk_phase := WsRefused\<rparr>"
  using assms by (auto simp: ws_open_def ws_connect_def connect_env_of_def split: option.splits)

text \<open>Outside development no text of a client reaches the session, and none ends the loop.\<close>

lemma dev_messages_closed:
  assumes "\<not> is_development (we_settings env)"
  shows "fst (handle_message env mo t w) \<and> wk_session (snd (handle_message env mo t w)) = wk_session w
    \<and> wk_phase (snd (handle_message env mo t w)) = wk_phase w"
  using assms
  by (simp add: handle_message_def Let_def frame voice_dev_messages_enabled_def split: option.split json.split)

text \<open>What a provider refuses is a \<open>ValueError\<close>, so the client learns of it.\<close>

lemma value_error_is: "isinstance (value_error t) (Lib ''ValueError'')"
  by (simp add: value_error_def lib_exn_def isinstance_def)

lemma open_listening:
  assumes "ws_connect (connect_env_of env) token (we_id env) (wk_conns w) = (True, conns)"
    and "build_stt_engine (we_settings env) = Inr stt" "build_llm_engine (we_settings env) = Inr llm"
    and "build_tts_engine (we_settings env) None = Inr tts"
  shows "wk_phase (ws_open env token fresh True w) = WsListening" "wk_session (ws_open env token fresh True w) = Some fresh"
    "we_id env \<in> wk_conns (ws_open env token fresh True w)"
  using assms
  by (auto simp: ws_open_def build_session_def Let_def socket_send_def ws_connect_def split: if_splits option.splits)

section \<open>The release of a connection\<close>

lemma finally_hangs:
  assumes "wk_session w = Some s" "wk_stt w = Some c" "sc_running c" "queue_full c"
  shows "wk_phase (ws_finally env mo spoken heard closes w) = WsHanging"
    "wk_conns (ws_finally env mo spoken heard closes w) = wk_conns w"
proof -
  obtain c' e' where "stt_stop (socket_stt_world env mo heard) (c, (close_session (wm_env mo) spoken s, wk_sent w)) = StopWaits c' e'"
    using assms(3,4) by (simp add: stt_stop_def Let_def queue_full_def)
  then show "wk_phase (ws_finally env mo spoken heard closes w) = WsHanging"
    "wk_conns (ws_finally env mo spoken heard closes w) = wk_conns w"
    using assms(1,2) by (simp_all add: ws_finally_def Let_def split: prod.split)
qed

lemma finally_releases:
  assumes "wk_session w = Some s" "wk_stt w = Some c" "\<not> (sc_running c \<and> queue_full c)" "closes"
  shows "wk_phase (ws_finally env mo spoken heard closes w) = WsReleased"
    "we_id env \<notin> wk_conns (ws_finally env mo spoken heard closes w)"
proof -
  obtain c' s' sent where "stt_stop (socket_stt_world env mo heard) (c, (close_session (wm_env mo) spoken s, wk_sent w)) = StopDone c' (s', sent)"
    using assms(3) by (cases "sc_running c") (auto simp: stt_stop_def Let_def queue_full_def, (metis surj_pair)+)
  then show "wk_phase (ws_finally env mo spoken heard closes w) = WsReleased"
    "we_id env \<notin> wk_conns (ws_finally env mo spoken heard closes w)"
    using assms(1,2,4) by (simp_all add: ws_finally_def Let_def ws_disconnect_def)
qed

text \<open>The client's socket is gone when the block runs: the session stays as its \<open>close\<close> left it.\<close>

lemma finally_session_gone:
  assumes "wk_session w = Some s" "wk_stt w = Some c" "\<not> wm_sent mo"
  shows "wk_session (ws_finally env mo spoken heard closes w) = Some (close_session (wm_env mo) spoken s)"
  using assms
  by (auto simp: ws_finally_def Let_def stt_stop_def stt_finalize_def socket_stt_world_def call_opt_def socket_transcript_def
      split: sum.split option.split)

text \<open>While the socket still takes messages, the last transcript reaches the session after it was closed.\<close>

lemma finally_session_heard:
  assumes "wk_session w = Some s" "wk_stt w = Some c" "sc_running c" "wm_sent mo"
  shows "wk_session (ws_finally env mo spoken (Inr (Some ev)) closes w) =
    Some (fst (session_transcript (wm_env mo) (we_unfinished env) ev (close_session (wm_env mo) spoken s)))"
  using assms
  by (simp add: ws_finally_def Let_def stt_stop_def stt_finalize_def socket_stt_world_def call_opt_def socket_transcript_def)

lemma close_session_frame:
  "is_user_speaking (close_session env t s) = is_user_speaking s" "vs_held (close_session env t s) = None"
  "vs_eot_hold (close_session env t s) = vs_eot_hold s" "vs_requests (close_session env t s) = vs_requests s"
  by (simp_all add: close_session_def Let_def cancel_hold_timer_def)

lemma final_is_answered:
  assumes "is_user_speaking s" "vs_held s = None" "vs_eot_hold s = 0" "te_type ev = FINAL" "strip (te_transcript ev) \<noteq> []"
  shows "\<exists>h. vs_requests (fst (session_transcript env uw ev s)) = vs_requests s @ [(strip (te_transcript ev), te_utterance_id ev, h)]"
    "is_active (vs_tts (fst (session_transcript env uw ev s)))"
  using assms
  by (simp_all add: session_transcript_def process_transcript_event_def process_final_def Let_def session_callbacks_def fire_def
      vs_on_user_turn_completed_def turn_completed_def complete_user_turn_def cancel_hold_timer_def reply_speaks)

lemma finally_answers:
  assumes "wk_session w = Some s" "wk_stt w = Some c" "sc_running c" "\<not> queue_full c" "wm_sent mo"
    and "is_user_speaking s" "vs_eot_hold s = 0" "te_type ev = FINAL" "strip (te_transcript ev) \<noteq> []"
  shows "wk_phase (ws_finally env mo spoken (Inr (Some ev)) True w) = WsReleased"
    "\<exists>s' h. wk_session (ws_finally env mo spoken (Inr (Some ev)) True w) = Some s' \<and> is_active (vs_tts s')
       \<and> vs_requests s' = vs_requests s @ [(strip (te_transcript ev), te_utterance_id ev, h)]"
  using finally_releases(1) [OF assms(1,2)] assms(4) finally_session_heard [OF assms(1-3,5)]
    final_is_answered [of "close_session (wm_env mo) spoken s" ev] assms(6-9)
  by (auto simp: close_session_frame)

lemma finally_without_engines:
  assumes "wk_stt w = None"
  shows "wk_phase (ws_finally env mo spoken heard closes w) = WsReleased"
    "we_id env \<notin> wk_conns (ws_finally env mo spoken heard closes w)"
  using assms by (simp_all add: ws_finally_def Let_def ws_disconnect_def split: option.split)

end
