(* ===== verification/Secrets.thy ===== *)
theory Secrets
  imports Settings StreamAuth Base64
begin

text \<open>
  \<^verbatim>\<open>app/iam/security/secret_provider.py\<close> and \<^verbatim>\<open>app/iam/compliance/compliance_engine.py\<close>: the encryption of single
  fields with a key derived from the settings, and the frameworks an organization may claim. The digest of the key
  is a parameter. Base 64 is decoded as the library does without validation: foreign characters are skipped, and
  a padding that completes a group ends the text.
\<close>

section \<open>UTF-8 and base 64, the other way\<close>

text \<open>\<^verbatim>\<open>bytes.decode("utf-8")\<close>: what is no encoding of a code point is refused.\<close>

function utf8_decode :: "nat list \<Rightarrow> ustr option" where
  "utf8_decode bs =
     (if bs = [] then Some []
      else case utf8_first bs of
             (c, r) \<Rightarrow>
               (case utf8_c c of
                  None \<Rightarrow> None
                | Some x \<Rightarrow> if c \<le> 1114111 \<and> bs = x @ r then map_option ((#) c) (utf8_decode r) else None))"
  by pat_completeness auto
termination
  by (relation "measure length") (auto simp: utf8_c_def split: if_splits)

declare utf8_decode.simps [simp del]

lemma utf8_decode_encode:
  assumes "utf8 s = Inr bs" "\<forall>c\<in>set s. c \<le> 1114111"
  shows "utf8_decode bs = Some s"
  using assms
proof (induction s arbitrary: bs)
  case (Cons c s)
  then obtain x r where x: "utf8_c c = Some x" "utf8 s = Inr r" "bs = x @ r"
    by (auto simp: bind_sum_Inr_iff split: option.splits)
  then have "bs \<noteq> []" "utf8_first bs = (c, r)" using utf8_c_ne [of c] utf8_first_c [OF x(1)] by auto
  with x Cons.IH [OF x(2)] Cons.prems(2) show ?case by (subst utf8_decode.simps) simp
qed (simp add: utf8_decode.simps)

text \<open>\<^verbatim>\<open>binascii.a2b_base64\<close>: the place in the group, what is left of the last sextet, the padding seen.\<close>

fun a2b :: "nat \<Rightarrow> nat \<Rightarrow> nat \<Rightarrow> ustr \<Rightarrow> bytes option" where
  "a2b pos left pads [] = (if pos = 0 then Some [] else None)"
| "a2b pos left pads (c # cs) =
     (if c = PAD then (if 2 \<le> pos \<and> 4 \<le> pos + pads + 1 then Some []
                       else a2b pos left (if 2 \<le> pos then pads + 1 else pads) cs)
      else case b64_index c of
             None \<Rightarrow> a2b pos left pads cs
           | Some k \<Rightarrow>
               (if pos = 0 then a2b 1 k 0 cs
                else if pos = 1 then map_option ((#) (of_nat (left * 4 + k div 16))) (a2b 2 (k mod 16) 0 cs)
                else if pos = 2 then map_option ((#) (of_nat (left * 16 + k div 4))) (a2b 3 (k mod 4) 0 cs)
                else map_option ((#) (of_nat (left * 64 + k))) (a2b 0 0 0 cs)))"

definition to_url_safe :: "nat \<Rightarrow> nat" where
  "to_url_safe c = (if c = 43 then 45 else if c = 47 then 95 else c)"

definition from_url_safe :: "nat \<Rightarrow> nat" where
  "from_url_safe c = (if c = 45 then 43 else if c = 95 then 47 else c)"

definition urlsafe_b64encode :: "bytes \<Rightarrow> ustr" where
  "urlsafe_b64encode bs = map to_url_safe (b64encode bs)"

definition urlsafe_b64decode :: "ustr \<Rightarrow> bytes option" where
  "urlsafe_b64decode t = a2b 0 0 0 (map from_url_safe t)"

lemma a2b_encode: "a2b 0 left pads (b64encode bs) = Some bs"
  by (induction bs arbitrary: left pads rule: b64encode.induct)
     (simp_all add: b64_index_char b64_char_not_pad byte_small byte_sextets PAD_def [symmetric] del: of_nat_add of_nat_mult)

lemma b64_char_plain: "n < 64 \<Longrightarrow> from_url_safe (to_url_safe (b64_char n)) = b64_char n"
  by (auto simp: b64_char_def to_url_safe_def from_url_safe_def)

lemma b64_encode_plain: "map (from_url_safe \<circ> to_url_safe) (b64encode bs) = b64encode bs"
  by (induction bs rule: b64encode.induct)
     (simp_all add: b64_char_plain byte_small byte_sextets, simp_all add: PAD_def to_url_safe_def from_url_safe_def)

lemma urlsafe_roundtrip: "urlsafe_b64decode (urlsafe_b64encode bs) = Some bs"
  by (simp add: urlsafe_b64decode_def urlsafe_b64encode_def b64_encode_plain a2b_encode)

lemma b64_char_ascii: "n < 64 \<Longrightarrow> to_url_safe (b64_char n) < 128"
  by (auto simp: b64_char_def to_url_safe_def)

lemma urlsafe_ascii: "ascii (urlsafe_b64encode bs)"
  unfolding ascii_def urlsafe_b64encode_def
  by (induction bs rule: b64encode.induct)
     (simp_all add: b64_char_ascii byte_small byte_sextets, simp_all add: PAD_def to_url_safe_def)

section \<open>The local secret provider\<close>

text \<open>
  \<^verbatim>\<open>b ^ key[i % len(key)]\<close> from position \<open>i\<close> on; the errors of the codecs are \<open>ValueError\<close>s.
\<close>

fun xor_stream :: "bytes \<Rightarrow> nat \<Rightarrow> bytes \<Rightarrow> bytes" where
  "xor_stream key i [] = []"
| "xor_stream key i (b # bs) = xor b (key ! (i mod length key)) # xor_stream key (Suc i) bs"

definition encode_error :: exn where
  "encode_error = lib_exn [''UnicodeEncodeError'', ''UnicodeError'', ''ValueError'']"

definition decode_error :: exn where
  "decode_error = lib_exn [''UnicodeDecodeError'', ''UnicodeError'', ''ValueError'']"

definition binascii_error :: exn where
  "binascii_error = lib_exn [''Error'', ''ValueError'']"

definition encoded :: "ustr \<Rightarrow> exn + bytes" where
  "encoded t = (case utf8 t of Inl e \<Rightarrow> Inl encode_error | Inr bs \<Rightarrow> Inr (map of_nat bs))"

definition local_key :: "(bytes \<Rightarrow> bytes) \<Rightarrow> app_settings \<Rightarrow> exn + bytes" where
  "local_key sha256 s = bind_sum (encryption_secret_key s) (\<lambda>k. bind_sum (encoded k) (\<lambda>b. Inr (sha256 b)))"

definition local_encrypt :: "(bytes \<Rightarrow> bytes) \<Rightarrow> app_settings \<Rightarrow> ustr \<Rightarrow> exn + ustr" where
  "local_encrypt sha256 s plaintext =
     bind_sum (encoded plaintext) (\<lambda>data.
     bind_sum (local_key sha256 s) (\<lambda>key.
       Inr (urlsafe_b64encode (xor_stream key 0 data))))"

definition local_decrypt :: "(bytes \<Rightarrow> bytes) \<Rightarrow> app_settings \<Rightarrow> ustr \<Rightarrow> exn + ustr" where
  "local_decrypt sha256 s ciphertext =
     bind_sum (if ascii ciphertext then Inr ciphertext else Inl encode_error) (\<lambda>t.
     bind_sum (case urlsafe_b64decode t of None \<Rightarrow> Inl binascii_error | Some d \<Rightarrow> Inr d) (\<lambda>data.
     bind_sum (local_key sha256 s) (\<lambda>key.
       case utf8_decode (map unat (xor_stream key 0 data)) of None \<Rightarrow> Inl decode_error | Some p \<Rightarrow> Inr p)))"

lemma xor_stream_twice: "xor_stream key i (xor_stream key i bs) = bs"
  by (induction bs arbitrary: i) (simp_all add: xor.assoc)

lemma length_xor_stream [simp]: "length (xor_stream key i bs) = length bs"
  by (induction bs arbitrary: i) simp_all

lemma utf8_bytes: "utf8 s = Inr bs \<Longrightarrow> \<forall>c\<in>set s. c \<le> 1114111 \<Longrightarrow> \<forall>b\<in>set bs. b < 256"
proof (induction s arbitrary: bs)
  case (Cons c s)
  then obtain x r where x: "utf8_c c = Some x" "utf8 s = Inr r" "bs = x @ r"
    by (auto simp: bind_sum_Inr_iff split: option.splits)
  have d: "c div 262144 < 16" "c div 4096 mod 64 < 64" "c div 64 mod 64 < 64" "c mod 64 < 64"
      "c < 2048 \<Longrightarrow> c div 64 < 32" "c < 65536 \<Longrightarrow> c div 4096 < 16"
    using Cons.prems(2) by (simp_all add: less_mult_imp_div_less)
  have "\<forall>b\<in>set x. b < 256" using x(1) d by (auto simp: utf8_c_def split: if_splits)
  with x Cons.IH [OF x(2)] Cons.prems(2) show ?case by auto
qed simp

lemma unat_bytes: "\<forall>b\<in>set bs. b < 256 \<Longrightarrow> map (\<lambda>b. unat (of_nat b :: 8 word)) bs = bs"
  by (rule map_idI) (simp add: unat_of_nat take_bit_eq_mod)

text \<open>What was encrypted comes back, whatever the key.\<close>

lemma decrypt_encrypt:
  assumes "local_encrypt sha256 s t = Inr c" "\<forall>x\<in>set t. x \<le> 1114111"
  shows "local_decrypt sha256 s c = Inr t"
proof -
  obtain bs key where b: "utf8 t = Inr bs" "local_key sha256 s = Inr key"
      "c = urlsafe_b64encode (xor_stream key 0 (map of_nat bs))"
    using assms(1) by (auto simp: local_encrypt_def encoded_def bind_sum_Inr_iff split: sum.splits)
  have "map unat (map of_nat bs :: bytes) = bs"
    using unat_bytes [OF utf8_bytes [OF b(1) assms(2)]] by (simp add: comp_def)
  with b utf8_decode_encode [OF b(1) assms(2)] show ?thesis
    by (simp add: local_decrypt_def urlsafe_ascii urlsafe_roundtrip xor_stream_twice del: map_map)
qed

text \<open>
  The key stream starts anew for every text: whoever knows one text with its ciphertext reads every other that is not longer.
\<close>

lemma xor_stream_nth: "j < length bs \<Longrightarrow> xor_stream key i bs ! j = xor (bs ! j) (key ! ((i + j) mod length key))"
proof (induction bs arbitrary: i j)
  case (Cons b bs)
  then show ?case by (cases j) simp_all
qed simp

lemma keystream_known:
  assumes "length b \<le> length a"
  shows "map2 xor (map2 xor (xor_stream key 0 b) (take (length b) (xor_stream key 0 a))) (take (length b) a) = b"
proof -
  have "xor x (xor y x) = y" for x y :: "8 word" by (simp add: xor.left_commute [of x y x])
  with assms show ?thesis by (intro nth_equalityI) (simp_all add: xor_stream_nth xor.left_commute xor.assoc)
qed

section \<open>Compliance frameworks\<close>

datatype compliance_framework = GDPR | HIPAA | PCI_DSS | SOC2 | ISO27001

fun framework_value :: "compliance_framework \<Rightarrow> ustr" where
  "framework_value GDPR = u ''gdpr''"
| "framework_value HIPAA = u ''hipaa''"
| "framework_value PCI_DSS = u ''pci_dss''"
| "framework_value SOC2 = u ''soc2''"
| "framework_value ISO27001 = u ''iso27001''"

definition SUPPORTED :: "ustr set" where
  "SUPPORTED = framework_value ` {GDPR, HIPAA, PCI_DSS, SOC2, ISO27001}"

definition validate_frameworks :: "ustr list \<Rightarrow> ustr list" where
  "validate_frameworks frameworks = map (\<lambda>f. u ''unsupported_framework:'' @ f) (filter (\<lambda>f. f \<notin> SUPPORTED) frameworks)"

definition default_settings :: "ustr list \<Rightarrow> (ustr \<times> json) list" where
  "default_settings frameworks =
     (let s0 = [(u ''right_to_delete_enabled'', JBool True)];
          s1 = (if framework_value GDPR \<in> set frameworks
                then dict_set (u ''consent_management'') (JObj [(u ''required'', JBool True), (u ''granular'', JBool True)]) s0
                else s0);
          s2 = (if framework_value HIPAA \<in> set frameworks
                then dict_set (u ''encryption_required'') (JBool True)
                      (dict_set (u ''data_residency'')
                        (case map_of s1 (u ''data_residency'') of Some v \<Rightarrow> v | None \<Rightarrow> JStr (u ''us'')) s1)
                else s1)
      in if framework_value PCI_DSS \<in> set frameworks then dict_set (u ''mfa_required'') (JBool True) s2 else s2)"

lemma frameworks_valid: "validate_frameworks fs = [] \<longleftrightarrow> set fs \<subseteq> SUPPORTED"
  by (auto simp: validate_frameworks_def filter_empty_conv)

end
