(* ===== verification/TwilioInbound.thy ===== *)
theory TwilioInbound
  imports TwilioHandler Secrets
begin

text \<open>
  The webhook of \<^verbatim>\<open>app/telephony/twilio_handler.py\<close> as a whole: the address that the signature covers
  (\<^verbatim>\<open>twilio_validation.py\<close>), the check of the request, and the TwiML answer that sends the caller's audio to the stream
  socket. The lemmas follow a call from the webhook's answer to the socket's admission: the parameters that the socket
  reads from the address in the answer are the ones it accepts.
\<close>

section \<open>The signed address\<close>

definition lstrip_slash :: "ustr \<Rightarrow> ustr" where
  "lstrip_slash t = dropWhile (\<lambda>c. c = 47) t"

text \<open>
  \<open>path\<close> and \<open>full\<close> are the request's. Joining to a base that ends with a slash appends the path, which is the fixed
  path of the route.
\<close>

definition build_validation_url :: "ustr option \<Rightarrow> ustr \<Rightarrow> ustr \<Rightarrow> ustr" where
  "build_validation_url public_base path full =
     (let base = rstrip_slash (strip (or_str public_base []))
      in if base = [] then full
         else let b = (if startswith base (u ''http'') then base else u ''https://'' @ base)
              in b @ u ''/'' @ lstrip_slash path)"

section \<open>The answer\<close>

text \<open>An attribute's text in XML.\<close>

definition escape_char :: "nat \<Rightarrow> ustr" where
  "escape_char c =
     (if c = 38 then u ''&amp;'' else if c = 60 then u ''&lt;'' else if c = 62 then u ''&gt;'' else if c = 34 then u ''&quot;''
      else if c = 13 then u ''&#13;'' else if c = 10 then u ''&#10;'' else if c = 9 then u ''&#09;'' else [c])"

definition escape_attrib :: "ustr \<Rightarrow> ustr" where
  "escape_attrib t = concat (map escape_char t)"

definition twiml_lines :: "ustr \<Rightarrow> ustr list" where
  "twiml_lines url =
     [u (''<?xml version='' @ [CHR 34] @ ''1.0'' @ [CHR 34] @ '' encoding='' @ [CHR 34] @ ''UTF-8'' @ [CHR 34] @ ''?>''),
      u ''<Response>'', u ''  <Connect>'',
      u (''    <Stream url='' @ [CHR 34]) @ escape_attrib url @ u ([CHR 34] @ '' />''),
      u ''  </Connect>'', u ''</Response>'']"

definition twiml_connect_stream ::
  "keyed_hash \<Rightarrow> stream_settings \<Rightarrow> pyfloat \<Rightarrow> ustr \<Rightarrow> ustr option \<Rightarrow> py_exn + ustr" where
  "twiml_connect_stream mac st now url call_sid =
     bind_sum (twiml_stream_url mac st now url call_sid) (\<lambda>signed. Inr (join [10] (twiml_lines signed)))"

section \<open>The webhook\<close>

record inbound_request =
  ir_public_base :: "ustr option"
  ir_path :: ustr
  ir_full_url :: ustr
  ir_netloc :: ustr
  ir_host :: "ustr option"
  ir_signature :: "ustr option"
  ir_form :: "(ustr \<times> ustr) list"

definition twilio_inbound ::
  "keyed_hash \<Rightarrow> (nat list \<Rightarrow> nat list \<Rightarrow> bytes) \<Rightarrow> stream_settings \<Rightarrow> pyfloat \<Rightarrow> inbound_request \<Rightarrow> auth_exn + ustr" where
  "twilio_inbound mac sha1 st now rq =
     bind_sum (require_twilio_signature sha1 st (build_validation_url (ir_public_base rq) (ir_path rq) (ir_full_url rq))
                 (ir_signature rq) (ir_form rq)) (\<lambda>form.
       let stream_url = build_stream_url (ir_public_base rq) (ir_netloc rq) (ir_host rq)
       in map_sum AuthRaise id (twiml_connect_stream mac st now stream_url (form (u ''CallSid''))))"

section \<open>The query of an address\<close>

text \<open>How the socket's framework reads a query: the reference that the signed address is measured by.\<close>

fun unquote_plus :: "ustr \<Rightarrow> nat list" where
  "unquote_plus [] = []"
| "unquote_plus (c # cs) =
     (if c = 43 then 32 # unquote_plus cs
      else if c = 37 then
        (case cs of
           h # l # r \<Rightarrow>
             (if h < 128 \<and> l < 128
              then ((if h < 58 then h - 48 else h - 55) * 16 + (if l < 58 then l - 48 else l - 55)) # unquote_plus r
              else c # unquote_plus cs)
         | _ \<Rightarrow> c # unquote_plus cs)
      else c # unquote_plus cs)"

definition query_items :: "ustr \<Rightarrow> (ustr \<times> ustr) list" where
  "query_items url =
     map (\<lambda>p. (takeWhile (\<lambda>c. c \<noteq> 61) p, tl (dropWhile (\<lambda>c. c \<noteq> 61) p)))
       (split_text 38 (tl (dropWhile (\<lambda>c. c \<noteq> 63) url)))"

definition query_param :: "string \<Rightarrow> ustr \<Rightarrow> ustr option" where
  "query_param name url = Option.bind (map_of (rev (query_items url)) (u name)) (\<lambda>v. utf8_decode (unquote_plus v))"

section \<open>Lemmas: quoting\<close>

lemma hex_digit_back: "n < 16 \<Longrightarrow> (if hex_digit n < 58 then hex_digit n - 48 else hex_digit n - 55) = n \<and> hex_digit n < 128"
  by (simp add: hex_digit_def)

lemma url_safe_code: "url_safe b \<Longrightarrow> b \<noteq> 43 \<and> b \<noteq> 37"
  by (auto simp: url_safe_def)

lemma unquote_byte:
  assumes "b < 256"
  shows "unquote_plus (quote_byte b @ r) = b # unquote_plus r"
proof -
  have "b div 16 < 16" "b mod 16 < 16" using assms by auto
  then show ?thesis
    using url_safe_code [of b] hex_digit_back [of "b div 16"] hex_digit_back [of "b mod 16"]
    by (simp add: quote_byte_def)
qed

lemma unquote_quote: "\<forall>b\<in>set bs. b < 256 \<Longrightarrow> unquote_plus (concat (map quote_byte bs)) = bs"
  by (induction bs) (simp_all add: unquote_byte)

lemma utf8_octets:
  "utf8 s = Inr bs \<Longrightarrow> \<forall>c\<in>set s. c \<le> 1114111 \<Longrightarrow> \<forall>b\<in>set bs. b < 256"
proof (induction s arbitrary: bs)
  case (Cons c s)
  then obtain x r where x: "utf8_c c = Some x" "utf8 s = Inr r" "bs = x @ r"
    by (auto simp: bind_sum_Inr_iff split: option.splits)
  have "c div 262144 < 16" "c div 4096 mod 64 < 64" "c div 64 mod 64 < 64" "c mod 64 < 64" "c < 65536 \<Longrightarrow> c div 4096 < 16"
      "c < 2048 \<Longrightarrow> c div 64 < 32"
    using Cons.prems(2) by auto
  then have "\<forall>b\<in>set x. b < 256" using x(1) by (auto simp: utf8_c_def split: if_splits)
  with Cons.IH [OF x(2)] Cons.prems(2) x(3) show ?case by auto
qed simp

lemma unquote_quoted:
  assumes "quote_plus s = Inr q" "\<forall>c\<in>set s. c \<le> 1114111"
  shows "utf8_decode (unquote_plus q) = Some s"
proof -
  obtain bs where bs: "utf8 s = Inr bs" "q = concat (map quote_byte bs)"
    using assms(1) by (auto simp: quote_plus_def bind_sum_Inr_iff)
  then show ?thesis using unquote_quote [OF utf8_octets [OF bs(1) assms(2)]] utf8_decode_encode [OF bs(1) assms(2)] by simp
qed

lemma take_drop_at:
  assumes "c \<notin> set a"
  shows "takeWhile (\<lambda>x. x \<noteq> c) (a @ c # b) = a" "dropWhile (\<lambda>x. x \<noteq> c) (a @ c # b) = c # b"
  using assms by (induction a) auto

text \<open>What the socket reads from a signed address is what was signed.\<close>

lemma signed_url_params:
  assumes "build_signed_stream_url mac st now base call_sid = Inr url" "63 \<notin> set base"
    and "sign_stream_token mac st now call_sid None = Inr token"
    and "\<forall>c\<in>set token. c \<le> 1114111" "\<forall>c\<in>set call_sid. c \<le> 1114111"
  shows "query_param ''token'' url = Some token" "query_param ''call_sid'' url = Some call_sid"
proof -
  obtain qt qc where q: "quote_plus token = Inr qt" "quote_plus call_sid = Inr qc"
      and url: "url = base @ 63 # (u ''token='' @ qt) @ 38 # (u ''call_sid='' @ qc)"
    using assms(1-3) by (auto simp: build_signed_stream_url_def bind_sum_Inr_iff u_def)
  have plain: "38 \<notin> set qt" "38 \<notin> set qc"
    using quote_plus_plain [OF q(1), of 38] quote_plus_plain [OF q(2), of 38] by auto
  have n: "38 \<notin> set (u ''token='' @ qt)" "38 \<notin> set (u ''call_sid='' @ qc)" using plain by (auto simp: u_def)
  have "tl (dropWhile (\<lambda>c. c \<noteq> 63) url) = (u ''token='' @ qt) @ 38 # (u ''call_sid='' @ qc)"
    unfolding url using take_drop_at(2) [OF assms(2)] by simp
  then have "split_text 38 (tl (dropWhile (\<lambda>c. c \<noteq> 63) url)) = [u ''token='' @ qt, u ''call_sid='' @ qc]"
    using split_text_cons [OF n(1)] split_text_one [OF n(2)] by simp
  then have "query_items url = [(u ''token'', qt), (u ''call_sid'', qc)]"
    by (simp add: query_items_def u_def)
  then show "query_param ''token'' url = Some token" "query_param ''call_sid'' url = Some call_sid"
    using unquote_quoted [OF q(1) assms(4)] unquote_quoted [OF q(2) assms(5)]
    by (simp_all add: query_param_def u_def)
qed

section \<open>Lemmas: from the webhook to the stream\<close>

lemma ascii_points: "ascii t \<Longrightarrow> \<forall>c\<in>set t. c \<le> 1114111"
  by (auto simp: ascii_def list_all_iff)

lemma signed_token_points:
  assumes "sign_stream_token mac st now call_sid None = Inr token" "\<And>k d. ascii (mac k d)"
  shows "\<forall>c\<in>set token. c \<le> 1114111"
proof -
  obtain ts k d where "token = str_int ts @ [46] @ mac k d"
    using assms(1) by (auto simp: sign_stream_token_def bind_sum_Inr_iff Let_def split: if_splits)
  then show ?thesis using ascii_points [OF ascii_str_int [of ts]] ascii_points [OF assms(2) [of k d]] by auto
qed

lemma sign_now:
  "0 \<le> now \<Longrightarrow> sign_stream_token mac st now call_sid None = sign_stream_token mac st now call_sid (Some \<lfloor>now\<rfloor>)"
  unfolding sign_stream_token_def option.case by simp

lemma inbound_admitted:
  assumes inb: "twilio_inbound mac sha1 st now rq = Inr xml"
    and call: "map_of (rev (ir_form rq)) (u ''CallSid'') = Some sid" "sid \<noteq> []" "\<forall>c\<in>set sid. c \<le> 1114111"
    and base: "63 \<notin> set (build_stream_url (ir_public_base rq) (ir_netloc rq) (ir_host rq))"
    and clock: "0 \<le> now" "length (str_int \<lfloor>now\<rfloor>) \<le> MAX_STR_DIGITS"
    and mac: "\<And>k d. ascii (mac k d)"
  shows "\<exists>url. xml = join [10] (twiml_lines url) \<and> query_param ''call_sid'' url = Some sid
    \<and> (\<forall>later. later - of_int \<lfloor>now\<rfloor> \<le> of_int (TWILIO_STREAM_TOKEN_TTL_SECONDS st)
        \<longrightarrow> stream_admits mac st later (query_param ''call_sid'' url) (query_param ''token'' url))"
proof -
  have form: "require_twilio_signature sha1 st url sig items = Inr f \<Longrightarrow> f = map_of (rev items)" for url sig items f
    by (auto simp: require_twilio_signature_def Let_def split: if_splits sum.splits)
  define base_url where "base_url = build_stream_url (ir_public_base rq) (ir_netloc rq) (ir_host rq)"
  have "twiml_connect_stream mac st now base_url (Some sid) = Inr xml"
  proof -
    obtain f where f: "f = map_of (rev (ir_form rq))"
        "map_sum AuthRaise id (twiml_connect_stream mac st now base_url (f (u ''CallSid''))) = Inr xml"
      using inb form by (auto simp: twilio_inbound_def Let_def bind_sum_Inr_iff base_url_def)
    then show ?thesis using call(1)
      by (cases "twiml_connect_stream mac st now base_url (f (u ''CallSid''))") auto
  qed
  then obtain url where url: "build_signed_stream_url mac st now base_url sid = Inr url" "xml = join [10] (twiml_lines url)"
    using call(2) by (auto simp: twiml_connect_stream_def twiml_stream_url_def or_str_def bind_sum_Inr_iff)
  obtain token where tok: "sign_stream_token mac st now sid None = Inr token"
    using url(1) by (auto simp: build_signed_stream_url_def bind_sum_Inr_iff)
  have p: "query_param ''token'' url = Some token" "query_param ''call_sid'' url = Some sid"
    using signed_url_params [OF url(1) base [folded base_url_def] tok signed_token_points [OF tok mac] call(3)] by auto
  have ts: "sign_stream_token mac st now sid (Some \<lfloor>now\<rfloor>) = Inr token" using tok sign_now [OF clock(1)] by simp
  have "token \<noteq> []" using ts by (auto simp: sign_stream_token_Inr)
  then have "stream_admits mac st later (Some sid) (Some token)"
    if "later - of_int \<lfloor>now\<rfloor> \<le> of_int (TWILIO_STREAM_TOKEN_TTL_SECONDS st)" for later
    using verify_signed [OF ts clock(2) mac, of later] that call(2) by (auto simp: stream_admits_def or_str_def)
  with url(2) p show ?thesis by auto
qed

text \<open>
  A public base address written as \<^verbatim>\<open>wss://\<close>, which the stream address accepts, is put behind \<^verbatim>\<open>https://\<close> for the signature:
  no request can be signed for that address.
\<close>

lemma wss_base_signed:
  assumes "strip (or_str public_base []) = u ''wss://'' @ host" "host \<noteq> []" "last host \<noteq> 47"
  shows "build_validation_url public_base path full = u ''https://wss://'' @ host @ u ''/'' @ lstrip_slash path"
    and "build_stream_url public_base netloc h = u ''wss://'' @ host @ u ''/twilio/stream''"
proof -
  have r: "rstrip_slash (u ''wss://'' @ host) = u ''wss://'' @ host"
  proof -
    obtain xs x where x: "host = xs @ [x]" "x \<noteq> 47" using assms(2,3) by (cases host rule: rev_cases) auto
    then show ?thesis by (simp add: rstrip_slash_def)
  qed
  show "build_validation_url public_base path full = u ''https://wss://'' @ host @ u ''/'' @ lstrip_slash path"
    using assms(1) r by (simp add: build_validation_url_def Let_def startswith_def u_def)
  show "build_stream_url public_base netloc h = u ''wss://'' @ host @ u ''/twilio/stream''"
    using assms(1) r by (simp add: build_stream_url_def Let_def wss_base_def startswith_def u_def)
qed

text \<open>With no auth token the webhook refuses outside development; the stream socket admits everyone.\<close>

lemma unconfigured_stream_open:
  assumes "strip (or_str (TWILIO_AUTH_TOKEN st) []) = []" "production_or_staging st"
  shows "twilio_inbound mac sha1 st now rq = Inl (HTTPException 503)"
    and "require_twilio_stream_auth mac st now c t = Inl (HTTPException 503)"
    and "stream_admits mac st now c t"
  using assms by (simp_all add: twilio_inbound_def require_twilio_signature_def require_twilio_stream_auth_def stream_admits_def Let_def)

text \<open>Nothing that an attribute holds ends it early.\<close>

lemma escape_char_closed: "\<forall>c\<in>set (escape_char x). c \<noteq> 34 \<and> c \<noteq> 60 \<and> c \<noteq> 10"
  by (simp add: escape_char_def u_def)

lemma escape_closed: "c \<in> set (escape_attrib t) \<Longrightarrow> c \<noteq> 34 \<and> c \<noteq> 60 \<and> c \<noteq> 10"
  using escape_char_closed by (fastforce simp: escape_attrib_def)

end
