(* ===== verification/Rbac.thy ===== *)
theory Rbac
  imports PyText
begin

text \<open>
  \<^verbatim>\<open>app/iam/permissions/catalog.py\<close> and \<^verbatim>\<open>app/iam/authorization/rbac_engine.py\<close>: the permission
  catalog, the system roles with their inheritance, and the engine that resolves the permissions of a
  role. A \<^verbatim>\<open>StrEnum\<close> member is its value, so the dicts keyed by members are looked up with slugs. The
  reference is \<open>role_grants\<close>, inheritance followed through any number of levels.
\<close>

section \<open>Roles and permissions\<close>

datatype system_role = OWNER | ADMINISTRATOR | SUPERVISOR | MANAGER | AGENT | DEVELOPER | BILLING
  | SECURITY_AUDITOR | VIEWER

fun role_value :: "system_role \<Rightarrow> ustr" where
  "role_value OWNER = u ''owner''"
| "role_value ADMINISTRATOR = u ''administrator''"
| "role_value SUPERVISOR = u ''supervisor''"
| "role_value MANAGER = u ''manager''"
| "role_value AGENT = u ''agent''"
| "role_value DEVELOPER = u ''developer''"
| "role_value BILLING = u ''billing''"
| "role_value SECURITY_AUDITOR = u ''security_auditor''"
| "role_value VIEWER = u ''viewer''"

datatype iam_permission = VIEW_CALLS | DELETE_CALLS | MANAGE_AGENTS | MANAGE_KNOWLEDGE | MANAGE_BILLING
  | VIEW_AUDIT_LOGS | EXECUTE_TOOLS | APPROVE_WORKFLOWS | MANAGE_USERS | MANAGE_API_KEYS | MANAGE_ROLES
  | MANAGE_SECURITY | MANAGE_ORGANIZATION | VIEW_ANALYTICS | MANAGE_INTEGRATIONS | VIEW_INTEGRATIONS

fun perm_value :: "iam_permission \<Rightarrow> ustr" where
  "perm_value VIEW_CALLS = u ''view_calls''"
| "perm_value DELETE_CALLS = u ''delete_calls''"
| "perm_value MANAGE_AGENTS = u ''manage_agents''"
| "perm_value MANAGE_KNOWLEDGE = u ''manage_knowledge''"
| "perm_value MANAGE_BILLING = u ''manage_billing''"
| "perm_value VIEW_AUDIT_LOGS = u ''view_audit_logs''"
| "perm_value EXECUTE_TOOLS = u ''execute_tools''"
| "perm_value APPROVE_WORKFLOWS = u ''approve_workflows''"
| "perm_value MANAGE_USERS = u ''manage_users''"
| "perm_value MANAGE_API_KEYS = u ''manage_api_keys''"
| "perm_value MANAGE_ROLES = u ''manage_roles''"
| "perm_value MANAGE_SECURITY = u ''manage_security''"
| "perm_value MANAGE_ORGANIZATION = u ''manage_organization''"
| "perm_value VIEW_ANALYTICS = u ''view_analytics''"
| "perm_value MANAGE_INTEGRATIONS = u ''manage_integrations''"
| "perm_value VIEW_INTEGRATIONS = u ''view_integrations''"

section \<open>Catalog\<close>

text \<open>Permission, name and category, in the order of the dict.\<close>

definition PERMISSION_CATALOG :: "(iam_permission \<times> string \<times> string) list" where
  "PERMISSION_CATALOG =
     [(VIEW_CALLS, ''View Calls'', ''calls''),
      (DELETE_CALLS, ''Delete Calls'', ''calls''),
      (MANAGE_AGENTS, ''Manage Agents'', ''agents''),
      (MANAGE_KNOWLEDGE, ''Manage Knowledge'', ''knowledge''),
      (MANAGE_BILLING, ''Manage Billing'', ''billing''),
      (VIEW_AUDIT_LOGS, ''View Audit Logs'', ''audit''),
      (EXECUTE_TOOLS, ''Execute Tools'', ''tools''),
      (APPROVE_WORKFLOWS, ''Approve Workflows'', ''workflows''),
      (MANAGE_USERS, ''Manage Users'', ''users''),
      (MANAGE_API_KEYS, ''Manage API Keys'', ''security''),
      (MANAGE_ROLES, ''Manage Roles'', ''security''),
      (MANAGE_SECURITY, ''Manage Security'', ''security''),
      (MANAGE_ORGANIZATION, ''Manage Organization'', ''organization''),
      (VIEW_ANALYTICS, ''View Analytics'', ''analytics'')]"

definition ALL_PERMISSIONS :: "iam_permission list" where
  "ALL_PERMISSIONS = map fst PERMISSION_CATALOG"

fun SYSTEM_ROLE_INHERITANCE :: "system_role \<Rightarrow> system_role list" where
  "SYSTEM_ROLE_INHERITANCE OWNER = []"
| "SYSTEM_ROLE_INHERITANCE ADMINISTRATOR = [OWNER]"
| "SYSTEM_ROLE_INHERITANCE SUPERVISOR = [MANAGER]"
| "SYSTEM_ROLE_INHERITANCE MANAGER = [AGENT]"
| "SYSTEM_ROLE_INHERITANCE AGENT = [VIEWER]"
| "SYSTEM_ROLE_INHERITANCE DEVELOPER = [VIEWER]"
| "SYSTEM_ROLE_INHERITANCE BILLING = [VIEWER]"
| "SYSTEM_ROLE_INHERITANCE SECURITY_AUDITOR = [VIEWER]"
| "SYSTEM_ROLE_INHERITANCE VIEWER = []"

fun SYSTEM_ROLE_PERMISSIONS :: "system_role \<Rightarrow> iam_permission list" where
  "SYSTEM_ROLE_PERMISSIONS OWNER = ALL_PERMISSIONS"
| "SYSTEM_ROLE_PERMISSIONS ADMINISTRATOR = filter (\<lambda>p. p \<noteq> MANAGE_ORGANIZATION) ALL_PERMISSIONS"
| "SYSTEM_ROLE_PERMISSIONS SUPERVISOR =
     [VIEW_CALLS, MANAGE_AGENTS, EXECUTE_TOOLS, APPROVE_WORKFLOWS, VIEW_AUDIT_LOGS, VIEW_ANALYTICS,
      MANAGE_KNOWLEDGE]"
| "SYSTEM_ROLE_PERMISSIONS MANAGER =
     [VIEW_CALLS, APPROVE_WORKFLOWS, EXECUTE_TOOLS, VIEW_ANALYTICS, MANAGE_KNOWLEDGE]"
| "SYSTEM_ROLE_PERMISSIONS AGENT = [VIEW_CALLS, EXECUTE_TOOLS, MANAGE_KNOWLEDGE]"
| "SYSTEM_ROLE_PERMISSIONS DEVELOPER = [MANAGE_AGENTS, MANAGE_API_KEYS, EXECUTE_TOOLS, VIEW_AUDIT_LOGS]"
| "SYSTEM_ROLE_PERMISSIONS BILLING = [MANAGE_BILLING, VIEW_ANALYTICS]"
| "SYSTEM_ROLE_PERMISSIONS SECURITY_AUDITOR = [VIEW_AUDIT_LOGS, MANAGE_SECURITY, VIEW_CALLS]"
| "SYSTEM_ROLE_PERMISSIONS VIEWER = [VIEW_CALLS, VIEW_ANALYTICS]"

section \<open>Engine\<close>

text \<open>The member a slug is equal to, if there is one: \<^verbatim>\<open>dict.get\<close> on a dict keyed by members.\<close>

definition ALL_ROLES :: "system_role list" where
  "ALL_ROLES = [OWNER, ADMINISTRATOR, SUPERVISOR, MANAGER, AGENT, DEVELOPER, BILLING, SECURITY_AUDITOR, VIEWER]"

definition role_of :: "ustr \<Rightarrow> system_role option" where
  "role_of slug = find (\<lambda>r. role_value r = slug) ALL_ROLES"

definition system_permissions :: "ustr \<Rightarrow> ustr set" where
  "system_permissions slug =
     (case role_of slug of
        None \<Rightarrow> {}
      | Some r \<Rightarrow> set (map perm_value (SYSTEM_ROLE_PERMISSIONS r)))"

definition parent_slugs :: "ustr \<Rightarrow> ustr list" where
  "parent_slugs slug =
     (case role_of slug of None \<Rightarrow> [] | Some r \<Rightarrow> map role_value (SYSTEM_ROLE_INHERITANCE r))"

definition resolve_permissions :: "ustr \<Rightarrow> ustr list option \<Rightarrow> ustr list option \<Rightarrow> ustr set" where
  "resolve_permissions slug custom inherits_from =
     (let perms = set (case custom of None \<Rightarrow> [] | Some c \<Rightarrow> c) \<union> system_permissions slug;
          parents = (case inherits_from of None \<Rightarrow> [] | Some ps \<Rightarrow> ps)
      in fold (\<lambda>parent perms. perms \<union> system_permissions parent)
              (if parents = [] then parent_slugs slug else parents) perms)"

definition engine_has_permission :: "ustr \<Rightarrow> ustr \<Rightarrow> ustr list option \<Rightarrow> ustr list option \<Rightarrow> bool" where
  "engine_has_permission slug permission custom extra =
     (let effective = resolve_permissions slug custom None
      in permission \<in> effective \<union> set (case extra of None \<Rightarrow> [] | Some e \<Rightarrow> e))"

section \<open>Inheritance\<close>

inductive role_grants :: "ustr \<Rightarrow> ustr \<Rightarrow> bool" where
  own: "p \<in> system_permissions slug \<Longrightarrow> role_grants slug p"
| inherited: "parent \<in> set (parent_slugs slug) \<Longrightarrow> role_grants parent p \<Longrightarrow> role_grants slug p"

lemma role_value_inj [simp]: "role_value r = role_value r' \<longleftrightarrow> r = r'"
  by (cases r; cases r') simp_all

lemma role_of_value [simp]: "role_of (role_value r) = Some r"
  by (cases r) (simp_all add: role_of_def ALL_ROLES_def)

lemma role_of_Some: "role_of slug = Some r \<longleftrightarrow> slug = role_value r"
proof
  assume "role_of slug = Some r"
  then show "slug = role_value r" by (auto simp: role_of_def find_Some_iff)
qed simp

declare role_value.simps [simp del]

lemma perm_value_inj [simp]: "perm_value p = perm_value q \<longleftrightarrow> p = q"
  by (cases p; cases q) simp_all

declare perm_value.simps [simp del]

lemma resolve_set:
  "resolve_permissions slug custom inherits_from =
     set (case custom of None \<Rightarrow> [] | Some c \<Rightarrow> c) \<union> system_permissions slug
     \<union> \<Union> (system_permissions ` set (case inherits_from of None \<Rightarrow> parent_slugs slug
           | Some ps \<Rightarrow> if ps = [] then parent_slugs slug else ps))"
proof -
  have "fold (\<lambda>parent perms. perms \<union> system_permissions parent) xs a
      = a \<union> \<Union> (system_permissions ` set xs)" for xs a
    by (induction xs arbitrary: a) auto
  then show ?thesis by (auto simp: resolve_permissions_def Let_def split: option.splits)
qed

text \<open>The two own levels of a role already hold what its ancestors hold.\<close>

lemma resolve_role:
  "p \<in> resolve_permissions (role_value r) None None
   \<longleftrightarrow> (\<exists>q\<in>set (SYSTEM_ROLE_PERMISSIONS r) \<union> \<Union> (set ` SYSTEM_ROLE_PERMISSIONS ` set (SYSTEM_ROLE_INHERITANCE r)).
         p = perm_value q)"
  by (auto simp: resolve_set system_permissions_def parent_slugs_def)

lemma parents_resolved:
  assumes "parent \<in> set (SYSTEM_ROLE_INHERITANCE r)" "p \<in> resolve_permissions (role_value parent) None None"
  shows "p \<in> resolve_permissions (role_value r) None None"
  using assms unfolding resolve_role by (cases r) (auto simp: ALL_PERMISSIONS_def PERMISSION_CATALOG_def)

lemma resolve_is_closure:
  "role_grants slug p \<longleftrightarrow> p \<in> resolve_permissions slug None None"
proof
  assume "role_grants slug p"
  then show "p \<in> resolve_permissions slug None None"
  proof induction
    case (own p slug)
    then show ?case by (simp add: resolve_set)
  next
    case (inherited parent slug p)
    then obtain r r' where "slug = role_value r" "parent = role_value r'" "r' \<in> set (SYSTEM_ROLE_INHERITANCE r)"
      unfolding parent_slugs_def by (cases "role_of slug") (auto simp: role_of_Some)
    with inherited.IH parents_resolved show ?case by blast
  qed
next
  assume "p \<in> resolve_permissions slug None None"
  then show "role_grants slug p" by (auto simp: resolve_set intro: role_grants.intros)
qed

text \<open>What a role ends up with.\<close>

lemma administrator_resolves:
  "resolve_permissions (role_value ADMINISTRATOR) None None = resolve_permissions (role_value OWNER) None None"
  by (auto simp: resolve_set system_permissions_def parent_slugs_def)

lemma owner_lacks_integrations:
  "perm_value q \<in> resolve_permissions (role_value OWNER) None None
     \<longleftrightarrow> q \<notin> {MANAGE_INTEGRATIONS, VIEW_INTEGRATIONS}"
  unfolding resolve_role by (cases q) (simp_all add: ALL_PERMISSIONS_def PERMISSION_CATALOG_def)

lemma unknown_role_nothing: "role_of slug = None \<Longrightarrow> resolve_permissions slug None None = {}"
  by (simp add: resolve_set system_permissions_def parent_slugs_def)

lemma resolve_in_catalog:
  "resolve_permissions slug None None \<subseteq> perm_value ` set ALL_PERMISSIONS"
proof (cases "role_of slug")
  case None
  then show ?thesis by (simp add: unknown_role_nothing)
next
  case (Some r)
  then have "slug = role_value r" by (simp add: role_of_Some)
  then show ?thesis
    by (cases r) (auto simp: resolve_role image_iff ALL_PERMISSIONS_def PERMISSION_CATALOG_def)
qed

end
