(* ===== verification/IamStore.thy ===== *)
theory IamStore
  imports Errors Rbac
begin

text \<open>
  \<^verbatim>\<open>app/database/models/iam.py\<close>, \<^verbatim>\<open>app/iam/schemas\<close> and
  \<^verbatim>\<open>app/infrastructure/repositories/iam/repositories.py\<close>: the tables of the identity service, the
  schemas its operations exchange, and every repository operation.

  A table is the list of its rows in the order of insertion; a query without an order returns the rows in that
  order. An insertion checks the primary key, the unique constraints and the foreign keys of the model and
  raises \<^verbatim>\<open>IntegrityError\<close>. \<^verbatim>\<open>scalar_one_or_none\<close> raises on two rows, \<^verbatim>\<open>scalar_one\<close> also on none. Identifiers are
  numbers (the value of the UUID), times are seconds; fresh identifiers and the time are arguments. Column
  lengths and the columns that the code neither reads nor writes are left out. Operations
  are state transformers that leave the state behind also when they raise.
\<close>

section \<open>Actions\<close>

type_synonym ('s, 'a) act = "'s \<Rightarrow> (exn + 'a) \<times> 's"

definition ret :: "'a \<Rightarrow> ('s, 'a) act" where
  "ret x = (\<lambda>s. (Inr x, s))"

definition raise :: "exn \<Rightarrow> ('s, 'a) act" where
  "raise e = (\<lambda>s. (Inl e, s))"

definition bnd :: "('s, 'a) act \<Rightarrow> ('a \<Rightarrow> ('s, 'b) act) \<Rightarrow> ('s, 'b) act" where
  "bnd m f = (\<lambda>s. case m s of (Inl e, s') \<Rightarrow> (Inl e, s') | (Inr x, s') \<Rightarrow> f x s')"

definition query :: "('s \<Rightarrow> exn + 'a) \<Rightarrow> ('s, 'a) act" where
  "query q = (\<lambda>s. (q s, s))"

definition change :: "('s \<Rightarrow> 's) \<Rightarrow> ('s, unit) act" where
  "change f = (\<lambda>s. (Inr (), f s))"

definition ensure :: "bool \<Rightarrow> exn \<Rightarrow> ('s, unit) act" where
  "ensure b e = (if b then ret () else raise e)"

definition need :: "'a option \<Rightarrow> exn \<Rightarrow> ('s, 'a) act" where
  "need x e = (case x of None \<Rightarrow> raise e | Some v \<Rightarrow> ret v)"

lemma act_simps [simp]:
  "ret x s = (Inr x, s)"
  "raise e s = (Inl e, s)"
  "query q s = (q s, s)"
  "change f s = (Inr (), f s)"
  "ensure True e s = (Inr (), s)"
  "ensure False e s = (Inl e, s)"
  "need None e s = (Inl e, s)"
  "need (Some v) e s = (Inr v, s)"
  by (simp_all add: ret_def raise_def query_def change_def ensure_def need_def)

lemma bnd_simps [simp]:
  "m s = (Inl e, s') \<Longrightarrow> bnd m f s = (Inl e, s')"
  "m s = (Inr x, s') \<Longrightarrow> bnd m f s = f x s'"
  by (simp_all add: bnd_def)

lemma bnd_Inr:
  "bnd m f s = (Inr y, s2) \<longleftrightarrow> (\<exists>x s1. m s = (Inr x, s1) \<and> f x s1 = (Inr y, s2))"
  by (auto simp: bnd_def split: prod.splits sum.splits)

lemma bnd_Inl:
  "bnd m f s = (Inl e, s2) \<longleftrightarrow> m s = (Inl e, s2) \<or> (\<exists>x s1. m s = (Inr x, s1) \<and> f x s1 = (Inl e, s2))"
  by (auto simp: bnd_def split: prod.splits sum.splits)

lemma ensure_Inr: "ensure b e s = (Inr x, s1) \<longleftrightarrow> b \<and> s1 = s"
  by (auto simp: ensure_def)

lemma need_Inr: "need v e s = (Inr x, s1) \<longleftrightarrow> v = Some x \<and> s1 = s"
  by (auto simp: need_def split: option.splits)

lemma query_Inr: "query q s = (Inr x, s1) \<longleftrightarrow> q s = Inr x \<and> s1 = s"
  by auto

lemmas act_iffs = bnd_Inr ensure_Inr need_Inr query_Inr

section \<open>Exceptions of the object mapper\<close>

definition integrity_error :: exn where
  "integrity_error = lib_exn [''IntegrityError'', ''DatabaseError'', ''DBAPIError'', ''StatementError'', ''SQLAlchemyError'']"

definition no_result_found :: exn where
  "no_result_found = lib_exn [''NoResultFound'', ''InvalidRequestError'', ''SQLAlchemyError'']"

definition multiple_results_found :: exn where
  "multiple_results_found = lib_exn [''MultipleResultsFound'', ''InvalidRequestError'', ''SQLAlchemyError'']"

definition attribute_error :: exn where
  "attribute_error = lib_exn [''AttributeError'']"

definition key_error :: exn where
  "key_error = lib_exn [''KeyError'', ''LookupError'']"

definition scalar_one_or_none :: "'r list \<Rightarrow> exn + 'r option" where
  "scalar_one_or_none rs = (case rs of [] \<Rightarrow> Inr None | [r] \<Rightarrow> Inr (Some r) | _ \<Rightarrow> Inl multiple_results_found)"

definition scalar_one :: "'r list \<Rightarrow> exn + 'r" where
  "scalar_one rs = (case rs of [] \<Rightarrow> Inl no_result_found | [r] \<Rightarrow> Inr r | _ \<Rightarrow> Inl multiple_results_found)"

text \<open>
  \<^verbatim>\<open>Schema(**given)\<close> on the names of the arguments: a required field that is not given is a validation error.
\<close>

definition schema_init :: "string list \<Rightarrow> string list \<Rightarrow> exn + unit" where
  "schema_init required given = (if list_all (\<lambda>f. f \<in> set given) required then Inr () else Inl validation_error)"

definition schema_attr :: "string list \<Rightarrow> string \<Rightarrow> exn + unit" where
  "schema_attr names a = (if a \<in> set names then Inr () else Inl attribute_error)"

section \<open>Tables\<close>

type_synonym uuid = nat

datatype user_status = UserActive | UserInvited | UserSuspended | UserDeactivated

datatype key_status = KeyActive | KeyRevoked | KeyExpired

datatype session_status = SessionActive | SessionRevoked | SessionExpired

datatype key_environment = KeyDevelopment | KeyStaging | KeyProduction

record org_row =
  or_id :: uuid
  or_tenant_id :: uuid
  or_company_name :: ustr
  or_slug :: ustr
  or_plan :: ustr
  or_region :: "ustr option"
  or_owner_user_id :: "uuid option"
  or_timezone :: ustr
  or_language :: ustr

record user_row =
  ur_id :: uuid
  ur_email :: ustr
  ur_password_hash :: "ustr option"
  ur_name :: ustr
  ur_status :: user_status
  ur_mfa_enabled :: bool
  ur_last_login_at :: "pyfloat option"

record membership_row =
  mb_id :: uuid
  mb_organization_id :: uuid
  mb_user_id :: uuid
  mb_role_slug :: ustr
  mb_department :: "ustr option"
  mb_title :: "ustr option"
  mb_joined_at :: pyfloat

record role_row =
  rr_id :: uuid
  rr_organization_id :: "uuid option"
  rr_slug :: ustr
  rr_name :: ustr
  rr_description :: "ustr option"
  rr_is_system :: bool
  rr_inherits_from :: "ustr list"
  rr_permissions :: "ustr list"

record api_key_row =
  ak_id :: uuid
  ak_organization_id :: uuid
  ak_name :: ustr
  ak_key_prefix :: ustr
  ak_key_hash :: ustr
  ak_scopes :: "ustr list"
  ak_permissions :: "ustr list"
  ak_environment :: key_environment
  ak_status :: key_status
  ak_created_by :: "uuid option"
  ak_last_used_at :: "pyfloat option"
  ak_expires_at :: "pyfloat option"

record session_row =
  sr_id :: uuid
  sr_user_id :: uuid
  sr_organization_id :: "uuid option"
  sr_token_hash :: ustr
  sr_refresh_token_hash :: "ustr option"
  sr_browser :: "ustr option"
  sr_ip_address :: "ustr option"
  sr_country :: "ustr option"
  sr_device :: "ustr option"
  sr_status :: session_status
  sr_expires_at :: pyfloat
  sr_revoked_at :: "pyfloat option"

record policy_row =
  pr_id :: uuid
  pr_organization_id :: uuid
  pr_password_min_length :: int
  pr_session_timeout_seconds :: int
  pr_mfa_required :: bool
  pr_allowed_domains :: "ustr list option"
  pr_ip_allowlist :: "ustr list option"
  pr_rate_limits :: json
  pr_api_limits :: json
  pr_data_retention_days :: "int option"

record event_row =
  ev_id :: uuid
  ev_organization_id :: "uuid option"
  ev_user_id :: "uuid option"
  ev_event_type :: ustr
  ev_severity :: ustr
  ev_ip_address :: "ustr option"
  ev_payload :: json
  ev_created_at :: pyfloat

record audit_row =
  au_id :: uuid
  au_organization_id :: uuid
  au_actor_user_id :: "uuid option"
  au_actor_type :: ustr
  au_action :: ustr
  au_resource_type :: ustr
  au_resource_id :: "uuid option"
  au_ip_address :: "ustr option"
  au_payload :: json
  au_occurred_at :: pyfloat

record iam_db =
  db_tenants :: "uuid list"
  db_orgs :: "org_row list"
  db_users :: "user_row list"
  db_memberships :: "membership_row list"
  db_roles :: "role_row list"
  db_api_keys :: "api_key_row list"
  db_sessions :: "session_row list"
  db_policies :: "policy_row list"
  db_audit :: "audit_row list"
  db_events :: "event_row list"

text \<open>\<^verbatim>\<open>session.get(Model, id)\<close>, and an update of the row it returned.\<close>

definition row_by :: "('r \<Rightarrow> uuid) \<Rightarrow> uuid \<Rightarrow> 'r list \<Rightarrow> 'r option" where
  "row_by key i rs = find (\<lambda>r. key r = i) rs"

definition set_row :: "('r \<Rightarrow> uuid) \<Rightarrow> uuid \<Rightarrow> ('r \<Rightarrow> 'r) \<Rightarrow> 'r list \<Rightarrow> 'r list" where
  "set_row key i f rs = map (\<lambda>r. if key r = i then f r else r) rs"

definition is_key :: "('r \<Rightarrow> uuid) \<Rightarrow> 'r list \<Rightarrow> uuid \<Rightarrow> bool" where
  "is_key key rs i \<longleftrightarrow> i \<in> key ` set rs"

definition optional_key :: "('r \<Rightarrow> uuid) \<Rightarrow> 'r list \<Rightarrow> uuid option \<Rightarrow> bool" where
  "optional_key key rs i = (case i of None \<Rightarrow> True | Some k \<Rightarrow> is_key key rs k)"

end
