(* ===== verification/IamRepos.thy ===== *)
theory IamRepos
  imports IamStore
begin

text \<open>
  \<^verbatim>\<open>app/iam/schemas\<close> and \<^verbatim>\<open>app/infrastructure/repositories/iam/repositories.py\<close>: what the operations of the
  identity service take and give, and the nine repositories.
\<close>

section \<open>Schemas\<close>

record user_read =
  us_id :: uuid
  us_email :: ustr
  us_name :: ustr
  us_status :: user_status
  us_mfa_enabled :: bool
  us_last_login_at :: "pyfloat option"
  us_role_slug :: "ustr option"
  us_department :: "ustr option"
  us_title :: "ustr option"

record organization_create =
  oc_tenant_id :: uuid
  oc_company_name :: ustr
  oc_slug :: ustr
  oc_plan :: ustr
  oc_region :: "ustr option"
  oc_timezone :: ustr
  oc_language :: ustr
  oc_owner_user_id :: "uuid option"

record user_create =
  uc_email :: ustr
  uc_name :: ustr
  uc_password :: ustr
  uc_role_slug :: ustr
  uc_department :: "ustr option"
  uc_title :: "ustr option"

record user_invite =
  ui_email :: ustr
  ui_role_slug :: ustr
  ui_department :: "ustr option"
  ui_title :: "ustr option"

record role_create =
  rc_slug :: ustr
  rc_name :: ustr
  rc_description :: "ustr option"
  rc_inherits_from :: "ustr list"
  rc_permissions :: "ustr list"

record api_key_create =
  kc_name :: ustr
  kc_scopes :: "ustr list"
  kc_permissions :: "ustr list"
  kc_environment :: key_environment
  kc_expires_at :: "pyfloat option"

text \<open>The fields that \<^verbatim>\<open>SessionRead\<close> declares; none of them has a default.\<close>

definition SESSION_READ_FIELDS :: "string list" where
  "SESSION_READ_FIELDS =
     [''created_at'', ''updated_at'', ''id'', ''user_id'', ''organization_id'', ''browser'', ''ip_address'', ''country'',
      ''device'', ''status'', ''expires_at'', ''revoked_at'']"

record session_read =
  se_id :: uuid
  se_user_id :: uuid
  se_organization_id :: "uuid option"
  se_browser :: "ustr option"
  se_ip_address :: "ustr option"
  se_country :: "ustr option"
  se_device :: "ustr option"
  se_status :: session_status
  se_expires_at :: pyfloat
  se_revoked_at :: "pyfloat option"

record policy_read =
  po_organization_id :: uuid
  po_password_min_length :: int
  po_session_timeout_seconds :: int
  po_mfa_required :: bool
  po_allowed_domains :: "ustr list"
  po_ip_allowlist :: "ustr list"
  po_rate_limits :: json
  po_api_limits :: json
  po_data_retention_days :: "int option"

text \<open>
  An update names the fields that the request sets (\<^verbatim>\<open>exclude_unset\<close>); a field may be set to \<^verbatim>\<open>None\<close>.
\<close>

record policy_update =
  pu_password_min_length :: "int option option"
  pu_session_timeout_seconds :: "int option option"
  pu_mfa_required :: "bool option option"
  pu_allowed_domains :: "ustr list option option"
  pu_ip_allowlist :: "ustr list option option"
  pu_rate_limits :: "json option"
  pu_api_limits :: "json option"
  pu_data_retention_days :: "int option option"

text \<open>\<^verbatim>\<open>model_validate\<close> of a row. A list that is null in the row is not a list.\<close>

definition user_of_row :: "user_row \<Rightarrow> user_read" where
  "user_of_row r =
     \<lparr>us_id = ur_id r, us_email = ur_email r, us_name = ur_name r, us_status = ur_status r,
      us_mfa_enabled = ur_mfa_enabled r, us_last_login_at = ur_last_login_at r,
      us_role_slug = None, us_department = None, us_title = None\<rparr>"

definition session_of_row :: "session_row \<Rightarrow> session_read" where
  "session_of_row r =
     \<lparr>se_id = sr_id r, se_user_id = sr_user_id r, se_organization_id = sr_organization_id r,
      se_browser = sr_browser r, se_ip_address = sr_ip_address r, se_country = sr_country r,
      se_device = sr_device r, se_status = sr_status r, se_expires_at = sr_expires_at r,
      se_revoked_at = sr_revoked_at r\<rparr>"

definition policy_of_row :: "policy_row \<Rightarrow> exn + policy_read" where
  "policy_of_row r =
     (case (pr_allowed_domains r, pr_ip_allowlist r) of
        (Some domains, Some ips) \<Rightarrow>
          Inr \<lparr>po_organization_id = pr_organization_id r, po_password_min_length = pr_password_min_length r,
               po_session_timeout_seconds = pr_session_timeout_seconds r, po_mfa_required = pr_mfa_required r,
               po_allowed_domains = domains, po_ip_allowlist = ips, po_rate_limits = pr_rate_limits r,
               po_api_limits = pr_api_limits r, po_data_retention_days = pr_data_retention_days r\<rparr>
      | _ \<Rightarrow> Inl validation_error)"

section \<open>Organizations\<close>

definition org_create :: "uuid \<Rightarrow> organization_create \<Rightarrow> (iam_db, org_row) act" where
  "org_create new_id data db =
     (let row = \<lparr>or_id = new_id, or_tenant_id = oc_tenant_id data, or_company_name = oc_company_name data,
                 or_slug = oc_slug data, or_plan = oc_plan data, or_region = oc_region data,
                 or_owner_user_id = oc_owner_user_id data, or_timezone = oc_timezone data,
                 or_language = oc_language data\<rparr>
      in if is_key or_id (db_orgs db) new_id \<or> is_key or_tenant_id (db_orgs db) (oc_tenant_id data)
            \<or> oc_tenant_id data \<notin> set (db_tenants db)
         then (Inl integrity_error, db)
         else (Inr row, db\<lparr>db_orgs := db_orgs db @ [row]\<rparr>))"

definition org_get_by_id :: "uuid \<Rightarrow> iam_db \<Rightarrow> org_row option" where
  "org_get_by_id i db = row_by or_id i (db_orgs db)"

definition org_get_by_tenant_id :: "uuid \<Rightarrow> iam_db \<Rightarrow> exn + org_row option" where
  "org_get_by_tenant_id t db = scalar_one_or_none (filter (\<lambda>r. or_tenant_id r = t) (db_orgs db))"

definition org_list_all :: "nat \<Rightarrow> iam_db \<Rightarrow> org_row list" where
  "org_list_all limit db = take limit (db_orgs db)"

section \<open>Users\<close>

definition repo_user_create :: "uuid \<Rightarrow> user_create \<Rightarrow> ustr \<Rightarrow> (iam_db, user_read) act" where
  "repo_user_create new_id data password_hash db =
     (let row = \<lparr>ur_id = new_id, ur_email = lower (uc_email data), ur_password_hash = Some password_hash,
                 ur_name = uc_name data, ur_status = UserActive, ur_mfa_enabled = False,
                 ur_last_login_at = None\<rparr>
      in if is_key ur_id (db_users db) new_id \<or> ur_email row \<in> ur_email ` set (db_users db)
         then (Inl integrity_error, db)
         else (Inr (user_of_row row), db\<lparr>db_users := db_users db @ [row]\<rparr>))"

definition user_get_by_id :: "uuid \<Rightarrow> iam_db \<Rightarrow> user_read option" where
  "user_get_by_id i db = map_option user_of_row (row_by ur_id i (db_users db))"

definition user_get_by_email :: "ustr \<Rightarrow> iam_db \<Rightarrow> exn + (user_read \<times> ustr option) option" where
  "user_get_by_email email db =
     bind_sum (scalar_one_or_none (filter (\<lambda>r. ur_email r = lower email) (db_users db)))
       (\<lambda>row. Inr (map_option (\<lambda>r. (user_of_row r, ur_password_hash r)) row))"

definition update_last_login :: "pyfloat \<Rightarrow> uuid \<Rightarrow> iam_db \<Rightarrow> iam_db" where
  "update_last_login now i db =
     db\<lparr>db_users := set_row ur_id i (\<lambda>r. r\<lparr>ur_last_login_at := Some now\<rparr>) (db_users db)\<rparr>"

section \<open>Memberships\<close>

definition with_membership :: "user_read \<Rightarrow> ustr \<Rightarrow> ustr option \<Rightarrow> ustr option \<Rightarrow> user_read" where
  "with_membership us slug department title =
     us\<lparr>us_role_slug := Some slug, us_department := department, us_title := title\<rparr>"

definition membership_add :: "uuid \<Rightarrow> pyfloat \<Rightarrow> uuid \<Rightarrow> uuid \<Rightarrow> user_invite \<Rightarrow> (iam_db, user_read) act" where
  "membership_add new_id now org_id user_id invite db =
     (let row = \<lparr>mb_id = new_id, mb_organization_id = org_id, mb_user_id = user_id,
                 mb_role_slug = ui_role_slug invite, mb_department = ui_department invite,
                 mb_title = ui_title invite, mb_joined_at = now\<rparr>
      in if is_key mb_id (db_memberships db) new_id
            \<or> list_ex (\<lambda>m. mb_organization_id m = org_id \<and> mb_user_id m = user_id) (db_memberships db)
            \<or> \<not> is_key or_id (db_orgs db) org_id
         then (Inl integrity_error, db)
         else (case row_by ur_id user_id (db_users db) of
                 None \<Rightarrow> (Inl integrity_error, db)
               | Some r \<Rightarrow>
                   (Inr (with_membership (user_of_row r) (ui_role_slug invite) (ui_department invite) (ui_title invite)),
                    db\<lparr>db_memberships := db_memberships db @ [row]\<rparr>)))"

text \<open>The join of users and memberships, restricted to an organization and possibly to a user.\<close>

definition members :: "(membership_row \<Rightarrow> bool) \<Rightarrow> iam_db \<Rightarrow> user_read list" where
  "members p db = concat (map (\<lambda>m. map (\<lambda>r. with_membership (user_of_row r) (mb_role_slug m) (mb_department m) (mb_title m))
       (filter (\<lambda>r. ur_id r = mb_user_id m) (db_users db))) (filter p (db_memberships db)))"

definition membership_list_for_org :: "uuid \<Rightarrow> iam_db \<Rightarrow> user_read list" where
  "membership_list_for_org org_id db = members (\<lambda>m. mb_organization_id m = org_id) db"

definition get_membership :: "uuid \<Rightarrow> uuid \<Rightarrow> iam_db \<Rightarrow> user_read option" where
  "get_membership org_id user_id db =
     (case members (\<lambda>m. mb_organization_id m = org_id \<and> mb_user_id m = user_id) db of
        [] \<Rightarrow> None
      | m # _ \<Rightarrow> Some m)"

definition update_role :: "uuid \<Rightarrow> uuid \<Rightarrow> ustr \<Rightarrow> (iam_db, user_read option) act" where
  "update_role org_id user_id slug db =
     (let p = (\<lambda>m. mb_organization_id m = org_id \<and> mb_user_id m = user_id)
      in case scalar_one (filter p (db_memberships db)) of
           Inl e \<Rightarrow> (Inl e, db)
         | Inr _ \<Rightarrow>
             let db' = db\<lparr>db_memberships := map (\<lambda>m. if p m then m\<lparr>mb_role_slug := slug\<rparr> else m) (db_memberships db)\<rparr>
             in (Inr (get_membership org_id user_id db'), db'))"

section \<open>Roles\<close>

definition repo_role_create :: "uuid \<Rightarrow> uuid \<Rightarrow> role_create \<Rightarrow> (iam_db, role_row) act" where
  "repo_role_create new_id org_id data db =
     (let row = \<lparr>rr_id = new_id, rr_organization_id = Some org_id, rr_slug = rc_slug data, rr_name = rc_name data,
                 rr_description = rc_description data, rr_is_system = False,
                 rr_inherits_from = rc_inherits_from data, rr_permissions = rc_permissions data\<rparr>
      in if is_key rr_id (db_roles db) new_id \<or> \<not> is_key or_id (db_orgs db) org_id
            \<or> list_ex (\<lambda>r. rr_organization_id r = Some org_id \<and> rr_slug r = rc_slug data) (db_roles db)
         then (Inl integrity_error, db)
         else (Inr row, db\<lparr>db_roles := db_roles db @ [row]\<rparr>))"

definition role_list_for_org :: "uuid \<Rightarrow> iam_db \<Rightarrow> role_row list" where
  "role_list_for_org org_id db =
     filter (\<lambda>r. rr_organization_id r = Some org_id \<or> rr_organization_id r = None) (db_roles db)"

section \<open>API keys\<close>

definition api_key_create_row ::
  "uuid \<Rightarrow> uuid \<Rightarrow> api_key_create \<Rightarrow> ustr \<Rightarrow> ustr \<Rightarrow> uuid option \<Rightarrow> (iam_db, api_key_row) act" where
  "api_key_create_row new_id org_id data pre key_hash created_by db =
     (let row = \<lparr>ak_id = new_id, ak_organization_id = org_id, ak_name = kc_name data, ak_key_prefix = pre,
                 ak_key_hash = key_hash, ak_scopes = kc_scopes data, ak_permissions = kc_permissions data,
                 ak_environment = kc_environment data, ak_status = KeyActive, ak_created_by = created_by,
                 ak_last_used_at = None, ak_expires_at = kc_expires_at data\<rparr>
      in if is_key ak_id (db_api_keys db) new_id \<or> \<not> is_key or_id (db_orgs db) org_id
         then (Inl integrity_error, db)
         else (Inr row, db\<lparr>db_api_keys := db_api_keys db @ [row]\<rparr>))"

definition api_key_list_for_org :: "uuid \<Rightarrow> iam_db \<Rightarrow> api_key_row list" where
  "api_key_list_for_org org_id db = filter (\<lambda>r. ak_organization_id r = org_id) (db_api_keys db)"

definition get_by_prefix :: "ustr \<Rightarrow> iam_db \<Rightarrow> exn + (api_key_row \<times> ustr) option" where
  "get_by_prefix pre db =
     bind_sum (scalar_one_or_none (filter (\<lambda>r. ak_key_prefix r = pre \<and> ak_status r = KeyActive) (db_api_keys db)))
       (\<lambda>row. Inr (map_option (\<lambda>r. (r, ak_key_hash r)) row))"

definition api_key_revoke :: "uuid \<Rightarrow> uuid \<Rightarrow> (iam_db, api_key_row) act" where
  "api_key_revoke org_id key_id db =
     (case scalar_one (filter (\<lambda>r. ak_organization_id r = org_id \<and> ak_id r = key_id) (db_api_keys db)) of
        Inl e \<Rightarrow> (Inl e, db)
      | Inr r \<Rightarrow> (Inr (r\<lparr>ak_status := KeyRevoked\<rparr>),
                  db\<lparr>db_api_keys := set_row ak_id key_id (\<lambda>r. r\<lparr>ak_status := KeyRevoked\<rparr>) (db_api_keys db)\<rparr>))"

definition touch_last_used :: "pyfloat \<Rightarrow> uuid \<Rightarrow> iam_db \<Rightarrow> iam_db" where
  "touch_last_used now key_id db =
     db\<lparr>db_api_keys := set_row ak_id key_id (\<lambda>r. r\<lparr>ak_last_used_at := Some now\<rparr>) (db_api_keys db)\<rparr>"

section \<open>Sessions\<close>

definition session_create :: "session_read \<Rightarrow> ustr \<Rightarrow> ustr option \<Rightarrow> (iam_db, session_read) act" where
  "session_create se token_hash refresh_hash db =
     (let row = \<lparr>sr_id = se_id se, sr_user_id = se_user_id se, sr_organization_id = se_organization_id se,
                 sr_token_hash = token_hash, sr_refresh_token_hash = refresh_hash, sr_browser = se_browser se,
                 sr_ip_address = se_ip_address se, sr_country = se_country se, sr_device = se_device se,
                 sr_status = SessionActive, sr_expires_at = se_expires_at se, sr_revoked_at = None\<rparr>
      in if is_key sr_id (db_sessions db) (se_id se) \<or> \<not> is_key ur_id (db_users db) (se_user_id se)
            \<or> \<not> optional_key or_id (db_orgs db) (se_organization_id se)
         then (Inl integrity_error, db)
         else (Inr se, db\<lparr>db_sessions := db_sessions db @ [row]\<rparr>))"

definition session_list_for_user :: "uuid \<Rightarrow> iam_db \<Rightarrow> session_read list" where
  "session_list_for_user user_id db = map session_of_row (filter (\<lambda>r. sr_user_id r = user_id) (db_sessions db))"

definition session_revoke :: "pyfloat \<Rightarrow> uuid \<Rightarrow> (iam_db, session_read) act" where
  "session_revoke now session_id db =
     (case row_by sr_id session_id (db_sessions db) of
        None \<Rightarrow> (Inl attribute_error, db)
      | Some r \<Rightarrow>
          let f = (\<lambda>r. r\<lparr>sr_status := SessionRevoked, sr_revoked_at := Some now\<rparr>)
          in (Inr (session_of_row (f r)), db\<lparr>db_sessions := set_row sr_id session_id f (db_sessions db)\<rparr>))"

definition count_active_for_user :: "uuid \<Rightarrow> iam_db \<Rightarrow> nat" where
  "count_active_for_user user_id db =
     length (filter (\<lambda>r. sr_user_id r = user_id \<and> sr_status r = SessionActive) (db_sessions db))"

definition get_by_token_hash :: "ustr \<Rightarrow> iam_db \<Rightarrow> exn + session_read option" where
  "get_by_token_hash h db =
     bind_sum (scalar_one_or_none (filter (\<lambda>r. sr_token_hash r = h) (db_sessions db)))
       (\<lambda>row. Inr (map_option session_of_row row))"

definition session_get_by_id :: "uuid \<Rightarrow> iam_db \<Rightarrow> session_read option" where
  "session_get_by_id i db = map_option session_of_row (row_by sr_id i (db_sessions db))"

definition get_by_refresh_hash :: "ustr \<Rightarrow> iam_db \<Rightarrow> exn + session_read option" where
  "get_by_refresh_hash h db =
     bind_sum (scalar_one_or_none (filter (\<lambda>r. sr_refresh_token_hash r = Some h) (db_sessions db)))
       (\<lambda>row. Inr (map_option session_of_row row))"

definition update_tokens :: "uuid \<Rightarrow> ustr \<Rightarrow> ustr \<Rightarrow> pyfloat \<Rightarrow> (iam_db, session_read) act" where
  "update_tokens session_id token_hash refresh_hash expires_at db =
     (case row_by sr_id session_id (db_sessions db) of
        None \<Rightarrow> (Inl (value_error (u ''Session not found'')), db)
      | Some r \<Rightarrow>
          let f = (\<lambda>r. r\<lparr>sr_token_hash := token_hash, sr_refresh_token_hash := Some refresh_hash,
                         sr_expires_at := expires_at, sr_status := SessionActive, sr_revoked_at := None\<rparr>)
          in (Inr (session_of_row (f r)), db\<lparr>db_sessions := set_row sr_id session_id f (db_sessions db)\<rparr>))"

section \<open>Security policies\<close>

text \<open>A new row has the defaults of the model: twelve characters, an hour, no lists.\<close>

definition new_policy_row :: "uuid \<Rightarrow> uuid \<Rightarrow> policy_row" where
  "new_policy_row new_id org_id =
     \<lparr>pr_id = new_id, pr_organization_id = org_id, pr_password_min_length = 12, pr_session_timeout_seconds = 3600,
      pr_mfa_required = False, pr_allowed_domains = None, pr_ip_allowlist = None, pr_rate_limits = JNull,
      pr_api_limits = JNull, pr_data_retention_days = None\<rparr>"

definition policy_get_or_create :: "uuid \<Rightarrow> uuid \<Rightarrow> (iam_db, policy_read) act" where
  "policy_get_or_create new_id org_id db =
     (case scalar_one_or_none (filter (\<lambda>r. pr_organization_id r = org_id) (db_policies db)) of
        Inl e \<Rightarrow> (Inl e, db)
      | Inr (Some r) \<Rightarrow> (policy_of_row r, db)
      | Inr None \<Rightarrow>
          let row = new_policy_row new_id org_id
          in if is_key pr_id (db_policies db) new_id \<or> \<not> is_key or_id (db_orgs db) org_id
             then (Inl integrity_error, db)
             else (policy_of_row row, db\<lparr>db_policies := db_policies db @ [row]\<rparr>))"

text \<open>
  \<^verbatim>\<open>setattr\<close> for the fields that are set. A \<^verbatim>\<open>None\<close> in a column that is not nullable violates its constraint.
\<close>

definition apply_update :: "policy_update \<Rightarrow> policy_row \<Rightarrow> policy_row" where
  "apply_update up r = (
     r\<lparr>pr_password_min_length := (case pu_password_min_length up of Some (Some x) \<Rightarrow> x | _ \<Rightarrow> pr_password_min_length r),
       pr_session_timeout_seconds :=
         (case pu_session_timeout_seconds up of Some (Some x) \<Rightarrow> x | _ \<Rightarrow> pr_session_timeout_seconds r),
       pr_mfa_required := (case pu_mfa_required up of Some (Some x) \<Rightarrow> x | _ \<Rightarrow> pr_mfa_required r),
       pr_allowed_domains := (case pu_allowed_domains up of Some v \<Rightarrow> v | None \<Rightarrow> pr_allowed_domains r),
       pr_ip_allowlist := (case pu_ip_allowlist up of Some v \<Rightarrow> v | None \<Rightarrow> pr_ip_allowlist r),
       pr_rate_limits := (case pu_rate_limits up of Some v \<Rightarrow> v | None \<Rightarrow> pr_rate_limits r),
       pr_api_limits := (case pu_api_limits up of Some v \<Rightarrow> v | None \<Rightarrow> pr_api_limits r),
       pr_data_retention_days := (case pu_data_retention_days up of Some v \<Rightarrow> v | None \<Rightarrow> pr_data_retention_days r)\<rparr>)"

definition nulls_required :: "policy_update \<Rightarrow> bool" where
  "nulls_required up \<longleftrightarrow> pu_password_min_length up = Some None \<or> pu_session_timeout_seconds up = Some None
     \<or> pu_mfa_required up = Some None"

definition policy_update_row :: "uuid \<Rightarrow> uuid \<Rightarrow> policy_update \<Rightarrow> (iam_db, policy_read) act" where
  "policy_update_row new_id org_id up =
     bnd (policy_get_or_create new_id org_id) (\<lambda>_ db.
       case scalar_one (filter (\<lambda>r. pr_organization_id r = org_id) (db_policies db)) of
         Inl e \<Rightarrow> (Inl e, db)
       | Inr r \<Rightarrow>
           if nulls_required up then (Inl integrity_error, db)
           else (policy_of_row (apply_update up r),
                 db\<lparr>db_policies := map (\<lambda>r. if pr_organization_id r = org_id then apply_update up r else r) (db_policies db)\<rparr>))"

section \<open>Audit and events\<close>

definition audit_append :: "audit_row \<Rightarrow> (iam_db, audit_row) act" where
  "audit_append entry db =
     (if is_key au_id (db_audit db) (au_id entry) \<or> \<not> is_key or_id (db_orgs db) (au_organization_id entry)
      then (Inl integrity_error, db)
      else (Inr entry, db\<lparr>db_audit := db_audit db @ [entry]\<rparr>))"

text \<open>Newest first.\<close>

definition audit_list_for_org :: "nat \<Rightarrow> uuid \<Rightarrow> iam_db \<Rightarrow> audit_row list" where
  "audit_list_for_org limit org_id db =
     take limit (sort_key (\<lambda>r. - au_occurred_at r) (filter (\<lambda>r. au_organization_id r = org_id) (db_audit db)))"

definition event_record :: "event_row \<Rightarrow> (iam_db, event_row) act" where
  "event_record event db =
     (if is_key ev_id (db_events db) (ev_id event) \<or> \<not> optional_key or_id (db_orgs db) (ev_organization_id event)
         \<or> \<not> optional_key ur_id (db_users db) (ev_user_id event)
      then (Inl integrity_error, db)
      else (Inr event, db\<lparr>db_events := db_events db @ [event]\<rparr>))"

definition event_list_for_org :: "nat \<Rightarrow> uuid \<Rightarrow> iam_db \<Rightarrow> event_row list" where
  "event_list_for_org limit org_id db =
     take limit (sort_key (\<lambda>r. - ev_created_at r) (filter (\<lambda>r. ev_organization_id r = Some org_id) (db_events db)))"

section \<open>What every operation keeps\<close>

text \<open>
  A relation between the database before and after, kept by every operation of the repositories that the service
  calls. The service's own operations keep it then as well.
\<close>

locale store_relation =
  fixes R :: "iam_db \<Rightarrow> iam_db \<Rightarrow> bool"
  assumes R_refl: "R db db"
    and R_trans: "R db1 db2 \<Longrightarrow> R db2 db3 \<Longrightarrow> R db1 db3"
    and R_org_create: "R db (snd (org_create i oc db))"
    and R_user_create: "R db (snd (repo_user_create i uc h db))"
    and R_last_login: "R db (update_last_login now i db)"
    and R_membership_add: "R db (snd (membership_add i now org_id user_id invite db))"
    and R_role_create: "R db (snd (repo_role_create i org_id rc db))"
    and R_key_create: "R db (snd (api_key_create_row i org_id kc pre h cb db))"
    and R_key_revoke: "R db (snd (api_key_revoke org_id i db))"
    and R_touch: "R db (touch_last_used now i db)"
    and R_session_create: "R db (snd (session_create se h rh db))"
    and R_session_revoke: "R db (snd (session_revoke now i db))"
    and R_update_tokens: "R db (snd (update_tokens i h1 h2 t db))"
    and R_policy_get: "R db (snd (policy_get_or_create i org_id db))"
    and R_policy_update: "R db (snd (policy_update_row i org_id up db))"
    and R_audit: "R db (snd (audit_append entry db))"
    and R_event: "R db (snd (event_record ev db))"

lemma row_by_Some: "row_by key i rs = Some r \<Longrightarrow> r \<in> set rs \<and> key r = i"
  by (auto simp: row_by_def find_Some_iff)

lemma map_set_row [simp]: "(\<And>r. g (f r) = g r) \<Longrightarrow> map g (set_row key i f rs) = map g rs"
  by (simp add: set_row_def)

lemma set_row_keys: "(\<And>r. key (f r) = key r) \<Longrightarrow> r \<in> set (set_row key i f rs) \<Longrightarrow>
    (\<exists>r0 \<in> set rs. key r = key r0 \<and> (r = r0 \<or> key r0 = i \<and> r = f r0))"
  by (auto simp: set_row_def)

lemma policy_get_cases:
  "snd (policy_get_or_create i org_id db) = db
   \<or> filter (\<lambda>r. pr_organization_id r = org_id) (db_policies db) = [] \<and> i \<notin> pr_id ` set (db_policies db)
     \<and> org_id \<in> or_id ` set (db_orgs db)
     \<and> snd (policy_get_or_create i org_id db) = db\<lparr>db_policies := db_policies db @ [new_policy_row i org_id]\<rparr>"
  by (auto simp: policy_get_or_create_def scalar_one_or_none_def is_key_def Let_def split: list.splits)

lemma policy_update_cases:
  "snd (policy_update_row i org_id up db) = snd (policy_get_or_create i org_id db)
   \<or> (let db1 = snd (policy_get_or_create i org_id db) in
      snd (policy_update_row i org_id up db) =
        db1\<lparr>db_policies := map (\<lambda>r. if pr_organization_id r = org_id then apply_update up r else r) (db_policies db1)\<rparr>)"
  by (cases "policy_get_or_create i org_id db"; cases "fst (policy_get_or_create i org_id db)")
     (auto simp: policy_update_row_def Let_def split: sum.splits)

lemma apply_update_keys [simp]:
  "pr_id (apply_update up r) = pr_id r" "pr_organization_id (apply_update up r) = pr_organization_id r"
  by (simp_all add: apply_update_def)

subsection \<open>Well-formed tables\<close>

definition db_wf :: "iam_db \<Rightarrow> bool" where
  "db_wf db \<longleftrightarrow>
     distinct (map or_id (db_orgs db)) \<and> distinct (map or_tenant_id (db_orgs db))
   \<and> set (map or_tenant_id (db_orgs db)) \<subseteq> set (db_tenants db)
   \<and> distinct (map ur_id (db_users db)) \<and> distinct (map ur_email (db_users db))
   \<and> distinct (map mb_id (db_memberships db))
   \<and> distinct (map (\<lambda>m. (mb_organization_id m, mb_user_id m)) (db_memberships db))
   \<and> set (map mb_user_id (db_memberships db)) \<subseteq> set (map ur_id (db_users db))
   \<and> set (map mb_organization_id (db_memberships db)) \<subseteq> set (map or_id (db_orgs db))
   \<and> distinct (map rr_id (db_roles db))
   \<and> (\<forall>r\<in>set (db_roles db). optional_key or_id (db_orgs db) (rr_organization_id r))
   \<and> distinct (map (\<lambda>r. (rr_organization_id r, rr_slug r)) (filter (\<lambda>r. rr_organization_id r \<noteq> None) (db_roles db)))
   \<and> distinct (map ak_id (db_api_keys db))
   \<and> set (map ak_organization_id (db_api_keys db)) \<subseteq> set (map or_id (db_orgs db))
   \<and> distinct (map sr_id (db_sessions db))
   \<and> set (map sr_user_id (db_sessions db)) \<subseteq> set (map ur_id (db_users db))
   \<and> (\<forall>r\<in>set (db_sessions db). optional_key or_id (db_orgs db) (sr_organization_id r))
   \<and> distinct (map pr_id (db_policies db)) \<and> distinct (map pr_organization_id (db_policies db))
   \<and> set (map pr_organization_id (db_policies db)) \<subseteq> set (map or_id (db_orgs db))
   \<and> distinct (map au_id (db_audit db))
   \<and> set (map au_organization_id (db_audit db)) \<subseteq> set (map or_id (db_orgs db))
   \<and> distinct (map ev_id (db_events db))
   \<and> (\<forall>r\<in>set (db_events db). optional_key or_id (db_orgs db) (ev_organization_id r)
        \<and> optional_key ur_id (db_users db) (ev_user_id r))"

lemma distinct_row_by:
  "distinct (map key rs) \<Longrightarrow> r \<in> set rs \<Longrightarrow> row_by key (key r) rs = Some r"
  unfolding row_by_def
  by (induction rs) auto

lemma map_policies [simp]:
  "map pr_id (map (\<lambda>r. if p r then apply_update up r else r) rs) = map pr_id rs"
  "map pr_organization_id (map (\<lambda>r. if p r then apply_update up r else r) rs) = map pr_organization_id rs"
  by simp_all

lemma wf_new_policy:
  assumes "db_wf db" "org_id \<notin> pr_organization_id ` set (db_policies db)" "i \<notin> pr_id ` set (db_policies db)"
    and "org_id \<in> or_id ` set (db_orgs db)"
  shows "db_wf (db\<lparr>db_policies := db_policies db @ [new_policy_row i org_id]\<rparr>)"
  using assms by (simp add: db_wf_def new_policy_row_def)

lemma wf_policy_get:
  assumes "db_wf db"
  shows "db_wf (snd (policy_get_or_create i org_id db))"
  using policy_get_cases [of i org_id db]
proof (elim disjE conjE)
  assume "filter (\<lambda>r. pr_organization_id r = org_id) (db_policies db) = []"
  then have "org_id \<notin> pr_organization_id ` set (db_policies db)" by (auto simp: filter_empty_conv)
  moreover assume "i \<notin> pr_id ` set (db_policies db)" "org_id \<in> or_id ` set (db_orgs db)"
    and "snd (policy_get_or_create i org_id db) = db\<lparr>db_policies := db_policies db @ [new_policy_row i org_id]\<rparr>"
  ultimately show ?thesis using wf_new_policy [OF assms] by simp
qed (use assms in simp)

lemma wf_policy_map:
  "db_wf db \<Longrightarrow> db_wf (db\<lparr>db_policies := map (\<lambda>r. if p r then apply_update up r else r) (db_policies db)\<rparr>)"
  by (simp add: db_wf_def del: map_map set_map)

lemma image_set_row [simp]: "(\<And>r. g (f r) = g r) \<Longrightarrow> g ` set (set_row key i f rs) = g ` set rs"
  by (metis map_set_row set_map)

lemma optional_key_append [intro]: "optional_key key rs i \<Longrightarrow> optional_key key (rs @ xs) i"
  by (auto simp: optional_key_def is_key_def split: option.splits)

lemma optional_key_set_row [simp]: "(\<And>r. key (f r) = key r) \<Longrightarrow> optional_key key (set_row k j f rs) = optional_key key rs"
  by (simp add: fun_eq_iff optional_key_def is_key_def split: option.split)

lemma optional_key_Some [simp]: "optional_key key rs (Some k) \<longleftrightarrow> is_key key rs k"
  by (simp add: optional_key_def)

lemma ball_set_row:
  assumes "\<And>r. P (f r) = P r"
  shows "(\<forall>r\<in>set (set_row key i f rs). P r) = (\<forall>r\<in>set rs. P r)"
proof -
  have "P (if key r = i then f r else r) = P r" for r using assms by simp
  then show ?thesis by (simp only: set_row_def set_map ball_simps)
qed

interpretation well_formed: store_relation "\<lambda>db db'. db_wf db \<longrightarrow> db_wf db'"
proof (unfold_locales, goal_cases)
  case (3 db i oc)
  then show ?case by (auto simp: org_create_def is_key_def Let_def db_wf_def)
next
  case (4 db i uc h)
  then show ?case by (auto simp: repo_user_create_def is_key_def Let_def db_wf_def)
next
  case (6 db i now org_id user_id invite)
  then show ?case
    by (auto simp: membership_add_def is_key_def Let_def db_wf_def list_ex_iff dest: row_by_Some split: option.splits)
next
  case (7 db i org_id rc)
  then show ?case by (auto simp: repo_role_create_def is_key_def Let_def db_wf_def list_ex_iff)
next
  case (8 db i org_id kc pre h cb)
  then show ?case by (auto simp: api_key_create_row_def is_key_def Let_def db_wf_def)
next
  case (9 db org_id i)
  then show ?case by (auto simp: api_key_revoke_def db_wf_def simp del: set_map split: sum.split)
next
  case (11 db se h rh)
  then show ?case by (auto simp: session_create_def is_key_def Let_def db_wf_def)
next
  case (12 db now i)
  then show ?case by (auto simp: session_revoke_def Let_def db_wf_def ball_set_row simp del: set_map split: option.split)
next
  case (13 db i h1 h2 t)
  then show ?case by (auto simp: update_tokens_def Let_def db_wf_def ball_set_row simp del: set_map split: option.split)
next
  case (14 db i org_id)
  then show ?case by (simp add: wf_policy_get)
next
  case (15 db i org_id up)
  then show ?case
    using policy_update_cases [of i org_id up db] wf_policy_get [of db i org_id] wf_policy_map
    by (auto simp: Let_def)
next
  case (16 db entry)
  then show ?case by (auto simp: audit_append_def is_key_def db_wf_def)
next
  case (17 db ev)
  then show ?case by (auto simp: event_record_def is_key_def db_wf_def)
qed (simp_all add: update_last_login_def touch_last_used_def db_wf_def del: set_map)

subsection \<open>The audit log and revoked keys\<close>

lemma policy_get_frame [simp]:
  "db_audit (snd (policy_get_or_create i org_id db)) = db_audit db"
  "db_api_keys (snd (policy_get_or_create i org_id db)) = db_api_keys db"
  using policy_get_cases [of i org_id db] by auto

lemma policy_update_frame [simp]:
  "db_audit (snd (policy_update_row i org_id up db)) = db_audit db"
  "db_api_keys (snd (policy_update_row i org_id up db)) = db_api_keys db"
  using policy_update_cases [of i org_id up db] by (auto simp: Let_def)

text \<open>The audit log is only appended to.\<close>

interpretation audit_grows: store_relation "\<lambda>db db'. prefix (db_audit db) (db_audit db')"
  by unfold_locales
    (auto simp: org_create_def repo_user_create_def update_last_login_def membership_add_def repo_role_create_def
      api_key_create_row_def api_key_revoke_def touch_last_used_def session_create_def session_revoke_def
      update_tokens_def audit_append_def event_record_def Let_def split: option.split sum.split
      intro: prefix_order.trans)

text \<open>A key that is not active never becomes active: its identifier is taken, and no operation sets the status back.\<close>

definition key_dead :: "uuid \<Rightarrow> iam_db \<Rightarrow> bool" where
  "key_dead i db \<longleftrightarrow> i \<in> ak_id ` set (db_api_keys db)
     \<and> (\<forall>k\<in>set (db_api_keys db). ak_id k = i \<longrightarrow> ak_status k \<noteq> KeyActive)"

lemma set_row_ids: "(\<And>r. key (f r) = key r) \<Longrightarrow> key ` set (set_row key' i f rs) = key ` set rs"
  by (metis (no_types, lifting) map_set_row set_map)

lemma key_dead_set_row:
  assumes "key_dead i db" "\<And>k. ak_id (f k) = ak_id k" "\<And>k. ak_status (f k) = KeyActive \<Longrightarrow> ak_status k = KeyActive"
  shows "key_dead i (db\<lparr>db_api_keys := set_row ak_id j f (db_api_keys db)\<rparr>)"
  using assms set_row_ids [of ak_id f ak_id j "db_api_keys db"]
  unfolding key_dead_def by (auto simp: set_row_def)

lemma key_dead_frame: "key_dead i db \<Longrightarrow> db_api_keys db' = db_api_keys db \<Longrightarrow> key_dead i db'"
  by (simp add: key_dead_def)

interpretation dead_keys: store_relation "\<lambda>db db'. key_dead i db \<longrightarrow> key_dead i db'"
proof (unfold_locales, goal_cases)
  case (8 db j org_id kc pre h cb)
  then show ?case by (auto simp: api_key_create_row_def is_key_def Let_def key_dead_def)
next
  case (9 db org_id j)
  then show ?case by (auto simp: api_key_revoke_def intro!: key_dead_set_row split: sum.split)
next
  case (10 db now j)
  then show ?case by (auto simp: touch_last_used_def intro!: key_dead_set_row)
qed (blast | (intro impI, erule key_dead_frame, simp add: org_create_def repo_user_create_def update_last_login_def
      membership_add_def repo_role_create_def session_create_def session_revoke_def update_tokens_def audit_append_def
      event_record_def Let_def split: option.split))+

text \<open>Revoking a key makes it dead.\<close>

lemma revoke_kills:
  assumes "db_wf db" "api_key_revoke org_id i db = (Inr k, db')"
  shows "key_dead i db'"
proof -
  obtain r where r: "filter (\<lambda>r. ak_organization_id r = org_id \<and> ak_id r = i) (db_api_keys db) = [r]"
      "db' = db\<lparr>db_api_keys := set_row ak_id i (\<lambda>r. r\<lparr>ak_status := KeyRevoked\<rparr>) (db_api_keys db)\<rparr>"
    using assms(2) by (auto simp: api_key_revoke_def scalar_one_def split: list.splits sum.splits)
  have "r \<in> set (filter (\<lambda>r. ak_organization_id r = org_id \<and> ak_id r = i) (db_api_keys db))"
    by (simp only: r(1) list.set_intros)
  then have "i \<in> ak_id ` set (db_api_keys db)" by auto
  then show ?thesis
    using set_row_ids [of ak_id "\<lambda>r. r\<lparr>ak_status := KeyRevoked\<rparr>" ak_id i "db_api_keys db"]
    unfolding r(2) key_dead_def by (auto simp: set_row_def)
qed

end
