(* ===== verification/IamAuth.thy ===== *)
theory IamAuth
  imports IamRepos Conversation RateLimit
begin

text \<open>
  \<^verbatim>\<open>app/iam/auth/principal.py\<close>, \<^verbatim>\<open>token_service.py\<close>, \<^verbatim>\<open>authentication_service.py\<close>, \<^verbatim>\<open>app/iam/api_keys/key_crypto.py\<close> and
  \<^verbatim>\<open>app/iam/validators/access_validator.py\<close>: tokens and keys, and the checks that turn a credential into a principal.

  The libraries are arguments: the encoding and decoding of signed tokens, SHA-256 and the keyed hash (as hex text),
  bcrypt. The claims of a token are the ones this service writes, each of them possibly missing.
\<close>

section \<open>Identifiers as text\<close>

definition hex_char :: "nat \<Rightarrow> char" where
  "hex_char d = char_of (if d < 10 then 48 + d else 87 + d)"

definition uuid_hex :: "uuid \<Rightarrow> string" where
  "uuid_hex n = map (\<lambda>i. hex_char (n div 16 ^ i mod 16)) (rev [0..<32])"

text \<open>\<^verbatim>\<open>str(uuid)\<close>.\<close>

definition uuid_text :: "uuid \<Rightarrow> string" where
  "uuid_text n = (let h = uuid_hex n in
     take 8 h @ ''-'' @ take 4 (drop 8 h) @ ''-'' @ take 4 (drop 12 h) @ ''-'' @ take 4 (drop 16 h) @ ''-'' @ drop 20 h)"

section \<open>Environment\<close>

record claims =
  cl_sub :: "string option"
  cl_org :: "string option"
  cl_role :: "ustr option"
  cl_permissions :: "ustr list option"
  cl_sid :: "string option"
  cl_type :: "ustr option"
  cl_iat :: pyfloat
  cl_exp :: pyfloat

datatype decoded = Claims claims | SignatureExpired | TokenInvalid

record iam_env =
  ie_now :: pyfloat
  ie_uuid :: "nat \<Rightarrow> uuid"                       \<comment> \<open>the identifiers drawn by one operation\<close>
  ie_access_minutes :: int
  ie_refresh_days :: int
  ie_key_prefix :: ustr
  ie_api_key_auth :: bool
  ie_random_text :: ustr                         \<comment> \<open>\<^verbatim>\<open>secrets.token_urlsafe(32)\<close>\<close>
  ie_encode :: "claims \<Rightarrow> ustr"
  ie_decode :: "pyfloat \<Rightarrow> ustr \<Rightarrow> decoded"
  ie_sha256 :: "ustr \<Rightarrow> ustr"
  ie_key_mac :: "ustr \<Rightarrow> ustr"
  ie_bcrypt :: "ustr \<Rightarrow> ustr"
  ie_checkpw :: "ustr \<Rightarrow> ustr \<Rightarrow> bool"

text \<open>The libraries behave as documented: a token decodes to its claims until it expires, a password matches its hash.\<close>

definition jwt_law :: "iam_env \<Rightarrow> bool" where
  "jwt_law env \<longleftrightarrow> (\<forall>c now. ie_decode env now (ie_encode env c) = (if now < cl_exp c then Claims c else SignatureExpired))"

definition err :: "exn_class \<Rightarrow> string \<Rightarrow> exn" where
  "err c t = new_exn c (Some (u t)) None"

section \<open>Tokens and keys\<close>

definition create_access_token :: "iam_env \<Rightarrow> uuid \<Rightarrow> uuid option \<Rightarrow> ustr option \<Rightarrow> ustr list option \<Rightarrow> ustr" where
  "create_access_token env user_id organization_id role permissions =
     ie_encode env \<lparr>cl_sub = Some (uuid_text user_id), cl_org = map_option uuid_text organization_id,
       cl_role = role, cl_permissions = Some (case permissions of None \<Rightarrow> [] | Some p \<Rightarrow> p), cl_sid = None,
       cl_type = Some (u ''access''), cl_iat = ie_now env,
       cl_exp = ie_now env + of_int (ie_access_minutes env) * 60\<rparr>"

definition create_refresh_token :: "iam_env \<Rightarrow> uuid \<Rightarrow> uuid \<Rightarrow> ustr" where
  "create_refresh_token env user_id session_id =
     ie_encode env \<lparr>cl_sub = Some (uuid_text user_id), cl_org = None, cl_role = None, cl_permissions = None,
       cl_sid = Some (uuid_text session_id), cl_type = Some (u ''refresh''), cl_iat = ie_now env,
       cl_exp = ie_now env + of_int (ie_refresh_days env) * 86400\<rparr>"

definition decode_token :: "iam_env \<Rightarrow> ustr \<Rightarrow> exn + claims" where
  "decode_token env token =
     (case ie_decode env (ie_now env) token of
        Claims c \<Rightarrow> Inr c
      | SignatureExpired \<Rightarrow> Inl (err TokenExpiredError ''Token expired'')
      | TokenInvalid \<Rightarrow> Inl (err TokenExpiredError ''Invalid token''))"

definition generate_api_key :: "iam_env \<Rightarrow> ustr \<times> ustr \<times> ustr" where
  "generate_api_key env = (let full_key = ie_key_prefix env @ ie_random_text env
                           in (full_key, take 12 full_key, ie_key_mac env full_key))"

definition verify_api_key :: "iam_env \<Rightarrow> ustr \<Rightarrow> ustr \<Rightarrow> bool" where
  "verify_api_key env key key_hash \<longleftrightarrow> ie_key_mac env key = key_hash"

section \<open>Principals\<close>

datatype auth_method = JwtAuth | ApiKeyAuth

record principal =
  pp_user_id :: "uuid option"
  pp_organization_id :: uuid
  pp_tenant_id :: "uuid option"
  pp_role_slug :: "ustr option"
  pp_permissions :: "ustr set"
  pp_auth_method :: auth_method
  pp_session_id :: "uuid option"
  pp_api_key_id :: "uuid option"

definition has_permission :: "principal \<Rightarrow> ustr \<Rightarrow> bool" where
  "has_permission p permission \<longleftrightarrow> permission \<in> pp_permissions p"

definition validate_org_scope :: "uuid \<Rightarrow> uuid \<Rightarrow> exn + unit" where
  "validate_org_scope actor_org resource_org =
     (if actor_org \<noteq> resource_org
      then Inl (err CrossOrganizationAccessError (''Cross-organization access denied: '' @ uuid_text actor_org @ '' != '' @ uuid_text resource_org))
      else Inr ())"

section \<open>Authentication service\<close>

text \<open>\<^verbatim>\<open>UUID(payload[k])\<close>.\<close>

definition claim_uuid :: "string option \<Rightarrow> exn + uuid" where
  "claim_uuid c = (case c of
     None \<Rightarrow> Inl key_error
   | Some s \<Rightarrow> (case uuid_of_string s of
                  None \<Rightarrow> Inl (value_error (u ''badly formed hexadecimal UUID string''))
                | Some n \<Rightarrow> Inr n))"

definition assert_session_active :: "pyfloat \<Rightarrow> session_read \<Rightarrow> exn + unit" where
  "assert_session_active now se =
     (if se_status se \<noteq> SessionActive then Inl (err TokenExpiredError ''Session revoked'')
      else if se_revoked_at se \<noteq> None then Inl (err TokenExpiredError ''Session revoked'')
      else if se_expires_at se \<le> now then Inl (err TokenExpiredError ''Session expired'')
      else Inr ())"

text \<open>A status is a member of the enumeration, which has a \<^verbatim>\<open>value\<close>, or a bare text.\<close>

datatype status_arg = Member user_status | BareText ustr

definition user_status_value :: "user_status \<Rightarrow> ustr" where
  "user_status_value s = (case s of UserActive \<Rightarrow> u ''active'' | UserInvited \<Rightarrow> u ''invited''
     | UserSuspended \<Rightarrow> u ''suspended'' | UserDeactivated \<Rightarrow> u ''deactivated'')"

definition assert_user_active :: "status_arg \<Rightarrow> exn + unit" where
  "assert_user_active status =
     (let active = (case status of Member s \<Rightarrow> user_status_value UserActive | BareText t \<Rightarrow> t)
      in if active \<noteq> user_status_value UserActive
         then Inl (new_exn AuthenticationError (Some (u ''User account is '' @ active)) None)
         else Inr ())"

definition require_some :: "'a option \<Rightarrow> exn \<Rightarrow> exn + 'a" where
  "require_some x e = (case x of None \<Rightarrow> Inl e | Some v \<Rightarrow> Inr v)"

definition authenticate_bearer :: "iam_env \<Rightarrow> ustr \<Rightarrow> iam_db \<Rightarrow> exn + principal" where
  "authenticate_bearer env access_token db =
     bind_sum (decode_token env access_token) (\<lambda>payload.
     bind_sum (if cl_type payload \<noteq> Some (u ''access'') then Inl (err InvalidCredentialsError ''Invalid token type'') else Inr ()) (\<lambda>_.
     bind_sum (claim_uuid (cl_sub payload)) (\<lambda>user_id.
     bind_sum (if cl_org payload \<in> {None, Some []} then Inl (err AuthenticationError ''Token missing organization context'') else Inr ()) (\<lambda>_.
     bind_sum (claim_uuid (cl_org payload)) (\<lambda>organization_id.
     bind_sum (get_by_token_hash (ie_sha256 env access_token) db) (\<lambda>found.
     bind_sum (require_some found (err IamSessionNotFoundError ''Session not found for token'')) (\<lambda>se.
     bind_sum (assert_session_active (ie_now env) se) (\<lambda>_.
     bind_sum (require_some (user_get_by_id user_id db) (err IamUserNotFoundError (''User '' @ uuid_text user_id @ '' not found''))) (\<lambda>us.
     bind_sum (assert_user_active (Member (us_status us))) (\<lambda>_.
     bind_sum (require_some (get_membership organization_id user_id db)
        (err CrossOrganizationAccessError ''User is not a member of this organization'')) (\<lambda>membership.
     bind_sum (require_some (org_get_by_id organization_id db)
        (err OrganizationNotFoundError (''Organization '' @ uuid_text organization_id @ '' not found''))) (\<lambda>org.
       let role_slug = (case cl_role payload of Some r \<Rightarrow> if r = [] then us_role_slug membership else Some r
                        | None \<Rightarrow> us_role_slug membership);
           perms = (case cl_permissions payload of Some ps \<Rightarrow> ps | None \<Rightarrow> [])
       in Inr \<lparr>pp_user_id = Some user_id, pp_organization_id = organization_id, pp_tenant_id = Some (or_tenant_id org),
               pp_role_slug = role_slug,
               pp_permissions = (if perms \<noteq> [] then set perms
                                 else case role_slug of None \<Rightarrow> {} | Some r \<Rightarrow> resolve_permissions r None None),
               pp_auth_method = JwtAuth, pp_session_id = Some (se_id se), pp_api_key_id = None\<rparr>))))))))))))"

definition key_status_text :: "key_status \<Rightarrow> string" where
  "key_status_text s = (case s of KeyActive \<Rightarrow> ''active'' | KeyRevoked \<Rightarrow> ''revoked'' | KeyExpired \<Rightarrow> ''expired'')"

definition authenticate_api_key :: "iam_env \<Rightarrow> ustr \<Rightarrow> (iam_db, principal) act" where
  "authenticate_api_key env raw_key =
     bnd (query (get_by_prefix (take 12 raw_key))) (\<lambda>found.
     bnd (need found (err ApiKeyNotFoundError ''Invalid API key'')) (\<lambda>(key, key_hash).
     bnd (ensure (verify_api_key env raw_key key_hash) (err ApiKeyNotFoundError ''Invalid API key'')) (\<lambda>_.
     bnd (ensure (ak_status key = KeyActive)
        (err AuthenticationError (''API key is '' @ key_status_text (ak_status key)))) (\<lambda>_.
     bnd (ensure (case ak_expires_at key of None \<Rightarrow> True | Some t \<Rightarrow> \<not> t \<le> ie_now env)
        (err AuthenticationError ''API key expired'')) (\<lambda>_.
     bnd (query (\<lambda>db. require_some (org_get_by_id (ak_organization_id key) db)
        (err OrganizationNotFoundError (''Organization '' @ uuid_text (ak_organization_id key) @ '' not found'')))) (\<lambda>org.
     bnd (change (touch_last_used (ie_now env) (ak_id key))) (\<lambda>_.
       ret \<lparr>pp_user_id = None, pp_organization_id = ak_organization_id key, pp_tenant_id = Some (or_tenant_id org),
            pp_role_slug = Some (u ''api_key''),
            pp_permissions = (if ak_permissions key \<noteq> [] then set (ak_permissions key)
                              else resolve_permissions (u ''developer'') None None),
            pp_auth_method = ApiKeyAuth, pp_session_id = None, pp_api_key_id = Some (ak_id key)\<rparr>)))))))"

definition validate_organization_access :: "principal \<Rightarrow> uuid \<Rightarrow> exn + unit" where
  "validate_organization_access p org_id =
     (if pp_organization_id p \<noteq> org_id
      then Inl (err CrossOrganizationAccessError ''Cross-organization access denied'') else Inr ())"

definition validate_tenant_access :: "principal \<Rightarrow> uuid \<Rightarrow> iam_db \<Rightarrow> exn + unit" where
  "validate_tenant_access p tenant_id db =
     bind_sum (org_get_by_tenant_id tenant_id db) (\<lambda>found.
     bind_sum (require_some found (err OrganizationNotFoundError (''No organization for tenant '' @ uuid_text tenant_id))) (\<lambda>org.
       if pp_organization_id p \<noteq> or_id org then Inl (err CrossOrganizationAccessError ''Cross-tenant access denied'')
       else if pp_tenant_id p \<noteq> None \<and> pp_tenant_id p \<noteq> Some tenant_id
            then Inl (err CrossOrganizationAccessError ''Cross-tenant access denied'')
            else Inr ()))"

section \<open>Identifiers round trip\<close>

lemma hex_val_char: "d < 16 \<Longrightarrow> hex_val (hex_char d) = Some d"
  by (auto simp: hex_val_def hex_char_def Let_def)

lemma hex_char_range: "d < 16 \<Longrightarrow> of_char (hex_char d) \<in> {48..57} \<union> {97..102::nat}"
  by (auto simp: hex_char_def)

definition hex_text :: "string \<Rightarrow> bool" where
  "hex_text s \<longleftrightarrow> (\<forall>c\<in>set s. of_char c \<in> {48..57} \<union> {97..102::nat})"

lemma uuid_hex_text: "hex_text (uuid_hex n)"
  unfolding hex_text_def uuid_hex_def using hex_char_range [of "n div 16 ^ i mod 16" for i] by auto

lemma length_uuid_hex [simp]: "length (uuid_hex n) = 32"
  by (simp add: uuid_hex_def)

lemma remove_sub_none: "p \<noteq> [] \<Longrightarrow> hd p \<notin> set s \<Longrightarrow> remove_sub p s = s"
proof (induction s)
  case (Cons x xs)
  then have "\<not> startswith (x # xs) p" by (cases p) (auto simp: startswith_def)
  with Cons show ?case by simp
qed simp

lemma remove_dash: "remove_sub ''-'' s = filter (\<lambda>c. c \<noteq> CHR ''-'') s"
  by (induction s) (auto simp: startswith_def)

lemma hex_digits_fold:
  "hex_text s \<Longrightarrow> s \<noteq> [] \<or> d \<Longrightarrow>
   hex_digits d acc s = Some (foldl (\<lambda>a c. a * 16 + the (hex_val c)) acc s)"
proof (induction s arbitrary: d acc)
  case (Cons c cs)
  then have c: "of_char c \<in> {48..57} \<union> {97..102::nat}" by (simp add: hex_text_def)
  have "c \<noteq> CHR ''_''" using c by auto
  moreover obtain v where "hex_val c = Some v" using c by (auto simp: hex_val_def Let_def)
  ultimately show ?case using Cons by (simp add: hex_text_def)
qed simp

lemma hex_fold_digits:
  "foldl (\<lambda>a c. a * 16 + the (hex_val c)) acc (map (\<lambda>i. hex_char (n div 16 ^ i mod 16)) (rev [0..<k]))
     = acc * 16 ^ k + n mod 16 ^ k"
proof (induction k arbitrary: acc)
  case (Suc k)
  have "n mod 16 ^ Suc k = n div 16 ^ k mod 16 * 16 ^ k + n mod 16 ^ k"
    by (metis mod_mult2_eq mult.commute power_Suc2 add.commute)
  with Suc show ?case by (simp add: hex_val_char algebra_simps)
qed simp

lemma dropWhile_none: "\<forall>c\<in>set s. \<not> P c \<Longrightarrow> dropWhile P s = s"
  by (cases s) auto

lemma py_int16_hex:
  assumes "hex_text s" "1 < length s"
  shows "py_int16 s = Some (foldl (\<lambda>a c. a * 16 + the (hex_val c)) 0 s)"
proof -
  obtain a b t where s: "s = a # b # t" using assms(2) by (cases s; cases "tl s") auto
  have r: "of_char c \<in> {48..57} \<union> {97..102::nat}" if "c \<in> set s" for c using assms(1) that by (simp add: hex_text_def)
  have sp: "\<not> py_space (of_char c)" if "c \<in> set s" for c using r [OF that] by (auto simp: py_space_def)
  have b: "b \<noteq> CHR ''x''" "b \<noteq> CHR ''X''" using r [of b] s by auto
  have a: "a \<noteq> CHR ''+''" using r [of a] s by auto
  have d1: "dropWhile (\<lambda>c. py_space (of_char c)) s = s" using sp by (intro dropWhile_none) blast
  have d2: "dropWhile (\<lambda>c. py_space (of_char c)) (rev s) = rev s" using sp by (intro dropWhile_none) simp
  have h: "hex_digits False 0 s = Some (foldl (\<lambda>a c. a * 16 + the (hex_val c)) 0 s)"
    using assms s by (intro hex_digits_fold) auto
  have p: "\<not> startswith s ''+''" "\<not> startswith s ''0x''" "\<not> startswith s ''0X''"
    using a b by (auto simp: s startswith_def)
  show ?thesis
    unfolding py_int16_def Let_def d1 d2 rev_rev_ident
    by (simp only: p h if_False simp_thms)
qed

lemma uuid_text_parts: "filter (\<lambda>c. c \<noteq> CHR ''-'') (uuid_text n) = uuid_hex n"
proof -
  have "\<forall>c\<in>set (uuid_hex n). c \<noteq> CHR ''-''" using uuid_hex_text [of n] by (auto simp: hex_text_def)
  then have f: "filter (\<lambda>c. c \<noteq> CHR ''-'') (take i (drop j (uuid_hex n))) = take i (drop j (uuid_hex n))" for i j
    by (auto intro!: filter_True dest!: in_set_takeD in_set_dropD)
  have "filter (\<lambda>c. c \<noteq> CHR ''-'') (uuid_text n)
      = take 8 (uuid_hex n) @ take 4 (drop 8 (uuid_hex n)) @ take 4 (drop 12 (uuid_hex n)) @ take 4 (drop 16 (uuid_hex n))
        @ drop 20 (uuid_hex n)"
    using f [of 8 0] f [of 4 8] f [of 4 12] f [of 4 16] f [of 12 20] by (simp add: uuid_text_def Let_def)
  also have "\<dots> = uuid_hex n"
    using append_take_drop_id [of 8 "uuid_hex n"] append_take_drop_id [of 4 "drop 8 (uuid_hex n)"]
      append_take_drop_id [of 4 "drop 12 (uuid_hex n)"] append_take_drop_id [of 4 "drop 16 (uuid_hex n)"]
    by (simp del: append_take_drop_id)
  finally show ?thesis .
qed

lemma uuid_text_chars: "c \<in> set (uuid_text n) \<Longrightarrow> c = CHR ''-'' \<or> of_char c \<in> {48..57} \<union> {97..102::nat}"
  using uuid_text_parts [of n, symmetric] uuid_hex_text [of n] by (auto simp: hex_text_def)

text \<open>Reading the text of an identifier gives the identifier back.\<close>

lemma uuid_roundtrip:
  assumes "n < 2 ^ 128"
  shows "uuid_of_string (uuid_text n) = Some n"
proof -
  let ?b = "\<lambda>c. c = CHR ''{'' \<or> c = CHR ''}''"
  have no: "CHR ''u'' \<notin> set (uuid_text n)" "\<forall>c\<in>set (uuid_text n). \<not> ?b c"
    using uuid_text_chars by fastforce+
  have rs: "remove_sub ''uuid:'' (remove_sub ''urn:'' (uuid_text n)) = uuid_text n"
    using no(1) by (simp add: remove_sub_none)
  have d1: "dropWhile ?b (uuid_text n) = uuid_text n"
    using no(2) by (rule dropWhile_none)
  have d2: "dropWhile ?b (rev (uuid_text n)) = rev (uuid_text n)"
    using no(2) by (intro dropWhile_none) simp
  have "n mod 16 ^ 32 = n" using assms by simp
  then have "py_int16 (uuid_hex n) = Some n"
    using py_int16_hex [OF uuid_hex_text] hex_fold_digits [of 0 n 32] by (simp add: uuid_hex_def)
  then show ?thesis
    unfolding uuid_of_string_def Let_def rs d1 d2 rev_rev_ident remove_dash uuid_text_parts by simp
qed

section \<open>What a credential proves\<close>

lemma filter_single: "filter P xs = [x] \<Longrightarrow> x \<in> set xs \<and> P x"
  using set_filter [of P xs] by auto

text \<open>A bearer token is good for the user and the organization it names, with a live session of that very token.\<close>

lemma bearer_sound:
  assumes "authenticate_bearer env token db = Inr p"
  shows "\<exists>c se us m org uid.
      decode_token env token = Inr c \<and> cl_type c = Some (u ''access'') \<and> claim_uuid (cl_sub c) = Inr uid
    \<and> claim_uuid (cl_org c) = Inr (pp_organization_id p)
    \<and> se \<in> set (db_sessions db) \<and> sr_token_hash se = ie_sha256 env token
    \<and> sr_status se = SessionActive \<and> sr_revoked_at se = None \<and> ie_now env < sr_expires_at se
    \<and> us \<in> set (db_users db) \<and> ur_id us = uid
    \<and> m \<in> set (db_memberships db) \<and> mb_organization_id m = pp_organization_id p \<and> mb_user_id m = uid
    \<and> org \<in> set (db_orgs db) \<and> or_id org = pp_organization_id p
    \<and> pp_user_id p = Some uid \<and> pp_tenant_id p = Some (or_tenant_id org)
    \<and> pp_auth_method p = JwtAuth \<and> pp_session_id p = Some (sr_id se)"
proof -
  from assms obtain c uid found se us m org where
    c: "decode_token env token = Inr c" "cl_type c = Some (u ''access'')" "claim_uuid (cl_sub c) = Inr uid"
      "claim_uuid (cl_org c) = Inr (pp_organization_id p)"
    and f: "get_by_token_hash (ie_sha256 env token) db = Inr (Some se)" "assert_session_active (ie_now env) se = Inr ()"
    and us: "user_get_by_id uid db = Some us"
    and m: "get_membership (pp_organization_id p) uid db = Some m"
    and org: "org_get_by_id (pp_organization_id p) db = Some org"
    and p: "pp_user_id p = Some uid" "pp_tenant_id p = Some (or_tenant_id org)" "pp_auth_method p = JwtAuth"
      "pp_session_id p = Some (se_id se)"
    by (auto simp: authenticate_bearer_def bind_sum_Inr_iff require_some_def Let_def split: if_splits option.splits)
  from f(1) obtain r where r: "filter (\<lambda>r. sr_token_hash r = ie_sha256 env token) (db_sessions db) = [r]" "se = session_of_row r"
    by (auto simp: get_by_token_hash_def bind_sum_Inr_iff scalar_one_or_none_def split: list.splits)
  then have r1: "r \<in> set (db_sessions db)" "sr_token_hash r = ie_sha256 env token"
    by (auto dest: filter_single)
  have r2: "sr_status r = SessionActive" "sr_revoked_at r = None" "ie_now env < sr_expires_at r"
    using f(2) r(2) by (auto simp: assert_session_active_def session_of_row_def split: if_splits)
  obtain ru where ru: "ru \<in> set (db_users db)" "ur_id ru = uid"
    using us by (auto simp: user_get_by_id_def dest: row_by_Some)
  obtain rm where rm: "rm \<in> set (db_memberships db)" "mb_organization_id rm = pp_organization_id p" "mb_user_id rm = uid"
  proof -
    have "members (\<lambda>m. mb_organization_id m = pp_organization_id p \<and> mb_user_id m = uid) db \<noteq> []"
      using m by (auto simp: get_membership_def split: list.splits)
    then show ?thesis using that by (auto simp: members_def)
  qed
  have ro: "org \<in> set (db_orgs db)" "or_id org = pp_organization_id p"
    using org by (auto simp: org_get_by_id_def dest: row_by_Some)
  show ?thesis
    using c r1 r2 ru rm ro p r(2) by (metis session_of_row_def session_read.select_convs(1))
qed

text \<open>No status of a user is ever refused: the check compares the enumeration's own value with itself.\<close>

lemma any_member_active: "assert_user_active (Member s) = Inr ()"
  by (simp add: assert_user_active_def)

lemma api_key_sound:
  assumes "authenticate_api_key env raw db = (Inr p, db')"
  shows "\<exists>k org. k \<in> set (db_api_keys db) \<and> ak_key_prefix k = take 12 raw \<and> ak_status k = KeyActive
    \<and> ak_key_hash k = ie_key_mac env raw \<and> (\<forall>t. ak_expires_at k = Some t \<longrightarrow> ie_now env < t)
    \<and> org \<in> set (db_orgs db) \<and> or_id org = ak_organization_id k
    \<and> pp_organization_id p = ak_organization_id k \<and> pp_tenant_id p = Some (or_tenant_id org)
    \<and> pp_user_id p = None \<and> pp_auth_method p = ApiKeyAuth \<and> pp_api_key_id p = Some (ak_id k)
    \<and> db' = touch_last_used (ie_now env) (ak_id k) db"
proof -
  from assms obtain k h org where
    k: "get_by_prefix (take 12 raw) db = Inr (Some (k, h))" "ie_key_mac env raw = h" "ak_status k = KeyActive"
    and e: "case ak_expires_at k of None \<Rightarrow> True | Some t \<Rightarrow> \<not> t \<le> ie_now env"
    and org: "org_get_by_id (ak_organization_id k) db = Some org"
    and p: "pp_organization_id p = ak_organization_id k" "pp_tenant_id p = Some (or_tenant_id org)" "pp_user_id p = None"
      "pp_auth_method p = ApiKeyAuth" "pp_api_key_id p = Some (ak_id k)" "db' = touch_last_used (ie_now env) (ak_id k) db"
    by (auto simp: authenticate_api_key_def act_iffs require_some_def verify_api_key_def split: option.splits prod.splits)
  have k1: "filter (\<lambda>r. ak_key_prefix r = take 12 raw \<and> ak_status r = KeyActive) (db_api_keys db) = [k]" "h = ak_key_hash k"
    using k(1) by (auto simp: get_by_prefix_def bind_sum_Inr_iff scalar_one_or_none_def split: list.splits)
  then have "k \<in> set (db_api_keys db)" "ak_key_prefix k = take 12 raw"
    by (auto dest: filter_single)
  moreover have "org \<in> set (db_orgs db)" "or_id org = ak_organization_id k"
    using org by (auto simp: org_get_by_id_def dest: row_by_Some)
  ultimately show ?thesis using k k1(2) e p by (intro exI [of _ k] exI [of _ org]) (auto split: option.splits)
qed

text \<open>An access token of this service names its user and its organization until it expires.\<close>

lemma access_token_claims:
  assumes "jwt_law env" "0 < ie_access_minutes env" "user_id < 2 ^ 128" "org_id < 2 ^ 128"
  shows "\<exists>c. decode_token env (create_access_token env user_id (Some org_id) role perms) = Inr c
    \<and> cl_type c = Some (u ''access'') \<and> claim_uuid (cl_sub c) = Inr user_id \<and> claim_uuid (cl_org c) = Inr org_id
    \<and> cl_role c = role \<and> cl_permissions c = Some (case perms of None \<Rightarrow> [] | Some p \<Rightarrow> p)"
  using assms by (simp add: decode_token_def create_access_token_def jwt_law_def claim_uuid_def uuid_roundtrip)

text \<open>A refresh token is no bearer token.\<close>

lemma refresh_token_refused:
  assumes "jwt_law env"
  shows "\<exists>e. authenticate_bearer env (create_refresh_token env user_id session_id) db = Inl e"
  using assms
  by (auto simp: authenticate_bearer_def decode_token_def create_refresh_token_def jwt_law_def)

end
