(* ===== verification/IamService.thy ===== *)
theory IamService
  imports IamAuth
begin

text \<open>
  \<^verbatim>\<open>app/infrastructure/iam/iam_service_impl.py\<close> (and its facade \<^verbatim>\<open>app/iam/services/iam_service.py\<close>), with
  \<^verbatim>\<open>policies/security_policy_engine.py\<close>, \<^verbatim>\<open>metrics/collector.py\<close> and \<^verbatim>\<open>audit/audit_service.py\<close>. The state is the
  database and the counters of the process; a request is one transaction (\<^verbatim>\<open>get_session\<close>): when its operation
  raises, the changes of the database are discarded and the counters are kept.
\<close>

section \<open>Policies, counters, audit\<close>

definition last_part :: "ustr \<Rightarrow> ustr" where
  "last_part s = rev (takeWhile (\<lambda>c. c \<noteq> 64) (rev s))"

definition policy_violation :: "string \<Rightarrow> string \<Rightarrow> exn" where
  "policy_violation t v = new_exn SecurityPolicyViolationError (Some (u t)) (Some (JArr [JStr (u v)]))"

definition validate_email_domain :: "policy_read \<Rightarrow> ustr \<Rightarrow> exn + unit" where
  "validate_email_domain policy email =
     (if po_allowed_domains policy = [] then Inr ()
      else let domain = lower (last_part email)
           in if domain \<notin> set (map lower (po_allowed_domains policy))
              then Inl (new_exn SecurityPolicyViolationError (Some (u ''Email domain not allowed: '' @ domain))
                          (Some (JArr [JStr (u ''domain_not_allowed'')])))
              else Inr ())"

definition validate_password :: "policy_read \<Rightarrow> ustr \<Rightarrow> exn + unit" where
  "validate_password policy password =
     (if int (length password) < po_password_min_length policy
      then Inl (policy_violation ''Password does not meet minimum length'' ''password_too_short'') else Inr ())"

definition validate_ip :: "policy_read \<Rightarrow> ustr option \<Rightarrow> exn + unit" where
  "validate_ip policy ip =
     (case ip of
        None \<Rightarrow> Inr ()
      | Some a \<Rightarrow> if po_ip_allowlist policy = [] \<or> a = [] then Inr ()
                  else if a \<notin> set (po_ip_allowlist policy)
                  then Inl (policy_violation ''IP address not in allow list'' ''ip_not_allowed'') else Inr ())"

record iam_metrics =
  im_login_success_count :: nat
  im_login_failure_count :: nat
  im_permission_checks :: nat
  im_policy_violations :: nat
  im_security_alerts :: nat
  im_api_key_usage_count :: nat

definition new_iam_metrics :: iam_metrics where
  "new_iam_metrics = \<lparr>im_login_success_count = 0, im_login_failure_count = 0, im_permission_checks = 0,
     im_policy_violations = 0, im_security_alerts = 0, im_api_key_usage_count = 0\<rparr>"

definition record_login :: "bool \<Rightarrow> iam_metrics \<Rightarrow> iam_metrics" where
  "record_login success m = (if success then m\<lparr>im_login_success_count := im_login_success_count m + 1\<rparr>
     else m\<lparr>im_login_failure_count := im_login_failure_count m + 1\<rparr>)"

definition record_permission_check :: "iam_metrics \<Rightarrow> iam_metrics" where
  "record_permission_check m = m\<lparr>im_permission_checks := im_permission_checks m + 1\<rparr>"

record iam_world =
  iw_db :: iam_db
  iw_metrics :: iam_metrics

type_synonym 'a iam = "(iam_world, 'a) act"

definition on_db :: "(iam_db, 'a) act \<Rightarrow> 'a iam" where
  "on_db m = (\<lambda>w. case m (iw_db w) of (r, db) \<Rightarrow> (r, w\<lparr>iw_db := db\<rparr>))"

definition count_it :: "(iam_metrics \<Rightarrow> iam_metrics) \<Rightarrow> unit iam" where
  "count_it f = change (\<lambda>w. w\<lparr>iw_metrics := f (iw_metrics w)\<rparr>)"

definition audit_log ::
  "iam_env \<Rightarrow> uuid \<Rightarrow> uuid \<Rightarrow> string \<Rightarrow> string \<Rightarrow> uuid option \<Rightarrow> uuid option \<Rightarrow> ustr option \<Rightarrow> json \<Rightarrow> unit iam" where
  "audit_log env new_id organization_id action resource_type resource_id actor_user_id ip payload =
     bnd (on_db (audit_append \<lparr>au_id = new_id, au_organization_id = organization_id, au_actor_user_id = actor_user_id,
            au_actor_type = u ''user'', au_action = u action, au_resource_type = u resource_type,
            au_resource_id = resource_id, au_ip_address = ip, au_payload = payload, au_occurred_at = ie_now env\<rparr>))
       (\<lambda>_. ret ())"

datatype security_event_type =
    LOGIN_SUCCESS | LOGIN_FAILURE | LOGOUT | MFA_FAILURE | PERMISSION_DENIED | POLICY_VIOLATION | API_ABUSE
  | SUSPICIOUS_ACTIVITY | API_KEY_CREATED | API_KEY_REVOKED | ROLE_UPDATED | SESSION_REVOKED

fun event_value :: "security_event_type \<Rightarrow> ustr" where
  "event_value LOGIN_SUCCESS = u ''login_success''"
| "event_value LOGIN_FAILURE = u ''login_failure''"
| "event_value LOGOUT = u ''logout''"
| "event_value MFA_FAILURE = u ''mfa_failure''"
| "event_value PERMISSION_DENIED = u ''permission_denied''"
| "event_value POLICY_VIOLATION = u ''policy_violation''"
| "event_value API_ABUSE = u ''api_abuse''"
| "event_value SUSPICIOUS_ACTIVITY = u ''suspicious_activity''"
| "event_value API_KEY_CREATED = u ''api_key_created''"
| "event_value API_KEY_REVOKED = u ''api_key_revoked''"
| "event_value ROLE_UPDATED = u ''role_updated''"
| "event_value SESSION_REVOKED = u ''session_revoked''"

definition record_event ::
  "iam_env \<Rightarrow> uuid \<Rightarrow> uuid option \<Rightarrow> uuid option \<Rightarrow> security_event_type \<Rightarrow> ustr option \<Rightarrow> json \<Rightarrow> unit iam" where
  "record_event env new_id org_id user_id event_type ip payload =
     bnd (if event_type = LOGIN_FAILURE then count_it (\<lambda>m. m\<lparr>im_security_alerts := im_security_alerts m + 1\<rparr>) else ret ())
     (\<lambda>_. bnd (on_db (event_record \<lparr>ev_id = new_id, ev_organization_id = org_id, ev_user_id = user_id,
            ev_event_type = event_value event_type,
            ev_severity = (if event_type = LOGIN_FAILURE then u ''warning'' else u ''info''),
            ev_ip_address = ip, ev_payload = payload, ev_created_at = ie_now env\<rparr>))
     (\<lambda>_. ret ()))"

section \<open>Permissions\<close>

text \<open>The actor is missing when the caller is a key; a missing identifier matches no row.\<close>

definition check_permission :: "uuid \<Rightarrow> uuid option \<Rightarrow> ustr \<Rightarrow> bool iam" where
  "check_permission org_id user_id permission =
     bnd (count_it record_permission_check) (\<lambda>_.
       query (\<lambda>w. Inr (case Option.bind user_id (\<lambda>i. get_membership org_id i (iw_db w)) of
               None \<Rightarrow> False
             | Some m \<Rightarrow> (case us_role_slug m of
                            None \<Rightarrow> False
                          | Some slug \<Rightarrow> slug \<noteq> [] \<and> engine_has_permission slug permission None None))))"

definition missing_permission :: "iam_permission \<Rightarrow> exn" where
  "missing_permission p =
     new_exn InsufficientPermissionsError (Some (u ''Missing permission: '' @ perm_value p)) (Some (JStr (perm_value p)))"

definition require_permission :: "iam_env \<Rightarrow> uuid \<Rightarrow> uuid \<Rightarrow> uuid option \<Rightarrow> iam_permission \<Rightarrow> unit iam" where
  "require_permission env event_id org_id user_id permission =
     bnd (check_permission org_id user_id (perm_value permission)) (\<lambda>ok.
       if ok then ret ()
       else bnd (count_it (\<lambda>m. m\<lparr>im_policy_violations := im_policy_violations m + 1\<rparr>)) (\<lambda>_.
            bnd (record_event env event_id (Some org_id) user_id PERMISSION_DENIED None
                  (JObj [(u ''permission'', JStr (perm_value permission))])) (\<lambda>_.
            raise (missing_permission permission))))"

section \<open>Organizations and users\<close>

text \<open>The \<open>i\<close>-th fresh identifier of an operation is \<open>ie_uuid env i\<close>; a nested operation draws from its offset.\<close>

definition provision_organization :: "iam_env \<Rightarrow> organization_create \<Rightarrow> org_row iam" where
  "provision_organization env data =
     bnd (on_db (org_create (ie_uuid env 0) data)) (\<lambda>org.
     bnd (on_db (policy_get_or_create (ie_uuid env 1) (or_id org))) (\<lambda>_.
     bnd (audit_log env (ie_uuid env 2) (or_id org) ''organization.created'' ''organization'' (Some (or_id org)) None None JNull) (\<lambda>_.
       ret org)))"

definition org_missing :: "uuid \<Rightarrow> exn" where
  "org_missing org_id = err OrganizationNotFoundError (''Organization '' @ uuid_text org_id @ '' not found'')"

definition register_user :: "iam_env \<Rightarrow> uuid \<Rightarrow> user_create \<Rightarrow> uuid option \<Rightarrow> user_read iam" where
  "register_user env org_id data actor_id =
     bnd (on_db (query (\<lambda>db. require_some (org_get_by_id org_id db) (org_missing org_id)))) (\<lambda>_.
     bnd (on_db (policy_get_or_create (ie_uuid env 3) org_id)) (\<lambda>policy.
     bnd (query (\<lambda>_. validate_password policy (uc_password data))) (\<lambda>_.
     bnd (query (\<lambda>_. validate_email_domain policy (uc_email data))) (\<lambda>_.
     bnd (on_db (repo_user_create (ie_uuid env 4) data (ie_bcrypt env (uc_password data)))) (\<lambda>us.
     bnd (on_db (membership_add (ie_uuid env 5) (ie_now env) org_id (us_id us)
            \<lparr>ui_email = uc_email data, ui_role_slug = uc_role_slug data, ui_department = uc_department data, ui_title = uc_title data\<rparr>)) (\<lambda>member.
     bnd (audit_log env (ie_uuid env 6) org_id ''user.created'' ''user'' (Some (us_id us)) actor_id None JNull) (\<lambda>_.
       ret member)))))))"

definition invite_user :: "iam_env \<Rightarrow> uuid \<Rightarrow> user_invite \<Rightarrow> uuid option \<Rightarrow> user_read iam" where
  "invite_user env org_id invite actor_id =
     bnd (require_permission env (ie_uuid env 0) org_id actor_id MANAGE_USERS) (\<lambda>_.
     bnd (on_db (query (user_get_by_email (ui_email invite)))) (\<lambda>existing.
       case existing of
         Some (us, _) \<Rightarrow> on_db (membership_add (ie_uuid env 1) (ie_now env) org_id (us_id us) invite)
       | None \<Rightarrow>
           let temp_password = u (uuid_text (ie_uuid env 2)) in
           bnd (on_db (repo_user_create (ie_uuid env 3)
                  \<lparr>uc_email = ui_email invite, uc_name = takeWhile (\<lambda>c. c \<noteq> 64) (ui_email invite),
                   uc_password = temp_password, uc_role_slug = ui_role_slug invite,
                   uc_department = ui_department invite, uc_title = ui_title invite\<rparr>
                  (ie_bcrypt env temp_password))) (\<lambda>us.
           bnd (on_db (membership_add (ie_uuid env 4) (ie_now env) org_id (us_id us) invite)) (\<lambda>member.
           bnd (audit_log env (ie_uuid env 5) org_id ''user.invited'' ''user'' (Some (us_id us)) actor_id None
                 (JObj [(u ''email'', JStr (ui_email invite)), (u ''role'', JStr (ui_role_slug invite))])) (\<lambda>_.
             ret member)))))"

section \<open>Logging in and out\<close>

record login_request =
  lr_email :: ustr
  lr_password :: ustr
  lr_organization_id :: "uuid option"

record auth_tokens =
  at_access_token :: ustr
  at_refresh_token :: ustr
  at_expires_in :: int
  at_user :: user_read
  at_organization_id :: "uuid option"

text \<open>
  A set becomes a list in an order of its own: \<open>as_list\<close> is the one \<^verbatim>\<open>list(permissions)\<close> gives.
\<close>

definition as_list :: "ustr set \<Rightarrow> ustr list" where
  "as_list ps = map perm_value (filter (\<lambda>p. perm_value p \<in> ps) ALL_PERMISSIONS)"

definition new_session ::
  "iam_env \<Rightarrow> uuid \<Rightarrow> uuid \<Rightarrow> uuid option \<Rightarrow> ustr option \<Rightarrow> ustr option \<Rightarrow> pyfloat \<Rightarrow> session_read" where
  "new_session env session_id user_id org user_agent ip expires =
     \<lparr>se_id = session_id, se_user_id = user_id, se_organization_id = org, se_browser = user_agent, se_ip_address = ip,
      se_country = None, se_device = None, se_status = SessionActive, se_expires_at = expires, se_revoked_at = None\<rparr>"

text \<open>The arguments that \<^verbatim>\<open>login\<close> gives to \<^verbatim>\<open>SessionRead\<close>.\<close>

definition LOGIN_SESSION_ARGS :: "string list" where
  "LOGIN_SESSION_ARGS =
     [''id'', ''user_id'', ''organization_id'', ''browser'', ''ip_address'', ''device'', ''status'', ''expires_at'',
      ''revoked_at'', ''created_at'', ''updated_at'']"

definition login :: "iam_env \<Rightarrow> login_request \<Rightarrow> ustr option \<Rightarrow> ustr option \<Rightarrow> auth_tokens iam" where
  "login env request ip user_agent =
     bnd (on_db (query (user_get_by_email (lr_email request)))) (\<lambda>creds.
       case (case creds of
               Some (us, Some h) \<Rightarrow> if h \<noteq> [] \<and> ie_checkpw env (lr_password request) h then Some us else None
             | _ \<Rightarrow> None) of
         None \<Rightarrow>
           bnd (count_it (record_login False)) (\<lambda>_.
           bnd (record_event env (ie_uuid env 10) None None LOGIN_FAILURE ip JNull) (\<lambda>_.
           raise (err InvalidCredentialsError ''Invalid email or password'')))
       | Some us \<Rightarrow>
           bnd (case lr_organization_id request of
                  None \<Rightarrow> ret None
                | Some org_id \<Rightarrow>
                    query (\<lambda>w. case get_membership org_id (us_id us) (iw_db w) of
                            None \<Rightarrow> Inl (err InvalidCredentialsError ''User is not a member of this organization'')
                          | Some m \<Rightarrow> Inr (Some m))) (\<lambda>membership.
           bnd (on_db (change (update_last_login (ie_now env) (us_id us)))) (\<lambda>_.
           let role_slug = (case membership of Some m \<Rightarrow> us_role_slug m | None \<Rightarrow> Some (role_value VIEWER));
               org = lr_organization_id request;
               permissions = as_list (case role_slug of Some r \<Rightarrow> resolve_permissions r None None | None \<Rightarrow> {});
               session_id = ie_uuid env 11;
               access = create_access_token env (us_id us) org role_slug (Some permissions);
               refresh = create_refresh_token env (us_id us) session_id;
               expires = ie_now env + of_int (ie_access_minutes env) * 60
           in bnd (query (\<lambda>_. schema_init SESSION_READ_FIELDS LOGIN_SESSION_ARGS)) (\<lambda>_.
              bnd (on_db (session_create (new_session env session_id (us_id us) org user_agent ip expires)
                     (ie_sha256 env access) (Some (ie_sha256 env refresh)))) (\<lambda>_.
              bnd (count_it (record_login True)) (\<lambda>_.
              bnd (case org of
                     None \<Rightarrow> ret ()
                   | Some o1 \<Rightarrow>
                       bnd (audit_log env (ie_uuid env 12) o1 ''auth.login'' ''session'' (Some session_id) (Some (us_id us)) ip JNull)
                       (\<lambda>_. record_event env (ie_uuid env 13) (Some o1) (Some (us_id us)) LOGIN_SUCCESS ip JNull)) (\<lambda>_.
              ret \<lparr>at_access_token = access, at_refresh_token = refresh, at_expires_in = ie_access_minutes env * 60,
                   at_user = (case membership of Some m \<Rightarrow> m | None \<Rightarrow> us), at_organization_id = org\<rparr>)))))))"

definition iam_register :: "iam_env \<Rightarrow> organization_create \<Rightarrow> user_create \<Rightarrow> auth_tokens iam" where
  "iam_register env organization data =
     bnd (provision_organization env organization) (\<lambda>org.
     bnd (register_user env (or_id org) data None) (\<lambda>_.
       login env \<lparr>lr_email = uc_email data, lr_password = uc_password data, lr_organization_id = Some (or_id org)\<rparr> None None))"

text \<open>
  \<^verbatim>\<open>session.refresh_token_hash\<close>: the schema declares no such field, so reading it raises; the hash is a column of the
  row only.
\<close>

definition refresh_hash_attr :: "session_read \<Rightarrow> exn + ustr option" where
  "refresh_hash_attr se = bind_sum (schema_attr SESSION_READ_FIELDS ''refresh_token_hash'') (\<lambda>_. Inr None)"

definition refresh_tokens :: "iam_env \<Rightarrow> ustr \<Rightarrow> auth_tokens iam" where
  "refresh_tokens env refresh_token =
     bnd (query (\<lambda>_. decode_token env refresh_token)) (\<lambda>payload.
     bnd (ensure (cl_type payload = Some (u ''refresh'')) (err InvalidCredentialsError ''Invalid refresh token'')) (\<lambda>_.
     bnd (query (\<lambda>_. claim_uuid (cl_sid payload))) (\<lambda>session_id.
     bnd (query (\<lambda>_. claim_uuid (cl_sub payload))) (\<lambda>user_id.
     bnd (on_db (query (\<lambda>db. require_some (session_get_by_id session_id db) (err IamSessionNotFoundError ''Session not found'')))) (\<lambda>se.
     bnd (ensure (se_status se = SessionActive \<and> se_revoked_at se = None) (err TokenExpiredError ''Session revoked'')) (\<lambda>_.
     bnd (ensure (\<not> se_expires_at se \<le> ie_now env) (err TokenExpiredError ''Session expired'')) (\<lambda>_.
     bnd (query (\<lambda>_. refresh_hash_attr se)) (\<lambda>kept.
     bnd (ensure (kept = Some (ie_sha256 env refresh_token)) (err InvalidCredentialsError ''Invalid refresh token'')) (\<lambda>_.
     bnd (on_db (query (\<lambda>db. require_some (user_get_by_id user_id db)
        (err IamUserNotFoundError (''User '' @ uuid_text user_id @ '' not found''))))) (\<lambda>us.
     bnd (ensure (us_status us = UserActive)
        (new_exn AuthenticationError (Some (u ''User account is '' @ user_status_value (us_status us))) None)) (\<lambda>_.
     bnd (case se_organization_id se of
            None \<Rightarrow> ret None
          | Some org_id \<Rightarrow>
              on_db (query (\<lambda>db. case get_membership org_id user_id db of
                 None \<Rightarrow> Inl (err InvalidCredentialsError ''User is not a member of this organization'')
               | Some m \<Rightarrow> Inr (Some m)))) (\<lambda>membership.
     let role_slug = (case membership of Some m \<Rightarrow> us_role_slug m | None \<Rightarrow> Some (role_value VIEWER));
         permissions = as_list (case role_slug of Some r \<Rightarrow> resolve_permissions r None None | None \<Rightarrow> {});
         access = create_access_token env user_id (se_organization_id se) role_slug (Some permissions);
         refresh = create_refresh_token env user_id session_id;
         expires = ie_now env + of_int (ie_access_minutes env) * 60
     in bnd (on_db (update_tokens session_id (ie_sha256 env access) (ie_sha256 env refresh) expires)) (\<lambda>_.
          ret \<lparr>at_access_token = access, at_refresh_token = refresh, at_expires_in = ie_access_minutes env * 60,
               at_user = (case membership of Some m \<Rightarrow> m | None \<Rightarrow> us), at_organization_id = se_organization_id se\<rparr>)))))))))))))"

definition revoke_session :: "iam_env \<Rightarrow> uuid \<Rightarrow> uuid option \<Rightarrow> session_read iam" where
  "revoke_session env session_id actor_id =
     bnd (on_db (session_revoke (ie_now env) session_id)) (\<lambda>se.
     bnd (case se_organization_id se of
            None \<Rightarrow> ret ()
          | Some o1 \<Rightarrow> audit_log env (ie_uuid env 0) o1 ''session.revoked'' ''session'' (Some session_id) actor_id None JNull) (\<lambda>_.
       ret se))"

definition logout :: "iam_env \<Rightarrow> ustr \<Rightarrow> uuid option \<Rightarrow> session_read iam" where
  "logout env access_token actor_id =
     bnd (on_db (query (get_by_token_hash (ie_sha256 env access_token)))) (\<lambda>found.
     bnd (need found (err IamSessionNotFoundError ''Session not found'')) (\<lambda>se.
     bnd (ensure (Some (se_user_id se) = actor_id) (err InsufficientPermissionsError ''Cannot revoke another user's session'')) (\<lambda>_.
       revoke_session env (se_id se) actor_id)))"

record current_user =
  cu_user :: user_read
  cu_organization_id :: uuid
  cu_tenant_id :: "uuid option"
  cu_role_slug :: "ustr option"
  cu_permissions :: "ustr list"

definition get_current_user_profile :: "uuid \<Rightarrow> uuid \<Rightarrow> current_user iam" where
  "get_current_user_profile user_id organization_id =
     on_db (query (\<lambda>db. bind_sum (require_some (user_get_by_id user_id db)
          (err IamUserNotFoundError (''User '' @ uuid_text user_id @ '' not found''))) (\<lambda>us.
       let membership = get_membership organization_id user_id db;
           slug = (case membership of Some m \<Rightarrow> us_role_slug m | None \<Rightarrow> Some (role_value VIEWER))
       in Inr \<lparr>cu_user = (case membership of Some m \<Rightarrow> m | None \<Rightarrow> us), cu_organization_id = organization_id,
               cu_tenant_id = map_option or_tenant_id (org_get_by_id organization_id db),
               cu_role_slug = (case membership of Some m \<Rightarrow> us_role_slug m | None \<Rightarrow> None),
               cu_permissions = as_list (case slug of Some r \<Rightarrow> resolve_permissions r None None | None \<Rightarrow> {})\<rparr>)))"

section \<open>API keys\<close>

text \<open>The answer is the row and the secret, which is shown only here.\<close>

definition create_api_key :: "iam_env \<Rightarrow> uuid \<Rightarrow> api_key_create \<Rightarrow> uuid option \<Rightarrow> (api_key_row \<times> ustr) iam" where
  "create_api_key env org_id data created_by =
     bnd (require_permission env (ie_uuid env 0) org_id created_by MANAGE_API_KEYS) (\<lambda>_.
     case generate_api_key env of (full_key, pre, key_hash) \<Rightarrow>
     bnd (on_db (api_key_create_row (ie_uuid env 1) org_id data pre key_hash created_by)) (\<lambda>key.
     bnd (audit_log env (ie_uuid env 2) org_id ''api_key.created'' ''api_key'' (Some (ak_id key)) created_by None JNull) (\<lambda>_.
       ret (key, full_key))))"

definition revoke_api_key :: "iam_env \<Rightarrow> uuid \<Rightarrow> uuid \<Rightarrow> uuid option \<Rightarrow> api_key_row iam" where
  "revoke_api_key env org_id key_id actor_id =
     bnd (require_permission env (ie_uuid env 0) org_id actor_id MANAGE_API_KEYS) (\<lambda>_.
     bnd (on_db (api_key_revoke org_id key_id)) (\<lambda>key.
     bnd (audit_log env (ie_uuid env 1) org_id ''api_key.revoked'' ''api_key'' (Some key_id) actor_id None JNull) (\<lambda>_.
       ret key)))"

definition service_authenticate_api_key :: "iam_env \<Rightarrow> ustr \<Rightarrow> (api_key_row \<times> uuid) iam" where
  "service_authenticate_api_key env raw_key =
     bnd (on_db (query (get_by_prefix (take 12 raw_key)))) (\<lambda>found.
     bnd (need (case found of Some (k, h) \<Rightarrow> if verify_api_key env raw_key h then Some k else None | None \<Rightarrow> None)
        (err ApiKeyNotFoundError ''Invalid API key'')) (\<lambda>key.
     bnd (on_db (change (touch_last_used (ie_now env) (ak_id key)))) (\<lambda>_.
     bnd (count_it (\<lambda>m. m\<lparr>im_api_key_usage_count := im_api_key_usage_count m + 1\<rparr>)) (\<lambda>_.
       ret (key, ak_organization_id key)))))"

section \<open>Listings, roles, policies\<close>

definition list_users :: "iam_env \<Rightarrow> uuid \<Rightarrow> uuid option \<Rightarrow> user_read list iam" where
  "list_users env org_id actor_id =
     bnd (require_permission env (ie_uuid env 0) org_id actor_id MANAGE_USERS) (\<lambda>_.
       on_db (query (\<lambda>db. Inr (membership_list_for_org org_id db))))"

definition list_sessions :: "uuid \<Rightarrow> session_read list iam" where
  "list_sessions user_id = on_db (query (\<lambda>db. Inr (session_list_for_user user_id db)))"

definition get_security_policy :: "iam_env \<Rightarrow> uuid \<Rightarrow> policy_read iam" where
  "get_security_policy env org_id = on_db (policy_get_or_create (ie_uuid env 0) org_id)"

definition update_security_policy :: "iam_env \<Rightarrow> uuid \<Rightarrow> policy_update \<Rightarrow> uuid option \<Rightarrow> policy_read iam" where
  "update_security_policy env org_id data actor_id =
     bnd (require_permission env (ie_uuid env 0) org_id actor_id MANAGE_SECURITY) (\<lambda>_.
     bnd (on_db (policy_update_row (ie_uuid env 1) org_id data)) (\<lambda>policy.
     bnd (audit_log env (ie_uuid env 2) org_id ''security_policy.updated'' ''security_policy'' None actor_id None JNull) (\<lambda>_.
       ret policy)))"

definition list_permissions :: "(ustr \<times> string \<times> string) list" where
  "list_permissions = map (\<lambda>(p, name, category). (perm_value p, name, category)) PERMISSION_CATALOG"

definition list_roles :: "uuid \<Rightarrow> role_row list iam" where
  "list_roles org_id = on_db (query (\<lambda>db. Inr (role_list_for_org org_id db)))"

definition create_role :: "iam_env \<Rightarrow> uuid \<Rightarrow> role_create \<Rightarrow> uuid option \<Rightarrow> role_row iam" where
  "create_role env org_id data actor_id =
     bnd (require_permission env (ie_uuid env 0) org_id actor_id MANAGE_ROLES) (\<lambda>_.
     bnd (on_db (repo_role_create (ie_uuid env 1) org_id data)) (\<lambda>role.
     bnd (audit_log env (ie_uuid env 2) org_id ''role.created'' ''role'' (Some (rr_id role)) actor_id None JNull) (\<lambda>_.
       ret role)))"

definition list_audit_logs :: "iam_env \<Rightarrow> nat \<Rightarrow> uuid \<Rightarrow> uuid option \<Rightarrow> audit_row list iam" where
  "list_audit_logs env limit org_id actor_id =
     bnd (require_permission env (ie_uuid env 0) org_id actor_id VIEW_AUDIT_LOGS) (\<lambda>_.
       on_db (query (\<lambda>db. Inr (audit_list_for_org limit org_id db))))"

definition list_api_keys :: "uuid \<Rightarrow> api_key_row list iam" where
  "list_api_keys org_id = on_db (query (\<lambda>db. Inr (api_key_list_for_org org_id db)))"

text \<open>The snapshot: the counters, and a number of active sessions that is always zero.\<close>

definition get_metrics :: "uuid \<Rightarrow> (iam_metrics \<times> nat) iam" where
  "get_metrics org_id = query (\<lambda>w. Inr (iw_metrics w, 0))"

definition get_organization :: "uuid \<Rightarrow> org_row iam" where
  "get_organization org_id = on_db (query (\<lambda>db. require_some (org_get_by_id org_id db) (org_missing org_id)))"

definition get_organization_by_tenant :: "uuid \<Rightarrow> org_row option iam" where
  "get_organization_by_tenant tenant_id = on_db (query (org_get_by_tenant_id tenant_id))"

section \<open>Transactions\<close>

text \<open>
  A route's session commits when the route returns; when it raises, the generator is closed before the commit and
  the changes are discarded.
\<close>

definition in_transaction :: "'a iam \<Rightarrow> 'a iam" where
  "in_transaction m w = (case m w of
       (Inr x, w') \<Rightarrow> (Inr x, w')
     | (Inl e, w') \<Rightarrow> (Inl e, w'\<lparr>iw_db := iw_db w\<rparr>))"

section \<open>Requests\<close>

text \<open>The operations of the facade, as requests in any order; each is served in its own transaction.\<close>

datatype iam_request =
    Provision organization_create
  | RegisterUser uuid user_create "uuid option"
  | InviteUser uuid user_invite "uuid option"
  | Login login_request "ustr option" "ustr option"
  | Register organization_create user_create
  | Refresh ustr
  | Logout ustr "uuid option"
  | Profile uuid uuid
  | CreateApiKey uuid api_key_create "uuid option"
  | RevokeApiKey uuid uuid "uuid option"
  | ApiKeyAccess ustr
  | ListUsers uuid "uuid option"
  | ListSessions uuid
  | RevokeSession uuid "uuid option"
  | GetPolicy uuid
  | UpdatePolicy uuid policy_update "uuid option"
  | ListRoles uuid
  | CreateRole uuid role_create "uuid option"
  | ListAudit uuid "uuid option" nat
  | ListApiKeys uuid
  | GetMetrics uuid
  | GetOrganization uuid
  | OrganizationByTenant uuid

definition done_with :: "'a iam \<Rightarrow> unit iam" where
  "done_with m = bnd m (\<lambda>_. ret ())"

fun serve :: "iam_env \<Rightarrow> iam_request \<Rightarrow> unit iam" where
  "serve env (Provision d) = done_with (provision_organization env d)"
| "serve env (RegisterUser o1 d a) = done_with (register_user env o1 d a)"
| "serve env (InviteUser o1 d a) = done_with (invite_user env o1 d a)"
| "serve env (Login r ip agent) = done_with (login env r ip agent)"
| "serve env (Register o1 d) = done_with (iam_register env o1 d)"
| "serve env (Refresh t) = done_with (refresh_tokens env t)"
| "serve env (Logout t a) = done_with (logout env t a)"
| "serve env (Profile a o1) = done_with (get_current_user_profile a o1)"
| "serve env (CreateApiKey o1 d a) = done_with (create_api_key env o1 d a)"
| "serve env (RevokeApiKey o1 k a) = done_with (revoke_api_key env o1 k a)"
| "serve env (ApiKeyAccess raw) = done_with (service_authenticate_api_key env raw)"
| "serve env (ListUsers o1 a) = done_with (list_users env o1 a)"
| "serve env (ListSessions a) = done_with (list_sessions a)"
| "serve env (RevokeSession s a) = done_with (revoke_session env s a)"
| "serve env (GetPolicy o1) = done_with (get_security_policy env o1)"
| "serve env (UpdatePolicy o1 d a) = done_with (update_security_policy env o1 d a)"
| "serve env (ListRoles o1) = done_with (list_roles o1)"
| "serve env (CreateRole o1 d a) = done_with (create_role env o1 d a)"
| "serve env (ListAudit o1 a n) = done_with (list_audit_logs env n o1 a)"
| "serve env (ListApiKeys o1) = done_with (list_api_keys o1)"
| "serve env (GetMetrics o1) = done_with (get_metrics o1)"
| "serve env (GetOrganization o1) = done_with (get_organization o1)"
| "serve env (OrganizationByTenant t) = done_with (get_organization_by_tenant t)"

text \<open>A service's life: requests, each with its own clock and identifiers.\<close>

fun serve_all :: "(iam_env \<times> iam_request) list \<Rightarrow> iam_world \<Rightarrow> iam_world" where
  "serve_all [] w = w"
| "serve_all ((env, r) # rs) w = serve_all rs (snd (in_transaction (serve env r) w))"

section \<open>The service keeps what the repositories keep\<close>

context store_relation
begin

definition keeps :: "'a iam \<Rightarrow> bool" where
  "keeps m \<longleftrightarrow> (\<forall>w. R (iw_db w) (iw_db (snd (m w))))"

lemma keeps_ret [intro!]: "keeps (ret x)" "keeps (raise e)" "keeps (query q)" "keeps (ensure b e)" "keeps (need v e)"
  by (auto simp: keeps_def R_refl ensure_def need_def split: option.split)

lemma keeps_count [intro!]: "keeps (count_it f)"
  by (simp add: keeps_def count_it_def R_refl)

lemma keeps_bnd [intro!]:
  assumes "keeps m" "\<And>x. keeps (f x)"
  shows "keeps (bnd m f)"
  unfolding keeps_def
proof
  fix w
  obtain r w1 where m: "m w = (r, w1)" by (cases "m w")
  have 1: "R (iw_db w) (iw_db w1)" using assms(1) m by (metis keeps_def snd_conv)
  show "R (iw_db w) (iw_db (snd (bnd m f w)))"
  proof (cases r)
    case (Inl e)
    with 1 m show ?thesis by simp
  next
    case (Inr x)
    with R_trans [OF 1] assms(2) m show ?thesis by (simp add: keeps_def)
  qed
qed

lemma keeps_on_db: "(\<And>db. R db (snd (m db))) \<Longrightarrow> keeps (on_db m)"
  unfolding keeps_def on_db_def by (auto split: prod.splits) (metis snd_conv)

lemma keeps_store [intro!]:
  "keeps (on_db (query q))"
  "keeps (on_db (org_create i oc))"
  "keeps (on_db (repo_user_create i uc h))"
  "keeps (on_db (change (update_last_login now i)))"
  "keeps (on_db (membership_add i now org_id user_id invite))"
  "keeps (on_db (repo_role_create i org_id rc))"
  "keeps (on_db (api_key_create_row i org_id kc pre h cb))"
  "keeps (on_db (api_key_revoke org_id i))"
  "keeps (on_db (change (touch_last_used now i)))"
  "keeps (on_db (session_create se h rh))"
  "keeps (on_db (session_revoke now i))"
  "keeps (on_db (update_tokens i h h2 t))"
  "keeps (on_db (policy_get_or_create i org_id))"
  "keeps (on_db (policy_update_row i org_id up))"
  "keeps (on_db (audit_append entry))"
  "keeps (on_db (event_record ev))"
  by (rule keeps_on_db; simp add: R_refl R_org_create R_user_create R_last_login R_membership_add R_role_create
      R_key_create R_key_revoke R_touch R_session_create R_session_revoke R_update_tokens R_policy_get R_policy_update
      R_audit R_event)+

lemma keeps_cases [intro!]:
  "keeps m \<Longrightarrow> keeps m' \<Longrightarrow> keeps (if c then m else m')"
  "keeps m \<Longrightarrow> (\<And>x. keeps (f x)) \<Longrightarrow> keeps (case v of None \<Rightarrow> m | Some x \<Rightarrow> f x)"
  "(\<And>x y. keeps (g x y)) \<Longrightarrow> keeps (case p of (x, y) \<Rightarrow> g x y)"
  "(\<And>x. keeps (h x)) \<Longrightarrow> keeps (let x = t in h x)"
  by (auto split: option.split prod.split)

lemma keeps_log [intro!]:
  "keeps (audit_log env i o1 action rt ri actor ip payload)"
  "keeps (record_event env i o2 us2 et ip payload)"
  "keeps (check_permission o1 us p)"
  unfolding audit_log_def record_event_def check_permission_def by blast+

lemma keeps_require [intro!]: "keeps (require_permission env i o1 us p)"
  unfolding require_permission_def by blast

lemma keeps_registering [intro!]:
  "keeps (provision_organization env oc)"
  "keeps (register_user env o1 uc actor)"
  "keeps (invite_user env o1 invite actor_id)"
  unfolding provision_organization_def register_user_def invite_user_def by blast+

lemma keeps_login [intro!]: "keeps (login env r ip agent)"
  unfolding login_def by blast

lemma keeps_tokens [intro!]:
  "keeps (iam_register env oc uc)"
  "keeps (refresh_tokens env t)"
  "keeps (revoke_session env s actor_id)"
  "keeps (logout env t actor_id)"
  unfolding iam_register_def refresh_tokens_def logout_def revoke_session_def by blast+

lemma keeps_rest [intro!]:
  "keeps (get_current_user_profile us o1)"
  "keeps (create_api_key env o1 kc actor_id)"
  "keeps (revoke_api_key env o1 k actor_id)"
  "keeps (service_authenticate_api_key env raw)"
  "keeps (list_users env o1 actor_id)"
  "keeps (list_sessions us)"
  "keeps (get_security_policy env o1)"
  "keeps (update_security_policy env o1 up actor_id)"
  "keeps (list_roles o1)"
  "keeps (create_role env o1 rc actor_id)"
  "keeps (list_audit_logs env n o1 actor_id)"
  "keeps (list_api_keys o1)"
  "keeps (get_metrics o1)"
  "keeps (get_organization o1)"
  "keeps (get_organization_by_tenant o1)"
  unfolding get_current_user_profile_def create_api_key_def revoke_api_key_def service_authenticate_api_key_def
    list_users_def list_sessions_def get_security_policy_def update_security_policy_def list_roles_def create_role_def
    list_audit_logs_def list_api_keys_def get_metrics_def get_organization_def get_organization_by_tenant_def
  by blast+

lemma keeps_serve: "keeps (serve env r)"
  by (cases r) (auto simp: done_with_def)

lemma keeps_transaction: "keeps m \<Longrightarrow> keeps (in_transaction m)"
  by (auto simp: keeps_def in_transaction_def R_refl split: prod.splits sum.splits) (metis snd_conv)

lemma keeps_serve_all: "R (iw_db w) (iw_db (serve_all rs w))"
proof (induction rs arbitrary: w)
  case (Cons r rs)
  obtain env q where r: "r = (env, q)" by (cases r)
  have "R (iw_db w) (iw_db (snd (in_transaction (serve env q) w)))"
    using keeps_transaction [OF keeps_serve] by (simp add: keeps_def)
  with R_trans [OF this Cons.IH] r show ?case by simp
qed (simp add: R_refl)

end

end
