(* ===== verification/IamGuarantees.thy ===== *)
theory IamGuarantees
  imports IamService
begin

text \<open>
  What the operations of \<open>IamService\<close> guarantee, and what they cannot do: permissions are asked of members of the
  organization, a refused request leaves the database as it was, a revoked key stays refused; no request hands out
  tokens, and no request brings an account into an empty database.
\<close>

section \<open>Permissions\<close>

definition member_allowed :: "uuid \<Rightarrow> uuid option \<Rightarrow> iam_permission \<Rightarrow> iam_db \<Rightarrow> bool" where
  "member_allowed org_id user_id p db \<longleftrightarrow>
     (\<exists>i m slug. user_id = Some i \<and> get_membership org_id i db = Some m \<and> us_role_slug m = Some slug \<and> slug \<noteq> []
        \<and> perm_value p \<in> resolve_permissions slug None None)"

lemma on_db_query [simp]: "on_db (query q) w = (q (iw_db w), w)"
  by (simp add: on_db_def)

lemma on_db_change [simp]: "on_db (change f) w = (Inr (), w\<lparr>iw_db := f (iw_db w)\<rparr>)"
  by (simp add: on_db_def)

lemma on_db_Inr: "on_db m w = (Inr x, w') \<longleftrightarrow> (\<exists>db. m (iw_db w) = (Inr x, db) \<and> w' = w\<lparr>iw_db := db\<rparr>)"
  by (auto simp: on_db_def split: prod.splits)

lemma count_it_simp [simp]: "count_it f w = (Inr (), w\<lparr>iw_metrics := f (iw_metrics w)\<rparr>)"
  by (simp add: count_it_def)

lemma check_permission_simp:
  "check_permission org_id user_id (perm_value p) w =
     (Inr (member_allowed org_id user_id p (iw_db w)), w\<lparr>iw_metrics := record_permission_check (iw_metrics w)\<rparr>)"
  by (auto simp: check_permission_def bnd_def member_allowed_def engine_has_permission_def split: option.splits bind_splits)

lemma require_allowed:
  "member_allowed org_id user_id p (iw_db w) \<Longrightarrow>
   require_permission env i org_id user_id p w = (Inr (), w\<lparr>iw_metrics := record_permission_check (iw_metrics w)\<rparr>)"
  by (simp add: require_permission_def bnd_def check_permission_simp)

lemma require_denied:
  "\<not> member_allowed org_id user_id p (iw_db w) \<Longrightarrow>
   \<exists>e w'. require_permission env i org_id user_id p w = (Inl e, w')
     \<and> im_policy_violations (iw_metrics w') = im_policy_violations (iw_metrics w) + 1"
  by (auto simp: require_permission_def bnd_def check_permission_simp record_event_def on_db_def event_record_def
      record_permission_check_def split: prod.splits)

lemma require_iff:
  "fst (require_permission env i org_id user_id p w) = Inr () \<longleftrightarrow> member_allowed org_id user_id p (iw_db w)"
  using require_allowed [of org_id user_id p w env i] require_denied [of org_id user_id p w env i]
  by (cases "member_allowed org_id user_id p (iw_db w)") auto

text \<open>The requests that ask for a permission, with the organization, the actor and the permission.\<close>

fun guard_of :: "iam_request \<Rightarrow> (uuid \<times> uuid option \<times> iam_permission) option" where
  "guard_of (InviteUser o1 d a) = Some (o1, a, MANAGE_USERS)"
| "guard_of (CreateApiKey o1 d a) = Some (o1, a, MANAGE_API_KEYS)"
| "guard_of (RevokeApiKey o1 k a) = Some (o1, a, MANAGE_API_KEYS)"
| "guard_of (ListUsers o1 a) = Some (o1, a, MANAGE_USERS)"
| "guard_of (UpdatePolicy o1 d a) = Some (o1, a, MANAGE_SECURITY)"
| "guard_of (CreateRole o1 d a) = Some (o1, a, MANAGE_ROLES)"
| "guard_of (ListAudit o1 a n) = Some (o1, a, VIEW_AUDIT_LOGS)"
| "guard_of _ = None"

lemma bnd_fails_first: "m w = (Inl e, w') \<Longrightarrow> bnd m f w = (Inl e, w')"
  by simp

text \<open>A request whose actor lacks the permission changes nothing in the database, not even the log of events.\<close>

lemma denied_request:
  assumes "guard_of r = Some (o1, a, p)" "\<not> member_allowed o1 a p (iw_db w)"
  shows "\<exists>e w'. in_transaction (serve env r) w = (Inl e, w') \<and> iw_db w' = iw_db w
    \<and> im_policy_violations (iw_metrics w') = im_policy_violations (iw_metrics w) + 1"
proof -
  have d: "\<exists>e w'. require_permission env (ie_uuid env 0) o1 a p w = (Inl e, w')
      \<and> im_policy_violations (iw_metrics w') = im_policy_violations (iw_metrics w) + 1"
    using require_denied [OF assms(2)] .
  then obtain e w' where e: "require_permission env (ie_uuid env 0) o1 a p w = (Inl e, w')"
      "im_policy_violations (iw_metrics w') = im_policy_violations (iw_metrics w) + 1" by blast
  have "serve env r w = (Inl e, w')"
    using assms(1) e(1)
    by (cases r) (auto simp: done_with_def invite_user_def create_api_key_def revoke_api_key_def list_users_def
        update_security_policy_def create_role_def list_audit_logs_def bnd_fails_first)
  with e(2) show ?thesis by (simp add: in_transaction_def)
qed

section \<open>Tokens\<close>

text \<open>Logging in raises on every path: with wrong credentials, and with correct ones for the missing field.\<close>

lemma login_fails: "\<exists>e w'. login env r ip agent w = (Inl e, w')"
proof -
  have "schema_init SESSION_READ_FIELDS LOGIN_SESSION_ARGS = Inl validation_error"
    by (simp add: schema_init_def SESSION_READ_FIELDS_def LOGIN_SESSION_ARGS_def)
  then show ?thesis
    by (simp add: login_def bnd_def Let_def split: sum.split prod.split option.split)
qed

lemma login_correct:
  assumes "user_get_by_email (lr_email r) (iw_db w) = Inr (Some (us, Some h))" "h \<noteq> []" "ie_checkpw env (lr_password r) h"
    and "case lr_organization_id r of None \<Rightarrow> True | Some o1 \<Rightarrow> get_membership o1 (us_id us) (iw_db w) \<noteq> None"
  shows "fst (login env r ip agent w) = Inl validation_error"
proof -
  have "schema_init SESSION_READ_FIELDS LOGIN_SESSION_ARGS = Inl validation_error"
    by (simp add: schema_init_def SESSION_READ_FIELDS_def LOGIN_SESSION_ARGS_def)
  then show ?thesis
    using assms by (auto simp: login_def bnd_def Let_def split: sum.split prod.split option.splits)
qed

lemma refresh_fails: "\<exists>e w'. refresh_tokens env t w = (Inl e, w')"
proof -
  have "refresh_hash_attr se = Inl attribute_error" for se
    by (simp add: refresh_hash_attr_def schema_attr_def SESSION_READ_FIELDS_def)
  then show ?thesis
    by (simp add: refresh_tokens_def bnd_def Let_def ensure_def split: sum.split prod.split option.split)
qed

lemma bnd_fails: "(\<And>x w. \<exists>e w'. f x w = (Inl e, w')) \<Longrightarrow> \<exists>e w'. bnd m f w = (Inl e, w')"
  unfolding bnd_def by (cases "m w"; cases "fst (m w)") (auto split: sum.split)

lemma register_fails: "\<exists>e w'. iam_register env oc uc w = (Inl e, w')"
  unfolding iam_register_def by (intro bnd_fails login_fails)

lemma no_tokens:
  assumes "r = Login lr ip agent \<or> r = Register oc uc \<or> r = Refresh t"
  shows "\<exists>e w'. in_transaction (serve env r) w = (Inl e, w') \<and> iw_db w' = iw_db w"
proof -
  have "\<exists>e w'. serve env r w = (Inl e, w')"
    using assms login_fails [of env lr ip agent w] register_fails [of env oc uc w] refresh_fails [of env t w]
    by (auto simp: done_with_def bnd_def)
  then show ?thesis by (auto simp: in_transaction_def)
qed

section \<open>A fresh deployment\<close>

text \<open>A new organization's policy row holds null lists, which the schema of a policy refuses.\<close>

lemma new_policy_refused: "policy_of_row (new_policy_row i o1) = Inl validation_error"
  by (simp add: policy_of_row_def new_policy_row_def)

lemma provision_fails:
  assumes "set (map pr_organization_id (db_policies (iw_db w))) \<subseteq> set (map or_id (db_orgs (iw_db w)))"
  shows "\<exists>e w'. provision_organization env oc w = (Inl e, w')"
proof (cases "fst (org_create (ie_uuid env 0) oc (iw_db w))")
  case (Inl e)
  then show ?thesis
    by (auto simp: provision_organization_def bnd_def on_db_def split: prod.splits)
next
  case (Inr org)
  then obtain db1 where db1: "org_create (ie_uuid env 0) oc (iw_db w) = (Inr org, db1)"
    by (cases "org_create (ie_uuid env 0) oc (iw_db w)") auto
  then have o1: "or_id org \<notin> or_id ` set (db_orgs (iw_db w))" "db_policies db1 = db_policies (iw_db w)"
    by (auto simp: org_create_def Let_def is_key_def split: if_splits)
  have "filter (\<lambda>r. pr_organization_id r = or_id org) (db_policies db1) = []"
    using o1 assms by (auto simp: filter_empty_conv) (metis image_eqI subsetD)
  then have "\<exists>e db2. policy_get_or_create (ie_uuid env 1) (or_id org) db1 = (Inl e, db2)"
    by (auto simp: policy_get_or_create_def scalar_one_or_none_def Let_def new_policy_refused)
  then show ?thesis
    using db1 by (auto simp: provision_organization_def bnd_def on_db_def split: prod.splits)
qed

lemma done_read [simp]: "snd (done_with (query q) w) = w" "snd (done_with (on_db (query q')) w) = w"
  by (simp_all add: done_with_def bnd_def split: sum.split)

definition no_accounts :: "iam_db \<Rightarrow> bool" where
  "no_accounts db \<longleftrightarrow> db_orgs db = [] \<and> db_users db = [] \<and> db_memberships db = [] \<and> db_roles db = []
     \<and> db_api_keys db = [] \<and> db_sessions db = [] \<and> db_policies db = []"

lemma no_accounts_not_allowed: "no_accounts db \<Longrightarrow> \<not> member_allowed o1 a p db"
  by (simp add: no_accounts_def member_allowed_def get_membership_def members_def)

lemma no_org_policy:
  assumes "no_accounts (iw_db w)"
  shows "on_db (policy_get_or_create i o1) w = (Inl integrity_error, w)"
  using assms by (simp add: no_accounts_def on_db_def policy_get_or_create_def scalar_one_or_none_def is_key_def)

text \<open>No request brings an account into an empty database.\<close>

lemma no_accounts_step:
  assumes "no_accounts (iw_db w)"
  shows "no_accounts (iw_db (snd (in_transaction (serve env r) w)))"
proof (cases "guard_of r")
  case (Some g)
  obtain o1 a p where g: "g = (o1, a, p)" by (cases g)
  show ?thesis
    using denied_request [OF Some [unfolded g] no_accounts_not_allowed [OF assms], of env] assms by auto
next
  case None
  have fails: "no_accounts (iw_db (snd (in_transaction (serve env r) w)))" if "\<exists>e w'. serve env r w = (Inl e, w')"
    using that assms by (auto simp: in_transaction_def)
  have same: "no_accounts (iw_db (snd (in_transaction (serve env r) w)))" if "snd (serve env r w) = w"
    using that assms by (auto simp: in_transaction_def split: prod.splits sum.splits)
  have e: "org_get_by_id o1 (iw_db w) = None" "get_by_prefix x (iw_db w) = Inr None" "session_get_by_id s (iw_db w) = None"
      "get_by_token_hash h (iw_db w) = Inr None" "row_by sr_id s (db_sessions (iw_db w)) = None" for o1 x s h
    using assms
    by (simp_all add: no_accounts_def org_get_by_id_def get_by_prefix_def scalar_one_or_none_def session_get_by_id_def
        get_by_token_hash_def row_by_def)
  show ?thesis
  proof (cases r)
    case (Provision oc)
    have "\<exists>e w'. provision_organization env oc w = (Inl e, w')"
      using assms by (intro provision_fails) (simp add: no_accounts_def)
    with Provision show ?thesis by (intro fails) (auto simp: done_with_def bnd_def)
  next
    case (RegisterUser o1 uc a)
    then show ?thesis by (intro fails) (auto simp: done_with_def register_user_def bnd_def e require_some_def)
  next
    case (Login lr ip agent)
    with no_tokens [of r lr ip agent] assms show ?thesis by (metis snd_conv)
  next
    case (Register oc uc)
    with no_tokens [of r] assms show ?thesis by (metis snd_conv)
  next
    case (Refresh t)
    with no_tokens [of r] assms show ?thesis by (metis snd_conv)
  next
    case (Logout t a)
    then show ?thesis by (intro same) (auto simp: done_with_def logout_def bnd_def e)
  next
    case (ApiKeyAccess raw)
    then show ?thesis by (intro same) (auto simp: done_with_def service_authenticate_api_key_def bnd_def e)
  next
    case (RevokeSession s a)
    then show ?thesis by (intro same) (auto simp: done_with_def revoke_session_def bnd_def on_db_def session_revoke_def e)
  next
    case (GetPolicy o1)
    then show ?thesis
      using no_org_policy [OF assms] by (intro same) (auto simp: done_with_def get_security_policy_def bnd_def)
  qed (rule same, insert None, simp add: get_current_user_profile_def list_sessions_def list_roles_def
        list_api_keys_def get_metrics_def get_organization_def get_organization_by_tenant_def del: on_db_query)+
qed

lemma no_accounts_forever: "no_accounts (iw_db w) \<Longrightarrow> no_accounts (iw_db (serve_all rs w))"
proof (induction rs arbitrary: w)
  case (Cons r rs)
  then show ?case using no_accounts_step by (cases r) auto
qed simp

section \<open>Revoked keys\<close>

lemma dead_key_refused:
  assumes "key_dead i db" "authenticate_api_key env raw db = (Inr p, db')"
  shows "pp_api_key_id p \<noteq> Some i"
  using api_key_sound [OF assms(2)] assms(1) by (auto simp: key_dead_def)

lemma revoked_key_refused:
  assumes wf: "db_wf (iw_db w)" and rv: "revoke_api_key env o1 i a w = (Inr k, w1)"
    and au: "authenticate_api_key env' raw (iw_db (serve_all rs w1)) = (Inr p, db')"
  shows "pp_api_key_id p \<noteq> Some i"
proof -
  obtain w0 db1 k1 where
    w0: "require_permission env (ie_uuid env 0) o1 a MANAGE_API_KEYS w = (Inr (), w0)"
    and kr: "api_key_revoke o1 i (iw_db w0) = (Inr k1, db1)"
    and al: "snd (audit_log env (ie_uuid env 1) o1 ''api_key.revoked'' ''api_key'' (Some i) a None JNull (w0\<lparr>iw_db := db1\<rparr>)) = w1"
    using rv by (auto simp: revoke_api_key_def bnd_Inr on_db_Inr)
  have "db_wf (iw_db w0)"
    using well_formed.keeps_require [of env "ie_uuid env 0" o1 a MANAGE_API_KEYS] w0 wf
    unfolding well_formed.keeps_def by (metis snd_conv)
  then have "key_dead i db1" using kr by (rule revoke_kills)
  moreover have "key_dead i (iw_db (w0\<lparr>iw_db := db1\<rparr>)) \<longrightarrow> key_dead i (iw_db w1)"
    using dead_keys.keeps_log(1) unfolding dead_keys.keeps_def al [symmetric] by blast
  ultimately have "key_dead i (iw_db w1)" by simp
  then have "key_dead i (iw_db (serve_all rs w1))" using dead_keys.keeps_serve_all by blast
  then show ?thesis using au by (rule dead_key_refused)
qed

end
