(* ===== verification/AuthMiddleware.thy ===== *)
theory AuthMiddleware
  imports IamAuth StreamAuth
begin

text \<open>
  \<^verbatim>\<open>app/iam/middleware/authentication.py\<close> and \<^verbatim>\<open>app/iam/api/deps.py\<close>: which requests pass without a credential, how a
  credential becomes a principal, the limits of the principal, and the check of the path against the principal's
  organization and tenant.

  The database session of the middleware comes from a generator that is left inside its loop, so it is closed without
  reaching its commit: whatever authentication changes in the database (the last use of a key) is discarded, and the
  middleware only reads.
\<close>

section \<open>Requests\<close>

record api_request =
  aq_method :: ustr
  aq_path :: ustr
  aq_authorization :: "ustr option"
  aq_api_key :: "ustr option"
  aq_upgrade :: "ustr option"

record mw_settings =
  mw_debug :: bool
  mw_database_enabled :: bool
  mw_session_factory :: bool
  mw_rate_limit_enabled :: bool
  mw_rate_window :: int

definition upper_c :: "nat \<Rightarrow> nat" where
  "upper_c c = (if 97 \<le> c \<and> c \<le> 122 then c - 32 else c)"

text \<open>Methods are ASCII tokens.\<close>

definition upper :: "ustr \<Rightarrow> ustr" where
  "upper s = map upper_c s"

text \<open>\<^verbatim>\<open>path.rstrip("/") or "/"\<close>.\<close>

definition trim_path :: "ustr \<Rightarrow> ustr" where
  "trim_path p = (let q = rev (dropWhile (\<lambda>c. c = 47) (rev p)) in if q = [] then u ''/'' else q)"

definition PUBLIC_ROUTES :: "(ustr \<times> ustr) list" where
  "PUBLIC_ROUTES =
     [(u ''POST'', u ''/api/v1/iam/auth/login''), (u ''POST'', u ''/api/v1/iam/auth/register''),
      (u ''POST'', u ''/api/v1/iam/auth/refresh''), (u ''GET'', u ''/api/v1/health''), (u ''GET'', u ''/api/v1/health/'')]"

definition PUBLIC_PREFIXES :: "ustr list" where
  "PUBLIC_PREFIXES =
     map u [''/api/v1/health'', ''/api/v1/metrics'', ''/api/v1/integrations/oauth'', ''/api/v1/integrations/webhooks'']"

definition AUTH_EXEMPT_PREFIXES :: "ustr list" where
  "AUTH_EXEMPT_PREFIXES = [u ''/twilio'']"

definition is_public :: "ustr \<Rightarrow> ustr \<Rightarrow> bool" where
  "is_public method path \<longleftrightarrow> (method, path) \<in> set PUBLIC_ROUTES \<or> (method, path @ u ''/'') \<in> set PUBLIC_ROUTES
     \<or> has_prefix PUBLIC_PREFIXES path"

section \<open>Credentials\<close>

definition header :: "ustr option \<Rightarrow> ustr" where
  "header h = (case h of None \<Rightarrow> [] | Some v \<Rightarrow> v)"

definition is_bearer :: "ustr \<Rightarrow> bool" where
  "is_bearer h \<longleftrightarrow> startswith (lower h) (u ''bearer '')"

text \<open>\<^verbatim>\<open>h.split(" ", 1)[1].strip()\<close>.\<close>

definition bearer_token :: "ustr \<Rightarrow> ustr" where
  "bearer_token h = strip (drop 1 (dropWhile (\<lambda>c. c \<noteq> 32) h))"

definition no_database :: exn where
  "no_database = (lib_exn [''RuntimeError''])\<lparr>ex_text := u ''Database is not configured (DATABASE_URL missing)''\<rparr>"

definition authenticate_request :: "iam_env \<Rightarrow> mw_settings \<Rightarrow> api_request \<Rightarrow> iam_db \<Rightarrow> exn + principal" where
  "authenticate_request env cfg rq db =
     (let auth_header = header (aq_authorization rq); api_key = header (aq_api_key rq)
      in if \<not> mw_session_factory cfg then Inl no_database
         else if is_bearer auth_header then authenticate_bearer env (bearer_token auth_header) db
         else if api_key \<noteq> [] \<and> ie_api_key_auth env then fst (authenticate_api_key env (strip api_key) db)
         else Inl (err AuthenticationError ''Authentication required''))"

section \<open>Paths\<close>

text \<open>The patterns: a prefix and 36 characters of \<^verbatim>\<open>[0-9a-f-]\<close>.\<close>

definition id_char :: "nat \<Rightarrow> bool" where
  "id_char c \<longleftrightarrow> (48 \<le> c \<and> c \<le> 57) \<or> (97 \<le> c \<and> c \<le> 102) \<or> c = 45"

definition path_id :: "ustr \<Rightarrow> ustr \<Rightarrow> ustr option" where
  "path_id pre path =
     (let i = take 36 (drop (length pre) path)
      in if startswith path pre \<and> length i = 36 \<and> list_all id_char i then Some i else None)"

definition TENANT_PATH :: ustr where "TENANT_PATH = u ''/api/v1/tenants/''"
definition ORG_PATH :: ustr where "ORG_PATH = u ''/api/v1/iam/organizations/''"

definition parse_uuid :: "ustr \<Rightarrow> exn + uuid" where
  "parse_uuid t = (case uuid_of_string (map char_of t) of
     None \<Rightarrow> Inl (value_error (u ''badly formed hexadecimal UUID string'')) | Some n \<Rightarrow> Inr n)"

definition authorize_request :: "mw_settings \<Rightarrow> api_request \<Rightarrow> principal \<Rightarrow> iam_db \<Rightarrow> exn + unit" where
  "authorize_request cfg rq p db =
     (let path = trim_path (aq_path rq)
      in case path_id TENANT_PATH path of
           Some t \<Rightarrow>
             bind_sum (parse_uuid t) (\<lambda>tenant_id.
               if \<not> mw_session_factory cfg then Inl no_database else validate_tenant_access p tenant_id db)
         | None \<Rightarrow>
             (case path_id ORG_PATH path of
                Some t \<Rightarrow>
                  bind_sum (parse_uuid t) (\<lambda>org_id.
                    if pp_organization_id p \<noteq> org_id
                    then Inl (err CrossOrganizationAccessError ''Cross-organization access denied'') else Inr ())
              | None \<Rightarrow>
                  if path = u ''/api/v1/tenants'' \<and> upper (aq_method rq) \<in> set (map u [''GET'', ''POST'', ''PATCH'', ''DELETE''])
                     \<and> \<not> has_permission p (perm_value MANAGE_ORGANIZATION)
                  then Inl (new_exn InsufficientPermissionsError (Some (u ''Missing permission: manage_organization''))
                              (Some (JStr (u ''manage_organization''))))
                  else Inr ()))"

section \<open>The middleware\<close>

datatype mw_outcome = Forward "principal option" | Respond json_answer | Propagate py_exn

definition request_id_header :: "err_env \<Rightarrow> (ustr \<times> ustr) list" where
  "request_id_header eenv = [(u ''X-Request-ID'', header (ee_request_id eenv))]"

definition refuse ::
  "err_env \<Rightarrow> exn \<Rightarrow> sliding_window list \<Rightarrow> platform_metrics \<Rightarrow> mw_outcome \<times> sliding_window list \<times> platform_metrics" where
  "refuse eenv e ws pm =
     (case resolve_exception eenv e pm of
        (Inl x, pm') \<Rightarrow> (Propagate x, ws, pm')
      | (Inr (status, body), pm') \<Rightarrow>
          (Respond \<lparr>ja_status = status, ja_body = body, ja_headers = request_id_header eenv\<rparr>, ws, pm'))"

definition limited :: "err_env \<Rightarrow> mw_settings \<Rightarrow> ustr option \<Rightarrow> int option \<Rightarrow> json_answer" where
  "limited eenv cfg scope retry =
     \<lparr>ja_status = 429,
      ja_body = build_error_response eenv RATE_LIMIT_EXCEEDED
        (JStr (u ''Rate limit exceeded ('' @ header scope @ u '')''))
        (JObj [(u ''scope'', opt_text scope),
               (u ''retry_after_seconds'', case retry of None \<Rightarrow> JNull | Some r \<Rightarrow> JNum (of_int r))])
        (ee_request_id eenv),
      ja_headers = (u ''Retry-After'', str_int (case retry of Some r \<Rightarrow> if r = 0 then mw_rate_window cfg else r
                                               | None \<Rightarrow> mw_rate_window cfg)) # request_id_header eenv\<rparr>"

definition check_principal ::
  "err_env \<Rightarrow> iam_env \<Rightarrow> mw_settings \<Rightarrow> pyfloat \<Rightarrow> api_request \<Rightarrow> iam_db \<Rightarrow> sliding_window list \<Rightarrow> platform_metrics
     \<Rightarrow> mw_outcome \<times> sliding_window list \<times> platform_metrics" where
  "check_principal eenv env cfg now rq db ws pm =
        (case authenticate_request env cfg rq db of
             Inl e \<Rightarrow> refuse eenv e ws pm
           | Inr p \<Rightarrow>
               (case check_authenticated_rate_limits (mw_rate_limit_enabled cfg) now (u (uuid_text (pp_organization_id p)))
                       (map_option (\<lambda>t. u (uuid_text t)) (pp_tenant_id p)) (aq_api_key rq) ws of
                  (Inl x, ws') \<Rightarrow> (Propagate x, ws', pm)
                | (Inr (allowed, retry, scope), ws') \<Rightarrow>
                    if \<not> allowed then (Respond (limited eenv cfg scope retry), ws', record_rate_limit pm)
                    else (case authorize_request cfg rq p db of
                            Inl e \<Rightarrow> refuse eenv e ws' pm
                          | Inr _ \<Rightarrow> (Forward (Some p), ws', pm))))"

definition dispatch ::
  "err_env \<Rightarrow> iam_env \<Rightarrow> mw_settings \<Rightarrow> pyfloat \<Rightarrow> api_request \<Rightarrow> iam_db \<Rightarrow> sliding_window list \<Rightarrow> platform_metrics
     \<Rightarrow> mw_outcome \<times> sliding_window list \<times> platform_metrics" where
  "dispatch eenv env cfg now rq db ws pm =
     (let path = trim_path (aq_path rq); method = upper (aq_method rq)
      in if is_public method path then (Forward None, ws, pm)
         else if mw_debug cfg \<and> path \<in> set (map u [''/docs'', ''/redoc'', ''/openapi.json'']) then (Forward None, ws, pm)
         else if has_prefix AUTH_EXEMPT_PREFIXES path then (Forward None, ws, pm)
         else if path = u ''/api/v1'' \<and> lower (header (aq_upgrade rq)) = u ''websocket'' then (Forward None, ws, pm)
         else if \<not> startswith path (u ''/api/v1'') then (Forward None, ws, pm)
         else if \<not> mw_database_enabled cfg then
           (Respond \<lparr>ja_status = 503,
              ja_body = build_error_response eenv SERVICE_UNAVAILABLE
                (JStr (u ''Database is not configured. Set DATABASE_URL to enable enterprise APIs.'')) JNull (ee_request_id eenv),
              ja_headers = []\<rparr>, ws, pm)
         else check_principal eenv env cfg now rq db ws pm)"

section \<open>Dependencies\<close>

text \<open>
  The principal of a route: the one the middleware left on the request, or one made from the bearer credentials that
  the framework parsed, or from the key header. A failure is the HTTP exception of the domain error.
\<close>

definition mapped_error :: "err_env \<Rightarrow> exn \<Rightarrow> platform_metrics \<Rightarrow> exn \<times> platform_metrics" where
  "mapped_error eenv e pm = (case map_domain_errors eenv e pm of
     (Inr h, pm') \<Rightarrow> (h, pm') | (Inl _, pm') \<Rightarrow> (attribute_error, pm'))"

definition get_current_principal ::
  "err_env \<Rightarrow> iam_env \<Rightarrow> principal option \<Rightarrow> (ustr \<times> ustr) option \<Rightarrow> ustr option \<Rightarrow> iam_db \<Rightarrow> platform_metrics
     \<Rightarrow> (exn + principal) \<times> iam_db \<times> platform_metrics" where
  "get_current_principal eenv env existing credentials api_key db pm =
     (let fail = (\<lambda>e db'. case mapped_error eenv e pm of (h, pm') \<Rightarrow> (Inl h, db', pm'))
      in case existing of
           Some p \<Rightarrow> (Inr p, db, pm)
         | None \<Rightarrow>
             (case credentials of
                Some (scheme, token) \<Rightarrow>
                  if lower scheme = u ''bearer'' then
                    (case authenticate_bearer env token db of Inl e \<Rightarrow> fail e db | Inr p \<Rightarrow> (Inr p, db, pm))
                  else if header api_key \<noteq> [] \<and> ie_api_key_auth env then
                    (case authenticate_api_key env (strip (header api_key)) db of
                       (Inl e, db') \<Rightarrow> fail e db' | (Inr p, db') \<Rightarrow> (Inr p, db', pm))
                  else (Inl (new_http_exception 401 (JStr (u ''Authentication required''))), db, pm)
              | None \<Rightarrow>
                  if header api_key \<noteq> [] \<and> ie_api_key_auth env then
                    (case authenticate_api_key env (strip (header api_key)) db of
                       (Inl e, db') \<Rightarrow> fail e db' | (Inr p, db') \<Rightarrow> (Inr p, db', pm))
                  else (Inl (new_http_exception 401 (JStr (u ''Authentication required''))), db, pm)))"

definition get_current_user :: "principal \<Rightarrow> exn + principal" where
  "get_current_user p =
     (if pp_auth_method p \<noteq> JwtAuth \<or> pp_user_id p = None
      then Inl (new_http_exception 403 (JStr (u ''User session required''))) else Inr p)"

record tenant_context =
  tc_tenant_id :: uuid
  tc_organization_id :: uuid
  tc_principal :: principal
  tc_permissions :: "ustr set"

definition get_tenant_context ::
  "err_env \<Rightarrow> uuid \<Rightarrow> principal \<Rightarrow> iam_db \<Rightarrow> platform_metrics \<Rightarrow> (exn + tenant_context) \<times> platform_metrics" where
  "get_tenant_context eenv tenant_id p db pm =
     (case validate_tenant_access p tenant_id db of
        Inl e \<Rightarrow> (case mapped_error eenv e pm of (h, pm') \<Rightarrow> (Inl h, pm'))
      | Inr _ \<Rightarrow> (Inr \<lparr>tc_tenant_id = tenant_id, tc_organization_id = pp_organization_id p, tc_principal = p,
                        tc_permissions = pp_permissions p\<rparr>, pm))"

definition require_permissions ::
  "err_env \<Rightarrow> iam_permission list \<Rightarrow> principal \<Rightarrow> platform_metrics \<Rightarrow> (exn + principal) \<times> platform_metrics" where
  "require_permissions eenv permissions p pm =
     (case filter (\<lambda>q. \<not> has_permission p (perm_value q)) permissions of
        [] \<Rightarrow> (Inr p, pm)
      | q # qs \<Rightarrow>
          (case mapped_error eenv (new_exn InsufficientPermissionsError
                  (Some (u ''Missing permissions: '' @ join (u '', '') (map perm_value (q # qs)))) (Some (JStr (perm_value q)))) pm of
             (h, pm') \<Rightarrow> (Inl h, pm')))"

definition require_org_access ::
  "err_env \<Rightarrow> uuid \<Rightarrow> principal \<Rightarrow> platform_metrics \<Rightarrow> (exn + principal) \<times> platform_metrics" where
  "require_org_access eenv org_id p pm =
     (case validate_organization_access p org_id of
        Inl e \<Rightarrow> (case mapped_error eenv e pm of (h, pm') \<Rightarrow> (Inl h, pm'))
      | Inr _ \<Rightarrow> (Inr p, pm))"

section \<open>What passes\<close>

lemma startswith_u: "startswith (u s) (u t) \<longleftrightarrow> startswith s t"
proof -
  have "take (length t) (u s) = u (take (length t) s)" by (simp add: u_def take_map)
  then show ?thesis by (simp add: startswith_def u_def [of t]) (simp add: u_def [symmetric])
qed

lemma startswith_both: "startswith s p \<Longrightarrow> startswith s q \<Longrightarrow> startswith p q \<or> startswith q p"
  by (auto simp: startswith_iff dest: prefix_same_cases)

lemma api_paths:
  assumes "startswith path (u ''/api/v1'')"
  shows "path \<in> set (map u [''/docs'', ''/redoc'', ''/openapi.json'']) \<longleftrightarrow> False"
    and "has_prefix AUTH_EXEMPT_PREFIXES path \<longleftrightarrow> False"
proof -
  have n: "startswith (u ''/docs'') (u ''/api/v1'') = False" "startswith (u ''/redoc'') (u ''/api/v1'') = False"
    "startswith (u ''/openapi.json'') (u ''/api/v1'') = False" "startswith (u ''/twilio'') (u ''/api/v1'') = False"
    "startswith (u ''/api/v1'') (u ''/twilio'') = False"
    by (simp_all only: startswith_u) (simp_all add: startswith_def)
  show "path \<in> set (map u [''/docs'', ''/redoc'', ''/openapi.json'']) \<longleftrightarrow> False"
  proof
    assume "path \<in> set (map u [''/docs'', ''/redoc'', ''/openapi.json''])"
    then consider "path = u ''/docs''" | "path = u ''/redoc''" | "path = u ''/openapi.json''" by auto
    then show False using assms by cases (simp_all only: n)
  qed simp
  show "has_prefix AUTH_EXEMPT_PREFIXES path \<longleftrightarrow> False"
    using startswith_both [OF assms, of "u ''/twilio''"] n by (auto simp: has_prefix_def AUTH_EXEMPT_PREFIXES_def)
qed

text \<open>The paths below \<^verbatim>\<open>/api/v1\<close> that ask for a principal.\<close>

definition protected_path :: "api_request \<Rightarrow> bool" where
  "protected_path rq \<longleftrightarrow> startswith (trim_path (aq_path rq)) (u ''/api/v1'') \<and> trim_path (aq_path rq) \<noteq> u ''/api/v1''
     \<and> \<not> is_public (upper (aq_method rq)) (trim_path (aq_path rq))"

lemma dispatch_protected:
  assumes "protected_path rq" "mw_database_enabled cfg"
  shows "dispatch eenv env cfg now rq db ws pm = check_principal eenv env cfg now rq db ws pm"
proof -
  have a: "startswith (trim_path (aq_path rq)) (u ''/api/v1'')" "trim_path (aq_path rq) \<noteq> u ''/api/v1''"
    "\<not> is_public (upper (aq_method rq)) (trim_path (aq_path rq))"
    using assms(1) by (simp_all add: protected_path_def)
  show ?thesis
    unfolding dispatch_def Let_def api_paths [OF a(1)]
    apply (subst if_not_P, rule a(3))
    apply (subst if_not_P, simp)
    apply (subst if_not_P, simp)
    apply (subst if_not_P, simp add: a(2))
    apply (subst if_not_P, simp add: a(1))
    apply (subst if_not_P, simp add: assms(2))
    by (rule refl)
qed

lemma dispatch_no_database:
  assumes "protected_path rq" "\<not> mw_database_enabled cfg"
  shows "dispatch eenv env cfg now rq db ws pm \<noteq> (Forward po, x)"
proof -
  have a: "startswith (trim_path (aq_path rq)) (u ''/api/v1'')" "trim_path (aq_path rq) \<noteq> u ''/api/v1''"
    "\<not> is_public (upper (aq_method rq)) (trim_path (aq_path rq))"
    using assms(1) by (simp_all add: protected_path_def)
  show ?thesis
    unfolding dispatch_def Let_def api_paths [OF a(1)]
    apply (subst if_not_P, rule a(3))
    apply (subst if_not_P, simp)
    apply (subst if_not_P, simp)
    apply (subst if_not_P, simp add: a(2))
    apply (subst if_not_P, simp add: a(1))
    apply (subst if_P, simp add: assms(2))
    by simp
qed

lemma refuse_not_forward: "refuse eenv e ws pm \<noteq> (Forward x, y)"
  by (simp add: refuse_def split: sum.split prod.split)

lemma check_principal_forward:
  assumes c: "check_principal eenv env cfg now rq db ws pm = (Forward po, ws', pm')"
  shows "\<exists>p. po = Some p \<and> authenticate_request env cfg rq db = Inr p \<and> authorize_request cfg rq p db = Inr ()"
proof (cases "authenticate_request env cfg rq db")
  case (Inl e)
  with c show ?thesis by (simp add: check_principal_def refuse_not_forward)
next
  case p: (Inr p)
  define l where "l = check_authenticated_rate_limits (mw_rate_limit_enabled cfg) now (u (uuid_text (pp_organization_id p)))
       (map_option (\<lambda>t. u (uuid_text t)) (pp_tenant_id p)) (aq_api_key rq) ws"
  have c': "(case l of
                  (Inl x, ws') \<Rightarrow> (Propagate x, ws', pm)
                | (Inr (allowed, retry, scope), ws') \<Rightarrow>
                    if \<not> allowed then (Respond (limited eenv cfg scope retry), ws', record_rate_limit pm)
                    else (case authorize_request cfg rq p db of
                            Inl e \<Rightarrow> refuse eenv e ws' pm
                          | Inr _ \<Rightarrow> (Forward (Some p), ws', pm))) = (Forward po, ws', pm')"
    using c unfolding check_principal_def p l_def by (simp only: sum.case)
  obtain r ws1 where l: "l = (r, ws1)" by (cases l)
  show ?thesis
  proof (cases r)
    case (Inl x)
    with c' l show ?thesis by simp
  next
    case (Inr y)
    obtain a rt sc where y: "y = (a, rt, sc)" by (cases y)
    have a using c' l Inr y by (cases a) simp_all
    then show ?thesis using c' l Inr y p
      by (cases "authorize_request cfg rq p db") (simp_all add: refuse_not_forward)
  qed
qed

text \<open>A protected request that is forwarded carries a principal made of a valid credential and allowed on the path.\<close>

lemma protected_forward:
  assumes "dispatch eenv env cfg now rq db ws pm = (Forward po, ws', pm')" "protected_path rq"
  shows "\<exists>p. po = Some p \<and> authenticate_request env cfg rq db = Inr p \<and> authorize_request cfg rq p db = Inr ()"
proof -
  have "mw_database_enabled cfg"
    using dispatch_no_database [OF assms(2)] assms(1) by blast
  with assms have "check_principal eenv env cfg now rq db ws pm = (Forward po, ws', pm')"
    by (simp only: dispatch_protected)
  then show ?thesis by (rule check_principal_forward)
qed

lemma credential_sound:
  assumes "authenticate_request env cfg rq db = Inr p"
  shows "authenticate_bearer env (bearer_token (header (aq_authorization rq))) db = Inr p
    \<or> ie_api_key_auth env \<and> (\<exists>db'. authenticate_api_key env (strip (header (aq_api_key rq))) db = (Inr p, db'))"
  using assms by (auto simp: authenticate_request_def Let_def split: if_splits intro: prod.collapse) (metis prod.collapse)

lemma char_of_u: "map char_of (u s) = s"
  by (simp add: u_def o_def)

lemma uuid_text_length: "length (uuid_text n) = 36"
  by (simp add: uuid_text_def Let_def)

lemma path_id_uuid: "path_id pre (pre @ u (uuid_text n) @ rest) = Some (u (uuid_text n))"
proof -
  have "list_all id_char (u (uuid_text n))"
    using uuid_text_chars [of _ n] by (fastforce simp: list_all_iff u_def id_char_def)
  then show ?thesis
    by (simp add: path_id_def Let_def startswith_def uuid_text_length u_def)
qed

lemma dropWhile_last: "ys \<noteq> [] \<Longrightarrow> \<not> P (last ys) \<Longrightarrow> \<exists>zs. rev (dropWhile P (rev (ys @ xs))) = ys @ zs"
proof (induction xs rule: rev_induct)
  case Nil
  then show ?case by (cases ys rule: rev_cases) auto
next
  case (snoc x xs)
  then show ?case by (cases "P x") auto
qed

lemma trim_path_uuid:
  assumes "path = pre @ u (uuid_text n) @ rest"
  shows "\<exists>rest'. trim_path path = pre @ u (uuid_text n) @ rest'"
proof -
  let ?ys = "pre @ u (uuid_text n)"
  have ne: "uuid_text n \<noteq> []" using uuid_text_length [of n] by auto
  have "last ?ys = of_char (last (uuid_text n))" using ne by (simp add: u_def last_map)
  moreover have "of_char (last (uuid_text n)) \<noteq> (47 :: nat)"
    using uuid_text_chars [of "last (uuid_text n)" n] ne by fastforce
  ultimately obtain zs where zs: "rev (dropWhile (\<lambda>c. c = 47) (rev (?ys @ rest))) = ?ys @ zs"
    using dropWhile_last [of ?ys "\<lambda>c. c = 47" rest] ne by auto
  moreover have "?ys @ zs \<noteq> []" using ne by simp
  ultimately have "trim_path path = ?ys @ zs"
    unfolding trim_path_def Let_def assms append_assoc [symmetric] by simp
  then show ?thesis by auto
qed

text \<open>A path that names an organization by its identifier in lower case is only for its principals.\<close>

lemma org_path_checked:
  assumes "n < 2 ^ 128" "aq_path rq = ORG_PATH @ u (uuid_text n) @ rest" "authorize_request cfg rq p db = Inr ()"
  shows "pp_organization_id p = n"
proof -
  obtain rest' where t: "trim_path (aq_path rq) = ORG_PATH @ u (uuid_text n) @ rest'"
    using trim_path_uuid [OF assms(2)] by blast
  have "\<not> startswith (ORG_PATH @ r) TENANT_PATH" for r
    by (simp add: startswith_def ORG_PATH_def TENANT_PATH_def u_def)
  then have "path_id TENANT_PATH (ORG_PATH @ u (uuid_text n) @ rest') = None"
    by (simp add: path_id_def Let_def)
  with assms(3) t path_id_uuid [of ORG_PATH n rest'] uuid_roundtrip [OF assms(1)] show ?thesis
    by (simp add: authorize_request_def Let_def parse_uuid_def char_of_u split: if_splits)
qed

lemma tenant_path_checked:
  assumes "n < 2 ^ 128" "aq_path rq = TENANT_PATH @ u (uuid_text n) @ rest" "authorize_request cfg rq p db = Inr ()"
  shows "\<exists>org \<in> set (db_orgs db). or_tenant_id org = n \<and> pp_organization_id p = or_id org"
proof -
  obtain rest' where t: "trim_path (aq_path rq) = TENANT_PATH @ u (uuid_text n) @ rest'"
    using trim_path_uuid [OF assms(2)] by blast
  have v: "validate_tenant_access p n db = Inr ()"
    using assms(3) t path_id_uuid [of TENANT_PATH n rest'] uuid_roundtrip [OF assms(1)]
    by (simp add: authorize_request_def Let_def parse_uuid_def char_of_u split: if_splits)
  then obtain org where "org_get_by_tenant_id n db = Inr (Some org)" "pp_organization_id p = or_id org"
    by (auto simp: validate_tenant_access_def bind_sum_Inr_iff require_some_def split: if_splits option.splits)
  then show ?thesis
    by (auto simp: org_get_by_tenant_id_def scalar_one_or_none_def dest!: filter_single split: list.splits)
qed

text \<open>
  An identifier with an upper case letter is no match for the patterns, so the path is not checked at all; the
  framework reads the same identifier from it.
\<close>

lemma upper_path_unchecked:
  assumes "trim_path (aq_path rq) = ORG_PATH @ i @ rest" "length i = 36" "\<not> list_all id_char i"
  shows "authorize_request cfg rq p db = Inr ()"
proof -
  have "\<not> startswith (ORG_PATH @ r) TENANT_PATH" "ORG_PATH @ r \<noteq> u ''/api/v1/tenants''" for r
    by (simp_all add: startswith_def ORG_PATH_def TENANT_PATH_def u_def)
  with assms show ?thesis
    by (simp add: authorize_request_def Let_def path_id_def)
qed

end
