(* ===== verification/IamRoutes.thy ===== *)
theory IamRoutes
  imports IamGuarantees AuthMiddleware
begin

text \<open>
  \<^verbatim>\<open>app/iam/api/routes.py\<close>: the routes of the identity service, from the principal that the middleware left on the
  request to the call of the service. A route that catches exceptions answers with the HTTP exception of the error;
  the others let it through. The state is the service's and the platform's counters.
\<close>

type_synonym route_state = "iam_world \<times> platform_metrics"

type_synonym 'a route = "(route_state, 'a) act"

definition plain :: "'a iam \<Rightarrow> 'a route" where
  "plain m = (\<lambda>(w, pm). case m w of (r, w') \<Rightarrow> (r, w', pm))"

definition mapped :: "err_env \<Rightarrow> 'a iam \<Rightarrow> 'a route" where
  "mapped eenv m = (\<lambda>(w, pm). case m w of
       (Inr x, w') \<Rightarrow> (Inr x, w', pm)
     | (Inl e, w') \<Rightarrow> (case mapped_error eenv e pm of (h, pm') \<Rightarrow> (Inl h, w', pm')))"

text \<open>The dependencies \<^verbatim>\<open>CurrentUser\<close> and \<^verbatim>\<open>require_permissions\<close>, and an error of the route's own.\<close>

definition as_user :: "principal \<Rightarrow> principal route" where
  "as_user p = query (\<lambda>_. get_current_user p)"

definition permitted :: "err_env \<Rightarrow> iam_permission list \<Rightarrow> principal \<Rightarrow> principal route" where
  "permitted eenv ps p = (\<lambda>(w, pm). case require_permissions eenv ps p pm of (r, pm') \<Rightarrow> (r, w, pm'))"

definition reject_route :: "err_env \<Rightarrow> exn \<Rightarrow> 'a route" where
  "reject_route eenv e = (\<lambda>(w, pm). case mapped_error eenv e pm of (h, pm') \<Rightarrow> (Inl h, w, pm'))"

definition cross_org :: exn where
  "cross_org = err CrossOrganizationAccessError ''Cross-organization access denied''"

section \<open>Signing in and out\<close>

definition route_login :: "err_env \<Rightarrow> iam_env \<Rightarrow> login_request \<Rightarrow> ustr option \<Rightarrow> ustr option \<Rightarrow> auth_tokens route" where
  "route_login eenv env body client_host user_agent = mapped eenv (login env body client_host user_agent)"

definition route_register :: "err_env \<Rightarrow> iam_env \<Rightarrow> organization_create \<Rightarrow> user_create \<Rightarrow> auth_tokens route" where
  "route_register eenv env organization data = mapped eenv (iam_register env organization data)"

definition route_refresh :: "err_env \<Rightarrow> iam_env \<Rightarrow> ustr \<Rightarrow> auth_tokens route" where
  "route_refresh eenv env refresh_token = mapped eenv (refresh_tokens env refresh_token)"

definition route_logout :: "err_env \<Rightarrow> iam_env \<Rightarrow> principal \<Rightarrow> ustr option \<Rightarrow> session_read route" where
  "route_logout eenv env p authorization =
     bnd (as_user p) (\<lambda>cu.
       if \<not> is_bearer (header authorization) then raise (new_http_exception 400 (JStr (u ''Bearer token required'')))
       else mapped eenv (logout env (bearer_token (header authorization)) (pp_user_id cu)))"

text \<open>\<open>as_user\<close> lets only principals with a user through.\<close>

definition route_me :: "err_env \<Rightarrow> principal \<Rightarrow> current_user route" where
  "route_me eenv p =
     bnd (as_user p) (\<lambda>cu.
       case pp_user_id cu of
         None \<Rightarrow> raise attribute_error
       | Some i \<Rightarrow> mapped eenv (get_current_user_profile i (pp_organization_id cu)))"

definition route_list_permissions :: "(ustr \<times> string \<times> string) list route" where
  "route_list_permissions = ret list_permissions"

section \<open>Organizations\<close>

definition route_create_organization :: "err_env \<Rightarrow> iam_env \<Rightarrow> principal \<Rightarrow> organization_create \<Rightarrow> org_row route" where
  "route_create_organization eenv env p body =
     bnd (permitted eenv [MANAGE_ORGANIZATION] p) (\<lambda>_. mapped eenv (provision_organization env body))"

definition route_get_organization :: "err_env \<Rightarrow> principal \<Rightarrow> uuid \<Rightarrow> org_row route" where
  "route_get_organization eenv p org_id =
     bnd (as_user p) (\<lambda>cu.
       if pp_organization_id cu \<noteq> org_id then reject_route eenv cross_org
       else mapped eenv (get_organization org_id))"

definition route_register_user :: "err_env \<Rightarrow> iam_env \<Rightarrow> principal \<Rightarrow> uuid \<Rightarrow> user_create \<Rightarrow> user_read route" where
  "route_register_user eenv env p org_id body =
     bnd (permitted eenv [MANAGE_USERS] p) (\<lambda>cu. mapped eenv (register_user env org_id body (pp_user_id cu)))"

definition route_invite_user :: "err_env \<Rightarrow> iam_env \<Rightarrow> principal \<Rightarrow> uuid \<Rightarrow> user_invite \<Rightarrow> user_read route" where
  "route_invite_user eenv env p org_id body =
     bnd (permitted eenv [MANAGE_USERS] p) (\<lambda>cu. mapped eenv (invite_user env org_id body (pp_user_id cu)))"

definition route_list_users :: "err_env \<Rightarrow> iam_env \<Rightarrow> principal \<Rightarrow> uuid \<Rightarrow> user_read list route" where
  "route_list_users eenv env p org_id =
     bnd (permitted eenv [MANAGE_USERS] p) (\<lambda>cu. mapped eenv (list_users env org_id (pp_user_id cu)))"

section \<open>Roles and keys\<close>

definition route_list_roles :: "err_env \<Rightarrow> principal \<Rightarrow> uuid \<Rightarrow> role_row list route" where
  "route_list_roles eenv p org_id =
     bnd (as_user p) (\<lambda>cu.
       if pp_organization_id cu \<noteq> org_id then reject_route eenv cross_org else plain (list_roles org_id))"

definition route_create_role :: "err_env \<Rightarrow> iam_env \<Rightarrow> principal \<Rightarrow> uuid \<Rightarrow> role_create \<Rightarrow> role_row route" where
  "route_create_role eenv env p org_id body =
     bnd (permitted eenv [MANAGE_ROLES] p) (\<lambda>cu. mapped eenv (create_role env org_id body (pp_user_id cu)))"

definition route_create_api_key :: "err_env \<Rightarrow> iam_env \<Rightarrow> principal \<Rightarrow> uuid \<Rightarrow> api_key_create \<Rightarrow> (api_key_row \<times> ustr) route" where
  "route_create_api_key eenv env p org_id body =
     bnd (permitted eenv [MANAGE_API_KEYS] p) (\<lambda>cu. mapped eenv (create_api_key env org_id body (pp_user_id cu)))"

definition route_list_api_keys :: "err_env \<Rightarrow> principal \<Rightarrow> uuid \<Rightarrow> api_key_row list route" where
  "route_list_api_keys eenv p org_id = bnd (permitted eenv [MANAGE_API_KEYS] p) (\<lambda>_. plain (list_api_keys org_id))"

definition route_revoke_api_key :: "err_env \<Rightarrow> iam_env \<Rightarrow> principal \<Rightarrow> uuid \<Rightarrow> uuid \<Rightarrow> api_key_row route" where
  "route_revoke_api_key eenv env p org_id key_id =
     bnd (permitted eenv [MANAGE_API_KEYS] p) (\<lambda>cu. mapped eenv (revoke_api_key env org_id key_id (pp_user_id cu)))"

section \<open>Policies, logs, sessions\<close>

definition route_get_security_policy :: "err_env \<Rightarrow> iam_env \<Rightarrow> principal \<Rightarrow> uuid \<Rightarrow> policy_read route" where
  "route_get_security_policy eenv env p org_id =
     bnd (permitted eenv [MANAGE_SECURITY] p) (\<lambda>_. plain (get_security_policy env org_id))"

definition route_update_security_policy :: "err_env \<Rightarrow> iam_env \<Rightarrow> principal \<Rightarrow> uuid \<Rightarrow> policy_update \<Rightarrow> policy_read route" where
  "route_update_security_policy eenv env p org_id body =
     bnd (permitted eenv [MANAGE_SECURITY] p) (\<lambda>cu. mapped eenv (update_security_policy env org_id body (pp_user_id cu)))"

definition route_list_audit_logs :: "err_env \<Rightarrow> iam_env \<Rightarrow> principal \<Rightarrow> uuid \<Rightarrow> audit_row list route" where
  "route_list_audit_logs eenv env p org_id =
     bnd (permitted eenv [VIEW_AUDIT_LOGS] p) (\<lambda>cu. mapped eenv (list_audit_logs env 100 org_id (pp_user_id cu)))"

definition route_get_metrics :: "err_env \<Rightarrow> principal \<Rightarrow> uuid \<Rightarrow> (iam_metrics \<times> nat) route" where
  "route_get_metrics eenv p org_id = bnd (permitted eenv [VIEW_ANALYTICS] p) (\<lambda>_. plain (get_metrics org_id))"

definition route_list_sessions :: "err_env \<Rightarrow> principal \<Rightarrow> uuid \<Rightarrow> session_read list route" where
  "route_list_sessions eenv p user_id =
     bnd (as_user p) (\<lambda>cu.
       if pp_user_id cu \<noteq> Some user_id \<and> \<not> has_permission cu (perm_value MANAGE_USERS)
       then reject_route eenv (new_exn InsufficientPermissionsError (Some (u ''Cannot list sessions for another user''))
                                 (Some (JStr (perm_value MANAGE_USERS))))
       else plain (list_sessions user_id))"

definition route_revoke_session :: "err_env \<Rightarrow> iam_env \<Rightarrow> principal \<Rightarrow> uuid \<Rightarrow> session_read route" where
  "route_revoke_session eenv env p session_id =
     bnd (as_user p) (\<lambda>cu. mapped eenv (revoke_session env session_id (pp_user_id cu)))"

section \<open>What a route asks for, and what it does not\<close>

lemma permitted_Inr:
  "permitted eenv ps p s = (Inr q, s') \<longleftrightarrow> (\<forall>x\<in>set ps. has_permission p (perm_value x)) \<and> q = p \<and> s' = s"
  by (cases s) (auto simp: permitted_def require_permissions_def filter_empty_conv mapped_error_def
      split: list.splits prod.splits sum.splits)

lemma mapped_Inr: "mapped eenv m (w, pm) = (Inr x, w', pm') \<longleftrightarrow> m w = (Inr x, w') \<and> pm' = pm"
  by (auto simp: mapped_def split: prod.splits sum.splits)

lemma plain_Inr: "plain m (w, pm) = (Inr x, w', pm') \<longleftrightarrow> m w = (Inr x, w') \<and> pm' = pm"
  by (auto simp: plain_def split: prod.splits)

lemma as_user_Inr: "as_user p s = (Inr q, s') \<longleftrightarrow> pp_auth_method p = JwtAuth \<and> pp_user_id p \<noteq> None \<and> q = p \<and> s' = s"
  by (auto simp: as_user_def get_current_user_def split: if_splits)

lemma row_by_appended:
  assumes "i \<notin> key ` set rs" "key x = i"
  shows "row_by key i (rs @ [x]) = Some x"
proof -
  have "find (\<lambda>r. key r = i) (rs @ [x]) = Some x"
    using assms(1) by (induction rs) (auto simp: assms(2))
  then show ?thesis by (simp add: row_by_def)
qed

text \<open>
  Registering a user asks for the permission, but not for the organization: with a policy that is readable, any principal
  who may manage users of some organization makes a member, of any role, in any other.
\<close>

lemma register_in_any_org:
  assumes "has_permission p (perm_value MANAGE_USERS)"
    and "row_by or_id org_id (db_orgs (iw_db w)) = Some org" "is_key or_id (db_orgs (iw_db w)) org_id"
    and "filter (\<lambda>r. pr_organization_id r = org_id) (db_policies (iw_db w)) = [pol]"
    and "policy_of_row pol = Inr po" "validate_password po (uc_password body) = Inr ()"
    and "validate_email_domain po (uc_email body) = Inr ()"
    and "ie_uuid env 4 \<notin> ur_id ` set (db_users (iw_db w))" "lower (uc_email body) \<notin> ur_email ` set (db_users (iw_db w))"
    and "ie_uuid env 5 \<notin> mb_id ` set (db_memberships (iw_db w))"
    and "\<not> list_ex (\<lambda>m. mb_user_id m = ie_uuid env 4) (db_memberships (iw_db w))"
    and "ie_uuid env 6 \<notin> au_id ` set (db_audit (iw_db w))"
  shows "\<exists>us w'. route_register_user eenv env p org_id body (w, pm) = (Inr us, w', pm)
    \<and> us_role_slug us = Some (uc_role_slug body)
    \<and> (\<exists>m \<in> set (db_memberships (iw_db w')). mb_organization_id m = org_id \<and> mb_user_id m = us_id us
         \<and> mb_role_slug m = uc_role_slug body)"
proof -
  let ?db = "iw_db w"
  let ?urow = "\<lparr>ur_id = ie_uuid env 4, ur_email = lower (uc_email body), ur_password_hash = Some (ie_bcrypt env (uc_password body)),
      ur_name = uc_name body, ur_status = UserActive, ur_mfa_enabled = False, ur_last_login_at = None\<rparr>"
  let ?db1 = "?db\<lparr>db_users := db_users ?db @ [?urow]\<rparr>"
  let ?inv = "\<lparr>ui_email = uc_email body, ui_role_slug = uc_role_slug body, ui_department = uc_department body, ui_title = uc_title body\<rparr>"
  have 1: "policy_get_or_create (ie_uuid env 3) org_id ?db = (Inr po, ?db)"
    using assms(4,5) by (simp add: policy_get_or_create_def scalar_one_or_none_def)
  have 2: "repo_user_create (ie_uuid env 4) body (ie_bcrypt env (uc_password body)) ?db = (Inr (user_of_row ?urow), ?db1)"
    using assms(8,9) by (simp add: repo_user_create_def is_key_def Let_def)
  have u: "row_by ur_id (ie_uuid env 4) (db_users ?db1) = Some ?urow"
    using assms(8) by (simp add: row_by_appended)
  have "\<not> list_ex (\<lambda>m. mb_organization_id m = org_id \<and> mb_user_id m = ie_uuid env 4) (db_memberships ?db1)"
    using assms(11) by (auto simp: list_ex_iff)
  then obtain db2 us where 3: "membership_add (ie_uuid env 5) (ie_now env) org_id (us_id (user_of_row ?urow)) ?inv ?db1 = (Inr us, db2)"
    and db2: "db_audit db2 = db_audit ?db" "db_orgs db2 = db_orgs ?db" "us_role_slug us = Some (uc_role_slug body)"
      "us_id us = ie_uuid env 4"
      "\<exists>m \<in> set (db_memberships db2). mb_organization_id m = org_id \<and> mb_user_id m = ie_uuid env 4 \<and> mb_role_slug m = uc_role_slug body"
    using assms(3,10) u by (simp add: membership_add_def is_key_def Let_def user_of_row_def with_membership_def)
  show ?thesis
    using assms(1,2,3,6,7,12) 1 2 3 db2
    by (auto simp: route_register_user_def bnd_def permitted_def require_permissions_def mapped_def register_user_def on_db_def
        org_get_by_id_def require_some_def audit_log_def audit_append_def is_key_def user_of_row_def)
qed

end
