(* ===== verification/DatabaseSession.thy ===== *)
theory DatabaseSession
  imports Settings
begin

text \<open>
  \<^verbatim>\<open>app/database/session.py\<close>: the engine and session factory of the process, and the scope of one session. What the
  database does is decided by the environment: whether making the engine raises, how the body of a scope ends and
  whether commit, rollback and close return. The calls on the session are recorded in order.
\<close>

section \<open>The handles\<close>

record db_handles =
  dh_engine :: bool
  dh_factory :: bool

definition no_handles :: db_handles where
  "no_handles = \<lparr>dh_engine = False, dh_factory = False\<rparr>"

definition init_database :: "exn option \<Rightarrow> app_settings \<Rightarrow> db_handles \<Rightarrow> exn option \<times> db_handles" where
  "init_database creates s h =
     (if \<not> given (DATABASE_URL s) then (None, h)
      else case creates of Some e \<Rightarrow> (Some e, h) | None \<Rightarrow> (None, \<lparr>dh_engine = True, dh_factory = True\<rparr>))"

text \<open>Disposing of the engine may raise; the handles are then kept.\<close>

definition close_database :: "exn option \<Rightarrow> db_handles \<Rightarrow> exn option \<times> db_handles" where
  "close_database disposes h =
     (if dh_engine h then (case disposes of Some e \<Rightarrow> (Some e, h) | None \<Rightarrow> (None, no_handles)) else (None, no_handles))"

section \<open>One session\<close>

datatype session_call = SessionCommit | SessionRollback | SessionClose

text \<open>How a call or the body of a scope ends; a cancellation is not an \<^verbatim>\<open>Exception\<close>.\<close>

datatype scope_end = ScopeReturns | ScopeRaises exn | ScopeCancelled

record session_env =
  sn_body :: scope_end
  sn_commit :: scope_end
  sn_rollback :: scope_end
  sn_close :: scope_end

definition after_close :: "scope_end \<Rightarrow> scope_end \<Rightarrow> scope_end" where
  "after_close closes r = (if closes = ScopeReturns then r else closes)"

text \<open>The \<^verbatim>\<open>try\<close> block: the calls it makes and how it ends.\<close>

definition scope_body :: "session_env \<Rightarrow> session_call list \<times> scope_end" where
  "scope_body env =
     (let (calls, r) = (case sn_body env of
            ScopeReturns \<Rightarrow> ([SessionCommit], sn_commit env)
          | e \<Rightarrow> ([], e))
      in case r of
           ScopeRaises x \<Rightarrow> (calls @ [SessionRollback], if sn_rollback env = ScopeReturns then ScopeRaises x else sn_rollback env)
         | _ \<Rightarrow> (calls, r))"

definition session_scope :: "db_handles \<Rightarrow> session_env \<Rightarrow> session_call list \<times> scope_end" where
  "session_scope h env =
     (if \<not> dh_factory h then ([], ScopeRaises (runtime_error (u ''Database is not configured (DATABASE_URL missing)'')))
      else case scope_body env of (calls, r) \<Rightarrow> (calls @ [SessionClose], after_close (sn_close env) r))"

text \<open>The dependency of the routes: the \<^verbatim>\<open>async with\<close> closes the session.\<close>

definition get_db_session :: "db_handles \<Rightarrow> session_env \<Rightarrow> session_call list \<times> scope_end" where
  "get_db_session h env =
     (if \<not> dh_factory h then ([], ScopeRaises (runtime_error (u ''Database is not configured (DATABASE_URL missing)'')))
      else case scope_body env of (calls, r) \<Rightarrow> (calls @ [SessionClose], after_close (sn_close env) r))"

definition check_database_connectivity :: "db_handles \<Rightarrow> bool \<Rightarrow> bool" where
  "check_database_connectivity h answers \<longleftrightarrow> dh_factory h \<and> answers"

section \<open>Lemmas\<close>

lemma handles_together:
  assumes "dh_engine h = dh_factory h"
  shows "dh_engine (snd (init_database c s h)) = dh_factory (snd (init_database c s h))"
    "dh_engine (snd (close_database d h)) = dh_factory (snd (close_database d h))"
  using assms by (auto simp: init_database_def close_database_def no_handles_def split: option.split)

text \<open>
  A session that was opened is closed once, at the end; it is committed exactly when the body returned, and rolled back
  exactly when the body or the commit raised. A cancelled body is neither committed nor rolled back.
\<close>

lemma session_scope_calls:
  assumes "dh_factory h"
  shows "fst (session_scope h env) =
    (if sn_body env = ScopeReturns then [SessionCommit] else [])
    @ (if (\<exists>x. sn_body env = ScopeRaises x) \<or> sn_body env = ScopeReturns \<and> (\<exists>x. sn_commit env = ScopeRaises x)
       then [SessionRollback] else []) @ [SessionClose]"
  using assms by (cases "sn_body env"; cases "sn_commit env") (auto simp: session_scope_def scope_body_def)

lemma session_scope_returns:
  "snd (session_scope h env) = ScopeReturns \<longleftrightarrow>
     dh_factory h \<and> sn_body env = ScopeReturns \<and> sn_commit env = ScopeReturns \<and> sn_close env = ScopeReturns"
  by (cases "sn_body env"; cases "sn_commit env"; cases "sn_rollback env"; cases "sn_close env")
     (auto simp: session_scope_def scope_body_def after_close_def)

text \<open>A URL of blanks counts as configured for the engine and as missing everywhere else.\<close>

lemma blank_database_url:
  assumes "DATABASE_URL s = Some t" "t \<noteq> []" "strip t = []"
  shows "\<not> database_enabled s" "init_database None s h = (None, \<lparr>dh_engine = True, dh_factory = True\<rparr>)"
    "fst (init_database (Some e) s h) = Some e"
  using assms by (simp_all add: database_enabled_def init_database_def given_def)

end
