(* ===== verification/AppStack.thy ===== *)
theory AppStack
  imports IamRoutes Reliability DatabaseSession VoiceFactory LlmEngines
begin

text \<open>
  \<^verbatim>\<open>app/main.py\<close>: the application put together. \<^verbatim>\<open>create_application\<close> stacks the middleware, the one added last
  outermost: the limits per address, the deadline, the request context, authentication, and inside them the route with
  the registered exception handlers; the handler of all other exceptions is outermost. \<^verbatim>\<open>lifespan\<close> starts the
  process and takes it down. What a route does is an argument; whether it is late for its deadline is decided by the
  environment, which also says what a late route left behind in the identity service's world. The identifier of a request lives in a
  context variable that the request context sets for what runs inside it only.

  The layer for cross-origin requests only adds headers and is left out. The lemmas are about the composition: which
  requests reach a route, what is counted, and what happens during a shutdown.
\<close>

section \<open>State\<close>

record app_config =
  ac_err :: err_env
  ac_iam :: iam_env
  ac_mw :: mw_settings
  ac_rate_enabled :: bool
  ac_timeouts :: timeout_settings

record app_world =
  aw_iam :: iam_world
  aw_metrics :: platform_metrics
  aw_shutdown :: shutdown_manager
  aw_limits :: "sliding_window list"
  aw_auth_limits :: "sliding_window list"

record app_request =
  ar_api :: api_request
  ar_client :: "ustr option"
  ar_headers :: "ustr \<rightharpoonup> ustr"

text \<open>What the environment decides for one request; \<open>am_late\<close> is set when the route is not done by the deadline.\<close>

record app_moment =
  am_now :: pyfloat
  am_latency :: pyfloat
  am_latency_text :: ustr
  am_fresh :: ustr
  am_late :: "(iam_world \<Rightarrow> iam_world) option"

type_synonym endpoint = "principal option \<Rightarrow> rat route"

type_synonym http_headers = "ustr \<rightharpoonup> ustr"

datatype inner_end = Answers rat http_headers | Escapes exn | LateRoute

definition http_request_of :: "app_request \<Rightarrow> http_request" where
  "http_request_of rq = \<lparr>rq_method = aq_method (ar_api rq), rq_path = aq_path (ar_api rq), rq_client = ar_client rq\<rparr>"

definition request_env :: "app_config \<Rightarrow> ustr option \<Rightarrow> err_env" where
  "request_env cfg rid = (ac_err cfg)\<lparr>ee_request_id := rid\<rparr>"

text \<open>An exception of the language, as the handlers see it.\<close>

fun exn_of_py :: "py_exn \<Rightarrow> exn" where
  "exn_of_py AttributeError = attribute_error"
| "exn_of_py KeyError = key_error"
| "exn_of_py ValueError = value_error []"
| "exn_of_py (RuntimeError t) = runtime_error (u t)"
| "exn_of_py (OtherError t) = lib_exn [t]"
| "exn_of_py QueueFull = lib_exn [''QueueFull'']"
| "exn_of_py QueueEmpty = lib_exn [''QueueEmpty'']"
| "exn_of_py ZeroDivisionError = lib_exn [''ZeroDivisionError'', ''ArithmeticError'']"
| "exn_of_py StructError = lib_exn [''error'']"

section \<open>The layers, from the inside\<close>

definition answered :: "(py_exn + json_answer) \<times> platform_metrics \<Rightarrow> inner_end \<times> platform_metrics" where
  "answered r = (case r of
     (Inr a, pm) \<Rightarrow> (Answers (ja_status a) (map_of (ja_headers a)), pm)
   | (Inl x, pm) \<Rightarrow> (Escapes (exn_of_py x), pm))"

text \<open>The handlers that are registered for a class of exceptions run next to the route.\<close>

definition exception_layer :: "err_env \<Rightarrow> exn + rat \<Rightarrow> platform_metrics \<Rightarrow> inner_end \<times> platform_metrics" where
  "exception_layer env r pm =
     (case r of
        Inr c \<Rightarrow> (Answers c Map.empty, pm)
      | Inl e \<Rightarrow>
          if isinstance e (Lib ''HTTPException'') then answered (http_exception_handler env [] e pm)
          else if isinstance e (Lib ''RequestValidationError'') then answered (validation_exception_handler env e pm)
          else (Escapes e, pm))"

definition route_layer ::
  "err_env \<Rightarrow> endpoint \<Rightarrow> (iam_world \<Rightarrow> iam_world) option \<Rightarrow> principal option \<Rightarrow> app_world \<Rightarrow> inner_end \<times> app_world" where
  "route_layer env endpoint late p w =
     (case late of
        Some f \<Rightarrow> (LateRoute, w\<lparr>aw_iam := f (aw_iam w)\<rparr>)
      | None \<Rightarrow>
          (case endpoint p (aw_iam w, aw_metrics w) of
             (r, iam, pm) \<Rightarrow>
               (case exception_layer env r pm of (a, pm') \<Rightarrow> (a, w\<lparr>aw_iam := iam, aw_metrics := pm'\<rparr>))))"

definition auth_layer ::
  "app_config \<Rightarrow> err_env \<Rightarrow> app_moment \<Rightarrow> app_request \<Rightarrow> endpoint \<Rightarrow> (iam_world \<Rightarrow> iam_world) option \<Rightarrow> app_world
     \<Rightarrow> inner_end \<times> app_world" where
  "auth_layer cfg env mo rq endpoint late w =
     (case dispatch env (ac_iam cfg) (ac_mw cfg) (am_now mo) (ar_api rq) (iw_db (aw_iam w)) (aw_auth_limits w) (aw_metrics w) of
        (out, ws, pm) \<Rightarrow>
          (let w1 = w\<lparr>aw_auth_limits := ws, aw_metrics := pm\<rparr>
           in case out of
                Forward p \<Rightarrow> route_layer env endpoint late p w1
              | Respond a \<Rightarrow> (Answers (ja_status a) (map_of (ja_headers a)), w1)
              | Propagate x \<Rightarrow> (Escapes (exn_of_py x), w1)))"

definition inner_status :: "inner_end \<Rightarrow> int option" where
  "inner_status r = (case r of Answers c h \<Rightarrow> Some \<lfloor>c\<rfloor> | _ \<Rightarrow> None)"

definition context_layer ::
  "app_config \<Rightarrow> app_moment \<Rightarrow> app_request \<Rightarrow> endpoint \<Rightarrow> (iam_world \<Rightarrow> iam_world) option \<Rightarrow> app_world
     \<Rightarrow> inner_end \<times> app_world" where
  "context_layer cfg mo rq endpoint late w =
     (case context_enter (http_request_of rq) (aw_shutdown w) of
        (Reject503, sm) \<Rightarrow> (Answers 503 Map.empty, w\<lparr>aw_shutdown := sm\<rparr>)
      | (EnterRaises x, sm) \<Rightarrow> (Escapes (exn_of_py x), w\<lparr>aw_shutdown := sm\<rparr>)
      | (Entered, sm) \<Rightarrow>
          let ids = request_ids_of (ar_headers rq) (am_fresh mo)
          in (case auth_layer cfg (request_env cfg (Some (ri_request ids))) mo rq endpoint late (w\<lparr>aw_shutdown := sm\<rparr>) of
                (r, w1) \<Rightarrow>
                  (case context_exit (am_latency mo) (inner_status r) (aw_metrics w1, aw_shutdown w1) of
                     (pm, sm') \<Rightarrow>
                       (case r of Answers c h \<Rightarrow> Answers c (stamp_headers ids (am_latency_text mo) h) | _ \<Rightarrow> r,
                        w1\<lparr>aw_metrics := pm, aw_shutdown := sm'\<rparr>))))"

text \<open>A late route is cancelled only where a deadline applies.\<close>

definition deadline_applies :: "timeout_settings \<Rightarrow> ustr \<Rightarrow> bool" where
  "deadline_applies st path \<longleftrightarrow> REQUEST_TIMEOUT_ENABLED st \<and> \<not> has_prefix (map u [''/api/v1/health'', ''/twilio'']) path"

definition outer_id_header :: http_headers where
  "outer_id_header = [u ''X-Request-ID'' \<mapsto> []]"

definition timeout_layer ::
  "app_config \<Rightarrow> app_moment \<Rightarrow> app_request \<Rightarrow> endpoint \<Rightarrow> app_world \<Rightarrow> inner_end \<times> app_world" where
  "timeout_layer cfg mo rq endpoint w =
     (let late = (if deadline_applies (ac_timeouts cfg) (aq_path (ar_api rq)) then am_late mo else None)
      in case context_layer cfg mo rq endpoint late w of
           (LateRoute, w1) \<Rightarrow> (Answers 504 outer_id_header, w1\<lparr>aw_metrics := record_timeout (aw_metrics w1)\<rparr>)
         | (r, w1) \<Rightarrow> (r, w1))"

definition rate_layer ::
  "app_config \<Rightarrow> app_moment \<Rightarrow> app_request \<Rightarrow> endpoint \<Rightarrow> app_world \<Rightarrow> inner_end \<times> app_world" where
  "rate_layer cfg mo rq endpoint w =
     (case rate_limit_dispatch (ac_rate_enabled cfg) (am_now mo) (http_request_of rq) (aw_metrics w, aw_limits w) of
        (out, pm, ws) \<Rightarrow>
          (let w1 = w\<lparr>aw_metrics := pm, aw_limits := ws\<rparr>
           in case out of
                PassOn \<Rightarrow> timeout_layer cfg mo rq endpoint w1
              | Reject429 scope retry \<Rightarrow>
                  (Answers 429 (outer_id_header(u ''Retry-After'' \<mapsto>
                     str_int (case retry of Some r \<Rightarrow> if r = 0 then mw_rate_window (ac_mw cfg) else r
                              | None \<Rightarrow> mw_rate_window (ac_mw cfg)))), w1)
              | LimitRaises x \<Rightarrow> (Escapes (exn_of_py x), w1)))"

text \<open>The outermost layer; what its handler cannot answer, the server drops (\<open>None\<close>).\<close>

definition serve_http ::
  "app_config \<Rightarrow> app_moment \<Rightarrow> app_request \<Rightarrow> endpoint \<Rightarrow> app_world \<Rightarrow> (rat \<times> http_headers) option \<times> app_world" where
  "serve_http cfg mo rq endpoint w =
     (case rate_layer cfg mo rq endpoint w of
        (Answers c h, w1) \<Rightarrow> (Some (c, h), w1)
      | (Escapes e, w1) \<Rightarrow>
          (case answered (unhandled_exception_handler (request_env cfg None) e (aw_metrics w1)) of
             (Answers c h, pm) \<Rightarrow> (Some (c, h), w1\<lparr>aw_metrics := pm\<rparr>)
           | (_, pm) \<Rightarrow> (None, w1\<lparr>aw_metrics := pm\<rparr>))
      | (LateRoute, w1) \<Rightarrow> (None, w1))"

section \<open>The life of the process\<close>

record process =
  pc_handles :: db_handles
  pc_client :: "bool option \<times> nat"
  pc_shutdown :: shutdown_manager
  pc_sockets :: "nat set"

text \<open>Starting: the database, the check of the keys, the check of the providers.\<close>

definition lifespan_start :: "exn option \<Rightarrow> provider_probe \<Rightarrow> app_settings \<Rightarrow> process \<Rightarrow> (exn + unit) \<times> process" where
  "lifespan_start creates pb s p =
     (case init_database creates s (pc_handles p) of
        (Some e, h) \<Rightarrow> (Inl e, p\<lparr>pc_handles := h\<rparr>)
      | (None, h) \<Rightarrow>
          (bind_sum (validate_security_settings s) (\<lambda>_. validate_voice_platform pb s), p\<lparr>pc_handles := h\<rparr>))"

text \<open>
  Ending: the requests in flight are waited for (\<open>ends\<close> of them end in time), the sockets are closed, the client of the
  providers (closing it may raise) and the database.
\<close>

definition lifespan_end ::
  "nat \<Rightarrow> nat list \<Rightarrow> exn option \<Rightarrow> exn option \<Rightarrow> process \<Rightarrow> exn option \<times> process" where
  "lifespan_end ends sockets client_raises db_raises p =
     (let p1 = p\<lparr>pc_shutdown := snd (initiate_shutdown ends (pc_shutdown p)),
                 pc_sockets := disconnect_all sockets (pc_sockets p)\<rparr>
      in case (client_raises, fst (pc_client p1)) of
           (Some e, Some False) \<Rightarrow> (Some e, p1)
         | _ \<Rightarrow>
             (case close_database db_raises (pc_handles p1) of
                (r, h) \<Rightarrow> (r, p1\<lparr>pc_client := close_http_client (pc_client p1), pc_handles := h\<rparr>)))"

text \<open>The addresses of the documentation; without debugging there are none.\<close>

definition docs_paths :: "app_settings \<Rightarrow> ustr list" where
  "docs_paths s = (if DEBUG s then map u [''/api/v1/openapi.json'', ''/docs'', ''/redoc''] else [])"

section \<open>Lemmas: what each layer leaves alone\<close>

lemma route_layer_frame [frame]:
  "aw_shutdown (snd (route_layer env ep late p w)) = aw_shutdown w"
  "aw_limits (snd (route_layer env ep late p w)) = aw_limits w"
  by (simp_all add: route_layer_def split: option.split prod.split)

lemma auth_layer_frame [frame]:
  "aw_shutdown (snd (auth_layer cfg env mo rq ep late w)) = aw_shutdown w"
  "aw_limits (snd (auth_layer cfg env mo rq ep late w)) = aw_limits w"
  by (simp_all add: auth_layer_def Let_def frame split: prod.split mw_outcome.split)

lemma context_exit_shutdown: "snd (context_exit latency st (pm, sm)) = end_request sm"
  by (simp add: context_exit_def)

lemma context_exit_metrics:
  "fst (context_exit latency st (pm, sm)) = record_request (py_round_to 2 latency) (case st of Some c \<Rightarrow> c | None \<Rightarrow> 500) None pm"
  by (simp add: context_exit_def)

text \<open>The requests in flight are counted right: a request that was served is in flight no longer.\<close>

definition flight_ok :: "shutdown_manager \<Rightarrow> bool" where
  "flight_ok sm \<longleftrightarrow> 0 \<le> sm_active_requests sm \<and> (sm_drained sm \<longleftrightarrow> sm_active_requests sm = 0)"

lemma begin_end:
  assumes "flight_ok sm" "begin_request sm = Inr sm'"
  shows "end_request sm' = sm"
  using assms by (cases sm) (auto simp: flight_ok_def begin_request_def end_request_def Let_def split: if_splits)

lemma context_layer_flight:
  assumes "flight_ok (aw_shutdown w)"
  shows "aw_shutdown (snd (context_layer cfg mo rq ep late w)) = aw_shutdown w"
proof (cases "context_enter (http_request_of rq) (aw_shutdown w)")
  case (Pair e sm)
  show ?thesis
  proof (cases e)
    case Entered
    with Pair have b: "begin_request (aw_shutdown w) = Inr sm"
      by (auto simp: context_enter_def split: if_splits sum.splits)
    obtain r w1 where i: "auth_layer cfg (request_env cfg (Some (ri_request (request_ids_of (ar_headers rq) (am_fresh mo))))) mo rq ep
        late (w\<lparr>aw_shutdown := sm\<rparr>) = (r, w1)" by (metis prod.exhaust)
    then have "aw_shutdown w1 = sm" using auth_layer_frame(1) [where w = "w\<lparr>aw_shutdown := sm\<rparr>"] by (metis app_world.select_convs(3) app_world.surjective app_world.update_convs(3) snd_conv)
    with Entered Pair i begin_end [OF assms b] show ?thesis
      by (simp add: context_layer_def Let_def context_exit_def)
  qed (use Pair in \<open>auto simp: context_layer_def context_enter_def split: if_splits sum.splits\<close>)
qed

lemma timeout_layer_flight:
  "flight_ok (aw_shutdown w) \<Longrightarrow> aw_shutdown (snd (timeout_layer cfg mo rq ep w)) = aw_shutdown w"
  using context_layer_flight [of w cfg mo rq ep "if deadline_applies (ac_timeouts cfg) (aq_path (ar_api rq)) then am_late mo else None"]
  by (auto simp: timeout_layer_def Let_def split: prod.splits inner_end.splits)

lemma rate_layer_flight:
  "flight_ok (aw_shutdown w) \<Longrightarrow> aw_shutdown (snd (rate_layer cfg mo rq ep w)) = aw_shutdown w"
  by (simp add: rate_layer_def Let_def timeout_layer_flight split: prod.split limit_decision.split)

lemma serve_http_world:
  "(\<And>pm. f (x\<lparr>aw_metrics := pm\<rparr>) = f x) \<Longrightarrow> snd (rate_layer cfg mo rq ep w) = x \<Longrightarrow> f (snd (serve_http cfg mo rq ep w)) = f x"
  by (auto simp: serve_http_def split: prod.splits inner_end.splits)

text \<open>Whatever a request meets, served, refused, late or failing, it leaves the count of the requests in flight as it was.\<close>

lemma served_leaves_flight:
  assumes "flight_ok (aw_shutdown w)"
  shows "aw_shutdown (snd (serve_http cfg mo rq ep w)) = aw_shutdown w"
  using serve_http_world [where f = aw_shutdown, OF _ refl] rate_layer_flight [OF assms] by simp

section \<open>Lemmas: who reaches a route\<close>

definition admitted :: "app_config \<Rightarrow> app_request \<Rightarrow> principal \<Rightarrow> iam_db \<Rightarrow> bool" where
  "admitted cfg rq p db \<longleftrightarrow> authenticate_request (ac_iam cfg) (ac_mw cfg) (ar_api rq) db = Inr p
     \<and> authorize_request (ac_mw cfg) (ar_api rq) p db = Inr ()"

lemma auth_layer_guard:
  assumes "protected_path (ar_api rq)" "\<And>p. admitted cfg rq p (iw_db (aw_iam w)) \<Longrightarrow> ep (Some p) = ep' (Some p)"
  shows "auth_layer cfg env mo rq ep late w = auth_layer cfg env mo rq ep' late w"
proof -
  obtain out ws pm where d: "dispatch env (ac_iam cfg) (ac_mw cfg) (am_now mo) (ar_api rq) (iw_db (aw_iam w)) (aw_auth_limits w)
      (aw_metrics w) = (out, ws, pm)" by (metis prod_cases3)
  have "ep p = ep' p" if "out = Forward p" for p
    using protected_forward [OF d [unfolded that] assms(1)] assms(2) by (auto simp: admitted_def)
  then show ?thesis using d by (cases out) (simp_all add: auth_layer_def route_layer_def Let_def split: option.split)
qed

lemma context_layer_guard:
  assumes "protected_path (ar_api rq)" "\<And>p. admitted cfg rq p (iw_db (aw_iam w)) \<Longrightarrow> ep (Some p) = ep' (Some p)"
  shows "context_layer cfg mo rq ep late w = context_layer cfg mo rq ep' late w"
proof -
  have "auth_layer cfg env mo rq ep late (w\<lparr>aw_shutdown := sm\<rparr>) = auth_layer cfg env mo rq ep' late (w\<lparr>aw_shutdown := sm\<rparr>)" for env sm
    by (rule auth_layer_guard) (use assms in simp_all)
  then show ?thesis by (simp add: context_layer_def Let_def split: prod.split ctx_entry.split)
qed

text \<open>
  The answer to a protected request depends on what the route does for principals that the request's own credential
  proves and that its path allows, and on nothing else of the route.
\<close>

lemma route_guarded:
  assumes "protected_path (ar_api rq)" "\<And>p. admitted cfg rq p (iw_db (aw_iam w)) \<Longrightarrow> ep (Some p) = ep' (Some p)"
  shows "serve_http cfg mo rq ep w = serve_http cfg mo rq ep' w"
proof -
  have "context_layer cfg mo rq ep late (w\<lparr>aw_metrics := pm, aw_limits := ws\<rparr>)
      = context_layer cfg mo rq ep' late (w\<lparr>aw_metrics := pm, aw_limits := ws\<rparr>)" for late pm ws
    by (rule context_layer_guard) (use assms in simp_all)
  then have "timeout_layer cfg mo rq ep (w\<lparr>aw_metrics := pm, aw_limits := ws\<rparr>)
      = timeout_layer cfg mo rq ep' (w\<lparr>aw_metrics := pm, aw_limits := ws\<rparr>)" for pm ws
    by (simp add: timeout_layer_def Let_def)
  then have "rate_layer cfg mo rq ep w = rate_layer cfg mo rq ep' w"
    by (simp add: rate_layer_def Let_def split: prod.split limit_decision.split)
  then show ?thesis by (simp add: serve_http_def)
qed

lemma auth_layer_refused:
  assumes "protected_path (ar_api rq)" "\<And>p. \<not> admitted cfg rq p (iw_db (aw_iam w))"
  shows "aw_iam (snd (auth_layer cfg env mo rq ep late w)) = aw_iam w \<and> fst (auth_layer cfg env mo rq ep late w) \<noteq> LateRoute"
proof -
  obtain out ws pm where d: "dispatch env (ac_iam cfg) (ac_mw cfg) (am_now mo) (ar_api rq) (iw_db (aw_iam w)) (aw_auth_limits w)
      (aw_metrics w) = (out, ws, pm)" by (metis prod_cases3)
  have nf: "\<nexists>p. out = Forward p"
  proof
    assume "\<exists>p. out = Forward p"
    then obtain p where "out = Forward p" by blast
    with protected_forward [OF d [unfolded this] assms(1)] assms(2) show False by (auto simp: admitted_def)
  qed
  show ?thesis
  proof (cases out)
    case (Forward p)
    with nf show ?thesis by blast
  qed (use d in \<open>simp_all add: auth_layer_def Let_def\<close>)
qed

lemma context_layer_refused:
  assumes "protected_path (ar_api rq)" "\<And>p. \<not> admitted cfg rq p (iw_db (aw_iam w))"
  shows "aw_iam (snd (context_layer cfg mo rq ep late w)) = aw_iam w"
proof -
  have "aw_iam (snd (auth_layer cfg env mo rq ep late (w\<lparr>aw_shutdown := sm\<rparr>))) = aw_iam w" for env sm
    using auth_layer_refused [of rq cfg "w\<lparr>aw_shutdown := sm\<rparr>" env mo ep late] assms by simp
  then show ?thesis
    by (auto simp: context_layer_def Let_def split: prod.splits ctx_entry.splits) (metis snd_conv)+
qed

text \<open>A protected request without an admitted principal changes nothing in the identity service.\<close>

lemma unauthenticated_stopped:
  assumes "protected_path (ar_api rq)" "\<And>p. \<not> admitted cfg rq p (iw_db (aw_iam w))"
  shows "aw_iam (snd (serve_http cfg mo rq ep w)) = aw_iam w"
    and "serve_http cfg mo rq ep w = serve_http cfg mo rq ep' w"
proof -
  have c: "aw_iam (snd (context_layer cfg mo rq ep late (w\<lparr>aw_metrics := pm, aw_limits := ws\<rparr>))) = aw_iam w" for late pm ws
    using context_layer_refused [of rq cfg "w\<lparr>aw_metrics := pm, aw_limits := ws\<rparr>" mo ep late] assms by simp
  have "aw_iam (snd (timeout_layer cfg mo rq ep (w\<lparr>aw_metrics := pm, aw_limits := ws\<rparr>))) = aw_iam w" for pm ws
    using c [where pm = pm and ws = ws] unfolding timeout_layer_def Let_def
    by (auto split: prod.splits inner_end.splits simp del: fun_upd_apply) (metis snd_conv)+
  then have "aw_iam (snd (rate_layer cfg mo rq ep w)) = aw_iam w"
    by (simp add: rate_layer_def Let_def split: prod.split limit_decision.split)
  then show "aw_iam (snd (serve_http cfg mo rq ep w)) = aw_iam w"
    using serve_http_world [where f = aw_iam, OF _ refl] by simp
  show "serve_http cfg mo rq ep w = serve_http cfg mo rq ep' w"
    using route_guarded [OF assms(1)] assms(2) by blast
qed

text \<open>
  The schema of the documentation lies below \<^verbatim>\<open>/api/v1\<close>, so it asks for a principal also where debugging opens the
  pages that read it.
\<close>

lemma schema_protected:
  "protected_path \<lparr>aq_method = u ''GET'', aq_path = u ''/api/v1/openapi.json'', aq_authorization = a, aq_api_key = k, aq_upgrade = g\<rparr>"
  by (simp add: protected_path_def trim_path_def Let_def is_public_def PUBLIC_ROUTES_def PUBLIC_PREFIXES_def has_prefix_def
      startswith_def upper_def upper_c_def u_def)

section \<open>Lemmas: counting\<close>

text \<open>What a request that reaches its route adds to the counters.\<close>

lemma route_counted:
  assumes rate: "rate_limit_dispatch (ac_rate_enabled cfg) (am_now mo) (http_request_of rq) (aw_metrics w, aw_limits w) = (PassOn, pm0, ws0)"
    and open_: "\<not> sm_shutting_down (aw_shutdown w)"
    and auth: "\<And>env. dispatch env (ac_iam cfg) (ac_mw cfg) (am_now mo) (ar_api rq) (iw_db (aw_iam w)) (aw_auth_limits w) pm0
                 = (Forward p, ws1, pm1)"
    and soon: "am_late mo = None"
    and route: "ep p (aw_iam w, pm1) = (r, iam, pm2)"
  shows "r = Inr c \<Longrightarrow> request_count (aw_metrics (snd (serve_http cfg mo rq ep w))) = request_count pm2 + 1"
    and "r = Inl e \<Longrightarrow> isinstance e (Lib ''HTTPException'') \<Longrightarrow> (\<And>env. \<exists>a. fst (http_exception_handler env [] e pm2) = Inr a) \<Longrightarrow>
         request_count (aw_metrics (snd (serve_http cfg mo rq ep w))) = request_count pm2 + 2"
proof -
  obtain sm where b: "context_enter (http_request_of rq) (aw_shutdown w) = (Entered, sm)"
    using open_ by (auto simp: context_enter_def begin_request_def)
  let ?w1 = "w\<lparr>aw_metrics := pm0, aw_limits := ws0\<rparr>"
  let ?env = "request_env cfg (Some (ri_request (request_ids_of (ar_headers rq) (am_fresh mo))))"
  have inner: "auth_layer cfg ?env mo rq ep None (?w1\<lparr>aw_shutdown := sm\<rparr>)
      = (case exception_layer ?env r pm2 of
           (a, pm') \<Rightarrow> (a, ?w1\<lparr>aw_shutdown := sm, aw_auth_limits := ws1, aw_iam := iam, aw_metrics := pm'\<rparr>))"
    using auth route by (simp add: auth_layer_def route_layer_def Let_def split: prod.split)
  have serve: "aw_metrics (snd (serve_http cfg mo rq ep w)) =
      record_request (py_round_to 2 (am_latency mo)) (case inner_status (Answers c h) of Some c \<Rightarrow> c | None \<Rightarrow> 500) None pm'"
    if "exception_layer ?env r pm2 = (Answers c h, pm')" for c h pm'
    using rate soon b inner that
    by (simp add: serve_http_def rate_layer_def timeout_layer_def context_layer_def Let_def context_exit_def)
  show "request_count (aw_metrics (snd (serve_http cfg mo rq ep w))) = request_count pm2 + 1" if "r = Inr c"
    using serve [of c Map.empty pm2] that by (simp add: exception_layer_def record_request_def)
  assume e: "r = Inl e" "isinstance e (Lib ''HTTPException'')" "\<And>env. \<exists>a. fst (http_exception_handler env [] e pm2) = Inr a"
  obtain a where a: "fst (http_exception_handler ?env [] e pm2) = Inr a" using e(3) by blast
  then obtain pm3 where pm3: "http_exception_handler ?env [] e pm2 = (Inr a, pm3)" by (cases "http_exception_handler ?env [] e pm2") auto
  have "request_count (snd (resolve_exception ?env e pm2)) = request_count pm2"
    using e(2) by (simp add: resolve_http)
  then have "request_count pm3 = request_count pm2 + 1"
    using pm3 by (auto simp: http_exception_handler_def answer_exception_def record_request_def split: prod.splits sum.splits)
  moreover have "exception_layer ?env r pm2 = (Answers (ja_status a) (map_of (ja_headers a)), pm3)"
    using e(1,2) pm3 by (simp add: exception_layer_def answered_def)
  ultimately show "request_count (aw_metrics (snd (serve_http cfg mo rq ep w))) = request_count pm2 + 2"
    using serve by (simp add: record_request_def)
qed

text \<open>A request past its deadline is one request and two errors, and the route's answer is a 504 without an identifier.\<close>

lemma late_counted:
  assumes "rate_limit_dispatch (ac_rate_enabled cfg) (am_now mo) (http_request_of rq) (aw_metrics w, aw_limits w) = (PassOn, pm0, ws0)"
    and "\<not> sm_shutting_down (aw_shutdown w)"
    and "\<And>env. dispatch env (ac_iam cfg) (ac_mw cfg) (am_now mo) (ar_api rq) (iw_db (aw_iam w)) (aw_auth_limits w) pm0
           = (Forward p, ws1, pm1)"
    and "deadline_applies (ac_timeouts cfg) (aq_path (ar_api rq))" "am_late mo = Some f"
  shows "fst (serve_http cfg mo rq ep w) = Some (504, outer_id_header)"
    and "request_count (aw_metrics (snd (serve_http cfg mo rq ep w))) = request_count pm1 + 1"
    and "error_count (aw_metrics (snd (serve_http cfg mo rq ep w))) = error_count pm1 + 2"
    and "timeout_count (aw_metrics (snd (serve_http cfg mo rq ep w))) = timeout_count pm1 + 1"
proof -
  obtain sm where b: "context_enter (http_request_of rq) (aw_shutdown w) = (Entered, sm)"
    using assms(2) by (auto simp: context_enter_def begin_request_def)
  note facts = assms(1,3,4,5) b
  show "fst (serve_http cfg mo rq ep w) = Some (504, outer_id_header)"
    using facts by (simp add: serve_http_def rate_layer_def timeout_layer_def context_layer_def auth_layer_def route_layer_def
        Let_def context_exit_def)
  show "request_count (aw_metrics (snd (serve_http cfg mo rq ep w))) = request_count pm1 + 1"
    "error_count (aw_metrics (snd (serve_http cfg mo rq ep w))) = error_count pm1 + 2"
    "timeout_count (aw_metrics (snd (serve_http cfg mo rq ep w))) = timeout_count pm1 + 1"
    using facts by (simp_all add: serve_http_def rate_layer_def timeout_layer_def context_layer_def auth_layer_def route_layer_def
        Let_def context_exit_def record_timeout_def record_request_def inner_status_def)
qed

section \<open>Lemmas: ending\<close>

lemma shutdown_answer:
  "\<exists>body. resolve_exception env (runtime_error (u ''Server is shutting down'')) pm = (Inr (503, body), pm)"
proof -
  have "occurs_in (u ''shutting down'') (lower (u ''Server is shutting down''))"
    by (simp add: occurs_in_def lower_def lower_c_def u_def startswith_def list_ex_iff)
  then show ?thesis
    by (simp add: resolve_exception_def Let_def isinstance_def isinstance_any_def runtime_error_def lib_exn_def)
qed

text \<open>
  Once the shutdown has begun, every request that the limits let pass is answered with 503, and its route is not run.
\<close>

lemma shutdown_refuses:
  assumes rate: "rate_limit_dispatch (ac_rate_enabled cfg) (am_now mo) (http_request_of rq) (aw_metrics w, aw_limits w) = (PassOn, pm0, ws0)"
    and down: "sm_shutting_down (aw_shutdown w)"
  shows "\<exists>h. fst (serve_http cfg mo rq ep w) = Some (503, h)" "aw_iam (snd (serve_http cfg mo rq ep w)) = aw_iam w"
    "aw_shutdown (snd (serve_http cfg mo rq ep w)) = aw_shutdown w"
proof -
  let ?w1 = "w\<lparr>aw_metrics := pm0, aw_limits := ws0\<rparr>"
  obtain body where body: "resolve_exception (request_env cfg None) (runtime_error (u ''Server is shutting down'')) pm0 = (Inr (503, body), pm0)"
    using shutdown_answer by blast
  consider "context_enter (http_request_of rq) (aw_shutdown w) = (Reject503, aw_shutdown w)"
    | "context_enter (http_request_of rq) (aw_shutdown w) = (EnterRaises (RuntimeError ''Server is shutting down''), aw_shutdown w)"
    using down by (cases "startswith (rq_path (http_request_of rq)) (u ''/api/v1'')") (simp_all add: context_enter_def begin_request_def)
  then have "(\<exists>h. fst (serve_http cfg mo rq ep w) = Some (503, h)) \<and> aw_iam (snd (serve_http cfg mo rq ep w)) = aw_iam w
      \<and> aw_shutdown (snd (serve_http cfg mo rq ep w)) = aw_shutdown w"
    using rate body
    by cases (simp_all add: serve_http_def rate_layer_def timeout_layer_def context_layer_def Let_def answered_def
        unhandled_exception_handler_def answer_exception_def json_response_def)
  then show "\<exists>h. fst (serve_http cfg mo rq ep w) = Some (503, h)" "aw_iam (snd (serve_http cfg mo rq ep w)) = aw_iam w"
    "aw_shutdown (snd (serve_http cfg mo rq ep w)) = aw_shutdown w" by blast+
qed

lemma await_drain_shutting: "sm_shutting_down (snd (await_drain n s)) = sm_shutting_down s"
  by (induction n s rule: await_drain.induct) (auto simp: end_request_def Let_def)

text \<open>An end without a failing library leaves no socket, no client and no database handle, and no way in.\<close>

lemma lifespan_end_clean:
  assumes "pc_sockets p = set sockets" "lifespan_end ends sockets None None p = (r, p')"
  shows "r = None" "pc_sockets p' = {}" "fst (pc_client p') = None" "pc_handles p' = no_handles" "sm_shutting_down (pc_shutdown p')"
  using assms
  by (auto simp: lifespan_end_def Let_def disconnect_all_def fold_disconnect close_http_client_def close_database_def
      initiate_shutdown_def await_drain_shutting split: if_splits)

text \<open>A client that cannot be closed keeps the database from being closed.\<close>

lemma client_blocks_database:
  assumes "fst (pc_client p) = Some False"
  shows "pc_handles (snd (lifespan_end ends sockets (Some e) db p)) = pc_handles p"
  using assms by (simp add: lifespan_end_def Let_def)

text \<open>A process that has started has passed both checks, and has database handles exactly when an address is given.\<close>

lemma lifespan_started:
  assumes "lifespan_start creates pb s p = (Inr v, p')"
  shows "validate_security_settings s = Inr ()" "validate_voice_platform pb s = Inr ()"
    "pc_handles p' = (if given (DATABASE_URL s) then \<lparr>dh_engine = True, dh_factory = True\<rparr> else pc_handles p)"
  using assms
  by (auto simp: lifespan_start_def init_database_def bind_sum_Inr_iff split: prod.splits option.splits if_splits)

end
