(* ===== verification/OpsEndpoints.thy ===== *)
theory OpsEndpoints
  imports Reliability TurnMetrics StreamAuth
begin

text \<open>
  \<^verbatim>\<open>app/api/v1/endpoints/metrics.py\<close> and \<^verbatim>\<open>app/api/v1/endpoints/health.py\<close>: the text of the counters in the
  Prometheus format, and the answers of the health probes. How Python prints a floating point number is the parameter
  \<open>num\<close>. A dictionary of counters is read in its order of insertion, so the keys are an argument.
\<close>

section \<open>The metrics text\<close>

definition num_line :: "string \<Rightarrow> ustr \<Rightarrow> ustr" where
  "num_line name v = u name @ u '' '' @ v"

definition int_text :: "nat \<Rightarrow> ustr" where
  "int_text n = str_int (int n)"

definition family :: "string \<Rightarrow> string \<Rightarrow> string \<Rightarrow> ustr list" where
  "family name help kind = [u (''# HELP '' @ name @ '' '' @ help), u (''# TYPE '' @ name @ '' '' @ kind)]"

definition quantile_line :: "string \<Rightarrow> string \<Rightarrow> ustr \<Rightarrow> ustr" where
  "quantile_line name q v = u (name @ ''{quantile='' @ [CHR 34] @ q @ [CHR 34] @ ''} '') @ v"

definition safe_label :: "string \<Rightarrow> string" where
  "safe_label name = filter (\<lambda>c. c \<noteq> CHR 34 \<and> c \<noteq> CHR 10) name"

text \<open>The two lines of one entry of a dictionary of counters.\<close>

definition labelled_lines :: "string \<Rightarrow> string \<Rightarrow> (string \<Rightarrow> nat) \<Rightarrow> string \<Rightarrow> ustr list" where
  "labelled_lines metric label counts name =
     [u (''# TYPE '' @ metric @ '' counter''),
      u (metric @ ''{'' @ label @ ''='' @ [CHR 34] @ safe_label name @ [CHR 34] @ ''} '') @ int_text (counts name)]"

definition fixed_lines ::
  "(pyfloat \<Rightarrow> ustr) \<Rightarrow> platform_metrics \<Rightarrow> latency_snapshot \<Rightarrow> streaming_metrics \<Rightarrow> ustr list" where
  "fixed_lines num pm voice sm =
     family ''voxera_http_requests_total'' ''Total HTTP requests processed'' ''counter''
     @ [num_line ''voxera_http_requests_total'' (int_text (request_count pm))]
     @ family ''voxera_http_errors_total'' ''Total HTTP error responses'' ''counter''
     @ [num_line ''voxera_http_errors_total'' (int_text (error_count pm))]
     @ family ''voxera_http_timeouts_total'' ''Total request timeouts'' ''counter''
     @ [num_line ''voxera_http_timeouts_total'' (int_text (timeout_count pm))]
     @ family ''voxera_rate_limits_total'' ''Total rate-limited requests'' ''counter''
     @ [num_line ''voxera_rate_limits_total'' (int_text (rate_limit_count pm))]
     @ family ''voxera_http_latency_avg_ms'' ''Average request latency'' ''gauge''
     @ [num_line ''voxera_http_latency_avg_ms'' (num (latency_avg_ms pm))]
     @ family ''voxera_http_latency_p95_ms'' ''P95 request latency'' ''gauge''
     @ [num_line ''voxera_http_latency_p95_ms'' (num (pm_percentile 95 pm))]
     @ family ''voxera_http_latency_p99_ms'' ''P99 request latency'' ''gauge''
     @ [num_line ''voxera_http_latency_p99_ms'' (num (pm_percentile 99 pm))]
     @ family ''voxera_audio_queue_wait_ms'' ''Time the latest audio frame waited in the inbound queue (not voice latency)'' ''gauge''
     @ [num_line ''voxera_audio_queue_wait_ms'' (num (py_round_to 2 (current_latency_ms sm)))]
     @ family ''voxera_voice_turns_total'' ''User turns answered'' ''counter''
     @ [num_line ''voxera_voice_turns_total'' (int_text (sn_turns voice))]
     @ family ''voxera_voice_interruptions_total'' ''Replies stopped by barge-in'' ''counter''
     @ [num_line ''voxera_voice_interruptions_total'' (int_text (sn_interruptions voice))]
     @ family ''voxera_voice_first_audio_ms'' ''Final transcript to first audio frame sent, rolling window'' ''summary''
     @ [quantile_line ''voxera_voice_first_audio_ms'' ''0.5'' (num (first_audio_p50 voice)),
        quantile_line ''voxera_voice_first_audio_ms'' ''0.95'' (num (first_audio_p95 voice))]
     @ family ''voxera_voice_llm_first_token_ms'' ''Final transcript to first LLM token, rolling window'' ''summary''
     @ [quantile_line ''voxera_voice_llm_first_token_ms'' ''0.5'' (num (first_token_p50 voice)),
        quantile_line ''voxera_voice_llm_first_token_ms'' ''0.95'' (num (first_token_p95 voice))]
     @ family ''voxera_voice_dropped_frames_total'' ''Dropped audio frames'' ''counter''
     @ [num_line ''voxera_voice_dropped_frames_total'' (int_text (dropped_frames sm))]
     @ family ''voxera_voice_queue_depth'' ''Current voice queue depth'' ''gauge''
     @ [num_line ''voxera_voice_queue_depth'' (int_text (queue_depth sm))]"

definition metric_lines ::
  "(pyfloat \<Rightarrow> ustr) \<Rightarrow> string list \<Rightarrow> string list \<Rightarrow> platform_metrics \<Rightarrow> latency_snapshot \<Rightarrow> streaming_metrics
     \<Rightarrow> ustr list" where
  "metric_lines num exceptions dependencies pm voice sm =
     fixed_lines num pm voice sm
     @ concat (map (labelled_lines ''voxera_exceptions_total'' ''type'' (exception_counts pm)) exceptions)
     @ concat (map (labelled_lines ''voxera_dependency_failures_total'' ''dependency'' (dependency_failures pm)) dependencies)"

definition render_prometheus ::
  "(pyfloat \<Rightarrow> ustr) \<Rightarrow> string list \<Rightarrow> string list \<Rightarrow> platform_metrics \<Rightarrow> latency_snapshot \<Rightarrow> streaming_metrics
     \<Rightarrow> ustr" where
  "render_prometheus num exceptions dependencies pm voice sm =
     join [10] (metric_lines num exceptions dependencies pm voice sm) @ [10]"

section \<open>The health probes\<close>

definition health_http_status :: "string \<Rightarrow> nat" where
  "health_http_status check_status =
     (if check_status = ''healthy'' then 200 else if check_status = ''degraded'' then 200 else 503)"

definition health_ready ::
  "bool \<Rightarrow> bool \<Rightarrow> db_probe \<Rightarrow> platform_metrics \<Rightarrow> (nat \<times> string \<times> health_value list) \<times> platform_metrics" where
  "health_ready enabled engine probe pm =
     (case ready_check enabled engine probe pm of
        ((st, checks), pm') \<Rightarrow> ((health_http_status st, st, checks), pm'))"

definition health_deep ::
  "bool \<Rightarrow> bool \<Rightarrow> db_probe \<Rightarrow> streaming_metrics \<Rightarrow> platform_metrics \<Rightarrow> (nat \<times> string) \<times> platform_metrics" where
  "health_deep enabled engine probe sm pm =
     (case deep_check enabled engine probe sm pm of (st, pm') \<Rightarrow> ((health_http_status st, st), pm'))"

record legacy_health =
  lh_status :: string
  lh_checks :: "health_value list"
  lh_streaming_status :: string
  lh_current_latency_ms :: pyfloat
  lh_max_latency_ms :: pyfloat
  lh_dropped_frames :: nat
  lh_queue_depth :: nat

definition health_check_legacy ::
  "bool \<Rightarrow> bool \<Rightarrow> db_probe \<Rightarrow> streaming_metrics \<Rightarrow> platform_metrics \<Rightarrow> (nat \<times> legacy_health) \<times> platform_metrics" where
  "health_check_legacy enabled engine probe sm pm =
     (case ready_check enabled engine probe pm of
        ((st, checks), pm') \<Rightarrow>
          ((health_http_status st,
            \<lparr>lh_status = st, lh_checks = checks,
             lh_streaming_status = (if dropped_frames sm > 0 \<or> current_latency_ms sm \<ge> 100 then ''DEGRADED'' else ''OK''),
             lh_current_latency_ms = py_round_to 2 (current_latency_ms sm),
             lh_max_latency_ms = py_round_to 2 (max_latency_ms sm),
             lh_dropped_frames = dropped_frames sm, lh_queue_depth = queue_depth sm\<rparr>), pm'))"

section \<open>Lemmas\<close>

text \<open>A label never ends early: it holds no quote and no line break.\<close>

lemma safe_label_closed: "CHR 34 \<notin> set (safe_label name)" "CHR 10 \<notin> set (safe_label name)"
  by (simp_all add: safe_label_def)

text \<open>
  The format allows one \<open>TYPE\<close> line for a metric; the text has one for every kind of exception that was counted.
\<close>

definition type_lines :: "string \<Rightarrow> ustr list \<Rightarrow> nat" where
  "type_lines metric ls = length (filter (\<lambda>l. l = u (''# TYPE '' @ metric @ '' counter'')) ls)"

lemma type_lines_append [simp]: "type_lines m (a @ b) = type_lines m a + type_lines m b"
  by (simp add: type_lines_def)

lemma type_lines_le: "length ls \<le> n \<Longrightarrow> type_lines m ls \<le> n"
  using length_filter_le order_trans unfolding type_lines_def by blast

lemma labelled_types:
  "length names \<le> type_lines metric (concat (map (labelled_lines metric label counts) names))"
  by (induction names) (auto simp: type_lines_def labelled_lines_def)

lemma exception_types:
  "length exceptions \<le> type_lines ''voxera_exceptions_total'' (metric_lines num exceptions dependencies pm voice sm)"
  using labelled_types [of exceptions "''voxera_exceptions_total''" "''type''" "exception_counts pm"]
  by (simp add: metric_lines_def)

text \<open>A probe answers 200 exactly when nothing it checked is unhealthy.\<close>

lemma aggregate_503:
  "aggregate_status checks = ''unhealthy'' \<longleftrightarrow> ''unhealthy'' \<in> set (concat (map statuses_of checks))"
  by (auto simp: aggregate_status_def Let_def list_ex_iff)

lemma status_200: "health_http_status (aggregate_status checks) = 200 \<longleftrightarrow> ''unhealthy'' \<notin> set (concat (map statuses_of checks))"
  using aggregate_503 [of checks] by (auto simp: aggregate_status_def Let_def health_http_status_def list_ex_iff)

lemma ready_iff: "fst (fst (health_ready enabled engine probe pm)) = 200 \<longleftrightarrow> (enabled \<longrightarrow> engine \<and> probe = DbAnswers)"
  by (cases probe) (simp_all add: health_ready_def ready_check_def check_database_def aggregate_status_def statuses_of_def
      health_http_status_def)

end
