(* ===== verification/Logging.thy ===== *)
theory Logging
  imports Settings Reliability AuthMiddleware
begin

text \<open>
  \<^verbatim>\<open>app/core/logger.py\<close> and \<^verbatim>\<open>app/telephony/telephony_log.py\<close>: the context variables of a request, the fields of a
  JSON log line, where a line goes, and the request context that \<^verbatim>\<open>app/core/middleware.py\<close> binds and clears. A line is
  the list of its fields, before it is printed as JSON.
\<close>

section \<open>Context\<close>

record log_context =
  lc_request_id :: "ustr option"
  lc_correlation_id :: "ustr option"
  lc_call_id :: "ustr option"
  lc_tenant_id :: "ustr option"
  lc_organization_id :: "ustr option"
  lc_user_id :: "ustr option"
  lc_http_method :: "ustr option"
  lc_endpoint :: "ustr option"

definition clear_context :: "log_context \<Rightarrow> log_context" where
  "clear_context c =
     \<lparr>lc_request_id = None, lc_correlation_id = None, lc_call_id = None, lc_tenant_id = None, lc_organization_id = None,
      lc_user_id = None, lc_http_method = None, lc_endpoint = None\<rparr>"

text \<open>What \<^verbatim>\<open>dispatch\<close> sets when a request enters.\<close>

definition bind_request :: "request_ids \<Rightarrow> ustr \<Rightarrow> ustr \<Rightarrow> log_context \<Rightarrow> log_context" where
  "bind_request ids http_method path c =
     (let c1 = c\<lparr>lc_request_id := Some (ri_request ids), lc_correlation_id := Some (ri_correlation ids),
                 lc_http_method := Some http_method, lc_endpoint := Some path\<rparr>
      in (case ri_call ids of None \<Rightarrow> c1 | Some i \<Rightarrow> c1\<lparr>lc_call_id := Some i\<rparr>))"

definition bind_principal_context :: "principal option \<Rightarrow> log_context \<Rightarrow> log_context" where
  "bind_principal_context p c =
     (case p of
        None \<Rightarrow> c
      | Some p \<Rightarrow>
          c\<lparr>lc_user_id := (case pp_user_id p of None \<Rightarrow> lc_user_id c | Some i \<Rightarrow> Some (u (uuid_text i))),
            lc_organization_id := Some (u (uuid_text (pp_organization_id p))),
            lc_tenant_id := (case pp_tenant_id p of None \<Rightarrow> lc_tenant_id c | Some i \<Rightarrow> Some (u (uuid_text i)))\<rparr>)"

section \<open>Lines\<close>

record log_record =
  rc_timestamp :: ustr
  rc_level :: string
  rc_levelno :: nat
  rc_logger :: ustr
  rc_message :: ustr
  rc_exception :: "ustr option"
  rc_extra :: "json option"
  rc_module :: ustr
  rc_function :: ustr
  rc_line :: nat

type_synonym log_fields = "(ustr \<times> json) list"

definition text_field :: "string \<Rightarrow> ustr \<Rightarrow> ustr \<times> json" where
  "text_field k v = (u k, JStr v)"

text \<open>A context variable that is \<^verbatim>\<open>None\<close> or empty adds nothing.\<close>

definition context_field :: "string \<Rightarrow> ustr option \<Rightarrow> log_fields" where
  "context_field k v = (case v of None \<Rightarrow> [] | Some t \<Rightarrow> if t = [] then [] else [text_field k t])"

definition context_fields :: "log_context \<Rightarrow> log_fields" where
  "context_fields c =
     context_field ''request_id'' (lc_request_id c) @ context_field ''correlation_id'' (lc_correlation_id c)
     @ context_field ''call_id'' (lc_call_id c) @ context_field ''tenant_id'' (lc_tenant_id c)
     @ context_field ''organization_id'' (lc_organization_id c) @ context_field ''user_id'' (lc_user_id c)
     @ context_field ''method'' (lc_http_method c) @ context_field ''endpoint'' (lc_endpoint c)"

definition base_fields :: "log_record \<Rightarrow> log_fields" where
  "base_fields r =
     [text_field ''timestamp'' (rc_timestamp r), text_field ''level'' (u (rc_level r)), text_field ''service'' (u ''voxera-backend''),
      text_field ''logger'' (rc_logger r), text_field ''message'' (rc_message r)]"

definition format_record :: "log_context \<Rightarrow> log_record \<Rightarrow> log_fields" where
  "format_record c r =
     (let d1 = base_fields r @ context_fields c
            @ (case rc_exception r of None \<Rightarrow> [] | Some t \<Rightarrow> [text_field ''exception'' t]);
          d2 = (case rc_extra r of Some (JObj fs) \<Rightarrow> dict_update d1 fs | _ \<Rightarrow> d1)
      in if rc_levelno r \<le> 10
         then dict_update d2 [text_field ''module'' (rc_module r), text_field ''function'' (rc_function r),
                              (u ''line'', JNum (of_nat (rc_line r)))]
         else d2)"

text \<open>\<^verbatim>\<open>_log_with_context\<close>: empty extra fields are not attached.\<close>

definition log_with_context :: "log_fields option \<Rightarrow> json option" where
  "log_with_context extra = (case extra of None \<Rightarrow> None | Some fs \<Rightarrow> if fs = [] then None else Some (JObj fs))"

section \<open>Where lines go\<close>

text \<open>\<^verbatim>\<open>getattr(logging, name.upper(), logging.INFO)\<close>\<close>

definition log_level_number :: "ustr \<Rightarrow> nat" where
  "log_level_number name =
     (case map_of [(u ''NOTSET'', 0), (u ''DEBUG'', 10), (u ''INFO'', 20), (u ''WARNING'', 30), (u ''WARN'', 30),
                   (u ''ERROR'', 40), (u ''CRITICAL'', 50), (u ''FATAL'', 50)] (upper name) of
        Some n \<Rightarrow> n | None \<Rightarrow> 20)"

text \<open>The console and the file \<^verbatim>\<open>logs/voxera.json\<close>: the root logger filters first, then each handler.\<close>

definition log_sinks :: "app_settings \<Rightarrow> nat \<Rightarrow> bool \<times> bool" where
  "log_sinks s levelno =
     (let level = log_level_number (get_log_level s)
      in (level \<le> levelno \<and> level \<le> levelno, level \<le> levelno \<and> 20 \<le> levelno))"

section \<open>Telephony lines\<close>

record telephony_log =
  tl_event :: ustr
  tl_call_sid :: "ustr option"
  tl_stream_sid :: "ustr option"
  tl_conversation_id :: "ustr option"
  tl_state :: "ustr option"
  tl_metrics :: "log_fields option"
  tl_level :: string
  tl_message :: ustr
  tl_extra :: log_fields

definition optional_field :: "string \<Rightarrow> ustr option \<Rightarrow> log_fields" where
  "optional_field k v = (case v of None \<Rightarrow> [] | Some t \<Rightarrow> [text_field k t])"

definition telephony_payload :: "telephony_log \<Rightarrow> log_fields" where
  "telephony_payload t =
     dict_update
       ([text_field ''event'' (tl_event t)] @ optional_field ''call_sid'' (tl_call_sid t)
        @ optional_field ''stream_sid'' (tl_stream_sid t) @ optional_field ''conversation_id'' (tl_conversation_id t)
        @ optional_field ''state'' (tl_state t)
        @ (case tl_metrics t of None \<Rightarrow> [] | Some m \<Rightarrow> [(u ''metrics'', JObj m)]))
       (filter (\<lambda>(k, v). k \<noteq> u ''exc_info'') (tl_extra t))"

text \<open>The method of the logger is looked up by its name; the result is the method, the message and the extra fields.\<close>

definition log_telephony :: "telephony_log \<Rightarrow> py_exn + string \<times> ustr \<times> json option" where
  "log_telephony t =
     (if tl_level t \<in> {''debug'', ''info'', ''warning'', ''error'', ''exception'', ''critical''}
      then Inr (tl_level t, tl_message t, log_with_context (Some (telephony_payload t)))
      else Inl AttributeError)"

section \<open>Lemmas\<close>

text \<open>Extra fields win over every field of the line: a caller's field can replace the level or the identifiers.\<close>

lemma extra_field_wins:
  assumes "rc_extra r = Some (JObj fs)" "10 < rc_levelno r" "distinct (map fst fs)" "(k, v) \<in> set fs"
  shows "map_of (format_record c r) k = Some v"
proof -
  have "map_of (rev fs) k = Some v" using assms(3,4) by (simp add: map_of_eq_Some_iff rev_map [symmetric])
  with assms(1,2) show ?thesis by (simp add: format_record_def map_of_dict_update)
qed

text \<open>A line written while a request is bound carries its identifiers, unless an extra field replaces them.\<close>

lemma map_of_context_field [simp]:
  "map_of (context_field k v) x = (if x = u k \<and> v \<noteq> None \<and> v \<noteq> Some [] then Some (JStr (the v)) else None)"
  by (auto simp: context_field_def text_field_def split: option.split)

lemma request_line:
  assumes "rc_extra r = None" "rc_exception r = None" "10 < rc_levelno r" "ri_request ids \<noteq> []"
  shows "map_of (format_record (bind_request ids m path c) r) (u ''request_id'') = Some (JStr (ri_request ids))"
  using assms
  by (auto simp: format_record_def base_fields_def context_fields_def text_field_def bind_request_def Let_def map_of_append u_def
      split: option.split)

text \<open>Nothing of a request is left in the context of the next one.\<close>

lemma cleared_line: "context_fields (clear_context c) = []"
  by (simp add: context_fields_def context_field_def clear_context_def)

lemma clear_forgets: "clear_context (bind_principal_context p (bind_request ids m path c)) = clear_context c'"
  by (simp add: clear_context_def)

text \<open>Every telephony line names its event, unless an extra field replaces it, and never carries the exception flag.\<close>

lemma telephony_event:
  assumes "map_of (rev (tl_extra t)) (u ''event'') = None"
  shows "map_of (telephony_payload t) (u ''event'') = Some (JStr (tl_event t))"
proof -
  have "map_of (rev (filter (\<lambda>(k, v). k \<noteq> u ''exc_info'') (tl_extra t))) (u ''event'') = None"
    using assms by (auto simp: map_of_eq_None_iff rev_filter)
  then show ?thesis by (simp add: telephony_payload_def map_of_dict_update text_field_def)
qed

text \<open>With the preset of production, only warnings and errors are written, to the console and to the file.\<close>

lemma production_lines:
  assumes "is_production s" "LOG_LEVEL s = Some (preset_log_level (ENVIRONMENT s))"
  shows "log_sinks s n = (30 \<le> n, 30 \<le> n)"
  using assms
  by (auto simp: log_sinks_def get_log_level_def given_def preset_log_level_def PRESET_LOG_LEVELS_def is_production_def
      log_level_number_def lower_def lower_c_def upper_def upper_c_def u_def)

end
