(* ===== verification/DeepgramSocket.thy ===== *)
theory DeepgramSocket
  imports StreamAuth
begin

text \<open>
  The socket of \<^verbatim>\<open>app/stt/providers/deepgram_engine.py\<close>: \<^verbatim>\<open>_connect\<close> with its two checks around the lock, \<^verbatim>\<open>close\<close>, and the
  receiving task that reads the socket. Any number of tasks call the two; each wait (for the lock, for the connection,
  for the cancelled receiver, for the closing handshake) is a step, and a task can be cancelled at each of them. A socket is a
  number. What is received is modelled in \<open>SttEngine\<close>.
\<close>

section \<open>The address\<close>

definition dg_param :: "string \<times> ustr \<Rightarrow> py_exn + ustr" where
  "dg_param p = bind_sum (quote_plus (snd p)) (\<lambda>v. Inr (u (fst p) @ u ''='' @ v))"

fun dg_params :: "(string \<times> ustr) list \<Rightarrow> py_exn + ustr" where
  "dg_params [] = Inr []"
| "dg_params [p] = dg_param p"
| "dg_params (p # ps) = bind_sum (dg_param p) (\<lambda>a. bind_sum (dg_params ps) (\<lambda>b. Inr (a @ u ''&'' @ b)))"

definition dg_listen_url :: "ustr \<Rightarrow> ustr \<Rightarrow> int \<Rightarrow> int \<Rightarrow> int \<Rightarrow> py_exn + ustr" where
  "dg_listen_url model language sample_rate endpointing_ms utterance_end_ms =
     bind_sum (dg_params [(''model'', model), (''language'', language), (''encoding'', u ''linear16''),
        (''sample_rate'', str_int sample_rate), (''channels'', u ''1''), (''interim_results'', u ''true''),
        (''punctuate'', u ''true''), (''endpointing'', str_int endpointing_ms),
        (''utterance_end_ms'', str_int utterance_end_ms)])
       (\<lambda>params. Inr (u ''wss://api.deepgram.com/v1/listen?'' @ params))"

section \<open>State\<close>

text \<open>Where a task is: in neither call, before the lock, or holding it.\<close>

datatype dg_phase = DgOutside | DgWantsConnect | DgConnecting | DgWantsClose | DgAwaitsReceiver | DgClosesSocket

record dg_socket =
  dk_ws :: "nat option"
  dk_connected :: bool
  dk_receiver :: "bool option"                  \<comment> \<open>the receiving task, and whether it still runs\<close>
  dk_lock :: "nat option"                       \<comment> \<open>the task that holds the lock\<close>
  dk_phase :: "nat \<Rightarrow> dg_phase"
  dk_open :: "nat set"                          \<comment> \<open>the sockets that were opened and not closed\<close>
  dk_next :: nat

definition new_dg_socket :: dg_socket where
  "new_dg_socket = \<lparr>dk_ws = None, dk_connected = False, dk_receiver = None, dk_lock = None, dk_phase = (\<lambda>t. DgOutside),
     dk_open = {}, dk_next = 0\<rparr>"

definition dg_ready :: "dg_socket \<Rightarrow> bool" where
  "dg_ready k \<longleftrightarrow> dk_connected k \<and> dk_ws k \<noteq> None"

definition dg_goto :: "nat \<Rightarrow> dg_phase \<Rightarrow> dg_socket \<Rightarrow> dg_socket" where
  "dg_goto t p k = k\<lparr>dk_phase := (dk_phase k)(t := p)\<rparr>"

text \<open>Leaving the \<^verbatim>\<open>async with\<close> block.\<close>

definition dg_leave :: "nat \<Rightarrow> dg_socket \<Rightarrow> dg_socket" where
  "dg_leave t k = (dg_goto t DgOutside k)\<lparr>dk_lock := None\<rparr>"

section \<open>Connecting\<close>

definition dg_connect :: "nat \<Rightarrow> dg_socket \<Rightarrow> dg_socket" where
  "dg_connect t k = (if dg_ready k then k else dg_goto t DgWantsConnect k)"

definition dg_connect_locked :: "nat \<Rightarrow> dg_socket \<Rightarrow> dg_socket" where
  "dg_connect_locked t k =
     (if dg_ready k then dg_goto t DgOutside k else (dg_goto t DgConnecting k)\<lparr>dk_lock := Some t\<rparr>)"

definition dg_connect_done :: "nat \<Rightarrow> dg_socket \<Rightarrow> dg_socket" where
  "dg_connect_done t k =
     (dg_leave t k)\<lparr>dk_ws := Some (dk_next k), dk_connected := True, dk_receiver := Some True,
        dk_open := insert (dk_next k) (dk_open k), dk_next := dk_next k + 1\<rparr>"

section \<open>Closing\<close>

definition dg_drop_socket :: "nat \<Rightarrow> dg_socket \<Rightarrow> dg_socket" where
  "dg_drop_socket t k =
     (let k1 = k\<lparr>dk_receiver := None\<rparr>
      in case dk_ws k1 of
           None \<Rightarrow> (dg_leave t k1)\<lparr>dk_connected := False\<rparr>
         | Some s \<Rightarrow> dg_goto t DgClosesSocket k1)"

definition dg_close_locked :: "nat \<Rightarrow> dg_socket \<Rightarrow> dg_socket" where
  "dg_close_locked t k =
     (let k1 = k\<lparr>dk_lock := Some t\<rparr>
      in if dk_receiver k1 = Some True then dg_goto t DgAwaitsReceiver k1 else dg_drop_socket t k1)"

text \<open>The closing handshake returns or raises; the socket is given up either way.\<close>

definition dg_closed :: "nat \<Rightarrow> dg_socket \<Rightarrow> dg_socket" where
  "dg_closed t k =
     (dg_leave t k)\<lparr>dk_ws := None, dk_connected := False,
        dk_open := dk_open k - (case dk_ws k of None \<Rightarrow> {} | Some s \<Rightarrow> {s})\<rparr>"

section \<open>Runs\<close>

text \<open>
  A cancellation that strikes while the receiver is awaited is taken for the receiver's own and swallowed; one that
  strikes at another wait ends the call.
\<close>

inductive dg_step :: "dg_socket \<Rightarrow> dg_socket \<Rightarrow> bool" where
  dg_calls_connect: "dk_phase k t = DgOutside \<Longrightarrow> dg_step k (dg_connect t k)"
| dg_gets_lock: "dk_phase k t = DgWantsConnect \<Longrightarrow> dk_lock k = None \<Longrightarrow> dg_step k (dg_connect_locked t k)"
| dg_connects: "dk_phase k t = DgConnecting \<Longrightarrow> dg_step k (dg_connect_done t k)"
| dg_connect_fails: "dk_phase k t = DgConnecting \<Longrightarrow> dg_step k (dg_leave t k)"
| dg_calls_close: "dk_phase k t = DgOutside \<Longrightarrow> dg_step k (dg_goto t DgWantsClose k)"
| dg_closes: "dk_phase k t = DgWantsClose \<Longrightarrow> dk_lock k = None \<Longrightarrow> dg_step k (dg_close_locked t k)"
| dg_receiver_ended: "dk_phase k t = DgAwaitsReceiver \<Longrightarrow> dg_step k (dg_drop_socket t k)"
| dg_handshake: "dk_phase k t = DgClosesSocket \<Longrightarrow> dg_step k (dg_closed t k)"
| dg_close_cancelled: "dk_phase k t = DgClosesSocket \<Longrightarrow> dg_step k (dg_leave t k)"
| dg_wait_cancelled: "dk_phase k t = DgWantsConnect \<or> dk_phase k t = DgWantsClose \<Longrightarrow> dg_step k (dg_goto t DgOutside k)"
| dg_server_gone: "dk_receiver k = Some True \<Longrightarrow> dg_step k (k\<lparr>dk_receiver := Some False\<rparr>)"

abbreviation dg_run :: "dg_socket \<Rightarrow> dg_socket \<Rightarrow> bool" where
  "dg_run \<equiv> dg_step\<^sup>*\<^sup>*"

section \<open>One socket at a time\<close>

definition dg_holding :: "dg_phase \<Rightarrow> bool" where
  "dg_holding p \<longleftrightarrow> p = DgConnecting \<or> p = DgAwaitsReceiver \<or> p = DgClosesSocket"

lemma dg_holding_simps [simp]:
  "dg_holding DgConnecting" "dg_holding DgAwaitsReceiver" "dg_holding DgClosesSocket"
  "\<not> dg_holding DgOutside" "\<not> dg_holding DgWantsConnect" "\<not> dg_holding DgWantsClose"
  by (simp_all add: dg_holding_def)

text \<open>The lock belongs to the only task inside.\<close>

definition dg_lock_ok :: "(nat \<Rightarrow> dg_phase) \<Rightarrow> nat option \<Rightarrow> bool" where
  "dg_lock_ok ph lock \<longleftrightarrow> (\<forall>t. dg_holding (ph t) \<longleftrightarrow> lock = Some t)"

lemma dg_lock_stays: "dg_lock_ok ph lock \<Longrightarrow> dg_holding p = dg_holding (ph t) \<Longrightarrow> dg_lock_ok (ph(t := p)) lock"
  by (auto simp: dg_lock_ok_def)

lemma dg_lock_left: "dg_lock_ok ph lock \<Longrightarrow> dg_holding (ph t) \<Longrightarrow> \<not> dg_holding p \<Longrightarrow> dg_lock_ok (ph(t := p)) None"
  by (auto simp: dg_lock_ok_def)

lemma dg_lock_taken: "dg_lock_ok ph None \<Longrightarrow> dg_holding p \<Longrightarrow> dg_lock_ok (ph(t := p)) (Some t)"
  by (auto simp: dg_lock_ok_def)

lemma dg_lock_retaken: "dg_lock_ok ph None \<Longrightarrow> \<not> dg_holding p \<Longrightarrow> dg_lock_ok (ph(t := p)) None"
  by (auto simp: dg_lock_ok_def)

lemma dg_lock_unique: "dg_lock_ok ph lock \<Longrightarrow> dg_holding (ph t) \<Longrightarrow> dg_holding (ph t') \<Longrightarrow> t = t'"
  by (simp add: dg_lock_ok_def)

text \<open>
  Beside the lock: the flag says whether there is a socket, a task that connects found none, and every socket that is
  open is the engine's.
\<close>

definition dg_inv :: "dg_socket \<Rightarrow> bool" where
  "dg_inv k \<longleftrightarrow> dg_lock_ok (dk_phase k) (dk_lock k)
     \<and> (dk_connected k \<longleftrightarrow> dk_ws k \<noteq> None)
     \<and> (\<forall>t. dk_phase k t = DgConnecting \<longrightarrow> dk_ws k = None)
     \<and> dk_open k = (case dk_ws k of None \<Rightarrow> {} | Some s \<Rightarrow> {s})"

lemma dg_inv_new: "dg_inv new_dg_socket"
  by (simp add: dg_inv_def new_dg_socket_def dg_lock_ok_def)

lemmas dg_defs = dg_goto_def dg_leave_def dg_ready_def dg_connect_def dg_connect_locked_def dg_connect_done_def dg_drop_socket_def
  dg_close_locked_def dg_closed_def Let_def

lemma dg_lock_step:
  assumes "dg_step k k'" "dg_lock_ok (dk_phase k) (dk_lock k)"
  shows "dg_lock_ok (dk_phase k') (dk_lock k')"
  using assms
  by cases (auto simp: dg_defs dg_lock_stays dg_lock_left dg_lock_taken dg_lock_retaken split: option.split)

text \<open>Only the holder of the lock connects.\<close>

lemma dg_connecting_alone: "dg_lock_ok ph lock \<Longrightarrow> dg_holding (ph t) \<Longrightarrow> ph t' = DgConnecting \<Longrightarrow> t' = t"
  using dg_lock_unique [of ph lock t t'] by simp

text \<open>The rest of the invariant, step by step.\<close>

definition dg_sock_ok :: "dg_socket \<Rightarrow> bool" where
  "dg_sock_ok k \<longleftrightarrow> (dk_connected k \<longleftrightarrow> dk_ws k \<noteq> None) \<and> dk_open k = (case dk_ws k of None \<Rightarrow> {} | Some s \<Rightarrow> {s})"

lemma dg_sock_step:
  assumes "dg_step k k'" "dg_sock_ok k" "\<And>t. dk_phase k t = DgConnecting \<Longrightarrow> dk_ws k = None"
  shows "dg_sock_ok k'"
  using assms(1)
proof cases
  case (dg_connects t)
  then show ?thesis using assms(2) assms(3) [of t] by (simp add: dg_sock_ok_def dg_defs)
qed (use assms(2) in \<open>auto simp: dg_sock_ok_def dg_defs split: option.splits\<close>)

lemma dg_connecting_step:
  assumes "dg_step k k'" "dg_sock_ok k" "dg_lock_ok (dk_phase k) (dk_lock k)"
    and "\<And>t. dk_phase k t = DgConnecting \<Longrightarrow> dk_ws k = None" "dk_phase k' t = DgConnecting"
  shows "dk_ws k' = None"
  using assms(1)
proof cases
  case (dg_connects t1)
  have "t = t1" using dg_connecting_alone [OF assms(3), of t1 t] dg_connects assms(5)
    by (cases "t = t1") (simp_all add: dg_defs)
  with dg_connects assms(5) show ?thesis by (simp add: dg_defs)
qed (use assms(2,4,5) in \<open>auto simp: dg_sock_ok_def dg_defs split: if_splits option.splits\<close>)

lemma dg_inv_alt: "dg_inv k \<longleftrightarrow> dg_lock_ok (dk_phase k) (dk_lock k) \<and> dg_sock_ok k
    \<and> (\<forall>t. dk_phase k t = DgConnecting \<longrightarrow> dk_ws k = None)"
  by (auto simp: dg_inv_def dg_sock_ok_def)

lemma dg_inv_step: "dg_step k k' \<Longrightarrow> dg_inv k \<Longrightarrow> dg_inv k'"
  unfolding dg_inv_alt using dg_lock_step dg_sock_step dg_connecting_step by blast

lemma dg_inv_run: "dg_run k k' \<Longrightarrow> dg_inv k \<Longrightarrow> dg_inv k'"
  by (induction rule: rtranclp_induct) (auto intro: dg_inv_step)

text \<open>However the calls interleave, fail and are cancelled, at most one socket is open, and it is the engine's.\<close>

lemma dg_one_socket:
  assumes "dg_run new_dg_socket k"
  shows "dk_open k = (case dk_ws k of None \<Rightarrow> {} | Some s \<Rightarrow> {s})"
  using dg_inv_run [OF assms dg_inv_new] by (simp add: dg_inv_def)

section \<open>A dead stream\<close>

text \<open>
  An engine that is connected while nobody reads its socket: the server has gone, or a close was cancelled in its
  handshake. Until a close, every frame goes to that socket and no call connects anew.
\<close>

definition dg_deaf :: "dg_socket \<Rightarrow> bool" where
  "dg_deaf k \<longleftrightarrow> dg_ready k \<and> dk_receiver k \<noteq> Some True"

definition dg_closing :: "dg_phase \<Rightarrow> bool" where
  "dg_closing p \<longleftrightarrow> p = DgWantsClose \<or> p = DgAwaitsReceiver \<or> p = DgClosesSocket"

definition dg_no_close :: "dg_socket \<Rightarrow> bool" where
  "dg_no_close k \<longleftrightarrow> (\<forall>t. \<not> dg_closing (dk_phase k t))"

lemma dg_deaf_step:
  assumes "dg_step k k'" "dg_inv k" "dg_deaf k" "dg_no_close k" "dg_no_close k'"
  shows "dg_deaf k' \<and> dk_ws k' = dk_ws k"
  using assms
  by cases (auto simp: dg_inv_def dg_deaf_def dg_no_close_def dg_closing_def dg_defs split: if_splits)

inductive dg_run_open :: "dg_socket \<Rightarrow> dg_socket \<Rightarrow> bool" for k0 where
  dg_open_start: "dg_run_open k0 k0"
| dg_open_more: "dg_run_open k0 k \<Longrightarrow> dg_step k k' \<Longrightarrow> dg_no_close k' \<Longrightarrow> dg_run_open k0 k'"

lemma dg_stays_deaf:
  assumes "dg_run_open k0 k" "dg_run new_dg_socket k0" "dg_deaf k0" "dg_no_close k0"
  shows "dg_deaf k \<and> dk_ws k = dk_ws k0"
proof -
  have "dg_inv k \<and> dg_no_close k \<and> dg_deaf k \<and> dk_ws k = dk_ws k0"
    using assms(1)
  proof (induction rule: dg_run_open.induct)
    case dg_open_start
    then show ?case using dg_inv_run [OF assms(2) dg_inv_new] assms(3,4) by simp
  next
    case (dg_open_more k k')
    then show ?case using dg_inv_step dg_deaf_step by metis
  qed
  then show ?thesis by blast
qed

text \<open>The server's end makes an engine deaf, and so does a cancelled close.\<close>

lemma dg_server_deafens: "dg_ready k \<Longrightarrow> dg_deaf (k\<lparr>dk_receiver := Some False\<rparr>)"
  by (simp add: dg_deaf_def dg_ready_def)

lemma dg_cancelled_close_deafens:
  assumes "dg_inv k" "dk_phase k t = DgAwaitsReceiver" "dk_ws k = Some s"
  shows "dk_phase (dg_drop_socket t k) t = DgClosesSocket" "dg_deaf (dg_leave t (dg_drop_socket t k))"
  using assms by (auto simp: dg_inv_def dg_deaf_def dg_defs)

text \<open>A close that is not cancelled leaves nothing behind.\<close>

lemma dg_close_clean:
  assumes "dg_inv k" "dk_phase k t = DgClosesSocket"
  shows "dk_open (dg_closed t k) = {}" "\<not> dg_ready (dg_closed t k)" "dk_lock (dg_closed t k) = None"
  using assms by (auto simp: dg_inv_def dg_defs split: option.splits)

end
