(* ===== verification/Scenarios.thy ===== *)
theory Scenarios
  imports VoiceSocket TwilioInbound Resampler AppStack Secrets OpsEndpoints Logging DeepgramSocket TtsEngines TranscribeEngine
begin

text \<open>
  Concrete settings, sessions, calls and messages, with the facts about them that evaluate: the inputs on which the
  theorems of \<open>Guarantees\<close> and of the root theory are applied.
\<close>

section \<open>The voice session\<close>

definition demo_cfg :: voice_settings where
  "demo_cfg = \<lparr>VOICE_HISTORY_TURNS = 4, VOICE_VAD_BARGE_IN = True, VOICE_VAD_MIN_ENERGY = 100,
     VOICE_VAD_SPEECH_FRAMES = 1, VOICE_EOT_HOLD_MS = 0\<rparr>"

definition demo_session :: voice_session where
  "demo_session = new_voice_session demo_cfg None None None 7 0 (new_latency_stats 8)"

definition demo_env :: vs_env where
  "demo_env = \<lparr>ve_now = 10, ve_later = 11, ve_task_ran = True\<rparr>"

definition demo_event :: "transcript_type \<Rightarrow> transcript_event" where
  "demo_event k = \<lparr>te_type = k, te_utterance_id = ''00000000000000000000000000000001'',
     te_transcript = u ''hello'', te_confidence = 1, te_timestamp = 10\<rparr>"

definition demo_speaking :: voice_session where
  "demo_speaking = speak_text demo_env ''a'' (u ''hi'') demo_session"

lemma demo_speaking_wf: "session_wf demo_speaking"
proof -
  have "\<not> is_user_speaking demo_session" by (simp add: demo_session_def new_voice_session_def)
  then have "session_run (\<lambda>c. False) demo_session demo_speaking"
    unfolding demo_speaking_def by (rule run_more [OF run_start step_speak_text])
  then show ?thesis unfolding demo_session_def by (rule session_run_wf [OF _ session_wf_new])
qed

lemma demo_uuid: "uuid_of_string ''00000000000000000000000000000001'' = Some 1"
  by (simp add: uuid_of_string_def py_int16_def hex_val_def Let_def startswith_def py_space_def)

lemma demo_no_error: "snd (session_transcript demo_env uw (demo_event PARTIAL) s) = None"
  by (simp add: session_transcript_def process_transcript_event_def process_partial_def demo_event_def
      start_user_turn_def demo_uuid Let_def)

definition demo_held :: voice_session where
  "demo_held = demo_session\<lparr>vs_held := Some (''a'', u ''so''), vs_hold_task := Some 0, vs_hold_count := 1\<rparr>"

lemma demo_fields:
  "vs_held demo_session = None" "vs_requests demo_session = []" "vs_history demo_session = []"
  "\<not> is_user_speaking demo_session" "\<not> is_system_speaking demo_session" "vs_hold_task demo_session = None"
  by (simp_all add: demo_session_def new_voice_session_def)

section \<open>Generation and speech\<close>

lemma demo_final_run: "session_run (\<lambda>c. False) demo_session (fst (session_transcript demo_env (\<lambda>c. False) (demo_event FINAL) demo_session))"
  by (rule run_more [OF run_start step_transcript])

lemma demo_final_llm:
  "vs_llm (fst (session_transcript demo_env (\<lambda>c. False) (demo_event FINAL) demo_session)) = start_generation new_llm_consumer"
  by (simp add: session_transcript_def process_transcript_event_def process_final_def demo_event_def
      start_user_turn_def demo_uuid Let_def demo_fields fire_def session_callbacks_def vs_on_user_turn_completed_def
      complete_user_turn_def turn_completed_def vs_on_user_turn_started_def cancel_hold_timer_def
      strip_def lstrip_def rstrip_def u_def py_space_def demo_session_def new_voice_session_def demo_cfg_def
      llm_cancel_def new_llm_consumer_def)

definition demo_tts :: tts_config where
  "demo_tts = \<lparr>tts_sample_rate = 16000, max_lead = 1 / 2, has_on_first_audio = True, has_on_playback_end = True\<rparr>"

section \<open>The inbound audio pipeline\<close>

definition demo_sink :: "unit frame_sink" where
  "demo_sink = \<lparr>fs_callback = (\<lambda>f w. (w, f = [])), fs_stt_running = (\<lambda>w. True),
     fs_stt_process = (\<lambda>f w. (w, False))\<rparr>"

definition demo_queue :: "nat \<Rightarrow> audio_queue" where
  "demo_queue n = \<lparr>aq_max_size = n, aq_queue = [], aq_not_empty = False,
     aq_frames_dropped = 0, aq_frames_enqueued = 0\<rparr>"

definition demo_actions :: "pipe_action list" where
  "demo_actions = [Arrive 0 [1], Arrive 1 [2], Dispatch 2, Arrive 3 [3]]"

lemmas demo_pipe_simps = demo_actions_def demo_sink_def demo_queue_def start_dispatcher_def new_dispatcher_def
  enqueue_def dequeue_def dispatch_once_def handle_frame_def deque_append_def waiting_def Let_def

lemma demo_pipe_wf: "dp_running (start_dispatcher new_dispatcher)" "0 < n \<Longrightarrow> pipe_wf (demo_queue n, m)"
  by (simp_all add: start_dispatcher_def new_dispatcher_def pipe_wf_def queue_wf_def demo_queue_def)

section \<open>The phone call\<close>

definition demo_call :: call_session where
  "demo_call = call_start 0 (new_call_session 4 7 0)"

lemma demo_call_fields:
  "cs_state demo_call = LISTENING" "\<not> cs_locked demo_call" "\<not> cs_deadlock demo_call" "cs_requests demo_call = []"
  "cs_turns_wired demo_call" "\<not> is_user_speaking demo_call" "cs_sent demo_call = []" "cs_can_send demo_call"
  "cs_stt demo_call = Some (stt_start (new_stt_consumer 50))" "cs_llm demo_call = Some new_llm_consumer"
  "cs_tts demo_call = Some new_tts_consumer" "cs_history demo_call = []"
  by (simp_all add: demo_call_def call_start_def new_call_session_def transition_to_def with_lock_def go_def
      apply_transition_def valid_transition_def VALID_TRANSITIONS_def Let_def)

section \<open>The telephone stream\<close>

definition demo_tw :: tw_env where
  "demo_tw = \<lparr>te_ao = None, te_max_calls = 1, te_history_turns = 4, te_expected = Some (u ''CA1'')\<rparr>"

definition demo_moment :: moment where
  "demo_moment = \<lparr>mo_now = 5, mo_fresh = ''f'', mo_cid = 7, mo_start = StartsFine, mo_final = None\<rparr>"

definition demo_start :: json where
  "demo_start = JObj [(u ''event'', JStr (u ''start'')), (u ''streamSid'', JStr (u ''MZ1'')),
     (u ''start'', JObj [(u ''callSid'', JStr (u ''CA1''))])]"

definition demo_twilio :: twilio_session where
  "demo_twilio = \<lparr>ts_stream_sid = JStr (u ''MZ1''), ts_call_sid = JStr (u ''CA1''), ts_account_sid = JStr [],
     ts_tracks = JArr [], ts_media_format = JObj [], ts_decoded_audio = []\<rparr>"

lemma demo_start_event: "event_of demo_start = Some (u ''start'')"
  "handle_twilio_event demo_start s = Inr (Some demo_twilio, None)"
  by (simp_all add: demo_start_def demo_twilio_def event_of_def handle_twilio_event_def new_twilio_session_def json_or_def
      Let_def lower_def strip_def lstrip_def rstrip_def)
     (simp_all add: u_def lower_c_def py_space_def)

definition demo_conn :: tw_conn where
  "demo_conn = \<lparr>tc_session = None, tc_call = Some (JStr (u ''CA1''), JStr (u ''MZ1''), demo_call), tc_status = Open\<rparr>"

lemma demo_stops: "\<not> cs_deadlock (call_stop now fresh None demo_call)"
  using stop_clean [of demo_call now fresh]
  by (simp add: demo_call_fields stt_start_def new_stt_consumer_def queue_full_def)

definition demo_entry :: active_call where
  "demo_entry = \<lparr>ac_stream_sid = JStr [], ac_conversation_id = 1, ac_started_at = 0, ac_last_heartbeat = 0, ac_state = ''streaming''\<rparr>"

section \<open>Admission\<close>

definition demo_stream_settings :: stream_settings where
  "demo_stream_settings = \<lparr>TWILIO_AUTH_TOKEN = Some (u ''k''), SECRET_KEY = None,
     TWILIO_STREAM_TOKEN_TTL_SECONDS = 300, production_or_staging = True\<rparr>"

definition demo_mac :: keyed_hash where
  "demo_mac k d = map (\<lambda>c. c mod 128) (k @ d)"

lemma demo_mac_ascii: "ascii (demo_mac k d)"
  by (auto simp: ascii_def demo_mac_def list_all_iff)

lemma demo_seven: "str_int 7 = [55]"
  by (simp add: str_int_def nat_digits.simps)

lemma demo_sign:
  "sign_stream_token demo_mac demo_stream_settings t0 (u ''CA1'') (Some 7) = Inr (u ''7.kCA1:7'')"
  by (simp add: sign_stream_token_def demo_stream_settings_def or_str_def stream_payload_def demo_seven Let_def
      u_def utf8_c_def demo_mac_def)

lemma demo_token_text: "strip (or_str (TWILIO_AUTH_TOKEN demo_stream_settings) []) = u ''k''"
  by (simp add: demo_stream_settings_def or_str_def strip_def lstrip_def rstrip_def u_def py_space_def)

lemma demo_or: "or_str (Some (u ''AA=='')) [] = u ''AA==''" "list_all (\<lambda>c. c < 128) (u ''AA=='')"
  by (simp_all add: or_str_def u_def)

section \<open>The identity service\<close>

definition demo_iam_env :: iam_env where
  "demo_iam_env =
     \<lparr>ie_now = 100, ie_uuid = (\<lambda>i. 1000 + i), ie_access_minutes = 15, ie_refresh_days = 7, ie_key_prefix = u ''vx_'',
      ie_api_key_auth = True, ie_random_text = u ''random'', ie_encode = (\<lambda>c. u ''t''),
      ie_decode = (\<lambda>now t. if t = u ''t'' \<and> now < 1000
         then Claims \<lparr>cl_sub = Some (uuid_text 7), cl_org = Some (uuid_text 2), cl_role = None, cl_permissions = None,
                      cl_sid = None, cl_type = Some (u ''access''), cl_iat = 0, cl_exp = 1000\<rparr>
         else TokenInvalid),
      ie_sha256 = (\<lambda>t. t), ie_key_mac = (\<lambda>t. t), ie_bcrypt = (\<lambda>t. t), ie_checkpw = (=)\<rparr>"

definition demo_member :: "uuid \<Rightarrow> system_role \<Rightarrow> membership_row" where
  "demo_member i r = \<lparr>mb_id = i, mb_organization_id = 2, mb_user_id = i, mb_role_slug = role_value r, mb_department = None,
     mb_title = None, mb_joined_at = 0\<rparr>"

definition demo_user :: "uuid \<Rightarrow> string \<Rightarrow> user_row" where
  "demo_user i t = \<lparr>ur_id = i, ur_email = u t, ur_password_hash = Some (u ''pw''), ur_name = u t, ur_status = UserActive,
     ur_mfa_enabled = False, ur_last_login_at = None\<rparr>"

definition demo_key :: "uuid \<Rightarrow> string \<Rightarrow> api_key_row" where
  "demo_key i t = \<lparr>ak_id = i, ak_organization_id = 2, ak_name = u t, ak_key_prefix = u t, ak_key_hash = u t, ak_scopes = [],
     ak_permissions = [], ak_environment = KeyProduction, ak_status = KeyActive, ak_created_by = Some 7,
     ak_last_used_at = None, ak_expires_at = None\<rparr>"

definition empty_iam_db :: iam_db where
  "empty_iam_db = \<lparr>db_tenants = [9], db_orgs = [], db_users = [], db_memberships = [], db_roles = [], db_api_keys = [],
     db_sessions = [], db_policies = [], db_audit = [], db_events = []\<rparr>"

text \<open>One organization with an owner, a viewer, two keys and a session of the owner.\<close>

definition demo_iam_db :: iam_db where
  "demo_iam_db = empty_iam_db
     \<lparr>db_orgs := [\<lparr>or_id = 2, or_tenant_id = 9, or_company_name = u ''acme'', or_slug = u ''acme'', or_plan = u ''free'',
        or_region = None, or_owner_user_id = None, or_timezone = u ''UTC'', or_language = u ''en''\<rparr>],
      db_users := [demo_user 7 ''owner'', demo_user 8 ''viewer''],
      db_memberships := [demo_member 7 OWNER, demo_member 8 VIEWER],
      db_api_keys := [demo_key 5 ''aaa'', demo_key 6 ''bbb''],
      db_sessions := [\<lparr>sr_id = 3, sr_user_id = 7, sr_organization_id = Some 2, sr_token_hash = u ''t'',
        sr_refresh_token_hash = None, sr_browser = None, sr_ip_address = None, sr_country = None, sr_device = None,
        sr_status = SessionActive, sr_expires_at = 500, sr_revoked_at = None\<rparr>]\<rparr>"

definition demo_iam_world :: "iam_db \<Rightarrow> iam_world" where
  "demo_iam_world db = \<lparr>iw_db = db, iw_metrics = new_iam_metrics\<rparr>"

lemmas demo_iam_simps = demo_iam_db_def empty_iam_db_def demo_member_def demo_user_def demo_key_def

lemma demo_iam_wf: "db_wf demo_iam_db"
  by (simp add: db_wf_def demo_iam_simps is_key_def)

lemma demo_iam_world_db [simp]: "iw_db (demo_iam_world db) = db"
  by (simp add: demo_iam_world_def)

lemma demo_membership:
  "get_membership 2 7 demo_iam_db = Some (with_membership (user_of_row (demo_user 7 ''owner'')) (role_value OWNER) None None)"
  "get_membership 2 8 demo_iam_db = Some (with_membership (user_of_row (demo_user 8 ''viewer'')) (role_value VIEWER) None None)"
  by (simp_all add: get_membership_def members_def demo_iam_simps user_of_row_def)

lemma role_value_ne: "role_value r \<noteq> []"
  by (cases r) (simp_all add: role_value.simps u_def)

lemma demo_owner_allowed: "p \<in> set ALL_PERMISSIONS \<Longrightarrow> member_allowed 2 (Some 7) p demo_iam_db"
  by (simp add: member_allowed_def demo_membership with_membership_def resolve_role role_value_ne)

lemma demo_viewer_denied: "\<not> member_allowed 2 (Some 8) MANAGE_USERS demo_iam_db"
  by (simp add: member_allowed_def demo_membership with_membership_def resolve_role)

lemma demo_authenticates:
  "authenticate_bearer demo_iam_env (u ''t'') demo_iam_db =
     Inr \<lparr>pp_user_id = Some 7, pp_organization_id = 2, pp_tenant_id = Some 9, pp_role_slug = Some (role_value OWNER),
          pp_permissions = resolve_permissions (role_value OWNER) None None, pp_auth_method = JwtAuth,
          pp_session_id = Some 3, pp_api_key_id = None\<rparr>"
proof -
  have "claim_uuid (Some (uuid_text 7)) = Inr 7" "claim_uuid (Some (uuid_text 2)) = Inr 2"
    by (simp_all add: claim_uuid_def uuid_roundtrip)
  moreover have "uuid_text 2 \<noteq> []" by (simp add: uuid_text_def Let_def)
  ultimately show ?thesis
    by (simp add: authenticate_bearer_def decode_token_def demo_iam_env_def get_by_token_hash_def scalar_one_or_none_def
        assert_session_active_def require_some_def session_of_row_def user_get_by_id_def org_get_by_id_def row_by_def
        demo_membership(1) with_membership_def any_member_active)
       (simp add: demo_iam_simps session_of_row_def assert_session_active_def user_of_row_def any_member_active require_some_def)
qed

section \<open>Settings, the browser connection, the speech adapters\<close>

text \<open>The settings of a deployment in production: the declared defaults, with keys of 32 characters.\<close>

definition demo_secret :: ustr where
  "demo_secret = replicate 32 107"

definition demo_app_settings :: app_settings where
  "demo_app_settings =
     \<lparr>ENVIRONMENT = u ''production'', HOST = u ''0.0.0.0'', PORT = 8000, RELOAD = Some False, WORKERS = Some 4,
      CORS_ORIGINS = [], JWT_SECRET_KEY = Some demo_secret, API_KEY_SECRET = Some demo_secret,
      ENCRYPTION_SECRET_KEY = Some demo_secret, LEGACY_SECRET_KEY = None, WEBSOCKET_MAX_CONNECTIONS = None,
      WEBSOCKET_PING_INTERVAL = None, WEBSOCKET_PING_TIMEOUT = None, LOG_LEVEL = None,
      DATABASE_URL = Some (u ''postgresql://db''), KNOWLEDGE_ALLOWED_EXTENSIONS = [], TOOL_ALLOWED_HTTP_HOSTS = [],
      VOICE_REQUIRE_PROVIDERS = False, STT_PROVIDER = None, LLM_PROVIDER = None, TTS_PROVIDER = None,
      VOICE_LLM_MODEL = u ''gpt-4o-mini'', VOICE_LLM_SYSTEM_PROMPT = [], VOICE_LLM_MAX_TOKENS = 512,
      VOICE_LLM_TIMEOUT_SECONDS = 8, VOICE_LLM_FAILOVER_PROVIDER = None, VOICE_TTS_VOICE_ID = None,
      VOICE_TTS_MODEL = u ''tts-1'', VOICE_SAMPLE_RATE = 16000, VOICE_FRAME_MS = 20, VOICE_PCM_FRAME_BYTES = 640,
      VOICE_ALLOW_MOCK_PROVIDERS = None, DEEPGRAM_API_KEY = None, ANTHROPIC_API_KEY = None,
      ANTHROPIC_MODEL = u ''claude-3-5-haiku-latest'', GROQ_API_KEY = None, GROQ_MODEL = u ''llama-3.3-70b-versatile'',
      XAI_API_KEY = None, XAI_MODEL = u ''grok-3-mini'', AWS_VOICE_REGION = u ''eu-west-1'',
      AWS_TRANSCRIBE_LANGUAGE = u ''en-US'', BEDROCK_MODEL_ID = u ''amazon.nova-micro-v1:0'', POLLY_VOICE_ID = u ''Joanna'',
      POLLY_ENGINE = u ''neural'', ELEVENLABS_API_KEY = None, ELEVENLABS_MODEL = u ''eleven_turbo_v2_5'',
      VOICE_OPENAI_API_KEY = None, OPENAI_API_KEY = None, OPENAI_API_BASE = u ''https://api.openai.com/v1'',
      AZURE_OPENAI_ENDPOINT = None, AZURE_OPENAI_API_KEY = None, AZURE_OPENAI_CHAT_DEPLOYMENT = None\<rparr>"

lemma demo_secret_text: "strip demo_secret = demo_secret" "length demo_secret = 32" "demo_secret \<noteq> INSECURE_DEFAULT_SECRET" "demo_secret \<noteq> []"
proof -
  show "strip demo_secret = demo_secret"
    by (simp add: demo_secret_def strip_def lstrip_def rstrip_def py_space_def numeral_eq_Suc)
  show l: "length demo_secret = 32" by (simp add: demo_secret_def)
  have "hd demo_secret = 107" "hd INSECURE_DEFAULT_SECRET = 99"
    by (simp_all add: demo_secret_def hd_replicate INSECURE_DEFAULT_SECRET_def u_def)
  then show "demo_secret \<noteq> INSECURE_DEFAULT_SECRET" by auto
  show "demo_secret \<noteq> []" using l by auto
qed

lemma demo_settings_facts:
  "ENVIRONMENT demo_app_settings = u ''production''" "database_enabled demo_app_settings" "is_production demo_app_settings"
  "JWT_SECRET_KEY demo_app_settings = Some demo_secret" "API_KEY_SECRET demo_app_settings = Some demo_secret"
  "ENCRYPTION_SECRET_KEY demo_app_settings = Some demo_secret"
  by (simp_all add: demo_app_settings_def database_enabled_def is_production_def strip_def lstrip_def rstrip_def u_def py_space_def)

lemma demo_settings_valid: "validate_security_settings demo_app_settings = Inr ()"
  by (simp add: validate_security_settings_def jwt_secret_key_def api_key_secret_def encryption_secret_key_def resolve_secret_def
      demo_settings_facts demo_secret_text insecure_here_def long_enough_def)

definition demo_ws_env :: ws_env where
  "demo_ws_env = \<lparr>we_id = 4, we_settings = demo_app_settings, we_token_valid = (\<lambda>t. True), we_unfinished = (\<lambda>c. False),
     we_loads = (\<lambda>t. None), we_str = (\<lambda>j. [])\<rparr>"

definition demo_ws_moment :: ws_moment where
  "demo_ws_moment = \<lparr>wm_env = demo_env, wm_uuid = ''00000000000000000000000000000001'', wm_sent = True\<rparr>"

text \<open>A connection that listens, with one place in the recogniser's queue, which is taken.\<close>

definition demo_ws_state :: ws_state where
  "demo_ws_state =
     \<lparr>wk_phase = WsListening, wk_conns = {4}, wk_session = Some demo_session,
      wk_stt = Some \<lparr>sc_max_queue = 1, sc_queue = [Some [0, 0]], sc_running = True, sc_task = True, frames_processed = 0,
                    frames_dropped = 0\<rparr>,
      wk_dispatcher = Some (start_dispatcher (register_stt_consumer new_dispatcher)), wk_pipe = (demo_queue 50, None),
      wk_sent = [], wk_close_code = None\<rparr>"

definition demo_speech :: openai_tts_engine where
  "demo_speech = \<lparr>te_api_key = u ''k'', te_voice = u ''alloy'', te_model = u ''tts-1'', te_api_base = [], te_frame_bytes = 4\<rparr>"

section \<open>Bedrock and the webhook\<close>

definition demo_event_json :: json where
  "demo_event_json = JObj [(u ''contentBlockDelta'', JObj [(u ''delta'', JObj [(u ''text'', JStr (u ''hi''))])])]"

lemma demo_bedrock_work: "bedrock_work () demo_event_json = Some ((), [u ''hi''])"
  by (simp add: bedrock_work_def bedrock_text_def get_dict_def demo_event_json_def content_token_def u_def)

text \<open>The thread takes one event, ends, and the generator reads what it was handed.\<close>

lemma demo_bedrock_run: "bedrock_run [demo_event_json] SourceDone ([StreamToken (u ''hi'') 0], StreamDone)"
proof -
  let ?step = "thread_step bedrock_work bedrock_finish"
  let ?r0 = "new_thread () [demo_event_json] SourceDone"
  let ?r1 = "?r0\<lparr>th_worker := Working\<rparr>"
  let ?r2 = "put_items (map Item [u ''hi'']) (?r1\<lparr>th_todo := [], th_mem := (), th_worker := Checking\<rparr>)"
  let ?r3 = "?r2\<lparr>th_worker := Working\<rparr>"
  let ?r4 = "end_worker (last_items bedrock_finish ?r3) ?r3"
  let ?r5 = "?r4\<lparr>th_queue := [DoneMark], th_out := th_out ?r4 @ [u ''hi'']\<rparr>"
  let ?r6 = "end_reader StreamDone (?r5\<lparr>th_queue := []\<rparr>)"
  have "?step ?r0 ?r1" by (rule th_check) (simp_all add: new_thread_def)
  moreover have "?step ?r1 ?r2"
    by (rule th_event [where es = "[]" and e = demo_event_json and w = "()" and xs = "[u ''hi'']"]) (simp_all add: new_thread_def demo_bedrock_work)
  moreover have "?step ?r2 ?r3" by (rule th_check) (simp_all add: new_thread_def)
  moreover have "?step ?r3 ?r4" by (rule th_ends) (simp_all add: new_thread_def)
  moreover have "?step ?r4 ?r5"
    by (rule th_read) (simp_all add: new_thread_def last_items_def bedrock_finish_def)
  moreover have "?step ?r5 ?r6" by (rule th_read_done) (simp_all add: new_thread_def)
  ultimately have "thread_run bedrock_work bedrock_finish ?r0 ?r6"
    by (meson rtranclp.rtrancl_refl rtranclp.rtrancl_into_rtrancl)
  moreover have "th_reader ?r6 = Some StreamDone" "th_out ?r6 = [u ''hi'']" by (simp_all add: new_thread_def)
  ultimately show ?thesis unfolding bedrock_run_def by (intro exI [of _ ?r6]) simp
qed

definition demo_inbound :: inbound_request where
  "demo_inbound = \<lparr>ir_public_base = None, ir_path = u ''/twilio/inbound'', ir_full_url = u ''x'', ir_netloc = u ''h'',
     ir_host = None, ir_signature = Some (u ''AA==''), ir_form = [(u ''CallSid'', u ''CA1'')]\<rparr>"

lemma demo_validation_url: "build_validation_url None p f = f"
  by (simp add: build_validation_url_def or_str_def strip_def lstrip_def rstrip_def rstrip_slash_def Let_def)

lemma demo_stream_base: "build_stream_url None (u ''h'') None = u ''wss://h/twilio/stream''"
  by (simp add: build_stream_url_def or_str_def strip_def lstrip_def rstrip_def rstrip_slash_def Let_def wss_base_def u_def)

lemma demo_signed_url:
  "build_signed_stream_url demo_mac demo_stream_settings 7 (u ''wss://h/twilio/stream'') (u ''CA1'')
     = Inr (u ''wss://h/twilio/stream?token=7.kCA1%3A7&call_sid=CA1'')"
  using demo_sign [of 7] sign_now [of 7 demo_mac demo_stream_settings "u ''CA1''"]
  by (simp add: build_signed_stream_url_def quote_plus_def quote_byte_def url_safe_def utf8_c_def u_def hex_digit_def)

lemma demo_inbound_answer:
  "twilio_inbound demo_mac (\<lambda>k d. [0]) demo_stream_settings 7 demo_inbound
     = Inr (join [10] (twiml_lines (u ''wss://h/twilio/stream?token=7.kCA1%3A7&call_sid=CA1'')))"
proof -
  have e: "expected_signature (\<lambda>k d. [0]) (u ''k'') (u ''x'') [(u ''CallSid'', u ''CA1'')] = Inr (u ''AA=='')"
    by (simp add: expected_signature_def signed_data_def u_def utf8_c_def b64_char_def PAD_def)
  have r: "require_twilio_signature (\<lambda>k d. [0]) demo_stream_settings (u ''x'') (Some (u ''AA=='')) [(u ''CallSid'', u ''CA1'')]
      = Inr (map_of [(u ''CallSid'', u ''CA1'')])"
    using e by (simp add: require_twilio_signature_def demo_token_text Let_def demo_or compare_digest_def ascii_def)
  show ?thesis
    by (simp add: twilio_inbound_def demo_inbound_def demo_validation_url demo_stream_base r twiml_connect_stream_def
        twiml_stream_url_def or_str_def demo_signed_url)
qed

section \<open>The application\<close>

text \<open>A request for a protected path without a credential, to an application with the tables above.\<close>

definition demo_app_config :: app_config where
  "demo_app_config =
     \<lparr>ac_err = \<lparr>ee_request_id = None, ee_timestamp = u ''now'', ee_str = (\<lambda>j. [])\<rparr>, ac_iam = demo_iam_env,
      ac_mw = \<lparr>mw_debug = False, mw_database_enabled = True, mw_session_factory = True, mw_rate_limit_enabled = True,
               mw_rate_window = 60\<rparr>,
      ac_rate_enabled = True,
      ac_timeouts = \<lparr>REQUEST_TIMEOUT_ENABLED = True, timeout_knowledge = 60, timeout_planner = 60, timeout_verifier = 60,
                     timeout_tools = 60, timeout_workflow = 60, timeout_default = 30\<rparr>\<rparr>"

definition demo_app_world :: app_world where
  "demo_app_world =
     \<lparr>aw_iam = demo_iam_world demo_iam_db, aw_metrics = new_platform_metrics, aw_shutdown = new_shutdown_manager,
      aw_limits = [new_window 10 60, new_window 10 60], aw_auth_limits = [new_window 10 60, new_window 10 60, new_window 10 60]\<rparr>"

definition demo_app_request :: app_request where
  "demo_app_request =
     \<lparr>ar_api = \<lparr>aq_method = u ''GET'', aq_path = u ''/api/v1/iam/users'', aq_authorization = None, aq_api_key = None,
                aq_upgrade = None\<rparr>,
      ar_client = None, ar_headers = Map.empty\<rparr>"

definition demo_app_moment :: app_moment where
  "demo_app_moment = \<lparr>am_now = 1, am_latency = 2, am_latency_text = u ''2.0'', am_fresh = u ''r'', am_late = None\<rparr>"

lemma demo_request_protected: "protected_path (ar_api demo_app_request)"
  by (simp add: demo_app_request_def protected_path_def trim_path_def Let_def is_public_def PUBLIC_ROUTES_def PUBLIC_PREFIXES_def
      has_prefix_def startswith_def upper_def upper_c_def u_def)

lemma demo_request_refused: "\<not> admitted demo_app_config demo_app_request p db"
  by (simp add: admitted_def authenticate_request_def demo_app_config_def demo_app_request_def Let_def is_bearer_def header_def
      startswith_def lower_def u_def)

end
