(* ===== verification/Guarantees.thy ===== *)
theory Guarantees
  imports Scenarios
begin

text \<open>
  Guarantees of the components beside the ones that the root theory lists, each with an instance at a concrete input.
\<close>

section \<open>Generation and speech\<close>

text \<open>
  At most one live generation along every run of a session.
\<close>

theorem one_live_generation:
  assumes "session_run uw (new_voice_session cfg turns barge hold cid now stats) s"
  shows "length (filter (\<lambda>t. t = LlmRunning False) (lc_tasks (vs_llm s))) \<le> 1"
  using session_run_wf [OF assms session_wf_new] unfolding session_wf_def by (blast intro: llm_one_live)

theorem one_live_generation_witness:
  "length (filter (\<lambda>t. t = LlmRunning False) (lc_tasks (vs_llm
     (fst (session_transcript demo_env (\<lambda>c. False) (demo_event FINAL) demo_session))))) = 1"
proof -
  let ?s = "fst (session_transcript demo_env (\<lambda>c. False) (demo_event FINAL) demo_session)"
  have "lc_tasks (vs_llm ?s) = [LlmRunning False]"
    by (simp add: demo_final_llm start_generation_def llm_cancel_def new_llm_consumer_def)
  with one_live_generation [OF demo_final_run [unfolded demo_session_def]] show ?thesis
    by (simp add: demo_session_def)
qed

text \<open>
  A flaw of the Anthropic adapter. An error event inside the stream is skipped like any other line without text, so the
  reply completes empty, and the failover, which needs an exception, never starts the secondary.
\<close>

theorem anthropic_error_is_silence:
  assumes "loads (drop 6 line) = Some (JObj e)" "map_of e (u ''type'') = Some (JStr (u ''error''))"
    and "200 \<le> st" "st < 300" "\<forall>l\<in>set ls. anthropic_line loads l = LineSkip"
  shows "anthropic_stream loads (Answered st (ls @ [line]) StreamDone) = ([], StreamDone)
    \<and> fst (failover_stream (anthropic_stream loads (Answered st (ls @ [line]) StreamDone)) second) = ([], StreamDone)"
  using anthropic_error_completes [OF assms] by blast

theorem anthropic_error_is_silence_witness:
  "anthropic_stream (\<lambda>t. Some (JObj [(u ''type'', JStr (u ''error''))])) (Answered 200 [u ''event: error'', u ''data: {}''] StreamDone)
     = ([], StreamDone)"
  using anthropic_error_is_silence [of "\<lambda>t. Some (JObj [(u ''type'', JStr (u ''error''))])" "u ''data: {}''"
      "[(u ''type'', JStr (u ''error''))]" 200 "[u ''event: error'']"]
  by (simp add: anthropic_line_def startswith_def u_def)

section \<open>The inbound audio pipeline\<close>

text \<open>
  No loss without overflow: when no arrival finds the queue full, the frames forwarded and then
  the frames waiting are exactly the frames that were waiting before or came in.
\<close>

theorem frames_lossless:
  assumes "dp_running d" "pipe_wf p" "no_overflow (aq_max_size (fst p)) (length (waiting p)) as"
    and "run_pipe sink as (d, p, w) = (out, d', p', w')"
  shows "out @ waiting p' = waiting p @ arrivals as"
  using assms by (rule run_pipe_lossless)

theorem frames_lossless_witness:
  "\<exists>out d' p' w'. run_pipe demo_sink demo_actions (start_dispatcher new_dispatcher, (demo_queue 2, None), ())
     = (out, d', p', w') \<and> out @ waiting p' = [[1], [2], [3]]"
proof -
  let ?d = "start_dispatcher new_dispatcher"
  let ?p = "(demo_queue 2, None :: streaming_metrics option)"
  obtain out d' p' w' where r: "run_pipe demo_sink demo_actions (?d, ?p, ()) = (out, d', p', w')"
    by (metis prod.exhaust)
  have "no_overflow (aq_max_size (fst ?p)) (length (waiting ?p)) demo_actions"
    by (simp add: demo_actions_def demo_queue_def waiting_def)
  from frames_lossless [OF demo_pipe_wf(1) demo_pipe_wf(2) this r] r show ?thesis
    by (simp add: waiting_def demo_queue_def demo_actions_def)
qed

section \<open>The phone call\<close>

text \<open>
  The history of a call never exceeds two messages per configured turn.
\<close>

theorem call_history_bounded:
  assumes "call_run (call_start now (new_call_session turns cid now)) s"
  shows "int (length (cs_history s)) \<le> max 0 (cs_history_turns s * 2)"
proof -
  have "call_history_ok (call_start now (new_call_session turns cid now))"
    by (simp add: call_history_ok_def call_start_def new_call_session_def transition_to_def with_lock_def go_def
        apply_transition_def Let_def)
  from call_histories.call_run_inv [OF assms this] show ?thesis by (simp add: call_history_ok_def)
qed

theorem call_history_bounded_witness:
  "int (length (cs_history (transcript_callback 1 ''g'' (demo_event FINAL) demo_call)))
     \<le> max 0 (cs_history_turns (transcript_callback 1 ''g'' (demo_event FINAL) demo_call) * 2)"
  using call_history_bounded [OF call_more [OF call_here call_transcript]] unfolding demo_call_def .

text \<open>
  Barge-in of a call: the speech stops, the generation is cancelled, the system turn is over, audio is
  no longer muted, and the call listens again.
\<close>

theorem call_barge_in:
  assumes "\<not> cs_locked s" "\<not> cs_deadlock s" "cs_state s = SPEAKING \<or> cs_state s = PROCESSING"
  shows "cs_state (handle_barge_in s) = LISTENING \<and> \<not> tts_busy (handle_barge_in s)
    \<and> \<not> cs_muted (handle_barge_in s) \<and> \<not> is_system_speaking (handle_barge_in s)
    \<and> cs_llm (handle_barge_in s) = map_option llm_cancel (cs_llm s)"
  using barge_in_result [OF assms] by blast

theorem call_barge_in_witness:
  "cs_state (handle_barge_in (demo_call\<lparr>cs_state := SPEAKING\<rparr>)) = LISTENING"
  using call_barge_in [of "demo_call\<lparr>cs_state := SPEAKING\<rparr>"] by (simp add: demo_call_fields)

text \<open>
  Recovery. An error reported by a task other than the call's own generation or speech task brings a
  processing or speaking call back to \<open>LISTENING\<close>, and the fallback message is the reply being spoken.
\<close>

theorem call_error_recovers:
  assumes "\<not> cs_locked s" "\<not> cs_deadlock s" "cs_state s = PROCESSING \<or> cs_state s = SPEAKING" "cs_tts s = Some t"
  shows "cs_state (handle_pipeline_error OtherTask fresh s) = LISTENING
    \<and> (\<exists>t'. cs_tts (handle_pipeline_error OtherTask fresh s) = Some t' \<and> is_active t'
         \<and> tc_queue t' = Some [Some FALLBACK_TTS_MESSAGE, None])"
  using error_recovers [OF assms] by blast

theorem call_error_recovers_witness:
  "cs_state (handle_pipeline_error OtherTask ''f'' (demo_call\<lparr>cs_state := PROCESSING\<rparr>)) = LISTENING"
  using call_error_recovers [of "demo_call\<lparr>cs_state := PROCESSING\<rparr>"] by (simp add: demo_call_fields)

text \<open>
  Stopping, the good case: with no transcript pending and room in the recogniser's queue,
  \<^verbatim>\<open>stop\<close> returns, the call has ended, and its three consumers are released.
\<close>

theorem call_stop_releases:
  assumes "\<not> cs_locked s" "\<not> cs_deadlock s" "cs_state s \<noteq> ENDED"
    and "\<And>c. cs_stt s = Some c \<Longrightarrow> \<not> queue_full c"
  shows "\<not> cs_deadlock (call_stop now fresh None s) \<and> cs_state (call_stop now fresh None s) = ENDED
    \<and> cs_stt (call_stop now fresh None s) = None \<and> cs_llm (call_stop now fresh None s) = None
    \<and> cs_tts (call_stop now fresh None s) = None \<and> \<not> cs_can_send (call_stop now fresh None s)"
  using assms by (rule stop_clean)

theorem call_stop_releases_witness: "cs_state (call_stop 1 ''f'' None demo_call) = ENDED"
  using call_stop_releases [of demo_call 1 "''f''"]
  by (simp add: demo_call_fields stt_start_def new_stt_consumer_def queue_full_def)

section \<open>The telephone stream\<close>

text \<open>
  A socket that closes during a call removes that call, and only that call, from the registry; unless
  stopping the call deadlocks, the connection ends without a call.
\<close>

theorem disconnect_removes_entry:
  assumes "tc_status c = Open" "tc_call c = Some (cid, sid, s)" "hashable cid"
  shows "\<exists>c' reg'. on_disconnect mo (c, reg) = (c', reg')
    \<and> (\<forall>k. registered reg' k \<longleftrightarrow> registered reg k \<and> k \<noteq> cid)
    \<and> (cs_deadlock (call_stop (mo_now mo) (mo_fresh mo) (mo_final mo) s) \<or> (tc_call c' = None \<and> tc_status c' = Closed))"
  using assms by (rule disconnect_unregisters)

theorem disconnect_removes_entry_witness:
  "\<exists>c' reg'. on_disconnect demo_moment (demo_conn, [(JStr (u ''CA1''), demo_entry), (JStr (u ''CA2''), demo_entry)]) = (c', reg')
    \<and> \<not> registered reg' (JStr (u ''CA1'')) \<and> registered reg' (JStr (u ''CA2'')) \<and> tc_call c' = None"
  using disconnect_removes_entry [of demo_conn "JStr (u ''CA1'')" "JStr (u ''MZ1'')" demo_call demo_moment
      "[(JStr (u ''CA1''), demo_entry), (JStr (u ''CA2''), demo_entry)]"] demo_stops
  by (auto simp: demo_conn_def demo_moment_def registered_def)

text \<open>
  Round trip of a media message: the message built for some audio, handled as an incoming event,
  yields exactly that audio and appends it to the audio of the session.
\<close>

theorem media_message_roundtrip:
  assumes "c \<noteq> []"
  shows "handle_twilio_event (build_twilio_media_message sid c) (Some s)
     = Inr (Some (s\<lparr>ts_decoded_audio := ts_decoded_audio s @ c\<rparr>), Some c)"
  using assms by (rule media_roundtrip)

theorem media_message_roundtrip_witness:
  "handle_twilio_event (build_twilio_media_message (JStr (u ''MZ1'')) [0, 255, 7]) (Some demo_twilio)
     = Inr (Some (demo_twilio\<lparr>ts_decoded_audio := [0, 255, 7]\<rparr>), Some [0, 255, 7])"
  using media_message_roundtrip [of "[0, 255, 7]" "JStr (u ''MZ1'')" demo_twilio] by (simp add: demo_twilio_def)

text \<open>
  Between a start and a stop, whatever messages come (unreadable ones included), the session gains
  exactly the chunks that were delivered, in order, none of them empty.
\<close>

theorem stream_audio_complete:
  assumes "no_restart ms" "take_events ms (Some s) = (s', cs)"
  shows "s' = Some (s\<lparr>ts_decoded_audio := ts_decoded_audio s @ concat cs\<rparr>) \<and> [] \<notin> set cs"
  using assms by (rule take_events_audio)

theorem stream_audio_complete_witness:
  "\<exists>cs. take_events [build_twilio_media_message JNull [1], JNull, build_twilio_media_message JNull [2, 3]] (Some demo_twilio)
     = (Some (demo_twilio\<lparr>ts_decoded_audio := concat cs\<rparr>), cs) \<and> [] \<notin> set cs"
proof -
  let ?ms = "[build_twilio_media_message JNull [1], JNull, build_twilio_media_message JNull [2, 3]]"
  have "event_of (build_twilio_media_message JNull b) = Some (u ''media'')" for b
    by (simp add: build_twilio_media_message_def event_of_def json_or_def lower_def strip_def lstrip_def rstrip_def)
      (simp add: u_def lower_c_def py_space_def)
  then have "no_restart ?ms" by (simp add: no_restart_def event_of_def [of JNull])
  moreover obtain s' cs where "take_events ?ms (Some demo_twilio) = (s', cs)" by (metis prod.exhaust)
  ultimately show ?thesis
    using stream_audio_complete [of ?ms demo_twilio s' cs] by (simp add: demo_twilio_def)
qed

section \<open>Admission\<close>

text \<open>
  A token is bound to its call: when one token verifies for two different call ids, the keyed
  hash has a collision under the server's key.
\<close>

theorem token_bound_to_call:
  assumes "verify_stream_token mac st now c1 token = None" "verify_stream_token mac st now' c2 token = None"
    and "c1 \<noteq> c2"
  shows "\<exists>key d1 d2. d1 \<noteq> d2 \<and> mac key d1 = mac key d2"
  using assms by (rule token_binds_call)

theorem token_bound_to_call_witness:
  "\<exists>key d1 d2. d1 \<noteq> d2 \<and> (\<lambda>k d :: nat list. u ''00'') key d1 = u ''00''"
proof -
  let ?mac = "\<lambda>(k :: nat list) (d :: nat list). u ''00''"
  have s: "sign_stream_token ?mac demo_stream_settings 0 c (Some 7) = Inr (u ''7.00'')" if "c = u ''CA1'' \<or> c = u ''CA2''" for c
    using that
    by (auto simp: sign_stream_token_def demo_stream_settings_def or_str_def stream_payload_def demo_seven
        Let_def u_def utf8_c_def)
  have a: "ascii (?mac k d)" for k d by (simp add: ascii_def u_def)
  have l: "length (str_int 7) \<le> MAX_STR_DIGITS" by (simp add: demo_seven MAX_STR_DIGITS_def)
  have v: "verify_stream_token ?mac demo_stream_settings 7 c (u ''7.00'') = None" if "c = u ''CA1'' \<or> c = u ''CA2''" for c
    using verify_signed [OF s [OF that] l a, of 7] by (simp add: demo_stream_settings_def)
  have "u ''CA1'' \<noteq> u ''CA2''" by simp
  from token_bound_to_call [OF v v this] show ?thesis by auto
qed

text \<open>
  With an auth token configured, a form is accepted only when a signature is present and equals the base64
  text of the keyed hash of the URL and the sorted form; the fields returned are the last values.
\<close>

theorem webhook_signature_checked:
  assumes "require_twilio_signature sha1 st url signature items = Inr form"
    and "strip (or_str (TWILIO_AUTH_TOKEN st) []) \<noteq> []"
  shows "expected_signature sha1 (strip (or_str (TWILIO_AUTH_TOKEN st) [])) url items = Inr (or_str signature [])
    \<and> signature \<noteq> None \<and> form = map_of (rev items)"
  using assms by (rule webhook_accepts)

theorem webhook_signature_checked_witness:
  "\<exists>form. require_twilio_signature (\<lambda>k d. [0]) demo_stream_settings (u ''x'') (Some (u ''AA=='')) [(u ''b'', u ''1'')] = Inr form
    \<and> form = map_of [(u ''b'', u ''1'')]"
proof -
  have e: "expected_signature (\<lambda>k d. [0]) (u ''k'') (u ''x'') [(u ''b'', u ''1'')] = Inr (u ''AA=='')"
    by (simp add: expected_signature_def signed_data_def u_def utf8_c_def b64_char_def PAD_def)
  then obtain form where r: "require_twilio_signature (\<lambda>k d. [0]) demo_stream_settings (u ''x'') (Some (u ''AA=='')) [(u ''b'', u ''1'')] = Inr form"
    by (simp add: require_twilio_signature_def demo_token_text Let_def demo_or compare_digest_def ascii_def)
  have "strip (or_str (TWILIO_AUTH_TOKEN demo_stream_settings) []) \<noteq> []" by (simp add: demo_token_text)
  from webhook_signature_checked [OF r this] r show ?thesis by simp
qed

section \<open>Audio codecs and recognition\<close>

text \<open>
  The built-in decoder against the standard: each sample is four times the value that
  G.711 assigns to the byte, clipped to 16 bits.
\<close>

theorem decoder_is_not_g711: "ulaw_decode b = clip16 (4 * g711_expand b)"
  by (rule decode_is_scaled)

text \<open>
  A flaw of the recogniser's consumer. When its queue is full, \<^verbatim>\<open>stop\<close> waits for room for the end mark,
  but it has already told the loop, the only reader, to end: it waits for ever.
\<close>

theorem recogniser_stop_waits:
  assumes "sc_running c" "queue_full c"
  shows "\<exists>c' e'. stt_stop w (c, e) = StopWaits c' e' \<and> queue_full c' \<and> stt_loop_once w (c', e'') = None"
  using assms by (rule stop_waits)

theorem recogniser_stop_waits_witness:
  "\<exists>c' e'. stt_stop (stop_world 0 ''f'' None)
      (\<lparr>sc_max_queue = 1, sc_queue = [Some [0, 0]], sc_running = True, sc_task = True, frames_processed = 0, frames_dropped = 0\<rparr>, demo_call)
    = StopWaits c' e'"
proof -
  let ?c = "\<lparr>sc_max_queue = 1, sc_queue = [Some [0, 0]], sc_running = True, sc_task = True, frames_processed = 0, frames_dropped = 0\<rparr>"
  have "sc_running ?c" "queue_full ?c" by (simp_all add: queue_full_def)
  from recogniser_stop_waits [OF this, of "stop_world 0 ''f'' None" demo_call demo_call] show ?thesis by blast
qed

text \<open>
  No recognised word is lost: the non-blank text of the final events and of the segments kept for the
  next one grows by exactly the words of each final result, in order.
\<close>

theorem transcript_words_kept:
  "inked (finals_text (dg_events (dg_receive now fresh pl g))) @ inked (concat (dg_segments (dg_receive now fresh pl g)))
     = inked (finals_text (dg_events g)) @ inked (concat (dg_segments g)) @ inked (final_words pl)"
  by (rule dg_receive_words)

text \<open>
  Failover. The combined stream is the secondary's exactly when the primary raises before it
  yielded anything (and an error when there is no secondary); in every other case it is the primary's, an
  error in the middle included, so no token is ever repeated.
\<close>

theorem failover_result:
  "fst (failover_stream p s) =
     (if snd p = StreamRaises \<and> fst p = []
      then (case s of None \<Rightarrow> ([], StreamRaises) | Some q \<Rightarrow> q) else p)"
  by (rule failover_spec)

text \<open>
  Order and no invention: under every interleaving of arrivals and dispatch iterations, and
  whatever exceptions the session or the recogniser raise, the frames forwarded, followed by the frames
  still waiting, form a subsequence of the frames that were waiting before or came in.
\<close>

theorem frames_in_order:
  assumes "dp_running d" "pipe_wf p" "run_pipe sink as (d, p, w) = (out, d', p', w')"
  shows "subseq (out @ waiting p') (waiting p @ arrivals as)"
  using assms by (rule run_pipe_order)

theorem frames_in_order_witness:
  "subseq ([[2]] @ [[3]]) ([] @ [[1], [2], [3 :: 8 word]])"
proof -
  let ?d = "start_dispatcher new_dispatcher"
  let ?p = "(demo_queue 1, None :: streaming_metrics option)"
  obtain d' p' w' where r: "run_pipe demo_sink demo_actions (?d, ?p, ()) = ([[2]], d', p', w')" "waiting p' = [[3]]"
    by (simp add: demo_pipe_simps)
  from frames_in_order [OF demo_pipe_wf(1) demo_pipe_wf(2) r(1)] show ?thesis
    by (simp only: r(2)) (simp add: waiting_def demo_queue_def demo_actions_def)
qed

end
