(* ===== verification/Enumerations.thy ===== *)
theory Enumerations
  imports Prelude
begin

text \<open>
  \<^verbatim>\<open>app/core/enums.py\<close>: the enumerations that stand for column values. A \<^verbatim>\<open>StrEnum\<close> is the list of its members with
  their values, in the order of the class; a member equals the text of its value, and calling the class with
  a text finds the member with that value or raises \<^verbatim>\<open>ValueError\<close>. The enumerations whose members the
  modelled code tells apart are datatypes elsewhere (\<open>Rbac\<close>, \<open>IamStore\<close>, \<open>IamService\<close>, \<open>VoiceFactory\<close>, \<open>Secrets\<close>).
\<close>

type_synonym enumeration = "(string \<times> string) list"

definition enum_value :: "enumeration \<Rightarrow> string \<Rightarrow> string option" where
  "enum_value e m = map_of e m"

definition enum_of :: "enumeration \<Rightarrow> string \<Rightarrow> py_exn + string" where
  "enum_of e v = (case List.find (\<lambda>p. snd p = v) e of None \<Rightarrow> Inl ValueError | Some p \<Rightarrow> Inr (fst p))"

definition TenantStatus :: enumeration where
  "TenantStatus =
    [(''ACTIVE'', ''active''),
     (''TRIAL'', ''trial''),
     (''SUSPENDED'', ''suspended''),
     (''CANCELLED'', ''cancelled'')]"

definition SubscriptionPlan :: enumeration where
  "SubscriptionPlan =
    [(''FREE'', ''free''),
     (''STARTER'', ''starter''),
     (''PRO'', ''pro''),
     (''ENTERPRISE'', ''enterprise'')]"

definition AgentStatus :: enumeration where
  "AgentStatus =
    [(''DRAFT'', ''draft''),
     (''ACTIVE'', ''active''),
     (''PAUSED'', ''paused''),
     (''ARCHIVED'', ''archived'')]"

definition KnowledgeBaseStatus :: enumeration where
  "KnowledgeBaseStatus =
    [(''PROCESSING'', ''processing''),
     (''READY'', ''ready''),
     (''FAILED'', ''failed''),
     (''ARCHIVED'', ''archived'')]"

definition KnowledgeSourceType :: enumeration where
  "KnowledgeSourceType =
    [(''PDF'', ''pdf''),
     (''DOCX'', ''docx''),
     (''TXT'', ''txt''),
     (''MD'', ''md''),
     (''HTML'', ''html''),
     (''CSV_FAQ'', ''csv_faq''),
     (''WEBSITE'', ''website''),
     (''CONFLUENCE'', ''confluence''),
     (''NOTION'', ''notion''),
     (''GOOGLE_DRIVE'', ''google_drive''),
     (''SHAREPOINT'', ''sharepoint'')]"

definition KnowledgeSourceStatus :: enumeration where
  "KnowledgeSourceStatus =
    [(''PENDING'', ''pending''),
     (''PROCESSING'', ''processing''),
     (''READY'', ''ready''),
     (''FAILED'', ''failed''),
     (''REPROCESSING'', ''reprocessing'')]"

definition KnowledgeEmbeddingStatus :: enumeration where
  "KnowledgeEmbeddingStatus =
    [(''PENDING'', ''pending''),
     (''IN_PROGRESS'', ''in_progress''),
     (''COMPLETE'', ''complete''),
     (''FAILED'', ''failed''),
     (''SKIPPED'', ''skipped'')]"

definition KnowledgeProcessingStage :: enumeration where
  "KnowledgeProcessingStage =
    [(''UPLOAD'', ''upload''),
     (''PARSE'', ''parse''),
     (''CLEAN'', ''clean''),
     (''CHUNK'', ''chunk''),
     (''METADATA'', ''metadata''),
     (''EMBED'', ''embed''),
     (''VECTOR_STORE'', ''vector_store''),
     (''COMPLETE'', ''complete''),
     (''FAILED'', ''failed'')]"

definition KnowledgeIngestionJobStatus :: enumeration where
  "KnowledgeIngestionJobStatus =
    [(''QUEUED'', ''queued''),
     (''RUNNING'', ''running''),
     (''COMPLETED'', ''completed''),
     (''FAILED'', ''failed''),
     (''RETRYING'', ''retrying''),
     (''CANCELLED'', ''cancelled'')]"

definition ChunkStrategyType :: enumeration where
  "ChunkStrategyType =
    [(''RECURSIVE'', ''recursive''),
     (''SEMANTIC'', ''semantic''),
     (''SENTENCE'', ''sentence''),
     (''MARKDOWN'', ''markdown''),
     (''TOKEN'', ''token'')]"

definition EmbeddingProviderType :: enumeration where
  "EmbeddingProviderType =
    [(''OPENAI'', ''openai''),
     (''VOYAGEAI'', ''voyageai''),
     (''BGE'', ''bge''),
     (''INSTRUCTOR'', ''instructor''),
     (''NOMIC'', ''nomic''),
     (''AZURE_OPENAI'', ''azure_openai'')]"

definition VectorStoreType :: enumeration where
  "VectorStoreType =
    [(''QDRANT'', ''qdrant''),
     (''PINECONE'', ''pinecone''),
     (''WEAVIATE'', ''weaviate''),
     (''PGVECTOR'', ''pgvector''),
     (''MILVUS'', ''milvus'')]"

definition CallSessionStateType :: enumeration where
  "CallSessionStateType =
    [(''INCOMING'', ''incoming''),
     (''CONNECTING'', ''connecting''),
     (''CONNECTED'', ''connected''),
     (''STREAMING'', ''streaming''),
     (''LISTENING'', ''listening''),
     (''PROCESSING'', ''processing''),
     (''SPEAKING'', ''speaking''),
     (''PAUSED'', ''paused''),
     (''INTERRUPTED'', ''interrupted''),
     (''TRANSFERRED'', ''transferred''),
     (''COMPLETED'', ''completed''),
     (''FAILED'', ''failed''),
     (''TIMEOUT'', ''timeout''),
     (''CANCELLED'', ''cancelled''),
     (''ENDED'', ''ended'')]"

definition ToolStatus :: enumeration where
  "ToolStatus =
    [(''ACTIVE'', ''active''),
     (''DISABLED'', ''disabled''),
     (''DEPRECATED'', ''deprecated'')]"

definition ToolHandlerType :: enumeration where
  "ToolHandlerType =
    [(''BUILTIN'', ''builtin''),
     (''HTTP'', ''http''),
     (''MCP'', ''mcp'')]"

definition AuditActorType :: enumeration where
  "AuditActorType =
    [(''USER'', ''user''),
     (''SYSTEM'', ''system''),
     (''API_KEY'', ''api_key''),
     (''SERVICE'', ''service'')]"

definition ConversationStatus :: enumeration where
  "ConversationStatus =
    [(''ACTIVE'', ''active''),
     (''COMPLETED'', ''completed''),
     (''ARCHIVED'', ''archived''),
     (''EXPIRED'', ''expired'')]"

definition MemoryRole :: enumeration where
  "MemoryRole =
    [(''USER'', ''user''),
     (''ASSISTANT'', ''assistant''),
     (''SYSTEM'', ''system''),
     (''TOOL'', ''tool'')]"

definition SessionState :: enumeration where
  "SessionState =
    [(''CALL_STARTED'', ''call_started''),
     (''IDENTITY_PENDING'', ''identity_pending''),
     (''IDENTITY_VERIFIED'', ''identity_verified''),
     (''RETRIEVAL_RUNNING'', ''retrieval_running''),
     (''TOOL_EXECUTION'', ''tool_execution''),
     (''WAITING_CONFIRMATION'', ''waiting_confirmation''),
     (''ESCALATED'', ''escalated''),
     (''CALL_COMPLETED'', ''call_completed'')]"

definition ToolExecutionStatus :: enumeration where
  "ToolExecutionStatus =
    [(''SUCCESS'', ''success''),
     (''FAILED'', ''failed''),
     (''TIMEOUT'', ''timeout''),
     (''CANCELLED'', ''cancelled'')]"

definition WorkingMemoryKey :: enumeration where
  "WorkingMemoryKey =
    [(''CUSTOMER_NAME'', ''customer_name''),
     (''EMAIL'', ''email''),
     (''PHONE'', ''phone''),
     (''APPOINTMENT_ID'', ''appointment_id''),
     (''ORDER_NUMBER'', ''order_number''),
     (''SELECTED_PRODUCT'', ''selected_product''),
     (''CURRENT_INTENT'', ''current_intent''),
     (''VERIFICATION_STATUS'', ''verification_status''),
     (''CUSTOM'', ''custom'')]"

definition ToolPermissionEffect :: enumeration where
  "ToolPermissionEffect =
    [(''ALLOW'', ''allow''),
     (''BLOCK'', ''block'')]"

definition ToolBuiltinSlug :: enumeration where
  "ToolBuiltinSlug =
    [(''APPOINTMENT'', ''appointment''),
     (''CALENDAR'', ''calendar''),
     (''EMAIL'', ''email''),
     (''SMS'', ''sms''),
     (''CRM_LOOKUP'', ''crm_lookup''),
     (''CRM_UPDATE'', ''crm_update''),
     (''ORDER_LOOKUP'', ''order_lookup''),
     (''TICKET_CREATION'', ''ticket_creation''),
     (''FAQ_SEARCH'', ''faq_search''),
     (''HUMAN_TRANSFER'', ''human_transfer''),
     (''IDENTITY_VERIFICATION'', ''identity_verification''),
     (''WEBHOOK'', ''webhook'')]"

definition ToolFrameworkExecutionStatus :: enumeration where
  "ToolFrameworkExecutionStatus =
    [(''SUCCESS'', ''success''),
     (''FAILED'', ''failed''),
     (''TIMEOUT'', ''timeout''),
     (''CANCELLED'', ''cancelled''),
     (''PERMISSION_DENIED'', ''permission_denied''),
     (''VALIDATION_FAILED'', ''validation_failed''),
     (''CIRCUIT_OPEN'', ''circuit_open'')]"

definition ToolAuditStatus :: enumeration where
  "ToolAuditStatus =
    [(''REQUESTED'', ''requested''),
     (''VALIDATED'', ''validated''),
     (''EXECUTING'', ''executing''),
     (''COMPLETED'', ''completed''),
     (''FAILED'', ''failed''),
     (''DENIED'', ''denied'')]"

definition CircuitBreakerState :: enumeration where
  "CircuitBreakerState =
    [(''CLOSED'', ''closed''),
     (''OPEN'', ''open''),
     (''HALF_OPEN'', ''half_open'')]"

definition PlannerAction :: enumeration where
  "PlannerAction =
    [(''RESPOND'', ''respond''),
     (''RETRIEVE'', ''retrieve''),
     (''CALL_TOOL'', ''call_tool''),
     (''ASK_CLARIFICATION'', ''ask_clarification''),
     (''ESCALATE'', ''escalate''),
     (''TRANSFER_HUMAN'', ''transfer_human''),
     (''END_CONVERSATION'', ''end_conversation'')]"

definition PlannerIntent :: enumeration where
  "PlannerIntent =
    [(''ORDER_STATUS'', ''order_status''),
     (''APPOINTMENT'', ''appointment''),
     (''REFUND'', ''refund''),
     (''CANCEL_SUBSCRIPTION'', ''cancel_subscription''),
     (''TECHNICAL_ISSUE'', ''technical_issue''),
     (''COMPLAINT'', ''complaint''),
     (''GENERAL_QUESTION'', ''general_question''),
     (''IDENTITY_VERIFICATION'', ''identity_verification''),
     (''EMERGENCY'', ''emergency''),
     (''GREETING'', ''greeting''),
     (''UNKNOWN'', ''unknown'')]"

definition PlannerRiskLevel :: enumeration where
  "PlannerRiskLevel =
    [(''LOW'', ''low''),
     (''MEDIUM'', ''medium''),
     (''HIGH'', ''high''),
     (''CRITICAL'', ''critical'')]"

definition PlannerDecisionStatus :: enumeration where
  "PlannerDecisionStatus =
    [(''COMPLETED'', ''completed''),
     (''NEEDS_RETRIEVAL'', ''needs_retrieval''),
     (''NEEDS_TOOL'', ''needs_tool''),
     (''NEEDS_CLARIFICATION'', ''needs_clarification''),
     (''ESCALATED'', ''escalated''),
     (''FAILED'', ''failed''),
     (''POLICY_BLOCKED'', ''policy_blocked'')]"

definition PlannerSessionStatus :: enumeration where
  "PlannerSessionStatus =
    [(''ACTIVE'', ''active''),
     (''COMPLETED'', ''completed''),
     (''ESCALATED'', ''escalated''),
     (''FAILED'', ''failed'')]"

definition SupportedLanguage :: enumeration where
  "SupportedLanguage =
    [(''EN'', ''en''),
     (''ES'', ''es''),
     (''FR'', ''fr''),
     (''DE'', ''de''),
     (''AR'', ''ar''),
     (''BN'', ''bn'')]"

definition VerifierOutcome :: enumeration where
  "VerifierOutcome =
    [(''APPROVED'', ''approved''),
     (''REJECTED'', ''rejected''),
     (''ESCALATED'', ''escalated''),
     (''REQUIRES_CONFIRMATION'', ''requires_confirmation'')]"

definition VerifierRiskLevel :: enumeration where
  "VerifierRiskLevel =
    [(''LOW'', ''low''),
     (''MEDIUM'', ''medium''),
     (''HIGH'', ''high''),
     (''CRITICAL'', ''critical'')]"

definition IdentityVerificationStatus :: enumeration where
  "IdentityVerificationStatus =
    [(''UNVERIFIED'', ''unverified''),
     (''PENDING'', ''pending''),
     (''VERIFIED'', ''verified''),
     (''FAILED'', ''failed'')]"

definition VerifierAuditStatus :: enumeration where
  "VerifierAuditStatus =
    [(''VALIDATING'', ''validating''),
     (''APPROVED'', ''approved''),
     (''REJECTED'', ''rejected''),
     (''ESCALATED'', ''escalated''),
     (''POLICY_VIOLATION'', ''policy_violation''),
     (''COMPLIANCE_FAILURE'', ''compliance_failure'')]"

definition WorkflowState :: enumeration where
  "WorkflowState =
    [(''STARTED'', ''started''),
     (''WAITING_APPROVAL'', ''waiting_approval''),
     (''WAITING_IDENTITY'', ''waiting_identity''),
     (''WAITING_CUSTOMER'', ''waiting_customer''),
     (''EXECUTING'', ''executing''),
     (''PAUSED'', ''paused''),
     (''COMPLETED'', ''completed''),
     (''FAILED'', ''failed''),
     (''ESCALATED'', ''escalated''),
     (''TIMEOUT'', ''timeout''),
     (''REJECTED'', ''rejected'')]"

definition WorkflowEventType :: enumeration where
  "WorkflowEventType =
    [(''WORKFLOW_STARTED'', ''workflow_started''),
     (''WORKFLOW_PAUSED'', ''workflow_paused''),
     (''WORKFLOW_RESUMED'', ''workflow_resumed''),
     (''WORKFLOW_APPROVED'', ''workflow_approved''),
     (''WORKFLOW_REJECTED'', ''workflow_rejected''),
     (''WORKFLOW_ESCALATED'', ''workflow_escalated''),
     (''WORKFLOW_COMPLETED'', ''workflow_completed''),
     (''WORKFLOW_FAILED'', ''workflow_failed''),
     (''WORKFLOW_TIMEOUT'', ''workflow_timeout''),
     (''RULE_MATCHED'', ''rule_matched''),
     (''POLICY_EVALUATED'', ''policy_evaluated''),
     (''ROUTING_DECIDED'', ''routing_decided'')]"

definition WorkflowApprovalStatus :: enumeration where
  "WorkflowApprovalStatus =
    [(''PENDING'', ''pending''),
     (''APPROVED'', ''approved''),
     (''REJECTED'', ''rejected''),
     (''EXPIRED'', ''expired''),
     (''SKIPPED'', ''skipped'')]"

definition WorkflowApprovalMode :: enumeration where
  "WorkflowApprovalMode =
    [(''AUTO'', ''auto''),
     (''MANAGER'', ''manager''),
     (''DEPARTMENT'', ''department''),
     (''TWO_STEP'', ''two_step''),
     (''TIME_LIMITED'', ''time_limited'')]"

definition EscalationTarget :: enumeration where
  "EscalationTarget =
    [(''HUMAN_AGENT'', ''human_agent''),
     (''SUPERVISOR'', ''supervisor''),
     (''DEPARTMENT'', ''department''),
     (''EMERGENCY_QUEUE'', ''emergency_queue''),
     (''SMS'', ''sms''),
     (''EMAIL'', ''email''),
     (''WEBHOOK'', ''webhook''),
     (''SLACK'', ''slack''),
     (''TEAMS'', ''teams'')]"

definition RoutingStrategy :: enumeration where
  "RoutingStrategy =
    [(''DEPARTMENT'', ''department''),
     (''SKILL'', ''skill''),
     (''LANGUAGE'', ''language''),
     (''PRIORITY'', ''priority''),
     (''VIP'', ''vip''),
     (''EMERGENCY'', ''emergency''),
     (''ROUND_ROBIN'', ''round_robin'')]"

definition RuleOperator :: enumeration where
  "RuleOperator =
    [(''EQ'', ''eq''),
     (''NE'', ''ne''),
     (''GT'', ''gt''),
     (''GTE'', ''gte''),
     (''LT'', ''lt''),
     (''LTE'', ''lte''),
     (''IN'', ''in''),
     (''NOT_IN'', ''not_in''),
     (''CONTAINS'', ''contains'')]"

definition RuleActionType :: enumeration where
  "RuleActionType =
    [(''REQUIRE_APPROVAL'', ''require_approval''),
     (''REJECT'', ''reject''),
     (''ESCALATE'', ''escalate''),
     (''ROUTE'', ''route''),
     (''EXECUTE'', ''execute''),
     (''NOTIFY'', ''notify''),
     (''PAUSE'', ''pause''),
     (''COMPLETE'', ''complete''),
     (''BYPASS_AUTH'', ''bypass_auth'')]"

definition WorkflowExecutionStatus :: enumeration where
  "WorkflowExecutionStatus =
    [(''RUNNING'', ''running''),
     (''PAUSED'', ''paused''),
     (''COMPLETED'', ''completed''),
     (''FAILED'', ''failed''),
     (''ESCALATED'', ''escalated''),
     (''TIMEOUT'', ''timeout''),
     (''REJECTED'', ''rejected'')]"

definition OrganizationStatus :: enumeration where
  "OrganizationStatus =
    [(''ACTIVE'', ''active''),
     (''TRIAL'', ''trial''),
     (''SUSPENDED'', ''suspended''),
     (''CANCELLED'', ''cancelled'')]"

definition IamMembershipStatus :: enumeration where
  "IamMembershipStatus =
    [(''ACTIVE'', ''active''),
     (''INVITED'', ''invited''),
     (''SUSPENDED'', ''suspended'')]"

definition AuthMethod :: enumeration where
  "AuthMethod =
    [(''PASSWORD'', ''password''),
     (''MAGIC_LINK'', ''magic_link''),
     (''OAUTH'', ''oauth''),
     (''SSO'', ''sso''),
     (''API_KEY'', ''api_key'')]"

definition OAuthProvider :: enumeration where
  "OAuthProvider =
    [(''GOOGLE'', ''google''),
     (''MICROSOFT'', ''microsoft''),
     (''GITHUB'', ''github''),
     (''OKTA'', ''okta''),
     (''AUTH0'', ''auth0'')]"

definition SsoProviderType :: enumeration where
  "SsoProviderType =
    [(''SAML'', ''saml''),
     (''OIDC'', ''oidc''),
     (''OKTA'', ''okta''),
     (''ENTRA_ID'', ''entra_id''),
     (''GOOGLE_WORKSPACE'', ''google_workspace''),
     (''ONELOGIN'', ''onelogin''),
     (''PING'', ''ping''),
     (''AUTH0'', ''auth0'')]"

definition MfaFactorType :: enumeration where
  "MfaFactorType =
    [(''TOTP'', ''totp''),
     (''SMS'', ''sms''),
     (''EMAIL'', ''email''),
     (''BACKUP_CODES'', ''backup_codes''),
     (''WEBAUTHN'', ''webauthn'')]"

definition SecurityEventSeverity :: enumeration where
  "SecurityEventSeverity =
    [(''INFO'', ''info''),
     (''WARNING'', ''warning''),
     (''CRITICAL'', ''critical'')]"

definition IntegrationCategory :: enumeration where
  "IntegrationCategory =
    [(''CRM'', ''crm''),
     (''HELPDESK'', ''helpdesk''),
     (''ECOMMERCE'', ''ecommerce''),
     (''CALENDAR'', ''calendar''),
     (''EMAIL'', ''email''),
     (''IDENTITY'', ''identity''),
     (''COMMUNICATION'', ''communication''),
     (''PAYMENT'', ''payment''),
     (''KNOWLEDGE'', ''knowledge''),
     (''PHONE'', ''phone''),
     (''CUSTOM'', ''custom'')]"

definition IntegrationConnectionStatus :: enumeration where
  "IntegrationConnectionStatus =
    [(''PENDING'', ''pending''),
     (''CONNECTING'', ''connecting''),
     (''CONNECTED'', ''connected''),
     (''DISCONNECTED'', ''disconnected''),
     (''ERROR'', ''error''),
     (''EXPIRED'', ''expired''),
     (''REVOKED'', ''revoked'')]"

definition IntegrationHealthStatus :: enumeration where
  "IntegrationHealthStatus =
    [(''HEALTHY'', ''healthy''),
     (''DEGRADED'', ''degraded''),
     (''UNHEALTHY'', ''unhealthy''),
     (''UNKNOWN'', ''unknown'')]"

definition IntegrationSyncMode :: enumeration where
  "IntegrationSyncMode =
    [(''MANUAL'', ''manual''),
     (''SCHEDULED'', ''scheduled''),
     (''WEBHOOK'', ''webhook''),
     (''INCREMENTAL'', ''incremental''),
     (''FULL'', ''full'')]"

definition IntegrationSyncJobStatus :: enumeration where
  "IntegrationSyncJobStatus =
    [(''QUEUED'', ''queued''),
     (''RUNNING'', ''running''),
     (''COMPLETED'', ''completed''),
     (''FAILED'', ''failed''),
     (''RETRYING'', ''retrying''),
     (''CANCELLED'', ''cancelled''),
     (''DEAD_LETTER'', ''dead_letter'')]"

definition IntegrationEntityType :: enumeration where
  "IntegrationEntityType =
    [(''CUSTOMER'', ''customer''),
     (''PRODUCT'', ''product''),
     (''ORDER'', ''order''),
     (''APPOINTMENT'', ''appointment''),
     (''TICKET'', ''ticket''),
     (''EMPLOYEE'', ''employee''),
     (''KNOWLEDGE'', ''knowledge''),
     (''CALENDAR_EVENT'', ''calendar_event''),
     (''EMAIL'', ''email''),
     (''CONTACT'', ''contact''),
     (''INVOICE'', ''invoice''),
     (''SUBSCRIPTION'', ''subscription'')]"

definition IntegrationCredentialType :: enumeration where
  "IntegrationCredentialType =
    [(''OAUTH2'', ''oauth2''),
     (''API_KEY'', ''api_key''),
     (''WEBHOOK_SECRET'', ''webhook_secret''),
     (''BASIC_AUTH'', ''basic_auth''),
     (''CUSTOM'', ''custom'')]"

definition IntegrationWebhookEventStatus :: enumeration where
  "IntegrationWebhookEventStatus =
    [(''RECEIVED'', ''received''),
     (''PROCESSING'', ''processing''),
     (''PROCESSED'', ''processed''),
     (''FAILED'', ''failed''),
     (''DUPLICATE'', ''duplicate''),
     (''DEAD_LETTER'', ''dead_letter'')]"

definition IntegrationAuthType :: enumeration where
  "IntegrationAuthType =
    [(''OAUTH2'', ''oauth2''),
     (''API_KEY'', ''api_key''),
     (''WEBHOOK_ONLY'', ''webhook_only''),
     (''SIP'', ''sip''),
     (''CUSTOM'', ''custom'')]"

definition IntegrationProviderSlug :: enumeration where
  "IntegrationProviderSlug =
    [(''HUBSPOT'', ''hubspot''),
     (''SALESFORCE'', ''salesforce''),
     (''ZOHO_CRM'', ''zoho_crm''),
     (''MICROSOFT_DYNAMICS'', ''microsoft_dynamics''),
     (''PIPEDRIVE'', ''pipedrive''),
     (''FRESHSALES'', ''freshsales''),
     (''CUSTOM_CRM'', ''custom_crm''),
     (''ZENDESK'', ''zendesk''),
     (''FRESHDESK'', ''freshdesk''),
     (''INTERCOM'', ''intercom''),
     (''SERVICENOW'', ''servicenow''),
     (''HELP_SCOUT'', ''help_scout''),
     (''ZOHO_DESK'', ''zoho_desk''),
     (''SHOPIFY'', ''shopify''),
     (''WOOCOMMERCE'', ''woocommerce''),
     (''MAGENTO'', ''magento''),
     (''BIGCOMMERCE'', ''bigcommerce''),
     (''PRESTASHOP'', ''prestashop''),
     (''GOOGLE_CALENDAR'', ''google_calendar''),
     (''MICROSOFT_OUTLOOK'', ''microsoft_outlook''),
     (''CALENDLY'', ''calendly''),
     (''APPLE_CALENDAR'', ''apple_calendar''),
     (''GMAIL'', ''gmail''),
     (''MICROSOFT_365'', ''microsoft_365''),
     (''SMTP'', ''smtp''),
     (''SENDGRID'', ''sendgrid''),
     (''MAILGUN'', ''mailgun''),
     (''AMAZON_SES'', ''amazon_ses''),
     (''MICROSOFT_ENTRA'', ''microsoft_entra''),
     (''OKTA'', ''okta''),
     (''GOOGLE_WORKSPACE'', ''google_workspace''),
     (''AZURE_AD'', ''azure_ad''),
     (''SLACK'', ''slack''),
     (''MICROSOFT_TEAMS'', ''microsoft_teams''),
     (''DISCORD'', ''discord''),
     (''WEBHOOK'', ''webhook''),
     (''STRIPE'', ''stripe''),
     (''PAYPAL'', ''paypal''),
     (''ADYEN'', ''adyen''),
     (''NOTION'', ''notion''),
     (''CONFLUENCE'', ''confluence''),
     (''GOOGLE_DRIVE'', ''google_drive''),
     (''SHAREPOINT'', ''sharepoint''),
     (''DROPBOX'', ''dropbox''),
     (''ONEDRIVE'', ''onedrive''),
     (''BOX'', ''box''),
     (''TWILIO'', ''twilio''),
     (''SIP'', ''sip''),
     (''BYOC'', ''byoc'')]"

definition ENUMERATIONS :: "enumeration list" where
  "ENUMERATIONS =
    [TenantStatus, SubscriptionPlan, AgentStatus, KnowledgeBaseStatus, KnowledgeSourceType,
    KnowledgeSourceStatus, KnowledgeEmbeddingStatus, KnowledgeProcessingStage,
    KnowledgeIngestionJobStatus, ChunkStrategyType, EmbeddingProviderType, VectorStoreType,
    CallSessionStateType, ToolStatus, ToolHandlerType, AuditActorType, ConversationStatus,
    MemoryRole, SessionState, ToolExecutionStatus, WorkingMemoryKey, ToolPermissionEffect,
    ToolBuiltinSlug, ToolFrameworkExecutionStatus, ToolAuditStatus, CircuitBreakerState,
    PlannerAction, PlannerIntent, PlannerRiskLevel, PlannerDecisionStatus, PlannerSessionStatus,
    SupportedLanguage, VerifierOutcome, VerifierRiskLevel, IdentityVerificationStatus,
    VerifierAuditStatus, WorkflowState, WorkflowEventType, WorkflowApprovalStatus,
    WorkflowApprovalMode, EscalationTarget, RoutingStrategy, RuleOperator, RuleActionType,
    WorkflowExecutionStatus, OrganizationStatus, IamMembershipStatus, AuthMethod, OAuthProvider,
    SsoProviderType, MfaFactorType, SecurityEventSeverity, IntegrationCategory,
    IntegrationConnectionStatus, IntegrationHealthStatus, IntegrationSyncMode,
    IntegrationSyncJobStatus, IntegrationEntityType, IntegrationCredentialType,
    IntegrationWebhookEventStatus, IntegrationAuthType, IntegrationProviderSlug]"

definition unambiguous :: "enumeration \<Rightarrow> bool" where
  "unambiguous e = (distinct (map fst e) \<and> distinct (map snd e))"

lemma enumerations_unambiguous: "list_all unambiguous ENUMERATIONS"
  unfolding ENUMERATIONS_def list.pred_inject by (intro conjI) code_simp+

text \<open>No member is an alias of another, so a stored value reads back as the member it came from.\<close>

lemma enum_roundtrip:
  assumes "unambiguous e" "enum_value e m = Some v"
  shows "enum_of e v = Inr m"
proof -
  from assms(2) have mv: "(m, v) \<in> set e"
    by (auto simp: enum_value_def dest: map_of_SomeD)
  then obtain p where p: "List.find (\<lambda>q. snd q = v) e = Some p"
    by (cases "List.find (\<lambda>q. snd q = v) e") (auto simp: find_None_iff)
  then have "p \<in> set e" "snd p = v"
    by (auto simp: find_Some_iff)
  with mv assms(1) have "p = (m, v)"
    by (auto simp: unambiguous_def distinct_map inj_on_def)
  with p show ?thesis by (simp add: enum_of_def)
qed

lemma enum_of_sound: "unambiguous e \<Longrightarrow> enum_of e v = Inr m \<Longrightarrow> enum_value e m = Some v"
  by (auto simp: enum_of_def enum_value_def unambiguous_def find_Some_iff split: option.splits
      intro!: map_of_is_SomeI)

end
