(* ===== verification/SchemaScripts.thy ===== *)
theory SchemaScripts
  imports Schema
begin

text \<open>
  Scripts of statements. A script that only creates is described by the change it makes: new tables, new
  columns of tables that were there, new indexes. \<open>plan\<close> computes the change without a catalogue, together with what the
  catalogue must provide; \<open>plan_runs\<close> shows that the script then succeeds with exactly this change.
  \<open>undo_all\<close> computes what a second script leaves of a change; \<open>run_reverses\<close> shows that it restores every consistent
  catalogue when nothing is left.
\<close>

section \<open>Changes\<close>

datatype schema_change =
  Change (new_tables: "table_def list") (new_columns: "(string \<times> column) list") (new_indexes: "index_def list")

definition no_change :: schema_change where
  "no_change = Change [] [] []"

definition columns_for :: "schema_change \<Rightarrow> string \<Rightarrow> column list" where
  "columns_for a n = map snd (filter (\<lambda>p. fst p = n) (new_columns a))"

definition widen :: "schema_change \<Rightarrow> table_def \<Rightarrow> table_def" where
  "widen a t = Table (table_name t) (table_columns t @ columns_for a (table_name t)) (table_fks t) (table_pk t) (table_uniques t)"

definition extend :: "schema_change \<Rightarrow> catalogue \<Rightarrow> catalogue" where
  "extend a c = Catalogue (map (widen a) (cat_tables c) @ new_tables a) (cat_indexes c @ new_indexes a)"

definition find_new :: "schema_change \<Rightarrow> string \<Rightarrow> table_def option" where
  "find_new a n = find_named (new_tables a) n"

lemma widen_simps [simp]:
  "table_name (widen a t) = table_name t"
  "table_fks (widen a t) = table_fks t"
  "table_pk (widen a t) = table_pk t"
  "table_uniques (widen a t) = table_uniques t"
  "keys_of (widen a t) = keys_of t"
  "constraint_names (widen a t) = constraint_names t"
  "column_names (widen a t) = column_names t @ map col_name (columns_for a (table_name t))"
  by (simp_all add: widen_def keys_of_def constraint_names_def column_names_def)

lemma widen_no_columns: "columns_for a (table_name t) = [] \<Longrightarrow> widen a t = t"
  by (cases t) (simp add: widen_def)

lemma extend_no_change [simp]: "extend no_change c = c"
proof -
  have "map (widen no_change) ts = ts" for ts
    by (rule map_idI) (simp add: widen_no_columns columns_for_def no_change_def)
  then show ?thesis
    by (cases c) (simp add: extend_def no_change_def)
qed

lemma extend_simps [simp]:
  "cat_tables (extend a c) = map (widen a) (cat_tables c) @ new_tables a"
  "cat_indexes (extend a c) = cat_indexes c @ new_indexes a"
  "table_names (extend a c) = table_names c @ map table_name (new_tables a)"
  "index_names (extend a c) = index_names c @ map index_name (new_indexes a)"
  by (simp_all add: extend_def table_names_def index_names_def)

lemma find_extended_old:
  assumes "catalogue_ok c" "r \<in> set (cat_tables c)"
  shows "find_named (cat_tables (extend a c) @ us) (table_name r) = Some (widen a r)"
proof -
  have "distinct (map table_name (map (widen a) (cat_tables c)))"
    using assms(1) by (simp add: catalogue_ok_def table_names_def comp_def)
  from find_named_distinct [OF this, of "widen a r"] assms(2) show ?thesis
    by (simp add: find_named_append)
qed

section \<open>Scripts that create\<close>

fun record_change :: "ddl \<Rightarrow> schema_change \<Rightarrow> schema_change option" where
  "record_change (CreateTable t) a = Some (Change (new_tables a @ [t]) (new_columns a) (new_indexes a))"
| "record_change (CreateIndex i) a = Some (Change (new_tables a) (new_columns a) (new_indexes a @ [i]))"
| "record_change (AddColumn n x) a =
    (if find_new a n = None then Some (Change (new_tables a) (new_columns a @ [(n, x)]) (new_indexes a)) else None)"
| "record_change _ a = None"

fun record_all :: "ddl list \<Rightarrow> schema_change \<Rightarrow> schema_change option" where
  "record_all [] a = Some a"
| "record_all (s # ss) a = (case record_change s a of None \<Rightarrow> None | Some b \<Rightarrow> record_all ss b)"

definition change_ok :: "catalogue \<Rightarrow> schema_change \<Rightarrow> bool" where
  "change_ok c a \<longleftrightarrow>
    set (map table_name (new_tables a)) \<inter> set (table_names c) = {} \<and>
    set (map index_name (new_indexes a)) \<inter> set (index_names c) = {} \<and>
    (\<forall>(n, x)\<in>set (new_columns a). n \<in> set (table_names c) \<and>
       (\<forall>t\<in>set (cat_tables c). table_name t = n \<longrightarrow> col_name x \<notin> set (column_names t)))"

lemma change_ok_none: "change_ok c no_change"
  by (simp add: change_ok_def no_change_def)

lemma columns_for_cong: "new_columns a = new_columns b \<Longrightarrow> columns_for a = columns_for b"
  by (simp add: columns_for_def fun_eq_iff)

lemma widen_cong: "new_columns a = new_columns b \<Longrightarrow> widen a = widen b"
  using columns_for_cong [of a b] by (simp add: widen_def fun_eq_iff)

lemma add_column_widen:
  "add_column n x (widen (Change T A I) t) = widen (Change T' (A @ [(n, x)]) I') t"
  by (auto simp: widen_def add_column_def columns_for_def)

lemma add_column_other: "table_name t \<noteq> n \<Longrightarrow> add_column n x t = t"
  by (simp add: add_column_def)

lemma record_step:
  assumes "change_ok c a" "exec_ddl s (extend a c) = Inr d" "record_change s a = Some b" and ok: "catalogue_ok c"
  shows "d = extend b c \<and> change_ok c b"
proof (cases s)
  case (CreateTable t)
  with assms have b: "b = Change (new_tables a @ [t]) (new_columns a) (new_indexes a)"
    and d: "d = Catalogue (cat_tables (extend a c) @ [t]) (cat_indexes (extend a c))"
    and "table_name t \<notin> set (relation_names (extend a c))"
    by (auto simp del: extend_simps split: if_splits)
  then have "table_name t \<notin> set (table_names c)"
    by (simp add: relation_names_def)
  with assms(1) have "change_ok c b"
    by (auto simp: change_ok_def b)
  moreover have "d = extend b c"
    using widen_cong [of b a] by (simp add: d b) (simp add: extend_def)
  ultimately show ?thesis by blast
next
  case (CreateIndex i)
  with assms have b: "b = Change (new_tables a) (new_columns a) (new_indexes a @ [i])"
    and d: "d = Catalogue (cat_tables (extend a c)) (cat_indexes (extend a c) @ [i])"
    and "index_name i \<notin> set (relation_names (extend a c))"
    by (auto simp del: extend_simps split: if_splits option.splits)
  then have "index_name i \<notin> set (index_names c)"
    by (simp add: relation_names_def)
  with assms(1) have "change_ok c b"
    by (auto simp: change_ok_def b)
  moreover have "d = extend b c"
    using widen_cong [of b a] by (simp add: d b) (simp add: extend_def)
  ultimately show ?thesis by blast
next
  case (AddColumn n x)
  with assms(3) have new: "find_new a n = None"
    and b: "b = Change (new_tables a) (new_columns a @ [(n, x)]) (new_indexes a)"
    by (auto split: if_splits)
  from AddColumn assms(2) obtain t where
    t: "find_named (cat_tables (extend a c)) n = Some t" "col_name x \<notin> set (column_names t)"
    and d: "d = Catalogue (map (add_column n x) (cat_tables (extend a c))) (cat_indexes (extend a c))"
    by (auto simp del: extend_simps split: if_splits option.splits)
  have fresh: "n \<notin> table_name ` set (new_tables a)"
    using new by (simp add: find_new_def find_named_None)
  from find_named_Some [OF t(1)] fresh obtain r where
    r: "r \<in> set (cat_tables c)" "table_name r = n" "t = widen a r"
    by auto
  have "col_name x \<notin> set (column_names q)" if "q \<in> set (cat_tables c)" "table_name q = n" for q
    using table_column_unique [OF ok that(1) r(1)] that r t(2) by simp
  with r assms(1) have "change_ok c b"
    by (auto simp: change_ok_def b table_names_def)
  moreover have "map (add_column n x) (new_tables a) = new_tables a"
    using fresh by (intro map_idI add_column_other) auto
  then have "d = extend b c"
    by (cases a) (simp add: d b, simp add: extend_def add_column_widen)
  ultimately show ?thesis by blast
qed (use assms in auto)

lemma record_run:
  "change_ok c a \<Longrightarrow> catalogue_ok c \<Longrightarrow> run_ddl ss (extend a c) = Inr d \<Longrightarrow> record_all ss a = Some b \<Longrightarrow>
   d = extend b c \<and> change_ok c b"
proof (induction ss arbitrary: a)
  case (Cons s ss)
  then obtain e a' where e: "exec_ddl s (extend a c) = Inr e" "record_change s a = Some a'"
    and rest: "run_ddl ss e = Inr d" "record_all ss a' = Some b"
    by (cases "exec_ddl s (extend a c)") (auto split: option.splits)
  from record_step [OF Cons.prems(1) e Cons.prems(2)] Cons.IH [of a'] Cons.prems(2) rest show ?case by blast
qed auto

section \<open>Scripts that take back\<close>

fun undo :: "ddl \<Rightarrow> schema_change \<Rightarrow> schema_change option" where
  "undo (DropTable n) a =
    (if n \<in> set (map table_name (new_tables a)) \<and> \<not> list_ex (refers_to n) (new_tables a)
     then Some (Change (filter (\<lambda>t. table_name t \<noteq> n) (new_tables a)) (new_columns a)
            (filter (\<lambda>i. index_table i \<noteq> n) (new_indexes a)))
     else None)"
| "undo (DropIndex n _) a =
    (if n \<in> set (map index_name (new_indexes a))
     then Some (Change (new_tables a) (new_columns a) (filter (\<lambda>i. index_name i \<noteq> n) (new_indexes a)))
     else None)"
| "undo (DropColumn n x) a =
    (if x \<in> set (map col_name (columns_for a n)) \<and> find_new a n = None \<and>
        \<not> list_ex (refers_to_column n x) (new_tables a)
     then Some (Change (new_tables a) (filter (\<lambda>p. \<not> (fst p = n \<and> col_name (snd p) = x)) (new_columns a))
            (filter (\<lambda>i. \<not> (index_table i = n \<and> x \<in> set (index_columns i))) (new_indexes a)))
     else None)"
| "undo _ a = None"

fun undo_all :: "ddl list \<Rightarrow> schema_change \<Rightarrow> schema_change option" where
  "undo_all [] a = Some a"
| "undo_all (s # ss) a = (case undo s a of None \<Rightarrow> None | Some b \<Rightarrow> undo_all ss b)"

definition reverses :: "ddl list \<Rightarrow> ddl list \<Rightarrow> bool" where
  "reverses ups downs =
    (case record_all ups no_change of
       None \<Rightarrow> False
     | Some a \<Rightarrow> undo_all downs a = Some no_change)"

lemma filter_all: "(\<And>x. x \<in> set xs \<Longrightarrow> P x) \<Longrightarrow> filter P xs = xs"
  by (simp add: filter_id_conv)

lemma undo_drop_table:
  assumes cok: "change_ok c a" and ok: "catalogue_ok c" and u: "undo (DropTable n) a = Some b"
  shows "exec_ddl (DropTable n) (extend a c) = Inr (extend b c)"
proof -
  from u have b: "b = Change (filter (\<lambda>t. table_name t \<noteq> n) (new_tables a)) (new_columns a)
      (filter (\<lambda>i. index_table i \<noteq> n) (new_indexes a))"
    and n: "n \<in> table_name ` set (new_tables a)" and new: "\<forall>t\<in>set (new_tables a). \<not> refers_to n t"
    by (auto simp: list_ex_iff split: if_splits)
  from n cok have fresh: "n \<notin> table_name ` set (cat_tables c)"
    by (auto simp: change_ok_def table_names_def)
  have old: "\<not> refers_to n (widen a t)" if "t \<in> set (cat_tables c)" for t
    using catalogue_okD(2) [OF ok that] fresh by (force simp: refers_to_def list_ex_iff)
  have "filter (\<lambda>t. table_name t \<noteq> n) (map (widen a) (cat_tables c)) = map (widen b) (cat_tables c)"
    using fresh widen_cong [of a b] by (subst filter_all) (auto simp: b)
  moreover have "filter (\<lambda>i. index_table i \<noteq> n) (cat_indexes c) = cat_indexes c"
    using catalogue_ok_index [OF ok] fresh by (intro filter_all) force
  ultimately show ?thesis
    using n new old by (simp add: list_ex_iff extend_def [of b] table_names_def) (auto simp: b)
qed

lemma undo_drop_index:
  assumes cok: "change_ok c a" and u: "undo (DropIndex n m) a = Some b"
  shows "exec_ddl (DropIndex n m) (extend a c) = Inr (extend b c)"
proof -
  from u have b: "b = Change (new_tables a) (new_columns a) (filter (\<lambda>i. index_name i \<noteq> n) (new_indexes a))"
    and n: "n \<in> index_name ` set (new_indexes a)"
    by (auto split: if_splits)
  with cok have "n \<notin> index_name ` set (cat_indexes c)"
    by (auto simp: change_ok_def index_names_def)
  then have "filter (\<lambda>i. index_name i \<noteq> n) (cat_indexes c) = cat_indexes c"
    by (intro filter_all) auto
  with n widen_cong [of a b] show ?thesis
    by (simp add: extend_def [of b]) (auto simp: b)
qed

lemma drop_column_widen:
  assumes kd: "keys_defined t" and fresh: "table_name t = n \<Longrightarrow> x \<notin> set (column_names t)"
    and fk: "\<And>f. f \<in> set (table_fks t) \<Longrightarrow> fk_table f = n \<Longrightarrow> x \<notin> set (fk_target f)"
    and b: "new_columns b = filter (\<lambda>p. \<not> (fst p = n \<and> col_name (snd p) = x)) (new_columns a)"
  shows "drop_column n x (widen a t) = widen b t"
proof (cases "table_name t = n")
  case True
  have keep: "filter (\<lambda>c. col_name c \<noteq> x) (table_columns t) = table_columns t"
    using fresh True by (intro filter_all) (auto simp: column_names_def)
  have cols: "filter (\<lambda>c. col_name c \<noteq> x) (columns_for a n) = columns_for b n"
    by (auto simp: columns_for_def b filter_map comp_def intro!: arg_cong [where f = "map snd"] filter_cong)
  have "x \<notin> set k" if "k \<in> set (keys_of t)" for k
    using kd fresh True that by (auto simp: keys_defined_iff)
  then have "x \<notin> set (table_pk t)" "filter (\<lambda>q. x \<notin> set (snd q)) (table_uniques t) = table_uniques t"
    by (auto simp: keys_of_def intro!: filter_all)
  moreover have "filter (\<lambda>f. \<not> (x \<in> set (fk_columns f) \<or> fk_table f = n \<and> x \<in> set (fk_target f))) (table_fks t) = table_fks t"
    using kd fresh True fk by (intro filter_all) (auto simp: keys_defined_iff)
  ultimately show ?thesis
    using True keep cols by (simp add: drop_column_def widen_def)
next
  case False
  then have "columns_for a (table_name t) = columns_for b (table_name t)"
    by (auto simp: columns_for_def b intro!: arg_cong [where f = "map snd"] filter_cong)
  with False show ?thesis by (simp add: drop_column_def widen_def)
qed

lemma undo_drop_column:
  assumes cok: "change_ok c a" and ok: "catalogue_ok c" and u: "undo (DropColumn n x) a = Some b"
  shows "exec_ddl (DropColumn n x) (extend a c) = Inr (extend b c)"
proof -
  from u have b: "b = Change (new_tables a) (filter (\<lambda>p. \<not> (fst p = n \<and> col_name (snd p) = x)) (new_columns a))
      (filter (\<lambda>i. \<not> (index_table i = n \<and> x \<in> set (index_columns i))) (new_indexes a))"
    and x: "x \<in> set (map col_name (columns_for a n))" and new: "n \<notin> table_name ` set (new_tables a)"
    and free: "\<forall>t\<in>set (new_tables a). \<not> refers_to_column n x t"
    by (auto simp: find_new_def find_named_None list_ex_iff split: if_splits)
  from x obtain y where "(n, y) \<in> set (new_columns a)" "col_name y = x"
    by (auto simp: columns_for_def)
  with cok have n: "n \<in> set (table_names c)"
    and fresh: "\<And>t. t \<in> set (cat_tables c) \<Longrightarrow> table_name t = n \<Longrightarrow> x \<notin> set (column_names t)"
    by (auto simp: change_ok_def)
  from n obtain q where "q \<in> set (cat_tables c)" "table_name q = n"
    by (auto simp: table_names_def)
  with find_extended_old [OF ok, of q a "[]"] obtain t where t: "find_named (cat_tables (extend a c)) n = Some t"
    by simp
  from find_named_Some [OF t] new obtain r where "r \<in> set (cat_tables c)" "table_name r = n" "t = widen a r"
    by auto
  with x have xt: "x \<in> set (column_names t)" by simp
  have target: "x \<notin> set (fk_target f)" if "s \<in> set (cat_tables c)" "f \<in> set (table_fks s)" "fk_table f = n" for s f
    using catalogue_okD(2) [OF ok that(1,2)] fresh that(3) by fastforce
  then have none: "\<not> list_ex (refers_to_column n x) (cat_tables (extend a c))"
    using free by (auto simp: list_ex_iff refers_to_column_def)
  have "map (drop_column n x) (map (widen a) (cat_tables c)) = map (widen b) (cat_tables c)"
  proof -
    have "drop_column n x (widen a s) = widen b s" if "s \<in> set (cat_tables c)" for s
      using that by (intro drop_column_widen) (auto simp: b fresh target catalogue_okD(1) [OF ok])
    then show ?thesis by simp
  qed
  moreover have "map (drop_column n x) (new_tables a) = new_tables a"
    using new by (intro map_idI) (auto simp: drop_column_def)
  moreover have "filter (\<lambda>i. \<not> (index_table i = n \<and> x \<in> set (index_columns i))) (cat_indexes c) = cat_indexes c"
    using catalogue_ok_index [OF ok] fresh by (intro filter_all) fastforce
  ultimately have "extend b c = Catalogue (map (drop_column n x) (cat_tables (extend a c)))
      (filter (\<lambda>i. \<not> (index_table i = n \<and> x \<in> set (index_columns i))) (cat_indexes (extend a c)))"
    unfolding extend_def [of b] extend_simps map_append filter_append by (simp only:) (simp add: b)
  with t xt none show ?thesis by simp
qed

lemma change_ok_tables: "change_ok c a \<Longrightarrow> table_name ` set (new_tables a) \<inter> set (table_names c) = {}"
  by (simp add: change_ok_def)

lemma change_ok_indexes: "change_ok c a \<Longrightarrow> index_name ` set (new_indexes a) \<inter> set (index_names c) = {}"
  by (simp add: change_ok_def)

lemma change_ok_mono:
  assumes ok: "change_ok c a" and sub: "set (new_tables b) \<subseteq> set (new_tables a)"
    "set (new_columns b) \<subseteq> set (new_columns a)" "set (new_indexes b) \<subseteq> set (new_indexes a)"
  shows "change_ok c b"
  unfolding change_ok_def set_map
proof (intro conjI ballI)
  show "table_name ` set (new_tables b) \<inter> set (table_names c) = {}"
    using change_ok_tables [OF ok] image_mono [OF sub(1), of table_name] by blast
  show "index_name ` set (new_indexes b) \<inter> set (index_names c) = {}"
    using change_ok_indexes [OF ok] image_mono [OF sub(3), of index_name] by blast
next
  fix p assume "p \<in> set (new_columns b)"
  with sub(2) have "p \<in> set (new_columns a)" by blast
  with ok show "case p of (n, x) \<Rightarrow> n \<in> set (table_names c) \<and>
      (\<forall>t\<in>set (cat_tables c). table_name t = n \<longrightarrow> col_name x \<notin> set (column_names t))"
    unfolding change_ok_def by (elim conjE) (rule bspec)
qed

lemma undo_change_ok:
  assumes "change_ok c a" "undo s a = Some b"
  shows "change_ok c b"
  by (rule change_ok_mono [OF assms(1)]; use assms(2) in \<open>cases s\<close>) (auto split: if_splits)

lemma undo_step:
  "change_ok c a \<Longrightarrow> catalogue_ok c \<Longrightarrow> undo s a = Some b \<Longrightarrow> exec_ddl s (extend a c) = Inr (extend b c)"
  by (cases s) (simp_all add: undo_drop_table undo_drop_index undo_drop_column del: exec_ddl.simps undo.simps(1-3))

lemma undo_run:
  "change_ok c a \<Longrightarrow> catalogue_ok c \<Longrightarrow> undo_all ss a = Some b \<Longrightarrow> run_ddl ss (extend a c) = Inr (extend b c)"
  by (induction ss arbitrary: a) (auto simp: undo_step undo_change_ok split: option.splits)

theorem run_reverses:
  assumes "reverses ups downs" "catalogue_ok c" "run_ddl ups c = Inr d"
  shows "run_ddl downs d = Inr c"
proof -
  from assms(1) obtain a where a: "record_all ups no_change = Some a" "undo_all downs a = Some no_change"
    by (auto simp: reverses_def split: option.splits)
  from assms(3) have "run_ddl ups (extend no_change c) = Inr d" by simp
  from record_run [OF change_ok_none assms(2) this a(1)] undo_run [OF _ assms(2) a(2)] show ?thesis by simp
qed

section \<open>What a script needs\<close>

datatype schema_need =
    NeedKey string "string list" "sql_type option list"
  | NeedColumns string "string list"
  | NeedSpace string string

fun has :: "table_def \<Rightarrow> schema_need \<Rightarrow> bool" where
  "has t (NeedKey n k ts) = (table_name t = n \<and> k \<in> set (keys_of t) \<and> map (type_in t) k = ts)"
| "has t (NeedColumns n cs) = (table_name t = n \<and> cols_in cs t)"
| "has t (NeedSpace n x) = (table_name t = n \<and> x \<notin> set (column_names t))"

definition met :: "catalogue \<Rightarrow> schema_need \<Rightarrow> bool" where
  "met c nd = list_ex (\<lambda>t. has t nd) (cat_tables c)"

fun introduces :: "ddl \<Rightarrow> string list" where
  "introduces (CreateTable t) = table_name t # constraint_names t"
| "introduces (CreateIndex i) = [index_name i]"
| "introduces _ = []"

definition introduced :: "ddl list \<Rightarrow> string list" where
  "introduced ss = concat (map introduces ss)"

definition fk_need :: "schema_change \<Rightarrow> table_def \<Rightarrow> foreign_key \<Rightarrow> schema_need list" where
  "fk_need a t f =
    (if find_named (new_tables a @ [t]) (fk_table f) = None
     then [NeedKey (fk_table f) (fk_target f) (map (type_in t) (fk_columns f))] else [])"

fun needs :: "ddl \<Rightarrow> schema_change \<Rightarrow> schema_need list" where
  "needs (CreateTable t) a = concat (map (fk_need a t) (table_fks t))"
| "needs (CreateIndex i) a =
    (if find_new a (index_table i) = None
     then [NeedColumns (index_table i)
            (filter (\<lambda>x. x \<notin> set (map col_name (columns_for a (index_table i)))) (index_columns i))]
     else [])"
| "needs (AddColumn n x) a = [NeedSpace n (col_name x)]"
| "needs _ a = []"

fun sound_stmt :: "ddl \<Rightarrow> schema_change \<Rightarrow> bool" where
  "sound_stmt (CreateTable t) a =
    (distinct (column_names t) \<and> keys_defined t \<and>
     list_all (\<lambda>f. find_named (new_tables a @ [t]) (fk_table f) = None \<or> fk_matches (new_tables a @ [t]) t f) (table_fks t))"
| "sound_stmt (CreateIndex i) a =
    (case find_new a (index_table i) of None \<Rightarrow> True | Some t \<Rightarrow> cols_in (index_columns i) t)"
| "sound_stmt (AddColumn n x) a =
    (find_new a n = None \<and> col_name x \<notin> set (map col_name (columns_for a n)) \<and> (col_nullable x \<or> col_default x \<noteq> None))"
| "sound_stmt _ a = False"

fun plan :: "ddl list \<Rightarrow> schema_change \<Rightarrow> (schema_change \<times> schema_need list) option" where
  "plan [] a = Some (a, [])"
| "plan (s # ss) a =
    (if sound_stmt s a
     then case record_change s a of
       None \<Rightarrow> None
     | Some b \<Rightarrow> map_option (\<lambda>(d, ns). (d, needs s a @ ns)) (plan ss b)
     else None)"

lemma relation_names_extend:
  "set (relation_names (extend a c)) =
   set (relation_names c) \<union> (\<Union>t\<in>set (new_tables a). set (table_name t # constraint_names t)) \<union>
   set (map index_name (new_indexes a))"
  by (auto simp: relation_names_def)

lemma type_in_widen: "x \<in> set (column_names t) \<Longrightarrow> type_in (widen a t) x = type_in t x"
proof -
  assume x: "x \<in> set (column_names t)"
  have "List.find P (cs @ ds) = List.find P cs" if "\<exists>c\<in>set cs. P c" for P and cs ds :: "column list"
    using that by (induction cs) auto
  moreover from x have "\<exists>c\<in>set (table_columns t). col_name c = x"
    by (auto simp: column_names_def)
  ultimately show ?thesis by (simp add: type_in_def widen_def)
qed

lemma find_extended_new:
  assumes "n \<notin> set (table_names c)"
  shows "find_named (cat_tables (extend a c) @ us) n = find_named (new_tables a @ us) n"
proof -
  have "find_named (map (widen a) (cat_tables c)) n = None"
    using assms by (auto simp: find_named_None table_names_def)
  then show ?thesis by (simp add: find_named_append)
qed

lemma fk_met:
  assumes ok: "catalogue_ok c" and met: "met c (NeedKey (fk_table f) (fk_target f) (map (type_in t) (fk_columns f)))"
  shows "fk_matches (cat_tables (extend a c) @ us) t f"
proof -
  from met obtain r where r: "r \<in> set (cat_tables c)" "table_name r = fk_table f" "fk_target f \<in> set (keys_of r)"
    "map (type_in r) (fk_target f) = map (type_in t) (fk_columns f)"
    by (auto simp: met_def list_ex_iff)
  from catalogue_okD(1) [OF ok r(1)] r(3) have "set (fk_target f) \<subseteq> set (column_names r)"
    by (simp add: keys_defined_iff)
  then have "map (type_in (widen a r)) (fk_target f) = map (type_in t) (fk_columns f)"
    unfolding r(4) [symmetric] by (intro map_cong refl type_in_widen) auto
  with find_extended_old [OF ok r(1), of a us] r(2,3) show ?thesis
    by (simp add: fk_matches_def)
qed

lemma fk_here:
  assumes cok: "change_ok c a" and fresh: "table_name t \<notin> set (table_names c)"
    and f: "find_named (new_tables a @ [t]) (fk_table f) \<noteq> None" "fk_matches (new_tables a @ [t]) t f"
  shows "fk_matches (cat_tables (extend a c) @ [t]) t f"
proof -
  from f(1) have "fk_table f \<in> table_name ` set (new_tables a @ [t])"
    by (metis find_named_None)
  then have "fk_table f \<notin> set (table_names c)"
    using cok fresh by (auto simp: change_ok_def)
  from find_extended_new [OF this] f(2) show ?thesis by (simp add: fk_matches_def)
qed

lemma plan_step:
  assumes s: "sound_stmt s a" "record_change s a = Some b" "list_all (met c) (needs s a)"
    and new: "distinct (introduces s)" "set (introduces s) \<inter> set (relation_names (extend a c)) = {}"
    and cok: "change_ok c a" and ok: "catalogue_ok c"
  shows "exec_ddl s (extend a c) = Inr (extend b c)"
proof (cases s)
  case (CreateTable t)
  from CreateTable new have fresh: "table_name t \<notin> set (table_names c)"
    by (auto simp: relation_names_def)
  have "fk_matches (cat_tables (extend a c) @ [t]) t f" if f: "f \<in> set (table_fks t)" for f
  proof (cases "find_named (new_tables a @ [t]) (fk_table f) = None")
    case True
    with CreateTable s(3) f show ?thesis
      by (intro fk_met ok) (auto simp: list_all_iff fk_need_def)
  next
    case False
    with CreateTable s(1) f show ?thesis
      by (intro fk_here cok fresh) (auto simp: list_all_iff)
  qed
  then have "exec_ddl s (extend a c) = Inr (Catalogue (cat_tables (extend a c) @ [t]) (cat_indexes (extend a c)))"
    using CreateTable s(1) new by (auto simp: list_all_iff list_ex_iff simp del: extend_simps)
  with record_step [OF cok this s(2) ok] show ?thesis by simp
next
  case (CreateIndex i)
  have "\<exists>t. find_named (cat_tables (extend a c)) (index_table i) = Some t \<and> cols_in (index_columns i) t"
  proof (cases "find_new a (index_table i)")
    case None
    with CreateIndex s(3) obtain r where r: "r \<in> set (cat_tables c)" "table_name r = index_table i"
      "set (filter (\<lambda>x. x \<notin> set (map col_name (columns_for a (index_table i)))) (index_columns i)) \<subseteq> set (column_names r)"
      by (auto simp: met_def list_ex_iff cols_in_iff)
    with find_extended_old [OF ok r(1), of a "[]"] show ?thesis
      by (auto simp: cols_in_iff)
  next
    case (Some t)
    from find_named_Some [OF Some [unfolded find_new_def]] cok have "index_table i \<notin> set (table_names c)"
      by (auto simp: change_ok_def)
    from find_extended_new [OF this, of a "[]"] Some CreateIndex s(1) show ?thesis
      by (simp add: find_new_def)
  qed
  then have "exec_ddl s (extend a c) = Inr (Catalogue (cat_tables (extend a c)) (cat_indexes (extend a c) @ [i]))"
    using CreateIndex new by (auto simp del: extend_simps)
  with record_step [OF cok this s(2) ok] show ?thesis by simp
next
  case (AddColumn n x)
  with s(3) obtain r where r: "r \<in> set (cat_tables c)" "table_name r = n" "col_name x \<notin> set (column_names r)"
    by (auto simp: met_def list_ex_iff)
  from find_extended_old [OF ok r(1), of a "[]"] r(2)
  have "find_named (cat_tables (extend a c)) n = Some (widen a r)" by simp
  then have "exec_ddl s (extend a c) = Inr (Catalogue (map (add_column n x) (cat_tables (extend a c))) (cat_indexes (extend a c)))"
    using AddColumn s(1) r(2,3) by (auto simp del: extend_simps)
  with record_step [OF cok this s(2) ok] show ?thesis by simp
qed (use s in auto)

lemma introduced_recorded:
  assumes "record_change s a = Some b"
  shows "set (relation_names (extend b c)) \<subseteq> set (relation_names (extend a c)) \<union> set (introduces s)"
  using assms unfolding relation_names_extend by (cases s) (auto split: if_splits)

theorem plan_runs:
  assumes "plan ss a = Some (b, ns)" "list_all (met c) ns" "distinct (introduced ss)"
    and "set (introduced ss) \<inter> set (relation_names (extend a c)) = {}" "change_ok c a" "catalogue_ok c"
  shows "run_ddl ss (extend a c) = Inr (extend b c) \<and> record_all ss a = Some b"
  using assms
proof (induction ss arbitrary: a ns)
  case (Cons s ss)
  then obtain a' ms where s: "sound_stmt s a" "record_change s a = Some a'" "plan ss a' = Some (b, ms)" "ns = needs s a @ ms"
    by (auto split: if_splits option.splits)
  have step: "exec_ddl s (extend a c) = Inr (extend a' c)"
    using Cons.prems s by (intro plan_step) (auto simp: introduced_def)
  have "change_ok c a'"
    using record_step [OF Cons.prems(5) step s(2) Cons.prems(6)] by simp
  moreover have "set (introduced ss) \<inter> set (relation_names (extend a' c)) = {}"
    using Cons.prems(3,4) introduced_recorded [OF s(2), of c] by (auto simp: introduced_def)
  ultimately show ?case
    using Cons.IH [OF s(3)] Cons.prems s step by (auto simp: introduced_def)
qed (auto simp: introduced_def)

section \<open>What a script makes\<close>

definition created_tables :: "ddl list \<Rightarrow> table_def list" where
  "created_tables ss = concat (map (\<lambda>s. case s of CreateTable t \<Rightarrow> [t] | _ \<Rightarrow> []) ss)"

definition added_columns :: "ddl list \<Rightarrow> (string \<times> column) list" where
  "added_columns ss = concat (map (\<lambda>s. case s of AddColumn n x \<Rightarrow> [(n, x)] | _ \<Rightarrow> []) ss)"

definition created_indexes :: "ddl list \<Rightarrow> index_def list" where
  "created_indexes ss = concat (map (\<lambda>s. case s of CreateIndex i \<Rightarrow> [i] | _ \<Rightarrow> []) ss)"

definition change_of :: "ddl list \<Rightarrow> schema_change" where
  "change_of ss = Change (created_tables ss) (added_columns ss) (created_indexes ss)"

lemma record_all_change:
  "record_all ss a = Some b \<Longrightarrow>
   b = Change (new_tables a @ created_tables ss) (new_columns a @ added_columns ss) (new_indexes a @ created_indexes ss)"
proof (induction ss arbitrary: a)
  case Nil
  then show ?case by (simp add: created_tables_def added_columns_def created_indexes_def)
next
  case (Cons s ss)
  then obtain a' where a': "record_change s a = Some a'" "record_all ss a' = Some b"
    by (auto split: option.splits)
  from Cons.IH [OF a'(2)] a'(1) show ?case
    by (cases s) (auto simp: created_tables_def added_columns_def created_indexes_def split: if_splits)
qed

lemma record_all_none: "record_all ss no_change = Some b \<Longrightarrow> b = change_of ss"
  by (drule record_all_change) (simp add: no_change_def change_of_def)

section \<open>Contracts of scripts\<close>

text \<open>
  A contract is a script with what it requires of the catalogue and what it offers to the scripts after it. Its
  obligations are decided by computing on the script alone; the contracts of a chain of scripts fit together when
  every requirement was offered before, and then the whole chain runs (\<open>contracts_run\<close>).
\<close>

datatype contract = Contract (script: "ddl list") (requires: "schema_need list") (offers: "schema_need list")

definition planned :: "ddl list \<Rightarrow> schema_need list \<Rightarrow> bool" where
  "planned ss ns = (case plan ss no_change of None \<Rightarrow> False | Some (_, ms) \<Rightarrow> list_all (\<lambda>m. m \<in> set ns) ms)"

definition supplies :: "ddl list \<Rightarrow> schema_need \<Rightarrow> bool" where
  "supplies ss nd = list_ex (\<lambda>t. has t nd) (created_tables ss)"

definition contract_ok :: "contract \<Rightarrow> bool" where
  "contract_ok x = (planned (script x) (requires x) \<and> list_all (supplies (script x)) (offers x))"

fun lasting :: "schema_need \<Rightarrow> bool" where
  "lasting (NeedSpace _ _) = False"
| "lasting _ = True"

fun fitted :: "schema_need list \<Rightarrow> contract list \<Rightarrow> bool" where
  "fitted known [] = True"
| "fitted known (x # xs) =
    (list_all (\<lambda>nd. nd \<in> set known) (requires x) \<and>
     fitted ((if added_columns (script x) = [] then known else filter lasting known) @ offers x) xs)"

definition chain_result :: "ddl list list \<Rightarrow> catalogue \<Rightarrow> catalogue" where
  "chain_result sss c = fold (\<lambda>ss c. extend (change_of ss) c) sss c"

lemma has_widen:
  assumes "keys_defined t" "has t nd" "lasting nd \<or> new_columns a = []"
  shows "has (widen a t) nd"
proof (cases nd)
  case (NeedKey n k ts)
  with assms have "set k \<subseteq> set (column_names t)" by (simp add: keys_defined_iff)
  then have "map (type_in (widen a t)) k = map (type_in t) k"
    by (intro map_cong refl type_in_widen) auto
  with NeedKey assms(2) show ?thesis by simp
next
  case (NeedSpace n x)
  with assms(3) have "widen a t = t" by (simp add: widen_no_columns columns_for_def)
  with assms(2) show ?thesis by simp
qed (use assms in \<open>auto simp: cols_in_iff\<close>)

lemma met_extend:
  assumes "catalogue_ok c" "met c nd" "lasting nd \<or> new_columns a = []"
  shows "met (extend a c) nd"
  using assms has_widen [OF catalogue_okD(1) [OF assms(1)] _ assms(3)]
  by (auto simp: met_def list_ex_iff)

lemma met_supplied: "supplies ss nd \<Longrightarrow> met (extend (change_of ss) c) nd"
  by (auto simp: supplies_def met_def list_ex_iff change_of_def)

lemma script_step:
  assumes "planned ss ns" "catalogue_ok c" "\<forall>nd\<in>set ns. met c nd"
    and "distinct (introduced ss)" "set (introduced ss) \<inter> set (relation_names c) = {}"
  shows "run_ddl ss c = Inr (extend (change_of ss) c)"
proof -
  from assms(1) obtain b ms where p: "plan ss no_change = Some (b, ms)" "set ms \<subseteq> set ns"
    by (auto simp: planned_def list_all_iff split: option.splits)
  with assms(3) have "list_all (met c) ms" by (auto simp: list_all_iff)
  from plan_runs [OF p(1) this assms(4) _ change_ok_none assms(2)] assms(5) show ?thesis
    using record_all_none by auto
qed

lemma relation_names_chain:
  assumes "run_ddl ss c = Inr (extend (change_of ss) c)"
  shows "set (relation_names (extend (change_of ss) c)) \<subseteq> set (relation_names c) \<union> set (introduced ss)"
  unfolding relation_names_extend
  by (auto simp: change_of_def created_tables_def created_indexes_def introduced_def split: ddl.splits)

theorem contracts_run:
  assumes "list_all contract_ok xs" "fitted known xs" "\<forall>nd\<in>set known. met c nd" "catalogue_ok c"
    and "distinct (concat (map (introduced \<circ> script) xs))"
    and "set (concat (map (introduced \<circ> script) xs)) \<inter> set (relation_names c) = {}"
  shows "run_ddl (concat (map script xs)) c = Inr (chain_result (map script xs) c)"
  using assms
proof (induction xs arbitrary: c known)
  case Nil
  then show ?case by (simp add: chain_result_def)
next
  case (Cons x xs)
  define e where "e = extend (change_of (script x)) c"
  from Cons.prems have step: "run_ddl (script x) c = Inr e"
    unfolding e_def by (intro script_step [of _ "requires x"]) (auto simp: contract_ok_def list_all_iff)
  have ok: "catalogue_ok e"
    by (rule run_ok [OF Cons.prems(4) step])
  have "met e nd" if "nd \<in> set ((if added_columns (script x) = [] then known else filter lasting known) @ offers x)" for nd
  proof (cases "nd \<in> set (offers x)")
    case True
    with Cons.prems(1) show ?thesis
      unfolding e_def by (intro met_supplied) (auto simp: contract_ok_def list_all_iff)
  next
    case False
    with that Cons.prems(3,4) show ?thesis
      unfolding e_def by (intro met_extend) (auto simp: change_of_def split: if_splits)
  qed
  moreover have "set (concat (map (introduced \<circ> script) xs)) \<inter> set (relation_names e) = {}"
    using Cons.prems(5,6) relation_names_chain [of "script x" c] step unfolding e_def by auto
  ultimately have "run_ddl (concat (map script xs)) e = Inr (chain_result (map script xs) e)"
    using Cons.prems ok by (intro Cons.IH) auto
  with step show ?case
    by (simp add: run_ddl_append chain_result_def e_def)
qed

end
