(* ===== verification/Migrations.thy ===== *)
theory Migrations
  imports SchemaScripts
begin

text \<open>
  \<^verbatim>\<open>alembic/versions\<close>: the ten migrations, statement by statement, and \<^verbatim>\<open>alembic/env.py\<close>, which runs them in one
  transaction. A table stands in its own definition; the columns that SQLAlchemy calls \<^verbatim>\<open>String(length=n)\<close>,
  \<^verbatim>\<open>postgresql.UUID(as_uuid=True)\<close>, \<^verbatim>\<open>sa.DateTime(timezone=True)\<close> and so on are the constructors of \<open>sql_type\<close>;
  \<^verbatim>\<open>sa.text(..)\<close> is an \<open>Expression\<close>, any other server default a \<open>Literal\<close>. \<^verbatim>\<open>op.f\<close> marks a name as final and
  is left out. Alembic's order, which follows \<^verbatim>\<open>down_revision\<close>, is \<open>successors\<close>.
\<close>

datatype revision =
  Revision (revision_id: string) (down_revision: "string option") (upgrade_ddl: "ddl list") (downgrade_ddl: "ddl list")

section \<open>\<^verbatim>\<open>001_initial_enterprise\<close>\<close>

definition tenants_table :: table_def where
  "tenants_table = Table ''tenants''
    [Column ''id'' SqlUuid False None,
     Column ''company_name'' (SqlString (Some 255)) False None,
     Column ''industry'' (SqlString (Some 128)) True None,
     Column ''slug'' (SqlString (Some 128)) False None,
     Column ''contact_email'' (SqlString (Some 320)) False None,
     Column ''timezone'' (SqlString (Some 64)) False (Some (Literal ''UTC'')),
     Column ''languages'' (SqlArray (SqlString (Some 16))) False (Some (Literal ''{}'')),
     Column ''subscription_plan'' (SqlString (Some 32)) False (Some (Literal ''free'')),
     Column ''status'' (SqlString (Some 32)) False (Some (Literal ''active'')),
     Column ''metadata'' SqlJsonb True None,
     Column ''created_at'' (SqlTimestamp True) False (Some (Expression ''now()'')),
     Column ''updated_at'' (SqlTimestamp True) False (Some (Expression ''now()''))]
    []
    [''id'']
    [(None, [''slug''])]"

definition agents_table :: table_def where
  "agents_table = Table ''agents''
    [Column ''id'' SqlUuid False None,
     Column ''tenant_id'' SqlUuid False None,
     Column ''name'' (SqlString (Some 255)) False None,
     Column ''description'' SqlText True None,
     Column ''system_prompt'' SqlText False None,
     Column ''voice'' (SqlString (Some 64)) False (Some (Literal ''default'')),
     Column ''language'' (SqlString (Some 16)) False (Some (Literal ''en-US'')),
     Column ''temperature'' SqlFloat False (Some (Literal ''0.7'')),
     Column ''max_reasoning_steps'' SqlInteger False (Some (Literal ''5'')),
     Column ''planner_model'' (SqlString (Some 128)) False (Some (Literal ''default'')),
     Column ''verifier_model'' (SqlString (Some 128)) False (Some (Literal ''default'')),
     Column ''status'' (SqlString (Some 32)) False (Some (Literal ''draft'')),
     Column ''created_at'' (SqlTimestamp True) False (Some (Expression ''now()'')),
     Column ''updated_at'' (SqlTimestamp True) False (Some (Expression ''now()''))]
    [ForeignKey [''tenant_id''] ''tenants'' [''id''] (Some Cascade)]
    [''id'']
    []"

definition agent_configurations_table :: table_def where
  "agent_configurations_table = Table ''agent_configurations''
    [Column ''id'' SqlUuid False None,
     Column ''tenant_id'' SqlUuid False None,
     Column ''agent_id'' SqlUuid False None,
     Column ''identity_verification_enabled'' SqlBoolean False (Some (Literal ''false'')),
     Column ''escalation_rules'' SqlJsonb True None,
     Column ''fallback_message'' SqlText True None,
     Column ''allowed_tool_ids'' SqlJsonb True None,
     Column ''working_hours'' SqlJsonb True None,
     Column ''response_tone'' (SqlString (Some 64)) True None,
     Column ''max_conversation_length'' SqlInteger True None,
     Column ''extra_settings'' SqlJsonb True None,
     Column ''created_at'' (SqlTimestamp True) False (Some (Expression ''now()'')),
     Column ''updated_at'' (SqlTimestamp True) False (Some (Expression ''now()''))]
    [ForeignKey [''agent_id''] ''agents'' [''id''] (Some Cascade),
     ForeignKey [''tenant_id''] ''tenants'' [''id''] (Some Cascade)]
    [''id'']
    [(Some ''uq_agent_configurations_agent_id'', [''agent_id''])]"

definition knowledge_bases_table :: table_def where
  "knowledge_bases_table = Table ''knowledge_bases''
    [Column ''id'' SqlUuid False None,
     Column ''tenant_id'' SqlUuid False None,
     Column ''name'' (SqlString (Some 255)) False None,
     Column ''description'' SqlText True None,
     Column ''status'' (SqlString (Some 32)) False (Some (Literal ''processing'')),
     Column ''embedding_model'' (SqlString (Some 128)) True None,
     Column ''settings'' SqlJsonb True None,
     Column ''created_at'' (SqlTimestamp True) False (Some (Expression ''now()'')),
     Column ''updated_at'' (SqlTimestamp True) False (Some (Expression ''now()''))]
    [ForeignKey [''tenant_id''] ''tenants'' [''id''] (Some Cascade)]
    [''id'']
    []"

definition tools_table :: table_def where
  "tools_table = Table ''tools''
    [Column ''id'' SqlUuid False None,
     Column ''tenant_id'' SqlUuid False None,
     Column ''name'' (SqlString (Some 255)) False None,
     Column ''slug'' (SqlString (Some 128)) False None,
     Column ''description'' SqlText True None,
     Column ''handler_type'' (SqlString (Some 32)) False (Some (Literal ''builtin'')),
     Column ''input_schema'' SqlJsonb True None,
     Column ''handler_config'' SqlJsonb True None,
     Column ''status'' (SqlString (Some 32)) False (Some (Literal ''active'')),
     Column ''version'' (SqlString (Some 32)) False (Some (Literal ''1.0.0'')),
     Column ''created_at'' (SqlTimestamp True) False (Some (Expression ''now()'')),
     Column ''updated_at'' (SqlTimestamp True) False (Some (Expression ''now()''))]
    [ForeignKey [''tenant_id''] ''tenants'' [''id''] (Some Cascade)]
    [''id'']
    [(Some ''uq_tools_tenant_slug'', [''tenant_id'', ''slug''])]"

definition audit_logs_table :: table_def where
  "audit_logs_table = Table ''audit_logs''
    [Column ''id'' SqlUuid False None,
     Column ''tenant_id'' SqlUuid False None,
     Column ''action'' (SqlString (Some 128)) False None,
     Column ''actor_id'' (SqlString (Some 128)) True None,
     Column ''actor_type'' (SqlString (Some 32)) False (Some (Literal ''system'')),
     Column ''resource_type'' (SqlString (Some 64)) False None,
     Column ''resource_id'' (SqlString (Some 128)) True None,
     Column ''metadata'' SqlJsonb True None,
     Column ''ip_address'' (SqlString (Some 45)) True None,
     Column ''user_agent'' SqlText True None,
     Column ''created_at'' (SqlTimestamp True) False (Some (Expression ''now()'')),
     Column ''updated_at'' (SqlTimestamp True) False (Some (Expression ''now()''))]
    [ForeignKey [''tenant_id''] ''tenants'' [''id''] (Some Cascade)]
    [''id'']
    []"

definition upgrade_001 :: "ddl list" where
  "upgrade_001 = [
    CreateTable tenants_table,
    CreateIndex (IndexDef ''ix_tenants_slug'' ''tenants'' [''slug''] False),
    CreateIndex (IndexDef ''ix_tenants_status'' ''tenants'' [''status''] False),
    CreateTable agents_table,
    CreateIndex (IndexDef ''ix_agents_status'' ''agents'' [''status''] False),
    CreateIndex (IndexDef ''ix_agents_tenant_id'' ''agents'' [''tenant_id''] False),
    CreateTable agent_configurations_table,
    CreateIndex (IndexDef ''ix_agent_configurations_agent_id'' ''agent_configurations'' [''agent_id''] False),
    CreateIndex (IndexDef ''ix_agent_configurations_tenant_id'' ''agent_configurations'' [''tenant_id''] False),
    CreateTable knowledge_bases_table,
    CreateIndex (IndexDef ''ix_knowledge_bases_status'' ''knowledge_bases'' [''status''] False),
    CreateIndex (IndexDef ''ix_knowledge_bases_tenant_id'' ''knowledge_bases'' [''tenant_id''] False),
    CreateTable tools_table,
    CreateIndex (IndexDef ''ix_tools_slug'' ''tools'' [''slug''] False),
    CreateIndex (IndexDef ''ix_tools_status'' ''tools'' [''status''] False),
    CreateIndex (IndexDef ''ix_tools_tenant_id'' ''tools'' [''tenant_id''] False),
    CreateTable audit_logs_table,
    CreateIndex (IndexDef ''ix_audit_logs_action'' ''audit_logs'' [''action''] False),
    CreateIndex (IndexDef ''ix_audit_logs_resource_id'' ''audit_logs'' [''resource_id''] False),
    CreateIndex (IndexDef ''ix_audit_logs_resource_type'' ''audit_logs'' [''resource_type''] False),
    CreateIndex (IndexDef ''ix_audit_logs_tenant_id'' ''audit_logs'' [''tenant_id''] False)]"

definition downgrade_001 :: "ddl list" where
  "downgrade_001 = [
    DropIndex ''ix_audit_logs_tenant_id'' ''audit_logs'',
    DropIndex ''ix_audit_logs_resource_type'' ''audit_logs'',
    DropIndex ''ix_audit_logs_resource_id'' ''audit_logs'',
    DropIndex ''ix_audit_logs_action'' ''audit_logs'',
    DropTable ''audit_logs'',
    DropIndex ''ix_tools_tenant_id'' ''tools'',
    DropIndex ''ix_tools_status'' ''tools'',
    DropIndex ''ix_tools_slug'' ''tools'',
    DropTable ''tools'',
    DropIndex ''ix_knowledge_bases_tenant_id'' ''knowledge_bases'',
    DropIndex ''ix_knowledge_bases_status'' ''knowledge_bases'',
    DropTable ''knowledge_bases'',
    DropIndex ''ix_agent_configurations_tenant_id'' ''agent_configurations'',
    DropIndex ''ix_agent_configurations_agent_id'' ''agent_configurations'',
    DropTable ''agent_configurations'',
    DropIndex ''ix_agents_tenant_id'' ''agents'',
    DropIndex ''ix_agents_status'' ''agents'',
    DropTable ''agents'',
    DropIndex ''ix_tenants_status'' ''tenants'',
    DropIndex ''ix_tenants_slug'' ''tenants'',
    DropTable ''tenants'']"

definition revision_001 :: revision where
  "revision_001 = Revision ''001_initial_enterprise'' None upgrade_001 downgrade_001"

section \<open>\<^verbatim>\<open>002_knowledge_ingestion\<close>\<close>

definition knowledge_sources_table :: table_def where
  "knowledge_sources_table = Table ''knowledge_sources''
    [Column ''id'' SqlUuid False None,
     Column ''tenant_id'' SqlUuid False None,
     Column ''title'' (SqlString (Some 512)) False None,
     Column ''source_type'' (SqlString (Some 32)) False None,
     Column ''status'' (SqlString (Some 32)) False (Some (Literal ''pending'')),
     Column ''file_path'' (SqlString (Some 1024)) True None,
     Column ''website_url'' (SqlString (Some 2048)) True None,
     Column ''file_size_bytes'' SqlBigInteger True None,
     Column ''content_type'' (SqlString (Some 128)) True None,
     Column ''original_filename'' (SqlString (Some 512)) True None,
     Column ''processing_stage'' (SqlString (Some 32)) True None,
     Column ''processing_started_at'' (SqlTimestamp True) True None,
     Column ''processing_completed_at'' (SqlTimestamp True) True None,
     Column ''processing_error'' SqlText True None,
     Column ''progress_pct'' SqlInteger False (Some (Literal ''0'')),
     Column ''chunk_count'' SqlInteger False (Some (Literal ''0'')),
     Column ''embedding_count'' SqlInteger False (Some (Literal ''0'')),
     Column ''embedding_model'' (SqlString (Some 128)) True None,
     Column ''embedding_status'' (SqlString (Some 32)) False (Some (Literal ''pending'')),
     Column ''vector_namespace'' (SqlString (Some 256)) False None,
     Column ''vector_store_type'' (SqlString (Some 32)) True None,
     Column ''chunk_config'' SqlJsonb True None,
     Column ''metadata'' SqlJsonb True None,
     Column ''created_at'' (SqlTimestamp True) False (Some (Expression ''now()'')),
     Column ''updated_at'' (SqlTimestamp True) False (Some (Expression ''now()''))]
    [ForeignKey [''tenant_id''] ''tenants'' [''id''] (Some Cascade)]
    [''id'']
    [(None, [''vector_namespace''])]"

definition knowledge_chunks_table :: table_def where
  "knowledge_chunks_table = Table ''knowledge_chunks''
    [Column ''id'' SqlUuid False None,
     Column ''tenant_id'' SqlUuid False None,
     Column ''source_id'' SqlUuid False None,
     Column ''chunk_number'' SqlInteger False None,
     Column ''content'' SqlText False None,
     Column ''token_count'' SqlInteger True None,
     Column ''char_count'' SqlInteger True None,
     Column ''vector_id'' (SqlString (Some 256)) True None,
     Column ''chunk_metadata'' SqlJsonb True None,
     Column ''created_at'' (SqlTimestamp True) False (Some (Expression ''now()'')),
     Column ''updated_at'' (SqlTimestamp True) False (Some (Expression ''now()''))]
    [ForeignKey [''source_id''] ''knowledge_sources'' [''id''] (Some Cascade),
     ForeignKey [''tenant_id''] ''tenants'' [''id''] (Some Cascade)]
    [''id'']
    []"

definition upgrade_002 :: "ddl list" where
  "upgrade_002 = [
    CreateTable knowledge_sources_table,
    CreateIndex (IndexDef ''ix_knowledge_sources_source_type'' ''knowledge_sources'' [''source_type''] False),
    CreateIndex (IndexDef ''ix_knowledge_sources_status'' ''knowledge_sources'' [''status''] False),
    CreateIndex (IndexDef ''ix_knowledge_sources_processing_stage'' ''knowledge_sources'' [''processing_stage''] False),
    CreateIndex (IndexDef ''ix_knowledge_sources_embedding_status'' ''knowledge_sources'' [''embedding_status''] False),
    CreateIndex (IndexDef ''ix_knowledge_sources_tenant_id'' ''knowledge_sources'' [''tenant_id''] False),
    CreateIndex (IndexDef ''ix_knowledge_sources_vector_namespace'' ''knowledge_sources'' [''vector_namespace''] False),
    CreateTable knowledge_chunks_table,
    CreateIndex (IndexDef ''ix_knowledge_chunks_source_id'' ''knowledge_chunks'' [''source_id''] False),
    CreateIndex (IndexDef ''ix_knowledge_chunks_tenant_id'' ''knowledge_chunks'' [''tenant_id''] False),
    CreateIndex (IndexDef ''ix_knowledge_chunks_vector_id'' ''knowledge_chunks'' [''vector_id''] False)]"

definition downgrade_002 :: "ddl list" where
  "downgrade_002 = [
    DropIndex ''ix_knowledge_chunks_vector_id'' ''knowledge_chunks'',
    DropIndex ''ix_knowledge_chunks_tenant_id'' ''knowledge_chunks'',
    DropIndex ''ix_knowledge_chunks_source_id'' ''knowledge_chunks'',
    DropTable ''knowledge_chunks'',
    DropIndex ''ix_knowledge_sources_vector_namespace'' ''knowledge_sources'',
    DropIndex ''ix_knowledge_sources_tenant_id'' ''knowledge_sources'',
    DropIndex ''ix_knowledge_sources_embedding_status'' ''knowledge_sources'',
    DropIndex ''ix_knowledge_sources_processing_stage'' ''knowledge_sources'',
    DropIndex ''ix_knowledge_sources_status'' ''knowledge_sources'',
    DropIndex ''ix_knowledge_sources_source_type'' ''knowledge_sources'',
    DropTable ''knowledge_sources'']"

definition revision_002 :: revision where
  "revision_002 = Revision ''002_knowledge_ingestion'' (Some ''001_initial_enterprise'') upgrade_002 downgrade_002"

section \<open>\<^verbatim>\<open>003_enterprise_memory\<close>\<close>

definition conversations_table :: table_def where
  "conversations_table = Table ''conversations''
    [Column ''id'' SqlUuid False None,
     Column ''tenant_id'' SqlUuid False None,
     Column ''agent_id'' SqlUuid False None,
     Column ''status'' (SqlString (Some 32)) False (Some (Literal ''active'')),
     Column ''current_state'' (SqlString (Some 32)) False (Some (Literal ''call_started'')),
     Column ''language'' (SqlString (Some 16)) False (Some (Literal ''en'')),
     Column ''turn_count'' SqlInteger False (Some (Literal ''0'')),
     Column ''started_at'' (SqlTimestamp True) True None,
     Column ''ended_at'' (SqlTimestamp True) True None,
     Column ''expires_at'' (SqlTimestamp True) True None,
     Column ''metadata'' SqlJsonb True None,
     Column ''created_at'' (SqlTimestamp True) False (Some (Expression ''now()'')),
     Column ''updated_at'' (SqlTimestamp True) False (Some (Expression ''now()''))]
    [ForeignKey [''agent_id''] ''agents'' [''id''] (Some Cascade),
     ForeignKey [''tenant_id''] ''tenants'' [''id''] (Some Cascade)]
    [''id'']
    []"

definition conversation_turns_table :: table_def where
  "conversation_turns_table = Table ''conversation_turns''
    [Column ''id'' SqlUuid False None,
     Column ''tenant_id'' SqlUuid False None,
     Column ''conversation_id'' SqlUuid False None,
     Column ''agent_id'' SqlUuid False None,
     Column ''turn_index'' SqlInteger False None,
     Column ''role'' (SqlString (Some 16)) False None,
     Column ''message'' SqlText False None,
     Column ''language'' (SqlString (Some 16)) False (Some (Literal ''en'')),
     Column ''latency_ms'' SqlInteger True None,
     Column ''tool_calls'' SqlJsonb True None,
     Column ''reasoning_steps'' SqlJsonb True None,
     Column ''created_at'' (SqlTimestamp True) False (Some (Expression ''now()'')),
     Column ''updated_at'' (SqlTimestamp True) False (Some (Expression ''now()''))]
    [ForeignKey [''agent_id''] ''agents'' [''id''] (Some Cascade),
     ForeignKey [''conversation_id''] ''conversations'' [''id''] (Some Cascade),
     ForeignKey [''tenant_id''] ''tenants'' [''id''] (Some Cascade)]
    [''id'']
    []"

definition conversation_summaries_table :: table_def where
  "conversation_summaries_table = Table ''conversation_summaries''
    [Column ''id'' SqlUuid False None,
     Column ''tenant_id'' SqlUuid False None,
     Column ''conversation_id'' SqlUuid False None,
     Column ''agent_id'' SqlUuid False None,
     Column ''customer_identity'' SqlText True None,
     Column ''conversation_goal'' SqlText True None,
     Column ''resolved_items'' SqlJsonb True None,
     Column ''pending_items'' SqlJsonb True None,
     Column ''collected_information'' SqlJsonb True None,
     Column ''summary_text'' SqlText False None,
     Column ''token_estimate'' SqlInteger False (Some (Literal ''0'')),
     Column ''turn_count_at_summary'' SqlInteger False (Some (Literal ''0'')),
     Column ''language'' (SqlString (Some 16)) False (Some (Literal ''en'')),
     Column ''created_at'' (SqlTimestamp True) False (Some (Expression ''now()'')),
     Column ''updated_at'' (SqlTimestamp True) False (Some (Expression ''now()''))]
    [ForeignKey [''agent_id''] ''agents'' [''id''] (Some Cascade),
     ForeignKey [''conversation_id''] ''conversations'' [''id''] (Some Cascade),
     ForeignKey [''tenant_id''] ''tenants'' [''id''] (Some Cascade)]
    [''id'']
    []"

definition working_memory_table :: table_def where
  "working_memory_table = Table ''working_memory''
    [Column ''id'' SqlUuid False None,
     Column ''tenant_id'' SqlUuid False None,
     Column ''conversation_id'' SqlUuid False None,
     Column ''agent_id'' SqlUuid False None,
     Column ''memory_key'' (SqlString (Some 64)) False None,
     Column ''value'' SqlText False None,
     Column ''value_type'' (SqlString (Some 32)) False (Some (Literal ''string'')),
     Column ''language'' (SqlString (Some 16)) True None,
     Column ''expires_at'' (SqlTimestamp True) True None,
     Column ''is_sensitive'' SqlBoolean False (Some (Literal ''false'')),
     Column ''created_at'' (SqlTimestamp True) False (Some (Expression ''now()'')),
     Column ''updated_at'' (SqlTimestamp True) False (Some (Expression ''now()''))]
    [ForeignKey [''agent_id''] ''agents'' [''id''] (Some Cascade),
     ForeignKey [''conversation_id''] ''conversations'' [''id''] (Some Cascade),
     ForeignKey [''tenant_id''] ''tenants'' [''id''] (Some Cascade)]
    [''id'']
    [(Some ''uq_working_memory_conversation_key'', [''conversation_id'', ''memory_key''])]"

definition tool_executions_table :: table_def where
  "tool_executions_table = Table ''tool_executions''
    [Column ''id'' SqlUuid False None,
     Column ''tenant_id'' SqlUuid False None,
     Column ''conversation_id'' SqlUuid False None,
     Column ''agent_id'' SqlUuid False None,
     Column ''tool_name'' (SqlString (Some 128)) False None,
     Column ''arguments'' SqlJsonb True None,
     Column ''execution_time_ms'' SqlInteger True None,
     Column ''status'' (SqlString (Some 32)) False (Some (Literal ''success'')),
     Column ''result'' SqlText True None,
     Column ''error'' SqlText True None,
     Column ''executed_at'' (SqlTimestamp True) True None,
     Column ''created_at'' (SqlTimestamp True) False (Some (Expression ''now()'')),
     Column ''updated_at'' (SqlTimestamp True) False (Some (Expression ''now()''))]
    [ForeignKey [''agent_id''] ''agents'' [''id''] (Some Cascade),
     ForeignKey [''conversation_id''] ''conversations'' [''id''] (Some Cascade),
     ForeignKey [''tenant_id''] ''tenants'' [''id''] (Some Cascade)]
    [''id'']
    []"

definition upgrade_003 :: "ddl list" where
  "upgrade_003 = [
    CreateTable conversations_table,
    CreateIndex (IndexDef ''ix_conversations_agent_id'' ''conversations'' [''agent_id''] False),
    CreateIndex (IndexDef ''ix_conversations_status'' ''conversations'' [''status''] False),
    CreateIndex (IndexDef ''ix_conversations_current_state'' ''conversations'' [''current_state''] False),
    CreateIndex (IndexDef ''ix_conversations_tenant_id'' ''conversations'' [''tenant_id''] False),
    CreateTable conversation_turns_table,
    CreateIndex (IndexDef ''ix_conversation_turns_conversation_id'' ''conversation_turns'' [''conversation_id''] False),
    CreateIndex (IndexDef ''ix_conversation_turns_role'' ''conversation_turns'' [''role''] False),
    CreateIndex (IndexDef ''ix_conversation_turns_tenant_id'' ''conversation_turns'' [''tenant_id''] False),
    CreateTable conversation_summaries_table,
    CreateIndex (IndexDef ''ix_conversation_summaries_conversation_id'' ''conversation_summaries'' [''conversation_id''] False),
    CreateTable working_memory_table,
    CreateIndex (IndexDef ''ix_working_memory_conversation_id'' ''working_memory'' [''conversation_id''] False),
    CreateIndex (IndexDef ''ix_working_memory_memory_key'' ''working_memory'' [''memory_key''] False),
    CreateTable tool_executions_table,
    CreateIndex (IndexDef ''ix_tool_executions_conversation_id'' ''tool_executions'' [''conversation_id''] False),
    CreateIndex (IndexDef ''ix_tool_executions_tool_name'' ''tool_executions'' [''tool_name''] False),
    CreateIndex (IndexDef ''ix_tool_executions_status'' ''tool_executions'' [''status''] False)]"

definition downgrade_003 :: "ddl list" where
  "downgrade_003 = [
    DropIndex ''ix_tool_executions_status'' ''tool_executions'',
    DropIndex ''ix_tool_executions_tool_name'' ''tool_executions'',
    DropIndex ''ix_tool_executions_conversation_id'' ''tool_executions'',
    DropTable ''tool_executions'',
    DropIndex ''ix_working_memory_memory_key'' ''working_memory'',
    DropIndex ''ix_working_memory_conversation_id'' ''working_memory'',
    DropTable ''working_memory'',
    DropIndex ''ix_conversation_summaries_conversation_id'' ''conversation_summaries'',
    DropTable ''conversation_summaries'',
    DropIndex ''ix_conversation_turns_tenant_id'' ''conversation_turns'',
    DropIndex ''ix_conversation_turns_role'' ''conversation_turns'',
    DropIndex ''ix_conversation_turns_conversation_id'' ''conversation_turns'',
    DropTable ''conversation_turns'',
    DropIndex ''ix_conversations_tenant_id'' ''conversations'',
    DropIndex ''ix_conversations_current_state'' ''conversations'',
    DropIndex ''ix_conversations_status'' ''conversations'',
    DropIndex ''ix_conversations_agent_id'' ''conversations'',
    DropTable ''conversations'']"

definition revision_003 :: revision where
  "revision_003 = Revision ''003_enterprise_memory'' (Some ''002_knowledge_ingestion'') upgrade_003 downgrade_003"

section \<open>\<^verbatim>\<open>004_enterprise_tool_framework\<close>\<close>

definition tool_permissions_table :: table_def where
  "tool_permissions_table = Table ''tool_permissions''
    [Column ''id'' SqlUuid False None,
     Column ''tenant_id'' SqlUuid False None,
     Column ''agent_id'' SqlUuid True None,
     Column ''tool_slug'' (SqlString (Some 128)) False None,
     Column ''effect'' (SqlString (Some 16)) False (Some (Literal ''allow'')),
     Column ''department'' (SqlString (Some 128)) True None,
     Column ''role'' (SqlString (Some 128)) True None,
     Column ''max_executions_per_hour'' SqlInteger True None,
     Column ''working_hours_start'' (SqlString (Some 8)) True None,
     Column ''working_hours_end'' (SqlString (Some 8)) True None,
     Column ''metadata'' SqlJsonb True None,
     Column ''created_at'' (SqlTimestamp True) False (Some (Expression ''now()'')),
     Column ''updated_at'' (SqlTimestamp True) False (Some (Expression ''now()''))]
    [ForeignKey [''agent_id''] ''agents'' [''id''] (Some Cascade),
     ForeignKey [''tenant_id''] ''tenants'' [''id''] (Some Cascade)]
    [''id'']
    [(Some ''uq_tool_permissions_scope'', [''tenant_id'', ''tool_slug'', ''agent_id''])]"

definition tenant_tool_configs_table :: table_def where
  "tenant_tool_configs_table = Table ''tenant_tool_configs''
    [Column ''id'' SqlUuid False None,
     Column ''tenant_id'' SqlUuid False None,
     Column ''tool_slug'' (SqlString (Some 128)) False None,
     Column ''enabled'' SqlBoolean False (Some (Literal ''true'')),
     Column ''credentials_ref'' (SqlString (Some 512)) True None,
     Column ''provider_config'' SqlJsonb True None,
     Column ''rate_limit_per_minute'' SqlInteger True None,
     Column ''timeout_seconds'' SqlFloat True None,
     Column ''metadata'' SqlJsonb True None,
     Column ''created_at'' (SqlTimestamp True) False (Some (Expression ''now()'')),
     Column ''updated_at'' (SqlTimestamp True) False (Some (Expression ''now()''))]
    [ForeignKey [''tenant_id''] ''tenants'' [''id''] (Some Cascade)]
    [''id'']
    [(Some ''uq_tenant_tool_configs_slug'', [''tenant_id'', ''tool_slug''])]"

definition tool_framework_executions_table :: table_def where
  "tool_framework_executions_table = Table ''tool_framework_executions''
    [Column ''id'' SqlUuid False None,
     Column ''tenant_id'' SqlUuid False None,
     Column ''agent_id'' SqlUuid False None,
     Column ''conversation_id'' SqlUuid True None,
     Column ''tool_slug'' (SqlString (Some 128)) False None,
     Column ''tool_name'' (SqlString (Some 255)) False None,
     Column ''status'' (SqlString (Some 32)) False (Some (Literal ''success'')),
     Column ''arguments'' SqlJsonb True None,
     Column ''result'' SqlJsonb True None,
     Column ''error'' SqlText True None,
     Column ''execution_time_ms'' SqlFloat False (Some (Literal ''0'')),
     Column ''retry_count'' SqlInteger False (Some (Literal ''0'')),
     Column ''idempotency_key'' (SqlString (Some 128)) True None,
     Column ''metadata'' SqlJsonb True None,
     Column ''created_at'' (SqlTimestamp True) False (Some (Expression ''now()'')),
     Column ''updated_at'' (SqlTimestamp True) False (Some (Expression ''now()''))]
    [ForeignKey [''agent_id''] ''agents'' [''id''] (Some Cascade),
     ForeignKey [''tenant_id''] ''tenants'' [''id''] (Some Cascade)]
    [''id'']
    []"

definition tool_audit_logs_table :: table_def where
  "tool_audit_logs_table = Table ''tool_audit_logs''
    [Column ''id'' SqlUuid False None,
     Column ''tenant_id'' SqlUuid False None,
     Column ''agent_id'' SqlUuid False None,
     Column ''conversation_id'' SqlUuid True None,
     Column ''execution_id'' SqlUuid True None,
     Column ''tool_slug'' (SqlString (Some 128)) False None,
     Column ''status'' (SqlString (Some 32)) False None,
     Column ''planner_request'' SqlJsonb True None,
     Column ''validated_arguments'' SqlJsonb True None,
     Column ''execution_result'' SqlJsonb True None,
     Column ''execution_duration_ms'' SqlFloat True None,
     Column ''operator'' (SqlString (Some 128)) True None,
     Column ''error'' SqlText True None,
     Column ''occurred_at'' (SqlTimestamp True) False None,
     Column ''created_at'' (SqlTimestamp True) False (Some (Expression ''now()'')),
     Column ''updated_at'' (SqlTimestamp True) False (Some (Expression ''now()''))]
    [ForeignKey [''agent_id''] ''agents'' [''id''] (Some Cascade),
     ForeignKey [''execution_id''] ''tool_framework_executions'' [''id''] (Some SetNull),
     ForeignKey [''tenant_id''] ''tenants'' [''id''] (Some Cascade)]
    [''id'']
    []"

definition upgrade_004 :: "ddl list" where
  "upgrade_004 = [
    CreateTable tool_permissions_table,
    CreateIndex (IndexDef ''ix_tool_permissions_tenant_id'' ''tool_permissions'' [''tenant_id''] False),
    CreateIndex (IndexDef ''ix_tool_permissions_tool_slug'' ''tool_permissions'' [''tool_slug''] False),
    CreateIndex (IndexDef ''ix_tool_permissions_agent_id'' ''tool_permissions'' [''agent_id''] False),
    CreateTable tenant_tool_configs_table,
    CreateIndex (IndexDef ''ix_tenant_tool_configs_tenant_id'' ''tenant_tool_configs'' [''tenant_id''] False),
    CreateIndex (IndexDef ''ix_tenant_tool_configs_tool_slug'' ''tenant_tool_configs'' [''tool_slug''] False),
    CreateTable tool_framework_executions_table,
    CreateIndex (IndexDef ''ix_tool_framework_executions_tenant_id'' ''tool_framework_executions'' [''tenant_id''] False),
    CreateIndex (IndexDef ''ix_tool_framework_executions_agent_id'' ''tool_framework_executions'' [''agent_id''] False),
    CreateIndex (IndexDef ''ix_tool_framework_executions_conversation_id'' ''tool_framework_executions'' [''conversation_id''] False),
    CreateIndex (IndexDef ''ix_tool_framework_executions_tool_slug'' ''tool_framework_executions'' [''tool_slug''] False),
    CreateIndex (IndexDef ''ix_tool_framework_executions_status'' ''tool_framework_executions'' [''status''] False),
    CreateIndex (IndexDef ''ix_tool_framework_executions_idempotency_key'' ''tool_framework_executions'' [''idempotency_key''] False),
    CreateTable tool_audit_logs_table,
    CreateIndex (IndexDef ''ix_tool_audit_logs_tenant_id'' ''tool_audit_logs'' [''tenant_id''] False),
    CreateIndex (IndexDef ''ix_tool_audit_logs_agent_id'' ''tool_audit_logs'' [''agent_id''] False),
    CreateIndex (IndexDef ''ix_tool_audit_logs_conversation_id'' ''tool_audit_logs'' [''conversation_id''] False),
    CreateIndex (IndexDef ''ix_tool_audit_logs_tool_slug'' ''tool_audit_logs'' [''tool_slug''] False),
    CreateIndex (IndexDef ''ix_tool_audit_logs_status'' ''tool_audit_logs'' [''status''] False),
    CreateIndex (IndexDef ''ix_tool_audit_logs_execution_id'' ''tool_audit_logs'' [''execution_id''] False)]"

definition downgrade_004 :: "ddl list" where
  "downgrade_004 = [
    DropTable ''tool_audit_logs'',
    DropTable ''tool_framework_executions'',
    DropTable ''tenant_tool_configs'',
    DropTable ''tool_permissions'']"

definition revision_004 :: revision where
  "revision_004 = Revision ''004_enterprise_tool_framework'' (Some ''003_enterprise_memory'') upgrade_004 downgrade_004"

section \<open>\<^verbatim>\<open>005_enterprise_planner\<close>\<close>

definition planner_sessions_table :: table_def where
  "planner_sessions_table = Table ''planner_sessions''
    [Column ''id'' SqlUuid False None,
     Column ''tenant_id'' SqlUuid False None,
     Column ''agent_id'' SqlUuid False None,
     Column ''conversation_id'' SqlUuid False None,
     Column ''status'' (SqlString (Some 32)) False (Some (Literal ''active'')),
     Column ''language'' (SqlString (Some 16)) False (Some (Literal ''en'')),
     Column ''reasoning_step_count'' SqlInteger False (Some (Literal ''0'')),
     Column ''last_intent'' (SqlString (Some 64)) True None,
     Column ''metadata'' SqlJsonb True None,
     Column ''created_at'' (SqlTimestamp True) False (Some (Expression ''now()'')),
     Column ''updated_at'' (SqlTimestamp True) False (Some (Expression ''now()''))]
    [ForeignKey [''agent_id''] ''agents'' [''id''] (Some Cascade),
     ForeignKey [''tenant_id''] ''tenants'' [''id''] (Some Cascade)]
    [''id'']
    []"

definition planner_decisions_table :: table_def where
  "planner_decisions_table = Table ''planner_decisions''
    [Column ''id'' SqlUuid False None,
     Column ''tenant_id'' SqlUuid False None,
     Column ''agent_id'' SqlUuid False None,
     Column ''conversation_id'' SqlUuid False None,
     Column ''session_id'' SqlUuid False None,
     Column ''intent'' (SqlString (Some 64)) False None,
     Column ''confidence'' SqlFloat False None,
     Column ''action'' (SqlString (Some 32)) False None,
     Column ''next_action'' (SqlString (Some 64)) True None,
     Column ''status'' (SqlString (Some 32)) False (Some (Literal ''completed'')),
     Column ''reasoning_steps'' SqlJsonb True None,
     Column ''plan'' SqlJsonb True None,
     Column ''tool_call'' SqlJsonb True None,
     Column ''response_text'' SqlText True None,
     Column ''policy_decisions'' SqlJsonb True None,
     Column ''token_estimate'' SqlInteger False (Some (Literal ''0'')),
     Column ''latency_ms'' SqlFloat False (Some (Literal ''0'')),
     Column ''model_provider'' (SqlString (Some 32)) False (Some (Literal ''structured'')),
     Column ''metadata'' SqlJsonb True None,
     Column ''created_at'' (SqlTimestamp True) False (Some (Expression ''now()'')),
     Column ''updated_at'' (SqlTimestamp True) False (Some (Expression ''now()''))]
    [ForeignKey [''agent_id''] ''agents'' [''id''] (Some Cascade),
     ForeignKey [''session_id''] ''planner_sessions'' [''id''] (Some Cascade),
     ForeignKey [''tenant_id''] ''tenants'' [''id''] (Some Cascade)]
    [''id'']
    []"

definition planner_history_table :: table_def where
  "planner_history_table = Table ''planner_history''
    [Column ''id'' SqlUuid False None,
     Column ''tenant_id'' SqlUuid False None,
     Column ''agent_id'' SqlUuid False None,
     Column ''conversation_id'' SqlUuid False None,
     Column ''session_id'' SqlUuid False None,
     Column ''decision_id'' SqlUuid True None,
     Column ''step_index'' SqlInteger False None,
     Column ''intent'' (SqlString (Some 64)) True None,
     Column ''action'' (SqlString (Some 32)) True None,
     Column ''reasoning'' SqlText True None,
     Column ''input_snapshot'' SqlJsonb True None,
     Column ''output_snapshot'' SqlJsonb True None,
     Column ''occurred_at'' (SqlTimestamp True) False None,
     Column ''created_at'' (SqlTimestamp True) False (Some (Expression ''now()'')),
     Column ''updated_at'' (SqlTimestamp True) False (Some (Expression ''now()''))]
    [ForeignKey [''agent_id''] ''agents'' [''id''] (Some Cascade),
     ForeignKey [''decision_id''] ''planner_decisions'' [''id''] (Some SetNull),
     ForeignKey [''session_id''] ''planner_sessions'' [''id''] (Some Cascade),
     ForeignKey [''tenant_id''] ''tenants'' [''id''] (Some Cascade)]
    [''id'']
    []"

definition planner_metrics_table :: table_def where
  "planner_metrics_table = Table ''planner_metrics''
    [Column ''id'' SqlUuid False None,
     Column ''tenant_id'' SqlUuid False None,
     Column ''agent_id'' SqlUuid False None,
     Column ''conversation_id'' SqlUuid True None,
     Column ''total_plans'' SqlInteger False (Some (Literal ''0'')),
     Column ''success_count'' SqlInteger False (Some (Literal ''0'')),
     Column ''failure_count'' SqlInteger False (Some (Literal ''0'')),
     Column ''escalation_count'' SqlInteger False (Some (Literal ''0'')),
     Column ''average_latency_ms'' SqlFloat False (Some (Literal ''0'')),
     Column ''average_confidence'' SqlFloat False (Some (Literal ''0'')),
     Column ''average_reasoning_steps'' SqlFloat False (Some (Literal ''0'')),
     Column ''cache_hits'' SqlInteger False (Some (Literal ''0'')),
     Column ''cache_misses'' SqlInteger False (Some (Literal ''0'')),
     Column ''total_tokens'' SqlInteger False (Some (Literal ''0'')),
     Column ''calls_by_intent'' SqlJsonb True None,
     Column ''metadata'' SqlJsonb True None,
     Column ''created_at'' (SqlTimestamp True) False (Some (Expression ''now()'')),
     Column ''updated_at'' (SqlTimestamp True) False (Some (Expression ''now()''))]
    [ForeignKey [''agent_id''] ''agents'' [''id''] (Some Cascade),
     ForeignKey [''tenant_id''] ''tenants'' [''id''] (Some Cascade)]
    [''id'']
    []"

definition upgrade_005 :: "ddl list" where
  "upgrade_005 = [
    CreateTable planner_sessions_table,
    CreateIndex (IndexDef ''ix_planner_sessions_tenant_id'' ''planner_sessions'' [''tenant_id''] False),
    CreateIndex (IndexDef ''ix_planner_sessions_agent_id'' ''planner_sessions'' [''agent_id''] False),
    CreateIndex (IndexDef ''ix_planner_sessions_conversation_id'' ''planner_sessions'' [''conversation_id''] False),
    CreateIndex (IndexDef ''ix_planner_sessions_status'' ''planner_sessions'' [''status''] False),
    CreateTable planner_decisions_table,
    CreateIndex (IndexDef ''ix_planner_decisions_tenant_id'' ''planner_decisions'' [''tenant_id''] False),
    CreateIndex (IndexDef ''ix_planner_decisions_agent_id'' ''planner_decisions'' [''agent_id''] False),
    CreateIndex (IndexDef ''ix_planner_decisions_conversation_id'' ''planner_decisions'' [''conversation_id''] False),
    CreateIndex (IndexDef ''ix_planner_decisions_session_id'' ''planner_decisions'' [''session_id''] False),
    CreateIndex (IndexDef ''ix_planner_decisions_intent'' ''planner_decisions'' [''intent''] False),
    CreateIndex (IndexDef ''ix_planner_decisions_action'' ''planner_decisions'' [''action''] False),
    CreateIndex (IndexDef ''ix_planner_decisions_status'' ''planner_decisions'' [''status''] False),
    CreateTable planner_history_table,
    CreateIndex (IndexDef ''ix_planner_history_tenant_id'' ''planner_history'' [''tenant_id''] False),
    CreateIndex (IndexDef ''ix_planner_history_agent_id'' ''planner_history'' [''agent_id''] False),
    CreateIndex (IndexDef ''ix_planner_history_conversation_id'' ''planner_history'' [''conversation_id''] False),
    CreateIndex (IndexDef ''ix_planner_history_session_id'' ''planner_history'' [''session_id''] False),
    CreateIndex (IndexDef ''ix_planner_history_decision_id'' ''planner_history'' [''decision_id''] False),
    CreateTable planner_metrics_table,
    CreateIndex (IndexDef ''ix_planner_metrics_tenant_id'' ''planner_metrics'' [''tenant_id''] False),
    CreateIndex (IndexDef ''ix_planner_metrics_agent_id'' ''planner_metrics'' [''agent_id''] False),
    CreateIndex (IndexDef ''ix_planner_metrics_conversation_id'' ''planner_metrics'' [''conversation_id''] False)]"

definition downgrade_005 :: "ddl list" where
  "downgrade_005 = [
    DropTable ''planner_metrics'',
    DropTable ''planner_history'',
    DropTable ''planner_decisions'',
    DropTable ''planner_sessions'']"

definition revision_005 :: revision where
  "revision_005 = Revision ''005_enterprise_planner'' (Some ''004_enterprise_tool_framework'') upgrade_005 downgrade_005"

section \<open>\<^verbatim>\<open>006_enterprise_verifier\<close>\<close>

definition verifier_decisions_table :: table_def where
  "verifier_decisions_table = Table ''verifier_decisions''
    [Column ''id'' SqlUuid False None,
     Column ''tenant_id'' SqlUuid False None,
     Column ''agent_id'' SqlUuid False None,
     Column ''conversation_id'' SqlUuid False None,
     Column ''planner_decision_id'' SqlUuid True None,
     Column ''approved'' SqlBoolean False None,
     Column ''outcome'' (SqlString (Some 32)) False None,
     Column ''risk_level'' (SqlString (Some 16)) False None,
     Column ''requires_confirmation'' SqlBoolean False (Some (Literal ''false'')),
     Column ''requires_human'' SqlBoolean False (Some (Literal ''false'')),
     Column ''reason'' SqlText True None,
     Column ''corrected_tool_arguments'' SqlJsonb True None,
     Column ''warnings'' SqlJsonb True None,
     Column ''violations'' SqlJsonb True None,
     Column ''planner_snapshot'' SqlJsonb True None,
     Column ''identity_status'' (SqlString (Some 32)) True None,
     Column ''latency_ms'' SqlFloat False (Some (Literal ''0'')),
     Column ''token_estimate'' SqlInteger False (Some (Literal ''0'')),
     Column ''model_provider'' (SqlString (Some 32)) False (Some (Literal ''structured'')),
     Column ''metadata'' SqlJsonb True None,
     Column ''created_at'' (SqlTimestamp True) False (Some (Expression ''now()'')),
     Column ''updated_at'' (SqlTimestamp True) False (Some (Expression ''now()''))]
    [ForeignKey [''agent_id''] ''agents'' [''id''] (Some Cascade),
     ForeignKey [''tenant_id''] ''tenants'' [''id''] (Some Cascade)]
    [''id'']
    []"

definition verifier_risk_assessments_table :: table_def where
  "verifier_risk_assessments_table = Table ''verifier_risk_assessments''
    [Column ''id'' SqlUuid False None,
     Column ''tenant_id'' SqlUuid False None,
     Column ''agent_id'' SqlUuid False None,
     Column ''conversation_id'' SqlUuid False None,
     Column ''decision_id'' SqlUuid False None,
     Column ''risk_level'' (SqlString (Some 16)) False None,
     Column ''intent'' (SqlString (Some 64)) True None,
     Column ''tool_slug'' (SqlString (Some 128)) True None,
     Column ''action'' (SqlString (Some 32)) True None,
     Column ''factors'' SqlJsonb True None,
     Column ''score'' SqlFloat False (Some (Literal ''0'')),
     Column ''metadata'' SqlJsonb True None,
     Column ''created_at'' (SqlTimestamp True) False (Some (Expression ''now()'')),
     Column ''updated_at'' (SqlTimestamp True) False (Some (Expression ''now()''))]
    [ForeignKey [''agent_id''] ''agents'' [''id''] (Some Cascade),
     ForeignKey [''decision_id''] ''verifier_decisions'' [''id''] (Some Cascade),
     ForeignKey [''tenant_id''] ''tenants'' [''id''] (Some Cascade)]
    [''id'']
    []"

definition verifier_policy_violations_table :: table_def where
  "verifier_policy_violations_table = Table ''verifier_policy_violations''
    [Column ''id'' SqlUuid False None,
     Column ''tenant_id'' SqlUuid False None,
     Column ''agent_id'' SqlUuid False None,
     Column ''conversation_id'' SqlUuid False None,
     Column ''decision_id'' SqlUuid True None,
     Column ''policy_key'' (SqlString (Some 128)) False None,
     Column ''violation_type'' (SqlString (Some 64)) False None,
     Column ''message'' SqlText False None,
     Column ''severity'' (SqlString (Some 16)) False (Some (Literal ''medium'')),
     Column ''metadata'' SqlJsonb True None,
     Column ''created_at'' (SqlTimestamp True) False (Some (Expression ''now()'')),
     Column ''updated_at'' (SqlTimestamp True) False (Some (Expression ''now()''))]
    [ForeignKey [''agent_id''] ''agents'' [''id''] (Some Cascade),
     ForeignKey [''decision_id''] ''verifier_decisions'' [''id''] (Some SetNull),
     ForeignKey [''tenant_id''] ''tenants'' [''id''] (Some Cascade)]
    [''id'']
    []"

definition verifier_compliance_checks_table :: table_def where
  "verifier_compliance_checks_table = Table ''verifier_compliance_checks''
    [Column ''id'' SqlUuid False None,
     Column ''tenant_id'' SqlUuid False None,
     Column ''agent_id'' SqlUuid False None,
     Column ''conversation_id'' SqlUuid False None,
     Column ''decision_id'' SqlUuid True None,
     Column ''framework'' (SqlString (Some 32)) False None,
     Column ''passed'' SqlBoolean False None,
     Column ''findings'' SqlJsonb True None,
     Column ''checked_at'' (SqlTimestamp True) False None,
     Column ''metadata'' SqlJsonb True None,
     Column ''created_at'' (SqlTimestamp True) False (Some (Expression ''now()'')),
     Column ''updated_at'' (SqlTimestamp True) False (Some (Expression ''now()''))]
    [ForeignKey [''agent_id''] ''agents'' [''id''] (Some Cascade),
     ForeignKey [''decision_id''] ''verifier_decisions'' [''id''] (Some SetNull),
     ForeignKey [''tenant_id''] ''tenants'' [''id''] (Some Cascade)]
    [''id'']
    []"

definition verifier_audit_logs_table :: table_def where
  "verifier_audit_logs_table = Table ''verifier_audit_logs''
    [Column ''id'' SqlUuid False None,
     Column ''tenant_id'' SqlUuid False None,
     Column ''agent_id'' SqlUuid False None,
     Column ''conversation_id'' SqlUuid False None,
     Column ''decision_id'' SqlUuid True None,
     Column ''status'' (SqlString (Some 32)) False None,
     Column ''planner_output'' SqlJsonb True None,
     Column ''verifier_result'' SqlJsonb True None,
     Column ''validation_failures'' SqlJsonb True None,
     Column ''policy_violations'' SqlJsonb True None,
     Column ''risk_score'' SqlFloat True None,
     Column ''identity_status'' (SqlString (Some 32)) True None,
     Column ''tool_validation'' SqlJsonb True None,
     Column ''occurred_at'' (SqlTimestamp True) False None,
     Column ''created_at'' (SqlTimestamp True) False (Some (Expression ''now()'')),
     Column ''updated_at'' (SqlTimestamp True) False (Some (Expression ''now()''))]
    [ForeignKey [''agent_id''] ''agents'' [''id''] (Some Cascade),
     ForeignKey [''decision_id''] ''verifier_decisions'' [''id''] (Some SetNull),
     ForeignKey [''tenant_id''] ''tenants'' [''id''] (Some Cascade)]
    [''id'']
    []"

definition upgrade_006 :: "ddl list" where
  "upgrade_006 = [
    CreateTable verifier_decisions_table,
    CreateIndex (IndexDef ''ix_verifier_decisions_tenant_id'' ''verifier_decisions'' [''tenant_id''] False),
    CreateIndex (IndexDef ''ix_verifier_decisions_agent_id'' ''verifier_decisions'' [''agent_id''] False),
    CreateIndex (IndexDef ''ix_verifier_decisions_conversation_id'' ''verifier_decisions'' [''conversation_id''] False),
    CreateIndex (IndexDef ''ix_verifier_decisions_outcome'' ''verifier_decisions'' [''outcome''] False),
    CreateIndex (IndexDef ''ix_verifier_decisions_risk_level'' ''verifier_decisions'' [''risk_level''] False),
    CreateTable verifier_risk_assessments_table,
    CreateIndex (IndexDef ''ix_verifier_risk_assessments_decision_id'' ''verifier_risk_assessments'' [''decision_id''] False),
    CreateTable verifier_policy_violations_table,
    CreateTable verifier_compliance_checks_table,
    CreateTable verifier_audit_logs_table]"

definition downgrade_006 :: "ddl list" where
  "downgrade_006 = [
    DropTable ''verifier_audit_logs'',
    DropTable ''verifier_compliance_checks'',
    DropTable ''verifier_policy_violations'',
    DropTable ''verifier_risk_assessments'',
    DropTable ''verifier_decisions'']"

definition revision_006 :: revision where
  "revision_006 = Revision ''006_enterprise_verifier'' (Some ''005_enterprise_planner'') upgrade_006 downgrade_006"

section \<open>\<^verbatim>\<open>007_enterprise_workflow\<close>\<close>

definition workflows_table :: table_def where
  "workflows_table = Table ''workflows''
    [Column ''id'' SqlUuid False None,
     Column ''tenant_id'' SqlUuid False None,
     Column ''slug'' (SqlString (Some 128)) False None,
     Column ''name'' (SqlString (Some 255)) False None,
     Column ''description'' SqlText True None,
     Column ''version'' (SqlString (Some 32)) False (Some (Literal ''1.0.0'')),
     Column ''enabled'' SqlBoolean False (Some (Literal ''true'')),
     Column ''definition'' SqlJsonb False None,
     Column ''metadata'' SqlJsonb True None,
     Column ''created_at'' (SqlTimestamp True) False (Some (Expression ''now()'')),
     Column ''updated_at'' (SqlTimestamp True) False (Some (Expression ''now()''))]
    [ForeignKey [''tenant_id''] ''tenants'' [''id''] (Some Cascade)]
    [''id'']
    [(Some ''uq_workflows_tenant_slug'', [''tenant_id'', ''slug''])]"

definition workflow_executions_table :: table_def where
  "workflow_executions_table = Table ''workflow_executions''
    [Column ''id'' SqlUuid False None,
     Column ''tenant_id'' SqlUuid False None,
     Column ''agent_id'' SqlUuid False None,
     Column ''workflow_id'' SqlUuid False None,
     Column ''conversation_id'' SqlUuid False None,
     Column ''status'' (SqlString (Some 32)) False (Some (Literal ''running'')),
     Column ''current_state'' (SqlString (Some 32)) False (Some (Literal ''started'')),
     Column ''context'' SqlJsonb True None,
     Column ''step_index'' SqlInteger False (Some (Literal ''0'')),
     Column ''retry_count'' SqlInteger False (Some (Literal ''0'')),
     Column ''started_at'' (SqlTimestamp True) True None,
     Column ''completed_at'' (SqlTimestamp True) True None,
     Column ''expires_at'' (SqlTimestamp True) True None,
     Column ''error'' SqlText True None,
     Column ''metadata'' SqlJsonb True None,
     Column ''created_at'' (SqlTimestamp True) False (Some (Expression ''now()'')),
     Column ''updated_at'' (SqlTimestamp True) False (Some (Expression ''now()''))]
    [ForeignKey [''agent_id''] ''agents'' [''id''] (Some Cascade),
     ForeignKey [''tenant_id''] ''tenants'' [''id''] (Some Cascade),
     ForeignKey [''workflow_id''] ''workflows'' [''id''] (Some Cascade)]
    [''id'']
    []"

definition workflow_rules_table :: table_def where
  "workflow_rules_table = Table ''workflow_rules''
    [Column ''id'' SqlUuid False None,
     Column ''tenant_id'' SqlUuid False None,
     Column ''workflow_id'' SqlUuid True None,
     Column ''name'' (SqlString (Some 255)) False None,
     Column ''priority'' SqlInteger False (Some (Literal ''100'')),
     Column ''enabled'' SqlBoolean False (Some (Literal ''true'')),
     Column ''conditions'' SqlJsonb False None,
     Column ''actions'' SqlJsonb False None,
     Column ''else_actions'' SqlJsonb True None,
     Column ''metadata'' SqlJsonb True None,
     Column ''created_at'' (SqlTimestamp True) False (Some (Expression ''now()'')),
     Column ''updated_at'' (SqlTimestamp True) False (Some (Expression ''now()''))]
    [ForeignKey [''tenant_id''] ''tenants'' [''id''] (Some Cascade),
     ForeignKey [''workflow_id''] ''workflows'' [''id''] (Some Cascade)]
    [''id'']
    []"

definition workflow_approvals_table :: table_def where
  "workflow_approvals_table = Table ''workflow_approvals''
    [Column ''id'' SqlUuid False None,
     Column ''tenant_id'' SqlUuid False None,
     Column ''execution_id'' SqlUuid False None,
     Column ''agent_id'' SqlUuid False None,
     Column ''conversation_id'' SqlUuid False None,
     Column ''approval_mode'' (SqlString (Some 32)) False None,
     Column ''status'' (SqlString (Some 32)) False (Some (Literal ''pending'')),
     Column ''approver_role'' (SqlString (Some 128)) True None,
     Column ''approver_id'' (SqlString (Some 128)) True None,
     Column ''step_order'' SqlInteger False (Some (Literal ''0'')),
     Column ''reason'' SqlText True None,
     Column ''expires_at'' (SqlTimestamp True) True None,
     Column ''decided_at'' (SqlTimestamp True) True None,
     Column ''metadata'' SqlJsonb True None,
     Column ''created_at'' (SqlTimestamp True) False (Some (Expression ''now()'')),
     Column ''updated_at'' (SqlTimestamp True) False (Some (Expression ''now()''))]
    [ForeignKey [''agent_id''] ''agents'' [''id''] (Some Cascade),
     ForeignKey [''execution_id''] ''workflow_executions'' [''id''] (Some Cascade),
     ForeignKey [''tenant_id''] ''tenants'' [''id''] (Some Cascade)]
    [''id'']
    []"

definition workflow_escalations_table :: table_def where
  "workflow_escalations_table = Table ''workflow_escalations''
    [Column ''id'' SqlUuid False None,
     Column ''tenant_id'' SqlUuid False None,
     Column ''execution_id'' SqlUuid False None,
     Column ''agent_id'' SqlUuid False None,
     Column ''conversation_id'' SqlUuid False None,
     Column ''target'' (SqlString (Some 64)) False None,
     Column ''reason'' SqlText False None,
     Column ''context_snapshot'' SqlJsonb True None,
     Column ''status'' (SqlString (Some 32)) False (Some (Literal ''pending'')),
     Column ''metadata'' SqlJsonb True None,
     Column ''created_at'' (SqlTimestamp True) False (Some (Expression ''now()'')),
     Column ''updated_at'' (SqlTimestamp True) False (Some (Expression ''now()''))]
    [ForeignKey [''agent_id''] ''agents'' [''id''] (Some Cascade),
     ForeignKey [''execution_id''] ''workflow_executions'' [''id''] (Some Cascade),
     ForeignKey [''tenant_id''] ''tenants'' [''id''] (Some Cascade)]
    [''id'']
    []"

definition business_policies_table :: table_def where
  "business_policies_table = Table ''business_policies''
    [Column ''id'' SqlUuid False None,
     Column ''tenant_id'' SqlUuid False None,
     Column ''policy_key'' (SqlString (Some 128)) False None,
     Column ''policy_value'' SqlJsonb False None,
     Column ''enabled'' SqlBoolean False (Some (Literal ''true'')),
     Column ''department'' (SqlString (Some 128)) True None,
     Column ''metadata'' SqlJsonb True None,
     Column ''created_at'' (SqlTimestamp True) False (Some (Expression ''now()'')),
     Column ''updated_at'' (SqlTimestamp True) False (Some (Expression ''now()''))]
    [ForeignKey [''tenant_id''] ''tenants'' [''id''] (Some Cascade)]
    [''id'']
    [(Some ''uq_business_policies_key'', [''tenant_id'', ''policy_key''])]"

definition routing_rules_table :: table_def where
  "routing_rules_table = Table ''routing_rules''
    [Column ''id'' SqlUuid False None,
     Column ''tenant_id'' SqlUuid False None,
     Column ''name'' (SqlString (Some 255)) False None,
     Column ''strategy'' (SqlString (Some 32)) False None,
     Column ''priority'' SqlInteger False (Some (Literal ''100'')),
     Column ''enabled'' SqlBoolean False (Some (Literal ''true'')),
     Column ''conditions'' SqlJsonb False None,
     Column ''target'' SqlJsonb False None,
     Column ''metadata'' SqlJsonb True None,
     Column ''created_at'' (SqlTimestamp True) False (Some (Expression ''now()'')),
     Column ''updated_at'' (SqlTimestamp True) False (Some (Expression ''now()''))]
    [ForeignKey [''tenant_id''] ''tenants'' [''id''] (Some Cascade)]
    [''id'']
    []"

definition workflow_audit_logs_table :: table_def where
  "workflow_audit_logs_table = Table ''workflow_audit_logs''
    [Column ''id'' SqlUuid False None,
     Column ''tenant_id'' SqlUuid False None,
     Column ''agent_id'' SqlUuid False None,
     Column ''execution_id'' SqlUuid True None,
     Column ''conversation_id'' SqlUuid True None,
     Column ''event_type'' (SqlString (Some 64)) False None,
     Column ''payload'' SqlJsonb True None,
     Column ''operator'' (SqlString (Some 128)) True None,
     Column ''occurred_at'' (SqlTimestamp True) False None,
     Column ''created_at'' (SqlTimestamp True) False (Some (Expression ''now()'')),
     Column ''updated_at'' (SqlTimestamp True) False (Some (Expression ''now()''))]
    [ForeignKey [''agent_id''] ''agents'' [''id''] (Some Cascade),
     ForeignKey [''execution_id''] ''workflow_executions'' [''id''] (Some SetNull),
     ForeignKey [''tenant_id''] ''tenants'' [''id''] (Some Cascade)]
    [''id'']
    []"

definition upgrade_007 :: "ddl list" where
  "upgrade_007 = [
    CreateTable workflows_table,
    CreateIndex (IndexDef ''ix_workflows_tenant_id'' ''workflows'' [''tenant_id''] False),
    CreateIndex (IndexDef ''ix_workflows_slug'' ''workflows'' [''slug''] False),
    CreateTable workflow_executions_table,
    CreateIndex (IndexDef ''ix_workflow_executions_conversation_id'' ''workflow_executions'' [''conversation_id''] False),
    CreateTable workflow_rules_table,
    CreateTable workflow_approvals_table,
    CreateTable workflow_escalations_table,
    CreateTable business_policies_table,
    CreateTable routing_rules_table,
    CreateTable workflow_audit_logs_table]"

definition downgrade_007 :: "ddl list" where
  "downgrade_007 = [
    DropTable ''workflow_audit_logs'',
    DropTable ''routing_rules'',
    DropTable ''business_policies'',
    DropTable ''workflow_escalations'',
    DropTable ''workflow_approvals'',
    DropTable ''workflow_rules'',
    DropTable ''workflow_executions'',
    DropTable ''workflows'']"

definition revision_007 :: revision where
  "revision_007 = Revision ''007_enterprise_workflow'' (Some ''006_enterprise_verifier'') upgrade_007 downgrade_007"

section \<open>\<^verbatim>\<open>008_enterprise_iam\<close>\<close>

definition organizations_table :: table_def where
  "organizations_table = Table ''organizations''
    [Column ''id'' SqlUuid False None,
     Column ''tenant_id'' SqlUuid False None,
     Column ''company_name'' (SqlString (Some 255)) False None,
     Column ''slug'' (SqlString (Some 128)) False None,
     Column ''plan'' (SqlString (Some 32)) False (Some (Literal ''free'')),
     Column ''status'' (SqlString (Some 32)) False (Some (Literal ''active'')),
     Column ''region'' (SqlString (Some 64)) True None,
     Column ''owner_user_id'' SqlUuid True None,
     Column ''timezone'' (SqlString (Some 64)) False (Some (Literal ''UTC'')),
     Column ''language'' (SqlString (Some 16)) False (Some (Literal ''en'')),
     Column ''branding'' SqlJsonb True None,
     Column ''security_policy'' SqlJsonb True None,
     Column ''billing'' SqlJsonb True None,
     Column ''metadata'' SqlJsonb True None,
     Column ''created_at'' (SqlTimestamp True) False (Some (Expression ''now()'')),
     Column ''updated_at'' (SqlTimestamp True) False (Some (Expression ''now()''))]
    [ForeignKey [''tenant_id''] ''tenants'' [''id''] (Some Cascade)]
    [''id'']
    [(None, [''tenant_id''])]"

definition iam_users_table :: table_def where
  "iam_users_table = Table ''iam_users''
    [Column ''id'' SqlUuid False None,
     Column ''email'' (SqlString (Some 320)) False None,
     Column ''password_hash'' (SqlString (Some 255)) True None,
     Column ''name'' (SqlString (Some 255)) False None,
     Column ''avatar_url'' (SqlString (Some 2048)) True None,
     Column ''status'' (SqlString (Some 32)) False (Some (Literal ''active'')),
     Column ''mfa_enabled'' SqlBoolean False (Some (Literal ''false'')),
     Column ''last_login_at'' (SqlTimestamp True) True None,
     Column ''metadata'' SqlJsonb True None,
     Column ''created_at'' (SqlTimestamp True) False (Some (Expression ''now()'')),
     Column ''updated_at'' (SqlTimestamp True) False (Some (Expression ''now()''))]
    []
    [''id'']
    [(None, [''email''])]"

definition organization_memberships_table :: table_def where
  "organization_memberships_table = Table ''organization_memberships''
    [Column ''id'' SqlUuid False None,
     Column ''organization_id'' SqlUuid False None,
     Column ''user_id'' SqlUuid False None,
     Column ''role_slug'' (SqlString (Some 64)) False None,
     Column ''department'' (SqlString (Some 128)) True None,
     Column ''title'' (SqlString (Some 128)) True None,
     Column ''status'' (SqlString (Some 32)) False (Some (Literal ''active'')),
     Column ''invited_at'' (SqlTimestamp True) True None,
     Column ''joined_at'' (SqlTimestamp True) True None,
     Column ''created_at'' (SqlTimestamp True) False (Some (Expression ''now()'')),
     Column ''updated_at'' (SqlTimestamp True) False (Some (Expression ''now()''))]
    [ForeignKey [''organization_id''] ''organizations'' [''id''] (Some Cascade),
     ForeignKey [''user_id''] ''iam_users'' [''id''] (Some Cascade)]
    [''id'']
    [(Some ''uq_org_membership_user'', [''organization_id'', ''user_id''])]"

definition iam_roles_table :: table_def where
  "iam_roles_table = Table ''iam_roles''
    [Column ''id'' SqlUuid False None,
     Column ''organization_id'' SqlUuid True None,
     Column ''slug'' (SqlString (Some 64)) False None,
     Column ''name'' (SqlString (Some 128)) False None,
     Column ''description'' SqlText True None,
     Column ''is_system'' SqlBoolean False (Some (Literal ''false'')),
     Column ''inherits_from'' (SqlArray (SqlString None)) True None,
     Column ''permissions'' (SqlArray (SqlString None)) True None,
     Column ''created_at'' (SqlTimestamp True) False (Some (Expression ''now()'')),
     Column ''updated_at'' (SqlTimestamp True) False (Some (Expression ''now()''))]
    [ForeignKey [''organization_id''] ''organizations'' [''id''] (Some Cascade)]
    [''id'']
    [(Some ''uq_iam_roles_org_slug'', [''organization_id'', ''slug''])]"

definition iam_api_keys_table :: table_def where
  "iam_api_keys_table = Table ''iam_api_keys''
    [Column ''id'' SqlUuid False None,
     Column ''organization_id'' SqlUuid False None,
     Column ''name'' (SqlString (Some 255)) False None,
     Column ''key_prefix'' (SqlString (Some 16)) False None,
     Column ''key_hash'' (SqlString (Some 128)) False None,
     Column ''scopes'' (SqlArray (SqlString None)) True None,
     Column ''permissions'' (SqlArray (SqlString None)) True None,
     Column ''environment'' (SqlString (Some 32)) False (Some (Literal ''production'')),
     Column ''status'' (SqlString (Some 32)) False (Some (Literal ''active'')),
     Column ''created_by'' SqlUuid True None,
     Column ''last_used_at'' (SqlTimestamp True) True None,
     Column ''expires_at'' (SqlTimestamp True) True None,
     Column ''metadata'' SqlJsonb True None,
     Column ''created_at'' (SqlTimestamp True) False (Some (Expression ''now()'')),
     Column ''updated_at'' (SqlTimestamp True) False (Some (Expression ''now()''))]
    [ForeignKey [''organization_id''] ''organizations'' [''id''] (Some Cascade)]
    [''id'']
    []"

definition iam_sessions_table :: table_def where
  "iam_sessions_table = Table ''iam_sessions''
    [Column ''id'' SqlUuid False None,
     Column ''user_id'' SqlUuid False None,
     Column ''organization_id'' SqlUuid True None,
     Column ''token_hash'' (SqlString (Some 128)) False None,
     Column ''refresh_token_hash'' (SqlString (Some 128)) True None,
     Column ''browser'' (SqlString (Some 255)) True None,
     Column ''ip_address'' (SqlString (Some 45)) True None,
     Column ''country'' (SqlString (Some 64)) True None,
     Column ''device'' (SqlString (Some 255)) True None,
     Column ''status'' (SqlString (Some 32)) False (Some (Literal ''active'')),
     Column ''expires_at'' (SqlTimestamp True) False None,
     Column ''revoked_at'' (SqlTimestamp True) True None,
     Column ''created_at'' (SqlTimestamp True) False (Some (Expression ''now()'')),
     Column ''updated_at'' (SqlTimestamp True) False (Some (Expression ''now()''))]
    [ForeignKey [''organization_id''] ''organizations'' [''id''] (Some SetNull),
     ForeignKey [''user_id''] ''iam_users'' [''id''] (Some Cascade)]
    [''id'']
    []"

definition iam_security_policies_table :: table_def where
  "iam_security_policies_table = Table ''iam_security_policies''
    [Column ''id'' SqlUuid False None,
     Column ''organization_id'' SqlUuid False None,
     Column ''password_min_length'' SqlInteger False (Some (Literal ''12'')),
     Column ''session_timeout_seconds'' SqlInteger False (Some (Literal ''3600'')),
     Column ''mfa_required'' SqlBoolean False (Some (Literal ''false'')),
     Column ''allowed_domains'' (SqlArray (SqlString None)) True None,
     Column ''ip_allowlist'' (SqlArray (SqlString None)) True None,
     Column ''rate_limits'' SqlJsonb True None,
     Column ''api_limits'' SqlJsonb True None,
     Column ''data_retention_days'' SqlInteger True None,
     Column ''config'' SqlJsonb True None,
     Column ''created_at'' (SqlTimestamp True) False (Some (Expression ''now()'')),
     Column ''updated_at'' (SqlTimestamp True) False (Some (Expression ''now()''))]
    [ForeignKey [''organization_id''] ''organizations'' [''id''] (Some Cascade)]
    [''id'']
    [(None, [''organization_id''])]"

definition iam_security_events_table :: table_def where
  "iam_security_events_table = Table ''iam_security_events''
    [Column ''id'' SqlUuid False None,
     Column ''organization_id'' SqlUuid True None,
     Column ''user_id'' SqlUuid True None,
     Column ''event_type'' (SqlString (Some 64)) False None,
     Column ''severity'' (SqlString (Some 32)) False (Some (Literal ''info'')),
     Column ''ip_address'' (SqlString (Some 45)) True None,
     Column ''payload'' SqlJsonb True None,
     Column ''created_at'' (SqlTimestamp True) False (Some (Expression ''now()'')),
     Column ''updated_at'' (SqlTimestamp True) False (Some (Expression ''now()''))]
    [ForeignKey [''organization_id''] ''organizations'' [''id''] (Some SetNull),
     ForeignKey [''user_id''] ''iam_users'' [''id''] (Some SetNull)]
    [''id'']
    []"

definition iam_audit_logs_table :: table_def where
  "iam_audit_logs_table = Table ''iam_audit_logs''
    [Column ''id'' SqlUuid False None,
     Column ''organization_id'' SqlUuid False None,
     Column ''actor_user_id'' SqlUuid True None,
     Column ''actor_type'' (SqlString (Some 32)) False (Some (Literal ''user'')),
     Column ''action'' (SqlString (Some 128)) False None,
     Column ''resource_type'' (SqlString (Some 64)) False None,
     Column ''resource_id'' (SqlString (Some 255)) True None,
     Column ''ip_address'' (SqlString (Some 45)) True None,
     Column ''payload'' SqlJsonb True None,
     Column ''occurred_at'' (SqlTimestamp True) False None]
    [ForeignKey [''organization_id''] ''organizations'' [''id''] (Some Cascade)]
    [''id'']
    []"

definition oauth_identities_table :: table_def where
  "oauth_identities_table = Table ''oauth_identities''
    [Column ''id'' SqlUuid False None,
     Column ''user_id'' SqlUuid False None,
     Column ''provider'' (SqlString (Some 32)) False None,
     Column ''provider_user_id'' (SqlString (Some 255)) False None,
     Column ''token_encrypted'' SqlText True None,
     Column ''created_at'' (SqlTimestamp True) False (Some (Expression ''now()'')),
     Column ''updated_at'' (SqlTimestamp True) False (Some (Expression ''now()''))]
    [ForeignKey [''user_id''] ''iam_users'' [''id''] (Some Cascade)]
    [''id'']
    [(Some ''uq_oauth_provider_user'', [''provider'', ''provider_user_id''])]"

definition sso_providers_table :: table_def where
  "sso_providers_table = Table ''sso_providers''
    [Column ''id'' SqlUuid False None,
     Column ''organization_id'' SqlUuid False None,
     Column ''provider_type'' (SqlString (Some 32)) False None,
     Column ''name'' (SqlString (Some 255)) False None,
     Column ''config_encrypted'' SqlText True None,
     Column ''enabled'' SqlBoolean False (Some (Literal ''false'')),
     Column ''created_at'' (SqlTimestamp True) False (Some (Expression ''now()'')),
     Column ''updated_at'' (SqlTimestamp True) False (Some (Expression ''now()''))]
    [ForeignKey [''organization_id''] ''organizations'' [''id''] (Some Cascade)]
    [''id'']
    []"

definition mfa_factors_table :: table_def where
  "mfa_factors_table = Table ''mfa_factors''
    [Column ''id'' SqlUuid False None,
     Column ''user_id'' SqlUuid False None,
     Column ''factor_type'' (SqlString (Some 32)) False None,
     Column ''secret_encrypted'' SqlText True None,
     Column ''verified'' SqlBoolean False (Some (Literal ''false'')),
     Column ''backup_codes_hash'' SqlText True None,
     Column ''created_at'' (SqlTimestamp True) False (Some (Expression ''now()'')),
     Column ''updated_at'' (SqlTimestamp True) False (Some (Expression ''now()''))]
    [ForeignKey [''user_id''] ''iam_users'' [''id''] (Some Cascade)]
    [''id'']
    []"

definition compliance_settings_table :: table_def where
  "compliance_settings_table = Table ''compliance_settings''
    [Column ''id'' SqlUuid False None,
     Column ''organization_id'' SqlUuid False None,
     Column ''frameworks'' (SqlArray (SqlString None)) True None,
     Column ''data_residency'' (SqlString (Some 64)) True None,
     Column ''consent_management'' SqlJsonb True None,
     Column ''right_to_delete_enabled'' SqlBoolean False (Some (Literal ''true'')),
     Column ''config'' SqlJsonb True None,
     Column ''created_at'' (SqlTimestamp True) False (Some (Expression ''now()'')),
     Column ''updated_at'' (SqlTimestamp True) False (Some (Expression ''now()''))]
    [ForeignKey [''organization_id''] ''organizations'' [''id''] (Some Cascade)]
    [''id'']
    [(None, [''organization_id''])]"

definition upgrade_008 :: "ddl list" where
  "upgrade_008 = [
    CreateTable organizations_table,
    CreateIndex (IndexDef ''ix_organizations_slug'' ''organizations'' [''slug''] False),
    CreateTable iam_users_table,
    CreateTable organization_memberships_table,
    CreateTable iam_roles_table,
    CreateTable iam_api_keys_table,
    CreateTable iam_sessions_table,
    CreateTable iam_security_policies_table,
    CreateTable iam_security_events_table,
    CreateTable iam_audit_logs_table,
    CreateTable oauth_identities_table,
    CreateTable sso_providers_table,
    CreateTable mfa_factors_table,
    CreateTable compliance_settings_table]"

definition downgrade_008 :: "ddl list" where
  "downgrade_008 = map DropTable
    [''compliance_settings'',
     ''mfa_factors'',
     ''sso_providers'',
     ''oauth_identities'',
     ''iam_audit_logs'',
     ''iam_security_events'',
     ''iam_security_policies'',
     ''iam_sessions'',
     ''iam_api_keys'',
     ''iam_roles'',
     ''organization_memberships'',
     ''iam_users'',
     ''organizations'']"

definition revision_008 :: revision where
  "revision_008 = Revision ''008_enterprise_iam'' (Some ''007_enterprise_workflow'') upgrade_008 downgrade_008"

section \<open>\<^verbatim>\<open>009_knowledge_production\<close>\<close>

definition knowledge_vectors_table :: table_def where
  "knowledge_vectors_table = Table ''knowledge_vectors''
    [Column ''id'' SqlUuid False None,
     Column ''namespace'' (SqlString (Some 256)) False None,
     Column ''vector_id'' (SqlString (Some 256)) False None,
     Column ''embedding'' SqlJsonb False None,
     Column ''metadata'' SqlJsonb True None,
     Column ''dimensions'' SqlInteger False None,
     Column ''created_at'' (SqlTimestamp True) False (Some (Expression ''now()'')),
     Column ''updated_at'' (SqlTimestamp True) False (Some (Expression ''now()''))]
    []
    [''id'']
    [(Some ''uq_knowledge_vectors_namespace_vector_id'', [''namespace'', ''vector_id''])]"

definition knowledge_ingestion_jobs_table :: table_def where
  "knowledge_ingestion_jobs_table = Table ''knowledge_ingestion_jobs''
    [Column ''id'' SqlUuid False None,
     Column ''tenant_id'' SqlUuid False None,
     Column ''source_id'' SqlUuid False None,
     Column ''status'' (SqlString (Some 32)) False (Some (Literal ''queued'')),
     Column ''stage'' (SqlString (Some 32)) True None,
     Column ''progress_pct'' SqlInteger False (Some (Literal ''0'')),
     Column ''retry_count'' SqlInteger False (Some (Literal ''0'')),
     Column ''max_retries'' SqlInteger False (Some (Literal ''3'')),
     Column ''worker_id'' (SqlString (Some 64)) True None,
     Column ''error'' SqlText True None,
     Column ''submitted_at'' (SqlTimestamp True) False (Some (Expression ''now()'')),
     Column ''started_at'' (SqlTimestamp True) True None,
     Column ''completed_at'' (SqlTimestamp True) True None]
    [ForeignKey [''source_id''] ''knowledge_sources'' [''id''] (Some Cascade),
     ForeignKey [''tenant_id''] ''tenants'' [''id''] (Some Cascade)]
    [''id'']
    []"

definition upgrade_009 :: "ddl list" where
  "upgrade_009 = [
    CreateTable knowledge_vectors_table,
    CreateIndex (IndexDef ''ix_knowledge_vectors_namespace'' ''knowledge_vectors'' [''namespace''] False),
    CreateTable knowledge_ingestion_jobs_table,
    CreateIndex (IndexDef ''ix_knowledge_ingestion_jobs_tenant_id'' ''knowledge_ingestion_jobs'' [''tenant_id''] False),
    CreateIndex (IndexDef ''ix_knowledge_ingestion_jobs_source_id'' ''knowledge_ingestion_jobs'' [''source_id''] False),
    CreateIndex (IndexDef ''ix_knowledge_ingestion_jobs_status'' ''knowledge_ingestion_jobs'' [''status''] False),
    AddColumn ''knowledge_sources'' (Column ''file_hash'' (SqlString (Some 64)) True None),
    CreateIndex (IndexDef ''ix_knowledge_sources_file_hash'' ''knowledge_sources'' [''file_hash''] False),
    CreateIndex (IndexDef ''ix_knowledge_chunks_tenant_source'' ''knowledge_chunks'' [''tenant_id'', ''source_id''] False)]"

definition downgrade_009 :: "ddl list" where
  "downgrade_009 = [
    DropIndex ''ix_knowledge_chunks_tenant_source'' ''knowledge_chunks'',
    DropIndex ''ix_knowledge_sources_file_hash'' ''knowledge_sources'',
    DropColumn ''knowledge_sources'' ''file_hash'',
    DropTable ''knowledge_ingestion_jobs'',
    DropIndex ''ix_knowledge_vectors_namespace'' ''knowledge_vectors'',
    DropTable ''knowledge_vectors'']"

definition revision_009 :: revision where
  "revision_009 = Revision ''009_knowledge_production'' (Some ''008_enterprise_iam'') upgrade_009 downgrade_009"

section \<open>\<^verbatim>\<open>010_integrations\<close>\<close>

definition integration_connections_table :: table_def where
  "integration_connections_table = Table ''integration_connections''
    [Column ''id'' SqlUuid False None,
     Column ''tenant_id'' SqlUuid False None,
     Column ''provider_slug'' (SqlString (Some 64)) False None,
     Column ''category'' (SqlString (Some 32)) False None,
     Column ''auth_type'' (SqlString (Some 32)) False None,
     Column ''status'' (SqlString (Some 32)) False (Some (Literal ''pending'')),
     Column ''display_name'' (SqlString (Some 256)) False None,
     Column ''config'' SqlJsonb True None,
     Column ''oauth_scopes'' SqlJsonb True None,
     Column ''sync_schedule_cron'' (SqlString (Some 128)) True None,
     Column ''last_sync_at'' (SqlTimestamp True) True None,
     Column ''last_health_at'' (SqlTimestamp True) True None,
     Column ''health_status'' (SqlString (Some 32)) False (Some (Literal ''unknown'')),
     Column ''error_message'' SqlText True None,
     Column ''webhook_secret_hash'' (SqlString (Some 128)) True None,
     Column ''created_at'' (SqlTimestamp True) False (Some (Expression ''now()'')),
     Column ''updated_at'' (SqlTimestamp True) False (Some (Expression ''now()''))]
    [ForeignKey [''tenant_id''] ''tenants'' [''id''] (Some Cascade)]
    [''id'']
    []"

definition integration_credentials_table :: table_def where
  "integration_credentials_table = Table ''integration_credentials''
    [Column ''id'' SqlUuid False None,
     Column ''connection_id'' SqlUuid False None,
     Column ''credential_type'' (SqlString (Some 32)) False None,
     Column ''encrypted_payload'' SqlText False None,
     Column ''expires_at'' (SqlTimestamp True) True None,
     Column ''rotated_at'' (SqlTimestamp True) True None,
     Column ''created_at'' (SqlTimestamp True) False (Some (Expression ''now()'')),
     Column ''updated_at'' (SqlTimestamp True) False (Some (Expression ''now()''))]
    [ForeignKey [''connection_id''] ''integration_connections'' [''id''] (Some Cascade)]
    [''id'']
    []"

definition integration_field_mappings_table :: table_def where
  "integration_field_mappings_table = Table ''integration_field_mappings''
    [Column ''id'' SqlUuid False None,
     Column ''connection_id'' SqlUuid False None,
     Column ''entity_type'' (SqlString (Some 32)) False None,
     Column ''source_field'' (SqlString (Some 256)) False None,
     Column ''target_field'' (SqlString (Some 256)) False None,
     Column ''transform'' SqlJsonb True None,
     Column ''is_active'' SqlBoolean False (Some (Expression ''true'')),
     Column ''created_at'' (SqlTimestamp True) False (Some (Expression ''now()'')),
     Column ''updated_at'' (SqlTimestamp True) False (Some (Expression ''now()''))]
    [ForeignKey [''connection_id''] ''integration_connections'' [''id''] (Some Cascade)]
    [''id'']
    [(Some ''uq_integration_field_mapping'', [''connection_id'', ''entity_type'', ''source_field''])]"

definition integration_sync_jobs_table :: table_def where
  "integration_sync_jobs_table = Table ''integration_sync_jobs''
    [Column ''id'' SqlUuid False None,
     Column ''tenant_id'' SqlUuid False None,
     Column ''connection_id'' SqlUuid False None,
     Column ''sync_mode'' (SqlString (Some 32)) False None,
     Column ''entity_types'' SqlJsonb False None,
     Column ''status'' (SqlString (Some 32)) False (Some (Literal ''queued'')),
     Column ''progress_pct'' SqlInteger False (Some (Literal ''0'')),
     Column ''records_processed'' SqlInteger False (Some (Literal ''0'')),
     Column ''records_failed'' SqlInteger False (Some (Literal ''0'')),
     Column ''cursor_state'' SqlJsonb True None,
     Column ''retry_count'' SqlInteger False (Some (Literal ''0'')),
     Column ''max_retries'' SqlInteger False (Some (Literal ''3'')),
     Column ''worker_id'' (SqlString (Some 64)) True None,
     Column ''error'' SqlText True None,
     Column ''submitted_at'' (SqlTimestamp True) False (Some (Expression ''now()'')),
     Column ''started_at'' (SqlTimestamp True) True None,
     Column ''completed_at'' (SqlTimestamp True) True None]
    [ForeignKey [''connection_id''] ''integration_connections'' [''id''] (Some Cascade),
     ForeignKey [''tenant_id''] ''tenants'' [''id''] (Some Cascade)]
    [''id'']
    []"

definition integration_sync_cursors_table :: table_def where
  "integration_sync_cursors_table = Table ''integration_sync_cursors''
    [Column ''id'' SqlUuid False None,
     Column ''connection_id'' SqlUuid False None,
     Column ''entity_type'' (SqlString (Some 32)) False None,
     Column ''cursor_value'' (SqlString (Some 512)) True None,
     Column ''last_sync_at'' (SqlTimestamp True) True None,
     Column ''updated_at'' (SqlTimestamp True) False (Some (Expression ''now()''))]
    [ForeignKey [''connection_id''] ''integration_connections'' [''id''] (Some Cascade)]
    [''id'']
    [(Some ''uq_integration_sync_cursor'', [''connection_id'', ''entity_type''])]"

definition integration_webhook_events_table :: table_def where
  "integration_webhook_events_table = Table ''integration_webhook_events''
    [Column ''id'' SqlUuid False None,
     Column ''connection_id'' SqlUuid False None,
     Column ''event_id'' (SqlString (Some 256)) False None,
     Column ''provider_event_type'' (SqlString (Some 128)) True None,
     Column ''payload_hash'' (SqlString (Some 64)) False None,
     Column ''status'' (SqlString (Some 32)) False (Some (Literal ''received'')),
     Column ''received_at'' (SqlTimestamp True) False (Some (Expression ''now()'')),
     Column ''processed_at'' (SqlTimestamp True) True None]
    [ForeignKey [''connection_id''] ''integration_connections'' [''id''] (Some Cascade)]
    [''id'']
    [(Some ''uq_integration_webhook_event'', [''connection_id'', ''event_id''])]"

definition integration_webhook_dlq_table :: table_def where
  "integration_webhook_dlq_table = Table ''integration_webhook_dlq''
    [Column ''id'' SqlUuid False None,
     Column ''connection_id'' SqlUuid False None,
     Column ''event_id'' (SqlString (Some 256)) False None,
     Column ''payload'' SqlJsonb False None,
     Column ''error'' SqlText True None,
     Column ''retry_count'' SqlInteger False (Some (Literal ''0'')),
     Column ''created_at'' (SqlTimestamp True) False (Some (Expression ''now()''))]
    [ForeignKey [''connection_id''] ''integration_connections'' [''id''] (Some Cascade)]
    [''id'']
    []"

definition integration_audit_logs_table :: table_def where
  "integration_audit_logs_table = Table ''integration_audit_logs''
    [Column ''id'' SqlUuid False None,
     Column ''tenant_id'' SqlUuid False None,
     Column ''connection_id'' SqlUuid True None,
     Column ''action'' (SqlString (Some 64)) False None,
     Column ''detail'' SqlJsonb True None,
     Column ''created_at'' (SqlTimestamp True) False (Some (Expression ''now()''))]
    [ForeignKey [''connection_id''] ''integration_connections'' [''id''] (Some SetNull),
     ForeignKey [''tenant_id''] ''tenants'' [''id''] (Some Cascade)]
    [''id'']
    []"

definition upgrade_010 :: "ddl list" where
  "upgrade_010 = [
    CreateTable integration_connections_table,
    CreateIndex (IndexDef ''ix_integration_connections_tenant_id'' ''integration_connections'' [''tenant_id''] False),
    CreateIndex (IndexDef ''ix_integration_connections_provider_slug'' ''integration_connections'' [''provider_slug''] False),
    CreateIndex (IndexDef ''ix_integration_connections_status'' ''integration_connections'' [''status''] False),
    CreateTable integration_credentials_table,
    CreateIndex (IndexDef ''ix_integration_credentials_connection_id'' ''integration_credentials'' [''connection_id''] False),
    CreateTable integration_field_mappings_table,
    CreateIndex (IndexDef ''ix_integration_field_mappings_connection_id'' ''integration_field_mappings'' [''connection_id''] False),
    CreateTable integration_sync_jobs_table,
    CreateIndex (IndexDef ''ix_integration_sync_jobs_tenant_id'' ''integration_sync_jobs'' [''tenant_id''] False),
    CreateIndex (IndexDef ''ix_integration_sync_jobs_connection_id'' ''integration_sync_jobs'' [''connection_id''] False),
    CreateIndex (IndexDef ''ix_integration_sync_jobs_status'' ''integration_sync_jobs'' [''status''] False),
    CreateTable integration_sync_cursors_table,
    CreateIndex (IndexDef ''ix_integration_sync_cursors_connection_id'' ''integration_sync_cursors'' [''connection_id''] False),
    CreateTable integration_webhook_events_table,
    CreateIndex (IndexDef ''ix_integration_webhook_events_connection_id'' ''integration_webhook_events'' [''connection_id''] False),
    CreateIndex (IndexDef ''ix_integration_webhook_events_status'' ''integration_webhook_events'' [''status''] False),
    CreateTable integration_webhook_dlq_table,
    CreateIndex (IndexDef ''ix_integration_webhook_dlq_connection_id'' ''integration_webhook_dlq'' [''connection_id''] False),
    CreateTable integration_audit_logs_table,
    CreateIndex (IndexDef ''ix_integration_audit_logs_tenant_id'' ''integration_audit_logs'' [''tenant_id''] False),
    CreateIndex (IndexDef ''ix_integration_audit_logs_connection_id'' ''integration_audit_logs'' [''connection_id''] False),
    CreateIndex (IndexDef ''ix_integration_audit_logs_action'' ''integration_audit_logs'' [''action''] False),
    CreateIndex (IndexDef ''ix_integration_audit_logs_created_at'' ''integration_audit_logs'' [''created_at''] False)]"

definition downgrade_010 :: "ddl list" where
  "downgrade_010 = [
    DropTable ''integration_audit_logs'',
    DropTable ''integration_webhook_dlq'',
    DropTable ''integration_webhook_events'',
    DropTable ''integration_sync_cursors'',
    DropTable ''integration_sync_jobs'',
    DropTable ''integration_field_mappings'',
    DropTable ''integration_credentials'',
    DropTable ''integration_connections'']"

definition revision_010 :: revision where
  "revision_010 = Revision ''010_integrations'' (Some ''009_knowledge_production'') upgrade_010 downgrade_010"

definition MIGRATIONS :: "revision list" where
  "MIGRATIONS = [revision_001, revision_002, revision_003, revision_004, revision_005, revision_006, revision_007, revision_008, revision_009, revision_010]"

section \<open>The contracts of the migrations\<close>

definition contract_001 :: contract where
  "contract_001 = Contract upgrade_001
    []
    [NeedKey ''tenants'' [''id''] [Some SqlUuid],
     NeedKey ''agents'' [''id''] [Some SqlUuid]]"

definition contract_002 :: contract where
  "contract_002 = Contract upgrade_002
    [NeedKey ''tenants'' [''id''] [Some SqlUuid]]
    [NeedKey ''knowledge_sources'' [''id''] [Some SqlUuid],
     NeedSpace ''knowledge_sources'' ''file_hash'',
     NeedColumns ''knowledge_sources'' [],
     NeedColumns ''knowledge_chunks'' [''tenant_id'', ''source_id'']]"

definition contract_003 :: contract where
  "contract_003 = Contract upgrade_003
    [NeedKey ''agents'' [''id''] [Some SqlUuid],
     NeedKey ''tenants'' [''id''] [Some SqlUuid]]
    []"

definition contract_004 :: contract where
  "contract_004 = Contract upgrade_004
    [NeedKey ''agents'' [''id''] [Some SqlUuid],
     NeedKey ''tenants'' [''id''] [Some SqlUuid]]
    []"

definition contract_005 :: contract where
  "contract_005 = Contract upgrade_005
    [NeedKey ''agents'' [''id''] [Some SqlUuid],
     NeedKey ''tenants'' [''id''] [Some SqlUuid]]
    []"

definition contract_006 :: contract where
  "contract_006 = Contract upgrade_006
    [NeedKey ''agents'' [''id''] [Some SqlUuid],
     NeedKey ''tenants'' [''id''] [Some SqlUuid]]
    []"

definition contract_007 :: contract where
  "contract_007 = Contract upgrade_007
    [NeedKey ''tenants'' [''id''] [Some SqlUuid],
     NeedKey ''agents'' [''id''] [Some SqlUuid]]
    []"

definition contract_008 :: contract where
  "contract_008 = Contract upgrade_008
    [NeedKey ''tenants'' [''id''] [Some SqlUuid]]
    []"

definition contract_009 :: contract where
  "contract_009 = Contract upgrade_009
    [NeedKey ''knowledge_sources'' [''id''] [Some SqlUuid],
     NeedKey ''tenants'' [''id''] [Some SqlUuid],
     NeedSpace ''knowledge_sources'' ''file_hash'',
     NeedColumns ''knowledge_sources'' [],
     NeedColumns ''knowledge_chunks'' [''tenant_id'', ''source_id'']]
    []"

definition contract_010 :: contract where
  "contract_010 = Contract upgrade_010
    [NeedKey ''tenants'' [''id''] [Some SqlUuid]]
    []"

lemma contract_ok_001: "contract_ok contract_001"
  by code_simp

lemma contract_ok_002: "contract_ok contract_002"
  by code_simp

lemma contract_ok_003: "contract_ok contract_003"
  by code_simp

lemma contract_ok_004: "contract_ok contract_004"
  by code_simp

lemma contract_ok_005: "contract_ok contract_005"
  by code_simp

lemma contract_ok_006: "contract_ok contract_006"
  by code_simp

lemma contract_ok_007: "contract_ok contract_007"
  by code_simp

lemma contract_ok_008: "contract_ok contract_008"
  by code_simp

lemma contract_ok_009: "contract_ok contract_009"
  by code_simp

lemma contract_ok_010: "contract_ok contract_010"
  by code_simp

lemmas contracts_ok =
  contract_ok_001 contract_ok_002 contract_ok_003 contract_ok_004 contract_ok_005
  contract_ok_006 contract_ok_007 contract_ok_008 contract_ok_009 contract_ok_010

lemma reverses_001: "reverses upgrade_001 downgrade_001"
  by code_simp

lemma reverses_002: "reverses upgrade_002 downgrade_002"
  by code_simp

lemma reverses_003: "reverses upgrade_003 downgrade_003"
  by code_simp

lemma reverses_004: "reverses upgrade_004 downgrade_004"
  by code_simp

lemma reverses_005: "reverses upgrade_005 downgrade_005"
  by code_simp

lemma reverses_006: "reverses upgrade_006 downgrade_006"
  by code_simp

lemma reverses_007: "reverses upgrade_007 downgrade_007"
  by code_simp

lemma reverses_008: "reverses upgrade_008 downgrade_008"
  by code_simp

lemma reverses_009: "reverses upgrade_009 downgrade_009"
  by code_simp

lemma reverses_010: "reverses upgrade_010 downgrade_010"
  by code_simp

lemmas reversed =
  reverses_001 reverses_002 reverses_003 reverses_004 reverses_005
  reverses_006 reverses_007 reverses_008 reverses_009 reverses_010

section \<open>The names that the migrations introduce\<close>

lemma introduced_001:
  "introduced upgrade_001 =
    [''tenants'',
     ''ix_tenants_slug'',
     ''ix_tenants_status'',
     ''agents'',
     ''ix_agents_status'',
     ''ix_agents_tenant_id'',
     ''agent_configurations'',
     ''uq_agent_configurations_agent_id'',
     ''ix_agent_configurations_agent_id'',
     ''ix_agent_configurations_tenant_id'',
     ''knowledge_bases'',
     ''ix_knowledge_bases_status'',
     ''ix_knowledge_bases_tenant_id'',
     ''tools'',
     ''uq_tools_tenant_slug'',
     ''ix_tools_slug'',
     ''ix_tools_status'',
     ''ix_tools_tenant_id'',
     ''audit_logs'',
     ''ix_audit_logs_action'',
     ''ix_audit_logs_resource_id'',
     ''ix_audit_logs_resource_type'',
     ''ix_audit_logs_tenant_id'']"
  by code_simp

lemma introduced_002:
  "introduced upgrade_002 =
    [''knowledge_sources'',
     ''ix_knowledge_sources_source_type'',
     ''ix_knowledge_sources_status'',
     ''ix_knowledge_sources_processing_stage'',
     ''ix_knowledge_sources_embedding_status'',
     ''ix_knowledge_sources_tenant_id'',
     ''ix_knowledge_sources_vector_namespace'',
     ''knowledge_chunks'',
     ''ix_knowledge_chunks_source_id'',
     ''ix_knowledge_chunks_tenant_id'',
     ''ix_knowledge_chunks_vector_id'']"
  by code_simp

lemma introduced_003:
  "introduced upgrade_003 =
    [''conversations'',
     ''ix_conversations_agent_id'',
     ''ix_conversations_status'',
     ''ix_conversations_current_state'',
     ''ix_conversations_tenant_id'',
     ''conversation_turns'',
     ''ix_conversation_turns_conversation_id'',
     ''ix_conversation_turns_role'',
     ''ix_conversation_turns_tenant_id'',
     ''conversation_summaries'',
     ''ix_conversation_summaries_conversation_id'',
     ''working_memory'',
     ''uq_working_memory_conversation_key'',
     ''ix_working_memory_conversation_id'',
     ''ix_working_memory_memory_key'',
     ''tool_executions'',
     ''ix_tool_executions_conversation_id'',
     ''ix_tool_executions_tool_name'',
     ''ix_tool_executions_status'']"
  by code_simp

lemma introduced_004:
  "introduced upgrade_004 =
    [''tool_permissions'',
     ''uq_tool_permissions_scope'',
     ''ix_tool_permissions_tenant_id'',
     ''ix_tool_permissions_tool_slug'',
     ''ix_tool_permissions_agent_id'',
     ''tenant_tool_configs'',
     ''uq_tenant_tool_configs_slug'',
     ''ix_tenant_tool_configs_tenant_id'',
     ''ix_tenant_tool_configs_tool_slug'',
     ''tool_framework_executions'',
     ''ix_tool_framework_executions_tenant_id'',
     ''ix_tool_framework_executions_agent_id'',
     ''ix_tool_framework_executions_conversation_id'',
     ''ix_tool_framework_executions_tool_slug'',
     ''ix_tool_framework_executions_status'',
     ''ix_tool_framework_executions_idempotency_key'',
     ''tool_audit_logs'',
     ''ix_tool_audit_logs_tenant_id'',
     ''ix_tool_audit_logs_agent_id'',
     ''ix_tool_audit_logs_conversation_id'',
     ''ix_tool_audit_logs_tool_slug'',
     ''ix_tool_audit_logs_status'',
     ''ix_tool_audit_logs_execution_id'']"
  by code_simp

lemma introduced_005:
  "introduced upgrade_005 =
    [''planner_sessions'',
     ''ix_planner_sessions_tenant_id'',
     ''ix_planner_sessions_agent_id'',
     ''ix_planner_sessions_conversation_id'',
     ''ix_planner_sessions_status'',
     ''planner_decisions'',
     ''ix_planner_decisions_tenant_id'',
     ''ix_planner_decisions_agent_id'',
     ''ix_planner_decisions_conversation_id'',
     ''ix_planner_decisions_session_id'',
     ''ix_planner_decisions_intent'',
     ''ix_planner_decisions_action'',
     ''ix_planner_decisions_status'',
     ''planner_history'',
     ''ix_planner_history_tenant_id'',
     ''ix_planner_history_agent_id'',
     ''ix_planner_history_conversation_id'',
     ''ix_planner_history_session_id'',
     ''ix_planner_history_decision_id'',
     ''planner_metrics'',
     ''ix_planner_metrics_tenant_id'',
     ''ix_planner_metrics_agent_id'',
     ''ix_planner_metrics_conversation_id'']"
  by code_simp

lemma introduced_006:
  "introduced upgrade_006 =
    [''verifier_decisions'',
     ''ix_verifier_decisions_tenant_id'',
     ''ix_verifier_decisions_agent_id'',
     ''ix_verifier_decisions_conversation_id'',
     ''ix_verifier_decisions_outcome'',
     ''ix_verifier_decisions_risk_level'',
     ''verifier_risk_assessments'',
     ''ix_verifier_risk_assessments_decision_id'',
     ''verifier_policy_violations'',
     ''verifier_compliance_checks'',
     ''verifier_audit_logs'']"
  by code_simp

lemma introduced_007:
  "introduced upgrade_007 =
    [''workflows'',
     ''uq_workflows_tenant_slug'',
     ''ix_workflows_tenant_id'',
     ''ix_workflows_slug'',
     ''workflow_executions'',
     ''ix_workflow_executions_conversation_id'',
     ''workflow_rules'',
     ''workflow_approvals'',
     ''workflow_escalations'',
     ''business_policies'',
     ''uq_business_policies_key'',
     ''routing_rules'',
     ''workflow_audit_logs'']"
  by code_simp

lemma introduced_008:
  "introduced upgrade_008 =
    [''organizations'',
     ''ix_organizations_slug'',
     ''iam_users'',
     ''organization_memberships'',
     ''uq_org_membership_user'',
     ''iam_roles'',
     ''uq_iam_roles_org_slug'',
     ''iam_api_keys'',
     ''iam_sessions'',
     ''iam_security_policies'',
     ''iam_security_events'',
     ''iam_audit_logs'',
     ''oauth_identities'',
     ''uq_oauth_provider_user'',
     ''sso_providers'',
     ''mfa_factors'',
     ''compliance_settings'']"
  by code_simp

lemma introduced_009:
  "introduced upgrade_009 =
    [''knowledge_vectors'',
     ''uq_knowledge_vectors_namespace_vector_id'',
     ''ix_knowledge_vectors_namespace'',
     ''knowledge_ingestion_jobs'',
     ''ix_knowledge_ingestion_jobs_tenant_id'',
     ''ix_knowledge_ingestion_jobs_source_id'',
     ''ix_knowledge_ingestion_jobs_status'',
     ''ix_knowledge_sources_file_hash'',
     ''ix_knowledge_chunks_tenant_source'']"
  by code_simp

lemma introduced_010:
  "introduced upgrade_010 =
    [''integration_connections'',
     ''ix_integration_connections_tenant_id'',
     ''ix_integration_connections_provider_slug'',
     ''ix_integration_connections_status'',
     ''integration_credentials'',
     ''ix_integration_credentials_connection_id'',
     ''integration_field_mappings'',
     ''uq_integration_field_mapping'',
     ''ix_integration_field_mappings_connection_id'',
     ''integration_sync_jobs'',
     ''ix_integration_sync_jobs_tenant_id'',
     ''ix_integration_sync_jobs_connection_id'',
     ''ix_integration_sync_jobs_status'',
     ''integration_sync_cursors'',
     ''uq_integration_sync_cursor'',
     ''ix_integration_sync_cursors_connection_id'',
     ''integration_webhook_events'',
     ''uq_integration_webhook_event'',
     ''ix_integration_webhook_events_connection_id'',
     ''ix_integration_webhook_events_status'',
     ''integration_webhook_dlq'',
     ''ix_integration_webhook_dlq_connection_id'',
     ''integration_audit_logs'',
     ''ix_integration_audit_logs_tenant_id'',
     ''ix_integration_audit_logs_connection_id'',
     ''ix_integration_audit_logs_action'',
     ''ix_integration_audit_logs_created_at'']"
  by code_simp

lemmas introduced_names =
  introduced_001 introduced_002 introduced_003 introduced_004 introduced_005
  introduced_006 introduced_007 introduced_008 introduced_009 introduced_010

definition apart :: "string list \<Rightarrow> string list \<Rightarrow> bool" where
  "apart xs ys = list_all (\<lambda>x. x \<notin> set ys) xs"

lemma apart_iff: "apart xs ys \<longleftrightarrow> set xs \<inter> set ys = {}"
  by (auto simp: apart_def list_all_iff)

lemma apart_001:
  "apart (introduced upgrade_001) (introduced upgrade_002)"
  "apart (introduced upgrade_001) (introduced upgrade_003)"
  "apart (introduced upgrade_001) (introduced upgrade_004)"
  "apart (introduced upgrade_001) (introduced upgrade_005)"
  "apart (introduced upgrade_001) (introduced upgrade_006)"
  "apart (introduced upgrade_001) (introduced upgrade_007)"
  "apart (introduced upgrade_001) (introduced upgrade_008)"
  "apart (introduced upgrade_001) (introduced upgrade_009)"
  "apart (introduced upgrade_001) (introduced upgrade_010)"
  unfolding introduced_names by code_simp+

lemma apart_002:
  "apart (introduced upgrade_002) (introduced upgrade_003)"
  "apart (introduced upgrade_002) (introduced upgrade_004)"
  "apart (introduced upgrade_002) (introduced upgrade_005)"
  "apart (introduced upgrade_002) (introduced upgrade_006)"
  "apart (introduced upgrade_002) (introduced upgrade_007)"
  "apart (introduced upgrade_002) (introduced upgrade_008)"
  "apart (introduced upgrade_002) (introduced upgrade_009)"
  "apart (introduced upgrade_002) (introduced upgrade_010)"
  unfolding introduced_names by code_simp+

lemma apart_003:
  "apart (introduced upgrade_003) (introduced upgrade_004)"
  "apart (introduced upgrade_003) (introduced upgrade_005)"
  "apart (introduced upgrade_003) (introduced upgrade_006)"
  "apart (introduced upgrade_003) (introduced upgrade_007)"
  "apart (introduced upgrade_003) (introduced upgrade_008)"
  "apart (introduced upgrade_003) (introduced upgrade_009)"
  "apart (introduced upgrade_003) (introduced upgrade_010)"
  unfolding introduced_names by code_simp+

lemma apart_004:
  "apart (introduced upgrade_004) (introduced upgrade_005)"
  "apart (introduced upgrade_004) (introduced upgrade_006)"
  "apart (introduced upgrade_004) (introduced upgrade_007)"
  "apart (introduced upgrade_004) (introduced upgrade_008)"
  "apart (introduced upgrade_004) (introduced upgrade_009)"
  "apart (introduced upgrade_004) (introduced upgrade_010)"
  unfolding introduced_names by code_simp+

lemma apart_005:
  "apart (introduced upgrade_005) (introduced upgrade_006)"
  "apart (introduced upgrade_005) (introduced upgrade_007)"
  "apart (introduced upgrade_005) (introduced upgrade_008)"
  "apart (introduced upgrade_005) (introduced upgrade_009)"
  "apart (introduced upgrade_005) (introduced upgrade_010)"
  unfolding introduced_names by code_simp+

lemma apart_006:
  "apart (introduced upgrade_006) (introduced upgrade_007)"
  "apart (introduced upgrade_006) (introduced upgrade_008)"
  "apart (introduced upgrade_006) (introduced upgrade_009)"
  "apart (introduced upgrade_006) (introduced upgrade_010)"
  unfolding introduced_names by code_simp+

lemma apart_007:
  "apart (introduced upgrade_007) (introduced upgrade_008)"
  "apart (introduced upgrade_007) (introduced upgrade_009)"
  "apart (introduced upgrade_007) (introduced upgrade_010)"
  unfolding introduced_names by code_simp+

lemma apart_008:
  "apart (introduced upgrade_008) (introduced upgrade_009)"
  "apart (introduced upgrade_008) (introduced upgrade_010)"
  unfolding introduced_names by code_simp+

lemma apart_009:
  "apart (introduced upgrade_009) (introduced upgrade_010)"
  unfolding introduced_names by code_simp+

lemmas introduced_apart =
  apart_001 apart_002 apart_003 apart_004 apart_005
  apart_006 apart_007 apart_008 apart_009

lemma introduced_once:
  "distinct (introduced upgrade_001)"
  "distinct (introduced upgrade_002)"
  "distinct (introduced upgrade_003)"
  "distinct (introduced upgrade_004)"
  "distinct (introduced upgrade_005)"
  "distinct (introduced upgrade_006)"
  "distinct (introduced upgrade_007)"
  "distinct (introduced upgrade_008)"
  "distinct (introduced upgrade_009)"
  "distinct (introduced upgrade_010)"
  unfolding introduced_names by code_simp+

lemmas revision_defs =
  revision_001_def revision_002_def revision_003_def revision_004_def revision_005_def
  revision_006_def revision_007_def revision_008_def revision_009_def revision_010_def

lemma MIGRATIONS_upgrades:
  "map upgrade_ddl MIGRATIONS =
    [upgrade_001, upgrade_002, upgrade_003, upgrade_004, upgrade_005,
     upgrade_006, upgrade_007, upgrade_008, upgrade_009, upgrade_010]"
  by (simp add: MIGRATIONS_def revision_defs)

lemma introduced_distinct: "distinct (concat (map (introduced \<circ> upgrade_ddl) MIGRATIONS))"
  unfolding map_map [symmetric] MIGRATIONS_upgrades
  using introduced_once introduced_apart by (simp add: apart_iff Int_Un_distrib)

lemma revision_in_MIGRATIONS:
  "r \<in> set MIGRATIONS \<longleftrightarrow>
   r = revision_001 \<or> r = revision_002 \<or> r = revision_003 \<or> r = revision_004 \<or> r = revision_005 \<or>
   r = revision_006 \<or> r = revision_007 \<or> r = revision_008 \<or> r = revision_009 \<or> r = revision_010"
  by (simp add: MIGRATIONS_def)

lemma migrations_reversed: "r \<in> set MIGRATIONS \<Longrightarrow> reverses (upgrade_ddl r) (downgrade_ddl r)"
  unfolding revision_in_MIGRATIONS by (elim disjE) (simp_all add: revision_defs reversed)

section \<open>Running the migrations\<close>

definition CONTRACTS :: "contract list" where
  "CONTRACTS = [contract_001, contract_002, contract_003, contract_004, contract_005,
    contract_006, contract_007, contract_008, contract_009, contract_010]"

lemmas contract_defs =
  contract_001_def contract_002_def contract_003_def contract_004_def contract_005_def
  contract_006_def contract_007_def contract_008_def contract_009_def contract_010_def

lemma added_columns_none:
  "added_columns upgrade_001 = []" "added_columns upgrade_002 = []" "added_columns upgrade_003 = []"
  "added_columns upgrade_004 = []" "added_columns upgrade_005 = []" "added_columns upgrade_006 = []"
  "added_columns upgrade_007 = []" "added_columns upgrade_008 = []" "added_columns upgrade_010 = []"
  by (simp_all add: added_columns_def upgrade_001_def upgrade_002_def upgrade_003_def upgrade_004_def
    upgrade_005_def upgrade_006_def upgrade_007_def upgrade_008_def upgrade_010_def)

lemma added_columns_009:
  "added_columns upgrade_009 = [(''knowledge_sources'', Column ''file_hash'' (SqlString (Some 64)) True None)]"
  by (simp add: added_columns_def upgrade_009_def)

lemma CONTRACTS_fitted: "fitted [] CONTRACTS"
  by (simp add: CONTRACTS_def contract_defs added_columns_none added_columns_009)

lemma CONTRACTS_scripts: "map script CONTRACTS = map upgrade_ddl MIGRATIONS"
  by (simp add: CONTRACTS_def contract_defs MIGRATIONS_upgrades)

definition head_catalogue :: catalogue where
  "head_catalogue = chain_result (map upgrade_ddl MIGRATIONS) empty_catalogue"

lemma migrations_run: "run_ddl (concat (map upgrade_ddl MIGRATIONS)) empty_catalogue = Inr head_catalogue"
  unfolding head_catalogue_def CONTRACTS_scripts [symmetric]
proof (rule contracts_run [OF _ CONTRACTS_fitted _ catalogue_ok_empty])
  show "list_all contract_ok CONTRACTS"
    by (simp add: CONTRACTS_def contracts_ok)
  show "distinct (concat (map (introduced \<circ> script) CONTRACTS))"
    using introduced_distinct unfolding map_map [symmetric] CONTRACTS_scripts .
qed (simp_all add: relation_names_def table_names_def index_names_def empty_catalogue_def)

section \<open>The order of the revisions and the transaction\<close>

fun successors :: "nat \<Rightarrow> revision list \<Rightarrow> string option \<Rightarrow> revision list" where
  "successors 0 rs v = []"
| "successors (Suc k) rs v =
    (case List.find (\<lambda>r. down_revision r = v) rs of
       None \<Rightarrow> []
     | Some r \<Rightarrow> r # successors k rs (Some (revision_id r)))"

datatype database = Database (db_version: "string option") (db_catalogue: catalogue)

fun run_revisions :: "revision list \<Rightarrow> database \<Rightarrow> sql_error + database" where
  "run_revisions [] d = Inr d"
| "run_revisions (r # rs) d =
    bind_sum (run_ddl (upgrade_ddl r) (db_catalogue d)) (\<lambda>c. run_revisions rs (Database (Some (revision_id r)) c))"

fun run_downgrades :: "revision list \<Rightarrow> database \<Rightarrow> sql_error + database" where
  "run_downgrades [] d = Inr d"
| "run_downgrades (r # rs) d =
    bind_sum (run_ddl (downgrade_ddl r) (db_catalogue d)) (\<lambda>c. run_downgrades rs (Database (down_revision r) c))"

text \<open>
  \<^verbatim>\<open>with context.begin_transaction(): context.run_migrations()\<close>: an error takes everything back and is raised.
\<close>

definition do_run_migrations :: "(database \<Rightarrow> sql_error + database) \<Rightarrow> database \<Rightarrow> sql_error option \<times> database" where
  "do_run_migrations run d = (case run d of Inl e \<Rightarrow> (Some e, d) | Inr e \<Rightarrow> (None, e))"

definition get_url :: "string option \<Rightarrow> py_exn + string" where
  "get_url database_url =
    (case database_url of
       None \<Rightarrow> Inl (RuntimeError ''DATABASE_URL must be set to run Alembic migrations'')
     | Some url \<Rightarrow>
         if url = [] then Inl (RuntimeError ''DATABASE_URL must be set to run Alembic migrations'') else Inr url)"

definition pending :: "database \<Rightarrow> revision list" where
  "pending d = successors (length MIGRATIONS) MIGRATIONS (db_version d)"

definition upgrade_head :: "database \<Rightarrow> sql_error option \<times> database" where
  "upgrade_head d = do_run_migrations (run_revisions (pending d)) d"

definition empty_database :: database where
  "empty_database = Database None empty_catalogue"

fun linked :: "string option \<Rightarrow> revision list \<Rightarrow> bool" where
  "linked v [] = True"
| "linked v (r # rs) = (down_revision r = v \<and> linked (Some (revision_id r)) rs)"

lemma find_member: "List.find P xs = Some x \<Longrightarrow> x \<in> set xs \<and> P x"
  by (auto simp: find_Some_iff)

lemma successors_linked: "linked v (successors k rs v)"
  by (induction k arbitrary: v) (auto dest: find_member split: option.split)

lemma successors_subset: "set (successors k rs v) \<subseteq> set rs"
proof (induction k arbitrary: v)
  case (Suc k)
  then show ?case
    by (cases "List.find (\<lambda>r. down_revision r = v) rs") (auto dest: find_member)
qed simp

lemma MIGRATIONS_order: "pending empty_database = MIGRATIONS"
  by (simp add: pending_def empty_database_def MIGRATIONS_def revision_defs numeral_eq_Suc)

lemma run_revisions_ddl:
  "run_revisions rs d =
    bind_sum (run_ddl (concat (map upgrade_ddl rs)) (db_catalogue d))
      (\<lambda>c. Inr (Database (if rs = [] then db_version d else Some (revision_id (last rs))) c))"
proof (induction rs arbitrary: d)
  case Nil
  then show ?case by (cases d) simp
next
  case (Cons r rs)
  then show ?case
    by (cases "run_ddl (upgrade_ddl r) (db_catalogue d)") (simp_all add: run_ddl_append)
qed

lemma downgrade_step:
  assumes "r \<in> set MIGRATIONS" "catalogue_ok c" "run_ddl (upgrade_ddl r) c = Inr e"
  shows "run_ddl (downgrade_ddl r) e = Inr c"
  by (rule run_reverses [OF migrations_reversed [OF assms(1)] assms(2,3)])

lemma run_downgrades_append:
  "run_downgrades (rs @ qs) d = bind_sum (run_downgrades rs d) (run_downgrades qs)"
  by (induction rs arbitrary: d) (auto simp: bind_sum_def split: sum.splits)

lemma revisions_undone:
  assumes "set rs \<subseteq> set MIGRATIONS" "linked (db_version d) rs" "catalogue_ok (db_catalogue d)"
    "run_revisions rs d = Inr e"
  shows "run_downgrades (rev rs) e = Inr d"
  using assms
proof (induction rs arbitrary: d)
  case (Cons r rs)
  then obtain c where c: "run_ddl (upgrade_ddl r) (db_catalogue d) = Inr c"
    and rest: "run_revisions rs (Database (Some (revision_id r)) c) = Inr e"
    by (cases "run_ddl (upgrade_ddl r) (db_catalogue d)") auto
  have "run_downgrades (rev rs) e = Inr (Database (Some (revision_id r)) c)"
    using Cons.prems rest run_ok [OF Cons.prems(3) c] by (intro Cons.IH) auto
  moreover have "run_ddl (downgrade_ddl r) c = Inr (db_catalogue d)"
    using Cons.prems by (intro downgrade_step [OF _ _ c]) auto
  ultimately show ?case
    using Cons.prems(2) by (cases d) (simp add: run_downgrades_append)
qed simp

lemma upgrade_head_empty:
  "upgrade_head empty_database = (None, Database (Some ''010_integrations'') head_catalogue)"
proof -
  have "MIGRATIONS \<noteq> []" "revision_id (last MIGRATIONS) = ''010_integrations''"
    by (simp_all add: MIGRATIONS_def revision_010_def)
  then have "run_revisions MIGRATIONS empty_database = Inr (Database (Some ''010_integrations'') head_catalogue)"
    unfolding run_revisions_ddl by (simp add: empty_database_def migrations_run)
  then show ?thesis
    by (simp add: upgrade_head_def do_run_migrations_def MIGRATIONS_order)
qed

lemma head_catalogue_ok: "catalogue_ok head_catalogue"
  by (rule run_ok [OF catalogue_ok_empty migrations_run])

lemma failed_upgrade_keeps: "upgrade_head d = (Some e, d') \<Longrightarrow> d' = d"
  by (auto simp: upgrade_head_def do_run_migrations_def split: sum.splits)

end
