(* ===== verification/OrmModels.thy ===== *)
theory OrmModels
  imports Enumerations Migrations
begin

text \<open>
  \<^verbatim>\<open>app/database/base.py\<close> and \<^verbatim>\<open>app/database/models\<close>: the classes of the object mapper, column by column, and whether
  the migrated schema serves them. \<^verbatim>\<open>relationship\<close> attributes, which navigate between objects and make no column, are
  left out; \<^verbatim>\<open>onupdate\<close> is left out. A class takes its columns from its body and from its mixins.
\<close>

datatype orm_default =
    OrmText string | OrmEnum enumeration string | OrmBool bool | OrmInt int | OrmFloat int nat | OrmCall string

datatype orm_flag = PrimaryKey | Unique | Indexed

datatype orm_column =
  Mapped (mc_name: string) (mc_type: sql_type) (mc_nullable: bool) (mc_flags: "orm_flag list")
    (mc_reference: "(string \<times> string \<times> referential option) option") (mc_default: "orm_default option")
    (mc_server_default: "sql_default option")

datatype orm_model =
  Model (model_table: string) (model_own: "orm_column list") (model_mixins: "orm_column list list")
    (model_args: "(string option \<times> string list) list")

section \<open>\<^verbatim>\<open>base.py\<close>\<close>

definition TimestampMixin :: "orm_column list" where
  "TimestampMixin =
    [Mapped ''created_at'' (SqlTimestamp True) False [] None None (Some (Expression ''now()'')),
     Mapped ''updated_at'' (SqlTimestamp True) False [] None None (Some (Expression ''now()''))]"

definition UUIDPrimaryKeyMixin :: "orm_column list" where
  "UUIDPrimaryKeyMixin =
    [Mapped ''id'' SqlUuid False [PrimaryKey] None (Some (OrmCall ''uuid4'')) None]"

definition TenantScopedMixin :: "orm_column list" where
  "TenantScopedMixin =
    [Mapped ''tenant_id'' SqlUuid False [Indexed] (Some (''tenants'', ''id'', (Some Cascade))) None None]"

section \<open>\<^verbatim>\<open>models/agent.py\<close>\<close>

definition AgentModel :: orm_model where
  "AgentModel = Model ''agents''
    [Mapped ''name'' (SqlString (Some 255)) False [] None None None,
     Mapped ''description'' SqlText True [] None None None,
     Mapped ''system_prompt'' SqlText False [] None (Some (OrmText '''')) None,
     Mapped ''voice'' (SqlString (Some 64)) False [] None (Some (OrmText ''default'')) None,
     Mapped ''language'' (SqlString (Some 16)) False [] None (Some (OrmText ''en-US'')) None,
     Mapped ''temperature'' SqlFloat False [] None (Some (OrmFloat 7 1)) None,
     Mapped ''max_reasoning_steps'' SqlInteger False [] None (Some (OrmInt 5)) None,
     Mapped ''planner_model'' (SqlString (Some 128)) False [] None (Some (OrmText ''default'')) None,
     Mapped ''verifier_model'' (SqlString (Some 128)) False [] None (Some (OrmText ''default'')) None,
     Mapped ''status'' (SqlString (Some 32)) False [Indexed] None (Some (OrmEnum AgentStatus ''DRAFT'')) None]
    [UUIDPrimaryKeyMixin, TenantScopedMixin, TimestampMixin]
    []"

section \<open>\<^verbatim>\<open>models/audit.py\<close>\<close>

definition AuditLogModel :: orm_model where
  "AuditLogModel = Model ''audit_logs''
    [Mapped ''action'' (SqlString (Some 128)) False [Indexed] None None None,
     Mapped ''actor_id'' (SqlString (Some 128)) True [] None None None,
     Mapped ''actor_type'' (SqlString (Some 32)) False [] None (Some (OrmEnum AuditActorType ''SYSTEM'')) None,
     Mapped ''resource_type'' (SqlString (Some 64)) False [Indexed] None None None,
     Mapped ''resource_id'' (SqlString (Some 128)) True [Indexed] None None None,
     Mapped ''metadata'' SqlJsonb True [] None None None,
     Mapped ''ip_address'' (SqlString (Some 45)) True [] None None None,
     Mapped ''user_agent'' SqlText True [] None None None]
    [UUIDPrimaryKeyMixin, TenantScopedMixin, TimestampMixin]
    []"

section \<open>\<^verbatim>\<open>models/configuration.py\<close>\<close>

definition AgentConfigurationModel :: orm_model where
  "AgentConfigurationModel = Model ''agent_configurations''
    [Mapped ''agent_id'' SqlUuid False [Indexed] (Some (''agents'', ''id'', (Some Cascade))) None None,
     Mapped ''identity_verification_enabled'' SqlBoolean False [] None (Some (OrmBool False)) None,
     Mapped ''escalation_rules'' SqlJsonb True [] None None None,
     Mapped ''fallback_message'' SqlText True [] None None None,
     Mapped ''allowed_tool_ids'' SqlJsonb True [] None None None,
     Mapped ''working_hours'' SqlJsonb True [] None None None,
     Mapped ''response_tone'' (SqlString (Some 64)) True [] None None None,
     Mapped ''max_conversation_length'' SqlInteger True [] None None None,
     Mapped ''extra_settings'' SqlJsonb True [] None None None]
    [UUIDPrimaryKeyMixin, TenantScopedMixin, TimestampMixin]
    [(Some ''uq_agent_configurations_agent_id'', [''agent_id''])]"

section \<open>\<^verbatim>\<open>models/iam.py\<close>\<close>

definition OrganizationModel :: orm_model where
  "OrganizationModel = Model ''organizations''
    [Mapped ''tenant_id'' SqlUuid False [Unique, Indexed] (Some (''tenants'', ''id'', (Some Cascade))) None None,
     Mapped ''company_name'' (SqlString (Some 255)) False [] None None None,
     Mapped ''slug'' (SqlString (Some 128)) False [Indexed] None None None,
     Mapped ''plan'' (SqlString (Some 32)) False [] None (Some (OrmText ''free'')) None,
     Mapped ''status'' (SqlString (Some 32)) False [Indexed] None (Some (OrmText ''active'')) None,
     Mapped ''region'' (SqlString (Some 64)) True [] None None None,
     Mapped ''owner_user_id'' SqlUuid True [] None None None,
     Mapped ''timezone'' (SqlString (Some 64)) False [] None (Some (OrmText ''UTC'')) None,
     Mapped ''language'' (SqlString (Some 16)) False [] None (Some (OrmText ''en'')) None,
     Mapped ''branding'' SqlJsonb True [] None None None,
     Mapped ''security_policy'' SqlJsonb True [] None None None,
     Mapped ''billing'' SqlJsonb True [] None None None,
     Mapped ''metadata'' SqlJsonb True [] None None None]
    [UUIDPrimaryKeyMixin, TimestampMixin]
    []"

definition IamUserModel :: orm_model where
  "IamUserModel = Model ''iam_users''
    [Mapped ''email'' (SqlString (Some 320)) False [Unique, Indexed] None None None,
     Mapped ''password_hash'' (SqlString (Some 255)) True [] None None None,
     Mapped ''name'' (SqlString (Some 255)) False [] None None None,
     Mapped ''avatar_url'' (SqlString (Some 2048)) True [] None None None,
     Mapped ''status'' (SqlString (Some 32)) False [Indexed] None (Some (OrmText ''active'')) None,
     Mapped ''mfa_enabled'' SqlBoolean False [] None (Some (OrmBool False)) None,
     Mapped ''last_login_at'' (SqlTimestamp True) True [] None None None,
     Mapped ''metadata'' SqlJsonb True [] None None None]
    [UUIDPrimaryKeyMixin, TimestampMixin]
    []"

definition OrganizationMembershipModel :: orm_model where
  "OrganizationMembershipModel = Model ''organization_memberships''
    [Mapped ''organization_id'' SqlUuid False [Indexed] (Some (''organizations'', ''id'', (Some Cascade))) None None,
     Mapped ''user_id'' SqlUuid False [Indexed] (Some (''iam_users'', ''id'', (Some Cascade))) None None,
     Mapped ''role_slug'' (SqlString (Some 64)) False [Indexed] None None None,
     Mapped ''department'' (SqlString (Some 128)) True [] None None None,
     Mapped ''title'' (SqlString (Some 128)) True [] None None None,
     Mapped ''status'' (SqlString (Some 32)) False [] None (Some (OrmText ''active'')) None,
     Mapped ''invited_at'' (SqlTimestamp True) True [] None None None,
     Mapped ''joined_at'' (SqlTimestamp True) True [] None None None]
    [UUIDPrimaryKeyMixin, TimestampMixin]
    [(Some ''uq_org_membership_user'', [''organization_id'', ''user_id''])]"

definition IamRoleModel :: orm_model where
  "IamRoleModel = Model ''iam_roles''
    [Mapped ''organization_id'' SqlUuid True [Indexed] (Some (''organizations'', ''id'', (Some Cascade))) None None,
     Mapped ''slug'' (SqlString (Some 64)) False [] None None None,
     Mapped ''name'' (SqlString (Some 128)) False [] None None None,
     Mapped ''description'' SqlText True [] None None None,
     Mapped ''is_system'' SqlBoolean False [] None (Some (OrmBool False)) None,
     Mapped ''inherits_from'' (SqlArray (SqlString (Some 64))) True [] None None None,
     Mapped ''permissions'' (SqlArray (SqlString (Some 64))) True [] None None None]
    [UUIDPrimaryKeyMixin, TimestampMixin]
    [(Some ''uq_iam_roles_org_slug'', [''organization_id'', ''slug''])]"

definition IamApiKeyModel :: orm_model where
  "IamApiKeyModel = Model ''iam_api_keys''
    [Mapped ''organization_id'' SqlUuid False [Indexed] (Some (''organizations'', ''id'', (Some Cascade))) None None,
     Mapped ''name'' (SqlString (Some 255)) False [] None None None,
     Mapped ''key_prefix'' (SqlString (Some 16)) False [Indexed] None None None,
     Mapped ''key_hash'' (SqlString (Some 128)) False [] None None None,
     Mapped ''scopes'' (SqlArray (SqlString (Some 64))) True [] None None None,
     Mapped ''permissions'' (SqlArray (SqlString (Some 64))) True [] None None None,
     Mapped ''environment'' (SqlString (Some 32)) False [] None (Some (OrmText ''production'')) None,
     Mapped ''status'' (SqlString (Some 32)) False [Indexed] None (Some (OrmText ''active'')) None,
     Mapped ''created_by'' SqlUuid True [] None None None,
     Mapped ''last_used_at'' (SqlTimestamp True) True [] None None None,
     Mapped ''expires_at'' (SqlTimestamp True) True [] None None None,
     Mapped ''metadata'' SqlJsonb True [] None None None]
    [UUIDPrimaryKeyMixin, TimestampMixin]
    []"

definition IamSessionModel :: orm_model where
  "IamSessionModel = Model ''iam_sessions''
    [Mapped ''user_id'' SqlUuid False [Indexed] (Some (''iam_users'', ''id'', (Some Cascade))) None None,
     Mapped ''organization_id'' SqlUuid True [Indexed] (Some (''organizations'', ''id'', (Some SetNull))) None None,
     Mapped ''token_hash'' (SqlString (Some 128)) False [Indexed] None None None,
     Mapped ''refresh_token_hash'' (SqlString (Some 128)) True [] None None None,
     Mapped ''browser'' (SqlString (Some 255)) True [] None None None,
     Mapped ''ip_address'' (SqlString (Some 45)) True [] None None None,
     Mapped ''country'' (SqlString (Some 64)) True [] None None None,
     Mapped ''device'' (SqlString (Some 255)) True [] None None None,
     Mapped ''status'' (SqlString (Some 32)) False [] None (Some (OrmText ''active'')) None,
     Mapped ''expires_at'' (SqlTimestamp True) False [] None None None,
     Mapped ''revoked_at'' (SqlTimestamp True) True [] None None None]
    [UUIDPrimaryKeyMixin, TimestampMixin]
    []"

definition IamSecurityPolicyModel :: orm_model where
  "IamSecurityPolicyModel = Model ''iam_security_policies''
    [Mapped ''organization_id'' SqlUuid False [Unique] (Some (''organizations'', ''id'', (Some Cascade))) None None,
     Mapped ''password_min_length'' SqlInteger False [] None (Some (OrmInt 12)) None,
     Mapped ''session_timeout_seconds'' SqlInteger False [] None (Some (OrmInt 3600)) None,
     Mapped ''mfa_required'' SqlBoolean False [] None (Some (OrmBool False)) None,
     Mapped ''allowed_domains'' (SqlArray (SqlString (Some 255))) True [] None None None,
     Mapped ''ip_allowlist'' (SqlArray (SqlString (Some 45))) True [] None None None,
     Mapped ''rate_limits'' SqlJsonb True [] None None None,
     Mapped ''api_limits'' SqlJsonb True [] None None None,
     Mapped ''data_retention_days'' SqlInteger True [] None None None,
     Mapped ''config'' SqlJsonb True [] None None None]
    [UUIDPrimaryKeyMixin, TimestampMixin]
    []"

definition IamSecurityEventModel :: orm_model where
  "IamSecurityEventModel = Model ''iam_security_events''
    [Mapped ''organization_id'' SqlUuid True [Indexed] (Some (''organizations'', ''id'', (Some SetNull))) None None,
     Mapped ''user_id'' SqlUuid True [Indexed] (Some (''iam_users'', ''id'', (Some SetNull))) None None,
     Mapped ''event_type'' (SqlString (Some 64)) False [Indexed] None None None,
     Mapped ''severity'' (SqlString (Some 32)) False [] None (Some (OrmText ''info'')) None,
     Mapped ''ip_address'' (SqlString (Some 45)) True [] None None None,
     Mapped ''payload'' SqlJsonb True [] None None None]
    [UUIDPrimaryKeyMixin, TimestampMixin]
    []"

definition IamAuditLogModel :: orm_model where
  "IamAuditLogModel = Model ''iam_audit_logs''
    [Mapped ''organization_id'' SqlUuid False [Indexed] (Some (''organizations'', ''id'', (Some Cascade))) None None,
     Mapped ''actor_user_id'' SqlUuid True [] None None None,
     Mapped ''actor_type'' (SqlString (Some 32)) False [] None (Some (OrmText ''user'')) None,
     Mapped ''action'' (SqlString (Some 128)) False [Indexed] None None None,
     Mapped ''resource_type'' (SqlString (Some 64)) False [] None None None,
     Mapped ''resource_id'' (SqlString (Some 255)) True [] None None None,
     Mapped ''ip_address'' (SqlString (Some 45)) True [] None None None,
     Mapped ''payload'' SqlJsonb True [] None None None,
     Mapped ''occurred_at'' (SqlTimestamp True) False [Indexed] None None None]
    [UUIDPrimaryKeyMixin]
    []"

definition OAuthIdentityModel :: orm_model where
  "OAuthIdentityModel = Model ''oauth_identities''
    [Mapped ''user_id'' SqlUuid False [Indexed] (Some (''iam_users'', ''id'', (Some Cascade))) None None,
     Mapped ''provider'' (SqlString (Some 32)) False [] None None None,
     Mapped ''provider_user_id'' (SqlString (Some 255)) False [] None None None,
     Mapped ''token_encrypted'' SqlText True [] None None None]
    [UUIDPrimaryKeyMixin, TimestampMixin]
    [(Some ''uq_oauth_provider_user'', [''provider'', ''provider_user_id''])]"

definition SsoProviderModel :: orm_model where
  "SsoProviderModel = Model ''sso_providers''
    [Mapped ''organization_id'' SqlUuid False [Indexed] (Some (''organizations'', ''id'', (Some Cascade))) None None,
     Mapped ''provider_type'' (SqlString (Some 32)) False [] None None None,
     Mapped ''name'' (SqlString (Some 255)) False [] None None None,
     Mapped ''config_encrypted'' SqlText True [] None None None,
     Mapped ''enabled'' SqlBoolean False [] None (Some (OrmBool False)) None]
    [UUIDPrimaryKeyMixin, TimestampMixin]
    []"

definition MfaFactorModel :: orm_model where
  "MfaFactorModel = Model ''mfa_factors''
    [Mapped ''user_id'' SqlUuid False [Indexed] (Some (''iam_users'', ''id'', (Some Cascade))) None None,
     Mapped ''factor_type'' (SqlString (Some 32)) False [] None None None,
     Mapped ''secret_encrypted'' SqlText True [] None None None,
     Mapped ''verified'' SqlBoolean False [] None (Some (OrmBool False)) None,
     Mapped ''backup_codes_hash'' SqlText True [] None None None]
    [UUIDPrimaryKeyMixin, TimestampMixin]
    []"

definition ComplianceSettingsModel :: orm_model where
  "ComplianceSettingsModel = Model ''compliance_settings''
    [Mapped ''organization_id'' SqlUuid False [Unique] (Some (''organizations'', ''id'', (Some Cascade))) None None,
     Mapped ''frameworks'' (SqlArray (SqlString (Some 32))) True [] None None None,
     Mapped ''data_residency'' (SqlString (Some 64)) True [] None None None,
     Mapped ''consent_management'' SqlJsonb True [] None None None,
     Mapped ''right_to_delete_enabled'' SqlBoolean False [] None (Some (OrmBool True)) None,
     Mapped ''config'' SqlJsonb True [] None None None]
    [UUIDPrimaryKeyMixin, TimestampMixin]
    []"

section \<open>\<^verbatim>\<open>models/integration.py\<close>\<close>

definition IntegrationConnectionModel :: orm_model where
  "IntegrationConnectionModel = Model ''integration_connections''
    [Mapped ''tenant_id'' SqlUuid False [Indexed] (Some (''tenants'', ''id'', (Some Cascade))) None None,
     Mapped ''provider_slug'' (SqlString (Some 64)) False [Indexed] None None None,
     Mapped ''category'' (SqlString (Some 32)) False [] None None None,
     Mapped ''auth_type'' (SqlString (Some 32)) False [] None None None,
     Mapped ''status'' (SqlString (Some 32)) False [Indexed] None (Some (OrmText ''pending'')) None,
     Mapped ''display_name'' (SqlString (Some 256)) False [] None None None,
     Mapped ''config'' SqlJsonb True [] None None None,
     Mapped ''oauth_scopes'' SqlJsonb True [] None None None,
     Mapped ''sync_schedule_cron'' (SqlString (Some 128)) True [] None None None,
     Mapped ''last_sync_at'' (SqlTimestamp True) True [] None None None,
     Mapped ''last_health_at'' (SqlTimestamp True) True [] None None None,
     Mapped ''health_status'' (SqlString (Some 32)) False [] None (Some (OrmText ''unknown'')) None,
     Mapped ''error_message'' SqlText True [] None None None,
     Mapped ''webhook_secret_hash'' (SqlString (Some 128)) True [] None None None]
    [UUIDPrimaryKeyMixin, TimestampMixin]
    []"

definition IntegrationCredentialModel :: orm_model where
  "IntegrationCredentialModel = Model ''integration_credentials''
    [Mapped ''connection_id'' SqlUuid False [Indexed] (Some (''integration_connections'', ''id'', (Some Cascade))) None None,
     Mapped ''credential_type'' (SqlString (Some 32)) False [] None None None,
     Mapped ''encrypted_payload'' SqlText False [] None None None,
     Mapped ''expires_at'' (SqlTimestamp True) True [] None None None,
     Mapped ''rotated_at'' (SqlTimestamp True) True [] None None None]
    [UUIDPrimaryKeyMixin, TimestampMixin]
    []"

definition IntegrationFieldMappingModel :: orm_model where
  "IntegrationFieldMappingModel = Model ''integration_field_mappings''
    [Mapped ''connection_id'' SqlUuid False [Indexed] (Some (''integration_connections'', ''id'', (Some Cascade))) None None,
     Mapped ''entity_type'' (SqlString (Some 32)) False [] None None None,
     Mapped ''source_field'' (SqlString (Some 256)) False [] None None None,
     Mapped ''target_field'' (SqlString (Some 256)) False [] None None None,
     Mapped ''transform'' SqlJsonb True [] None None None,
     Mapped ''is_active'' SqlBoolean False [] None (Some (OrmBool True)) None]
    [UUIDPrimaryKeyMixin, TimestampMixin]
    [(Some ''uq_integration_field_mapping'', [''connection_id'', ''entity_type'', ''source_field''])]"

definition IntegrationSyncJobModel :: orm_model where
  "IntegrationSyncJobModel = Model ''integration_sync_jobs''
    [Mapped ''tenant_id'' SqlUuid False [Indexed] (Some (''tenants'', ''id'', (Some Cascade))) None None,
     Mapped ''connection_id'' SqlUuid False [Indexed] (Some (''integration_connections'', ''id'', (Some Cascade))) None None,
     Mapped ''sync_mode'' (SqlString (Some 32)) False [] None None None,
     Mapped ''entity_types'' SqlJsonb False [] None (Some (OrmCall ''list'')) None,
     Mapped ''status'' (SqlString (Some 32)) False [Indexed] None (Some (OrmText ''queued'')) None,
     Mapped ''progress_pct'' SqlInteger False [] None (Some (OrmInt 0)) None,
     Mapped ''records_processed'' SqlInteger False [] None (Some (OrmInt 0)) None,
     Mapped ''records_failed'' SqlInteger False [] None (Some (OrmInt 0)) None,
     Mapped ''cursor_state'' SqlJsonb True [] None None None,
     Mapped ''retry_count'' SqlInteger False [] None (Some (OrmInt 0)) None,
     Mapped ''max_retries'' SqlInteger False [] None (Some (OrmInt 3)) None,
     Mapped ''worker_id'' (SqlString (Some 64)) True [] None None None,
     Mapped ''error'' SqlText True [] None None None,
     Mapped ''submitted_at'' (SqlTimestamp True) False [] None None (Some (Expression ''now()'')),
     Mapped ''started_at'' (SqlTimestamp True) True [] None None None,
     Mapped ''completed_at'' (SqlTimestamp True) True [] None None None]
    [UUIDPrimaryKeyMixin]
    []"

definition IntegrationSyncCursorModel :: orm_model where
  "IntegrationSyncCursorModel = Model ''integration_sync_cursors''
    [Mapped ''connection_id'' SqlUuid False [Indexed] (Some (''integration_connections'', ''id'', (Some Cascade))) None None,
     Mapped ''entity_type'' (SqlString (Some 32)) False [] None None None,
     Mapped ''cursor_value'' (SqlString (Some 512)) True [] None None None,
     Mapped ''last_sync_at'' (SqlTimestamp True) True [] None None None,
     Mapped ''updated_at'' (SqlTimestamp True) False [] None None (Some (Expression ''now()''))]
    [UUIDPrimaryKeyMixin]
    [(Some ''uq_integration_sync_cursor'', [''connection_id'', ''entity_type''])]"

definition IntegrationWebhookEventModel :: orm_model where
  "IntegrationWebhookEventModel = Model ''integration_webhook_events''
    [Mapped ''connection_id'' SqlUuid False [Indexed] (Some (''integration_connections'', ''id'', (Some Cascade))) None None,
     Mapped ''event_id'' (SqlString (Some 256)) False [] None None None,
     Mapped ''provider_event_type'' (SqlString (Some 128)) True [] None None None,
     Mapped ''payload_hash'' (SqlString (Some 64)) False [] None None None,
     Mapped ''status'' (SqlString (Some 32)) False [Indexed] None (Some (OrmText ''received'')) None,
     Mapped ''received_at'' (SqlTimestamp True) False [] None None (Some (Expression ''now()'')),
     Mapped ''processed_at'' (SqlTimestamp True) True [] None None None]
    [UUIDPrimaryKeyMixin]
    [(Some ''uq_integration_webhook_event'', [''connection_id'', ''event_id''])]"

definition IntegrationWebhookDlqModel :: orm_model where
  "IntegrationWebhookDlqModel = Model ''integration_webhook_dlq''
    [Mapped ''connection_id'' SqlUuid False [Indexed] (Some (''integration_connections'', ''id'', (Some Cascade))) None None,
     Mapped ''event_id'' (SqlString (Some 256)) False [] None None None,
     Mapped ''payload'' SqlJsonb False [] None None None,
     Mapped ''error'' SqlText True [] None None None,
     Mapped ''retry_count'' SqlInteger False [] None (Some (OrmInt 0)) None,
     Mapped ''created_at'' (SqlTimestamp True) False [] None None (Some (Expression ''now()''))]
    [UUIDPrimaryKeyMixin]
    []"

definition IntegrationAuditLogModel :: orm_model where
  "IntegrationAuditLogModel = Model ''integration_audit_logs''
    [Mapped ''tenant_id'' SqlUuid False [Indexed] (Some (''tenants'', ''id'', (Some Cascade))) None None,
     Mapped ''connection_id'' SqlUuid True [Indexed] (Some (''integration_connections'', ''id'', (Some SetNull))) None None,
     Mapped ''action'' (SqlString (Some 64)) False [Indexed] None None None,
     Mapped ''detail'' SqlJsonb True [] None None None,
     Mapped ''created_at'' (SqlTimestamp True) False [Indexed] None None (Some (Expression ''now()''))]
    [UUIDPrimaryKeyMixin]
    []"

section \<open>\<^verbatim>\<open>models/knowledge.py\<close>\<close>

definition KnowledgeBaseModel :: orm_model where
  "KnowledgeBaseModel = Model ''knowledge_bases''
    [Mapped ''name'' (SqlString (Some 255)) False [] None None None,
     Mapped ''description'' SqlText True [] None None None,
     Mapped ''status'' (SqlString (Some 32)) False [Indexed] None (Some (OrmEnum KnowledgeBaseStatus ''PROCESSING'')) None,
     Mapped ''embedding_model'' (SqlString (Some 128)) True [] None None None,
     Mapped ''settings'' SqlJsonb True [] None None None]
    [UUIDPrimaryKeyMixin, TenantScopedMixin, TimestampMixin]
    []"

section \<open>\<^verbatim>\<open>models/knowledge_job.py\<close>\<close>

definition KnowledgeIngestionJobModel :: orm_model where
  "KnowledgeIngestionJobModel = Model ''knowledge_ingestion_jobs''
    [Mapped ''tenant_id'' SqlUuid False [Indexed] (Some (''tenants'', ''id'', (Some Cascade))) None None,
     Mapped ''source_id'' SqlUuid False [Indexed] (Some (''knowledge_sources'', ''id'', (Some Cascade))) None None,
     Mapped ''status'' (SqlString (Some 32)) False [Indexed] None (Some (OrmText ''queued'')) None,
     Mapped ''stage'' (SqlString (Some 32)) True [] None None None,
     Mapped ''progress_pct'' SqlInteger False [] None (Some (OrmInt 0)) None,
     Mapped ''retry_count'' SqlInteger False [] None (Some (OrmInt 0)) None,
     Mapped ''max_retries'' SqlInteger False [] None (Some (OrmInt 3)) None,
     Mapped ''worker_id'' (SqlString (Some 64)) True [] None None None,
     Mapped ''error'' SqlText True [] None None None,
     Mapped ''submitted_at'' (SqlTimestamp True) False [] None None None,
     Mapped ''started_at'' (SqlTimestamp True) True [] None None None,
     Mapped ''completed_at'' (SqlTimestamp True) True [] None None None]
    [UUIDPrimaryKeyMixin]
    []"

section \<open>\<^verbatim>\<open>models/knowledge_source.py\<close>\<close>

definition KnowledgeSourceModel :: orm_model where
  "KnowledgeSourceModel = Model ''knowledge_sources''
    [Mapped ''title'' (SqlString (Some 512)) False [] None None None,
     Mapped ''source_type'' (SqlString (Some 32)) False [Indexed] None None None,
     Mapped ''status'' (SqlString (Some 32)) False [Indexed] None (Some (OrmEnum KnowledgeSourceStatus ''PENDING'')) None,
     Mapped ''file_path'' (SqlString (Some 1024)) True [] None None None,
     Mapped ''website_url'' (SqlString (Some 2048)) True [] None None None,
     Mapped ''file_size_bytes'' SqlBigInteger True [] None None None,
     Mapped ''content_type'' (SqlString (Some 128)) True [] None None None,
     Mapped ''original_filename'' (SqlString (Some 512)) True [] None None None,
     Mapped ''file_hash'' (SqlString (Some 64)) True [Indexed] None None None,
     Mapped ''processing_stage'' (SqlString (Some 32)) True [Indexed] None (Some (OrmEnum KnowledgeProcessingStage ''UPLOAD'')) None,
     Mapped ''processing_started_at'' (SqlTimestamp True) True [] None None None,
     Mapped ''processing_completed_at'' (SqlTimestamp True) True [] None None None,
     Mapped ''processing_error'' SqlText True [] None None None,
     Mapped ''progress_pct'' SqlInteger False [] None (Some (OrmInt 0)) None,
     Mapped ''chunk_count'' SqlInteger False [] None (Some (OrmInt 0)) None,
     Mapped ''embedding_count'' SqlInteger False [] None (Some (OrmInt 0)) None,
     Mapped ''embedding_model'' (SqlString (Some 128)) True [] None None None,
     Mapped ''embedding_status'' (SqlString (Some 32)) False [Indexed] None (Some (OrmEnum KnowledgeEmbeddingStatus ''PENDING'')) None,
     Mapped ''vector_namespace'' (SqlString (Some 256)) False [Unique, Indexed] None None None,
     Mapped ''vector_store_type'' (SqlString (Some 32)) True [] None None None,
     Mapped ''chunk_config'' SqlJsonb True [] None None None,
     Mapped ''metadata'' SqlJsonb True [] None None None]
    [UUIDPrimaryKeyMixin, TenantScopedMixin, TimestampMixin]
    []"

definition KnowledgeChunkModel :: orm_model where
  "KnowledgeChunkModel = Model ''knowledge_chunks''
    [Mapped ''source_id'' SqlUuid False [Indexed] (Some (''knowledge_sources'', ''id'', (Some Cascade))) None None,
     Mapped ''chunk_number'' SqlInteger False [] None None None,
     Mapped ''content'' SqlText False [] None None None,
     Mapped ''token_count'' SqlInteger True [] None None None,
     Mapped ''char_count'' SqlInteger True [] None None None,
     Mapped ''vector_id'' (SqlString (Some 256)) True [Indexed] None None None,
     Mapped ''chunk_metadata'' SqlJsonb True [] None None None]
    [UUIDPrimaryKeyMixin, TenantScopedMixin, TimestampMixin]
    []"

section \<open>\<^verbatim>\<open>models/memory.py\<close>\<close>

definition ConversationModel :: orm_model where
  "ConversationModel = Model ''conversations''
    [Mapped ''agent_id'' SqlUuid False [Indexed] (Some (''agents'', ''id'', (Some Cascade))) None None,
     Mapped ''status'' (SqlString (Some 32)) False [Indexed] None (Some (OrmEnum ConversationStatus ''ACTIVE'')) None,
     Mapped ''current_state'' (SqlString (Some 32)) False [Indexed] None (Some (OrmEnum SessionState ''CALL_STARTED'')) None,
     Mapped ''language'' (SqlString (Some 16)) False [] None (Some (OrmText ''en'')) None,
     Mapped ''turn_count'' SqlInteger False [] None (Some (OrmInt 0)) None,
     Mapped ''started_at'' (SqlTimestamp True) True [] None None None,
     Mapped ''ended_at'' (SqlTimestamp True) True [] None None None,
     Mapped ''expires_at'' (SqlTimestamp True) True [] None None None,
     Mapped ''metadata'' SqlJsonb True [] None None None]
    [UUIDPrimaryKeyMixin, TenantScopedMixin, TimestampMixin]
    []"

definition ConversationTurnModel :: orm_model where
  "ConversationTurnModel = Model ''conversation_turns''
    [Mapped ''conversation_id'' SqlUuid False [Indexed] (Some (''conversations'', ''id'', (Some Cascade))) None None,
     Mapped ''agent_id'' SqlUuid False [Indexed] (Some (''agents'', ''id'', (Some Cascade))) None None,
     Mapped ''turn_index'' SqlInteger False [] None None None,
     Mapped ''role'' (SqlString (Some 16)) False [Indexed] None None None,
     Mapped ''message'' SqlText False [] None None None,
     Mapped ''language'' (SqlString (Some 16)) False [] None (Some (OrmText ''en'')) None,
     Mapped ''latency_ms'' SqlInteger True [] None None None,
     Mapped ''tool_calls'' SqlJsonb True [] None None None,
     Mapped ''reasoning_steps'' SqlJsonb True [] None None None]
    [UUIDPrimaryKeyMixin, TenantScopedMixin, TimestampMixin]
    []"

definition ConversationSummaryModel :: orm_model where
  "ConversationSummaryModel = Model ''conversation_summaries''
    [Mapped ''conversation_id'' SqlUuid False [Indexed] (Some (''conversations'', ''id'', (Some Cascade))) None None,
     Mapped ''agent_id'' SqlUuid False [] (Some (''agents'', ''id'', (Some Cascade))) None None,
     Mapped ''customer_identity'' SqlText True [] None None None,
     Mapped ''conversation_goal'' SqlText True [] None None None,
     Mapped ''resolved_items'' SqlJsonb True [] None None None,
     Mapped ''pending_items'' SqlJsonb True [] None None None,
     Mapped ''collected_information'' SqlJsonb True [] None None None,
     Mapped ''summary_text'' SqlText False [] None None None,
     Mapped ''token_estimate'' SqlInteger False [] None (Some (OrmInt 0)) None,
     Mapped ''turn_count_at_summary'' SqlInteger False [] None (Some (OrmInt 0)) None,
     Mapped ''language'' (SqlString (Some 16)) False [] None (Some (OrmText ''en'')) None]
    [UUIDPrimaryKeyMixin, TenantScopedMixin, TimestampMixin]
    []"

definition WorkingMemoryModel :: orm_model where
  "WorkingMemoryModel = Model ''working_memory''
    [Mapped ''conversation_id'' SqlUuid False [Indexed] (Some (''conversations'', ''id'', (Some Cascade))) None None,
     Mapped ''agent_id'' SqlUuid False [] (Some (''agents'', ''id'', (Some Cascade))) None None,
     Mapped ''memory_key'' (SqlString (Some 64)) False [Indexed] None None None,
     Mapped ''value'' SqlText False [] None None None,
     Mapped ''value_type'' (SqlString (Some 32)) False [] None (Some (OrmText ''string'')) None,
     Mapped ''language'' (SqlString (Some 16)) True [] None None None,
     Mapped ''expires_at'' (SqlTimestamp True) True [] None None None,
     Mapped ''is_sensitive'' SqlBoolean False [] None (Some (OrmBool False)) None]
    [UUIDPrimaryKeyMixin, TenantScopedMixin, TimestampMixin]
    [(Some ''uq_working_memory_conversation_key'', [''conversation_id'', ''memory_key''])]"

definition ToolExecutionModel :: orm_model where
  "ToolExecutionModel = Model ''tool_executions''
    [Mapped ''conversation_id'' SqlUuid False [Indexed] (Some (''conversations'', ''id'', (Some Cascade))) None None,
     Mapped ''agent_id'' SqlUuid False [] (Some (''agents'', ''id'', (Some Cascade))) None None,
     Mapped ''tool_name'' (SqlString (Some 128)) False [Indexed] None None None,
     Mapped ''arguments'' SqlJsonb True [] None None None,
     Mapped ''execution_time_ms'' SqlInteger True [] None None None,
     Mapped ''status'' (SqlString (Some 32)) False [Indexed] None (Some (OrmEnum ToolExecutionStatus ''SUCCESS'')) None,
     Mapped ''result'' SqlText True [] None None None,
     Mapped ''error'' SqlText True [] None None None,
     Mapped ''executed_at'' (SqlTimestamp True) True [] None None None]
    [UUIDPrimaryKeyMixin, TenantScopedMixin, TimestampMixin]
    []"

section \<open>\<^verbatim>\<open>models/planner.py\<close>\<close>

definition PlannerSessionModel :: orm_model where
  "PlannerSessionModel = Model ''planner_sessions''
    [Mapped ''agent_id'' SqlUuid False [Indexed] (Some (''agents'', ''id'', (Some Cascade))) None None,
     Mapped ''conversation_id'' SqlUuid False [Indexed] None None None,
     Mapped ''status'' (SqlString (Some 32)) False [Indexed] None (Some (OrmEnum PlannerSessionStatus ''ACTIVE'')) None,
     Mapped ''language'' (SqlString (Some 16)) False [] None (Some (OrmText ''en'')) None,
     Mapped ''reasoning_step_count'' SqlInteger False [] None (Some (OrmInt 0)) None,
     Mapped ''last_intent'' (SqlString (Some 64)) True [] None None None,
     Mapped ''metadata'' SqlJsonb True [] None None None]
    [UUIDPrimaryKeyMixin, TenantScopedMixin, TimestampMixin]
    []"

definition PlannerDecisionModel :: orm_model where
  "PlannerDecisionModel = Model ''planner_decisions''
    [Mapped ''agent_id'' SqlUuid False [Indexed] (Some (''agents'', ''id'', (Some Cascade))) None None,
     Mapped ''conversation_id'' SqlUuid False [Indexed] None None None,
     Mapped ''session_id'' SqlUuid False [Indexed] (Some (''planner_sessions'', ''id'', (Some Cascade))) None None,
     Mapped ''intent'' (SqlString (Some 64)) False [Indexed] None None None,
     Mapped ''confidence'' SqlFloat False [] None None None,
     Mapped ''action'' (SqlString (Some 32)) False [Indexed] None None None,
     Mapped ''next_action'' (SqlString (Some 64)) True [] None None None,
     Mapped ''status'' (SqlString (Some 32)) False [Indexed] None (Some (OrmEnum PlannerDecisionStatus ''COMPLETED'')) None,
     Mapped ''reasoning_steps'' SqlJsonb True [] None None None,
     Mapped ''plan'' SqlJsonb True [] None None None,
     Mapped ''tool_call'' SqlJsonb True [] None None None,
     Mapped ''response_text'' SqlText True [] None None None,
     Mapped ''policy_decisions'' SqlJsonb True [] None None None,
     Mapped ''token_estimate'' SqlInteger False [] None (Some (OrmInt 0)) None,
     Mapped ''latency_ms'' SqlFloat False [] None (Some (OrmFloat 0 0)) None,
     Mapped ''model_provider'' (SqlString (Some 32)) False [] None (Some (OrmText ''structured'')) None,
     Mapped ''metadata'' SqlJsonb True [] None None None]
    [UUIDPrimaryKeyMixin, TenantScopedMixin, TimestampMixin]
    []"

definition PlannerHistoryModel :: orm_model where
  "PlannerHistoryModel = Model ''planner_history''
    [Mapped ''agent_id'' SqlUuid False [Indexed] (Some (''agents'', ''id'', (Some Cascade))) None None,
     Mapped ''conversation_id'' SqlUuid False [Indexed] None None None,
     Mapped ''session_id'' SqlUuid False [Indexed] (Some (''planner_sessions'', ''id'', (Some Cascade))) None None,
     Mapped ''decision_id'' SqlUuid True [Indexed] (Some (''planner_decisions'', ''id'', (Some SetNull))) None None,
     Mapped ''step_index'' SqlInteger False [] None None None,
     Mapped ''intent'' (SqlString (Some 64)) True [] None None None,
     Mapped ''action'' (SqlString (Some 32)) True [] None None None,
     Mapped ''reasoning'' SqlText True [] None None None,
     Mapped ''input_snapshot'' SqlJsonb True [] None None None,
     Mapped ''output_snapshot'' SqlJsonb True [] None None None,
     Mapped ''occurred_at'' (SqlTimestamp True) False [] None None None]
    [UUIDPrimaryKeyMixin, TenantScopedMixin, TimestampMixin]
    []"

definition PlannerMetricsModel :: orm_model where
  "PlannerMetricsModel = Model ''planner_metrics''
    [Mapped ''agent_id'' SqlUuid False [Indexed] (Some (''agents'', ''id'', (Some Cascade))) None None,
     Mapped ''conversation_id'' SqlUuid True [Indexed] None None None,
     Mapped ''total_plans'' SqlInteger False [] None (Some (OrmInt 0)) None,
     Mapped ''success_count'' SqlInteger False [] None (Some (OrmInt 0)) None,
     Mapped ''failure_count'' SqlInteger False [] None (Some (OrmInt 0)) None,
     Mapped ''escalation_count'' SqlInteger False [] None (Some (OrmInt 0)) None,
     Mapped ''average_latency_ms'' SqlFloat False [] None (Some (OrmFloat 0 0)) None,
     Mapped ''average_confidence'' SqlFloat False [] None (Some (OrmFloat 0 0)) None,
     Mapped ''average_reasoning_steps'' SqlFloat False [] None (Some (OrmFloat 0 0)) None,
     Mapped ''cache_hits'' SqlInteger False [] None (Some (OrmInt 0)) None,
     Mapped ''cache_misses'' SqlInteger False [] None (Some (OrmInt 0)) None,
     Mapped ''total_tokens'' SqlInteger False [] None (Some (OrmInt 0)) None,
     Mapped ''calls_by_intent'' SqlJsonb True [] None None None,
     Mapped ''metadata'' SqlJsonb True [] None None None]
    [UUIDPrimaryKeyMixin, TenantScopedMixin, TimestampMixin]
    []"

section \<open>\<^verbatim>\<open>models/tenant.py\<close>\<close>

definition TenantModel :: orm_model where
  "TenantModel = Model ''tenants''
    [Mapped ''company_name'' (SqlString (Some 255)) False [] None None None,
     Mapped ''industry'' (SqlString (Some 128)) True [] None None None,
     Mapped ''slug'' (SqlString (Some 128)) False [Unique, Indexed] None None None,
     Mapped ''contact_email'' (SqlString (Some 320)) False [] None None None,
     Mapped ''timezone'' (SqlString (Some 64)) False [] None (Some (OrmText ''UTC'')) None,
     Mapped ''languages'' (SqlArray (SqlString (Some 16))) False [] None (Some (OrmCall ''list'')) (Some (Literal ''{}'')),
     Mapped ''subscription_plan'' (SqlString (Some 32)) False [] None (Some (OrmEnum SubscriptionPlan ''FREE'')) None,
     Mapped ''status'' (SqlString (Some 32)) False [Indexed] None (Some (OrmEnum TenantStatus ''ACTIVE'')) None,
     Mapped ''metadata'' SqlJsonb True [] None None None]
    [UUIDPrimaryKeyMixin, TimestampMixin]
    []"

section \<open>\<^verbatim>\<open>models/tool.py\<close>\<close>

definition ToolModel :: orm_model where
  "ToolModel = Model ''tools''
    [Mapped ''name'' (SqlString (Some 255)) False [] None None None,
     Mapped ''slug'' (SqlString (Some 128)) False [Indexed] None None None,
     Mapped ''description'' SqlText True [] None None None,
     Mapped ''handler_type'' (SqlString (Some 32)) False [] None (Some (OrmEnum ToolHandlerType ''BUILTIN'')) None,
     Mapped ''input_schema'' SqlJsonb True [] None None None,
     Mapped ''handler_config'' SqlJsonb True [] None None None,
     Mapped ''status'' (SqlString (Some 32)) False [Indexed] None (Some (OrmEnum ToolStatus ''ACTIVE'')) None,
     Mapped ''version'' (SqlString (Some 32)) False [] None (Some (OrmText ''1.0.0'')) None]
    [UUIDPrimaryKeyMixin, TenantScopedMixin, TimestampMixin]
    [(Some ''uq_tools_tenant_slug'', [''tenant_id'', ''slug''])]"

section \<open>\<^verbatim>\<open>models/tool_framework.py\<close>\<close>

definition ToolPermissionModel :: orm_model where
  "ToolPermissionModel = Model ''tool_permissions''
    [Mapped ''agent_id'' SqlUuid True [Indexed] (Some (''agents'', ''id'', (Some Cascade))) None None,
     Mapped ''tool_slug'' (SqlString (Some 128)) False [Indexed] None None None,
     Mapped ''effect'' (SqlString (Some 16)) False [] None (Some (OrmEnum ToolPermissionEffect ''ALLOW'')) None,
     Mapped ''department'' (SqlString (Some 128)) True [] None None None,
     Mapped ''role'' (SqlString (Some 128)) True [] None None None,
     Mapped ''max_executions_per_hour'' SqlInteger True [] None None None,
     Mapped ''working_hours_start'' (SqlString (Some 8)) True [] None None None,
     Mapped ''working_hours_end'' (SqlString (Some 8)) True [] None None None,
     Mapped ''metadata'' SqlJsonb True [] None None None]
    [UUIDPrimaryKeyMixin, TenantScopedMixin, TimestampMixin]
    [(Some ''uq_tool_permissions_scope'', [''tenant_id'', ''tool_slug'', ''agent_id''])]"

definition TenantToolConfigModel :: orm_model where
  "TenantToolConfigModel = Model ''tenant_tool_configs''
    [Mapped ''tool_slug'' (SqlString (Some 128)) False [Indexed] None None None,
     Mapped ''enabled'' SqlBoolean False [] None (Some (OrmBool True)) None,
     Mapped ''credentials_ref'' (SqlString (Some 512)) True [] None None None,
     Mapped ''provider_config'' SqlJsonb True [] None None None,
     Mapped ''rate_limit_per_minute'' SqlInteger True [] None None None,
     Mapped ''timeout_seconds'' SqlFloat True [] None None None,
     Mapped ''metadata'' SqlJsonb True [] None None None]
    [UUIDPrimaryKeyMixin, TenantScopedMixin, TimestampMixin]
    [(Some ''uq_tenant_tool_configs_slug'', [''tenant_id'', ''tool_slug''])]"

definition ToolFrameworkExecutionModel :: orm_model where
  "ToolFrameworkExecutionModel = Model ''tool_framework_executions''
    [Mapped ''agent_id'' SqlUuid False [Indexed] (Some (''agents'', ''id'', (Some Cascade))) None None,
     Mapped ''conversation_id'' SqlUuid True [Indexed] None None None,
     Mapped ''tool_slug'' (SqlString (Some 128)) False [Indexed] None None None,
     Mapped ''tool_name'' (SqlString (Some 255)) False [] None None None,
     Mapped ''status'' (SqlString (Some 32)) False [Indexed] None (Some (OrmEnum ToolFrameworkExecutionStatus ''SUCCESS'')) None,
     Mapped ''arguments'' SqlJsonb True [] None None None,
     Mapped ''result'' SqlJsonb True [] None None None,
     Mapped ''error'' SqlText True [] None None None,
     Mapped ''execution_time_ms'' SqlFloat False [] None (Some (OrmFloat 0 0)) None,
     Mapped ''retry_count'' SqlInteger False [] None (Some (OrmInt 0)) None,
     Mapped ''idempotency_key'' (SqlString (Some 128)) True [Indexed] None None None,
     Mapped ''metadata'' SqlJsonb True [] None None None]
    [UUIDPrimaryKeyMixin, TenantScopedMixin, TimestampMixin]
    []"

definition ToolAuditModel :: orm_model where
  "ToolAuditModel = Model ''tool_audit_logs''
    [Mapped ''agent_id'' SqlUuid False [Indexed] (Some (''agents'', ''id'', (Some Cascade))) None None,
     Mapped ''conversation_id'' SqlUuid True [Indexed] None None None,
     Mapped ''execution_id'' SqlUuid True [Indexed] (Some (''tool_framework_executions'', ''id'', (Some SetNull))) None None,
     Mapped ''tool_slug'' (SqlString (Some 128)) False [Indexed] None None None,
     Mapped ''status'' (SqlString (Some 32)) False [Indexed] None None None,
     Mapped ''planner_request'' SqlJsonb True [] None None None,
     Mapped ''validated_arguments'' SqlJsonb True [] None None None,
     Mapped ''execution_result'' SqlJsonb True [] None None None,
     Mapped ''execution_duration_ms'' SqlFloat True [] None None None,
     Mapped ''operator'' (SqlString (Some 128)) True [] None None None,
     Mapped ''error'' SqlText True [] None None None,
     Mapped ''occurred_at'' (SqlTimestamp True) False [] None None None]
    [UUIDPrimaryKeyMixin, TenantScopedMixin, TimestampMixin]
    []"

section \<open>\<^verbatim>\<open>models/verifier.py\<close>\<close>

definition VerifierDecisionModel :: orm_model where
  "VerifierDecisionModel = Model ''verifier_decisions''
    [Mapped ''agent_id'' SqlUuid False [Indexed] (Some (''agents'', ''id'', (Some Cascade))) None None,
     Mapped ''conversation_id'' SqlUuid False [Indexed] None None None,
     Mapped ''planner_decision_id'' SqlUuid True [Indexed] None None None,
     Mapped ''approved'' SqlBoolean False [] None None None,
     Mapped ''outcome'' (SqlString (Some 32)) False [Indexed] None None None,
     Mapped ''risk_level'' (SqlString (Some 16)) False [Indexed] None None None,
     Mapped ''requires_confirmation'' SqlBoolean False [] None (Some (OrmBool False)) None,
     Mapped ''requires_human'' SqlBoolean False [] None (Some (OrmBool False)) None,
     Mapped ''reason'' SqlText True [] None None None,
     Mapped ''corrected_tool_arguments'' SqlJsonb True [] None None None,
     Mapped ''warnings'' SqlJsonb True [] None None None,
     Mapped ''violations'' SqlJsonb True [] None None None,
     Mapped ''planner_snapshot'' SqlJsonb True [] None None None,
     Mapped ''identity_status'' (SqlString (Some 32)) True [] None None None,
     Mapped ''latency_ms'' SqlFloat False [] None (Some (OrmFloat 0 0)) None,
     Mapped ''token_estimate'' SqlInteger False [] None (Some (OrmInt 0)) None,
     Mapped ''model_provider'' (SqlString (Some 32)) False [] None (Some (OrmText ''structured'')) None,
     Mapped ''metadata'' SqlJsonb True [] None None None]
    [UUIDPrimaryKeyMixin, TenantScopedMixin, TimestampMixin]
    []"

definition RiskAssessmentModel :: orm_model where
  "RiskAssessmentModel = Model ''verifier_risk_assessments''
    [Mapped ''agent_id'' SqlUuid False [Indexed] (Some (''agents'', ''id'', (Some Cascade))) None None,
     Mapped ''conversation_id'' SqlUuid False [Indexed] None None None,
     Mapped ''decision_id'' SqlUuid False [Indexed] (Some (''verifier_decisions'', ''id'', (Some Cascade))) None None,
     Mapped ''risk_level'' (SqlString (Some 16)) False [Indexed] None None None,
     Mapped ''intent'' (SqlString (Some 64)) True [] None None None,
     Mapped ''tool_slug'' (SqlString (Some 128)) True [] None None None,
     Mapped ''action'' (SqlString (Some 32)) True [] None None None,
     Mapped ''factors'' SqlJsonb True [] None None None,
     Mapped ''score'' SqlFloat False [] None (Some (OrmFloat 0 0)) None,
     Mapped ''metadata'' SqlJsonb True [] None None None]
    [UUIDPrimaryKeyMixin, TenantScopedMixin, TimestampMixin]
    []"

definition PolicyViolationModel :: orm_model where
  "PolicyViolationModel = Model ''verifier_policy_violations''
    [Mapped ''agent_id'' SqlUuid False [Indexed] (Some (''agents'', ''id'', (Some Cascade))) None None,
     Mapped ''conversation_id'' SqlUuid False [Indexed] None None None,
     Mapped ''decision_id'' SqlUuid True [Indexed] (Some (''verifier_decisions'', ''id'', (Some SetNull))) None None,
     Mapped ''policy_key'' (SqlString (Some 128)) False [Indexed] None None None,
     Mapped ''violation_type'' (SqlString (Some 64)) False [] None None None,
     Mapped ''message'' SqlText False [] None None None,
     Mapped ''severity'' (SqlString (Some 16)) False [] None (Some (OrmText ''medium'')) None,
     Mapped ''metadata'' SqlJsonb True [] None None None]
    [UUIDPrimaryKeyMixin, TenantScopedMixin, TimestampMixin]
    []"

definition ComplianceCheckModel :: orm_model where
  "ComplianceCheckModel = Model ''verifier_compliance_checks''
    [Mapped ''agent_id'' SqlUuid False [Indexed] (Some (''agents'', ''id'', (Some Cascade))) None None,
     Mapped ''conversation_id'' SqlUuid False [Indexed] None None None,
     Mapped ''decision_id'' SqlUuid True [Indexed] (Some (''verifier_decisions'', ''id'', (Some SetNull))) None None,
     Mapped ''framework'' (SqlString (Some 32)) False [Indexed] None None None,
     Mapped ''passed'' SqlBoolean False [] None None None,
     Mapped ''findings'' SqlJsonb True [] None None None,
     Mapped ''checked_at'' (SqlTimestamp True) False [] None None None,
     Mapped ''metadata'' SqlJsonb True [] None None None]
    [UUIDPrimaryKeyMixin, TenantScopedMixin, TimestampMixin]
    []"

definition VerifierAuditModel :: orm_model where
  "VerifierAuditModel = Model ''verifier_audit_logs''
    [Mapped ''agent_id'' SqlUuid False [Indexed] (Some (''agents'', ''id'', (Some Cascade))) None None,
     Mapped ''conversation_id'' SqlUuid False [Indexed] None None None,
     Mapped ''decision_id'' SqlUuid True [Indexed] (Some (''verifier_decisions'', ''id'', (Some SetNull))) None None,
     Mapped ''status'' (SqlString (Some 32)) False [Indexed] None None None,
     Mapped ''planner_output'' SqlJsonb True [] None None None,
     Mapped ''verifier_result'' SqlJsonb True [] None None None,
     Mapped ''validation_failures'' SqlJsonb True [] None None None,
     Mapped ''policy_violations'' SqlJsonb True [] None None None,
     Mapped ''risk_score'' SqlFloat True [] None None None,
     Mapped ''identity_status'' (SqlString (Some 32)) True [] None None None,
     Mapped ''tool_validation'' SqlJsonb True [] None None None,
     Mapped ''occurred_at'' (SqlTimestamp True) False [] None None None]
    [UUIDPrimaryKeyMixin, TenantScopedMixin, TimestampMixin]
    []"

section \<open>\<^verbatim>\<open>models/workflow.py\<close>\<close>

definition WorkflowModel :: orm_model where
  "WorkflowModel = Model ''workflows''
    [Mapped ''slug'' (SqlString (Some 128)) False [Indexed] None None None,
     Mapped ''name'' (SqlString (Some 255)) False [] None None None,
     Mapped ''description'' SqlText True [] None None None,
     Mapped ''version'' (SqlString (Some 32)) False [] None (Some (OrmText ''1.0.0'')) None,
     Mapped ''enabled'' SqlBoolean False [] None (Some (OrmBool True)) None,
     Mapped ''definition'' SqlJsonb False [] None None None,
     Mapped ''metadata'' SqlJsonb True [] None None None]
    [UUIDPrimaryKeyMixin, TenantScopedMixin, TimestampMixin]
    [(Some ''uq_workflows_tenant_slug'', [''tenant_id'', ''slug''])]"

definition WorkflowExecutionModel :: orm_model where
  "WorkflowExecutionModel = Model ''workflow_executions''
    [Mapped ''agent_id'' SqlUuid False [Indexed] (Some (''agents'', ''id'', (Some Cascade))) None None,
     Mapped ''workflow_id'' SqlUuid False [Indexed] (Some (''workflows'', ''id'', (Some Cascade))) None None,
     Mapped ''conversation_id'' SqlUuid False [Indexed] None None None,
     Mapped ''status'' (SqlString (Some 32)) False [Indexed] None (Some (OrmEnum WorkflowExecutionStatus ''RUNNING'')) None,
     Mapped ''current_state'' (SqlString (Some 32)) False [Indexed] None (Some (OrmEnum WorkflowState ''STARTED'')) None,
     Mapped ''context'' SqlJsonb True [] None None None,
     Mapped ''step_index'' SqlInteger False [] None (Some (OrmInt 0)) None,
     Mapped ''retry_count'' SqlInteger False [] None (Some (OrmInt 0)) None,
     Mapped ''started_at'' (SqlTimestamp True) True [] None None None,
     Mapped ''completed_at'' (SqlTimestamp True) True [] None None None,
     Mapped ''expires_at'' (SqlTimestamp True) True [] None None None,
     Mapped ''error'' SqlText True [] None None None,
     Mapped ''metadata'' SqlJsonb True [] None None None]
    [UUIDPrimaryKeyMixin, TenantScopedMixin, TimestampMixin]
    []"

definition WorkflowRuleModel :: orm_model where
  "WorkflowRuleModel = Model ''workflow_rules''
    [Mapped ''workflow_id'' SqlUuid True [Indexed] (Some (''workflows'', ''id'', (Some Cascade))) None None,
     Mapped ''name'' (SqlString (Some 255)) False [] None None None,
     Mapped ''priority'' SqlInteger False [Indexed] None (Some (OrmInt 100)) None,
     Mapped ''enabled'' SqlBoolean False [] None (Some (OrmBool True)) None,
     Mapped ''conditions'' SqlJsonb False [] None None None,
     Mapped ''actions'' SqlJsonb False [] None None None,
     Mapped ''else_actions'' SqlJsonb True [] None None None,
     Mapped ''metadata'' SqlJsonb True [] None None None]
    [UUIDPrimaryKeyMixin, TenantScopedMixin, TimestampMixin]
    []"

definition WorkflowApprovalModel :: orm_model where
  "WorkflowApprovalModel = Model ''workflow_approvals''
    [Mapped ''execution_id'' SqlUuid False [Indexed] (Some (''workflow_executions'', ''id'', (Some Cascade))) None None,
     Mapped ''agent_id'' SqlUuid False [Indexed] (Some (''agents'', ''id'', (Some Cascade))) None None,
     Mapped ''conversation_id'' SqlUuid False [Indexed] None None None,
     Mapped ''approval_mode'' (SqlString (Some 32)) False [] None None None,
     Mapped ''status'' (SqlString (Some 32)) False [Indexed] None (Some (OrmEnum WorkflowApprovalStatus ''PENDING'')) None,
     Mapped ''approver_role'' (SqlString (Some 128)) True [] None None None,
     Mapped ''approver_id'' (SqlString (Some 128)) True [] None None None,
     Mapped ''step_order'' SqlInteger False [] None (Some (OrmInt 0)) None,
     Mapped ''reason'' SqlText True [] None None None,
     Mapped ''expires_at'' (SqlTimestamp True) True [] None None None,
     Mapped ''decided_at'' (SqlTimestamp True) True [] None None None,
     Mapped ''metadata'' SqlJsonb True [] None None None]
    [UUIDPrimaryKeyMixin, TenantScopedMixin, TimestampMixin]
    []"

definition WorkflowEscalationModel :: orm_model where
  "WorkflowEscalationModel = Model ''workflow_escalations''
    [Mapped ''execution_id'' SqlUuid False [Indexed] (Some (''workflow_executions'', ''id'', (Some Cascade))) None None,
     Mapped ''agent_id'' SqlUuid False [Indexed] (Some (''agents'', ''id'', (Some Cascade))) None None,
     Mapped ''conversation_id'' SqlUuid False [Indexed] None None None,
     Mapped ''target'' (SqlString (Some 64)) False [Indexed] None None None,
     Mapped ''reason'' SqlText False [] None None None,
     Mapped ''context_snapshot'' SqlJsonb True [] None None None,
     Mapped ''status'' (SqlString (Some 32)) False [Indexed] None (Some (OrmText ''pending'')) None,
     Mapped ''metadata'' SqlJsonb True [] None None None]
    [UUIDPrimaryKeyMixin, TenantScopedMixin, TimestampMixin]
    []"

definition BusinessPolicyModel :: orm_model where
  "BusinessPolicyModel = Model ''business_policies''
    [Mapped ''policy_key'' (SqlString (Some 128)) False [Indexed] None None None,
     Mapped ''policy_value'' SqlJsonb False [] None None None,
     Mapped ''enabled'' SqlBoolean False [] None (Some (OrmBool True)) None,
     Mapped ''department'' (SqlString (Some 128)) True [] None None None,
     Mapped ''metadata'' SqlJsonb True [] None None None]
    [UUIDPrimaryKeyMixin, TenantScopedMixin, TimestampMixin]
    [(Some ''uq_business_policies_key'', [''tenant_id'', ''policy_key''])]"

definition RoutingRuleModel :: orm_model where
  "RoutingRuleModel = Model ''routing_rules''
    [Mapped ''name'' (SqlString (Some 255)) False [] None None None,
     Mapped ''strategy'' (SqlString (Some 32)) False [Indexed] None None None,
     Mapped ''priority'' SqlInteger False [] None (Some (OrmInt 100)) None,
     Mapped ''enabled'' SqlBoolean False [] None (Some (OrmBool True)) None,
     Mapped ''conditions'' SqlJsonb False [] None None None,
     Mapped ''target'' SqlJsonb False [] None None None,
     Mapped ''metadata'' SqlJsonb True [] None None None]
    [UUIDPrimaryKeyMixin, TenantScopedMixin, TimestampMixin]
    []"

definition WorkflowAuditModel :: orm_model where
  "WorkflowAuditModel = Model ''workflow_audit_logs''
    [Mapped ''agent_id'' SqlUuid False [Indexed] (Some (''agents'', ''id'', (Some Cascade))) None None,
     Mapped ''execution_id'' SqlUuid True [Indexed] (Some (''workflow_executions'', ''id'', (Some SetNull))) None None,
     Mapped ''conversation_id'' SqlUuid True [Indexed] None None None,
     Mapped ''event_type'' (SqlString (Some 64)) False [Indexed] None None None,
     Mapped ''payload'' SqlJsonb True [] None None None,
     Mapped ''operator'' (SqlString (Some 128)) True [] None None None,
     Mapped ''occurred_at'' (SqlTimestamp True) False [] None None None]
    [UUIDPrimaryKeyMixin, TenantScopedMixin, TimestampMixin]
    []"

definition MODELS :: "orm_model list" where
  "MODELS =
    [TenantModel, AgentModel, AgentConfigurationModel, KnowledgeBaseModel, ToolModel, AuditLogModel,
    KnowledgeSourceModel, KnowledgeChunkModel, ConversationModel, ConversationTurnModel,
    ConversationSummaryModel, WorkingMemoryModel, ToolExecutionModel, ToolPermissionModel,
    TenantToolConfigModel, ToolFrameworkExecutionModel, ToolAuditModel, PlannerSessionModel,
    PlannerDecisionModel, PlannerHistoryModel, PlannerMetricsModel, VerifierDecisionModel,
    RiskAssessmentModel, PolicyViolationModel, ComplianceCheckModel, VerifierAuditModel,
    WorkflowModel, WorkflowExecutionModel, WorkflowRuleModel, WorkflowApprovalModel,
    WorkflowEscalationModel, BusinessPolicyModel, RoutingRuleModel, WorkflowAuditModel,
    OrganizationModel, IamUserModel, OrganizationMembershipModel, IamRoleModel, IamApiKeyModel,
    IamSessionModel, IamSecurityPolicyModel, IamSecurityEventModel, IamAuditLogModel,
    OAuthIdentityModel, SsoProviderModel, MfaFactorModel, ComplianceSettingsModel,
    KnowledgeIngestionJobModel, IntegrationConnectionModel, IntegrationCredentialModel,
    IntegrationFieldMappingModel, IntegrationSyncJobModel, IntegrationSyncCursorModel,
    IntegrationWebhookEventModel, IntegrationWebhookDlqModel, IntegrationAuditLogModel]"

section \<open>Does a table serve a class?\<close>

definition model_columns :: "orm_model \<Rightarrow> orm_column list" where
  "model_columns m = model_own m @ concat (model_mixins m)"

definition flagged :: "orm_flag \<Rightarrow> orm_model \<Rightarrow> string list" where
  "flagged f m = map mc_name (filter (\<lambda>x. f \<in> set (mc_flags x)) (model_columns m))"

definition model_uniques :: "orm_model \<Rightarrow> string list list" where
  "model_uniques m = map snd (model_args m) @ map (\<lambda>x. [x]) (flagged Unique m)"

definition model_fks :: "orm_model \<Rightarrow> foreign_key list" where
  "model_fks m = List.map_filter
    (\<lambda>x. map_option (\<lambda>(t, y, d). ForeignKey [mc_name x] t [y] d) (mc_reference x)) (model_columns m)"

text \<open>Every value of the class's type fits in the column: a text without a length takes any text.\<close>

fun admits :: "sql_type \<Rightarrow> sql_type \<Rightarrow> bool" where
  "admits (SqlString None) (SqlString _) = True"
| "admits (SqlArray s) (SqlArray t) = admits s t"
| "admits s t = (s = t)"

text \<open>
  A default of the class and the server default denote the same value; numbers are compared as decimals.
\<close>

fun decimal :: "string \<Rightarrow> int \<Rightarrow> nat option \<Rightarrow> (int \<times> nat) option" where
  "decimal [] n k = Some (n, case k of None \<Rightarrow> 0 | Some j \<Rightarrow> j)"
| "decimal (c # cs) n k =
    (if c = CHR ''.'' then (case k of None \<Rightarrow> decimal cs n (Some 0) | Some _ \<Rightarrow> None)
     else if 48 \<le> (of_char c :: int) \<and> (of_char c :: int) \<le> 57
     then decimal cs (10 * n + (of_char c - 48)) (map_option Suc k)
     else None)"

definition same_number :: "string \<Rightarrow> int \<Rightarrow> nat \<Rightarrow> bool" where
  "same_number s n k =
    (case decimal s 0 None of None \<Rightarrow> False | Some (m, j) \<Rightarrow> m * 10 ^ k = n * 10 ^ j)"

fun denotes :: "orm_default \<Rightarrow> string \<Rightarrow> bool" where
  "denotes (OrmText t) s = (s = t)"
| "denotes (OrmEnum e m) s = (enum_value e m = Some s)"
| "denotes (OrmBool b) s = (s = (if b then ''true'' else ''false''))"
| "denotes (OrmInt i) s = same_number s i 0"
| "denotes (OrmFloat n k) s = same_number s n k"
| "denotes (OrmCall f) s = (f = ''list'' \<and> s = ''{}'')"

fun default_text :: "sql_default \<Rightarrow> string" where
  "default_text (Literal s) = s"
| "default_text (Expression s) = s"

definition default_agrees :: "column \<Rightarrow> orm_column \<Rightarrow> bool" where
  "default_agrees c x =
    ((case (mc_default x, col_default c) of
        (Some d, Some s) \<Rightarrow> denotes d (default_text s)
      | _ \<Rightarrow> True) \<and>
     (mc_server_default x \<noteq> None \<longrightarrow> mc_server_default x = col_default c))"

text \<open>Every value of an enumeration that is the default of a column has room in the column.\<close>

definition enum_fits :: "orm_column \<Rightarrow> bool" where
  "enum_fits x =
    (case (mc_default x, mc_type x) of
       (Some (OrmEnum e _), SqlString (Some n)) \<Rightarrow> list_all (\<lambda>p. length (snd p) \<le> n) e
     | _ \<Rightarrow> True)"

definition column_serves :: "table_def \<Rightarrow> orm_column \<Rightarrow> bool" where
  "column_serves t x =
    (case List.find (\<lambda>c. col_name c = mc_name x) (table_columns t) of
       None \<Rightarrow> False
     | Some c \<Rightarrow> admits (col_type c) (mc_type x) \<and> col_nullable c = mc_nullable x \<and> default_agrees c x \<and> enum_fits x)"

definition serves :: "table_def \<Rightarrow> orm_model \<Rightarrow> bool" where
  "serves t m =
    (table_name t = model_table m \<and>
     list_all (column_serves t) (model_columns m) \<and>
     list_all (\<lambda>c. c \<in> set (map mc_name (model_columns m))) (column_names t) \<and>
     table_pk t = flagged PrimaryKey m \<and>
     set (table_fks t) = set (model_fks m) \<and>
     set (map snd (table_uniques t)) = set (model_uniques m))"

text \<open>The table as it is after the last revision: the ninth adds a column to one of the second.\<close>

definition later :: "table_def \<Rightarrow> table_def" where
  "later t = widen (Change [] [(''knowledge_sources'', Column ''file_hash'' (SqlString (Some 64)) True None)] []) t"

definition served_001 :: "(table_def \<times> orm_model) list" where
  "served_001 =
    [(tenants_table, TenantModel),
     (agents_table, AgentModel),
     (agent_configurations_table, AgentConfigurationModel),
     (knowledge_bases_table, KnowledgeBaseModel),
     (tools_table, ToolModel),
     (audit_logs_table, AuditLogModel)]"

lemma serves_001: "list_all (\<lambda>(t, m). serves (later t) m) served_001"
  by code_simp

definition served_002 :: "(table_def \<times> orm_model) list" where
  "served_002 =
    [(knowledge_sources_table, KnowledgeSourceModel),
     (knowledge_chunks_table, KnowledgeChunkModel)]"

lemma serves_002: "list_all (\<lambda>(t, m). serves (later t) m) served_002"
  by code_simp

definition served_003 :: "(table_def \<times> orm_model) list" where
  "served_003 =
    [(conversations_table, ConversationModel),
     (conversation_turns_table, ConversationTurnModel),
     (conversation_summaries_table, ConversationSummaryModel),
     (working_memory_table, WorkingMemoryModel),
     (tool_executions_table, ToolExecutionModel)]"

lemma serves_003: "list_all (\<lambda>(t, m). serves (later t) m) served_003"
  by code_simp

definition served_004 :: "(table_def \<times> orm_model) list" where
  "served_004 =
    [(tool_permissions_table, ToolPermissionModel),
     (tenant_tool_configs_table, TenantToolConfigModel),
     (tool_framework_executions_table, ToolFrameworkExecutionModel),
     (tool_audit_logs_table, ToolAuditModel)]"

lemma serves_004: "list_all (\<lambda>(t, m). serves (later t) m) served_004"
  by code_simp

definition served_005 :: "(table_def \<times> orm_model) list" where
  "served_005 =
    [(planner_sessions_table, PlannerSessionModel),
     (planner_decisions_table, PlannerDecisionModel),
     (planner_history_table, PlannerHistoryModel),
     (planner_metrics_table, PlannerMetricsModel)]"

lemma serves_005: "list_all (\<lambda>(t, m). serves (later t) m) served_005"
  by code_simp

definition served_006 :: "(table_def \<times> orm_model) list" where
  "served_006 =
    [(verifier_decisions_table, VerifierDecisionModel),
     (verifier_risk_assessments_table, RiskAssessmentModel),
     (verifier_policy_violations_table, PolicyViolationModel),
     (verifier_compliance_checks_table, ComplianceCheckModel),
     (verifier_audit_logs_table, VerifierAuditModel)]"

lemma serves_006: "list_all (\<lambda>(t, m). serves (later t) m) served_006"
  by code_simp

definition served_007 :: "(table_def \<times> orm_model) list" where
  "served_007 =
    [(workflows_table, WorkflowModel),
     (workflow_executions_table, WorkflowExecutionModel),
     (workflow_rules_table, WorkflowRuleModel),
     (workflow_approvals_table, WorkflowApprovalModel),
     (workflow_escalations_table, WorkflowEscalationModel),
     (business_policies_table, BusinessPolicyModel),
     (routing_rules_table, RoutingRuleModel),
     (workflow_audit_logs_table, WorkflowAuditModel)]"

lemma serves_007: "list_all (\<lambda>(t, m). serves (later t) m) served_007"
  by code_simp

definition served_008 :: "(table_def \<times> orm_model) list" where
  "served_008 =
    [(organizations_table, OrganizationModel),
     (iam_users_table, IamUserModel),
     (organization_memberships_table, OrganizationMembershipModel),
     (iam_roles_table, IamRoleModel),
     (iam_api_keys_table, IamApiKeyModel),
     (iam_sessions_table, IamSessionModel),
     (iam_security_policies_table, IamSecurityPolicyModel),
     (iam_security_events_table, IamSecurityEventModel),
     (iam_audit_logs_table, IamAuditLogModel),
     (oauth_identities_table, OAuthIdentityModel),
     (sso_providers_table, SsoProviderModel),
     (mfa_factors_table, MfaFactorModel),
     (compliance_settings_table, ComplianceSettingsModel)]"

lemma serves_008: "list_all (\<lambda>(t, m). serves (later t) m) served_008"
  by code_simp

definition served_009 :: "(table_def \<times> orm_model) list" where
  "served_009 =
    [(knowledge_ingestion_jobs_table, KnowledgeIngestionJobModel)]"

lemma serves_009: "list_all (\<lambda>(t, m). serves t m) served_009"
  by code_simp

definition served_010 :: "(table_def \<times> orm_model) list" where
  "served_010 =
    [(integration_connections_table, IntegrationConnectionModel),
     (integration_credentials_table, IntegrationCredentialModel),
     (integration_field_mappings_table, IntegrationFieldMappingModel),
     (integration_sync_jobs_table, IntegrationSyncJobModel),
     (integration_sync_cursors_table, IntegrationSyncCursorModel),
     (integration_webhook_events_table, IntegrationWebhookEventModel),
     (integration_webhook_dlq_table, IntegrationWebhookDlqModel),
     (integration_audit_logs_table, IntegrationAuditLogModel)]"

lemma serves_010: "list_all (\<lambda>(t, m). serves t m) served_010"
  by code_simp


lemmas served_defs =
  served_001_def served_002_def served_003_def served_004_def served_005_def
  served_006_def served_007_def served_008_def served_009_def served_010_def

lemma MODELS_served:
  "MODELS = map snd (served_001 @ served_002 @ served_003 @ served_004 @ served_005 @
     served_006 @ served_007 @ served_008) @ map snd (served_009 @ served_010)"
  by (simp add: MODELS_def served_defs)

section \<open>The schema after the last revision\<close>

lemma created_001:
  "created_tables upgrade_001 =
    [tenants_table, agents_table, agent_configurations_table, knowledge_bases_table, tools_table,
     audit_logs_table]"
  by (simp add: created_tables_def upgrade_001_def)

lemma created_002:
  "created_tables upgrade_002 =
    [knowledge_sources_table, knowledge_chunks_table]"
  by (simp add: created_tables_def upgrade_002_def)

lemma created_003:
  "created_tables upgrade_003 =
    [conversations_table, conversation_turns_table, conversation_summaries_table,
     working_memory_table, tool_executions_table]"
  by (simp add: created_tables_def upgrade_003_def)

lemma created_004:
  "created_tables upgrade_004 =
    [tool_permissions_table, tenant_tool_configs_table, tool_framework_executions_table,
     tool_audit_logs_table]"
  by (simp add: created_tables_def upgrade_004_def)

lemma created_005:
  "created_tables upgrade_005 =
    [planner_sessions_table, planner_decisions_table, planner_history_table, planner_metrics_table]"
  by (simp add: created_tables_def upgrade_005_def)

lemma created_006:
  "created_tables upgrade_006 =
    [verifier_decisions_table, verifier_risk_assessments_table, verifier_policy_violations_table,
     verifier_compliance_checks_table, verifier_audit_logs_table]"
  by (simp add: created_tables_def upgrade_006_def)

lemma created_007:
  "created_tables upgrade_007 =
    [workflows_table, workflow_executions_table, workflow_rules_table, workflow_approvals_table,
     workflow_escalations_table, business_policies_table, routing_rules_table,
     workflow_audit_logs_table]"
  by (simp add: created_tables_def upgrade_007_def)

lemma created_008:
  "created_tables upgrade_008 =
    [organizations_table, iam_users_table, organization_memberships_table, iam_roles_table,
     iam_api_keys_table, iam_sessions_table, iam_security_policies_table, iam_security_events_table,
     iam_audit_logs_table, oauth_identities_table, sso_providers_table, mfa_factors_table,
     compliance_settings_table]"
  by (simp add: created_tables_def upgrade_008_def)

lemma created_009:
  "created_tables upgrade_009 =
    [knowledge_vectors_table, knowledge_ingestion_jobs_table]"
  by (simp add: created_tables_def upgrade_009_def)

lemma created_010:
  "created_tables upgrade_010 =
    [integration_connections_table, integration_credentials_table, integration_field_mappings_table,
     integration_sync_jobs_table, integration_sync_cursors_table, integration_webhook_events_table,
     integration_webhook_dlq_table, integration_audit_logs_table]"
  by (simp add: created_tables_def upgrade_010_def)

lemmas created =
  created_001 created_002 created_003 created_004 created_005
  created_006 created_007 created_008 created_009 created_010

lemma widen_change_none: "added_columns u = [] \<Longrightarrow> widen (change_of u) = (\<lambda>t. t)"
  by (intro ext widen_no_columns) (simp add: columns_for_def change_of_def)

lemma new_tables_change: "new_tables (change_of u) = created_tables u"
  by (simp add: change_of_def)

lemma widen_change_009: "widen (change_of upgrade_009) = later"
  using widen_cong [of "change_of upgrade_009" "Change [] [(''knowledge_sources'', Column ''file_hash'' (SqlString (Some 64)) True None)] []"]
  by (simp add: fun_eq_iff later_def change_of_def added_columns_009)

lemma head_tables:
  "cat_tables head_catalogue =
    map later (created_tables upgrade_001 @ created_tables upgrade_002 @ created_tables upgrade_003 @
      created_tables upgrade_004 @ created_tables upgrade_005 @ created_tables upgrade_006 @
      created_tables upgrade_007 @ created_tables upgrade_008) @
    created_tables upgrade_009 @ created_tables upgrade_010"
  by (simp add: head_catalogue_def chain_result_def MIGRATIONS_upgrades widen_change_none added_columns_none
    widen_change_009 new_tables_change empty_catalogue_def)

lemma head_indexes:
  "cat_indexes head_catalogue =
    created_indexes upgrade_001 @ created_indexes upgrade_002 @ created_indexes upgrade_003 @
    created_indexes upgrade_004 @ created_indexes upgrade_005 @ created_indexes upgrade_006 @
    created_indexes upgrade_007 @ created_indexes upgrade_008 @ created_indexes upgrade_009 @
    created_indexes upgrade_010"
  by (simp add: head_catalogue_def chain_result_def MIGRATIONS_upgrades empty_catalogue_def change_of_def)

lemmas serves_all =
  serves_001 serves_002 serves_003 serves_004 serves_005
  serves_006 serves_007 serves_008 serves_009 serves_010

lemma all_served:
  assumes "list_all (\<lambda>(t, m). serves (f t) m) ps" "\<And>t. t \<in> set (map fst ps) \<Longrightarrow> f t \<in> ts"
  shows "\<forall>m\<in>set (map snd ps). \<exists>t\<in>ts. serves t m"
  using assms by (fastforce simp: list_all_iff)

lemma head_serves: "m \<in> set MODELS \<Longrightarrow> \<exists>t\<in>set (cat_tables head_catalogue). serves t m"
proof -
  have "\<forall>m\<in>set (map snd (served_001 @ served_002 @ served_003 @ served_004 @ served_005 @
      served_006 @ served_007 @ served_008)). \<exists>t\<in>set (cat_tables head_catalogue). serves t m"
    by (rule all_served [of later]) (simp add: serves_all, auto simp: head_tables created served_defs)
  moreover have "\<forall>m\<in>set (map snd (served_009 @ served_010)). \<exists>t\<in>set (cat_tables head_catalogue). serves t m"
    by (rule all_served [of "\<lambda>t. t"]) (simp add: serves_all, auto simp: head_tables created served_defs)
  ultimately show "m \<in> set MODELS \<Longrightarrow> \<exists>t\<in>set (cat_tables head_catalogue). serves t m"
    unfolding MODELS_served by auto
qed

section \<open>Indexes\<close>

definition indexed_by :: "catalogue \<Rightarrow> string \<Rightarrow> string \<Rightarrow> bool" where
  "indexed_by c n x =
    (list_ex (\<lambda>i. index_table i = n \<and> take 1 (index_columns i) = [x]) (cat_indexes c) \<or>
     list_ex (\<lambda>t. table_name t = n \<and> list_ex (\<lambda>k. take 1 k = [x]) (keys_of t)) (cat_tables c))"

definition no_index_on :: "string list \<Rightarrow> ddl list \<Rightarrow> bool" where
  "no_index_on ns u = list_all (\<lambda>i. index_table i \<notin> set ns) (created_indexes u)"

lemma no_credential_index:
  "no_index_on [''iam_sessions'', ''iam_api_keys''] upgrade_001"
  "no_index_on [''iam_sessions'', ''iam_api_keys''] upgrade_002"
  "no_index_on [''iam_sessions'', ''iam_api_keys''] upgrade_003"
  "no_index_on [''iam_sessions'', ''iam_api_keys''] upgrade_004"
  "no_index_on [''iam_sessions'', ''iam_api_keys''] upgrade_005"
  "no_index_on [''iam_sessions'', ''iam_api_keys''] upgrade_006"
  "no_index_on [''iam_sessions'', ''iam_api_keys''] upgrade_007"
  "no_index_on [''iam_sessions'', ''iam_api_keys''] upgrade_008"
  "no_index_on [''iam_sessions'', ''iam_api_keys''] upgrade_009"
  "no_index_on [''iam_sessions'', ''iam_api_keys''] upgrade_010"
  by code_simp+

lemma head_table_unique:
  assumes "t \<in> set (cat_tables head_catalogue)" "r \<in> set (cat_tables head_catalogue)" "table_name t = table_name r"
  shows "t = r"
  by (rule table_column_unique [OF head_catalogue_ok assms])

lemma later_simps [simp]: "table_name (later t) = table_name t" "keys_of (later t) = keys_of t"
  by (simp_all add: later_def)

lemma not_indexed:
  assumes r: "later r \<in> set (cat_tables head_catalogue)" and n: "table_name r = n"
    and k: "\<not> list_ex (\<lambda>k. take 1 k = [x]) (keys_of r)"
    and i: "\<forall>i\<in>set (cat_indexes head_catalogue). index_table i \<noteq> n"
  shows "\<not> indexed_by head_catalogue n x"
proof
  assume "indexed_by head_catalogue n x"
  with i obtain t where t: "t \<in> set (cat_tables head_catalogue)" "table_name t = n"
    "list_ex (\<lambda>k. take 1 k = [x]) (keys_of t)"
    by (auto simp: indexed_by_def list_ex_iff)
  with head_table_unique [OF t(1) r] n have "t = later r" by simp
  with t(3) k show False by simp
qed

text \<open>
  Every authenticated request looks a session up by \<^verbatim>\<open>token_hash\<close> or a key by \<^verbatim>\<open>key_prefix\<close>. The classes declare an
  index for both; no migration makes one.
\<close>

theorem credential_lookups_unindexed:
  "''token_hash'' \<in> set (flagged Indexed IamSessionModel) \<and>
   ''key_prefix'' \<in> set (flagged Indexed IamApiKeyModel) \<and>
   \<not> indexed_by head_catalogue ''iam_sessions'' ''token_hash'' \<and>
   \<not> indexed_by head_catalogue ''iam_api_keys'' ''key_prefix''"
proof -
  have none: "\<forall>i\<in>set (cat_indexes head_catalogue). index_table i \<noteq> n" if "n \<in> set [''iam_sessions'', ''iam_api_keys'']" for n
    using that no_credential_index unfolding no_index_on_def head_indexes list_all_iff by fastforce
  have "\<not> indexed_by head_catalogue ''iam_sessions'' ''token_hash''"
    by (rule not_indexed [of iam_sessions_table]) (simp_all add: head_tables created none, simp_all add: iam_sessions_table_def keys_of_def)
  moreover have "\<not> indexed_by head_catalogue ''iam_api_keys'' ''key_prefix''"
    by (rule not_indexed [of iam_api_keys_table]) (simp_all add: head_tables created none, simp_all add: iam_api_keys_table_def keys_of_def)
  moreover have "''token_hash'' \<in> set (flagged Indexed IamSessionModel)" "''key_prefix'' \<in> set (flagged Indexed IamApiKeyModel)"
    by code_simp+
  ultimately show ?thesis by blast
qed

end
