(* ===== verification/DeployScripts.thy ===== *)
theory DeployScripts
  imports VoiceFactory OpsEndpoints
begin

text \<open>
  \<^verbatim>\<open>scripts/validate-env.py\<close> and \<^verbatim>\<open>scripts/healthcheck.py\<close>: the check of the configuration before a container starts, and
  its probe afterwards. Importing the settings loads them (\<open>load_settings\<close>), which can raise; both scripts turn
  every exception into an exit code. What is printed is the report's text. A probe ends with a response,
  with \<^verbatim>\<open>HTTPError\<close>, which \<^verbatim>\<open>urlopen\<close> raises for the codes outside 200..299 that it does not follow, or with
  another exception.
\<close>

section \<open>The environment\<close>

datatype env_report = EnvValid | EnvMissing "string list" | EnvRefused exn

definition missing_providers :: "app_settings \<Rightarrow> string list" where
  "missing_providers s =
    map fst (filter (\<lambda>p. \<not> given (snd p))
      [(''STT_PROVIDER'', STT_PROVIDER s), (''LLM_PROVIDER'', LLM_PROVIDER s), (''TTS_PROVIDER'', TTS_PROVIDER s)])"

definition missing_settings :: "app_settings \<Rightarrow> string list" where
  "missing_settings s =
    (if database_enabled s \<and> \<not> given (DATABASE_URL s) then [''DATABASE_URL''] else []) @
    (if VOICE_REQUIRE_PROVIDERS s then missing_providers s else [])"

definition validate_env :: "exn + app_settings \<Rightarrow> env_report" where
  "validate_env loaded =
    (case bind_sum loaded (\<lambda>s. bind_sum (validate_security_settings s) (\<lambda>_. Inr s)) of
       Inl e \<Rightarrow> EnvRefused e
     | Inr s \<Rightarrow>
         if (is_production s \<or> is_staging s) \<and> missing_settings s \<noteq> [] then EnvMissing (missing_settings s)
         else EnvValid)"

definition env_exit :: "env_report \<Rightarrow> int" where
  "env_exit r = (if r = EnvValid then 0 else 1)"

section \<open>The probe\<close>

datatype probe_outcome = Responded nat | HttpError nat | ProbeFailed

definition urlopen_outcome :: "nat \<Rightarrow> probe_outcome" where
  "urlopen_outcome status = (if 200 \<le> status \<and> status < 300 then Responded status else HttpError status)"

definition healthcheck :: "probe_outcome \<Rightarrow> int" where
  "healthcheck r =
    (case r of
       Responded status \<Rightarrow> if status \<ge> 500 then 1 else 0
     | HttpError code \<Rightarrow> if code < 500 then 0 else 1
     | ProbeFailed \<Rightarrow> 1)"

section \<open>Lemmas\<close>

text \<open>The test for a missing \<^verbatim>\<open>DATABASE_URL\<close> asks for one only when there is one.\<close>

lemma database_url_never_missing: "''DATABASE_URL'' \<notin> set (missing_settings s)"
  by (auto simp: missing_settings_def missing_providers_def database_enabled_def given_def split: option.splits)

lemma missing_iff: "missing_settings s = [] \<longleftrightarrow> (VOICE_REQUIRE_PROVIDERS s \<longrightarrow> missing_providers s = [])"
  using database_url_never_missing [of s] by (auto simp: missing_settings_def split: if_splits)

lemma missing_providers_iff:
  "missing_providers s = [] \<longleftrightarrow> given (STT_PROVIDER s) \<and> given (LLM_PROVIDER s) \<and> given (TTS_PROVIDER s)"
  by (auto simp: missing_providers_def)

lemma env_valid_iff:
  "validate_env loaded = EnvValid \<longleftrightarrow>
   (\<exists>s. loaded = Inr s \<and> validate_security_settings s = Inr () \<and>
     (is_production s \<or> is_staging s \<longrightarrow> VOICE_REQUIRE_PROVIDERS s \<longrightarrow>
        given (STT_PROVIDER s) \<and> given (LLM_PROVIDER s) \<and> given (TTS_PROVIDER s)))"
  by (cases loaded)
    (auto simp: validate_env_def bind_sum_def missing_iff missing_providers_iff split: sum.splits)

text \<open>The start of the application passes the tests that the script made before it.\<close>

lemma start_up_implies_env:
  assumes "start_up db pb s = Inr ()"
  shows "validate_env (Inr s) = EnvValid"
proof -
  from assms have "validate_security_settings s = Inr ()" "validate_voice_platform pb s = Inr ()"
    by (auto simp: start_up_def bind_sum_def split: sum.splits)
  then show ?thesis
    by (auto simp: env_valid_iff validate_voice_platform_def must_be_set_def bind_sum_def split: if_splits sum.splits)
qed

text \<open>
  Not the other way round: in production with a speech recogniser but no language model the script is content, and
  the application does not start.
\<close>

lemma env_accepts_unstartable:
  assumes "is_production s" "\<not> VOICE_REQUIRE_PROVIDERS s" "given (STT_PROVIDER s)" "\<not> given (LLM_PROVIDER s)"
    and "validate_security_settings s = Inr ()"
  shows "validate_env (Inr s) = EnvValid \<and>
    validate_voice_platform pb s = Inl (runtime_error (u ''LLM_PROVIDER'' @ u '' must be set in production''))"
  using assms by (simp add: env_valid_iff validate_voice_platform_def none_chosen_def must_be_set_def)

lemma healthcheck_passes: "healthcheck (urlopen_outcome status) = 0 \<longleftrightarrow> status < 500"
  by (simp add: healthcheck_def urlopen_outcome_def)

text \<open>The probe asks the readiness endpoint: the container is healthy exactly when the endpoint answers 200.\<close>

lemma probe_readiness:
  "healthcheck (urlopen_outcome (fst (fst (health_ready enabled engine probe pm)))) = 0 \<longleftrightarrow>
   (enabled \<longrightarrow> engine \<and> probe = DbAnswers)"
proof -
  have "fst (fst (health_ready enabled engine probe pm)) \<in> {200, 503}"
    by (auto simp: health_ready_def health_http_status_def split: prod.split)
  then show ?thesis
    unfolding healthcheck_passes ready_iff [symmetric, of enabled engine probe pm] by auto
qed

end
