(* ===== verification/Spec2Isabelle.thy ===== *)
theory Spec2Isabelle
  imports Guarantees OrmModels DeployScripts
begin

text \<open>
  A verification development for the Voxera voice platform (\<^verbatim>\<open>src/app\<close>, Python 3.11).

  \<^bold>\<open>The program.\<close> Voxera answers spoken conversations. Audio comes from a browser socket or from a
  Twilio media stream; it is queued, dispatched to a speech recogniser, and the recogniser's
  transcripts drive a turn manager. At the end of a user turn the session asks a language model for a
  reply, cuts the token stream into sentences and has them spoken, paced, by a speech engine. A caller
  who speaks over the reply interrupts it. Around this core stand the registry of active calls, the
  admission of streams and webhooks, the identity service with its tables, the middleware stack that every
  request passes, and the settings that decide which providers are built.

  \<^bold>\<open>Theories and sources\<close> (paths under \<^verbatim>\<open>src/app\<close> unless they start elsewhere).
  \<^item> \<open>Prelude\<close>: bounded deques, exceptions, awaits; \<open>PyText\<close>: Python's text methods; \<open>Base64\<close>: the
    \<^verbatim>\<open>base64\<close> module as the code uses it.
  \<^item> \<open>Conversation\<close>: \<^verbatim>\<open>conversation/state.py\<close>, \<^verbatim>\<open>events.py\<close>, \<^verbatim>\<open>turn_manager.py\<close>, \<^verbatim>\<open>stt/models.py\<close>. The
    locale \<open>turn_host\<close> is what a session owes the turn manager.
  \<^item> \<open>VoiceSession\<close>: \<^verbatim>\<open>voice/session.py\<close>; \<open>Vad\<close>, \<open>EndOfTurn\<close>, \<open>TurnMetrics\<close>: \<^verbatim>\<open>voice/vad.py\<close>,
    \<^verbatim>\<open>end_of_turn.py\<close>, \<^verbatim>\<open>turn_metrics.py\<close>; \<open>VoiceSocket\<close>: \<^verbatim>\<open>api/v1/endpoints/websocket.py\<close>.
  \<^item> \<open>CallSession\<close>: \<^verbatim>\<open>telephony/call_session.py\<close>, \<^verbatim>\<open>call_metrics.py\<close>. The locale \<open>call_invariant\<close> reduces an
    invariant of a call to its elementary updates; it is interpreted for the allowed paths, the history
    bound, the \<open>STREAMING\<close> trap and the silence after the end.
  \<^item> \<open>LlmConsumer\<close>, \<open>Chunker\<close>: \<^verbatim>\<open>llm/llm_consumer.py\<close>, \<^verbatim>\<open>sentence_chunker.py\<close>, \<^verbatim>\<open>providers/failover_engine.py\<close>;
    \<open>LlmEngines\<close>, \<open>ThreadStream\<close>: the other engines of \<^verbatim>\<open>llm\<close> and Bedrock's worker thread, \<^verbatim>\<open>voice/http.py\<close>.
  \<^item> \<open>TtsConsumer\<close>: \<^verbatim>\<open>tts/tts_consumer.py\<close>; \<open>TtsEngines\<close>: the engines of \<^verbatim>\<open>tts\<close>.
  \<^item> \<open>SttEngine\<close>, \<open>DeepgramSocket\<close>, \<open>TranscribeEngine\<close>: \<^verbatim>\<open>stt/consumer.py\<close>, \<^verbatim>\<open>engine.py\<close>,
    \<^verbatim>\<open>providers/deepgram_engine.py\<close>, \<^verbatim>\<open>providers/aws_transcribe_engine.py\<close>.
  \<^item> \<open>AudioQueue\<close>, \<open>Dispatcher\<close>, \<open>StreamMetrics\<close>: \<^verbatim>\<open>streaming/\<close>. The locale \<open>drop_oldest_queue\<close> is the
    contract of the queue that the dispatcher's proofs use.
  \<^item> \<open>Pcm\<close>, \<open>Resampler\<close>, \<open>Mulaw\<close>: \<^verbatim>\<open>voice/audio.py\<close>, \<^verbatim>\<open>telephony/audio_convert.py\<close>.
  \<^item> \<open>TwilioStream\<close>, \<open>CallRegistry\<close>, \<open>TwilioHandler\<close>, \<open>TwilioInbound\<close>, \<open>StreamAuth\<close>: \<^verbatim>\<open>telephony/twilio_stream.py\<close>,
    \<^verbatim>\<open>session_registry.py\<close>, \<^verbatim>\<open>twilio_handler.py\<close>, \<^verbatim>\<open>stream_auth.py\<close>, \<^verbatim>\<open>twilio_validation.py\<close>. The locale
    \<open>call_directory\<close> is what the handler needs of the registry.
  \<^item> \<open>Errors\<close>: \<^verbatim>\<open>core/exceptions.py\<close>, \<^verbatim>\<open>errors.py\<close>, \<^verbatim>\<open>exception_handlers.py\<close>; \<open>RateLimit\<close>, \<open>Reliability\<close>,
    \<open>Observability\<close>: the limits, timeouts, shutdown, socket registry and counters of \<^verbatim>\<open>core\<close>; \<open>Logging\<close>:
    \<^verbatim>\<open>core/logger.py\<close>, \<^verbatim>\<open>telephony/telephony_log.py\<close>; \<open>OpsEndpoints\<close>: the metrics and health endpoints;
    \<open>AppStack\<close>: \<^verbatim>\<open>main.py\<close>, the layers in their order.
  \<^item> \<open>Settings\<close>: \<^verbatim>\<open>core/config.py\<close>, \<^verbatim>\<open>environment.py\<close>; \<open>VoiceFactory\<close>: \<^verbatim>\<open>voice/factory.py\<close>, \<^verbatim>\<open>registry.py\<close>;
    \<open>DeployScripts\<close>: \<^verbatim>\<open>src/scripts/validate-env.py\<close>, \<^verbatim>\<open>healthcheck.py\<close>.
  \<^item> \<open>Rbac\<close>, \<open>IamStore\<close>, \<open>IamRepos\<close>, \<open>IamAuth\<close>, \<open>IamService\<close>, \<open>IamGuarantees\<close>, \<open>AuthMiddleware\<close>, \<open>IamRoutes\<close>, \<open>Secrets\<close>,
    \<open>DatabaseSession\<close>: \<^verbatim>\<open>iam/\<close>, \<^verbatim>\<open>infrastructure/\<close>, \<^verbatim>\<open>database/session.py\<close>. The locale \<open>store_relation\<close> reduces a relation
    between the database before and after a request to the repository operations; it is interpreted for
    well-formedness, for the audit log that only grows and for keys that stay dead.
  \<^item> \<open>Schema\<close>, \<open>SchemaScripts\<close>, \<open>Migrations\<close>, \<open>Enumerations\<close>, \<open>OrmModels\<close>: \<^verbatim>\<open>src/alembic\<close>, \<^verbatim>\<open>database/base.py\<close>,
    \<^verbatim>\<open>database/models/\<close>, \<^verbatim>\<open>core/enums.py\<close>: the statements of the migrations, their effect on the catalogue of the
    database, and the classes of the object mapper. A \<open>contract\<close> says what a migration requires of the
    catalogue and offers to the later ones.
  \<^item> \<open>Scenarios\<close>: concrete inputs for witnesses; \<open>Guarantees\<close>: further theorems about single components.

  \<^bold>\<open>State and operations.\<close> An object is a record, its methods are functions that return the updated
  record; the two kinds of session extend the record of the conversation. Clock readings, fresh
  identifiers and random draws are arguments. A coroutine that runs to its end without another task
  deciding anything is one step; where a task can be cancelled or a send can raise, the outcome of each
  await is an element of an environment list, and the theorems quantify over the list. An exception
  is a value (\<open>py_exn + 'a\<close>, \<open>exn + 'a\<close> with its class, or the state left behind with the exception). A wait for a
  lock or a queue that nobody will release is a value too (\<open>cs_deadlock\<close>, \<open>StopWaits\<close>, \<open>Stuck\<close>). Step relations
  (\<open>session_step\<close>, \<open>call_step\<close>, \<open>tw_step\<close>, \<open>thread_step\<close>, \<open>dg_step\<close>) and the runs of the browser socket allow every
  handler in every order. The identity service works on a record of tables inside transactions that roll back.

  \<^bold>\<open>What the theorems show.\<close> The properties below follow the data: the session and its turns, generation
  and speech, inbound audio, the phone call, the telephone stream, admission, the identity service, limits and
  settings, recognition, the database schema and the codecs. Some are refinements of a sequential
  reading (Bedrock's threads) or equivalences with a reference (chunker, resampler, permission closure, schema and
  classes); those marked as flaws prove a defect of the code on the model.

  \<^bold>\<open>Bounds.\<close> No fuel is used but in the order of the revisions, where one step for each revision is
  enough: every loop is structural or has a termination proof. Waits that
  may never end are values as said above. Theorems about returning say so (\<open>generation_completes_once\<close>,
  \<open>chunker_keeps_text\<close>, \<open>pipe_drains\<close>, \<open>bedrock_reply_ends\<close>).

  \<^bold>\<open>Not modelled.\<close> The handlers and output of the logging library; the rounding of floating point (numbers are
  rationals; the root mean square is a real); JSON and XML parsing (messages are JSON values); the network
  clients of the speech and language providers (what they receive is an argument); JWT, bcrypt, SHA-1, SHA-256 and
  HMAC (function arguments); the optional \<^verbatim>\<open>audioop\<close> module (a parameter); the web framework's router and its CORS
  layer (parameters); reading environment variables (a library; the fields that modelled code reads are in
  \<open>Settings\<close>); the rows of tables that no operation uses (their definitions are in \<open>Migrations\<close> and
  \<open>OrmModels\<close>); the abstract OAuth, SSO and MFA providers, which have no implementation; the latency benchmark
  under \<^verbatim>\<open>src/scripts\<close>, a client of the service.
\<close>

section \<open>The voice session\<close>



text \<open>
  C2. Barge-in. In a well-formed session in which the system speaks, a partial transcript leaves no active
  speech and no live generation; the system turn is over and the user turn is open.
\<close>

theorem barge_in_silences:
  assumes "session_wf s" "is_system_speaking s" "te_type ev = PARTIAL"
    and "session_transcript env uw ev s = (s', None)"
  shows "\<not> is_active (vs_tts s') \<and> \<not> is_system_speaking s' \<and> is_user_speaking s'
    \<and> (\<forall>i<length (lc_tasks (vs_llm s')). lc_tasks (vs_llm s') ! i \<noteq> LlmRunning False)"
  using assms by (rule barge_in)

theorem barge_in_silences_witness:
  "is_system_speaking demo_speaking
   \<and> \<not> is_active (vs_tts (fst (session_transcript demo_env (\<lambda>c. False) (demo_event PARTIAL) demo_speaking)))"
proof -
  let ?r = "session_transcript demo_env (\<lambda>c. False) (demo_event PARTIAL) demo_speaking"
  have sp: "is_system_speaking demo_speaking"
    by (simp add: demo_speaking_def speak_text_def Let_def start_system_turn_def)
  have "?r = (fst ?r, None)" by (metis demo_no_error prod.collapse)
  from barge_in_silences [OF demo_speaking_wf sp _ this] sp show ?thesis
    by (simp add: demo_event_def)
qed

text \<open>
  C3. No word is lost at the end of a turn: what was held and what was said now, without
  the blanks, is either nothing, or held together with a timer, or sent as one request.
\<close>

theorem turn_end_keeps_words:
  "let s' = turn_completed env uw uid tr s;
       said = (case vs_held s of Some h \<Rightarrow> inked (snd h) | None \<Rightarrow> []) @ inked tr
   in (said = [] \<and> vs_requests s' = vs_requests s \<and> vs_held s' = None)
    \<or> (\<exists>w t. said \<noteq> [] \<and> vs_held s' = Some (w, t) \<and> inked t = said \<and> vs_hold_task s' \<noteq> None
         \<and> vs_requests s' = vs_requests s)
    \<or> (\<exists>w t. said \<noteq> [] \<and> vs_held s' = None \<and> inked t = said
         \<and> vs_requests s' = vs_requests s @ [(t, w, vs_history s)])"
proof (cases rule: turn_completed_cases [of tr s env uw uid])
  case blank
  then show ?thesis using inked_turn_text [of tr s] by (simp add: unheld_def Let_def)
next
  case (held tr')
  then have "inked tr' = inked (turn_text tr s)" by (metis inked_strip)
  moreover have "inked (turn_text tr s) \<noteq> []"
    using held(1) turn_text_strip [of tr s] by (simp add: inked_Nil_iff)
  ultimately show ?thesis
    using held(3) inked_turn_text [of tr s] by (auto simp: unheld_def vs_send_def start_hold_timer_def cancel_hold_timer_def Let_def)
next
  case (answered tr')
  then have "inked (strip tr') = inked (turn_text tr s)" by simp
  moreover have "inked (turn_text tr s) \<noteq> []"
    using answered(1) turn_text_strip [of tr s] by (simp add: inked_Nil_iff)
  ultimately show ?thesis
    using answered(3) inked_turn_text [of tr s] by (auto simp: unheld_def Let_def)
qed

text \<open>
  C4. A held turn is answered: when the hold timer fires, the request is sent with the held text, its
  identifier and the history so far, the system holds the turn and the speech of the reply is active.
\<close>

theorem held_turn_answered:
  assumes "session_wf s" "vs_hold_task s = Some k"
  shows "\<exists>v tr. vs_held s = Some (v, tr)
    \<and> vs_requests (release_held_turn env k s) = vs_requests s @ [(strip tr, v, vs_history s)]
    \<and> is_system_speaking (release_held_turn env k s) \<and> is_active (vs_tts (release_held_turn env k s))
    \<and> vs_held (release_held_turn env k s) = None"
  using assms by (rule release_answers)

theorem held_turn_answered_witness:
  "vs_requests (release_held_turn demo_env 0 demo_held) = [(u ''so'', ''a'', [])]"
proof -
  have "session_wf demo_session" unfolding demo_session_def by (rule session_wf_new)
  then have "session_wf demo_held"
    by (simp add: demo_held_def session_wf_def conv_wf_def held_ok_def history_ok_def demo_fields)
  moreover have "vs_hold_task demo_held = Some 0" by (simp add: demo_held_def)
  ultimately show ?thesis
    using held_turn_answered [of demo_held 0 demo_env]
    by (simp add: demo_held_def demo_fields strip_def lstrip_def rstrip_def u_def py_space_def)
qed

text \<open>
  C5. A flaw of the hold timer. While the caller already speaks again after a held half sentence, a frame
  in which speech begins starts the hold timer once more; when it fires, the half sentence is sent
  to the model, and caller and system hold the turn together.
\<close>

theorem late_speech_answers_mid_turn:
  assumes "vs_vad s = Some v" "vad_update fr v = (True, v')" "vs_held s = Some (uid, tr)"
    and "is_user_speaking s" "\<not> is_system_speaking s"
  shows "let s1 = process_audio_frame env uw fr s; s2 = release_held_turn env' (vs_hold_count s) s1
    in vs_hold_task s1 = Some (vs_hold_count s)
      \<and> vs_requests s2 = vs_requests s @ [(strip tr, uid, vs_history s)]
      \<and> is_user_speaking s2 \<and> is_system_speaking s2"
  using late_hold [OF assms refl] by (simp add: Let_def)

theorem late_speech_answers_mid_turn_witness:
  "let s1 = process_audio_frame demo_env (\<lambda>c. False) [0, 64] (demo_held\<lparr>is_user_speaking := True, vs_hold_task := None\<rparr>)
   in is_user_speaking (release_held_turn demo_env 1 s1) \<and> is_system_speaking (release_held_turn demo_env 1 s1)"
proof -
  let ?s = "demo_held\<lparr>is_user_speaking := True, vs_hold_task := None\<rparr>"
  let ?v = "new_vad 100 3 1 (5 / 100) 100"
  have v: "vs_vad ?s = Some ?v"
    by (simp add: demo_held_def demo_session_def new_voice_session_def demo_cfg_def)
  have "pcm_frame_energy [0, 64] = 16384"
    by (simp add: pcm_frame_energy_def le16_def Let_def)
  then obtain v' where "vad_update [0, 64] ?v = (True, v')"
    by (simp add: vad_update_def new_vad_def vad_threshold_def Let_def)
  from late_speech_answers_mid_turn [OF v this, of "''a''" "u ''so''" demo_env "\<lambda>c. False" demo_env]
  show ?thesis by (simp add: demo_held_def demo_fields Let_def)
qed

section \<open>Generation and speech\<close>



text \<open>
  C7. The sentence chunker. However the reply is split into tokens, cutting it into segments
  terminates; the segments together are the reply up to blanks, and each one is non-empty and trimmed.
\<close>

theorem chunker_keeps_text:
  assumes "0 \<le> mc"
  shows "\<exists>segs. chunk_reply ts (new_chunker mc sl) = Some segs \<and> inked (concat segs) = inked (concat ts)
    \<and> [] \<notin> set segs \<and> (\<forall>s\<in>set segs. strip s = s)"
  using chunk_reply_result [of "new_chunker mc sl" ts] assms by (simp add: new_chunker_def)

theorem chunker_keeps_text_witness:
  "\<exists>segs. chunk_reply [u ''Hi. '', u ''All right''] (new_chunker 12 80) = Some segs
    \<and> inked (concat segs) = u ''Hi.Allright'' \<and> [] \<notin> set segs"
  using chunker_keeps_text [of 12 "[u ''Hi. '', u ''All right'']" 80]
  by (auto simp: inked_def u_def py_space_def)





text \<open>
  C10. Refinement of the two threads of a Bedrock reply. The worker hands tokens over a queue and looks at a stop flag; the
  generator reads the queue. Whatever the interleaving, a reply that nobody cancels is the sequential reading of the
  events, with its end: all tokens in order, then the error if the source raised.
\<close>

theorem bedrock_reply_refines:
  assumes "bedrock_run events src st" "snd st \<noteq> StreamCancelled"
  shows "st = bedrock_stream events src"
  using assms by (rule bedrock_refines)

theorem bedrock_reply_refines_witness:
  "bedrock_stream [demo_event_json] SourceDone = ([StreamToken (u ''hi'') 0], StreamDone)"
  using bedrock_reply_refines [OF demo_bedrock_run] by simp

text \<open>
  C11. Every run of the two threads is finite, and from every state in which the generator still reads the run goes on to the
  end of the stream without a cancellation, with all that the sequential reading yields.
\<close>

theorem bedrock_reply_ends:
  assumes "thread_run bedrock_work bedrock_finish (new_thread () events src) r" "th_reader r = None"
  shows "wf {(r', r). thread_step bedrock_work bedrock_finish r r'}
    \<and> (\<exists>r' fin. thread_run bedrock_work bedrock_finish r r' \<and> th_reader r' = Some fin \<and> fin \<noteq> StreamCancelled
         \<and> bedrock_stream events src = (number_tokens 0 (th_out r'), fin))"
proof -
  obtain r' fin where r': "thread_run bedrock_work bedrock_finish r r'" "th_reader r' = Some fin" "fin \<noteq> StreamCancelled"
    using thread_completes [OF assms] by blast
  have "thread_run bedrock_work bedrock_finish (new_thread () events src) r'" using assms(1) r'(1) by simp
  from thread_refines [OF this r'(2,3)] have "bedrock_stream events src = (number_tokens 0 (th_out r'), fin)"
    by (simp add: bedrock_stream_def)
  with r' thread_terminates show ?thesis by blast
qed

theorem bedrock_reply_ends_witness:
  "\<exists>r' fin. thread_run bedrock_work bedrock_finish (new_thread () [demo_event_json] SourceRaises) r'
     \<and> th_reader r' = Some fin \<and> fin \<noteq> StreamCancelled"
  using bedrock_reply_ends [of "[demo_event_json]" SourceRaises "new_thread () [demo_event_json] SourceRaises"]
  by (auto simp: new_thread_def)



section \<open>The inbound audio pipeline\<close>







section \<open>The phone call\<close>



text \<open>
  C17. A flaw of the call's state machine. The first audio moves a listening call to \<open>STREAMING\<close>,
  nothing ever moves it back to \<open>LISTENING\<close>, and a finished turn is answered only in \<open>LISTENING\<close>: after
  the first audio no run of the call sends another request to the model.
\<close>

theorem audio_traps_call:
  assumes "cs_state s = LISTENING" "\<not> cs_locked s" "\<not> cs_deadlock s" "mulaw \<noteq> []"
    and "normalize_pcm16 3000 (convert_twilio_audio ao mulaw) = Inr pcm"
    and "call_run (feed_mulaw ao now fresh mulaw s) s'"
  shows "(cs_state s' = STREAMING \<or> cs_state s' = ENDED) \<and> cs_requests s' = cs_requests s"
proof -
  have "trapped (cs_requests s) (feed_mulaw ao now fresh mulaw s)"
    using feed_enters_streaming [OF assms(1-5)] by (simp add: trapped_def)
  from trap.call_run_inv [OF assms(6) this] show ?thesis by (simp add: trapped_def)
qed

theorem audio_traps_call_witness:
  "cs_requests (transcript_callback 2 ''g'' (demo_event FINAL) (feed_mulaw (Some (\<lambda>b. [], \<lambda>b. [])) 1 ''f'' [255] demo_call)) = []"
proof -
  let ?ao = "Some (\<lambda>b :: bytes. [] :: bytes, \<lambda>b :: bytes. [] :: bytes)"
  have n: "normalize_pcm16 3000 (convert_twilio_audio ?ao [255]) = Inr []"
    by (simp add: convert_twilio_audio_def ulaw_to_pcm16_def normalize_pcm16_def Let_def)
  from audio_traps_call [OF demo_call_fields(1-3) _ n call_more [OF call_here call_transcript]]
  show ?thesis by (simp add: demo_call_fields)
qed



text \<open>
  C19. A flaw of the recovery. When the generation itself fails, the handler runs in the generation's
  task and cancels it: the handler ends at its next wait. The speech is stopped, but the call keeps its
  state, the system still holds the turn, and nothing is said.
\<close>

theorem llm_error_not_recovered:
  assumes "\<not> cs_locked s" "\<not> cs_deadlock s" "cs_state s \<noteq> ENDED" "tts_busy s"
  shows "cs_state (handle_pipeline_error InLlmTask fresh s) = cs_state s
    \<and> is_system_speaking (handle_pipeline_error InLlmTask fresh s) = is_system_speaking s
    \<and> \<not> tts_busy (handle_pipeline_error InLlmTask fresh s)"
  using error_in_llm_task [OF assms] by blast

theorem llm_error_not_recovered_witness:
  "cs_state (handle_pipeline_error InLlmTask ''f''
     (demo_call\<lparr>cs_state := PROCESSING, cs_tts := Some (tts_begin ''a'' [] new_tts_consumer)\<rparr>)) = PROCESSING"
  using llm_error_not_recovered [of "demo_call\<lparr>cs_state := PROCESSING, cs_tts := Some (tts_begin ''a'' [] new_tts_consumer)\<rparr>"]
  by (simp add: demo_call_fields tts_busy_def tts_begin_fields)

text \<open>
  C20. A flaw of stopping. \<^verbatim>\<open>stop\<close> holds the call's lock while the recogniser delivers the final
  transcript it still owes; the transcript's callback waits for that lock, so neither ever returns.
\<close>

theorem call_stop_deadlocks:
  assumes "\<not> cs_locked s" "\<not> cs_deadlock s" "cs_state s \<noteq> ENDED" "cs_stt s = Some c" "sc_running c"
    and "cs_turns_wired s" "is_user_speaking s" "te_type ev = FINAL"
  shows "cs_deadlock (call_stop now fresh (Some ev) s)"
  using assms by (rule stop_deadlocks)

theorem call_stop_deadlocks_witness:
  "cs_deadlock (call_stop 1 ''f'' (Some (demo_event FINAL)) (demo_call\<lparr>is_user_speaking := True\<rparr>))"
  using call_stop_deadlocks [of "demo_call\<lparr>is_user_speaking := True\<rparr>" "stt_start (new_stt_consumer 50)" "demo_event FINAL" 1 "''f''"]
  by (simp add: demo_call_fields demo_event_def stt_start_def new_stt_consumer_def)

section \<open>The telephone stream\<close>

text \<open>
  C21. The stream connection. Whatever messages arrive, in whatever order, whatever the call's own tasks
  do and however the socket ends: the registry never holds more calls than configured, holds each
  call once, and a call served by a connection with an expected call id has that id.
\<close>

theorem stream_invariant:
  assumes "tw_run env (new_conn, reg) (c, reg')" "registry_wf (te_max_calls env) reg"
  shows "registry_wf (te_max_calls env) reg'
    \<and> (\<forall>cid sid s. tc_call c = Some (cid, sid, s) \<longrightarrow> or_str (te_expected env) [] \<noteq> []
         \<longrightarrow> cid = JStr (or_str (te_expected env) []))"
proof -
  have "conn_ok env (new_conn, reg)" using assms(2) by (simp add: conn_ok_def new_conn_def)
  from tw_run_ok [OF assms(1) this] show ?thesis by (simp add: conn_ok_def)
qed

theorem stream_invariant_witness:
  "length (snd (on_message demo_tw demo_moment (Some demo_start) (new_conn, []))) \<le> 1"
proof -
  let ?r = "on_message demo_tw demo_moment (Some demo_start) (new_conn, [])"
  have run: "tw_run demo_tw (new_conn, []) (fst ?r, snd ?r)"
    using tw_run.more [OF tw_run.here tw_step.message, of demo_tw "(new_conn, [])" demo_moment "Some demo_start"] by simp
  have "registry_wf (te_max_calls demo_tw) []" by (simp add: registry_wf_def)
  from stream_invariant [OF run this] show ?thesis by (simp add: registry_wf_def demo_tw_def)
qed

text \<open>
  C22. A leak. The \<^verbatim>\<open>stop\<close> message of Twilio ends the call without removing it from the registry, and
  after it neither the connection nor the later disconnect has a call to remove: the entry stays.
\<close>

theorem stop_leaves_registry_entry:
  assumes "tc_status c = Open" "tc_call c = Some (cid, sid, s)"
    and "\<not> cs_deadlock (call_stop (mo_now mo) (mo_fresh mo) (mo_final mo) s)"
    and "json_get p ''event'' = Inr (JStr (u ''stop''))"
  shows "\<exists>c'. on_message env mo (Some p) (c, reg) = (c', reg) \<and> tc_call c' = None \<and> tc_status c' = Open
    \<and> on_disconnect mo' (c', reg) = (c'\<lparr>tc_status := Closed\<rparr>, reg)"
  using assms by (rule stop_keeps_entry)

theorem stop_leaves_registry_entry_witness:
  "\<exists>c'. on_message demo_tw demo_moment (Some (JObj [(u ''event'', JStr (u ''stop''))])) (demo_conn, [(JStr (u ''CA1''), demo_entry)])
      = (c', [(JStr (u ''CA1''), demo_entry)]) \<and> tc_call c' = None"
proof -
  let ?p = "JObj [(u ''event'', JStr (u ''stop''))]"
  have c: "tc_status demo_conn = Open" "tc_call demo_conn = Some (JStr (u ''CA1''), JStr (u ''MZ1''), demo_call)"
    by (simp_all add: demo_conn_def)
  have d: "\<not> cs_deadlock (call_stop (mo_now demo_moment) (mo_fresh demo_moment) (mo_final demo_moment) demo_call)"
    using demo_stops by (simp add: demo_moment_def)
  have "json_get ?p ''event'' = Inr (JStr (u ''stop''))" by simp
  from stop_leaves_registry_entry [OF c d this] show ?thesis by blast
qed

text \<open>
  C23. The limit on concurrent calls does not limit. A start message for the expected call opens a listening
  call in every case: when the registry is full, its refusal is only logged and the call goes on
  unregistered; otherwise the call is registered.
\<close>

theorem full_registry_admits:
  assumes "tc_status c = Open" "tc_call c = None" "mo_start mo = StartsFine"
    and "event_of p = Some (u ''start'')" "handle_twilio_event p (tc_session c) = Inr (Some t, None)"
    and "or_str (te_expected env) [] = [] \<or> ts_call_sid t = JStr (or_str (te_expected env) [])"
  shows "\<exists>cs reg'. on_message env mo (Some p) (c, reg)
      = (c\<lparr>tc_session := Some t, tc_call := Some (ts_call_sid t, ts_stream_sid t, cs)\<rparr>, reg')
    \<and> cs_state cs = LISTENING
    \<and> (int (length reg) \<ge> te_max_calls env \<longrightarrow> reg' = reg)
    \<and> (int (length reg) < te_max_calls env \<longrightarrow> hashable (ts_call_sid t) \<longrightarrow> registered reg' (ts_call_sid t))"
  using assms by (rule start_opens_call)

theorem full_registry_admits_witness:
  "\<exists>c cs. on_message demo_tw demo_moment (Some demo_start) (new_conn, [(JStr (u ''CA0''), demo_entry)])
      = (c, [(JStr (u ''CA0''), demo_entry)])
    \<and> tc_call c = Some (JStr (u ''CA1''), JStr (u ''MZ1''), cs) \<and> cs_state cs = LISTENING"
proof -
  have "or_str (te_expected demo_tw) [] = [] \<or> ts_call_sid demo_twilio = JStr (or_str (te_expected demo_tw) [])"
    by (simp add: demo_tw_def demo_twilio_def or_str_def)
  from full_registry_admits [OF _ _ _ demo_start_event this, of new_conn demo_moment "[(JStr (u ''CA0''), demo_entry)]"]
  show ?thesis by (auto simp: new_conn_def demo_moment_def demo_tw_def demo_twilio_def)
qed

section \<open>Admission\<close>

text \<open>
  C24. A token signed for a call is accepted for that call exactly as long as it is not older than the
  lifetime, whatever the keyed hash is, as long as its digests are ASCII text.
\<close>

theorem signed_token_accepted:
  assumes "sign_stream_token mac st t0 call_sid (Some ts) = Inr token"
    and "length (str_int ts) \<le> MAX_STR_DIGITS" "\<And>k d. ascii (mac k d)"
  shows "verify_stream_token mac st now call_sid token =
    (if of_int (TWILIO_STREAM_TOKEN_TTL_SECONDS st) < now - of_int ts then Some (HTTPException 403) else None)"
  using assms by (rule verify_signed)

theorem signed_token_accepted_witness:
  "verify_stream_token demo_mac demo_stream_settings 300 (u ''CA1'') (u ''7.kCA1:7'') = None
   \<and> verify_stream_token demo_mac demo_stream_settings 400 (u ''CA1'') (u ''7.kCA1:7'') = Some (HTTPException 403)"
proof -
  have "length (str_int 7) \<le> MAX_STR_DIGITS" by (simp add: demo_seven MAX_STR_DIGITS_def)
  note v = signed_token_accepted [OF demo_sign this demo_mac_ascii]
  show ?thesis using v [of 300] v [of 400] by (simp add: demo_stream_settings_def)
qed

text \<open>
  C25. From the webhook to the stream. When the webhook answers, the address in its TwiML names the call, and the stream socket,
  reading that address, admits the call as long as the token is not older than its lifetime. The keyed hash is arbitrary
  with ASCII digests; a clock of at most the digits that \<^verbatim>\<open>int\<close> reads, call ids of valid characters.
\<close>

theorem inbound_call_admitted:
  assumes "twilio_inbound mac sha1 st now rq = Inr xml"
    and "map_of (rev (ir_form rq)) (u ''CallSid'') = Some sid" "sid \<noteq> []" "\<forall>c\<in>set sid. c \<le> 1114111"
    and "63 \<notin> set (build_stream_url (ir_public_base rq) (ir_netloc rq) (ir_host rq))"
    and "0 \<le> now" "length (str_int \<lfloor>now\<rfloor>) \<le> MAX_STR_DIGITS"
    and "\<And>k d. ascii (mac k d)"
  shows "\<exists>url. xml = join [10] (twiml_lines url) \<and> query_param ''call_sid'' url = Some sid
    \<and> (\<forall>later. later - of_int \<lfloor>now\<rfloor> \<le> of_int (TWILIO_STREAM_TOKEN_TTL_SECONDS st)
        \<longrightarrow> stream_admits mac st later (query_param ''call_sid'' url) (query_param ''token'' url))"
  using assms by (rule inbound_admitted)

theorem inbound_call_admitted_witness:
  "\<exists>url. twilio_inbound demo_mac (\<lambda>k d. [0]) demo_stream_settings 7 demo_inbound = Inr (join [10] (twiml_lines url))
     \<and> stream_admits demo_mac demo_stream_settings 300 (query_param ''call_sid'' url) (query_param ''token'' url)"
proof -
  have h: "map_of (rev (ir_form demo_inbound)) (u ''CallSid'') = Some (u ''CA1'')" "u ''CA1'' \<noteq> []" "\<forall>c\<in>set (u ''CA1''). c \<le> 1114111"
      "63 \<notin> set (build_stream_url (ir_public_base demo_inbound) (ir_netloc demo_inbound) (ir_host demo_inbound))"
      "(0::pyfloat) \<le> 7" "length (str_int \<lfloor>7::pyfloat\<rfloor>) \<le> MAX_STR_DIGITS"
    by (simp_all add: demo_inbound_def demo_stream_base demo_seven MAX_STR_DIGITS_def) (simp_all add: u_def)
  from inbound_call_admitted [OF demo_inbound_answer h demo_mac_ascii] demo_inbound_answer
  show ?thesis by (fastforce simp: demo_stream_settings_def)
qed

section \<open>The identity service\<close>

text \<open>
  C26. Soundness of bearer tokens. A principal comes from a decodable access token, an active session with the hash of that very
  token which has neither expired nor been revoked, an existing user, and a membership of that user in the organization
  that the token names; the principal is of that user, organization and tenant.
\<close>

theorem bearer_credentials_checked:
  assumes "authenticate_bearer env token db = Inr p"
  shows "\<exists>c se us m org uid.
      decode_token env token = Inr c \<and> cl_type c = Some (u ''access'') \<and> claim_uuid (cl_sub c) = Inr uid
    \<and> claim_uuid (cl_org c) = Inr (pp_organization_id p)
    \<and> se \<in> set (db_sessions db) \<and> sr_token_hash se = ie_sha256 env token
    \<and> sr_status se = SessionActive \<and> sr_revoked_at se = None \<and> ie_now env < sr_expires_at se
    \<and> us \<in> set (db_users db) \<and> ur_id us = uid
    \<and> m \<in> set (db_memberships db) \<and> mb_organization_id m = pp_organization_id p \<and> mb_user_id m = uid
    \<and> org \<in> set (db_orgs db) \<and> or_id org = pp_organization_id p
    \<and> pp_user_id p = Some uid \<and> pp_tenant_id p = Some (or_tenant_id org)
    \<and> pp_auth_method p = JwtAuth \<and> pp_session_id p = Some (sr_id se)"
  using assms by (rule bearer_sound)

theorem bearer_credentials_checked_witness:
  "\<exists>p. authenticate_bearer demo_iam_env (u ''t'') demo_iam_db = Inr p
    \<and> (\<exists>m. m \<in> set (db_memberships demo_iam_db) \<and> mb_organization_id m = pp_organization_id p \<and> Some (mb_user_id m) = pp_user_id p)"
  using bearer_credentials_checked [OF demo_authenticates] demo_authenticates by auto



text \<open>
  C28. Authorization. A request whose operation asks for a permission that its actor does not hold as a member of the
  organization fails, is counted, and leaves every table as it was (the recorded event is rolled back with it).
\<close>

theorem denied_request_changes_nothing:
  assumes "guard_of r = Some (org, actor, p)" "\<not> member_allowed org actor p (iw_db w)"
  shows "\<exists>e w'. in_transaction (serve env r) w = (Inl e, w') \<and> iw_db w' = iw_db w
    \<and> im_policy_violations (iw_metrics w') = im_policy_violations (iw_metrics w) + 1"
  using assms by (rule denied_request)

theorem denied_request_changes_nothing_witness:
  "\<exists>e w'. in_transaction (serve demo_iam_env (ListUsers 2 (Some 8))) (demo_iam_world demo_iam_db) = (Inl e, w')
    \<and> iw_db w' = demo_iam_db \<and> im_policy_violations (iw_metrics w') = 1"
  using denied_request_changes_nothing [of "ListUsers 2 (Some 8)" 2 "Some 8" MANAGE_USERS "demo_iam_world demo_iam_db" demo_iam_env]
    demo_viewer_denied by (simp add: demo_iam_world_def new_iam_metrics_def)



text \<open>
  C30. A flaw of the service. No request hands out tokens: login builds its session record without a required field,
  registering ends in a login, and refreshing reads a field that the session schema does not have. Each of them fails on
  every input and is rolled back.
\<close>

theorem no_tokens_issued:
  "(\<exists>e1 w1. in_transaction (serve env (Login lr ip agent)) w = (Inl e1, w1) \<and> iw_db w1 = iw_db w)
   \<and> (\<exists>e1 w1. in_transaction (serve env (Register oc uc)) w = (Inl e1, w1) \<and> iw_db w1 = iw_db w)
   \<and> (\<exists>e1 w1. in_transaction (serve env (Refresh t)) w = (Inl e1, w1) \<and> iw_db w1 = iw_db w)"
  by (intro conjI; rule no_tokens; simp)

text \<open>
  C31. A flaw of the service. Creating an organization creates its security policy, whose row has null lists that the schema
  refuses; so on a database without accounts no sequence of requests creates one.
\<close>

theorem fresh_deployment_stays_empty:
  assumes "no_accounts (iw_db w)"
  shows "no_accounts (iw_db (serve_all rs w))"
  using assms by (rule no_accounts_forever)

theorem fresh_deployment_stays_empty_witness:
  "no_accounts (iw_db (serve_all [(demo_iam_env, Register \<lparr>oc_tenant_id = 9, oc_company_name = u ''x'', oc_slug = u ''x'',
     oc_plan = u ''free'', oc_region = None, oc_timezone = u ''UTC'', oc_language = u ''en'', oc_owner_user_id = None\<rparr>
     \<lparr>uc_email = u ''a@b'', uc_name = u ''a'', uc_password = u ''pw'', uc_role_slug = u ''owner'', uc_department = None,
      uc_title = None\<rparr>)] (demo_iam_world empty_iam_db)))"
  by (rule fresh_deployment_stays_empty) (simp add: no_accounts_def empty_iam_db_def)

text \<open>
  C32. The role engine looks only one level up the inheritance; with the catalog as it is, that yields exactly what inheritance
  through any number of levels would (the inductive relation \<open>role_grants\<close>).
\<close>

theorem permissions_are_closure:
  "role_grants slug p \<longleftrightarrow> p \<in> resolve_permissions slug None None"
  by (rule resolve_is_closure)

text \<open>
  C33. The whole stack of the application. When a protected request carries no credential of a principal that is allowed on
  its path, the route is not run: the identity service's tables and counters stay as they are, and the answer and the rest of
  the state are the same whatever the route is.
\<close>

theorem protected_route_guarded:
  assumes "protected_path (ar_api rq)" "\<And>p. \<not> admitted cfg rq p (iw_db (aw_iam w))"
  shows "aw_iam (snd (serve_http cfg mo rq ep w)) = aw_iam w \<and> serve_http cfg mo rq ep w = serve_http cfg mo rq ep' w"
  using unauthenticated_stopped [OF assms] by blast

theorem protected_route_guarded_witness:
  "serve_http demo_app_config demo_app_moment demo_app_request (\<lambda>p. ret 200) demo_app_world
     = serve_http demo_app_config demo_app_moment demo_app_request (\<lambda>p. raise (value_error [])) demo_app_world"
  using protected_route_guarded [OF demo_request_protected demo_request_refused] by blast

section \<open>Limits and settings\<close>

text \<open>
  C34. The sliding window. With a clock that does not go back, requests of any keys in any order: every window of the
  configured length contains at most \<open>limit\<close> granted requests of a key.
\<close>

theorem rate_limit_bound:
  assumes "1 \<le> limit" "1 \<le> window" "sorted (map fst rs)" "run_allow rs (new_window limit window) = (ls, w')"
  shows "int (in_window (of_int window) t (granted k ls)) \<le> limit"
  using assms by (rule limiter_bound)

theorem rate_limit_bound_witness:
  "\<exists>ls w'. run_allow [(0, u ''a''), (1, u ''a''), (2, u ''a''), (2, u ''b'')] (new_window 2 60) = (ls, w')
    \<and> int (in_window 60 2 (granted (u ''a'') ls)) \<le> 2"
proof -
  obtain ls w' where r: "run_allow [(0, u ''a''), (1, u ''a''), (2, u ''a''), (2, u ''b'')] (new_window 2 60) = (ls, w')"
    by (metis prod.exhaust)
  from rate_limit_bound [OF _ _ _ r, of 2 "u ''a''"] r show ?thesis by simp
qed

text \<open>
  C35. Keys outside development. When the start-up check passes with a database in staging or production, each of the three keys
  comes from its own setting, has at least 32 characters and is not the default that the repository publishes.
\<close>

theorem production_keys_dedicated:
  assumes "validate_security_settings s = Inr v" "database_enabled s" "is_production s \<or> is_staging s"
    and "(specific, resolved) \<in> {(JWT_SECRET_KEY s, jwt_secret_key s), (API_KEY_SECRET s, api_key_secret s),
           (ENCRYPTION_SECRET_KEY s, encryption_secret_key s)}"
  shows "\<exists>t. specific = Some t \<and> resolved = Inr (strip t) \<and> 32 \<le> length (strip t) \<and> strip t \<noteq> INSECURE_DEFAULT_SECRET"
  using assms by (rule validated_outside_development)

theorem production_keys_dedicated_witness:
  "jwt_secret_key demo_app_settings = Inr demo_secret \<and> 32 \<le> length demo_secret \<and> demo_secret \<noteq> INSECURE_DEFAULT_SECRET"
  using production_keys_dedicated [OF demo_settings_valid, of "JWT_SECRET_KEY demo_app_settings" "jwt_secret_key demo_app_settings"]
  by (auto simp: demo_settings_facts demo_secret_text)

section \<open>Recognition\<close>

text \<open>
  C36. The recogniser's socket. Any number of tasks connect and close, each wait is a step, connections fail and tasks are
  cancelled: the sockets that are open are exactly the one that the engine holds, if it holds one.
\<close>

theorem deepgram_one_socket:
  assumes "dg_run new_dg_socket k"
  shows "dk_open k = (case dk_ws k of None \<Rightarrow> {} | Some s \<Rightarrow> {s})"
  using assms by (rule dg_one_socket)

theorem deepgram_one_socket_witness:
  "dk_open (dg_connect_done 1 (dg_connect_locked 1 (dg_connect 1 new_dg_socket))) = {0}"
proof -
  let ?k1 = "dg_connect 1 new_dg_socket"
  let ?k2 = "dg_connect_locked 1 ?k1"
  have "dg_step new_dg_socket ?k1" by (rule dg_calls_connect) (simp add: new_dg_socket_def)
  moreover have "dg_step ?k1 ?k2" by (rule dg_gets_lock) (simp_all add: dg_defs new_dg_socket_def)
  moreover have "dg_step ?k2 (dg_connect_done 1 ?k2)" by (rule dg_connects) (simp add: dg_defs new_dg_socket_def)
  ultimately have "dg_run new_dg_socket (dg_connect_done 1 ?k2)" by (meson rtranclp.rtrancl_refl rtranclp.rtrancl_into_rtrancl)
  from deepgram_one_socket [OF this] show ?thesis by (simp add: dg_defs new_dg_socket_def)
qed

section \<open>The database schema\<close>

text \<open>
  C37. The downgrades take back the upgrades. Whatever revision a database stands at and whatever else
  its catalogue holds, as long as it is consistent: when the upgrade to the last revision succeeds, running
  the downgrades of the revisions it ran, newest first, also succeeds and gives back the same tables, columns, keys,
  indexes and revision.
\<close>

theorem migrations_undone:
  assumes "catalogue_ok (db_catalogue d)" "upgrade_head d = (None, e)"
  shows "run_downgrades (rev (pending d)) e = Inr d"
proof -
  from assms(2) have "run_revisions (pending d) d = Inr e"
    by (auto simp: upgrade_head_def do_run_migrations_def split: sum.splits)
  moreover have "set (pending d) \<subseteq> set MIGRATIONS" "linked (db_version d) (pending d)"
    by (simp_all add: pending_def successors_subset successors_linked)
  ultimately show ?thesis
    using assms(1) by (intro revisions_undone)
qed

theorem migrations_undone_witness:
  "run_downgrades (rev MIGRATIONS) (Database (Some ''010_integrations'') head_catalogue) = Inr empty_database"
  using migrations_undone [OF _ upgrade_head_empty] catalogue_ok_empty
  by (simp add: MIGRATIONS_order) (simp add: empty_database_def)



section \<open>Audio codecs\<close>




end
